(* ===== verification/Prelude.thy ===== *)
theory Prelude
  imports Main "HOL-Library.Word" "HOL-Library.AList"
begin

text \<open>
  Shared types, automation and generic lemmas of the development: the machine types of the
  C++ sources, the error values of the model, and the facts on lists, options and
  association lists that the component theories use.
\<close>

section \<open>Machine types\<close>

text \<open>
  \<open>uint64_t\<close> and \<open>size_t\<close> are 64-bit words with wrap-around and unsigned comparison.
  \<open>long\<close> and \<open>int64_t\<close> are the same words read as two's complement: their comparisons are
  written \<open><s\<close> and \<open>\<le>s\<close>. A C++ comparison of a \<open>long\<close> with a \<open>uint64_t\<close> converts the
  \<open>long\<close> to unsigned, so it is written with the unsigned order. \<open>int\<close> is HOL's \<open>int\<close>,
  with the 32-bit range as an explicit side condition.
\<close>

type_synonym u64 = "64 word"
type_synonym i64 = "64 word"

definition in_int32 :: "int \<Rightarrow> bool" where
  "in_int32 n \<longleftrightarrow> - (2 ^ 31) \<le> n \<and> n < 2 ^ 31"

text \<open>
  \<open>cpp_error\<close> lists the ways in which an execution leaves the defined behaviour of the
  sources: an out-of-bounds access of a shared-memory segment or array, a copy into a
  character array that is too small, an out-of-range floating-point to integer conversion,
  an exception, a call of \<open>exit\<close>.
\<close>

datatype cpp_error =
    OutOfBounds
  | BufferOverflow
  | BadConversion
  | Exception string
  | ProcessExit int

type_synonym 'a result = "cpp_error + 'a"

definition bind_result :: "'a result \<Rightarrow> ('a \<Rightarrow> 'b result) \<Rightarrow> 'b result" where
  "bind_result r f = (case r of Inl e \<Rightarrow> Inl e | Inr x \<Rightarrow> f x)"

named_theorems limiter_defs
named_theorems slot_defs
named_theorems composite_defs

lemma bind_result_simps [simp]:
  "bind_result (Inl e) f = Inl e"
  "bind_result (Inr x) f = f x"
  by (simp_all add: bind_result_def)

lemma bind_result_Inr_iff:
  "bind_result r f = Inr y \<longleftrightarrow> (\<exists>x. r = Inr x \<and> f x = Inr y)"
  by (cases r) auto

lemma in_int32_bounds [simp]:
  "in_int32 0" "in_int32 1"
  by (simp_all add: in_int32_def)

section \<open>Segments: lists with checked indices\<close>

text \<open>A shared-memory segment is an array of slots. An access outside the segment is an error.\<close>

definition seg_get :: "'a list \<Rightarrow> int \<Rightarrow> 'a result" where
  "seg_get seg i = (if 0 \<le> i \<and> i < int (length seg) then Inr (seg ! nat i) else Inl OutOfBounds)"

definition seg_set :: "'a list \<Rightarrow> int \<Rightarrow> 'a \<Rightarrow> 'a list result" where
  "seg_set seg i v =
     (if 0 \<le> i \<and> i < int (length seg) then Inr (seg[nat i := v]) else Inl OutOfBounds)"

lemma seg_get_Inr_iff:
  "seg_get seg i = Inr v \<longleftrightarrow> 0 \<le> i \<and> i < int (length seg) \<and> seg ! nat i = v"
  by (auto simp: seg_get_def)

lemma seg_set_Inr_iff:
  "seg_set seg i v = Inr seg' \<longleftrightarrow> 0 \<le> i \<and> i < int (length seg) \<and> seg' = seg[nat i := v]"
  by (auto simp: seg_set_def)

lemma seg_set_length: "seg_set seg i v = Inr seg' \<Longrightarrow> length seg' = length seg"
  by (auto simp: seg_set_Inr_iff)

lemma seg_get_set_same: "seg_set seg i v = Inr seg' \<Longrightarrow> seg_get seg' i = Inr v"
  by (auto simp: seg_set_Inr_iff seg_get_Inr_iff)

lemma seg_get_set_other:
  "seg_set seg i v = Inr seg' \<Longrightarrow> i \<noteq> j \<Longrightarrow> seg_get seg' j = seg_get seg j"
  by (auto simp: seg_set_Inr_iff seg_get_def nat_eq_iff)

section \<open>Lists\<close>

lemma dropWhile_eq_drop: "\<exists>n \<le> length xs. dropWhile P xs = drop n xs"
proof (induction xs)
  case (Cons x xs)
  then obtain n where "n \<le> length xs" "dropWhile P xs = drop n xs" by blast
  then show ?case by (cases "P x") (auto intro: exI [of _ "Suc n"] exI [of _ 0])
qed simp

lemma set_dropWhile_subset: "set (dropWhile P xs) \<subseteq> set xs"
  by (auto dest: set_dropWhileD)

lemma dropWhile_hd_not: "dropWhile P xs \<noteq> [] \<Longrightarrow> \<not> P (hd (dropWhile P xs))"
  by (rule hd_dropWhile)

lemma sorted_dropWhile:
  assumes "sorted_wrt R xs" and P: "\<And>x y. R x y \<Longrightarrow> P y \<Longrightarrow> P x"
  shows "\<forall>y \<in> set (dropWhile P xs). \<not> P y"
  using assms(1)
proof (induction xs)
  case (Cons x xs)
  have R: "\<forall>y \<in> set xs. R x y" and sx: "sorted_wrt R xs"
    using Cons.prems by simp_all
  note IH = Cons.IH[OF sx]
  show ?case
  proof (cases "P x")
    case True
    then show ?thesis using IH by (simp only: dropWhile.simps if_True)
  next
    case False
    then have "\<forall>y \<in> set (x # xs). \<not> P y" using R P by (metis set_ConsD)
    then show ?thesis using False by (simp only: dropWhile.simps if_False)
  qed
qed simp

lemma sorted_wrt_dropWhile: "sorted_wrt R xs \<Longrightarrow> sorted_wrt R (dropWhile P xs)"
  by (induction xs) auto

section \<open>Step relations with an invariant\<close>

text \<open>What a proof by rule induction over the reachable states needs, and what it gives.\<close>

locale invariant_system =
  fixes step :: "'s \<Rightarrow> 's \<Rightarrow> bool" and start :: "'s \<Rightarrow> bool" and inv :: "'s \<Rightarrow> bool"
  assumes inv_start: "start s \<Longrightarrow> inv s"
    and inv_step: "step s s' \<Longrightarrow> inv s \<Longrightarrow> inv s'"
begin

lemma inv_run: "step\<^sup>*\<^sup>* s s' \<Longrightarrow> inv s \<Longrightarrow> inv s'"
  by (induction rule: rtranclp_induct) (auto intro: inv_step)

lemma inv_reachable: "step\<^sup>*\<^sup>* s s' \<Longrightarrow> start s \<Longrightarrow> inv s'"
  by (auto intro: inv_run inv_start)

end

end
