(* ===== verification/Counter.thy ===== *)
theory Counter
  imports Prelude
begin

text \<open>
  \<open>src/src/common/auto_reset_counter.{h,cpp}\<close>: counting semaphores that a background thread refills
  once per cycle. Each method body runs under the object's lock and is one atomic step. The clock
  (\<open>binance::get_current_ms_epoch\<close>) and the identifiers (\<open>binance::generate_uuid\<close>) are arguments.
  A \<open>shared_ptr\<close> to a counter is held both by the boss that refills it and by the client that
  takes from it, so counters live in an explicit store and a pointer is an index into it.
\<close>

section \<open>The counter\<close>

record AutoResetCounter =
  ac_id :: string
  ac_reset_duration_millis :: u64
  ac_latest_reset_millis :: u64
  ac_semaphore_init_count :: int
  ac_semaphore_remain_count :: int

definition new_AutoResetCounter :: "string \<Rightarrow> u64 \<Rightarrow> int \<Rightarrow> u64 \<Rightarrow> AutoResetCounter" where
  "new_AutoResetCounter uuid now semaphore_count reset_duration_millis =
     \<lparr>ac_id = uuid, ac_reset_duration_millis = reset_duration_millis,
      ac_latest_reset_millis = now, ac_semaphore_init_count = semaphore_count,
      ac_semaphore_remain_count = semaphore_count\<rparr>"

definition ac_reset_if_cycle_end :: "u64 \<Rightarrow> AutoResetCounter \<Rightarrow> bool \<times> AutoResetCounter" where
  "ac_reset_if_cycle_end now c =
     (if ac_latest_reset_millis c + ac_reset_duration_millis c \<le> now
      then (True, c\<lparr>ac_semaphore_remain_count := ac_semaphore_init_count c,
                    ac_latest_reset_millis := now\<rparr>)
      else (False, c))"

definition ac_get_semaphore :: "int \<Rightarrow> AutoResetCounter \<Rightarrow> bool \<times> AutoResetCounter" where
  "ac_get_semaphore require_count c =
     (if ac_semaphore_remain_count c \<ge> require_count
      then (True, c\<lparr>ac_semaphore_remain_count := ac_semaphore_remain_count c - require_count\<rparr>)
      else (False, c))"

definition ac_peek_remain_semaphore_count :: "AutoResetCounter \<Rightarrow> int" where
  "ac_peek_remain_semaphore_count c = ac_semaphore_remain_count c"

section \<open>Budgets that refill once per cycle\<close>

text \<open>
  The contract that the counter and the two budgets of the order limiter share. A client sees two
  kinds of steps: an attempt to take \<open>k\<close> units, and the refresh thread's visit at a clock value.
  \<open>granted\<close> is the number of units handed out along a run.
\<close>

datatype budget_event = Take int | Visit u64

fun run_budget ::
  "(int \<Rightarrow> 's \<Rightarrow> bool \<times> 's) \<Rightarrow> (u64 \<Rightarrow> 's \<Rightarrow> 's) \<Rightarrow> budget_event list \<Rightarrow> 's \<Rightarrow> 's" where
  "run_budget take_n reset [] s = s"
| "run_budget take_n reset (Take k # es) s = run_budget take_n reset es (snd (take_n k s))"
| "run_budget take_n reset (Visit now # es) s = run_budget take_n reset es (reset now s)"

fun granted ::
  "(int \<Rightarrow> 's \<Rightarrow> bool \<times> 's) \<Rightarrow> (u64 \<Rightarrow> 's \<Rightarrow> 's) \<Rightarrow> budget_event list \<Rightarrow> 's \<Rightarrow> int" where
  "granted take_n reset [] s = 0"
| "granted take_n reset (Take k # es) s =
     (if fst (take_n k s) then k else 0) + granted take_n reset es (snd (take_n k s))"
| "granted take_n reset (Visit now # es) s = granted take_n reset es (reset now s)"

definition event_within :: "nat \<Rightarrow> nat \<Rightarrow> budget_event \<Rightarrow> bool" where
  "event_within a b e = (case e of Take k \<Rightarrow> 0 \<le> k | Visit now \<Rightarrow> a \<le> unat now \<and> unat now \<le> b)"

locale budget =
  fixes cap :: "'s \<Rightarrow> int"
    and remain :: "'s \<Rightarrow> int"
    and latest :: "'s \<Rightarrow> u64"
    and duration :: "'s \<Rightarrow> u64"
    and take_n :: "int \<Rightarrow> 's \<Rightarrow> bool \<times> 's"
    and reset :: "u64 \<Rightarrow> 's \<Rightarrow> 's"
  assumes take_granted: "fst (take_n k s) \<Longrightarrow> k \<le> remain s"
    and take_remain: "remain (snd (take_n k s)) = (if fst (take_n k s) then remain s - k else remain s)"
    and take_frame: "cap (snd (take_n k s)) = cap s" "latest (snd (take_n k s)) = latest s"
      "duration (snd (take_n k s)) = duration s"
    and reset_frame: "cap (reset now s) = cap s" "duration (reset now s) = duration s"
    and reset_due: "latest s + duration s \<le> now \<Longrightarrow>
      remain (reset now s) = cap s \<and> latest (reset now s) = now"
    and reset_early: "\<not> latest s + duration s \<le> now \<Longrightarrow>
      remain (reset now s) = remain s \<and> latest (reset now s) = latest s"
begin

lemma reset_cases:
  "remain (reset now s) = cap s \<and> latest (reset now s) = now
   \<or> remain (reset now s) = remain s \<and> latest (reset now s) = latest s"
  using reset_due reset_early by blast

lemma take_bounds:
  assumes "0 \<le> remain s" and "remain s \<le> cap s" and "0 \<le> k"
  shows "0 \<le> remain (snd (take_n k s)) \<and> remain (snd (take_n k s)) \<le> cap (snd (take_n k s))"
  using assms take_granted[of k s] by (auto simp: take_remain take_frame)

lemma reset_bounds:
  assumes "0 \<le> remain s" and "remain s \<le> cap s"
  shows "0 \<le> remain (reset now s) \<and> remain (reset now s) \<le> cap (reset now s)"
  using assms reset_cases[of now s] by (auto simp: reset_frame)

lemma run_cap: "cap (run_budget take_n reset es s) = cap s"
proof (induction es arbitrary: s)
  case (Cons e es)
  then show ?case by (cases e) (auto simp: take_frame reset_frame)
qed simp

lemma run_bounds:
  assumes "0 \<le> remain s" and "remain s \<le> cap s" and "\<forall>k. Take k \<in> set es \<longrightarrow> 0 \<le> k"
  shows "0 \<le> remain (run_budget take_n reset es s)
    \<and> remain (run_budget take_n reset es s) \<le> cap (run_budget take_n reset es s)"
  using assms
proof (induction es arbitrary: s)
  case (Cons e es)
  then show ?case
    using take_bounds[of s] reset_bounds[of s] by (cases e) auto
qed simp

lemma granted_no_refill:
  assumes "0 \<le> remain s" and "\<forall>e \<in> set es. event_within a b e"
    and "a \<le> unat (latest s)" and "b < a + unat (duration s)"
    and "unat (latest s) \<le> b" and "b + unat (duration s) < 2 ^ 64"
  shows "granted take_n reset es s \<le> remain s"
  using assms
proof (induction es arbitrary: s)
  case (Cons e es)
  show ?case
  proof (cases e)
    case (Take k)
    then have "granted take_n reset es (snd (take_n k s)) \<le> remain (snd (take_n k s))"
      using Cons.prems take_granted[of k s] take_remain[of k s]
      by (intro Cons.IH) (auto simp: take_frame event_within_def split: if_splits)
    then show ?thesis using Take by (auto simp: take_remain)
  next
    case (Visit now)
    have "unat (latest s + duration s) = unat (latest s) + unat (duration s)"
      using Cons.prems by (intro unat_add_lem [THEN iffD1]) simp
    then have early: "\<not> latest s + duration s \<le> now"
      using Cons.prems Visit by (simp add: word_le_nat_alt event_within_def)
    then have "granted take_n reset es (reset now s) \<le> remain (reset now s)"
      using Cons.prems reset_early[OF early] by (intro Cons.IH) (auto simp: reset_frame)
    then show ?thesis using Visit reset_early[OF early] by simp
  qed
qed simp

lemma granted_window:
  assumes "0 \<le> remain s" and "remain s \<le> cap s" and "\<forall>e \<in> set es. event_within a b e"
    and "b < a + unat (duration s)" and "b + unat (duration s) < 2 ^ 64"
  shows "granted take_n reset es s \<le> remain s + cap s"
  using assms
proof (induction es arbitrary: s)
  case (Cons e es)
  show ?case
  proof (cases e)
    case (Take k)
    have k: "0 \<le> k" using Cons.prems Take by (simp add: event_within_def)
    have "granted take_n reset es (snd (take_n k s)) \<le> remain (snd (take_n k s)) + cap (snd (take_n k s))"
      using Cons.prems take_bounds[of s k] k by (intro Cons.IH) (auto simp: take_frame)
    then show ?thesis using Take by (auto simp: take_remain take_frame)
  next
    case (Visit now)
    show ?thesis
    proof (cases "latest s + duration s \<le> now")
      case True
      have "granted take_n reset es (reset now s) \<le> remain (reset now s)"
        using Cons.prems Visit reset_due[OF True] reset_bounds[of s now]
        by (intro granted_no_refill[of _ _ a b]) (auto simp: reset_frame event_within_def)
      then show ?thesis using Cons.prems Visit reset_due[OF True] by simp
    next
      case False
      have "granted take_n reset es (reset now s) \<le> remain (reset now s) + cap (reset now s)"
        using Cons.prems reset_early[OF False] by (intro Cons.IH) (auto simp: reset_frame)
      then show ?thesis using Visit reset_early[OF False] by (simp add: reset_frame)
    qed
  qed
qed simp

end

text \<open>A budget that also never refuses units it has: the stand-alone counter.\<close>

locale available_budget = budget +
  assumes take_available: "k \<le> remain s \<Longrightarrow> fst (take_n k s)"
begin

lemma take_iff: "fst (take_n k s) \<longleftrightarrow> k \<le> remain s"
  using take_granted take_available by blast

lemma refill_restores:
  assumes "latest s + duration s \<le> now" and "k \<le> cap s"
  shows "fst (take_n k (reset now s))"
  using assms reset_due[OF assms(1)] by (simp add: take_available)

end

interpretation ac: available_budget ac_semaphore_init_count ac_semaphore_remain_count
  ac_latest_reset_millis ac_reset_duration_millis ac_get_semaphore
  "\<lambda>now c. snd (ac_reset_if_cycle_end now c)"
  by unfold_locales
    (auto simp: ac_get_semaphore_def ac_reset_if_cycle_end_def split: if_splits)

section \<open>The boss of a group of counters\<close>

text \<open>
  \<open>cb_cells\<close> is the store of the counters made by this boss, \<open>cb_counter_map\<close> the map from
  identifiers to pointers. \<open>cb_refresh_counters\<close> is one iteration of the refresh thread's loop.
\<close>

record AutoResetCounterBoss =
  cb_max_capacity :: int
  cb_refresh_duration_millis :: u64
  cb_is_started :: bool
  cb_counter_map :: "(string \<times> nat) list"
  cb_cells :: "AutoResetCounter list"

definition cb_init :: "int \<Rightarrow> u64 \<Rightarrow> AutoResetCounterBoss \<Rightarrow> AutoResetCounterBoss" where
  "cb_init max_capacity refresh_duration_millis b =
     b\<lparr>cb_is_started := False, cb_max_capacity := max_capacity,
       cb_refresh_duration_millis :=
         (if refresh_duration_millis \<le> 0 then 1 else refresh_duration_millis)\<rparr>"

definition cell_update ::
  "nat \<Rightarrow> ('a \<Rightarrow> 'a) \<Rightarrow> 'a list \<Rightarrow> 'a list" where
  "cell_update ptr f cells = (if ptr < length cells then cells[ptr := f (cells ! ptr)] else cells)"

definition cb_refresh_counters :: "u64 \<Rightarrow> AutoResetCounterBoss \<Rightarrow> AutoResetCounterBoss" where
  "cb_refresh_counters now b =
     (if cb_is_started b
      then b\<lparr>cb_cells := fold (\<lambda>(_, ptr). cell_update ptr (\<lambda>c. snd (ac_reset_if_cycle_end now c)))
                          (cb_counter_map b) (cb_cells b)\<rparr>
      else b)"

definition cb_start :: "AutoResetCounterBoss \<Rightarrow> bool \<times> AutoResetCounterBoss" where
  "cb_start b = (if \<not> cb_is_started b then (True, b\<lparr>cb_is_started := True\<rparr>) else (False, b))"

definition cb_stop :: "AutoResetCounterBoss \<Rightarrow> AutoResetCounterBoss" where
  "cb_stop b = b\<lparr>cb_is_started := False\<rparr>"

definition cb_create_new_counter ::
  "string \<Rightarrow> u64 \<Rightarrow> int \<Rightarrow> u64 \<Rightarrow> AutoResetCounterBoss \<Rightarrow> nat option \<times> AutoResetCounterBoss" where
  "cb_create_new_counter uuid now semaphore_count reset_duration_millis b =
     (if int (length (cb_counter_map b)) \<ge> cb_max_capacity b then (None, b)
      else let ptr = length (cb_cells b);
               counter = new_AutoResetCounter uuid now semaphore_count reset_duration_millis
           in (Some ptr, b\<lparr>cb_cells := cb_cells b @ [counter],
                           cb_counter_map := AList.update (ac_id counter) ptr (cb_counter_map b)\<rparr>))"

definition cb_get_exist_counter :: "string \<Rightarrow> AutoResetCounterBoss \<Rightarrow> nat option" where
  "cb_get_exist_counter counter_id b = map_of (cb_counter_map b) counter_id"

text \<open>
  The pointers of the map are distinct indices into the store: each visit of the refresh thread
  then resets every counter of the map once.
\<close>

definition cb_wf :: "AutoResetCounterBoss \<Rightarrow> bool" where
  "cb_wf b \<longleftrightarrow> distinct (map fst (cb_counter_map b)) \<and> distinct (map snd (cb_counter_map b))
     \<and> (\<forall>ptr \<in> set (map snd (cb_counter_map b)). ptr < length (cb_cells b))"

lemma cell_update_length [simp]: "length (cell_update ptr f cells) = length cells"
  by (simp add: cell_update_def)

lemma cell_update_nth:
  "i < length cells \<Longrightarrow> cell_update ptr f cells ! i = (if i = ptr then f (cells ! i) else cells ! i)"
  by (auto simp: cell_update_def)

lemma refresh_length [simp]:
  "length (fold (\<lambda>(_, ptr). cell_update ptr f) m cells) = length cells"
  by (induction m arbitrary: cells) auto

lemma refresh_nth:
  assumes "distinct (map snd m)" and "i < length cells"
  shows "fold (\<lambda>(_, ptr). cell_update ptr f) m cells ! i =
    (if i \<in> set (map snd m) then f (cells ! i) else cells ! i)"
  using assms
proof (induction m arbitrary: cells)
  case (Cons e m)
  then show ?case by (cases e) (auto simp: cell_update_nth)
qed simp

lemma cb_refresh_cell:
  assumes "cb_wf b" and "cb_is_started b" and "i < length (cb_cells b)"
  shows "cb_cells (cb_refresh_counters now b) ! i =
    (if i \<in> set (map snd (cb_counter_map b)) then snd (ac_reset_if_cycle_end now (cb_cells b ! i))
     else cb_cells b ! i)"
  using assms by (simp add: cb_refresh_counters_def cb_wf_def refresh_nth)

lemma update_new_key: "k \<notin> fst ` set m \<Longrightarrow> AList.update k v m = m @ [(k, v)]"
  by (induction m) auto

lemma update_snd_subset: "set (map snd (AList.update k v m)) \<subseteq> insert v (set (map snd m))"
  by (induction m) auto

lemma update_distinct_snd:
  "distinct (map snd m) \<Longrightarrow> v \<notin> set (map snd m) \<Longrightarrow> distinct (map snd (AList.update k v m))"
proof (induction m)
  case (Cons e m)
  then show ?case using update_snd_subset[of k v m] by (cases e) auto
qed simp

lemma update_length: "length (AList.update k v m) \<le> Suc (length m)"
  by (induction m) auto

lemma cb_create_wf:
  assumes "cb_wf b"
  shows "cb_wf (snd (cb_create_new_counter uuid now n d b))"
proof (cases "int (length (cb_counter_map b)) \<ge> cb_max_capacity b")
  case False
  let ?m = "cb_counter_map b" and ?n = "length (cb_cells b)"
  have nin: "?n \<notin> set (map snd ?m)" using assms by (auto simp: cb_wf_def)
  have "distinct (map snd (AList.update uuid ?n ?m))"
    using assms nin by (intro update_distinct_snd) (simp_all add: cb_wf_def)
  moreover have "\<forall>ptr \<in> set (map snd (AList.update uuid ?n ?m)). ptr < Suc ?n"
    using update_snd_subset[of uuid ?n ?m] assms by (fastforce simp: cb_wf_def)
  ultimately show ?thesis
    using assms False
    by (simp add: cb_create_new_counter_def cb_wf_def Let_def new_AutoResetCounter_def
        distinct_update)
qed (use assms in \<open>simp add: cb_create_new_counter_def\<close>)

lemma cb_refresh_wf: "cb_wf b \<Longrightarrow> cb_wf (cb_refresh_counters now b)"
  by (simp add: cb_refresh_counters_def cb_wf_def)

lemma cb_create_capacity:
  assumes "int (length (cb_counter_map b)) \<le> cb_max_capacity b"
  shows "int (length (cb_counter_map (snd (cb_create_new_counter uuid now n d b)))) \<le> cb_max_capacity b"
  using assms update_length[of uuid "length (cb_cells b)" "cb_counter_map b"]
  by (auto simp: cb_create_new_counter_def Let_def new_AutoResetCounter_def)

section \<open>Properties\<close>

text \<open>The semaphore is a rate limit: along any run of takes and refresh visits whose clock values
  span less than one reset cycle, the counter grants at most its remaining units plus one full
  refill, hence never more than twice its limit.\<close>

theorem counter_rate_limit:
  assumes "0 \<le> ac_semaphore_remain_count c"
    and "ac_semaphore_remain_count c \<le> ac_semaphore_init_count c"
    and "\<forall>e \<in> set es. event_within a b e"
    and "b < a + unat (ac_reset_duration_millis c)"
    and "b + unat (ac_reset_duration_millis c) < 2 ^ 64"
  shows "granted ac_get_semaphore (\<lambda>now c. snd (ac_reset_if_cycle_end now c)) es c
    \<le> ac_semaphore_remain_count c + ac_semaphore_init_count c"
  using ac.granted_window[OF assms] .

theorem counter_rate_limit_witness:
  "granted ac_get_semaphore (\<lambda>now c. snd (ac_reset_if_cycle_end now c))
     [Take 1, Visit 1500, Take 1, Take 1] (new_AutoResetCounter ''u'' 1000 1 1000) \<le> 2"
  using counter_rate_limit[of "new_AutoResetCounter ''u'' 1000 1 1000"
      "[Take 1, Visit 1500, Take 1, Take 1]" 1500 2000]
  by (simp add: new_AutoResetCounter_def event_within_def)

text \<open>The number of remaining units stays between 0 and the configured limit in every run, so the
  subtraction of \<open>get_semaphore\<close> never overflows.\<close>

theorem counter_remain_bounds:
  assumes "0 \<le> n" and "in_int32 n" and "\<forall>k. Take k \<in> set es \<longrightarrow> 0 \<le> k"
  shows "0 \<le> ac_semaphore_remain_count (run_budget ac_get_semaphore
      (\<lambda>now c. snd (ac_reset_if_cycle_end now c)) es (new_AutoResetCounter uuid now n d))
    \<and> ac_semaphore_remain_count (run_budget ac_get_semaphore
      (\<lambda>now c. snd (ac_reset_if_cycle_end now c)) es (new_AutoResetCounter uuid now n d)) \<le> n"
  using ac.run_bounds[of "new_AutoResetCounter uuid now n d" es] assms
  by (simp add: ac.run_cap new_AutoResetCounter_def)

theorem counter_remain_bounds_witness:
  "0 \<le> ac_semaphore_remain_count (run_budget ac_get_semaphore
      (\<lambda>now c. snd (ac_reset_if_cycle_end now c)) [Take 1, Take 1, Visit 3] (new_AutoResetCounter ''u'' 0 1 5))"
  using counter_remain_bounds[of 1 "[Take 1, Take 1, Visit 3]" "''u''" 0 5] by simp

text \<open>One visit of the refresh thread resets every registered counter whose cycle has ended, once,
  and touches no other; the well-formedness of the boss is kept by creating counters and by the
  visit.\<close>

theorem refresh_resets_each_counter:
  assumes "cb_wf b" and "cb_is_started b" and "cb_get_exist_counter k b = Some ptr"
  shows "cb_cells (cb_refresh_counters now b) ! ptr = snd (ac_reset_if_cycle_end now (cb_cells b ! ptr))
    \<and> cb_wf (cb_refresh_counters now b)
    \<and> cb_wf (snd (cb_create_new_counter uuid now n d b))"
proof -
  have "ptr \<in> set (map snd (cb_counter_map b))"
    using map_of_SomeD[of "cb_counter_map b" k ptr] assms(3)
    by (force simp: cb_get_exist_counter_def)
  moreover from this have "ptr < length (cb_cells b)" using assms(1) by (auto simp: cb_wf_def)
  ultimately show ?thesis
    using cb_refresh_cell[OF assms(1,2), of ptr now] assms(1) by (simp add: cb_refresh_wf cb_create_wf)
qed

theorem refresh_resets_each_counter_witness:
  "\<exists>b. cb_wf b \<and> cb_get_exist_counter ''u'' b = Some 0
    \<and> ac_semaphore_remain_count (cb_cells (cb_refresh_counters 10 b) ! 0) = 1"
proof -
  let ?c = "(new_AutoResetCounter ''u'' 0 1 5)\<lparr>ac_semaphore_remain_count := 0\<rparr>"
  let ?b = "\<lparr>cb_max_capacity = 1, cb_refresh_duration_millis = 1, cb_is_started = True,
    cb_counter_map = [(''u'', 0)], cb_cells = [?c]\<rparr>"
  have "cb_wf ?b" "cb_is_started ?b" "cb_get_exist_counter ''u'' ?b = Some 0"
    by (simp_all add: cb_wf_def cb_get_exist_counter_def)
  from this refresh_resets_each_counter[OF this, of 10] show ?thesis
    by (intro exI[of _ ?b]) (simp add: ac_reset_if_cycle_end_def new_AutoResetCounter_def)
qed

end
