(* ===== verification/OrderLimiter.thy ===== *)
theory OrderLimiter
  imports Counter
begin

text \<open>
  \<open>src/src/trader/order_limiter.{h,cpp}\<close>: the order limiter with its 10-second and 1-minute budgets,
  the boss that combines the account's limiter with one limiter per local IP address, and the boss
  that spaces the orders of one symbol. Both budgets of a limiter satisfy the contract \<open>budget\<close>.
\<close>

section \<open>The limiter of one account or IP address\<close>

record AutoResetOrderLimiter =
  ol_id :: string
  ol_second_semaphore_init_count :: int
  ol_second_semaphore_remain_count :: int
  ol_second_reset_duration_millis :: u64
  ol_second_latest_reset_millis :: u64
  ol_minute_semaphore_init_count :: int
  ol_minute_semaphore_remain_count :: int
  ol_minute_reset_duration_millis :: u64
  ol_minute_latest_reset_millis :: u64

definition ol_init ::
  "string \<Rightarrow> u64 \<Rightarrow> u64 \<Rightarrow> int \<Rightarrow> u64 \<Rightarrow> int \<Rightarrow> u64 \<Rightarrow> AutoResetOrderLimiter" where
  "ol_init uuid now1 now2 second_semaphore_count second_reset_duration_millis
     minute_semaphore_count minute_reset_duration_millis =
     \<lparr>ol_id = uuid,
      ol_second_semaphore_init_count = second_semaphore_count,
      ol_second_semaphore_remain_count = second_semaphore_count,
      ol_second_reset_duration_millis = second_reset_duration_millis,
      ol_second_latest_reset_millis = now1,
      ol_minute_semaphore_init_count = minute_semaphore_count,
      ol_minute_semaphore_remain_count = minute_semaphore_count,
      ol_minute_reset_duration_millis = minute_reset_duration_millis,
      ol_minute_latest_reset_millis = now2\<rparr>"

definition ol_reset_if_cycle_end :: "u64 \<Rightarrow> AutoResetOrderLimiter \<Rightarrow> AutoResetOrderLimiter" where
  "ol_reset_if_cycle_end now l =
     (let l = (if ol_second_latest_reset_millis l + ol_second_reset_duration_millis l \<le> now
               then l\<lparr>ol_second_semaphore_remain_count := ol_second_semaphore_init_count l,
                      ol_second_latest_reset_millis := now\<rparr>
               else l)
      in if ol_minute_latest_reset_millis l + ol_minute_reset_duration_millis l \<le> now
         then l\<lparr>ol_minute_semaphore_remain_count := ol_minute_semaphore_init_count l,
                ol_minute_latest_reset_millis := now\<rparr>
         else l)"

definition ol_get_order_semaphore :: "int \<Rightarrow> AutoResetOrderLimiter \<Rightarrow> bool \<times> AutoResetOrderLimiter" where
  "ol_get_order_semaphore require_num l =
     (if ol_second_semaphore_remain_count l \<ge> require_num \<and> ol_minute_semaphore_remain_count l \<ge> require_num
      then (True, l\<lparr>ol_second_semaphore_remain_count := ol_second_semaphore_remain_count l - require_num,
                    ol_minute_semaphore_remain_count := ol_minute_semaphore_remain_count l - require_num\<rparr>)
      else (False, l))"

definition ol_return_order_semaphore :: "int \<Rightarrow> AutoResetOrderLimiter \<Rightarrow> AutoResetOrderLimiter" where
  "ol_return_order_semaphore return_num l =
     (let l = (if ol_second_semaphore_remain_count l + return_num \<le> ol_second_semaphore_init_count l
               then l\<lparr>ol_second_semaphore_remain_count := ol_second_semaphore_remain_count l + return_num\<rparr>
               else l)
      in if ol_minute_semaphore_remain_count l + return_num \<le> ol_minute_semaphore_init_count l
         then l\<lparr>ol_minute_semaphore_remain_count := ol_minute_semaphore_remain_count l + return_num\<rparr>
         else l)"

definition ol_wf :: "AutoResetOrderLimiter \<Rightarrow> bool" where
  "ol_wf l \<longleftrightarrow> 0 \<le> ol_second_semaphore_remain_count l
     \<and> ol_second_semaphore_remain_count l \<le> ol_second_semaphore_init_count l
     \<and> 0 \<le> ol_minute_semaphore_remain_count l
     \<and> ol_minute_semaphore_remain_count l \<le> ol_minute_semaphore_init_count l"

lemmas ol_defs = ol_get_order_semaphore_def ol_reset_if_cycle_end_def ol_return_order_semaphore_def
  ol_init_def ol_wf_def

interpretation ol_second: budget ol_second_semaphore_init_count ol_second_semaphore_remain_count
  ol_second_latest_reset_millis ol_second_reset_duration_millis ol_get_order_semaphore
  ol_reset_if_cycle_end
  by unfold_locales (auto simp: ol_defs Let_def split: if_splits)

interpretation ol_minute: budget ol_minute_semaphore_init_count ol_minute_semaphore_remain_count
  ol_minute_latest_reset_millis ol_minute_reset_duration_millis ol_get_order_semaphore
  ol_reset_if_cycle_end
  by unfold_locales (auto simp: ol_defs Let_def split: if_splits)

lemma ol_get_wf: "ol_wf l \<Longrightarrow> 0 \<le> k \<Longrightarrow> ol_wf (snd (ol_get_order_semaphore k l))"
  by (auto simp: ol_defs)

lemma ol_reset_wf: "ol_wf l \<Longrightarrow> ol_wf (ol_reset_if_cycle_end now l)"
  by (auto simp: ol_defs Let_def)

lemma ol_return_wf: "ol_wf l \<Longrightarrow> 0 \<le> k \<Longrightarrow> ol_wf (ol_return_order_semaphore k l)"
  by (auto simp: ol_defs Let_def)

lemma ol_return_get:
  "ol_wf l \<Longrightarrow> fst (ol_get_order_semaphore k l) \<Longrightarrow>
   ol_return_order_semaphore k (snd (ol_get_order_semaphore k l)) = l"
  by (auto simp: ol_defs Let_def split: if_splits)

section \<open>The boss of account and IP limiters\<close>

record AutoResetOrderLimiterBoss =
  lb_max_capacity :: int
  lb_refresh_duration_millis :: u64
  lb_is_started :: bool
  lb_account_limiter :: AutoResetOrderLimiter
  lb_ip_limiter_map :: "(string \<times> AutoResetOrderLimiter) list"

definition lb_init ::
  "string \<Rightarrow> u64 \<Rightarrow> u64 \<Rightarrow> int \<Rightarrow> u64 \<Rightarrow> int \<Rightarrow> int \<Rightarrow> int \<Rightarrow> int
   \<Rightarrow> AutoResetOrderLimiterBoss \<Rightarrow> AutoResetOrderLimiterBoss" where
  "lb_init uuid now1 now2 max_capacity refresh_duration_millis second_semaphre_count duration_second
     minute_semaphore_count duration_minute b =
     b\<lparr>lb_is_started := False, lb_max_capacity := max_capacity,
       lb_refresh_duration_millis :=
         (if refresh_duration_millis \<le> 0 then 1 else refresh_duration_millis),
       lb_account_limiter :=
         ol_init uuid now1 now2 second_semaphre_count (word_of_int (duration_second * 1000))
           minute_semaphore_count (word_of_int (duration_minute * 60 * 1000))\<rparr>"

definition lb_refresh_all_limiters :: "u64 \<Rightarrow> AutoResetOrderLimiterBoss \<Rightarrow> AutoResetOrderLimiterBoss" where
  "lb_refresh_all_limiters now b =
     (if lb_is_started b
      then b\<lparr>lb_account_limiter := ol_reset_if_cycle_end now (lb_account_limiter b),
             lb_ip_limiter_map := map (\<lambda>(ip, l). (ip, ol_reset_if_cycle_end now l)) (lb_ip_limiter_map b)\<rparr>
      else b)"

definition lb_start :: "AutoResetOrderLimiterBoss \<Rightarrow> bool \<times> AutoResetOrderLimiterBoss" where
  "lb_start b = (if \<not> lb_is_started b then (True, b\<lparr>lb_is_started := True\<rparr>) else (False, b))"

definition lb_stop :: "AutoResetOrderLimiterBoss \<Rightarrow> AutoResetOrderLimiterBoss" where
  "lb_stop b = b\<lparr>lb_is_started := False\<rparr>"

definition lb_create_ip_limiter ::
  "string \<Rightarrow> u64 \<Rightarrow> u64 \<Rightarrow> string \<Rightarrow> int \<Rightarrow> int \<Rightarrow> int \<Rightarrow> int
   \<Rightarrow> AutoResetOrderLimiterBoss \<Rightarrow> bool \<times> AutoResetOrderLimiterBoss" where
  "lb_create_ip_limiter uuid now1 now2 local_ip second_semaphre_count duration_second
     minute_semaphore_count duration_minute b =
     (let ip_limiter_count = int (length (lb_ip_limiter_map b));
          ip_limiter_exists = (map_of (lb_ip_limiter_map b) local_ip \<noteq> None)
      in if ip_limiter_exists then (False, b)
         else if ip_limiter_count \<ge> lb_max_capacity b then (False, b)
         else (True, b\<lparr>lb_ip_limiter_map := AList.update local_ip
                (ol_init uuid now1 now2 second_semaphre_count (word_of_int (duration_second * 1000))
                   minute_semaphore_count (word_of_int (duration_minute * 60 * 1000)))
                (lb_ip_limiter_map b)\<rparr>))"

definition lb_get_order_semaphore ::
  "string \<Rightarrow> int \<Rightarrow> AutoResetOrderLimiterBoss \<Rightarrow> (bool \<times> bool) \<times> AutoResetOrderLimiterBoss" where
  "lb_get_order_semaphore local_ip require_num b =
     (let (has_account_semaphore, acct) = ol_get_order_semaphore require_num (lb_account_limiter b);
          b = b\<lparr>lb_account_limiter := acct\<rparr>
      in if \<not> has_account_semaphore then ((has_account_semaphore, False), b)
         else case map_of (lb_ip_limiter_map b) local_ip of
           None \<Rightarrow>
             ((has_account_semaphore, False),
              b\<lparr>lb_account_limiter := ol_return_order_semaphore require_num (lb_account_limiter b)\<rparr>)
         | Some ip_limiter \<Rightarrow>
             (let (has_ip_semaphore, ipl) = ol_get_order_semaphore require_num ip_limiter;
                  b = b\<lparr>lb_ip_limiter_map := AList.update local_ip ipl (lb_ip_limiter_map b)\<rparr>
              in if \<not> has_ip_semaphore
                 then ((has_account_semaphore, has_ip_semaphore),
                       b\<lparr>lb_account_limiter := ol_return_order_semaphore require_num (lb_account_limiter b)\<rparr>)
                 else ((has_account_semaphore, has_ip_semaphore), b)))"

definition lb_wf :: "AutoResetOrderLimiterBoss \<Rightarrow> bool" where
  "lb_wf b \<longleftrightarrow> ol_wf (lb_account_limiter b) \<and> distinct (map fst (lb_ip_limiter_map b))
     \<and> (\<forall>l \<in> set (map snd (lb_ip_limiter_map b)). ol_wf l)"

lemma update_same: "map_of m k = Some v \<Longrightarrow> AList.update k v m = m"
  by (induction m) (auto split: if_splits)

lemma ol_get_refused: "\<not> fst (ol_get_order_semaphore k l) \<Longrightarrow> snd (ol_get_order_semaphore k l) = l"
  by (auto simp: ol_get_order_semaphore_def split: if_splits)

lemma lb_get_refused:
  assumes "lb_wf b" and "fst (lb_get_order_semaphore ip k b) \<noteq> (True, True)"
  shows "snd (lb_get_order_semaphore ip k b) = b"
proof (cases "fst (ol_get_order_semaphore k (lb_account_limiter b))")
  case True
  have ret: "ol_return_order_semaphore k (snd (ol_get_order_semaphore k (lb_account_limiter b)))
      = lb_account_limiter b"
    using assms(1) True by (intro ol_return_get) (simp_all add: lb_wf_def)
  show ?thesis
  proof (cases "map_of (lb_ip_limiter_map b) ip")
    case None
    then show ?thesis using True ret by (simp add: lb_get_order_semaphore_def case_prod_beta Let_def)
  next
    case (Some l)
    then have "\<not> fst (ol_get_order_semaphore k l)"
      using True assms(2) by (auto simp: lb_get_order_semaphore_def case_prod_beta Let_def)
    then show ?thesis using True ret Some ol_get_refused[of k l] update_same[OF Some]
      by (simp add: lb_get_order_semaphore_def case_prod_beta Let_def)
  qed
next
  case False
  then show ?thesis using ol_get_refused[OF False]
    by (simp add: lb_get_order_semaphore_def case_prod_beta Let_def)
qed

lemma lb_get_granted:
  assumes "fst (lb_get_order_semaphore ip k b) = (True, True)"
  shows "\<exists>l. map_of (lb_ip_limiter_map b) ip = Some l
    \<and> fst (ol_get_order_semaphore k (lb_account_limiter b)) \<and> fst (ol_get_order_semaphore k l)
    \<and> snd (lb_get_order_semaphore ip k b) =
        b\<lparr>lb_account_limiter := snd (ol_get_order_semaphore k (lb_account_limiter b)),
          lb_ip_limiter_map := AList.update ip (snd (ol_get_order_semaphore k l)) (lb_ip_limiter_map b)\<rparr>"
  using assms
  by (auto simp: lb_get_order_semaphore_def case_prod_beta Let_def split: if_splits option.splits)

lemma set_update_snd: "set (map snd (AList.update k v m)) \<subseteq> insert v (set (map snd m))"
  by (rule update_snd_subset)

lemma lb_get_wf:
  assumes "lb_wf b" and "0 \<le> k"
  shows "lb_wf (snd (lb_get_order_semaphore ip k b))"
proof (cases "fst (lb_get_order_semaphore ip k b) = (True, True)")
  case True
  then obtain l where l: "map_of (lb_ip_limiter_map b) ip = Some l"
    and s: "snd (lb_get_order_semaphore ip k b) =
        b\<lparr>lb_account_limiter := snd (ol_get_order_semaphore k (lb_account_limiter b)),
          lb_ip_limiter_map := AList.update ip (snd (ol_get_order_semaphore k l)) (lb_ip_limiter_map b)\<rparr>"
    using lb_get_granted by blast
  have "ol_wf l" using assms(1) map_of_SomeD[OF l] by (force simp: lb_wf_def)
  then have "\<forall>x \<in> set (map snd (AList.update ip (snd (ol_get_order_semaphore k l)) (lb_ip_limiter_map b))). ol_wf x"
    using set_update_snd[of ip _ "lb_ip_limiter_map b"] assms ol_get_wf by (fastforce simp: lb_wf_def)
  then show ?thesis using assms ol_get_wf unfolding s by (simp add: lb_wf_def distinct_update)
qed (use assms lb_get_refused in auto)

lemma lb_refresh_wf: "lb_wf b \<Longrightarrow> lb_wf (lb_refresh_all_limiters now b)"
  by (auto simp: lb_wf_def lb_refresh_all_limiters_def ol_reset_wf comp_def case_prod_beta)

lemma lb_create_wf:
  assumes "lb_wf b" and "0 \<le> s" and "0 \<le> m"
  shows "lb_wf (snd (lb_create_ip_limiter uuid n1 n2 ip s ds m dm b))"
proof -
  let ?l = "ol_init uuid n1 n2 s (word_of_int (ds * 1000)) m (word_of_int (dm * 60 * 1000))"
  have "ol_wf ?l" using assms by (simp add: ol_defs)
  then have "\<forall>x \<in> set (map snd (AList.update ip ?l (lb_ip_limiter_map b))). ol_wf x"
    using set_update_snd[of ip ?l "lb_ip_limiter_map b"] assms(1) by (fastforce simp: lb_wf_def)
  then show ?thesis
    using assms(1) by (simp add: lb_create_ip_limiter_def lb_wf_def Let_def distinct_update)
qed

section \<open>Runs of the limiter boss\<close>

text \<open>
  A run interleaves order requests of the trader threads with visits of the refresh thread.
  \<open>lb_granted P\<close> adds up the orders granted to the addresses that satisfy \<open>P\<close>. The traces project
  a run to the takes and resets seen by the account's limiter and by the limiter of one address.
\<close>

datatype boss_event = GetOrder string int | RefreshAll u64

fun lb_step :: "boss_event \<Rightarrow> AutoResetOrderLimiterBoss \<Rightarrow> AutoResetOrderLimiterBoss" where
  "lb_step (GetOrder ip k) b = snd (lb_get_order_semaphore ip k b)"
| "lb_step (RefreshAll now) b = lb_refresh_all_limiters now b"

fun lb_granted :: "(string \<Rightarrow> bool) \<Rightarrow> boss_event list \<Rightarrow> AutoResetOrderLimiterBoss \<Rightarrow> int" where
  "lb_granted P [] b = 0"
| "lb_granted P (GetOrder ip k # es) b =
     (if fst (lb_get_order_semaphore ip k b) = (True, True) \<and> P ip then k else 0)
     + lb_granted P es (lb_step (GetOrder ip k) b)"
| "lb_granted P (RefreshAll now # es) b = lb_granted P es (lb_step (RefreshAll now) b)"

fun boss_event_within :: "nat \<Rightarrow> nat \<Rightarrow> boss_event \<Rightarrow> bool" where
  "boss_event_within a c (GetOrder ip k) \<longleftrightarrow> 0 \<le> k"
| "boss_event_within a c (RefreshAll now) \<longleftrightarrow> a \<le> unat now \<and> unat now \<le> c"

fun limiter_trace :: "(string \<Rightarrow> bool) \<Rightarrow> boss_event list \<Rightarrow> AutoResetOrderLimiterBoss \<Rightarrow> budget_event list" where
  "limiter_trace P [] b = []"
| "limiter_trace P (GetOrder ip k # es) b =
     (if fst (lb_get_order_semaphore ip k b) = (True, True) \<and> P ip then [Take k] else [])
     @ limiter_trace P es (lb_step (GetOrder ip k) b)"
| "limiter_trace P (RefreshAll now # es) b =
     (if lb_is_started b then [Visit now] else []) @ limiter_trace P es (lb_step (RefreshAll now) b)"

lemma limiter_trace_within:
  assumes "\<forall>e \<in> set es. boss_event_within a c e"
  shows "\<forall>e \<in> set (limiter_trace P es b). event_within a c e"
  using assms
proof (induction es arbitrary: b)
  case (Cons e es)
  then show ?case by (cases e) (auto simp: event_within_def)
qed simp

lemma lb_step_wf:
  assumes "lb_wf b" and "boss_event_within a c e"
  shows "lb_wf (lb_step e b)"
  using assms by (cases e) (auto intro: lb_get_wf lb_refresh_wf)

lemma lb_step_account:
  assumes "lb_wf b"
  shows "lb_account_limiter (lb_step e b) =
    (case e of GetOrder ip k \<Rightarrow> (if fst (lb_get_order_semaphore ip k b) = (True, True)
        then snd (ol_get_order_semaphore k (lb_account_limiter b)) else lb_account_limiter b)
     | RefreshAll now \<Rightarrow> (if lb_is_started b then ol_reset_if_cycle_end now (lb_account_limiter b)
        else lb_account_limiter b))"
proof (cases e)
  case (GetOrder ip k)
  then show ?thesis
    using lb_get_granted[of ip k b] lb_get_refused[OF assms, of ip k] by auto
qed (simp add: lb_refresh_all_limiters_def)

lemma map_of_map_snd: "map_of (map (\<lambda>(k, v). (k, f v)) m) = map_option f \<circ> map_of m"
  by (rule ext) (simp add: map_of_map)

lemma lb_step_ip:
  assumes "lb_wf b" and "map_of (lb_ip_limiter_map b) ip = Some l"
  shows "map_of (lb_ip_limiter_map (lb_step e b)) ip = Some
    (case e of GetOrder ip' k \<Rightarrow> (if fst (lb_get_order_semaphore ip' k b) = (True, True) \<and> ip' = ip
        then snd (ol_get_order_semaphore k l) else l)
     | RefreshAll now \<Rightarrow> (if lb_is_started b then ol_reset_if_cycle_end now l else l))"
proof (cases e)
  case (GetOrder ip' k)
  show ?thesis
  proof (cases "fst (lb_get_order_semaphore ip' k b) = (True, True)")
    case True
    then show ?thesis using GetOrder assms(2) lb_get_granted[OF True] by (auto simp: update_conv')
  qed (use GetOrder assms(2) lb_get_refused[OF assms(1), of ip' k] in simp)
qed (use assms in \<open>auto simp: lb_refresh_all_limiters_def map_of_map_snd\<close>)

lemma lb_account_granted:
  assumes "lb_wf b" and "\<forall>e \<in> set es. boss_event_within a c e"
  shows "lb_granted (\<lambda>_. True) es b =
    granted ol_get_order_semaphore ol_reset_if_cycle_end (limiter_trace (\<lambda>_. True) es b) (lb_account_limiter b)"
  using assms
proof (induction es arbitrary: b)
  case (Cons e es)
  have "lb_wf (lb_step e b)" using Cons.prems by (auto intro: lb_step_wf)
  note IH = Cons.IH[OF this] and acct = lb_step_account[OF Cons.prems(1), of e]
  show ?case
    using IH Cons.prems(2) acct lb_get_granted[of _ _ b] by (cases e) auto
qed simp

lemma lb_ip_granted:
  assumes "lb_wf b" and "\<forall>e \<in> set es. boss_event_within a c e"
    and "map_of (lb_ip_limiter_map b) ip = Some l"
  shows "lb_granted ((=) ip) es b =
    granted ol_get_order_semaphore ol_reset_if_cycle_end (limiter_trace ((=) ip) es b) l"
  using assms
proof (induction es arbitrary: b l)
  case (Cons e es)
  have wf: "lb_wf (lb_step e b)" using Cons.prems by (auto intro: lb_step_wf)
  note IH = Cons.IH[OF wf _ lb_step_ip[OF Cons.prems(1,3)]]
  show ?case
    using IH Cons.prems lb_get_granted[of ip _ b] by (cases e) (auto split: if_splits)
qed simp

section \<open>The boss that spaces the orders of a symbol\<close>

text \<open>
  \<open>ib_is_started\<close> has no initialiser in the source: a new boss takes its value as an argument.
  \<open>ib_init\<close> gets with each symbol the identifier and the clock value that the call of
  \<open>create_new_counter\<close> obtains.
\<close>

record AutoResetOrderIntervalBoss =
  ib_is_started :: bool
  ib_interval_boss :: AutoResetCounterBoss
  ib_interval_map :: "string \<rightharpoonup> nat"

definition empty_counter_boss :: AutoResetCounterBoss where
  "empty_counter_boss = \<lparr>cb_max_capacity = 0, cb_refresh_duration_millis = 0, cb_is_started = False,
     cb_counter_map = [], cb_cells = []\<rparr>"

definition new_AutoResetOrderIntervalBoss :: "bool \<Rightarrow> AutoResetOrderIntervalBoss" where
  "new_AutoResetOrderIntervalBoss garbage =
     \<lparr>ib_is_started = garbage, ib_interval_boss = empty_counter_boss, ib_interval_map = Map.empty\<rparr>"

definition ib_add_symbol ::
  "int \<Rightarrow> u64 \<Rightarrow> string \<times> string \<times> u64 \<Rightarrow> AutoResetOrderIntervalBoss \<Rightarrow> AutoResetOrderIntervalBoss" where
  "ib_add_symbol order_limit_count order_interval_millis = (\<lambda>(symbol, uuid, now) b.
     (let (couter, boss) = cb_create_new_counter uuid now order_limit_count order_interval_millis
            (ib_interval_boss b);
          b = b\<lparr>ib_interval_boss := boss\<rparr>
      in case couter of
           None \<Rightarrow> b
         | Some ptr \<Rightarrow> (if ib_interval_map b symbol = None
             then b\<lparr>ib_interval_map := (ib_interval_map b)(symbol \<mapsto> ptr)\<rparr> else b)))"

definition ib_init ::
  "(string \<times> string \<times> u64) list \<Rightarrow> int \<Rightarrow> u64 \<Rightarrow> AutoResetOrderIntervalBoss \<Rightarrow> AutoResetOrderIntervalBoss" where
  "ib_init symbols order_limit_count order_interval_millis b =
     fold (ib_add_symbol order_limit_count order_interval_millis) symbols
       (b\<lparr>ib_interval_boss := cb_init (int (length symbols)) 1 empty_counter_boss\<rparr>)"

definition ib_start :: "AutoResetOrderIntervalBoss \<Rightarrow> AutoResetOrderIntervalBoss" where
  "ib_start b =
     (if ib_is_started b then b
      else b\<lparr>ib_interval_boss := snd (cb_start (ib_interval_boss b)), ib_is_started := True\<rparr>)"

definition ib_has_more_semaphore :: "string \<Rightarrow> AutoResetOrderIntervalBoss \<Rightarrow> bool" where
  "ib_has_more_semaphore symbol b =
     (case ib_interval_map b symbol of
        None \<Rightarrow> False
      | Some ptr \<Rightarrow> ac_peek_remain_semaphore_count (cb_cells (ib_interval_boss b) ! ptr) > 0)"

definition ib_burn_semaphore :: "string \<Rightarrow> AutoResetOrderIntervalBoss \<Rightarrow> bool \<times> AutoResetOrderIntervalBoss" where
  "ib_burn_semaphore symbol b =
     (case ib_interval_map b symbol of
        None \<Rightarrow> (False, b)
      | Some ptr \<Rightarrow>
          (let (ok, c) = ac_get_semaphore 1 (cb_cells (ib_interval_boss b) ! ptr)
           in (ok, b\<lparr>ib_interval_boss := (ib_interval_boss b)
                 \<lparr>cb_cells := cell_update ptr (\<lambda>_. c) (cb_cells (ib_interval_boss b))\<rparr>\<rparr>)))"

text \<open>The refresh thread of the boss's counters, as seen from the interval boss.\<close>

definition ib_refresh :: "u64 \<Rightarrow> AutoResetOrderIntervalBoss \<Rightarrow> AutoResetOrderIntervalBoss" where
  "ib_refresh now b = b\<lparr>ib_interval_boss := cb_refresh_counters now (ib_interval_boss b)\<rparr>"

definition ib_wf :: "AutoResetOrderIntervalBoss \<Rightarrow> bool" where
  "ib_wf b \<longleftrightarrow> cb_wf (ib_interval_boss b) \<and> inj_on (ib_interval_map b) (dom (ib_interval_map b))
     \<and> ran (ib_interval_map b) \<subseteq> set (map snd (cb_counter_map (ib_interval_boss b)))"

definition ib_cell :: "string \<Rightarrow> AutoResetOrderIntervalBoss \<Rightarrow> AutoResetCounter option" where
  "ib_cell symbol b = map_option (\<lambda>ptr. cb_cells (ib_interval_boss b) ! ptr) (ib_interval_map b symbol)"

text \<open>
  Along the loop of \<open>init\<close>: no capacity is exceeded, every symbol so far has a fresh counter of its
  own, and the identifiers used are those of the iterations so far.
\<close>

definition ib_loop_inv ::
  "int \<Rightarrow> u64 \<Rightarrow> int \<Rightarrow> (string \<times> string \<times> u64) list \<Rightarrow> AutoResetOrderIntervalBoss \<Rightarrow> bool" where
  "ib_loop_inv n d cap done_syms b \<longleftrightarrow> ib_wf b
     \<and> cb_max_capacity (ib_interval_boss b) = cap \<and> \<not> cb_is_started (ib_interval_boss b)
     \<and> length (cb_counter_map (ib_interval_boss b)) = length done_syms
     \<and> fst ` set (cb_counter_map (ib_interval_boss b)) = (fst \<circ> snd) ` set done_syms
     \<and> dom (ib_interval_map b) = fst ` set done_syms
     \<and> (\<forall>(s, u, now) \<in> set done_syms. ib_cell s b = Some (new_AutoResetCounter u now n d))"

lemma ib_loop_step:
  assumes inv: "ib_loop_inv n d cap ds b" and cap: "int (length ds) < cap"
    and s: "s \<notin> fst ` set ds" and u: "u \<notin> (fst \<circ> snd) ` set ds"
  shows "ib_loop_inv n d cap (ds @ [(s, u, now)]) (ib_add_symbol n d (s, u, now) b)"
proof -
  let ?cb = "ib_interval_boss b"
  let ?p = "length (cb_cells ?cb)" and ?c = "new_AutoResetCounter u now n d"
  let ?cb' = "?cb\<lparr>cb_cells := cb_cells ?cb @ [?c], cb_counter_map := cb_counter_map ?cb @ [(u, ?p)]\<rparr>"
  let ?b' = "b\<lparr>ib_interval_boss := ?cb', ib_interval_map := (ib_interval_map b)(s \<mapsto> ?p)\<rparr>"
  have wf: "cb_wf ?cb" "ran (ib_interval_map b) \<subseteq> set (map snd (cb_counter_map ?cb))"
    "inj_on (ib_interval_map b) (dom (ib_interval_map b))"
    using inv unfolding ib_loop_inv_def ib_wf_def by blast+
  have lt: "\<forall>q \<in> ran (ib_interval_map b). q < ?p" using wf(1,2) by (auto simp: cb_wf_def)
  have new: "u \<notin> fst ` set (cb_counter_map ?cb)" "ib_interval_map b s = None"
    using inv s u by (auto simp: ib_loop_inv_def)
  have cr: "cb_create_new_counter u now n d ?cb = (Some ?p, ?cb')"
    using inv cap new(1)
    by (simp add: ib_loop_inv_def cb_create_new_counter_def new_AutoResetCounter_def update_new_key Let_def)
  have eq: "ib_add_symbol n d (s, u, now) b = ?b'"
    using new(2) by (simp add: ib_add_symbol_def cr)
  have "cb_wf ?cb'" using cb_create_wf[OF wf(1), of u now n d] by (simp add: cr)
  moreover have "inj_on (ib_interval_map ?b') (dom (ib_interval_map ?b'))"
    using wf(3) lt by (fastforce simp: inj_on_def dom_def ran_def)
  moreover have "ran (ib_interval_map ?b') \<subseteq> set (map snd (cb_counter_map ?cb'))"
    using wf(2) new(2) by (auto simp: ran_def)
  ultimately have "ib_wf ?b'" by (simp add: ib_wf_def)
  moreover have "\<forall>(s', u', now') \<in> set ds. ib_cell s' ?b' = Some (new_AutoResetCounter u' now' n d)"
  proof (clarify)
    fix s' u' now' assume m: "(s', u', now') \<in> set ds"
    then have "s' \<noteq> s" using s by force
    moreover from m obtain q where "ib_interval_map b s' = Some q" "cb_cells ?cb ! q = new_AutoResetCounter u' now' n d"
      using inv by (auto simp: ib_loop_inv_def ib_cell_def)
    moreover from this have "q < ?p" using lt by (auto simp: ran_def)
    ultimately show "ib_cell s' ?b' = Some (new_AutoResetCounter u' now' n d)"
      by (simp add: ib_cell_def nth_append)
  qed
  ultimately show ?thesis
    using inv unfolding eq by (auto simp: ib_loop_inv_def ib_cell_def)
qed

lemma ib_loop:
  assumes "ib_loop_inv n d (int (length ds + length ss)) ds b"
    and "distinct (map fst (ds @ ss))" and "distinct (map (fst \<circ> snd) (ds @ ss))"
  shows "ib_loop_inv n d (int (length ds + length ss)) (ds @ ss) (fold (ib_add_symbol n d) ss b)"
  using assms
proof (induction ss arbitrary: ds b)
  case (Cons x ss)
  obtain s u now where x: "x = (s, u, now)" by (metis surj_pair)
  have "ib_loop_inv n d (int (length ds + length (x # ss))) (ds @ [x]) (ib_add_symbol n d x b)"
    unfolding x using Cons.prems x by (intro ib_loop_step) (auto simp: x)
  with Cons.IH[of "ds @ [x]" "ib_add_symbol n d x b"] Cons.prems show ?case by simp
qed simp

lemma ib_init_inv:
  assumes "distinct (map fst symbols)" and "distinct (map (fst \<circ> snd) symbols)"
  shows "ib_loop_inv n d (int (length symbols)) symbols
    (ib_init symbols n d (new_AutoResetOrderIntervalBoss garbage))"
proof -
  let ?b = "(new_AutoResetOrderIntervalBoss garbage)
    \<lparr>ib_interval_boss := cb_init (int (length symbols)) 1 empty_counter_boss\<rparr>"
  have "ib_loop_inv n d (int (length symbols)) [] ?b"
    by (simp add: ib_loop_inv_def ib_wf_def cb_wf_def new_AutoResetOrderIntervalBoss_def cb_init_def
        empty_counter_boss_def)
  then show ?thesis using ib_loop[of n d "[]" symbols ?b] assms by (simp add: ib_init_def)
qed

lemma ib_burn_cell:
  assumes "ib_wf b"
  shows "ib_cell t (snd (ib_burn_semaphore s b)) =
    (if t = s then map_option (\<lambda>c. snd (ac_get_semaphore 1 c)) (ib_cell t b) else ib_cell t b)"
proof (cases "ib_interval_map b s")
  case None
  then show ?thesis by (simp add: ib_burn_semaphore_def ib_cell_def)
next
  case (Some p)
  have lt: "\<And>t q. ib_interval_map b t = Some q \<Longrightarrow> q < length (cb_cells (ib_interval_boss b))"
    using assms by (fastforce simp: ib_wf_def cb_wf_def ran_def)
  have inj: "\<And>t. ib_interval_map b t = Some p \<Longrightarrow> t = s"
    using assms Some by (fastforce simp: ib_wf_def inj_on_def dom_def)
  show ?thesis
    using Some lt[of t] inj[of t]
    by (cases "ib_interval_map b t")
      (auto simp: ib_burn_semaphore_def ib_cell_def cell_update_nth case_prod_beta)
qed

lemma ib_refresh_cell:
  assumes "ib_wf b" and "cb_is_started (ib_interval_boss b)"
  shows "ib_cell t (ib_refresh now b) = map_option (\<lambda>c. snd (ac_reset_if_cycle_end now c)) (ib_cell t b)"
proof (cases "ib_interval_map b t")
  case (Some p)
  have cb: "cb_wf (ib_interval_boss b)" using assms(1) by (simp add: ib_wf_def)
  have "p \<in> set (map snd (cb_counter_map (ib_interval_boss b)))"
    using assms(1) Some by (auto simp: ib_wf_def ran_def)
  moreover from this have "p < length (cb_cells (ib_interval_boss b))"
    using cb by (auto simp: cb_wf_def)
  ultimately show ?thesis
    using Some cb_refresh_cell[OF cb assms(2), of p now] by (simp add: ib_cell_def ib_refresh_def)
qed (simp add: ib_cell_def ib_refresh_def)

lemma ib_has_more_cell:
  "ib_has_more_semaphore s b \<longleftrightarrow> (\<exists>c. ib_cell s b = Some c \<and> 0 < ac_semaphore_remain_count c)"
  by (auto simp: ib_has_more_semaphore_def ib_cell_def ac_peek_remain_semaphore_count_def split: option.splits)

lemma ib_burn_wf: "ib_wf b \<Longrightarrow> ib_wf (snd (ib_burn_semaphore s b))"
  by (auto simp: ib_wf_def cb_wf_def ib_burn_semaphore_def case_prod_beta split: option.splits)

section \<open>Properties\<close>

text \<open>A refused order request leaves no trace: when the account's limiter or the limiter of the
  local address refuses, or the address has no limiter, all budgets are as before the call (the units
  already taken from the account are returned in full).\<close>

theorem order_semaphore_refused_no_effect:
  assumes "lb_wf b" and "fst (lb_get_order_semaphore ip k b) \<noteq> (True, True)"
  shows "snd (lb_get_order_semaphore ip k b) = b"
  by (rule lb_get_refused[OF assms])

theorem order_semaphore_refused_no_effect_witness:
  "\<exists>b. fst (lb_get_order_semaphore ''10.0.0.1'' 1 b) = (True, False)
    \<and> snd (lb_get_order_semaphore ''10.0.0.1'' 1 b) = b"
proof -
  let ?b = "\<lparr>lb_max_capacity = 1, lb_refresh_duration_millis = 1, lb_is_started = True,
    lb_account_limiter = ol_init ''a'' 0 0 3 10000 5 60000,
    lb_ip_limiter_map = [(''10.0.0.1'', ol_init ''i'' 0 0 0 10000 5 60000)]\<rparr>"
  have wf: "lb_wf ?b" by (simp add: lb_wf_def ol_defs)
  have r: "fst (lb_get_order_semaphore ''10.0.0.1'' 1 ?b) = (True, False)"
    by (simp add: lb_get_order_semaphore_def ol_defs Let_def)
  then have "fst (lb_get_order_semaphore ''10.0.0.1'' 1 ?b) \<noteq> (True, True)" by simp
  from r order_semaphore_refused_no_effect[OF wf this] show ?thesis by blast
qed

text \<open>A granted order request takes exactly the requested number from the 10-second and the
  1-minute budget of the account and of the local address, from no other address, and keeps every
  budget between 0 and its limit.\<close>

theorem order_semaphore_granted_accounting:
  assumes "lb_wf b" and "0 \<le> k" and "fst (lb_get_order_semaphore ip k b) = (True, True)"
  shows "\<exists>l l'. map_of (lb_ip_limiter_map b) ip = Some l
    \<and> lb_ip_limiter_map (snd (lb_get_order_semaphore ip k b)) = AList.update ip l' (lb_ip_limiter_map b)
    \<and> (\<forall>(old, new) \<in> {(l, l'), (lb_account_limiter b, lb_account_limiter (snd (lb_get_order_semaphore ip k b)))}.
         ol_second_semaphore_remain_count new = ol_second_semaphore_remain_count old - k
         \<and> ol_minute_semaphore_remain_count new = ol_minute_semaphore_remain_count old - k)
    \<and> lb_wf (snd (lb_get_order_semaphore ip k b))"
proof -
  obtain l where l: "map_of (lb_ip_limiter_map b) ip = Some l"
    "fst (ol_get_order_semaphore k (lb_account_limiter b))" "fst (ol_get_order_semaphore k l)"
    "snd (lb_get_order_semaphore ip k b) =
      b\<lparr>lb_account_limiter := snd (ol_get_order_semaphore k (lb_account_limiter b)),
        lb_ip_limiter_map := AList.update ip (snd (ol_get_order_semaphore k l)) (lb_ip_limiter_map b)\<rparr>"
    using lb_get_granted[OF assms(3)] by blast
  then show ?thesis
    using lb_get_wf[OF assms(1,2), of ip]
    by (intro exI[of _ l] exI[of _ "snd (ol_get_order_semaphore k l)"])
      (simp add: ol_second.take_remain ol_minute.take_remain)
qed

theorem order_semaphore_granted_accounting_witness:
  "\<exists>b. fst (lb_get_order_semaphore ''10.0.0.1'' 1 b) = (True, True)
    \<and> lb_wf (snd (lb_get_order_semaphore ''10.0.0.1'' 1 b))"
proof -
  let ?b = "\<lparr>lb_max_capacity = 1, lb_refresh_duration_millis = 1, lb_is_started = True,
    lb_account_limiter = ol_init ''a'' 0 0 3 10000 5 60000,
    lb_ip_limiter_map = [(''10.0.0.1'', ol_init ''i'' 0 0 2 10000 5 60000)]\<rparr>"
  have wf: "lb_wf ?b" by (simp add: lb_wf_def ol_defs)
  have r: "fst (lb_get_order_semaphore ''10.0.0.1'' 1 ?b) = (True, True)"
    by (simp add: lb_get_order_semaphore_def ol_defs Let_def)
  from r order_semaphore_granted_accounting[OF wf _ r] show ?thesis by auto
qed

text \<open>The account's rate limit holds over whole runs of the limiter boss: in any run whose refresh
  visits span less than one cycle of a budget (10 seconds, 1 minute), all addresses together are
  granted at most the remaining units of that budget plus one refill; and each local address is held
  to its own budgets in the same way.\<close>

theorem order_rate_limit:
  assumes wf: "lb_wf b" and es: "\<forall>e \<in> set es. boss_event_within a c e"
    and ip: "map_of (lb_ip_limiter_map b) ip = Some l"
    and ov: "\<forall>x \<in> {l, lb_account_limiter b}. c + unat (ol_second_reset_duration_millis x) < 2 ^ 64
      \<and> c + unat (ol_minute_reset_duration_millis x) < 2 ^ 64"
  shows "\<forall>(P, x) \<in> {(\<lambda>_. True, lb_account_limiter b), ((=) ip, l)}.
    (c < a + unat (ol_second_reset_duration_millis x) \<longrightarrow>
       lb_granted P es b \<le> ol_second_semaphore_remain_count x + ol_second_semaphore_init_count x)
    \<and> (c < a + unat (ol_minute_reset_duration_millis x) \<longrightarrow>
       lb_granted P es b \<le> ol_minute_semaphore_remain_count x + ol_minute_semaphore_init_count x)"
proof -
  have olwf: "ol_wf (lb_account_limiter b)" "ol_wf l"
    using wf map_of_SomeD[OF ip] by (force simp: lb_wf_def)+
  have gen: "\<And>P x. ol_wf x \<Longrightarrow> x \<in> {l, lb_account_limiter b} \<Longrightarrow>
      lb_granted P es b = granted ol_get_order_semaphore ol_reset_if_cycle_end (limiter_trace P es b) x \<Longrightarrow>
      (c < a + unat (ol_second_reset_duration_millis x) \<longrightarrow>
       lb_granted P es b \<le> ol_second_semaphore_remain_count x + ol_second_semaphore_init_count x)
    \<and> (c < a + unat (ol_minute_reset_duration_millis x) \<longrightarrow>
       lb_granted P es b \<le> ol_minute_semaphore_remain_count x + ol_minute_semaphore_init_count x)"
    using ov limiter_trace_within[OF es]
    by (intro conjI impI; simp only:)
      (rule ol_second.granted_window ol_minute.granted_window; fastforce simp: ol_wf_def)+
  show ?thesis
    using gen[OF olwf(1) _ lb_account_granted[OF wf es]] gen[OF olwf(2) _ lb_ip_granted[OF wf es ip]]
    by simp
qed

theorem order_rate_limit_witness:
  "\<exists>b. lb_granted (\<lambda>_. True) [GetOrder ''i'' 1, RefreshAll 5000, GetOrder ''i'' 1] b \<le> 4"
proof -
  let ?l = "ol_init ''i'' 0 0 2 10000 5 60000"
  let ?b = "\<lparr>lb_max_capacity = 1, lb_refresh_duration_millis = 1, lb_is_started = True,
    lb_account_limiter = ?l, lb_ip_limiter_map = [(''i'', ?l)]\<rparr>"
  have "lb_wf ?b" by (simp add: lb_wf_def ol_defs)
  from order_rate_limit[OF this, of "[GetOrder ''i'' 1, RefreshAll 5000, GetOrder ''i'' 1]" 5000 5000 "''i''" ?l]
  show ?thesis by (intro exI[of _ ?b]) (simp add: ol_init_def)
qed

text \<open>After \<open>init\<close> with distinct symbols (and distinct identifiers) every symbol has a counter of its
  own with the full budget, so no symbol is refused for lack of capacity; burning one symbol's
  semaphore takes one unit of that symbol and none of any other symbol.\<close>

theorem interval_symbols_independent:
  assumes "distinct (map fst symbols)" and "distinct (map (fst \<circ> snd) symbols)"
    and "(s, u, now) \<in> set symbols" and "0 < n"
    and b_def: "b = ib_init symbols n d (new_AutoResetOrderIntervalBoss garbage)"
  shows "ib_has_more_semaphore s b \<and> fst (ib_burn_semaphore s b)
    \<and> ib_cell s (snd (ib_burn_semaphore s b)) =
        Some ((new_AutoResetCounter u now n d)\<lparr>ac_semaphore_remain_count := n - 1\<rparr>)
    \<and> (\<forall>t. t \<noteq> s \<longrightarrow> ib_cell t (snd (ib_burn_semaphore s b)) = ib_cell t b)"
proof -
  have inv: "ib_loop_inv n d (int (length symbols)) symbols b"
    unfolding b_def by (rule ib_init_inv[OF assms(1,2)])
  then have c: "ib_cell s b = Some (new_AutoResetCounter u now n d)" and wf: "ib_wf b"
    using assms(3) by (auto simp: ib_loop_inv_def)
  then have "fst (ib_burn_semaphore s b)"
    using assms(4) by (auto simp: ib_burn_semaphore_def ib_cell_def ac_get_semaphore_def
        new_AutoResetCounter_def case_prod_beta)
  then show ?thesis
    using c assms(4) ib_burn_cell[OF wf]
    by (simp add: ib_has_more_cell new_AutoResetCounter_def ac_get_semaphore_def)
qed

theorem interval_symbols_independent_witness:
  "ib_has_more_semaphore ''BTCUSDT''
     (ib_init [(''BTCUSDT'', ''u1'', 7), (''ETHUSDT'', ''u2'', 8)] 1 100 (new_AutoResetOrderIntervalBoss False))"
  using interval_symbols_independent[OF _ _ _ _ refl,
      where symbols = "[(''BTCUSDT'', ''u1'', 7), (''ETHUSDT'', ''u2'', 8)]" and s = "''BTCUSDT''"
        and u = "''u1''" and now = 7 and n = 1 and d = 100 and garbage = False] by simp

text \<open>The value that \<open>is_started\<close> happens to have before \<open>start\<close> decides whether the interval boss works:
  if it is false, the refresh thread runs and an exhausted symbol trades again once its cycle has
  ended; if it is true, \<open>start\<close> returns at once and no refresh visit ever changes a counter.\<close>

theorem interval_start_needs_initialised_flag:
  assumes "distinct (map fst symbols)" and "distinct (map (fst \<circ> snd) symbols)"
    and "(s, u, now) \<in> set symbols" and "0 < n" and "now + d \<le> t"
    and b_def: "b = (\<lambda>g. ib_start (ib_init symbols n d (new_AutoResetOrderIntervalBoss g)))"
  shows "ib_has_more_semaphore s (ib_refresh t (snd (ib_burn_semaphore s (b False))))
    \<and> ib_refresh t (snd (ib_burn_semaphore s (b True))) = snd (ib_burn_semaphore s (b True))"
proof
  let ?i = "\<lambda>g. ib_init symbols n d (new_AutoResetOrderIntervalBoss g)"
  have inv: "ib_loop_inv n d (int (length symbols)) symbols (?i g)" for g
    by (rule ib_init_inv[OF assms(1,2)])
  have st: "ib_is_started (fold (ib_add_symbol n d) ss x) = ib_is_started x" for ss x
    by (induction ss arbitrary: x)
      (auto simp: ib_add_symbol_def case_prod_beta Let_def split: option.splits)
  have flag: "ib_is_started (?i g) = g" for g
    by (simp add: ib_init_def st new_AutoResetOrderIntervalBoss_def)
  have bF: "b False = (?i False)\<lparr>ib_interval_boss := snd (cb_start (ib_interval_boss (?i False))), ib_is_started := True\<rparr>"
    unfolding b_def by (simp add: ib_start_def flag)
  have wf: "ib_wf (b False)" and on: "cb_is_started (ib_interval_boss (b False))"
    and c: "ib_cell s (b False) = Some (new_AutoResetCounter u now n d)"
    using inv[of False] assms(3) unfolding bF
    by (auto simp: ib_loop_inv_def ib_wf_def cb_wf_def cb_start_def ib_cell_def)
  let ?b1 = "snd (ib_burn_semaphore s (b False))"
  have on1: "cb_is_started (ib_interval_boss ?b1)"
    using on by (simp add: ib_burn_semaphore_def case_prod_beta split: option.splits)
  have "ib_cell s (ib_refresh t ?b1) = Some ((new_AutoResetCounter u now n d)\<lparr>ac_latest_reset_millis := t\<rparr>)"
    using ib_refresh_cell[OF ib_burn_wf[OF wf] on1, of s t] ib_burn_cell[OF wf, of s s] c assms(4,5)
    by (simp add: ac_reset_if_cycle_end_def ac_get_semaphore_def new_AutoResetCounter_def)
  then show "ib_has_more_semaphore s (ib_refresh t ?b1)"
    using assms(4) by (simp add: ib_has_more_cell new_AutoResetCounter_def)
  have "b True = ?i True" unfolding b_def by (simp add: ib_start_def flag)
  moreover have "\<not> cb_is_started (ib_interval_boss (?i True))"
    using inv[of True] by (simp add: ib_loop_inv_def)
  ultimately have "\<not> cb_is_started (ib_interval_boss (snd (ib_burn_semaphore s (b True))))"
    by (simp add: ib_burn_semaphore_def case_prod_beta split: option.splits)
  then show "ib_refresh t (snd (ib_burn_semaphore s (b True))) = snd (ib_burn_semaphore s (b True))"
    by (simp add: ib_refresh_def cb_refresh_counters_def)
qed

theorem interval_start_needs_initialised_flag_witness:
  "ib_has_more_semaphore ''BTCUSDT'' (ib_refresh 200 (snd (ib_burn_semaphore ''BTCUSDT''
     (ib_start (ib_init [(''BTCUSDT'', ''u1'', 7)] 1 100 (new_AutoResetOrderIntervalBoss False))))))"
  using interval_start_needs_initialised_flag[OF _ _ _ _ _ refl,
      where symbols = "[(''BTCUSDT'', ''u1'', 7)]" and s = "''BTCUSDT''"
        and u = "''u1''" and now = 7 and n = 1 and d = 100 and t = 200]
  by simp

end
