(* ===== verification/Double.thy ===== *)
theory Double
  imports Prelude "HOL-Library.Log_Nat"
begin

text \<open>
  IEEE 754 binary64, the \<open>double\<close> of the C++ sources, with round-to-nearest-even. A value is
  not-a-number, a signed infinity, negative zero, or a rational number; the rationals that a
  double can hold are those with \<open>is_f64\<close>, and every operation yields such a value. NaN payloads
  and the floating-point exception flags are not represented; the sources read neither.
  Comparison is the partial order of IEEE 754: every comparison with NaN is false, and the two
  zeros are equal (\<open>feq\<close> is the C++ operator \<open>==\<close>). The operations are instances of
  the library's syntactic classes, so that \<open>a + b\<close>, \<open>a / b\<close> and \<open>a < b\<close> are
  the operators of the sources.
\<close>

section \<open>Rounding\<close>

text \<open>
  \<open>flog2 q\<close> is the exponent of the leading bit of \<open>q > 0\<close>, \<open>rne\<close> rounds half to even,
  \<open>fexp q\<close> is the exponent of the last place of \<open>q\<close> (53-bit significand, subnormals from
  \<open>2 powi -1074\<close>), and \<open>rquant\<close> rounds to a multiple of that place.
\<close>

definition flog2 :: "rat \<Rightarrow> int" where
  "flog2 q = (case quotient_of q of (n, d) \<Rightarrow>
     (let k = bitlen n - bitlen d in if 2 powi k \<le> q then k else k - 1))"

definition rne :: "rat \<Rightarrow> int" where
  "rne q = (let f = \<lfloor>q\<rfloor>; r = q - of_int f
            in if r < 1 / 2 \<or> (r = 1 / 2 \<and> even f) then f else f + 1)"

definition fexp :: "rat \<Rightarrow> int" where
  "fexp q = max (flog2 \<bar>q\<bar> - 52) (- 1074)"

definition rquant :: "rat \<Rightarrow> rat" where
  "rquant q = (if q = 0 then 0 else of_int (rne (q / 2 powi fexp q)) * 2 powi fexp q)"

datatype double = NaN | Inf bool | NZero | Fin rat

lemma bitlen_powi_bounds:
  assumes "x > 0"
  shows "(2::rat) powi (bitlen x - 1) \<le> of_int x \<and> of_int x < (2::rat) powi (bitlen x)"
proof -
  have b: "1 \<le> bitlen x" using assms bitlen_nonneg[of x] bitlen_eq_zero_iff[of x] by linarith
  have "2 ^ nat (bitlen x - 1) \<le> x \<and> x < 2 ^ nat (bitlen x)" using bitlen_bounds assms by blast
  then have "(of_int (2 ^ nat (bitlen x - 1)) :: rat) \<le> of_int x
      \<and> (of_int x :: rat) < of_int (2 ^ nat (bitlen x))"
    by (simp only: of_int_le_iff of_int_less_iff)
  then show ?thesis using b by (simp add: power_int_nonneg_exp)
qed

lemma flog2_bounds:
  assumes "0 < q"
  shows "2 powi flog2 q \<le> q \<and> q < 2 powi (flog2 q + 1)"
proof -
  obtain n d where nd: "quotient_of q = (n, d)" by (cases "quotient_of q")
  have d: "0 < d" using quotient_of_denom_pos[OF nd] .
  have q: "q = of_int n / of_int d" using quotient_of_div[OF nd] .
  have n: "0 < n" using assms d q by (simp add: zero_less_divide_iff)
  let ?a = "bitlen n" and ?b = "bitlen d"
  note bn = bitlen_powi_bounds[OF n] and bd = bitlen_powi_bounds[OF d]
  have dpos: "(0::rat) < of_int d" using d by simp
  have split: "(2::rat) powi (x + y) = 2 powi x * 2 powi y" for x y by (rule power_int_add) simp
  have up: "q < 2 powi (?a - ?b + 1)"
  proof -
    have "of_int n < (2::rat) powi (?a - ?b + 1) * 2 powi (?b - 1)"
      using bn by (simp flip: split)
    also have "\<dots> \<le> 2 powi (?a - ?b + 1) * of_int d"
      using bd by (intro mult_left_mono) auto
    finally show ?thesis using dpos by (simp add: q field_simps)
  qed
  have lo: "2 powi (?a - ?b - 1) \<le> q"
  proof -
    have "(2::rat) powi (?a - ?b - 1) * of_int d \<le> 2 powi (?a - ?b - 1) * 2 powi ?b"
      using bd by (intro mult_left_mono) auto
    also have "\<dots> = 2 powi (?a - 1)" by (simp flip: split)
    also have "\<dots> \<le> of_int n" using bn by simp
    finally show ?thesis using dpos by (simp add: q field_simps)
  qed
  show ?thesis using up lo by (auto simp: flog2_def nd Let_def)
qed


lemma powi2_pos [simp]: "(0::rat) < 2 powi k"
  by simp

lemma powi2_not_le [simp]: "\<not> 2 powi k \<le> (0::rat)" "\<not> 2 powi k < (0::rat)"
  using powi2_pos [of k] by linarith+

lemma powi2_le_iff [simp]: "(2::rat) powi j \<le> 2 powi k \<longleftrightarrow> j \<le> k"
  by (meson linorder_not_le one_less_numeral_iff power_int_increasing power_int_strict_increasing
      semiring_norm(76) one_le_numeral)

lemma powi2_less_iff [simp]: "(2::rat) powi j < 2 powi k \<longleftrightarrow> j < k"
  by (simp add: less_le_not_le)

lemma powi2_add: "(2::rat) powi (j + k) = 2 powi j * 2 powi k"
  by (rule power_int_add) simp

lemma flog2_unique:
  assumes "2 powi k \<le> q" and "q < 2 powi (k + 1)"
  shows "flog2 q = k"
proof -
  have q: "0 < q" using assms(1) powi2_pos less_le_trans by blast
  have "2 powi k < (2::rat) powi (flog2 q + 1)" "2 powi flog2 q < (2::rat) powi (k + 1)"
    using flog2_bounds[OF q] assms by (meson le_less_trans)+
  then have "k < flog2 q + 1" "flog2 q < k + 1" by (simp_all only: powi2_less_iff)
  then show ?thesis by simp
qed

lemma flog2_mono:
  assumes "0 < p" and "p \<le> q"
  shows "flog2 p \<le> flog2 q"
proof -
  have "2 powi flog2 p < (2::rat) powi (flog2 q + 1)"
    using flog2_bounds[OF assms(1)] flog2_bounds[of q] assms by linarith
  then show ?thesis by (simp only: powi2_less_iff)
qed

subsection \<open>Round half to even\<close>

lemma rne_of_int [simp]: "rne (of_int n) = n"
  by (simp add: rne_def)

lemma rne_error: "of_int (rne q) \<le> q + 1 / 2 \<and> q \<le> of_int (rne q) + 1 / 2"
  by (auto simp: rne_def Let_def) linarith+

lemma rne_mono:
  assumes "p \<le> q"
  shows "rne p \<le> rne q"
proof (cases "\<lfloor>p\<rfloor> = \<lfloor>q\<rfloor>")
  case True
  with assms show ?thesis by (auto simp: rne_def Let_def)
next
  case False
  then have "\<lfloor>p\<rfloor> + 1 \<le> \<lfloor>q\<rfloor>" using floor_mono[OF assms] by simp
  moreover have "rne p \<le> \<lfloor>p\<rfloor> + 1" "\<lfloor>q\<rfloor> \<le> rne q" by (auto simp: rne_def Let_def)
  ultimately show ?thesis by linarith
qed

lemma rne_minus: "rne (- q) = - rne q"
proof (cases "q = of_int \<lfloor>q\<rfloor>")
  case True
  then show ?thesis by (metis of_int_minus rne_of_int)
next
  case False
  then have f: "\<lfloor>- q\<rfloor> = - \<lfloor>q\<rfloor> - 1"
    by (intro floor_unique) (auto simp: algebra_simps less_le, linarith)
  show ?thesis unfolding rne_def Let_def f by auto
qed


subsection \<open>Rounding to a 53-bit significand\<close>

lemma rquant_0 [simp]: "rquant 0 = 0"
  by (simp add: rquant_def)

lemma fexp_minus [simp]: "fexp (- q) = fexp q"
  by (simp add: fexp_def)

lemma rquant_minus: "rquant (- q) = - rquant q"
  by (auto simp: rquant_def rne_minus simp flip: minus_divide_left)

lemma rquant_upper:
  assumes "p \<le> of_int m * 2 powi fexp p"
  shows "rquant p \<le> of_int m * 2 powi fexp p"
proof (cases "p = 0")
  case False
  have "p / 2 powi fexp p \<le> of_int m" using assms by (simp add: divide_le_eq)
  then have "rne (p / 2 powi fexp p) \<le> m" using rne_mono rne_of_int by metis
  then have "(of_int (rne (p / 2 powi fexp p)) :: rat) \<le> of_int m" by (simp only: of_int_le_iff)
  with False show ?thesis by (simp add: rquant_def mult_right_mono)
qed (use assms in simp)

lemma rquant_lower:
  assumes "of_int m * 2 powi fexp p \<le> p"
  shows "of_int m * 2 powi fexp p \<le> rquant p"
  using rquant_upper[of "- p" "- m"] assms by (simp add: rquant_minus)

lemma rquant_grid:
  assumes q: "q = of_int m * 2 powi e" and e: "- 1074 \<le> e" and m: "\<bar>m\<bar> < 2 ^ 53"
  shows "rquant q = q"
proof (cases "q = 0")
  case False
  have "\<bar>q\<bar> < 2 powi (e + 53)"
  proof -
    have "(of_int \<bar>m\<bar> :: rat) < of_int (2 ^ 53)" using m by (simp only: of_int_less_iff)
    then have "of_int \<bar>m\<bar> * (2::rat) powi e < 2 ^ 53 * 2 powi e"
      by (intro mult_strict_right_mono) simp_all
    then show ?thesis by (simp add: q abs_mult powi2_add power_int_abs)
  qed
  then have "2 powi flog2 \<bar>q\<bar> < (2::rat) powi (e + 53)"
    using flog2_bounds[of "\<bar>q\<bar>"] False by linarith
  then have "flog2 \<bar>q\<bar> < e + 53" by (simp only: powi2_less_iff)
  then have fe: "fexp q \<le> e" using e by (simp add: fexp_def)
  have "q / 2 powi fexp q = of_int m * 2 powi (e - fexp q)"
    by (simp add: q power_int_diff)
  also have "\<dots> = of_int (m * 2 ^ nat (e - fexp q))"
    using fe by (simp add: power_int_nonneg_exp)
  finally have "of_int (rne (q / 2 powi fexp q)) = q / 2 powi fexp q"
    by (metis rne_of_int)
  then show ?thesis using False by (simp add: rquant_def)
qed simp

lemma rquant_powi2:
  assumes "- 1074 \<le> e"
  shows "rquant (2 powi e) = 2 powi e"
  using rquant_grid[of "2 powi e" 1 e] assms by simp

lemma rquant_mono_pos:
  assumes "0 < p" and "p \<le> q"
  shows "rquant p \<le> rquant q"
proof (cases "fexp p = fexp q")
  case True
  have "p / 2 powi fexp q \<le> q / 2 powi fexp q" using assms(2) by (simp add: divide_right_mono)
  then have "(of_int (rne (p / 2 powi fexp q)) :: rat) \<le> of_int (rne (q / 2 powi fexp q))"
    by (simp only: of_int_le_iff rne_mono)
  with assms True show ?thesis by (auto simp: rquant_def intro: mult_right_mono)
next
  case False
  let ?k = "flog2 q"
  have lm: "flog2 p \<le> ?k" using flog2_mono assms by blast
  have ep: "fexp p = max (flog2 p - 52) (- 1074)" and eq: "fexp q = max (?k - 52) (- 1074)"
    using assms by (simp_all add: fexp_def)
  have lt: "flog2 p + 1 \<le> ?k" and eq': "fexp q = ?k - 52" and k: "fexp p \<le> ?k"
    using False lm unfolding ep eq by linarith+
  have pk: "p \<le> 2 powi ?k"
    using flog2_bounds[OF assms(1)] lt powi2_le_iff[of "flog2 p + 1" ?k] by linarith
  have qk: "2 powi ?k \<le> q" using flog2_bounds[of q] assms by simp
  have *: "(2::rat) powi ?k = of_int (2 ^ nat (?k - e)) * 2 powi e" if "e \<le> ?k" for e
  proof -
    have "(2::rat) powi ?k = 2 powi (?k - e) * 2 powi e" by (simp flip: powi2_add)
    then show ?thesis using that by (simp add: power_int_nonneg_exp)
  qed
  have "rquant p \<le> 2 powi ?k"
    using rquant_upper[of p "2 ^ nat (?k - fexp p)"] pk *[OF k] by simp
  also have "\<dots> \<le> rquant q"
    using rquant_lower[of "2 ^ nat (?k - fexp q)" q] qk *[of "fexp q"] eq' by simp
  finally show ?thesis .
qed

lemma rquant_sign: "0 \<le> q \<Longrightarrow> 0 \<le> rquant q"
  using rquant_lower[of 0 q] by simp

lemma rquant_mono:
  assumes "p \<le> q"
  shows "rquant p \<le> rquant q"
proof -
  consider "0 < p" | "p \<le> 0" "0 \<le> q" | "q < 0" by linarith
  then show ?thesis
  proof cases
    case 1
    then show ?thesis using rquant_mono_pos assms by blast
  next
    case 2
    then show ?thesis
      using rquant_sign[of q] rquant_sign[of "- p"] by (simp add: rquant_minus)
  next
    case 3
    then have "rquant (- q) \<le> rquant (- p)" using rquant_mono_pos[of "- q" "- p"] assms by simp
    then show ?thesis by (simp add: rquant_minus)
  qed
qed

lemma rquant_rne_bound:
  assumes "q \<noteq> 0"
  shows "\<bar>rne (q / 2 powi fexp q)\<bar> \<le> 2 ^ 53"
proof -
  have "\<bar>q\<bar> < 2 powi (flog2 \<bar>q\<bar> + 1)" using flog2_bounds[of "\<bar>q\<bar>"] assms by simp
  also have "\<dots> \<le> 2 powi (fexp q + 53)" by (simp only: powi2_le_iff) (simp add: fexp_def)
  also have "\<dots> = 2 ^ 53 * 2 powi fexp q" by (simp add: powi2_add)
  finally have "\<bar>q / 2 powi fexp q\<bar> \<le> of_int (2 ^ 53)"
    by (simp add: divide_le_eq power_int_abs)
  then have "q / 2 powi fexp q \<le> of_int (2 ^ 53)" "of_int (- (2 ^ 53)) \<le> q / 2 powi fexp q"
    by (simp_all only: abs_le_iff of_int_minus) linarith+
  then have "rne (q / 2 powi fexp q) \<le> rne (of_int (2 ^ 53))"
    "rne (of_int (- (2 ^ 53))) \<le> rne (q / 2 powi fexp q)"
    by (simp_all only: rne_mono)
  then show ?thesis unfolding rne_of_int by (intro abs_leI) linarith+
qed

lemma rquant_grid_closed:
  assumes q: "q = of_int m * 2 powi e" and e: "- 1074 \<le> e" and m: "\<bar>m\<bar> \<le> 2 ^ 53"
  shows "rquant q = q"
proof -
  consider "\<bar>m\<bar> < 2 ^ 53" | "m = 2 ^ 53" | "m = - (2 ^ 53)" using m by linarith
  then show ?thesis
  proof cases
    case 1
    then show ?thesis using rquant_grid[OF q e] by simp
  next
    case 2
    then have "q = 2 powi (e + 53)" by (simp add: q powi2_add)
    then show ?thesis using rquant_powi2[of "e + 53"] e by simp
  next
    case 3
    then have "q = - (2 powi (e + 53))" by (simp add: q powi2_add)
    then show ?thesis using rquant_powi2[of "e + 53"] e by (simp add: rquant_minus)
  qed
qed

lemma rquant_on_grid:
  assumes "q \<noteq> 0"
  shows "\<exists>m e. rquant q = of_int m * 2 powi e \<and> - 1074 \<le> e \<and> \<bar>m\<bar> \<le> 2 ^ 53"
  using rquant_rne_bound[OF assms] assms
  by (intro exI[of _ "rne (q / 2 powi fexp q)"] exI[of _ "fexp q"]) (auto simp: rquant_def fexp_def)

lemma rquant_idem [simp]: "rquant (rquant q) = rquant q"
proof (cases "q = 0")
  case False
  then obtain m e where "rquant q = of_int m * 2 powi e" "- 1074 \<le> e" "\<bar>m\<bar> \<le> 2 ^ 53"
    using rquant_on_grid by blast
  then show ?thesis by (rule rquant_grid_closed)
qed simp

lemma rquant_scale:
  assumes "rquant q = q"
  shows "rquant (2 ^ k * q) = 2 ^ k * q"
proof (cases "q = 0")
  case False
  then obtain m e where g: "q = of_int m * 2 powi e" "- 1074 \<le> e" "\<bar>m\<bar> \<le> 2 ^ 53"
    using rquant_on_grid[of q] assms by auto
  have "2 ^ k * q = of_int m * 2 powi (e + int k)"
    by (simp add: g(1) powi2_add del: power_int_add_numeral)
  moreover have "- 1074 \<le> e + int k" using g(2) by simp
  ultimately show ?thesis using g(3) by (rule rquant_grid_closed)
qed simp

lemma rquant_least_pos:
  assumes "rquant q = q" and "0 < q"
  shows "2 powi - 1074 \<le> q"
proof -
  obtain m e where g: "q = of_int m * 2 powi e" "- 1074 \<le> e"
    using rquant_on_grid[of q] assms by auto
  have "1 \<le> m" using assms(2) g(1) by (simp add: zero_less_mult_iff)
  then have "1 * (2::rat) powi e \<le> of_int m * 2 powi e" by (intro mult_right_mono) simp_all
  moreover have "(2::rat) powi - 1074 \<le> 2 powi e" using g(2) by (simp only: powi2_le_iff)
  ultimately show ?thesis unfolding g(1) by (simp only: mult_1)
qed

lemma rquant_eval:
  assumes "2 powi k \<le> \<bar>q\<bar>" and "\<bar>q\<bar> < 2 powi (k + 1)" and "- 1022 \<le> k"
    and "\<bar>q / 2 powi (k - 52) - of_int m\<bar> < 1 / 2"
  shows "rquant q = of_int m * 2 powi (k - 52)"
proof -
  have q: "q \<noteq> 0" using assms(1) powi2_pos[of k] by auto
  have "fexp q = k - 52" using flog2_unique[OF assms(1,2)] assms(3) by (simp add: fexp_def)
  moreover have "rne (q / 2 powi (k - 52)) = m"
    using assms(4) rne_error[of "q / 2 powi (k - 52)"] by linarith
  ultimately show ?thesis using q by (simp add: rquant_def)
qed

lemma rquant_of_int:
  assumes "\<bar>n\<bar> \<le> 2 ^ 53"
  shows "rquant (of_int n) = of_int n"
proof (cases "\<bar>n\<bar> < 2 ^ 53")
  case True
  then show ?thesis using rquant_grid[of "of_int n" n 0] by simp
next
  case False
  then have "n = 2 ^ 53 \<or> n = - (2 ^ 53)" using assms by linarith
  then show ?thesis using rquant_powi2[of 53] by (auto simp: rquant_minus)
qed


section \<open>Arithmetic and comparison\<close>

text \<open>
  \<open>signed_round s q\<close> is the rounded value of \<open>q\<close>, where \<open>s\<close> is the sign the result has when
  it is a zero or overflows. \<open>dbl q\<close> is the double that a literal of value \<open>q\<close> denotes,
  \<open>to_double\<close> the conversion from an integer type.
\<close>

fun neg_sign :: "double \<Rightarrow> bool" where
  "neg_sign NaN = False"
| "neg_sign (Inf s) = s"
| "neg_sign NZero = True"
| "neg_sign (Fin q) = (q < 0)"

fun fval :: "double \<Rightarrow> rat" where
  "fval (Fin q) = q"
| "fval _ = 0"

fun finite_d :: "double \<Rightarrow> bool" where
  "finite_d (Fin _) = True"
| "finite_d NZero = True"
| "finite_d _ = False"

definition signed_round :: "bool \<Rightarrow> rat \<Rightarrow> double" where
  "signed_round s q =
     (if rquant q = 0 then (if s then NZero else Fin 0)
      else if 2 ^ 1024 \<le> \<bar>rquant q\<bar> then Inf s else Fin (rquant q))"

instantiation double :: "{plus, minus, uminus, times, inverse, ord}"
begin

fun uminus_double :: "double \<Rightarrow> double" where
  "- NaN = NaN"
| "- Inf s = Inf (\<not> s)"
| "- NZero = Fin 0"
| "- Fin q = (if q = 0 then NZero else Fin (- q))"

fun plus_double :: "double \<Rightarrow> double \<Rightarrow> double" where
  "NaN + y = NaN"
| "x + NaN = NaN"
| "Inf s + Inf t = (if s = t then Inf s else NaN)"
| "Inf s + y = Inf s"
| "x + Inf t = Inf t"
| "x + y = (let q = fval x + fval y in
     signed_round (if q = 0 then neg_sign x \<and> neg_sign y else q < 0) q)"

definition minus_double :: "double \<Rightarrow> double \<Rightarrow> double" where
  "x - y = x + (- y :: double)"

fun times_double :: "double \<Rightarrow> double \<Rightarrow> double" where
  "NaN * y = NaN"
| "x * NaN = NaN"
| "Inf s * y = (if fval y = 0 \<and> finite_d y then NaN else Inf (s \<noteq> neg_sign y))"
| "x * Inf t = (if fval x = 0 then NaN else Inf (neg_sign x \<noteq> t))"
| "x * y = signed_round (neg_sign x \<noteq> neg_sign y) (fval x * fval y)"

fun divide_double :: "double \<Rightarrow> double \<Rightarrow> double" where
  "divide_double NaN y = NaN"
| "divide_double x NaN = NaN"
| "divide_double (Inf s) (Inf t) = NaN"
| "divide_double (Inf s) y = Inf (s \<noteq> neg_sign y)"
| "divide_double x (Inf t) = (if neg_sign x \<noteq> t then NZero else Fin 0)"
| "divide_double x y =
     (if fval y = 0
      then (if fval x = 0 then NaN else Inf (neg_sign x \<noteq> neg_sign y))
      else signed_round (neg_sign x \<noteq> neg_sign y) (fval x / fval y))"

definition inverse_double :: "double \<Rightarrow> double" where
  "inverse_double x = divide (Fin 1) x"

fun less_double :: "double \<Rightarrow> double \<Rightarrow> bool" where
  "NaN < y = False"
| "x < NaN = False"
| "Inf s < y = (s \<and> y \<noteq> Inf True)"
| "x < Inf t = (\<not> t)"
| "x < y = (fval x < fval y)"

fun less_eq_double :: "double \<Rightarrow> double \<Rightarrow> bool" where
  "NaN \<le> y = False"
| "x \<le> NaN = False"
| "Inf s \<le> y = (s \<or> y = Inf False)"
| "x \<le> Inf t = (\<not> t)"
| "x \<le> y = (fval x \<le> fval y)"

instance ..
end

fun feq :: "double \<Rightarrow> double \<Rightarrow> bool" where
  "feq NaN y = False"
| "feq x NaN = False"
| "feq (Inf s) y = (y = Inf s)"
| "feq x (Inf t) = False"
| "feq x y = (fval x = fval y)"

definition to_double :: "int \<Rightarrow> double" where
  "to_double n = signed_round (n < 0) (of_int n)"

definition is_f64 :: "double \<Rightarrow> bool" where
  "is_f64 x = (case x of Fin q \<Rightarrow> rquant q = q \<and> \<bar>q\<bar> < 2 ^ 1024 | _ \<Rightarrow> True)"

definition dbl :: "rat \<Rightarrow> double" where
  "dbl q = signed_round (q < 0) q"


subsection \<open>Every operation yields a binary64 value\<close>

lemma signed_round_f64 [simp]: "is_f64 (signed_round s q)"
  by (simp add: signed_round_def is_f64_def)

lemma uminus_f64 [simp]: "is_f64 x \<Longrightarrow> is_f64 (- x)"
  by (cases x) (auto simp: is_f64_def rquant_minus)

lemma plus_f64 [simp]: "is_f64 (x + y)"
  by (cases x; cases y) (auto simp: Let_def is_f64_def [of "Inf _"] is_f64_def [of NaN])

lemma minus_f64 [simp]: "is_f64 (x - y)"
  by (simp add: minus_double_def)

lemma times_f64 [simp]: "is_f64 (x * y)"
  by (cases x; cases y) (auto simp: is_f64_def [of "Inf _"] is_f64_def [of NaN])

lemma divide_f64 [simp]: "is_f64 (x / y)"
  by (cases x; cases y)
    (auto simp: is_f64_def [of "Inf _"] is_f64_def [of NaN] is_f64_def [of NZero]
      is_f64_def [of "Fin 0"])

lemma dbl_f64 [simp]: "is_f64 (dbl q)" "is_f64 (to_double n)"
  by (simp_all add: dbl_def to_double_def)

subsection \<open>Order\<close>

lemma d_not_less: "x \<noteq> NaN \<Longrightarrow> y \<noteq> NaN \<Longrightarrow> \<not> x < y \<longleftrightarrow> y \<le> x" for x y :: double
  by (cases x; cases y) auto

lemma d_not_le: "x \<noteq> NaN \<Longrightarrow> y \<noteq> NaN \<Longrightarrow> \<not> x \<le> y \<longleftrightarrow> y < x" for x y :: double
  by (cases x; cases y) auto

lemma d_less_imp_le: "x < y \<Longrightarrow> x \<le> y" for x y :: double
  by (cases x; cases y) auto

lemma d_le_refl: "x \<noteq> NaN \<Longrightarrow> x \<le> x" for x :: double
  by (cases x) auto

lemma d_le_trans: "x \<le> y \<Longrightarrow> y \<le> z \<Longrightarrow> x \<le> z" for x y z :: double
  by (cases x; cases y; cases z) auto

lemma d_less_le_trans: "x < y \<Longrightarrow> y \<le> z \<Longrightarrow> x < z" for x y z :: double
  by (cases x; cases y; cases z) auto

lemma d_le_less_trans: "x \<le> y \<Longrightarrow> y < z \<Longrightarrow> x < z" for x y z :: double
  by (cases x; cases y; cases z) auto

lemma d_less_irrefl [simp]: "\<not> x < x" for x :: double
  by (cases x) auto

lemma d_le_notNaN: "x \<le> y \<Longrightarrow> x \<noteq> NaN \<and> y \<noteq> NaN" for x y :: double
  by (cases x; cases y) auto

lemma d_less_notNaN: "x < y \<Longrightarrow> x \<noteq> NaN \<and> y \<noteq> NaN" for x y :: double
  by (cases x; cases y) auto

lemma feq_iff_le: "feq x y \<longleftrightarrow> x \<le> y \<and> y \<le> x"
  by (cases x; cases y) auto

lemma feq_sym: "feq x y \<longleftrightarrow> feq y x"
  by (auto simp: feq_iff_le)

lemma feq_refl_iff: "feq x x \<longleftrightarrow> x \<noteq> NaN"
  by (cases x) auto

lemma feq_zero_iff: "feq x (Fin 0) \<longleftrightarrow> x = Fin 0 \<or> x = NZero"
  by (cases x) auto

subsection \<open>Rounding and the order\<close>

lemma signed_round_mono:
  assumes "p \<le> q" and "s \<longrightarrow> p \<le> 0" and "\<not> s \<longrightarrow> 0 \<le> p" and "t \<longrightarrow> q \<le> 0" and "\<not> t \<longrightarrow> 0 \<le> q"
  shows "signed_round s p \<le> signed_round t q"
proof -
  have m: "rquant p \<le> rquant q" using rquant_mono[OF assms(1)] .
  have sp: "s \<longrightarrow> rquant p \<le> 0" "\<not> s \<longrightarrow> 0 \<le> rquant p" "t \<longrightarrow> rquant q \<le> 0" "\<not> t \<longrightarrow> 0 \<le> rquant q"
    using assms(2-5) rquant_mono[of p 0] rquant_mono[of 0 p] rquant_mono[of q 0] rquant_mono[of 0 q]
    by simp_all
  show ?thesis
  proof (cases "rquant p = 0 \<or> rquant q = 0")
    case True
    with m sp show ?thesis by (cases s; cases t) (auto simp: signed_round_def)
  next
    case False
    with m sp show ?thesis by (cases s; cases t) (auto simp: signed_round_def)
  qed
qed

lemma fval_signed_round:
  "\<bar>rquant q\<bar> < 2 ^ 1024 \<Longrightarrow> fval (signed_round s q) = rquant q \<and> finite_d (signed_round s q)"
  by (auto simp: signed_round_def)

lemma signed_round_exact:
  "rquant q = q \<Longrightarrow> q \<noteq> 0 \<Longrightarrow> \<bar>q\<bar> < 2 ^ 1024 \<Longrightarrow> signed_round s q = Fin q"
  by (simp add: signed_round_def)

lemma signed_round_zero [simp]: "signed_round s 0 = (if s then NZero else Fin 0)"
  by (simp add: signed_round_def)

lemma rquant_numeral [simp]:
  "numeral n \<le> (2 ^ 53 :: int) \<Longrightarrow> rquant (numeral n) = numeral n"
  using rquant_of_int[of "numeral n"] by simp

lemma rquant_one [simp]: "rquant 1 = 1"
  using rquant_of_int[of 1] by simp

lemma rquant_neg_numeral [simp]:
  "numeral n \<le> (2 ^ 53 :: int) \<Longrightarrow> rquant (- numeral n) = - numeral n"
  by (simp add: rquant_minus)

lemma to_double_exact:
  assumes "\<bar>n\<bar> \<le> 2 ^ 53"
  shows "to_double n = Fin (of_int n)"
proof -
  have "\<bar>of_int n :: rat\<bar> \<le> of_int (2 ^ 53)" using assms by (simp only: of_int_abs [symmetric] of_int_le_iff)
  then have "\<bar>of_int n :: rat\<bar> < 2 ^ 1024" by simp
  then show ?thesis
    using rquant_of_int[OF assms] by (auto simp: to_double_def signed_round_def)
qed

lemma signed_round_nonneg:
  assumes "0 \<le> r" and "r = 0 \<or> \<not> s"
  shows "Fin 0 \<le> signed_round s r"
proof (cases s)
  case True
  then show ?thesis using assms by simp
next
  case False
  then show ?thesis using rquant_sign[OF assms(1)] by (simp add: signed_round_def)
qed

lemma d_nonneg_div:
  assumes "Fin 0 \<le> x" and "Fin 0 < y" and "x \<noteq> Inf False \<or> y \<noteq> Inf False"
  shows "Fin 0 \<le> x / y"
proof (cases "finite_d x \<and> finite_d y")
  case True
  then have q: "0 \<le> fval x" "0 < fval y" using assms by (cases x; cases y; simp)+
  have d: "x / y = signed_round (neg_sign x \<noteq> neg_sign y) (fval x / fval y)"
    and s: "fval x = 0 \<or> (neg_sign x = neg_sign y)"
    using True q by (cases x; cases y; simp)+
  show ?thesis unfolding d by (rule signed_round_nonneg) (use q s in auto)
next
  case False
  then show ?thesis using assms by (cases x; cases y) auto
qed

lemma d_diff_nonneg:
  assumes "y \<le> x" and "finite_d x" and "finite_d y"
  shows "Fin 0 \<le> x - y"
proof -
  have q: "0 \<le> fval x - fval y" using assms by (cases x; cases y) auto
  let ?q = "fval x + fval (- y)"
  have n: "fval (- y) = - fval y" "finite_d (- y)" using assms by (cases y; simp)+
  have "x - y = signed_round (if ?q = 0 then neg_sign x \<and> neg_sign (- y) else ?q < 0) ?q"
    using assms(2) n(2) unfolding minus_double_def by (cases x; cases "- y") (auto simp: Let_def)
  then show ?thesis
    using q n by (simp only:) (rule signed_round_nonneg, auto)
qed

end
