(* ===== verification/Shm.thy ===== *)
theory Shm
  imports Double
begin

text \<open>
  \<open>src/src/shm/\<close>: the slots of the shared-memory segments and their writers and readers. A segment is
  a list of slots, an offset outside the segment is \<open>OutOfBounds\<close>. A character array holds a C string:
  \<open>strncpy\<close> with the terminator set afterwards truncates, \<open>memcpy\<close> of a longer string overflows the
  array. The functions are modelled as they run once they hold the slot's lock; the unlocked first
  check and the spin lock itself are the subject of \<open>ShmLock\<close>.
\<close>

section \<open>Character arrays\<close>

definition strncpy_buf :: "nat \<Rightarrow> string \<Rightarrow> string" where
  "strncpy_buf cap src = take (cap - 1) src"

definition memcpy_buf :: "nat \<Rightarrow> string \<Rightarrow> string result" where
  "memcpy_buf cap src = (if length src + 1 \<le> cap then Inr src else Inl BufferOverflow)"

lemma memcpy_buf_Inr_iff: "memcpy_buf n s = Inr t \<longleftrightarrow> t = s \<and> length s < n"
  by (auto simp: memcpy_buf_def)

lemma memcpy_buf_fits [simp]: "length s < n \<Longrightarrow> memcpy_buf n s = Inr s"
  by (simp add: memcpy_buf_def)

lemma strncpy_buf_fits [simp]: "length s < n \<Longrightarrow> strncpy_buf n s = s"
  by (simp add: strncpy_buf_def)

lemma strncpy_buf_length: "0 < n \<Longrightarrow> length (strncpy_buf n s) < n"
  by (auto simp: strncpy_buf_def)

section \<open>Slots with a version number\<close>

text \<open>
  All slot types share a protocol: an update that is not newer than the slot changes nothing and
  returns 0; an accepted update increments the version number once. Readers compare version numbers
  to find out that a slot has changed.
\<close>

definition seg_modify :: "('s \<Rightarrow> ('r \<times> 's) result) \<Rightarrow> 's list \<Rightarrow> int \<Rightarrow> ('r \<times> 's list) result" where
  "seg_modify f seg i = bind_result (seg_get seg i) (\<lambda>s. bind_result (f s) (\<lambda>(r, s').
     bind_result (seg_set seg i s') (\<lambda>seg'. Inr (r, seg'))))"

lemma seg_modify_Inr_iff:
  "seg_modify f seg i = Inr (r, seg') \<longleftrightarrow>
   (\<exists>s s'. seg_get seg i = Inr s \<and> f s = Inr (r, s') \<and> seg_set seg i s' = Inr seg')"
  by (auto simp: seg_modify_def bind_result_Inr_iff split: prod.splits)

lemma seg_modify_OutOfBounds:
  "\<not> (0 \<le> i \<and> i < int (length seg)) \<Longrightarrow> seg_modify f seg i = Inl OutOfBounds"
  by (auto simp: seg_modify_def seg_get_def)

fun run_slot :: "('v \<Rightarrow> 's \<Rightarrow> (int \<times> 's) result) \<Rightarrow> 'v list \<Rightarrow> 's \<Rightarrow> 's result" where
  "run_slot upd [] s = Inr s"
| "run_slot upd (v # vs) s = bind_result (upd v s) (\<lambda>(_, s'). run_slot upd vs s')"

fun accepted :: "('s \<Rightarrow> 'v \<Rightarrow> bool) \<Rightarrow> ('v \<Rightarrow> 's \<Rightarrow> (int \<times> 's) result) \<Rightarrow> 'v list \<Rightarrow> 's \<Rightarrow> nat" where
  "accepted newer upd [] s = 0"
| "accepted newer upd (v # vs) s =
     (if newer s v then 1 else 0)
     + (case upd v s of Inr (_, s') \<Rightarrow> accepted newer upd vs s' | Inl _ \<Rightarrow> 0)"

locale versioned_slot =
  fixes version :: "'s \<Rightarrow> i64"
    and newer :: "'s \<Rightarrow> 'v \<Rightarrow> bool"
    and fits :: "'v \<Rightarrow> bool"
    and upd :: "'v \<Rightarrow> 's \<Rightarrow> (int \<times> 's) result"
  assumes stale: "\<not> newer s v \<Longrightarrow> upd v s = Inr (0, s)"
    and fresh: "newer s v \<Longrightarrow> fits v \<Longrightarrow> \<exists>r s'. upd v s = Inr (r, s') \<and> version s' = version s + 1"
begin

lemma upd_total: "fits v \<Longrightarrow> \<exists>r s'. upd v s = Inr (r, s')"
  using stale fresh by (cases "newer s v") blast+

lemma upd_version:
  assumes "fits v" and "upd v s = Inr (r, s')"
  shows "version s' = version s + (if newer s v then 1 else 0)"
  using assms stale[of s v] fresh[of s v] by (cases "newer s v") auto

lemma run_version:
  assumes "\<forall>v \<in> set vs. fits v"
  shows "\<exists>s'. run_slot upd vs s = Inr s' \<and> version s' = version s + of_nat (accepted newer upd vs s)"
  using assms
proof (induction vs arbitrary: s)
  case (Cons v vs)
  obtain r s1 where s1: "upd v s = Inr (r, s1)" using upd_total Cons.prems by force
  obtain s' where "run_slot upd vs s1 = Inr s'" "version s' = version s1 + of_nat (accepted newer upd vs s1)"
    using Cons by force
  then show ?case using s1 upd_version[OF _ s1] Cons.prems by simp
qed simp

lemma accepted_le: "accepted newer upd vs s \<le> length vs"
proof (induction vs arbitrary: s)
  case (Cons v vs)
  show ?case
  proof (cases "upd v s")
    case (Inr p)
    then show ?thesis using Cons.IH[of "snd p"] by (cases p) simp
  qed simp
qed simp

lemma accepted_none:
  "accepted newer upd vs s = 0 \<Longrightarrow> run_slot upd vs s = Inr s"
  by (induction vs) (auto simp: stale split: if_splits)

lemma version_detects_change:
  assumes "\<forall>v \<in> set vs. fits v" and "length vs < 2 ^ 64" and "run_slot upd vs s = Inr s'"
    and "version s' = version s"
  shows "s' = s"
proof -
  have "of_nat (accepted newer upd vs s) = (0 :: i64)"
    using run_version[OF assms(1), of s] assms(3,4) by auto
  moreover have "accepted newer upd vs s < 2 ^ 64" using accepted_le[of vs s] assms(2) by simp
  ultimately have "accepted newer upd vs s = 0"
    using nat_dvd_not_less[of "accepted newer upd vs s" "2 ^ 64"] by (auto simp: word_of_nat_eq_0_iff)
  then show ?thesis using accepted_none assms(3) by auto
qed

end

text \<open>A slot that is also ordered by the time stamp of its updates: times never go backwards.\<close>

locale timed_slot = versioned_slot +
  fixes le :: "i64 \<Rightarrow> i64 \<Rightarrow> bool"
    and stamp :: "'s \<Rightarrow> i64"
    and vstamp :: "'v \<Rightarrow> i64"
  assumes le_refl: "le x x"
    and le_trans: "le x y \<Longrightarrow> le y z \<Longrightarrow> le x z"
    and newer_le: "newer s v \<Longrightarrow> le (stamp s) (vstamp v)"
    and upd_stamp: "newer s v \<Longrightarrow> upd v s = Inr (r, s') \<Longrightarrow> stamp s' = vstamp v"
begin

lemma upd_le: "upd v s = Inr (r, s') \<Longrightarrow> le (stamp s) (stamp s')"
  using stale[of s v] upd_stamp newer_le le_refl by (cases "newer s v") auto

lemma run_le: "run_slot upd vs s = Inr s' \<Longrightarrow> le (stamp s) (stamp s')"
proof (induction vs arbitrary: s)
  case (Cons v vs)
  then obtain r s1 where "upd v s = Inr (r, s1)" "run_slot upd vs s1 = Inr s'"
    by (auto simp: bind_result_Inr_iff)
  then show ?case using Cons.IH upd_le le_trans by blast
qed (simp add: le_refl)

end

section \<open>Tickers\<close>

record TickerInfoShm =
  tk_inst_id :: string
  tk_bid_price :: double
  tk_bid_size :: double
  tk_ask_price :: double
  tk_ask_size :: double
  tk_update_id :: i64
  tk_update_time :: i64
  tk_version_number :: i64

definition ticker_shm_writer_init :: "TickerInfoShm list \<Rightarrow> int \<Rightarrow> string \<Rightarrow> TickerInfoShm list result" where
  "ticker_shm_writer_init start offset inst_id =
     seg_set start offset
       \<lparr>tk_inst_id = strncpy_buf 24 inst_id, tk_bid_price = Fin 0, tk_bid_size = Fin 0,
        tk_ask_price = Fin 0, tk_ask_size = Fin 0, tk_update_id = 0, tk_update_time = 0,
        tk_version_number = 0\<rparr>"

definition ticker_newer :: "TickerInfoShm \<Rightarrow> TickerInfoShm \<Rightarrow> bool" where
  "ticker_newer slot threshold \<longleftrightarrow>
     tk_update_id slot <s tk_update_id threshold \<or> tk_update_time slot <s tk_update_time threshold"

definition ticker_slot_update :: "TickerInfoShm \<Rightarrow> TickerInfoShm \<Rightarrow> (int \<times> TickerInfoShm) result" where
  "ticker_slot_update threshold slot =
     (if ticker_newer slot threshold
      then let hist_update_id = tk_update_id slot; hist_update_time = tk_update_time slot;
             slot = (if Fin 0 < tk_bid_price threshold \<and> Fin 0 < tk_bid_size threshold
                     then slot\<lparr>tk_bid_price := tk_bid_price threshold, tk_bid_size := tk_bid_size threshold\<rparr>
                     else slot);
             slot = (if Fin 0 < tk_ask_price threshold \<and> Fin 0 < tk_ask_size threshold
                     then slot\<lparr>tk_ask_price := tk_ask_price threshold, tk_ask_size := tk_ask_size threshold\<rparr>
                     else slot);
             slot = slot\<lparr>tk_update_id := tk_update_id threshold, tk_update_time := tk_update_time threshold\<rparr>;
             slot = slot\<lparr>tk_version_number := tk_version_number slot + 1\<rparr>
           in Inr (if 0 <s hist_update_id \<and> 0 <s hist_update_time then 1 else 0, slot)
      else Inr (0, slot))"

definition ticker_shm_writer_update ::
  "TickerInfoShm list \<Rightarrow> int \<Rightarrow> TickerInfoShm \<Rightarrow> (int \<times> TickerInfoShm list) result" where
  "ticker_shm_writer_update start offset threshold = seg_modify (ticker_slot_update threshold) start offset"

definition ticker_shm_reader_get :: "TickerInfoShm list \<Rightarrow> int \<Rightarrow> TickerInfoShm result" where
  "ticker_shm_reader_get start offset = bind_result (seg_get start offset) (\<lambda>slot.
     Inr \<lparr>tk_inst_id = strncpy_buf 24 (tk_inst_id slot), tk_bid_price = tk_bid_price slot,
       tk_bid_size = tk_bid_size slot, tk_ask_price = tk_ask_price slot, tk_ask_size = tk_ask_size slot,
       tk_update_id = tk_update_id slot, tk_update_time = tk_update_time slot,
       tk_version_number = tk_version_number slot\<rparr>)"

interpretation tk: versioned_slot tk_version_number ticker_newer "\<lambda>_. True" ticker_slot_update
  by unfold_locales (auto simp: ticker_slot_update_def Let_def)

section \<open>Thresholds\<close>

record EarlyRunThresholdShm =
  er_asset :: string
  er_avg_median :: double
  er_bid_ask_median :: double
  er_ask_bid_median :: double
  er_time_mills :: u64
  er_version_number :: i64

record BetaThresholdShm =
  bt_asset :: string
  bt_sma :: double
  bt_volatility :: double
  bt_volatility_multiplier :: double
  bt_beta_threshold :: double
  bt_bid_sma :: double
  bt_bid_volatility :: double
  bt_bid_volatility_multiplier :: double
  bt_bid_beta_threshold :: double
  bt_ask_sma :: double
  bt_ask_volatility :: double
  bt_ask_volatility_multiplier :: double
  bt_ask_beta_threshold :: double
  bt_version_number :: i64
  bt_time_mills :: u64

definition early_run_shm_writer_init ::
  "EarlyRunThresholdShm list \<Rightarrow> int \<Rightarrow> string \<Rightarrow> EarlyRunThresholdShm list result" where
  "early_run_shm_writer_init start offset asset =
     bind_result (seg_get start offset) (\<lambda>_. bind_result (memcpy_buf 16 asset) (\<lambda>asset.
       seg_set start offset
         \<lparr>er_asset = asset, er_avg_median = Fin 0, er_bid_ask_median = Fin 0,
          er_ask_bid_median = Fin 0, er_time_mills = 0, er_version_number = 0\<rparr>))"

text \<open>\<open>hist_time_mills\<close> is a \<open>long\<close> that is compared with a \<open>uint64_t\<close>: the comparison is unsigned.\<close>

definition early_run_newer :: "EarlyRunThresholdShm \<Rightarrow> EarlyRunThresholdShm \<Rightarrow> bool" where
  "early_run_newer slot threshold \<longleftrightarrow> er_time_mills slot \<le> er_time_mills threshold"

definition early_run_slot_update ::
  "EarlyRunThresholdShm \<Rightarrow> EarlyRunThresholdShm \<Rightarrow> (int \<times> EarlyRunThresholdShm) result" where
  "early_run_slot_update threshold slot =
     (if early_run_newer slot threshold
      then Inr (1, slot\<lparr>er_avg_median := er_avg_median threshold,
        er_bid_ask_median := er_bid_ask_median threshold,
        er_ask_bid_median := er_ask_bid_median threshold,
        er_time_mills := er_time_mills threshold,
        er_version_number := er_version_number slot + 1\<rparr>)
      else Inr (0, slot))"

definition early_run_shm_writer_update ::
  "EarlyRunThresholdShm list \<Rightarrow> int \<Rightarrow> EarlyRunThresholdShm \<Rightarrow> (int \<times> EarlyRunThresholdShm list) result" where
  "early_run_shm_writer_update start offset threshold =
     seg_modify (early_run_slot_update threshold) start offset"

definition early_run_shm_reader_get :: "EarlyRunThresholdShm list \<Rightarrow> int \<Rightarrow> EarlyRunThresholdShm result" where
  "early_run_shm_reader_get start offset = bind_result (seg_get start offset) (\<lambda>slot.
     Inr \<lparr>er_asset = strncpy_buf 16 (er_asset slot), er_avg_median = er_avg_median slot,
       er_bid_ask_median = er_bid_ask_median slot, er_ask_bid_median = er_ask_bid_median slot,
       er_time_mills = er_time_mills slot, er_version_number = er_version_number slot\<rparr>)"

interpretation er: timed_slot er_version_number early_run_newer "\<lambda>_. True" early_run_slot_update
  "(\<le>)" er_time_mills er_time_mills
  by unfold_locales (auto simp: early_run_slot_update_def early_run_newer_def split: if_splits)

definition beta_shm_writer_init :: "BetaThresholdShm list \<Rightarrow> int \<Rightarrow> string \<Rightarrow> BetaThresholdShm list result" where
  "beta_shm_writer_init start offset asset =
     bind_result (seg_get start offset) (\<lambda>_. bind_result (memcpy_buf 16 asset) (\<lambda>asset.
       seg_set start offset
         \<lparr>bt_asset = asset, bt_sma = Fin 0, bt_volatility = Fin 0, bt_volatility_multiplier = Fin 0,
          bt_beta_threshold = Fin 0, bt_bid_sma = Fin 0, bt_bid_volatility = Fin 0,
          bt_bid_volatility_multiplier = Fin 0, bt_bid_beta_threshold = Fin 0, bt_ask_sma = Fin 0,
          bt_ask_volatility = Fin 0, bt_ask_volatility_multiplier = Fin 0,
          bt_ask_beta_threshold = Fin 0, bt_version_number = 0, bt_time_mills = 0\<rparr>))"

definition beta_newer :: "BetaThresholdShm \<Rightarrow> BetaThresholdShm \<Rightarrow> bool" where
  "beta_newer slot threshold \<longleftrightarrow> bt_time_mills slot \<le> bt_time_mills threshold"

definition beta_slot_update :: "BetaThresholdShm \<Rightarrow> BetaThresholdShm \<Rightarrow> (int \<times> BetaThresholdShm) result" where
  "beta_slot_update threshold slot =
     (if beta_newer slot threshold
      then Inr (1, slot\<lparr>bt_sma := bt_sma threshold, bt_volatility := bt_volatility threshold,
        bt_volatility_multiplier := bt_volatility_multiplier threshold,
        bt_beta_threshold := bt_beta_threshold threshold,
        bt_bid_sma := bt_bid_sma threshold, bt_bid_volatility := bt_bid_volatility threshold,
        bt_bid_volatility_multiplier := bt_bid_volatility_multiplier threshold,
        bt_bid_beta_threshold := bt_bid_beta_threshold threshold,
        bt_ask_sma := bt_ask_sma threshold, bt_ask_volatility := bt_ask_volatility threshold,
        bt_ask_volatility_multiplier := bt_ask_volatility_multiplier threshold,
        bt_ask_beta_threshold := bt_ask_beta_threshold threshold,
        bt_time_mills := bt_time_mills threshold,
        bt_version_number := bt_version_number slot + 1\<rparr>)
      else Inr (0, slot))"

definition beta_shm_writer_update ::
  "BetaThresholdShm list \<Rightarrow> int \<Rightarrow> BetaThresholdShm \<Rightarrow> (int \<times> BetaThresholdShm list) result" where
  "beta_shm_writer_update start offset threshold = seg_modify (beta_slot_update threshold) start offset"

definition beta_shm_reader_get :: "BetaThresholdShm list \<Rightarrow> int \<Rightarrow> BetaThresholdShm result" where
  "beta_shm_reader_get start offset = bind_result (seg_get start offset) (\<lambda>slot.
     Inr \<lparr>bt_asset = strncpy_buf 16 (bt_asset slot), bt_sma = bt_sma slot,
       bt_volatility = bt_volatility slot, bt_volatility_multiplier = bt_volatility_multiplier slot,
       bt_beta_threshold = bt_beta_threshold slot,
       bt_bid_sma = bt_bid_sma slot, bt_bid_volatility = bt_bid_volatility slot,
       bt_bid_volatility_multiplier = bt_bid_volatility_multiplier slot,
       bt_bid_beta_threshold = bt_bid_beta_threshold slot,
       bt_ask_sma = bt_ask_sma slot, bt_ask_volatility = bt_ask_volatility slot,
       bt_ask_volatility_multiplier = bt_ask_volatility_multiplier slot,
       bt_ask_beta_threshold = bt_ask_beta_threshold slot,
       bt_version_number = bt_version_number slot, bt_time_mills = bt_time_mills slot\<rparr>)"

interpretation bt: timed_slot bt_version_number beta_newer "\<lambda>_. True" beta_slot_update
  "(\<le>)" bt_time_mills bt_time_mills
  by unfold_locales (auto simp: beta_slot_update_def beta_newer_def split: if_splits)

section \<open>Orders\<close>

record OrderShm =
  os_inst_id :: string
  os_type :: string
  os_side :: string
  os_pos_side :: string
  os_time_in_force :: string
  os_client_order_id :: string
  os_price :: double
  os_volume :: double
  os_reduce_only :: int
  os_update_time :: i64
  os_version_number :: i64

text \<open>A C string that fits its array, for every array of an order.\<close>

definition order_fits :: "OrderShm \<Rightarrow> bool" where
  "order_fits order \<longleftrightarrow> length (os_inst_id order) < 24 \<and> length (os_type order) < 8
     \<and> length (os_side order) < 8 \<and> length (os_pos_side order) < 8
     \<and> length (os_time_in_force order) < 8 \<and> length (os_client_order_id order) < 40"

definition order_shm_writer_init :: "OrderShm list \<Rightarrow> int \<Rightarrow> string \<Rightarrow> OrderShm list result" where
  "order_shm_writer_init start offset inst_id =
     bind_result (seg_get start offset) (\<lambda>slot. bind_result (memcpy_buf 24 inst_id) (\<lambda>inst_id.
       seg_set start offset
         (slot\<lparr>os_inst_id := inst_id, os_price := Fin 0, os_volume := Fin 0, os_update_time := 0,
               os_version_number := 0, os_reduce_only := 0\<rparr>)))"

definition order_newer :: "OrderShm \<Rightarrow> OrderShm \<Rightarrow> bool" where
  "order_newer slot order \<longleftrightarrow> os_update_time slot <s os_update_time order"

definition order_slot_update :: "OrderShm \<Rightarrow> OrderShm \<Rightarrow> (int \<times> OrderShm) result" where
  "order_slot_update order slot =
     (if order_newer slot order
      then bind_result (memcpy_buf 24 (os_inst_id order)) (\<lambda>inst_id.
           bind_result (memcpy_buf 8 (os_type order)) (\<lambda>otype.
           bind_result (memcpy_buf 8 (os_side order)) (\<lambda>side.
           bind_result (memcpy_buf 8 (os_pos_side order)) (\<lambda>pos_side.
           bind_result (memcpy_buf 8 (os_time_in_force order)) (\<lambda>time_in_force.
           bind_result (memcpy_buf 40 (os_client_order_id order)) (\<lambda>client_order_id.
             Inr (if 0 <s os_update_time slot then 1 else 0,
               slot\<lparr>os_inst_id := inst_id, os_type := otype, os_side := side, os_pos_side := pos_side,
                 os_time_in_force := time_in_force, os_client_order_id := client_order_id,
                 os_price := os_price order, os_volume := os_volume order,
                 os_reduce_only := os_reduce_only order, os_update_time := os_update_time order,
                 os_version_number := os_version_number slot + 1\<rparr>)))))))
      else Inr (0, slot))"

definition order_shm_writer_update :: "OrderShm list \<Rightarrow> int \<Rightarrow> OrderShm \<Rightarrow> (int \<times> OrderShm list) result" where
  "order_shm_writer_update start offset order = seg_modify (order_slot_update order) start offset"

definition order_shm_reader_get :: "OrderShm list \<Rightarrow> int \<Rightarrow> OrderShm result" where
  "order_shm_reader_get start offset = bind_result (seg_get start offset) (\<lambda>slot.
     bind_result (memcpy_buf 24 (os_inst_id slot)) (\<lambda>inst_id.
     bind_result (memcpy_buf 8 (os_type slot)) (\<lambda>otype.
     bind_result (memcpy_buf 8 (os_side slot)) (\<lambda>side.
     bind_result (memcpy_buf 8 (os_pos_side slot)) (\<lambda>pos_side.
     bind_result (memcpy_buf 8 (os_time_in_force slot)) (\<lambda>time_in_force.
     bind_result (memcpy_buf 40 (os_client_order_id slot)) (\<lambda>client_order_id.
       Inr \<lparr>os_inst_id = inst_id, os_type = otype, os_side = side, os_pos_side = pos_side,
         os_time_in_force = time_in_force, os_client_order_id = client_order_id,
         os_price = os_price slot, os_volume = os_volume slot, os_reduce_only = os_reduce_only slot,
         os_update_time = os_update_time slot, os_version_number = os_version_number slot\<rparr>)))))))"

interpretation os: timed_slot os_version_number order_newer order_fits order_slot_update
  "(\<le>s)" os_update_time os_update_time
  by unfold_locales
    (auto simp: order_slot_update_def order_newer_def order_fits_def bind_result_Inr_iff memcpy_buf_Inr_iff
      word_sle_eq word_sless_alt)

section \<open>Reading back what was written\<close>

lemma seg_modify_ok:
  assumes "0 \<le> i" "i < int (length seg)" and "f (seg ! nat i) = Inr (r, s')"
  shows "seg_modify f seg i = Inr (r, seg[nat i := s'])"
  using assms by (simp add: seg_modify_def seg_get_def seg_set_def)

lemma ticker_reader_get_ok:
  assumes "0 \<le> i" "i < int (length seg)" and "length (tk_inst_id (seg ! nat i)) < 24"
  shows "ticker_shm_reader_get seg i = Inr (seg ! nat i)"
  using assms by (simp add: ticker_shm_reader_get_def seg_get_def)

lemma order_reader_get_ok:
  assumes "0 \<le> i" "i < int (length seg)" and "order_fits (seg ! nat i)"
  shows "order_shm_reader_get seg i = Inr (seg ! nat i)"
  using assms by (simp add: order_shm_reader_get_def seg_get_def order_fits_def)

lemma early_run_reader_get_ok:
  assumes "0 \<le> i" "i < int (length seg)" and "length (er_asset (seg ! nat i)) < 16"
  shows "early_run_shm_reader_get seg i = Inr (seg ! nat i)"
  using assms by (simp add: early_run_shm_reader_get_def seg_get_def)

lemma beta_reader_get_ok:
  assumes "0 \<le> i" "i < int (length seg)" and "length (bt_asset (seg ! nat i)) < 16"
  shows "beta_shm_reader_get seg i = Inr (seg ! nat i)"
  using assms by (simp add: beta_shm_reader_get_def seg_get_def)

lemma order_slot_update_fits:
  assumes "order_fits order" and "order_newer slot order"
  shows "\<exists>r. order_slot_update order slot = Inr (r, order\<lparr>os_version_number := os_version_number slot + 1\<rparr>)"
  using assms by (simp add: order_slot_update_def order_fits_def)

definition ticker_live :: "TickerInfoShm \<Rightarrow> bool" where
  "ticker_live t \<longleftrightarrow> Fin 0 < tk_bid_price t \<and> Fin 0 < tk_bid_size t
     \<and> Fin 0 < tk_ask_price t \<and> Fin 0 < tk_ask_size t"

lemma ticker_update_live:
  "ticker_live s \<Longrightarrow> ticker_slot_update v s = Inr (r, s') \<Longrightarrow> ticker_live s'"
  by (auto simp: ticker_slot_update_def ticker_live_def Let_def split: if_splits)

lemma ticker_run_live:
  "ticker_live s \<Longrightarrow> run_slot ticker_slot_update vs s = Inr s' \<Longrightarrow> ticker_live s'"
proof (induction vs arbitrary: s)
  case (Cons v vs)
  then obtain r s1 where "ticker_slot_update v s = Inr (r, s1)" "run_slot ticker_slot_update vs s1 = Inr s'"
    by (auto simp: bind_result_Inr_iff)
  then show ?case using Cons ticker_update_live by blast
qed simp

text \<open>Concrete slots and updates for the evaluations below.\<close>

definition blank_order :: OrderShm where
  "blank_order = \<lparr>os_inst_id = ''BTCUSDT'', os_type = [], os_side = [], os_pos_side = [],
     os_time_in_force = [], os_client_order_id = [], os_price = Fin 0, os_volume = Fin 0,
     os_reduce_only = 0, os_update_time = 0, os_version_number = 0\<rparr>"

definition sample_order :: OrderShm where
  "sample_order = \<lparr>os_inst_id = ''BTCUSDT'', os_type = ''LIMIT'', os_side = ''BUY'', os_pos_side = ''LONG'',
     os_time_in_force = ''IOC'', os_client_order_id = ''x'', os_price = Fin 3, os_volume = Fin 1,
     os_reduce_only = 0, os_update_time = 5, os_version_number = 0\<rparr>"

definition sample_ticker :: "double \<Rightarrow> double \<Rightarrow> i64 \<Rightarrow> i64 \<Rightarrow> TickerInfoShm" where
  "sample_ticker bid ask i t = \<lparr>tk_inst_id = ''BTCUSDT'', tk_bid_price = bid, tk_bid_size = Fin 1,
     tk_ask_price = ask, tk_ask_size = Fin 1, tk_update_id = i, tk_update_time = t, tk_version_number = 1\<rparr>"

definition sample_beta :: "double \<Rightarrow> u64 \<Rightarrow> BetaThresholdShm" where
  "sample_beta x t = \<lparr>bt_asset = ''BTC'', bt_sma = x, bt_volatility = x,
     bt_volatility_multiplier = x, bt_beta_threshold = x, bt_bid_sma = x, bt_bid_volatility = x,
     bt_bid_volatility_multiplier = x, bt_bid_beta_threshold = x, bt_ask_sma = x,
     bt_ask_volatility = x, bt_ask_volatility_multiplier = x, bt_ask_beta_threshold = x,
     bt_version_number = 0, bt_time_mills = t\<rparr>"

section \<open>Properties\<close>

text \<open>An order written to its slot is what the trader reads back: for an order whose strings fit
  their arrays and whose time is newer than the slot's, the writer succeeds, the reader returns the
  order field by field with the slot's version number incremented, and every other slot of the
  segment reads as before.\<close>

theorem order_write_read:
  assumes "0 \<le> i" and "i < int (length seg)" and "order_fits order"
    and "order_newer (seg ! nat i) order"
  shows "\<exists>r seg'. order_shm_writer_update seg i order = Inr (r, seg')
    \<and> order_shm_reader_get seg' i =
        Inr (order\<lparr>os_version_number := os_version_number (seg ! nat i) + 1\<rparr>)
    \<and> (\<forall>j. j \<noteq> i \<longrightarrow> order_shm_reader_get seg' j = order_shm_reader_get seg j)"
proof -
  let ?o = "order\<lparr>os_version_number := os_version_number (seg ! nat i) + 1\<rparr>"
  obtain r where "order_slot_update order (seg ! nat i) = Inr (r, ?o)"
    using order_slot_update_fits[OF assms(3,4)] by blast
  then have w: "order_shm_writer_update seg i order = Inr (r, seg[nat i := ?o])"
    using assms(1,2) by (simp add: order_shm_writer_update_def seg_modify_ok)
  have "order_shm_reader_get (seg[nat i := ?o]) i = Inr ?o"
    using assms by (subst order_reader_get_ok) (simp_all add: order_fits_def)
  moreover have "seg_get (seg[nat i := ?o]) j = seg_get seg j" if "j \<noteq> i" for j
    using assms(1,2) that by (intro seg_get_set_other[of seg i ?o]) (simp_all add: seg_set_def)
  ultimately show ?thesis using w by (auto simp: order_shm_reader_get_def)
qed

theorem order_write_read_witness:
  "\<exists>r seg'. order_shm_writer_update [blank_order] 0 sample_order = Inr (r, seg')
     \<and> order_shm_reader_get seg' 0 = Inr (sample_order\<lparr>os_version_number := 1\<rparr>)"
proof -
  have "order_fits sample_order" "order_newer blank_order sample_order"
    by (simp_all add: order_fits_def order_newer_def word_sless_alt sample_order_def blank_order_def)
  with order_write_read[of 0 "[blank_order]" sample_order] show ?thesis
    by (auto simp: blank_order_def)
qed

text \<open>Along any sequence of order updates the writer never fails, the version number of the slot
  grows by exactly the number of accepted orders, the slot's time never goes backwards (as a signed
  64-bit number), and a reader that finds the version number unchanged has missed nothing: the slot is
  the same. (Fewer than 2 to the 64 updates, so the number cannot wrap around to its old value.)\<close>

theorem order_version_detects_updates:
  assumes "\<forall>v \<in> set vs. order_fits v" and "length vs < 2 ^ 64"
  shows "\<exists>s'. run_slot order_slot_update vs s = Inr s'
    \<and> os_version_number s' = os_version_number s + of_nat (accepted order_newer order_slot_update vs s)
    \<and> os_update_time s \<le>s os_update_time s'
    \<and> (os_version_number s' = os_version_number s \<longrightarrow> s' = s)"
  using os.run_version[OF assms(1), of s] os.run_le[of vs s] os.version_detects_change[OF assms, of s]
  by blast

theorem order_version_detects_updates_witness:
  "\<exists>s'. run_slot order_slot_update [sample_order, sample_order] blank_order = Inr s'
     \<and> os_version_number s' = of_nat (accepted order_newer order_slot_update [sample_order, sample_order] blank_order)"
  using order_version_detects_updates[of "[sample_order, sample_order]" blank_order]
  by (auto simp: order_fits_def sample_order_def blank_order_def)

text \<open>A ticker slot never loses a quote: once its bid and ask prices and sizes are positive they stay
  positive through any sequence of updates, whatever prices arrive (zero, negative or NaN); no
  update fails, and the version number counts the accepted ones.\<close>

theorem ticker_quote_stays_live:
  assumes "ticker_live s"
  shows "\<exists>s'. run_slot ticker_slot_update vs s = Inr s' \<and> ticker_live s'
    \<and> tk_version_number s' = tk_version_number s + of_nat (accepted ticker_newer ticker_slot_update vs s)"
  using tk.run_version[of vs s] ticker_run_live[OF assms, of vs] by auto

theorem ticker_quote_stays_live_witness:
  "\<exists>s'. run_slot ticker_slot_update [sample_ticker NaN (Fin 0) 9 9] (sample_ticker (Fin 2) (Fin 3) 1 1) = Inr s'
     \<and> ticker_live s'"
  using ticker_quote_stays_live[of "sample_ticker (Fin 2) (Fin 3) 1 1" "[sample_ticker NaN (Fin 0) 9 9]"]
  by (auto simp: ticker_live_def sample_ticker_def)

text \<open>The ticker writer accepts an update when its id or its time is newer, so the update id of a
  slot can go backwards: an update with an older id and a newer time is written.\<close>

theorem ticker_update_id_can_decrease:
  "\<exists>seg seg' v r s s'. ticker_shm_reader_get seg 0 = Inr s
    \<and> ticker_shm_writer_update seg 0 v = Inr (r, seg') \<and> ticker_shm_reader_get seg' 0 = Inr s'
    \<and> tk_update_id s' <s tk_update_id s"
proof -
  let ?s = "sample_ticker (Fin 2) (Fin 3)"
  have "ticker_shm_writer_update [?s 10 10] 0 (?s 9 11) = Inr (1, [(?s 9 11)\<lparr>tk_version_number := 2\<rparr>])"
    by (simp add: ticker_shm_writer_update_def seg_modify_def seg_get_def seg_set_def sample_ticker_def
        ticker_slot_update_def ticker_newer_def word_sless_alt Let_def)
  moreover have "ticker_shm_reader_get [?s 10 10] 0 = Inr (?s 10 10)"
    "ticker_shm_reader_get [(?s 9 11)\<lparr>tk_version_number := 2\<rparr>] 0 = Inr ((?s 9 11)\<lparr>tk_version_number := 2\<rparr>)"
    by (simp_all add: ticker_reader_get_ok sample_ticker_def)
  moreover have "tk_update_id ((?s 9 11)\<lparr>tk_version_number := 2\<rparr>) <s tk_update_id (?s 10 10)"
    by (simp add: word_sless_alt sample_ticker_def)
  ultimately show ?thesis by blast
qed

text \<open>A beta threshold update is accepted exactly when its time is not older than the slot's, so the
  time of the slot never goes backwards; the reader then gets the new values under the slot's asset
  name with the version number incremented, and otherwise the old slot.\<close>

theorem beta_threshold_write_read:
  assumes "0 \<le> i" and "i < int (length seg)" and "length (bt_asset (seg ! nat i)) < 16"
  shows "\<exists>r seg' s'. beta_shm_writer_update seg i v = Inr (r, seg') \<and> beta_shm_reader_get seg' i = Inr s'
    \<and> (r = 1 \<longleftrightarrow> bt_time_mills (seg ! nat i) \<le> bt_time_mills v)
    \<and> bt_time_mills (seg ! nat i) \<le> bt_time_mills s'
    \<and> s' = (if r = 1 then v\<lparr>bt_asset := bt_asset (seg ! nat i),
                            bt_version_number := bt_version_number (seg ! nat i) + 1\<rparr>
            else seg ! nat i)"
proof -
  let ?s = "seg ! nat i"
  obtain r s' where u: "beta_slot_update v ?s = Inr (r, s')" using bt.upd_total by blast
  have w: "beta_shm_writer_update seg i v = Inr (r, seg[nat i := s'])"
    using assms(1,2) u by (simp add: beta_shm_writer_update_def seg_modify_ok)
  have eq: "s' = (if r = 1 then v\<lparr>bt_asset := bt_asset ?s, bt_version_number := bt_version_number ?s + 1\<rparr> else ?s)"
    "r = 1 \<longleftrightarrow> bt_time_mills ?s \<le> bt_time_mills v"
    using u by (auto simp: beta_slot_update_def beta_newer_def split: if_splits)
  have "beta_shm_reader_get (seg[nat i := s']) i = Inr s'"
    using assms eq by (subst beta_reader_get_ok) auto
  then show ?thesis using w eq bt.upd_le[OF u] by blast
qed

theorem beta_threshold_write_read_witness:
  "\<exists>r seg'. beta_shm_writer_update [sample_beta (Fin 0) 1] 0 (sample_beta (Fin 1) 4) = Inr (r, seg')"
  using beta_threshold_write_read[of 0 "[sample_beta (Fin 0) 1]" "sample_beta (Fin 1) 4"]
  by (auto simp: sample_beta_def)

text \<open>Initialising a threshold slot overflows the 16-byte asset array exactly for asset names of 16 or
  more characters; otherwise the slot reads back as zeros under that name.\<close>

theorem early_run_init_overflow_iff:
  assumes "0 \<le> i" and "i < int (length seg)"
  shows "(early_run_shm_writer_init seg i asset = Inl BufferOverflow \<longleftrightarrow> 16 \<le> length asset)
    \<and> (length asset < 16 \<longrightarrow> (\<exists>seg'. early_run_shm_writer_init seg i asset = Inr seg'
        \<and> early_run_shm_reader_get seg' i = Inr \<lparr>er_asset = asset, er_avg_median = Fin 0,
            er_bid_ask_median = Fin 0, er_ask_bid_median = Fin 0, er_time_mills = 0, er_version_number = 0\<rparr>))"
  using assms
  by (auto simp: early_run_shm_writer_init_def seg_get_def seg_set_def memcpy_buf_def early_run_reader_get_ok)

theorem early_run_init_overflow_iff_witness:
  "\<forall>x. early_run_shm_writer_init [x] 0 ''1000000BABYDOGES'' = Inl BufferOverflow"
  using early_run_init_overflow_iff[of 0 "[_]" "''1000000BABYDOGES''"] by simp

end
