(* ===== verification/ShmLock.thy ===== *)
theory ShmLock
  imports Shm
begin

text \<open>
  The spin lock of \<open>src/src/shm/share_memory_mng.cpp\<close> and the interleavings of the writers and readers of
  one slot, field assignment by field assignment. A step of a process is one access of the lock word or
  of one field of the shared slot. The relation is generic in the slot: a writer's critical section is
  the list of field assignments that the update function makes, a reader's the list of field copies.
  The memory is sequentially consistent; the acquire and release orders of the source give this for
  accesses under the lock, and the result of the unlocked first check of a writer is left open.
\<close>

section \<open>Processes\<close>

datatype ('s, 'v) pc =
    Idle
  | WStart 'v
  | WSpin 'v
  | WCheck 'v
  | WBody 'v "('s \<Rightarrow> 's) list"
  | RSpin
  | RCopy "('s \<Rightarrow> 's \<Rightarrow> 's) list" 's
  | RDone 's

text \<open>\<open>hist\<close> is a ghost: the updates in the order in which their writers released the lock.\<close>

record ('s, 'v) lstate =
  lock :: int
  mem :: 's
  pcs :: "nat \<Rightarrow> ('s, 'v) pc"
  hist :: "'v list"

definition goto :: "nat \<Rightarrow> ('s, 'v) pc \<Rightarrow> ('s, 'v) lstate \<Rightarrow> ('s, 'v) lstate" where
  "goto t p s = s\<lparr>pcs := (pcs s)(t := p)\<rparr>"

inductive lstep ::
  "('s \<Rightarrow> 'v \<Rightarrow> bool) \<Rightarrow> ('v \<Rightarrow> bool) \<Rightarrow> ('v \<Rightarrow> 's \<Rightarrow> ('s \<Rightarrow> 's) list) \<Rightarrow> ('s \<Rightarrow> 's \<Rightarrow> 's) list \<Rightarrow> 's
   \<Rightarrow> ('s, 'v) lstate \<Rightarrow> ('s, 'v) lstate \<Rightarrow> bool"
  for newer fits writes copies blank where
  begin_write: "pcs s t = Idle \<Longrightarrow> fits v \<Longrightarrow> lstep newer fits writes copies blank s (goto t (WStart v) s)"
| begin_read: "pcs s t = Idle \<Longrightarrow> lstep newer fits writes copies blank s (goto t RSpin s)"
| first_check_newer: "pcs s t = WStart v \<Longrightarrow> lstep newer fits writes copies blank s (goto t (WSpin v) s)"
| first_check_stale: "pcs s t = WStart v \<Longrightarrow> lstep newer fits writes copies blank s (goto t Idle s)"
| write_acquire: "pcs s t = WSpin v \<Longrightarrow> lock s = 0 \<Longrightarrow>
    lstep newer fits writes copies blank s (goto t (WCheck v) (s\<lparr>lock := 1\<rparr>))"
| write_spin: "pcs s t = WSpin v \<Longrightarrow> lock s \<noteq> 0 \<Longrightarrow>
    lstep newer fits writes copies blank s (s\<lparr>lock := 1\<rparr>)"
| write_check: "pcs s t = WCheck v \<Longrightarrow>
    lstep newer fits writes copies blank s
      (goto t (WBody v (if newer (mem s) v then writes v (mem s) else [])) s)"
| write_field: "pcs s t = WBody v (f # fs) \<Longrightarrow>
    lstep newer fits writes copies blank s (goto t (WBody v fs) (s\<lparr>mem := f (mem s)\<rparr>))"
| write_release: "pcs s t = WBody v [] \<Longrightarrow>
    lstep newer fits writes copies blank s (goto t Idle (s\<lparr>lock := 0, hist := hist s @ [v]\<rparr>))"
| read_acquire: "pcs s t = RSpin \<Longrightarrow> lock s = 0 \<Longrightarrow>
    lstep newer fits writes copies blank s (goto t (RCopy copies blank) (s\<lparr>lock := 1\<rparr>))"
| read_spin: "pcs s t = RSpin \<Longrightarrow> lock s \<noteq> 0 \<Longrightarrow>
    lstep newer fits writes copies blank s (s\<lparr>lock := 1\<rparr>)"
| read_field: "pcs s t = RCopy (c # cs) x \<Longrightarrow>
    lstep newer fits writes copies blank s (goto t (RCopy cs (c (mem s) x)) s)"
| read_release: "pcs s t = RCopy [] x \<Longrightarrow>
    lstep newer fits writes copies blank s (goto t (RDone x) (s\<lparr>lock := 0\<rparr>))"
| read_return: "pcs s t = RDone x \<Longrightarrow> lstep newer fits writes copies blank s (goto t Idle s)"

definition linit :: "'s \<Rightarrow> ('s, 'v) lstate" where
  "linit s0 = \<lparr>lock = 0, mem = s0, pcs = (\<lambda>_. Idle), hist = []\<rparr>"

fun in_cs :: "('s, 'v) pc \<Rightarrow> bool" where
  "in_cs (WCheck v) = True"
| "in_cs (WBody v fs) = True"
| "in_cs (RCopy cs x) = True"
| "in_cs _ = False"

text \<open>The lock word is 1 exactly while one process is in its critical section.\<close>

definition lock_inv :: "('s, 'v) lstate \<Rightarrow> bool" where
  "lock_inv s \<longleftrightarrow> (lock s = 0 \<longrightarrow> (\<forall>t. \<not> in_cs (pcs s t)))
     \<and> (lock s \<noteq> 0 \<longrightarrow> lock s = 1 \<and> (\<exists>t. in_cs (pcs s t)))
     \<and> (\<forall>t u. in_cs (pcs s t) \<longrightarrow> in_cs (pcs s u) \<longrightarrow> t = u)"

lemmas lock_state_defs = lock_inv_def goto_def

lemma lock_inv_init: "lock_inv (linit s0)"
  by (simp add: lock_inv_def linit_def)

lemma lock_inv_neutral:
  assumes "lock_inv s" and "pcs s' = (pcs s)(t := p)" and "lock s' = lock s" and "in_cs p = in_cs (pcs s t)"
  shows "lock_inv s'"
proof -
  have "in_cs (pcs s' u) = in_cs (pcs s u)" for u using assms(2,4) by simp
  then show ?thesis using assms(1,3) by (simp add: lock_inv_def)
qed

lemma lock_inv_enter:
  assumes "lock_inv s" and "pcs s' = (pcs s)(t := p)" and "lock s = 0" and "lock s' = 1" and "in_cs p"
  shows "lock_inv s'"
  using assms by (auto simp: lock_inv_def)

lemma lock_inv_leave:
  assumes "lock_inv s" and "pcs s' = (pcs s)(t := p)" and "lock s' = 0" and "in_cs (pcs s t)" and "\<not> in_cs p"
  shows "lock_inv s'"
  using assms by (auto simp: lock_inv_def)

lemma lock_inv_held: "lock_inv s \<Longrightarrow> lock s \<noteq> 0 \<Longrightarrow> s\<lparr>lock := 1\<rparr> = s"
  by (simp add: lock_inv_def)

lemma lock_inv_step:
  assumes "lstep newer fits writes copies blank s s'" and "lock_inv s"
  shows "lock_inv s'"
  using assms
proof (cases rule: lstep.cases)
  case write_acquire
  then show ?thesis using assms(2) by (auto simp: goto_def intro: lock_inv_enter)
next
  case write_release
  then show ?thesis using assms(2) by (auto simp: goto_def intro: lock_inv_leave)
next
  case read_acquire
  then show ?thesis using assms(2) by (auto simp: goto_def intro: lock_inv_enter)
next
  case read_release
  then show ?thesis using assms(2) by (auto simp: goto_def intro: lock_inv_leave)
qed (use assms(2) in \<open>auto simp: goto_def lock_inv_held intro: lock_inv_neutral\<close>)

section \<open>Slots whose updates and reads are made of field accesses\<close>

lemma run_slot_append:
  "run_slot upd (vs @ ws) s = bind_result (run_slot upd vs s) (run_slot upd ws)"
proof (induction vs arbitrary: s)
  case (Cons v vs)
  show ?case by (cases "upd v s") (auto simp: Cons.IH)
qed simp

locale slot_program = versioned_slot +
  fixes writes :: "'v \<Rightarrow> 's \<Rightarrow> ('s \<Rightarrow> 's) list"
    and copies :: "('s \<Rightarrow> 's \<Rightarrow> 's) list"
    and blank :: 's
    and view :: "'s \<Rightarrow> 's"
  assumes writes_upd: "newer s v \<Longrightarrow> fits v \<Longrightarrow> upd v s = Inr (r, s') \<Longrightarrow> fold (\<lambda>f. f) (writes v s) s = s'"
    and copies_view: "fold (\<lambda>c. c s) copies blank = view s"
begin

text \<open>
  The committed state is the result of the released updates in order. Outside a writer's critical
  section the memory is the committed state; inside it, the pending assignments lead to the next one.
\<close>

definition data_inv :: "'s \<Rightarrow> ('s, 'v) lstate \<Rightarrow> bool" where
  "data_inv s0 s \<longleftrightarrow> (\<exists>m. run_slot upd (hist s) s0 = Inr m
     \<and> ((\<forall>t v fs. pcs s t \<noteq> WBody v fs) \<longrightarrow> mem s = m)
     \<and> (\<forall>t v fs. pcs s t = WBody v fs \<longrightarrow> (\<exists>r. upd v m = Inr (r, fold (\<lambda>f. f) fs (mem s))))
     \<and> (\<forall>t cs x. pcs s t = RCopy cs x \<longrightarrow> fold (\<lambda>c. c (mem s)) cs x = view m))
   \<and> (\<forall>t v. pcs s t \<in> {WStart v, WSpin v, WCheck v} \<longrightarrow> fits v)
   \<and> (\<forall>t x. pcs s t = RDone x \<longrightarrow>
        (\<exists>n \<le> length (hist s). \<exists>m. run_slot upd (take n (hist s)) s0 = Inr m \<and> x = view m))"

lemma data_inv_init: "data_inv s0 (linit s0)"
  by (simp add: data_inv_def linit_def)

text \<open>A step that moves one process between places other than the bodies of the critical sections.\<close>

lemma data_inv_outside:
  assumes "data_inv s0 s" and "pcs s' = (pcs s)(t := p)" and "mem s' = mem s" and "hist s' = hist s"
    and "\<forall>v fs. pcs s t \<noteq> WBody v fs" and "\<forall>v fs. p \<noteq> WBody v fs" and "\<forall>cs x. p \<noteq> RCopy cs x"
    and "\<forall>x. p \<noteq> RDone x" and "\<forall>v. p \<in> {WStart v, WSpin v, WCheck v} \<longrightarrow> fits v"
  shows "data_inv s0 s'"
proof -
  obtain m where m: "run_slot upd (hist s) s0 = Inr m"
    "(\<forall>t v fs. pcs s t \<noteq> WBody v fs) \<longrightarrow> mem s = m"
    "\<forall>t v fs. pcs s t = WBody v fs \<longrightarrow> (\<exists>r. upd v m = Inr (r, fold (\<lambda>f. f) fs (mem s)))"
    "\<forall>t cs x. pcs s t = RCopy cs x \<longrightarrow> fold (\<lambda>c. c (mem s)) cs x = view m"
    using assms(1) by (auto simp: data_inv_def)
  have w: "(\<forall>u v fs. pcs s' u \<noteq> WBody v fs) = (\<forall>u v fs. pcs s u \<noteq> WBody v fs)"
    using assms(2,5,6) by (metis fun_upd_apply)
  have "run_slot upd (hist s') s0 = Inr m \<and> ((\<forall>t v fs. pcs s' t \<noteq> WBody v fs) \<longrightarrow> mem s' = m)
     \<and> (\<forall>t v fs. pcs s' t = WBody v fs \<longrightarrow> (\<exists>r. upd v m = Inr (r, fold (\<lambda>f. f) fs (mem s'))))
     \<and> (\<forall>t cs x. pcs s' t = RCopy cs x \<longrightarrow> fold (\<lambda>c. c (mem s')) cs x = view m)"
    unfolding w using m assms(2-7) by auto
  moreover have "\<forall>t v. pcs s' t \<in> {WStart v, WSpin v, WCheck v} \<longrightarrow> fits v"
    using assms(1,2,9) unfolding data_inv_def by auto
  moreover have "\<forall>t x. pcs s' t = RDone x \<longrightarrow>
        (\<exists>n \<le> length (hist s'). \<exists>m. run_slot upd (take n (hist s')) s0 = Inr m \<and> x = view m)"
    using assms(1,2,4,8) unfolding data_inv_def by auto
  ultimately show ?thesis unfolding data_inv_def by blast
qed

lemma alone_in_cs:
  assumes "lock_inv s" and "in_cs (pcs s t)" and "u \<noteq> t"
  shows "\<not> in_cs (pcs s u)" "pcs s u \<noteq> WBody v fs" "pcs s u \<noteq> RCopy cs x"
  using assms unfolding lock_inv_def by (metis in_cs.simps)+

lemma nobody_in_cs:
  assumes "lock_inv s" and "lock s = 0"
  shows "pcs s u \<noteq> WBody v fs" "pcs s u \<noteq> RCopy cs x"
  using assms unfolding lock_inv_def by (metis in_cs.simps)+

text \<open>
  The shape of a state with one process \<open>t\<close> in the critical section, or none: all that has to be
  shown of the memory concerns \<open>t\<close>.
\<close>

lemma data_inv_alone:
  assumes "data_inv s0 s" and "pcs s' = (pcs s)(t := p)" and "hist s' = hist s"
    and others: "\<forall>u v fs cs x. u \<noteq> t \<longrightarrow> pcs s u \<noteq> WBody v fs \<and> pcs s u \<noteq> RCopy cs x"
    and m: "run_slot upd (hist s) s0 = Inr m"
    and p: "(\<forall>v fs. p \<noteq> WBody v fs) \<longrightarrow> mem s' = m"
      "\<forall>v fs. p = WBody v fs \<longrightarrow> (\<exists>r. upd v m = Inr (r, fold (\<lambda>f. f) fs (mem s')))"
      "\<forall>cs x. p = RCopy cs x \<longrightarrow> fold (\<lambda>c. c (mem s')) cs x = view m"
      "\<forall>x. p = RDone x \<longrightarrow> x = view m" "\<forall>v. p \<notin> {WStart v, WSpin v, WCheck v}"
  shows "data_inv s0 s'"
proof -
  have 1: "(\<forall>u v fs. pcs s' u \<noteq> WBody v fs) \<longrightarrow> mem s' = m"
    using assms(2) p(1) by (metis fun_upd_same)
  have 2: "\<forall>u v fs. pcs s' u = WBody v fs \<longrightarrow> (\<exists>r. upd v m = Inr (r, fold (\<lambda>f. f) fs (mem s')))"
    "\<forall>u cs x. pcs s' u = RCopy cs x \<longrightarrow> fold (\<lambda>c. c (mem s')) cs x = view m"
    using assms(2) p(2,3) others by (metis fun_upd_apply)+
  have 3: "\<forall>u v. pcs s' u \<in> {WStart v, WSpin v, WCheck v} \<longrightarrow> fits v"
    using assms(1,2) p(5) unfolding data_inv_def by (metis fun_upd_apply)
  have "\<exists>n \<le> length (hist s'). \<exists>m. run_slot upd (take n (hist s')) s0 = Inr m \<and> x = view m"
    if "pcs s' u = RDone x" for u x
  proof (cases "u = t")
    case True
    then have "x = view m" using that assms(2) p(4) by simp
    then show ?thesis using m assms(3) by (intro exI[of _ "length (hist s')"]) auto
  next
    case False
    then show ?thesis using that assms(1,2,3) by (simp add: data_inv_def)
  qed
  then show ?thesis using 1 2 3 m assms(3) unfolding data_inv_def by auto
qed

lemma data_inv_committed: "data_inv s0 s \<Longrightarrow> \<exists>m. run_slot upd (hist s) s0 = Inr m"
  unfolding data_inv_def by blast

lemma data_inv_mem:
  "data_inv s0 s \<Longrightarrow> run_slot upd (hist s) s0 = Inr m \<Longrightarrow> \<forall>u v fs. pcs s u \<noteq> WBody v fs \<Longrightarrow> mem s = m"
  unfolding data_inv_def by (metis sum.inject(2))

lemma data_inv_body:
  "data_inv s0 s \<Longrightarrow> run_slot upd (hist s) s0 = Inr m \<Longrightarrow> pcs s t = WBody v fs \<Longrightarrow>
   \<exists>r. upd v m = Inr (r, fold (\<lambda>f. f) fs (mem s))"
  unfolding data_inv_def by (metis sum.inject(2))

lemma data_inv_copy:
  "data_inv s0 s \<Longrightarrow> run_slot upd (hist s) s0 = Inr m \<Longrightarrow> pcs s t = RCopy cs x \<Longrightarrow>
   fold (\<lambda>c. c (mem s)) cs x = view m"
  unfolding data_inv_def by (metis sum.inject(2))

lemma data_inv_fits: "data_inv s0 s \<Longrightarrow> pcs s t \<in> {WStart v, WSpin v, WCheck v} \<Longrightarrow> fits v"
  unfolding data_inv_def by blast

lemma data_inv_done:
  "data_inv s0 s \<Longrightarrow> pcs s t = RDone x \<Longrightarrow>
   \<exists>n \<le> length (hist s). \<exists>m. run_slot upd (take n (hist s)) s0 = Inr m \<and> x = view m"
  unfolding data_inv_def by blast

lemma no_body:
  assumes "lock_inv s" and "in_cs (pcs s t)" and "\<forall>v fs. pcs s t \<noteq> WBody v fs"
  shows "\<forall>u v fs. pcs s u \<noteq> WBody v fs"
proof (intro allI)
  fix u v fs show "pcs s u \<noteq> WBody v fs"
    using assms(3) alone_in_cs(2)[OF assms(1,2), of u] by (cases "u = t") simp_all
qed

lemma data_inv_release:
  assumes "data_inv s0 s" and "lock_inv s" and "pcs s t = WBody v []"
    and s': "pcs s' = (pcs s)(t := Idle)" "hist s' = hist s @ [v]" "mem s' = mem s"
  shows "data_inv s0 s'"
proof -
  obtain m r where m: "run_slot upd (hist s) s0 = Inr m" and u: "upd v m = Inr (r, mem s)"
    using data_inv_committed[OF assms(1)] data_inv_body[OF assms(1) _ assms(3)] by auto
  have others: "\<forall>u v fs cs x. pcs s' u \<noteq> WBody v fs \<and> pcs s' u \<noteq> RCopy cs x"
    using alone_in_cs[OF assms(2), of t] assms(3) s'(1) by simp
  have "run_slot upd (hist s') s0 = Inr (mem s')"
    using m u s' by (simp add: run_slot_append)
  moreover have "\<forall>u v. pcs s' u \<in> {WStart v, WSpin v, WCheck v} \<longrightarrow> fits v"
    using assms(1) s'(1) unfolding data_inv_def by auto
  moreover have "\<exists>n \<le> length (hist s'). \<exists>m. run_slot upd (take n (hist s')) s0 = Inr m \<and> x = view m"
    if "pcs s' u = RDone x" for u x
  proof -
    from that have "pcs s u = RDone x" using s'(1) by (simp split: if_splits)
    then obtain n m where "n \<le> length (hist s)" "run_slot upd (take n (hist s)) s0 = Inr m" "x = view m"
      using data_inv_done[OF assms(1)] by blast
    then show ?thesis using s'(2) by (intro exI[of _ n]) auto
  qed
  ultimately show ?thesis using others unfolding data_inv_def by auto
qed

lemma check_body:
  assumes "fits v"
  shows "\<exists>r. upd v m = Inr (r, fold (\<lambda>f. f) (if newer m v then writes v m else []) m)"
  using upd_total[OF assms, of m] writes_upd[of m v] stale[of m v] assms by auto

lemma data_inv_step:
  assumes st: "lstep newer fits writes copies blank s s'" and li: "lock_inv s" and di: "data_inv s0 s"
  shows "data_inv s0 s'"
proof -
  obtain m where m: "run_slot upd (hist s) s0 = Inr m" using data_inv_committed[OF di] by blast
  from st show ?thesis
  proof (cases rule: lstep.cases)
    case (write_check t v)
    have o: "\<forall>u w fs cs x. u \<noteq> t \<longrightarrow> pcs s u \<noteq> WBody w fs \<and> pcs s u \<noteq> RCopy cs x"
      using alone_in_cs[OF li, of t] write_check by simp
    have "mem s = m" using data_inv_mem[OF di m no_body[OF li, of t]] write_check by simp
    then show ?thesis
      using o check_body[of v m] data_inv_fits[OF di, of t v] write_check m
      by (intro data_inv_alone[OF di, of s' t]) (auto simp: goto_def)
  next
    case (write_field t v f fs)
    then show ?thesis
      using alone_in_cs[OF li, of t] data_inv_body[OF di m, of t v "f # fs"] m
      by (intro data_inv_alone[OF di, of s' t]) (auto simp: goto_def)
  next
    case (write_release t v)
    then show ?thesis by (intro data_inv_release[OF di li, of t v]) (auto simp: goto_def)
  next
    case (read_acquire t)
    note no = nobody_in_cs[OF li read_acquire(3)]
    have "mem s = m" using data_inv_mem[OF di m] no by blast
    then show ?thesis
      using no copies_view[of m] read_acquire m
      by (intro data_inv_alone[OF di, of s' t]) (auto simp: goto_def)
  next
    case (read_field t c cs x)
    have o: "\<forall>u w fs cs x. u \<noteq> t \<longrightarrow> pcs s u \<noteq> WBody w fs \<and> pcs s u \<noteq> RCopy cs x"
      using alone_in_cs[OF li, of t] read_field by simp
    have "mem s = m" using data_inv_mem[OF di m no_body[OF li, of t]] read_field by simp
    then show ?thesis
      using o data_inv_copy[OF di m, of t "c # cs" x] read_field m
      by (intro data_inv_alone[OF di, of s' t]) (auto simp: goto_def)
  next
    case (read_release t x)
    have o: "\<forall>u w fs cs x. u \<noteq> t \<longrightarrow> pcs s u \<noteq> WBody w fs \<and> pcs s u \<noteq> RCopy cs x"
      using alone_in_cs[OF li, of t] read_release by simp
    have "mem s = m" using data_inv_mem[OF di m no_body[OF li, of t]] read_release by simp
    then show ?thesis
      using o data_inv_copy[OF di m, of t "[]" x] read_release m
      by (intro data_inv_alone[OF di, of s' t]) (auto simp: goto_def)
  qed (use di data_inv_fits[OF di] lock_inv_held[OF li] in
      \<open>auto simp: goto_def intro!: data_inv_outside[OF di]\<close>)
qed

theorem reachable_inv:
  assumes "(lstep newer fits writes copies blank)\<^sup>*\<^sup>* (linit s0) s"
  shows "lock_inv s \<and> data_inv s0 s"
  using assms
proof (induction rule: rtranclp_induct)
  case base
  then show ?case by (simp add: lock_inv_init data_inv_init)
next
  case (step y z)
  then show ?case using lock_inv_step[OF step.hyps(2)] data_inv_step[OF step.hyps(2)] by simp
qed

lemma snapshot_consistent:
  assumes "(lstep newer fits writes copies blank)\<^sup>*\<^sup>* (linit s0) s" and "pcs s t = RDone x"
  shows "\<exists>n \<le> length (hist s). \<exists>m. run_slot upd (take n (hist s)) s0 = Inr m \<and> x = view m"
  using reachable_inv[OF assms(1)] assms(2) unfolding data_inv_def by blast

lemma committed_memory:
  assumes "(lstep newer fits writes copies blank)\<^sup>*\<^sup>* (linit s0) s" and "lock s = 0"
  shows "run_slot upd (hist s) s0 = Inr (mem s)"
proof -
  have inv: "lock_inv s" "data_inv s0 s" using reachable_inv[OF assms(1)] by auto
  obtain m where m: "run_slot upd (hist s) s0 = Inr m" using data_inv_committed[OF inv(2)] by blast
  then show ?thesis using data_inv_mem[OF inv(2) m] nobody_in_cs[OF inv(1) assms(2)] by simp
qed

end

section \<open>Progress\<close>

lemma exI_conj: "P x \<Longrightarrow> Q x \<Longrightarrow> \<exists>x. P x \<and> Q x"
  by blast

lemma goto_goto [simp]: "goto t p (goto t q s) = goto t p s"
  by (simp add: goto_def)

lemma goto_sel [simp]:
  "pcs (goto t p s) = (pcs s)(t := p)" "lock (goto t p s) = lock s" "mem (goto t p s) = mem s"
  "hist (goto t p s) = hist s"
  by (simp_all add: goto_def)

lemma goto_mem [simp]: "(goto t p s)\<lparr>mem := m\<rparr> = goto t p (s\<lparr>mem := m\<rparr>)"
  by (simp add: goto_def)

lemma copies_run:
  "(lstep newer fits writes copies blank)\<^sup>*\<^sup>* (goto t (RCopy cs x) s) (goto t (RCopy [] (fold (\<lambda>c. c (mem s)) cs x)) s)"
proof (induction cs arbitrary: x)
  case (Cons c cs)
  have "lstep newer fits writes copies blank (goto t (RCopy (c # cs) x) s) (goto t (RCopy cs (c (mem s) x)) s)"
    using read_field[of "goto t (RCopy (c # cs) x) s" t c cs x] by simp
  then show ?case using Cons.IH[of "c (mem s) x"] by (simp add: converse_rtranclp_into_rtranclp)
qed simp

lemma writes_run:
  "(lstep newer fits writes copies blank)\<^sup>*\<^sup>* (goto t (WBody v fs) s)
     (goto t (WBody v []) (s\<lparr>mem := fold (\<lambda>f. f) fs (mem s)\<rparr>))"
proof (induction fs arbitrary: s)
  case (Cons f fs)
  have "lstep newer fits writes copies blank (goto t (WBody v (f # fs)) s) (goto t (WBody v fs) (s\<lparr>mem := f (mem s)\<rparr>))"
    using write_field[of "goto t (WBody v (f # fs)) s" t v f fs] by simp
  then show ?case using Cons.IH[of "s\<lparr>mem := f (mem s)\<rparr>"] by (simp add: converse_rtranclp_into_rtranclp)
qed simp

lemma goto_id: "pcs s t = p \<Longrightarrow> goto t p s = s"
  by (cases s) (auto simp: goto_def)

lemma body_releases:
  assumes "pcs s t = WBody v fs"
  shows "\<exists>s'. (lstep newer fits writes copies blank)\<^sup>*\<^sup>* s s' \<and> lock s' = 0"
proof -
  let ?s = "goto t (WBody v []) (s\<lparr>mem := fold (\<lambda>f. f) fs (mem s)\<rparr>)"
  have "(lstep newer fits writes copies blank)\<^sup>*\<^sup>* s ?s"
    using writes_run[of newer fits writes copies blank t v fs s] goto_id[OF assms] by simp
  moreover have "lstep newer fits writes copies blank ?s (goto t Idle (?s\<lparr>lock := 0, hist := hist ?s @ [v]\<rparr>))"
    by (rule write_release) simp
  ultimately have "(lstep newer fits writes copies blank)\<^sup>*\<^sup>* s
      (goto t Idle (?s\<lparr>lock := 0, hist := hist ?s @ [v]\<rparr>))"
    by (rule rtranclp.rtrancl_into_rtrancl)
  then show ?thesis by (rule exI_conj) (simp add: goto_def)
qed

lemma holder_releases:
  assumes "in_cs (pcs s t)"
  shows "\<exists>s'. (lstep newer fits writes copies blank)\<^sup>*\<^sup>* s s' \<and> lock s' = 0"
proof (cases "pcs s t")
  case (WCheck v)
  let ?s = "goto t (WBody v (if newer (mem s) v then writes v (mem s) else [])) s"
  have "lstep newer fits writes copies blank s ?s" using WCheck by (rule write_check)
  moreover obtain s' where "(lstep newer fits writes copies blank)\<^sup>*\<^sup>* ?s s'" "lock s' = 0"
    using body_releases[of ?s t v "if newer (mem s) v then writes v (mem s) else []" newer fits writes copies blank]
    by (auto simp del: if_split)
  ultimately show ?thesis by (meson converse_rtranclp_into_rtranclp)
next
  case (WBody v fs)
  then show ?thesis by (rule body_releases)
next
  case (RCopy cs x)
  let ?s = "goto t (RCopy [] (fold (\<lambda>c. c (mem s)) cs x)) s"
  have "(lstep newer fits writes copies blank)\<^sup>*\<^sup>* s ?s"
    using copies_run[of newer fits writes copies blank t cs x s] goto_id[OF RCopy] by simp
  moreover have "lstep newer fits writes copies blank ?s
      (goto t (RDone (fold (\<lambda>c. c (mem s)) cs x)) (?s\<lparr>lock := 0\<rparr>))"
    by (rule read_release) simp
  ultimately have "(lstep newer fits writes copies blank)\<^sup>*\<^sup>* s
      (goto t (RDone (fold (\<lambda>c. c (mem s)) cs x)) (?s\<lparr>lock := 0\<rparr>))"
    by (rule rtranclp.rtrancl_into_rtrancl)
  then show ?thesis by (rule exI_conj) (simp add: goto_def)
qed (use assms in simp_all)

lemma solo_read:
  assumes "pcs s t = Idle" and "lock s = 0"
  shows "\<exists>s'. (lstep newer fits writes copies blank)\<^sup>*\<^sup>* s s'
    \<and> pcs s' t = RDone (fold (\<lambda>c. c (mem s)) copies blank)"
proof -
  let ?R = "lstep newer fits writes copies blank" and ?x = "fold (\<lambda>c. c (mem s)) copies blank"
  let ?s1 = "goto t RSpin s" and ?s2 = "goto t (RCopy copies blank) (s\<lparr>lock := 1\<rparr>)"
  let ?s3 = "goto t (RCopy [] ?x) (s\<lparr>lock := 1\<rparr>)"
  have "?R s ?s1" using assms(1) by (rule begin_read)
  moreover have "?R ?s1 ?s2" using read_acquire[of ?s1 t] assms(2) by (simp add: goto_def)
  moreover have "?R\<^sup>*\<^sup>* ?s2 ?s3"
    using copies_run[of newer fits writes copies blank t copies blank "s\<lparr>lock := 1\<rparr>"] by simp
  moreover have "?R ?s3 (goto t (RDone ?x) (?s3\<lparr>lock := 0\<rparr>))" by (rule read_release) simp
  ultimately have "?R\<^sup>*\<^sup>* s (goto t (RDone ?x) (?s3\<lparr>lock := 0\<rparr>))"
    by (meson converse_rtranclp_into_rtranclp rtranclp.rtrancl_into_rtrancl)
  then show ?thesis by (rule exI_conj) (simp add: goto_def)
qed

lemma reachable_lock_inv:
  assumes "(lstep newer fits writes copies blank)\<^sup>*\<^sup>* (linit s0) s"
  shows "lock_inv s"
  using assms
proof (induction rule: rtranclp_induct)
  case (step y z)
  then show ?case using lock_inv_step[OF step.hyps(2)] by simp
qed (rule lock_inv_init)

section \<open>The slots of the program\<close>

definition ticker_writes :: "TickerInfoShm \<Rightarrow> TickerInfoShm \<Rightarrow> (TickerInfoShm \<Rightarrow> TickerInfoShm) list" where
  "ticker_writes threshold slot =
     (if Fin 0 < tk_bid_price threshold \<and> Fin 0 < tk_bid_size threshold
      then [tk_bid_price_update (\<lambda>_. tk_bid_price threshold), tk_bid_size_update (\<lambda>_. tk_bid_size threshold)] else [])
     @ (if Fin 0 < tk_ask_price threshold \<and> Fin 0 < tk_ask_size threshold
      then [tk_ask_price_update (\<lambda>_. tk_ask_price threshold), tk_ask_size_update (\<lambda>_. tk_ask_size threshold)] else [])
     @ [tk_update_id_update (\<lambda>_. tk_update_id threshold), tk_update_time_update (\<lambda>_. tk_update_time threshold),
        (\<lambda>s. s\<lparr>tk_version_number := tk_version_number s + 1\<rparr>)]"

definition ticker_copies :: "(TickerInfoShm \<Rightarrow> TickerInfoShm \<Rightarrow> TickerInfoShm) list" where
  "ticker_copies =
     [\<lambda>s x. x\<lparr>tk_inst_id := strncpy_buf 24 (tk_inst_id s)\<rparr>, \<lambda>s x. x\<lparr>tk_bid_price := tk_bid_price s\<rparr>,
      \<lambda>s x. x\<lparr>tk_bid_size := tk_bid_size s\<rparr>, \<lambda>s x. x\<lparr>tk_ask_price := tk_ask_price s\<rparr>,
      \<lambda>s x. x\<lparr>tk_ask_size := tk_ask_size s\<rparr>, \<lambda>s x. x\<lparr>tk_update_id := tk_update_id s\<rparr>,
      \<lambda>s x. x\<lparr>tk_update_time := tk_update_time s\<rparr>, \<lambda>s x. x\<lparr>tk_version_number := tk_version_number s\<rparr>]"

definition new_TickerInfoShm :: TickerInfoShm where
  "new_TickerInfoShm = \<lparr>tk_inst_id = [], tk_bid_price = Fin 0, tk_bid_size = Fin 0, tk_ask_price = Fin 0,
     tk_ask_size = Fin 0, tk_update_id = 0, tk_update_time = 0, tk_version_number = 0\<rparr>"

abbreviation ticker_step ::
  "(TickerInfoShm, TickerInfoShm) lstate \<Rightarrow> (TickerInfoShm, TickerInfoShm) lstate \<Rightarrow> bool" where
  "ticker_step \<equiv> lstep ticker_newer (\<lambda>_. True) ticker_writes ticker_copies new_TickerInfoShm"

interpretation tkp: slot_program tk_version_number ticker_newer "\<lambda>_. True" ticker_slot_update
  ticker_writes ticker_copies new_TickerInfoShm "\<lambda>s. s\<lparr>tk_inst_id := strncpy_buf 24 (tk_inst_id s)\<rparr>"
  by unfold_locales (auto simp: ticker_writes_def ticker_copies_def ticker_slot_update_def Let_def)

definition order_writes :: "OrderShm \<Rightarrow> OrderShm \<Rightarrow> (OrderShm \<Rightarrow> OrderShm) list" where
  "order_writes order slot =
     [os_inst_id_update (\<lambda>_. os_inst_id order), os_type_update (\<lambda>_. os_type order),
      os_side_update (\<lambda>_. os_side order), os_pos_side_update (\<lambda>_. os_pos_side order),
      os_time_in_force_update (\<lambda>_. os_time_in_force order),
      os_client_order_id_update (\<lambda>_. os_client_order_id order),
      os_price_update (\<lambda>_. os_price order), os_volume_update (\<lambda>_. os_volume order),
      os_reduce_only_update (\<lambda>_. os_reduce_only order), os_update_time_update (\<lambda>_. os_update_time order),
      (\<lambda>s. s\<lparr>os_version_number := os_version_number s + 1\<rparr>)]"

definition order_copies :: "(OrderShm \<Rightarrow> OrderShm \<Rightarrow> OrderShm) list" where
  "order_copies =
     [\<lambda>s x. x\<lparr>os_inst_id := os_inst_id s\<rparr>, \<lambda>s x. x\<lparr>os_type := os_type s\<rparr>, \<lambda>s x. x\<lparr>os_side := os_side s\<rparr>,
      \<lambda>s x. x\<lparr>os_pos_side := os_pos_side s\<rparr>, \<lambda>s x. x\<lparr>os_time_in_force := os_time_in_force s\<rparr>,
      \<lambda>s x. x\<lparr>os_client_order_id := os_client_order_id s\<rparr>, \<lambda>s x. x\<lparr>os_price := os_price s\<rparr>,
      \<lambda>s x. x\<lparr>os_volume := os_volume s\<rparr>, \<lambda>s x. x\<lparr>os_reduce_only := os_reduce_only s\<rparr>,
      \<lambda>s x. x\<lparr>os_update_time := os_update_time s\<rparr>, \<lambda>s x. x\<lparr>os_version_number := os_version_number s\<rparr>]"

abbreviation order_step :: "(OrderShm, OrderShm) lstate \<Rightarrow> (OrderShm, OrderShm) lstate \<Rightarrow> bool" where
  "order_step \<equiv> lstep order_newer order_fits order_writes order_copies blank_order"

interpretation osp: slot_program os_version_number order_newer order_fits order_slot_update
  order_writes order_copies blank_order "\<lambda>s. s"
  by unfold_locales
    (auto simp: order_writes_def order_copies_def order_slot_update_def order_fits_def)

section \<open>Properties\<close>

text \<open>The spin lock of a slot gives mutual exclusion, whatever the updates and however the readers and
  writers interleave: the lock word is 0 or 1, it is 1 exactly while a process is in its critical
  section, and never two are; and the lock is never stuck, because the process that holds it can
  always finish and release it by its own steps.\<close>

theorem shm_lock_exclusive_and_live:
  assumes "(lstep newer fits writes copies blank)\<^sup>*\<^sup>* (linit s0) s"
  shows "lock s \<in> {0, 1} \<and> (lock s = 1 \<longleftrightarrow> (\<exists>t. in_cs (pcs s t)))
    \<and> (\<forall>t u. in_cs (pcs s t) \<longrightarrow> in_cs (pcs s u) \<longrightarrow> t = u)
    \<and> (\<exists>s'. (lstep newer fits writes copies blank)\<^sup>*\<^sup>* s s' \<and> lock s' = 0)"
proof -
  have inv: "lock_inv s" by (rule reachable_lock_inv[OF assms])
  have "\<exists>s'. (lstep newer fits writes copies blank)\<^sup>*\<^sup>* s s' \<and> lock s' = 0"
  proof (cases "lock s = 0")
    case False
    then obtain t where "in_cs (pcs s t)" using inv by (auto simp: lock_inv_def)
    then show ?thesis by (rule holder_releases)
  qed blast
  moreover have "lock s \<in> {0, 1}" "lock s = 1 \<longleftrightarrow> (\<exists>t. in_cs (pcs s t))"
    "\<forall>t u. in_cs (pcs s t) \<longrightarrow> in_cs (pcs s u) \<longrightarrow> t = u"
    using inv by (cases "lock s = 0"; auto simp: lock_inv_def)+
  ultimately show ?thesis by blast
qed

theorem shm_lock_exclusive_and_live_witness:
  "\<exists>s. ticker_step\<^sup>*\<^sup>* (linit new_TickerInfoShm) s \<and> (\<exists>t. in_cs (pcs s t)) \<and> lock s = 1"
proof -
  let ?s0 = "linit new_TickerInfoShm :: (TickerInfoShm, TickerInfoShm) lstate"
  let ?s1 = "goto 0 RSpin ?s0" and ?s2 = "goto 0 (RCopy ticker_copies new_TickerInfoShm) (?s0\<lparr>lock := 1\<rparr>)"
  have "ticker_step ?s0 ?s1" by (rule begin_read) (simp add: linit_def)
  moreover have "ticker_step ?s1 ?s2"
    using read_acquire[of ?s1 0 ticker_newer] by (simp add: goto_def linit_def)
  ultimately have r: "ticker_step\<^sup>*\<^sup>* ?s0 ?s2" by (meson rtranclp.rtrancl_into_rtrancl rtranclp.rtrancl_refl)
  have "\<exists>t. in_cs (pcs ?s2 t)" by (intro exI[of _ 0]) simp
  with r shm_lock_exclusive_and_live[OF r] show ?thesis by blast
qed

text \<open>C10. No torn reads of tickers: in every interleaving, what a reader of a ticker slot returns is the
  state that the slot has after some prefix of the committed updates, executed one after the other by
  the sequential update function; and whenever the lock is free the slot is the result of all of them.\<close>

theorem ticker_read_linearizable:
  assumes "ticker_step\<^sup>*\<^sup>* (linit s0) s"
  shows "(\<forall>t x. pcs s t = RDone x \<longrightarrow> (\<exists>n \<le> length (hist s). \<exists>m.
      run_slot ticker_slot_update (take n (hist s)) s0 = Inr m
      \<and> x = m\<lparr>tk_inst_id := strncpy_buf 24 (tk_inst_id m)\<rparr>))
    \<and> (lock s = 0 \<longrightarrow> run_slot ticker_slot_update (hist s) s0 = Inr (mem s))"
  using tkp.snapshot_consistent[OF assms] tkp.committed_memory[OF assms] by blast

theorem ticker_read_linearizable_witness:
  "\<exists>s m. ticker_step\<^sup>*\<^sup>* (linit (sample_ticker (Fin 2) (Fin 3) 1 1)) s
    \<and> pcs s 0 = RDone (m\<lparr>tk_inst_id := strncpy_buf 24 (tk_inst_id m)\<rparr>)"
proof -
  let ?i = "linit (sample_ticker (Fin 2) (Fin 3) 1 1) :: (TickerInfoShm, TickerInfoShm) lstate"
  obtain s where r: "ticker_step\<^sup>*\<^sup>* ?i s"
      and d: "pcs s 0 = RDone (fold (\<lambda>c. c (mem ?i)) ticker_copies new_TickerInfoShm)"
    using solo_read[of ?i 0 ticker_newer "\<lambda>_. True" ticker_writes ticker_copies new_TickerInfoShm]
    by (auto simp: linit_def)
  with ticker_read_linearizable[OF r] show ?thesis by metis
qed

text \<open>No torn reads of orders: the order that the trader's reader returns is exactly one committed
  state of the slot (price, volume, side and client order id belong to the same order), in every
  interleaving with the writers.\<close>

theorem order_read_linearizable:
  assumes "order_step\<^sup>*\<^sup>* (linit s0) s" and "pcs s t = RDone x"
  shows "\<exists>n \<le> length (hist s). run_slot order_slot_update (take n (hist s)) s0 = Inr x"
  using osp.snapshot_consistent[OF assms] by blast

theorem order_read_linearizable_witness:
  "\<exists>s x. order_step\<^sup>*\<^sup>* (linit sample_order) s \<and> pcs s 0 = RDone x
    \<and> (\<exists>n \<le> length (hist s). run_slot order_slot_update (take n (hist s)) sample_order = Inr x)"
proof -
  let ?i = "linit sample_order :: (OrderShm, OrderShm) lstate"
  obtain s where r: "order_step\<^sup>*\<^sup>* ?i s"
      and d: "pcs s 0 = RDone (fold (\<lambda>c. c (mem ?i)) order_copies blank_order)"
    using solo_read[of ?i 0 order_newer order_fits order_writes order_copies blank_order]
    by (auto simp: linit_def)
  with order_read_linearizable[OF r d] show ?thesis by metis
qed

end
