(* ===== verification/Tools.thy ===== *)
theory Tools
  imports Double
begin

text \<open>
  \<open>src/src/common/tools.cpp\<close>: the suffix test by which every process decides whether an
  instrument is a benchmark or a follower, the client order id, decimal truncation of prices and
  the number of decimals of a tick size. The clock (\<open>gettimeofday\<close>) is an argument.
\<close>

section \<open>Strings\<close>

text \<open>
  \<open>rfind\<close> is \<open>std::string::rfind\<close> with \<open>None\<close> for \<open>npos\<close>. \<open>strip_suffix\<close> is the expression
  \<open>inst_id.substr(0, inst_id.size() - quote.size())\<close> of the callers: the unsigned difference
  wraps around when the quote is the longer string, and \<open>substr\<close> then returns the whole string.
\<close>

definition occurs_at :: "string \<Rightarrow> string \<Rightarrow> nat \<Rightarrow> bool" where
  "occurs_at str sub i \<longleftrightarrow> take (length sub) (drop i str) = sub"

definition rfind :: "string \<Rightarrow> string \<Rightarrow> nat option" where
  "rfind str sub =
     (if length sub \<le> length str
      then find (occurs_at str sub) (rev [0..<length str - length sub + 1]) else None)"

definition str_ends_with :: "string \<Rightarrow> string \<Rightarrow> bool" where
  "str_ends_with str suffix =
     (if length str < length suffix then False
      else rfind str suffix = Some (length str - length suffix))"

definition strip_suffix :: "string \<Rightarrow> string \<Rightarrow> string" where
  "strip_suffix inst_id quote =
     (if length quote \<le> length inst_id then take (length inst_id - length quote) inst_id
      else inst_id)"

lemma str_ends_with_iff: "str_ends_with str suffix \<longleftrightarrow> (\<exists>p. str = p @ suffix)"
proof (cases "length suffix \<le> length str")
  case True
  let ?n = "length str - length suffix"
  have "rfind str suffix = find (occurs_at str suffix) (?n # rev [0..<?n])"
    using True by (simp add: rfind_def)
  then have "str_ends_with str suffix \<longleftrightarrow> occurs_at str suffix ?n"
    using True by (auto simp: str_ends_with_def find_Some_iff)
  also have "\<dots> \<longleftrightarrow> drop ?n str = suffix"
    using True by (simp add: occurs_at_def)
  also have "\<dots> \<longleftrightarrow> (\<exists>p. str = p @ suffix)"
    by (metis append_take_drop_id append_eq_conv_conj True diff_diff_cancel length_append length_drop
        add_diff_cancel_right')
  finally show ?thesis .
next
  case False
  then show ?thesis by (auto simp: str_ends_with_def)
qed

lemma strip_suffix_append [simp]: "strip_suffix (base @ quote) quote = base"
  by (simp add: strip_suffix_def)

fun string_of_nat :: "nat \<Rightarrow> string" where
  "string_of_nat n =
     (if n < 10 then [char_of (48 + n)] else string_of_nat (n div 10) @ [char_of (48 + n mod 10)])"

declare string_of_nat.simps [simp del]

definition string_of_int :: "int \<Rightarrow> string" where
  "string_of_int i = (if i < 0 then CHR ''-'' # string_of_nat (nat (- i)) else string_of_nat (nat i))"

definition gen_client_order_id :: "i64 \<Rightarrow> i64 \<Rightarrow> bool \<Rightarrow> bool \<Rightarrow> int \<Rightarrow> bool \<Rightarrow> string" where
  "gen_client_order_id tv_sec tv_usec is_buy_side adjusted_price ticker_delay_millis is_close_position =
     (let now = tv_sec * 1000 + tv_usec div 1000;
          adjusted = (if adjusted_price then CHR ''y'' else CHR ''n'');
          close = (if is_close_position then CHR ''y'' else CHR ''n'');
          side = (if is_buy_side then ''b'' else ''s'')
      in side @ ''_'' @ [close] @ ''_'' @ string_of_nat (unat now) @ ''_'' @ [adjusted] @ ''_''
         @ string_of_int ticker_delay_millis)"

definition decimal_digit :: "char \<Rightarrow> bool" where
  "decimal_digit c \<longleftrightarrow> 48 \<le> (of_char c :: nat) \<and> (of_char c :: nat) < 58"

lemma decimal_digit_char_of [simp]: "n < 10 \<Longrightarrow> decimal_digit (char_of (48 + n :: nat))"
  by (simp add: decimal_digit_def)

lemma string_of_nat_digits: "\<forall>c \<in> set (string_of_nat n). decimal_digit c"
proof (induction n rule: string_of_nat.induct)
  case (1 n)
  then show ?case by (subst string_of_nat.simps) auto
qed

lemma string_of_nat_length: "n < 10 ^ k \<Longrightarrow> 0 < k \<Longrightarrow> length (string_of_nat n) \<le> k"
proof (induction n arbitrary: k rule: string_of_nat.induct)
  case (1 n)
  show ?case
  proof (cases "n < 10")
    case True
    then show ?thesis using "1.prems" by (subst string_of_nat.simps) simp
  next
    case False
    then obtain j where k: "k = Suc j" "0 < j"
      using "1.prems" by (cases k; cases "k - 1") auto
    then have "n div 10 < 10 ^ j" using "1.prems" by (simp add: div_less_iff_less_mult mult.commute)
    then have "length (string_of_nat (n div 10)) \<le> j" using "1.IH" False k by blast
    then show ?thesis using False k by (subst string_of_nat.simps) simp
  qed
qed

fun nat_of_string :: "string \<Rightarrow> nat" where
  "nat_of_string s = foldl (\<lambda>a c. 10 * a + (of_char c - 48)) 0 s"

lemma nat_of_string_of_nat [simp]: "nat_of_string (string_of_nat n) = n"
proof (induction n rule: string_of_nat.induct)
  case (1 n)
  show ?case
  proof (cases "n < 10")
    case True
    then show ?thesis by (subst string_of_nat.simps) simp
  next
    case False
    then show ?thesis using "1.IH" by (subst string_of_nat.simps) simp
  qed
qed

lemma string_of_nat_inj: "string_of_nat m = string_of_nat n \<Longrightarrow> m = n"
  by (metis nat_of_string_of_nat)

lemma string_of_nat_not_minus: "string_of_nat n \<noteq> CHR ''-'' # s"
  using string_of_nat_digits[of n] by (auto simp: decimal_digit_def)

lemma string_of_int_inj: "string_of_int i = string_of_int j \<Longrightarrow> i = j"
  using string_of_nat_not_minus string_of_nat_inj[of "nat (- i)" "nat (- j)"]
    string_of_nat_inj[of "nat i" "nat j"]
  by (auto simp: string_of_int_def split: if_splits) metis+

lemma string_of_int_length: "in_int32 i \<Longrightarrow> length (string_of_int i) \<le> 11"
proof (cases "i < 0")
  case True
  assume "in_int32 i"
  then have "nat (- i) < 10 ^ 10" using True by (simp add: in_int32_def nat_less_iff)
  then show ?thesis using True string_of_nat_length[of "nat (- i)" 10] by (simp add: string_of_int_def)
next
  case False
  assume "in_int32 i"
  then have "nat i < 10 ^ 10" using False by (simp add: in_int32_def nat_less_iff)
  then show ?thesis using False string_of_nat_length[of "nat i" 10] by (simp add: string_of_int_def)
qed

lemma append_sep_inj:
  assumes "xs @ c # ys = xs' @ c # ys'" and "c \<notin> set xs" and "c \<notin> set xs'"
  shows "xs = xs' \<and> ys = ys'"
  using assms
proof (induction xs arbitrary: xs')
  case Nil
  then show ?case by (cases xs') auto
next
  case (Cons x xs)
  then show ?case by (cases xs') auto
qed

lemma underscore_not_digit: "CHR ''_'' \<notin> set (string_of_nat n)"
  using string_of_nat_digits[of n] by (auto simp: decimal_digit_def)

lemma gen_client_order_id_eq:
  "gen_client_order_id s u b a d c =
     (if b then CHR ''b'' else CHR ''s'') # CHR ''_'' # (if c then CHR ''y'' else CHR ''n'') # CHR ''_''
     # string_of_nat (unat (s * 1000 + u div 1000)) @ CHR ''_''
     # (if a then CHR ''y'' else CHR ''n'') # CHR ''_'' # string_of_int d"
  by (simp add: gen_client_order_id_def)

lemma client_order_id_inj:
  assumes "gen_client_order_id s u b a d c = gen_client_order_id s' u' b' a' d' c'"
  shows "b = b' \<and> a = a' \<and> d = d' \<and> c = c' \<and> s * 1000 + u div 1000 = s' * 1000 + u' div 1000"
proof -
  let ?n = "s * 1000 + u div 1000" and ?n' = "s' * 1000 + u' div 1000"
  have bc: "b = b'" "c = c'" using assms by (auto simp: gen_client_order_id_eq split: if_splits)
  have "string_of_nat (unat ?n) @ CHR ''_'' # (if a then CHR ''y'' else CHR ''n'') # CHR ''_'' # string_of_int d
      = string_of_nat (unat ?n') @ CHR ''_'' # (if a' then CHR ''y'' else CHR ''n'') # CHR ''_'' # string_of_int d'"
    using assms by (simp add: gen_client_order_id_eq)
  then have "string_of_nat (unat ?n) = string_of_nat (unat ?n') \<and>
      (if a then CHR ''y'' else CHR ''n'') # CHR ''_'' # string_of_int d
      = (if a' then CHR ''y'' else CHR ''n'') # CHR ''_'' # string_of_int d'"
    by (rule append_sep_inj [OF _ underscore_not_digit underscore_not_digit])
  then show ?thesis
    using bc string_of_nat_inj [of "unat ?n" "unat ?n'"] string_of_int_inj [of d d']
    by (auto simp: word_unat_eq_iff split: if_splits)
qed

lemma client_order_id_length:
  assumes "in_int32 d"
  shows "length (gen_client_order_id s u b a d c) < 40"
proof -
  have "unat (s * 1000 + u div 1000) < 2 ^ LENGTH(64)" by (rule unsigned_less)
  also have "(2::nat) ^ LENGTH(64) < 10 ^ 20" by simp
  finally have "length (string_of_nat (unat (s * 1000 + u div 1000))) \<le> 20"
    by (intro string_of_nat_length) simp_all
  then show ?thesis using string_of_int_length[OF assms] by (simp add: gen_client_order_id_eq)
qed

section \<open>Decimal truncation\<close>

text \<open>
  \<open>to_int w\<close> is the conversion to a signed integer of \<open>w\<close> bits: it truncates toward zero, and it
  is undefined (\<open>BadConversion\<close>) when the truncated value does not fit. \<open>pow10\<close> is
  \<open>std::pow(10, precision)\<close>, taken as correctly rounded.
\<close>

definition trunc :: "rat \<Rightarrow> int" where
  "trunc q = (if 0 \<le> q then \<lfloor>q\<rfloor> else \<lceil>q\<rceil>)"

definition to_int :: "nat \<Rightarrow> double \<Rightarrow> int result" where
  "to_int w x =
     (if finite_d x \<and> - (2 ^ (w - 1)) \<le> trunc (fval x) \<and> trunc (fval x) < 2 ^ (w - 1)
      then Inr (trunc (fval x)) else Inl BadConversion)"

definition pow10 :: "int \<Rightarrow> double" where
  "pow10 precision = dbl (10 powi precision)"

definition decimal_process :: "double \<Rightarrow> int \<Rightarrow> double result" where
  "decimal_process value precision =
     (if precision = 0 then bind_result (to_int 32 value) (\<lambda>n. Inr (to_double n))
      else bind_result (to_int 64 (pow10 precision)) (\<lambda>pow.
           bind_result (to_int 64 (value * to_double pow)) (\<lambda>n.
           Inr (to_double n / to_double pow))))"

section \<open>Precision of a step size\<close>

text \<open>
  The \<open>do\<close>-\<open>while\<close> loop of \<open>calculate_precision_by_min_step\<close>. It need not end, so it is a partial
  function whose value \<open>None\<close> is the endless loop.
\<close>

partial_function (option) precision_loop :: "double \<Rightarrow> int \<Rightarrow> int option" where
  "precision_loop min_step precision =
     (let precision = precision + 1; min_step = min_step * Fin 10
      in if min_step < Fin 1 then precision_loop min_step precision else Some precision)"

definition calculate_precision_by_min_step :: "double \<Rightarrow> int option" where
  "calculate_precision_by_min_step min_step =
     (if Fin 1 \<le> min_step then Some 0 else precision_loop min_step 0)"

lemma trunc_mono: "p \<le> q \<Longrightarrow> trunc p \<le> trunc q"
  by (auto simp: trunc_def floor_mono ceiling_mono intro: order_trans [of _ 0])

lemma precision_loop_nonpos_None:
  assumes "precision_loop x p = Some r"
  shows "\<not> x \<le> Fin 0"
proof (rule precision_loop.raw_induct [where P = "\<lambda>x p r. \<not> x \<le> Fin 0", OF _ assms])
  fix f :: "double \<Rightarrow> int \<Rightarrow> int option" and x p r
  assume IH: "\<And>x p r. f x p = Some r \<Longrightarrow> \<not> x \<le> Fin 0"
    and eq: "(let p = p + 1; x = x * Fin 10 in if x < Fin 1 then f x p else Some p) = Some r"
  show "\<not> x \<le> Fin 0"
  proof
    assume x: "x \<le> Fin 0"
    have "x * Fin 10 \<le> Fin 0"
    proof (cases "finite_d x")
      case True
      have "signed_round True (fval x * 10) \<le> signed_round False 0"
        using x True by (intro signed_round_mono) (cases x; simp)+
      moreover have "x * Fin 10 = signed_round True (fval x * 10) \<or> x = Fin 0"
        using x True by (cases x) auto
      ultimately show ?thesis by (auto simp del: less_eq_double.simps) (simp add: signed_round_def)
    next
      case False
      then show ?thesis using x by (cases x) auto
    qed
    moreover from this have "x * Fin 10 < Fin 1"
      by (rule d_le_less_trans) simp
    ultimately show False using eq IH by (simp add: Let_def)
  qed
qed


lemma mult_Fin_mono:
  assumes "v \<le> w" and "finite_d v" and "finite_d w" and "0 < c"
  shows "v * Fin c \<le> w * Fin c"
proof -
  have m: "x * Fin c = signed_round (neg_sign x) (fval x * c)" if "finite_d x" for x
    using that assms(4) by (cases x) auto
  have "fval v \<le> fval w" using assms(1-3) by (cases v; cases w) auto
  then have "signed_round (neg_sign v) (fval v * c) \<le> signed_round (neg_sign w) (fval w * c)"
    using assms(2-4)
    by (intro signed_round_mono; cases v; cases w) (auto simp: mult_le_0_iff zero_le_mult_iff)
  then show ?thesis by (simp only: m assms(2,3))
qed

lemma div_Fin_mono:
  assumes "v \<le> w" and "finite_d v" and "finite_d w" and "0 < c"
  shows "v / Fin c \<le> w / Fin c"
proof -
  have m: "x / Fin c = signed_round (neg_sign x) (fval x / c)" if "finite_d x" for x
    using that assms(4) by (cases x) auto
  have "fval v \<le> fval w" using assms(1-3) by (cases v; cases w) auto
  then have "signed_round (neg_sign v) (fval v / c) \<le> signed_round (neg_sign w) (fval w / c)"
    using assms(2-4)
    by (intro signed_round_mono; cases v; cases w)
      (auto simp: divide_le_0_iff zero_le_divide_iff divide_right_mono)
  then show ?thesis by (simp only: m assms(2,3))
qed

lemma to_double_mono: "m \<le> n \<Longrightarrow> to_double m \<le> to_double n"
  unfolding to_double_def by (rule signed_round_mono) auto

lemma to_int_mono:
  assumes "to_int w x = Inr m" and "to_int w y = Inr n" and "x \<le> y"
  shows "m \<le> n"
proof -
  have f: "finite_d x" "finite_d y" "m = trunc (fval x)" "n = trunc (fval y)"
    using assms(1,2) by (auto simp: to_int_def split: if_splits)
  then have "fval x \<le> fval y" using assms(3) by (cases x; cases y) auto
  with f show ?thesis by (simp add: trunc_mono)
qed

lemma trunc_of_int [simp]: "trunc (of_int n) = n"
  by (simp add: trunc_def)

lemma ten_power_le:
  assumes "1 \<le> p" and "p \<le> 15"
  shows "(10::int) ^ nat p \<le> 2 ^ 53"
proof -
  have "(10::int) ^ nat p \<le> 10 ^ 15" using assms by (intro power_increasing) auto
  then show ?thesis by simp
qed

lemma pow10_int:
  assumes "1 \<le> p" and "p \<le> 15"
  shows "to_int 64 (pow10 p) = Inr (10 ^ nat p)"
proof -
  have b: "(10::int) ^ nat p \<le> 2 ^ 53" by (rule ten_power_le [OF assms])
  have "pow10 p = to_double (10 ^ nat p)"
    using assms by (simp add: pow10_def dbl_def to_double_def power_int_nonneg_exp)
  also have "\<dots> = Fin (of_int (10 ^ nat p))"
    using b by (intro to_double_exact) simp
  finally have e: "pow10 p = Fin (of_int (10 ^ nat p))" .
  have "(10::int) ^ nat p < 2 ^ 63" using b by simp
  moreover have "- (2 ^ 63) \<le> (10::int) ^ nat p" by (rule order_trans [of _ 0]) simp_all
  ultimately show ?thesis by (simp only: e to_int_def fval.simps finite_d.simps trunc_of_int) simp
qed

lemma decimal_process_unfold:
  assumes "1 \<le> p" and "p \<le> 15"
  shows "decimal_process v p =
    bind_result (to_int 64 (v * Fin (10 ^ nat p))) (\<lambda>n. Inr (to_double n / Fin (10 ^ nat p)))"
proof -
  have "to_double (10 ^ nat p) = Fin (10 ^ nat p)"
    using to_double_exact[of "10 ^ nat p"] ten_power_le[OF assms] by simp
  then show ?thesis using assms by (simp add: decimal_process_def pow10_int)
qed

lemma to_double_finite:
  assumes "to_int w x = Inr n" and "w \<le> 64"
  shows "finite_d (to_double n)"
proof -
  have "- (2 ^ 63) \<le> n" "n \<le> 2 ^ 63"
  proof -
    have "(2::int) ^ (w - 1) \<le> 2 ^ 63" using assms(2) by (intro power_increasing) auto
    then show "- (2 ^ 63) \<le> n" "n \<le> 2 ^ 63"
      using assms(1) by (auto simp: to_int_def split: if_splits)
  qed
  then have "- (of_int (2 ^ 63)) \<le> (of_int n :: rat)" "(of_int n :: rat) \<le> of_int (2 ^ 63)"
    by (simp_all only: of_int_le_iff of_int_minus [symmetric])
  then have "rquant (- (of_int (2 ^ 63))) \<le> rquant (of_int n)" "rquant (of_int n) \<le> rquant (of_int (2 ^ 63))"
    by (simp_all only: rquant_mono)
  moreover have "rquant (of_int (2 ^ 63)) = 2 ^ 63" using rquant_powi2[of 63] by simp
  ultimately have "\<bar>rquant (of_int n)\<bar> \<le> 2 ^ 63" unfolding rquant_minus by (intro abs_leI) linarith+
  then have "\<bar>rquant (of_int n)\<bar> < 2 ^ 1024" by simp
  then show ?thesis unfolding to_double_def using fval_signed_round by blast
qed

lemma decimal_process_monotone:
  assumes p: "0 \<le> p" "p \<le> 15" and vw: "v \<le> w"
    and a: "decimal_process v p = Inr a" and b: "decimal_process w p = Inr b"
  shows "a \<le> b"
proof (cases "p = 0")
  case True
  then show ?thesis using a b vw to_int_mono[of 32 v _ w]
    by (auto simp: decimal_process_def bind_result_Inr_iff intro: to_double_mono)
next
  case False
  then have p1: "1 \<le> p" using p by simp
  let ?c = "10 ^ nat p :: rat"
  obtain m n where m: "to_int 64 (v * Fin ?c) = Inr m" and n: "to_int 64 (w * Fin ?c) = Inr n"
    and ab: "a = to_double m / Fin ?c" "b = to_double n / Fin ?c"
    using a b by (auto simp: decimal_process_unfold[OF p1 p(2)] bind_result_Inr_iff)
  have "finite_d v" "finite_d w"
    using m n by (cases v; cases w; auto simp: to_int_def split: if_splits)+
  then have "v * Fin ?c \<le> w * Fin ?c" using vw by (intro mult_Fin_mono) simp_all
  then have "to_double m \<le> to_double n" using to_int_mono[OF m n] to_double_mono by blast
  then show ?thesis unfolding ab
    using to_double_finite[OF m] to_double_finite[OF n] by (intro div_Fin_mono) simp_all
qed


lemma decimal_process_grid:
  assumes p: "1 \<le> p" "p \<le> 15" and n: "to_int 64 (v * Fin (10 ^ nat p)) = Inr n" and "\<bar>n\<bar> \<le> 2 ^ 53"
  shows "decimal_process v p = Inr (dbl (of_int n / 10 ^ nat p))"
proof -
  have "to_double n = Fin (of_int n)" using assms(4) by (rule to_double_exact)
  then show ?thesis using n
    by (simp add: decimal_process_unfold[OF p] dbl_def divide_less_0_iff)
qed

lemma precision_loop_step:
  assumes "is_f64 (Fin q)" and "0 < q" and "q < 1"
  shows "Fin q * Fin 10 = Fin (rquant (10 * q))" and "8 * q \<le> rquant (10 * q)"
proof -
  have r: "rquant q = q" using assms(1) by (simp add: is_f64_def)
  have "rquant (2 ^ 3 * q) \<le> rquant (10 * q)" using assms(2) by (intro rquant_mono) simp
  then show g: "8 * q \<le> rquant (10 * q)" using rquant_scale[OF r, of 3] by simp
  have "rquant (10 * q) \<le> rquant 10" using assms(3) by (intro rquant_mono) simp
  then have "rquant (10 * q) < 2 ^ 1024" by simp
  then show "Fin q * Fin 10 = Fin (rquant (10 * q))"
    using g assms(2) by (simp add: signed_round_def mult.commute)
qed

lemma precision_loop_terminates:
  assumes "is_f64 (Fin q)" and "0 < q" and "q < 1" and "1 \<le> 8 ^ n * q"
  shows "\<exists>r. precision_loop (Fin q) p = Some r \<and> p < r \<and> r \<le> p + int n"
  using assms
proof (induction n arbitrary: q p)
  case 0
  then show ?case by simp
next
  case (Suc n)
  let ?q = "rquant (10 * q)"
  have st: "Fin q * Fin 10 = Fin ?q" "8 * q \<le> ?q" using precision_loop_step Suc.prems by blast+
  show ?case
  proof (cases "?q < 1")
    case True
    have "8 ^ n * (8 * q) \<le> 8 ^ n * ?q" using st(2) by (intro mult_left_mono) simp_all
    moreover have "8 ^ n * (8 * q) = 8 ^ Suc n * q" by simp
    ultimately have "1 \<le> 8 ^ n * ?q" using Suc.prems(4) by linarith
    moreover have "is_f64 (Fin ?q)" by (metis st(1) times_f64)
    moreover have "0 < ?q" using st(2) Suc.prems(2) by linarith
    ultimately obtain r where "precision_loop (Fin ?q) (p + 1) = Some r" "p + 1 < r" "r \<le> p + 1 + int n"
      using Suc.IH[of ?q "p + 1"] True by blast
    then show ?thesis using True st(1) by (subst precision_loop.simps) (simp add: Let_def)
  next
    case False
    then show ?thesis using st(1) by (subst precision_loop.simps) (simp add: Let_def)
  qed
qed

lemma precision_loop_NaN: "precision_loop NaN p = Some (p + 1)"
  by (subst precision_loop.simps) (simp add: Let_def)

lemma precision_pos_terminates:
  assumes "is_f64 x" and "Fin 0 < x" and "\<not> Fin 1 \<le> x"
  shows "\<exists>r. precision_loop x p = Some r \<and> p < r \<and> r \<le> p + 358"
proof -
  obtain q where q: "x = Fin q" "0 < q" "q < 1" using assms(2,3) by (cases x) auto
  have "rquant q = q" using assms(1) q by (simp add: is_f64_def)
  then have "8 ^ 358 * 2 powi - 1074 \<le> 8 ^ 358 * q"
    using rquant_least_pos q by (intro mult_left_mono) auto
  moreover have "(1::rat) = 8 ^ 358 * 2 powi - 1074"
  proof -
    have "(8::rat) ^ 358 = 2 powi 1074" using power_mult[of "2::rat" 3 358] by simp
    then show ?thesis by (simp only: powi2_add [symmetric]) simp
  qed
  ultimately show ?thesis
    using precision_loop_terminates[of q 358 p] assms(1) q by (simp only:) simp
qed

lemma dbl_029: "dbl (29 / 100) = Fin (5224175567749775 / 18014398509481984)"
proof -
  have "rquant (29 / 100) = of_int 5224175567749775 * 2 powi (- 2 - 52)"
    by (rule rquant_eval) (simp_all add: power_int_minus)
  then show ?thesis by (simp add: dbl_def signed_round_def power_int_minus)
qed

lemma decimal_process_029: "decimal_process (dbl (29 / 100)) 2 = Inr (dbl (28 / 100))"
proof -
  have "rquant (5224175567749775 / 18014398509481984 * 100) = of_int 8162774324609023 * 2 powi (4 - 52)"
    by (rule rquant_eval) (simp_all add: power_int_minus)
  then have m: "dbl (29 / 100) * Fin (10 ^ nat 2) = Fin (8162774324609023 / 281474976710656)"
    by (simp add: dbl_029 signed_round_def power_int_minus)
  have "to_int 64 (dbl (29 / 100) * Fin (10 ^ nat 2)) = Inr 28"
    unfolding m to_int_def trunc_def by (simp add: floor_eq_iff)
  then show ?thesis using decimal_process_grid[of 2 _ 28] by simp
qed


section \<open>Properties\<close>

text \<open>Instrument ids are base asset and quote asset concatenated. \<open>str_ends_with\<close>, which tests
  the last occurrence found by \<open>rfind\<close>, is exactly the suffix test, and stripping the quote from an
  id recovers the base asset, both for ids built from a base asset and for ids received.\<close>

theorem inst_id_roundtrip:
  "(str_ends_with inst_id quote \<longleftrightarrow> (\<exists>base. inst_id = base @ quote))
   \<and> strip_suffix (base @ quote) quote = base
   \<and> (str_ends_with inst_id quote \<longrightarrow> strip_suffix inst_id quote @ quote = inst_id)"
  by (auto simp: str_ends_with_iff)

theorem inst_id_roundtrip_witness:
  "str_ends_with ''BTCUSDT'' ''USDT'' \<and> strip_suffix ''BTCUSDT'' ''USDT'' @ ''USDT'' = ''BTCUSDT''"
proof -
  have "str_ends_with ''BTCUSDT'' ''USDT''"
    by (simp add: str_ends_with_def rfind_def occurs_at_def upt_rec)
  then show ?thesis using inst_id_roundtrip[of "''BTCUSDT''" "''USDT''"] by blast
qed

text \<open>A client order id identifies the order it was made for: the side, the close flag, the
  adjusted flag, the ticker delay and the millisecond clock can all be read back from it.\<close>

theorem client_order_id_injective:
  "gen_client_order_id s u b a d c = gen_client_order_id s' u' b' a' d' c' \<longleftrightarrow>
     b = b' \<and> a = a' \<and> d = d' \<and> c = c' \<and> s * 1000 + u div 1000 = s' * 1000 + u' div 1000"
  using client_order_id_inj[of s u b a d c s' u' b' a' d' c']
  by (auto simp: gen_client_order_id_eq)



text \<open>\<open>decimal_process\<close> is monotone: a larger price is never truncated to a smaller one.\<close>

theorem decimal_process_mono:
  assumes "0 \<le> p" and "p \<le> 15" and "v \<le> w"
    and "decimal_process v p = Inr a" and "decimal_process w p = Inr b"
  shows "a \<le> b"
  using assms by (rule decimal_process_monotone)

theorem decimal_process_mono_witness:
  "decimal_process (Fin 3) 1 = Inr (Fin 3) \<and> decimal_process (Fin 4) 1 = Inr (Fin 4) \<and> Fin 3 \<le> Fin 4"
proof -
  have "decimal_process (Fin 3) 1 = Inr (Fin 3)" "decimal_process (Fin 4) 1 = Inr (Fin 4)"
    by (simp_all add: decimal_process_unfold to_int_def trunc_def signed_round_def to_double_def)
  then show ?thesis using decimal_process_mono[of 1 "Fin 3" "Fin 4" "Fin 3" "Fin 4"] by simp
qed

text \<open>Between 1 and 15 decimals, \<open>decimal_process\<close> returns the double nearest to a decimal number
  with that many digits, whose digits are those of the rounded product truncated toward zero.\<close>

theorem decimal_process_correct:
  assumes "1 \<le> p" and "p \<le> 15" and "finite_d (v * Fin (10 ^ nat p))"
    and "n = trunc (fval (v * Fin (10 ^ nat p)))" and "\<bar>n\<bar> \<le> 2 ^ 53"
  shows "decimal_process v p = Inr (dbl (of_int n / 10 ^ nat p))"
proof (rule decimal_process_grid [OF assms(1,2) _ assms(5)])
  have "- (2 ^ 63) \<le> n" "n < 2 ^ 63" using assms(5) by (simp_all add: abs_le_iff)
  then show "to_int 64 (v * Fin (10 ^ nat p)) = Inr n"
    using assms(3,4) by (simp add: to_int_def)
qed

theorem decimal_process_correct_witness:
  "decimal_process (Fin 5) 2 = Inr (dbl (500 / 100))"
proof -
  have "decimal_process (Fin 5) 2 = Inr (dbl (of_int 500 / 10 ^ nat 2))"
    by (rule decimal_process_correct) (simp_all add: signed_round_def trunc_def)
  then show ?thesis by simp
qed

text \<open>Truncation after a rounded multiplication loses a tick on prices that are already aligned:
  the double 0.29 has two decimals, and \<open>decimal_process\<close> with two decimals returns 0.28.\<close>

theorem decimal_process_loses_tick:
  "decimal_process (dbl (29 / 100)) 2 = Inr (dbl (28 / 100)) \<and> dbl (28 / 100) < dbl (29 / 100)"
proof -
  have "rquant (28 / 100) = of_int 5044031582654956 * 2 powi (- 2 - 52)"
    by (rule rquant_eval) (simp_all add: power_int_minus)
  then have "dbl (28 / 100) = Fin (5044031582654956 / 18014398509481984)"
    by (simp add: dbl_def signed_round_def power_int_minus)
  then show ?thesis using decimal_process_029 by (simp add: dbl_029)
qed

end
