(* ===== verification/OrderService.thy ===== *)
theory OrderService
  imports OrderLimiter Tools
begin

text \<open>
  \<open>src/src/trader/service_container.{h,cpp}\<close> and \<open>service_manager.{h,cpp}\<close>: the order services, one per pair of
  local and remote address, the manager that maps each symbol to its best pair, the messages that
  announce a best path, and the janitor thread that removes services. Services are shared between
  the manager and the threads that place orders, so they live in a store \<open>sm_cells\<close> and a
  \<open>shared_ptr\<close> is an index into it. The exchange client is external: the result of its \<open>placeOrder\<close> is
  an argument. Identifiers and clocks are arguments.
\<close>

section \<open>One service\<close>

record WsClientWrapper =
  ws_id :: string
  ws_local_ip :: string
  ws_client :: "(string \<times> string) option"
  ws_has_init_started :: bool
  ws_is_stopped :: bool
  ws_update_time_millis :: u64

record FuturesNewOrder =
  fo_symbol :: string
  fo_side :: string
  fo_positionSide :: string
  fo_quantity :: double
  fo_price :: double
  fo_type :: string
  fo_timeInForce :: string
  fo_newClientOrderId :: string
  fo_newOrderRespType :: string
  fo_reduceOnly :: string

definition new_WsClientWrapper :: "string \<Rightarrow> WsClientWrapper" where
  "new_WsClientWrapper uuid = \<lparr>ws_id = uuid, ws_local_ip = [], ws_client = None, ws_has_init_started = False,
     ws_is_stopped = False, ws_update_time_millis = 0\<rparr>"

definition ws_init :: "string \<Rightarrow> string \<Rightarrow> WsClientWrapper \<Rightarrow> WsClientWrapper" where
  "ws_init local_ip remote_ip w = w\<lparr>ws_client := Some (local_ip, remote_ip), ws_local_ip := local_ip\<rparr>"

definition ws_start :: "WsClientWrapper \<Rightarrow> WsClientWrapper" where
  "ws_start w =
     (if ws_has_init_started w then w else w\<lparr>ws_is_stopped := False, ws_has_init_started := True\<rparr>)"

definition ws_stop :: "WsClientWrapper \<Rightarrow> WsClientWrapper" where
  "ws_stop w = w\<lparr>ws_is_stopped := True\<rparr>"

text \<open>\<open>Inl\<close> is an exception of the client with its message.\<close>

definition ws_place_order ::
  "(FuturesNewOrder \<Rightarrow> string + (bool \<times> string)) \<Rightarrow> FuturesNewOrder \<Rightarrow> WsClientWrapper \<Rightarrow> bool \<times> string" where
  "ws_place_order client_placeOrder order w =
     (if ws_is_stopped w then (False, ''service has stopped'')
      else case client_placeOrder order of
             Inr result \<Rightarrow> result
           | Inl what \<Rightarrow> (False, what))"

section \<open>The manager\<close>

record OrderServiceManager =
  sm_symbol_best_ippair_map :: "(string \<times> string) list"
  sm_ippair_service_map :: "(string \<times> nat) list"
  sm_cells :: "WsClientWrapper list"

definition new_OrderServiceManager :: OrderServiceManager where
  "new_OrderServiceManager = \<lparr>sm_symbol_best_ippair_map = [], sm_ippair_service_map = [], sm_cells = []\<rparr>"

definition update_best_service ::
  "u64 \<Rightarrow> string \<Rightarrow> string \<Rightarrow> string \<Rightarrow> string \<Rightarrow> OrderServiceManager \<Rightarrow> bool \<times> OrderServiceManager" where
  "update_best_service now uuid symbol local_ip remote_ip m =
     (let ip_pair = local_ip @ ''_'' @ remote_ip;
          (new_service, m) =
            (case map_of (sm_ippair_service_map m) ip_pair of
               None \<Rightarrow>
                 let w = ws_init local_ip remote_ip (new_WsClientWrapper uuid);
                     w = ws_start (w\<lparr>ws_update_time_millis := now\<rparr>)
                 in (True, m\<lparr>sm_cells := sm_cells m @ [w],
                      sm_ippair_service_map := AList.update ip_pair (length (sm_cells m)) (sm_ippair_service_map m)\<rparr>)
             | Some ptr \<Rightarrow>
                 (False, m\<lparr>sm_cells := cell_update ptr (\<lambda>w. w\<lparr>ws_update_time_millis := now\<rparr>) (sm_cells m)\<rparr>))
      in (new_service,
          m\<lparr>sm_symbol_best_ippair_map := AList.update symbol ip_pair (sm_symbol_best_ippair_map m)\<rparr>))"

text \<open>
  The two lookups of \<open>find_best_service\<close> are under two separate locks: the first argument is the manager at
  the first lock, the second the manager at the second.
\<close>

definition find_best_service :: "string \<Rightarrow> OrderServiceManager \<Rightarrow> OrderServiceManager \<Rightarrow> nat option" where
  "find_best_service symbol m_key m_value =
     (let ip_pair = (case map_of (sm_symbol_best_ippair_map m_key) symbol of None \<Rightarrow> '''' | Some p \<Rightarrow> p)
      in if ip_pair = '''' then None else map_of (sm_ippair_service_map m_value) ip_pair)"

definition get_all_service_ip_pairs :: "OrderServiceManager \<Rightarrow> string list" where
  "get_all_service_ip_pairs m = map fst (sm_ippair_service_map m)"

definition get_inuse_symol_ip_mapping :: "OrderServiceManager \<Rightarrow> (string \<times> string) list" where
  "get_inuse_symol_ip_mapping m = sm_symbol_best_ippair_map m"

definition find_update_expired_service :: "u64 \<Rightarrow> u64 \<Rightarrow> OrderServiceManager \<Rightarrow> string list" where
  "find_update_expired_service now expired_millis m =
     map fst (filter (\<lambda>(_, ptr). ws_update_time_millis (sm_cells m ! ptr) + expired_millis \<le> now)
       (sm_ippair_service_map m))"

definition stop_and_remove_service :: "string \<Rightarrow> OrderServiceManager \<Rightarrow> OrderServiceManager" where
  "stop_and_remove_service ip_pair m =
     (case map_of (sm_ippair_service_map m) ip_pair of
        None \<Rightarrow> m
      | Some ptr \<Rightarrow>
          let m = (if \<not> ws_is_stopped (sm_cells m ! ptr)
                   then m\<lparr>sm_cells := cell_update ptr ws_stop (sm_cells m)\<rparr> else m)
          in m\<lparr>sm_ippair_service_map := AList.delete ip_pair (sm_ippair_service_map m)\<rparr>)"

section \<open>Best-path messages and the janitor\<close>

record BestPathInfo =
  bp_action :: string
  bp_symbol :: string
  bp_local_ip :: string
  bp_remote_ip :: string
  bp_best_cost :: u64
  bp_update_time_millis :: u64

text \<open>\<open>BEST_PATH_ACTION_NEW\<close> is a constant of the path library.\<close>

definition is_valid_best_path :: "string \<Rightarrow> u64 \<Rightarrow> string set \<Rightarrow> BestPathInfo \<Rightarrow> bool" where
  "is_valid_best_path BEST_PATH_ACTION_NEW now follower_inst_id_set info =
     (if bp_symbol info \<notin> follower_inst_id_set then False
      else if bp_action info \<noteq> BEST_PATH_ACTION_NEW then False
      else if bp_local_ip info = '''' \<or> bp_remote_ip info = '''' \<or> bp_best_cost info \<le> 0 then False
      else if bp_update_time_millis info + 3600 * 1000 < now then False
      else True)"

definition unused_ip_pairs :: "string list \<Rightarrow> (string \<times> string) list \<Rightarrow> string list" where
  "unused_ip_pairs all_ip_pairs symbol_ip_mapping =
     filter (\<lambda>ip_pair. ip_pair \<notin> set (map snd symbol_ip_mapping)) all_ip_pairs"

text \<open>One round of the janitor with nothing in between.\<close>

definition service_zookeeper_processor :: "u64 \<Rightarrow> OrderServiceManager \<Rightarrow> OrderServiceManager" where
  "service_zookeeper_processor now m =
     (let all_ip_pairs = get_all_service_ip_pairs m;
          symbol_ip_mapping = get_inuse_symol_ip_mapping m;
          m = fold stop_and_remove_service (unused_ip_pairs all_ip_pairs symbol_ip_mapping) m;
          expired_ip_pairs = find_update_expired_service now (5400 * 1000) m
      in fold stop_and_remove_service expired_ip_pairs m)"

section \<open>Invariant\<close>

definition service_ok :: "OrderServiceManager \<Rightarrow> string \<times> nat \<Rightarrow> bool" where
  "service_ok m = (\<lambda>(ip_pair, ptr). ptr < length (sm_cells m)
     \<and> (let w = sm_cells m ! ptr in ws_has_init_started w \<and> \<not> ws_is_stopped w
        \<and> (\<exists>remote. ws_client w = Some (ws_local_ip w, remote) \<and> ip_pair = ws_local_ip w @ ''_'' @ remote)))"

definition sm_wf :: "OrderServiceManager \<Rightarrow> bool" where
  "sm_wf m \<longleftrightarrow> distinct (map fst (sm_ippair_service_map m)) \<and> distinct (map snd (sm_ippair_service_map m))
     \<and> (\<forall>e \<in> set (sm_ippair_service_map m). service_ok m e)
     \<and> (\<forall>ptr < length (sm_cells m). ptr \<notin> snd ` set (sm_ippair_service_map m) \<longrightarrow> ws_is_stopped (sm_cells m ! ptr))
     \<and> (\<forall>p \<in> set (map snd (sm_symbol_best_ippair_map m)). p \<noteq> [])"

text \<open>The pairs with a live service and the time of their last announcement.\<close>

definition sm_live :: "OrderServiceManager \<Rightarrow> string \<rightharpoonup> u64" where
  "sm_live m p = map_option (\<lambda>ptr. ws_update_time_millis (sm_cells m ! ptr)) (map_of (sm_ippair_service_map m) p)"

text \<open>What a client of the registry relies on: removing a pair removes that pair and nothing else.\<close>

locale service_registry =
  fixes inv :: "'s \<Rightarrow> bool"
    and live :: "'s \<Rightarrow> string \<rightharpoonup> u64"
    and remove :: "string \<Rightarrow> 's \<Rightarrow> 's"
  assumes remove_inv: "inv s \<Longrightarrow> inv (remove p s)"
    and remove_live: "inv s \<Longrightarrow> live (remove p s) = (live s)(p := None)"
begin

lemma fold_remove_inv: "inv s \<Longrightarrow> inv (fold remove ps s)"
  by (induction ps arbitrary: s) (simp_all add: remove_inv)

lemma fold_remove_live: "inv s \<Longrightarrow> live (fold remove ps s) = live s |` (- set ps)"
  by (induction ps arbitrary: s) (auto simp: remove_inv remove_live restrict_map_def fun_eq_iff)

end

lemma sm_wf_map_of:
  assumes "sm_wf m" and "map_of (sm_ippair_service_map m) p = Some ptr"
  shows "service_ok m (p, ptr)"
  using assms map_of_SomeD[OF assms(2)] by (auto simp: sm_wf_def)

lemma pointer_owner:
  assumes "sm_wf m" and "(p, ptr) \<in> set (sm_ippair_service_map m)" and "(q, ptr) \<in> set (sm_ippair_service_map m)"
  shows "p = q"
proof -
  have "inj_on snd (set (sm_ippair_service_map m))" using assms(1) by (simp add: sm_wf_def distinct_map)
  from inj_onD[OF this _ assms(2,3)] show ?thesis by simp
qed


lemma cell_update_frame: "i \<noteq> ptr \<Longrightarrow> cell_update ptr f cells ! i = cells ! i"
  by (auto simp: cell_update_def)

lemma map_of_delete: "map_of (AList.delete k m) = (map_of m)(k := None)"
  by (rule delete_conv')

lemma set_delete: "distinct (map fst m) \<Longrightarrow> set (AList.delete k m) = {e \<in> set m. fst e \<noteq> k}"
  by (auto simp: AList.delete_eq)

lemma stop_remove_wf:
  assumes "sm_wf m"
  shows "sm_wf (stop_and_remove_service p m)"
proof (cases "map_of (sm_ippair_service_map m) p")
  case None
  then show ?thesis using assms by (simp add: stop_and_remove_service_def)
next
  case (Some ptr)
  let ?cells = "cell_update ptr ws_stop (sm_cells m)" and ?m = "AList.delete p (sm_ippair_service_map m)"
  have ok: "service_ok m (p, ptr)" by (rule sm_wf_map_of[OF assms Some])
  have wf: "distinct (map fst (sm_ippair_service_map m))" "distinct (map snd (sm_ippair_service_map m))"
    using assms by (simp_all add: sm_wf_def)
  have e: "stop_and_remove_service p m = m\<lparr>sm_cells := ?cells, sm_ippair_service_map := ?m\<rparr>"
    using Some ok by (simp add: stop_and_remove_service_def service_ok_def Let_def)
  have other: "snd x \<noteq> ptr" if "x \<in> set ?m" for x
    using that pointer_owner[OF assms map_of_SomeD[OF Some], of "fst x"] wf by (auto simp: set_delete)
  have "service_ok (m\<lparr>sm_cells := ?cells, sm_ippair_service_map := ?m\<rparr>) x" if "x \<in> set ?m" for x
    using that other[OF that] assms wf by (auto simp: service_ok_def sm_wf_def set_delete cell_update_frame split: prod.splits)
  moreover have "ws_is_stopped (?cells ! i)" if "i < length (sm_cells m)" "i \<notin> snd ` set ?m" for i
  proof (cases "i = ptr")
    case True
    then show ?thesis using that(1) by (simp add: cell_update_nth ws_stop_def)
  next
    case False
    have "i \<notin> snd ` set (sm_ippair_service_map m)"
    proof
      assume "i \<in> snd ` set (sm_ippair_service_map m)"
      then obtain q where q: "(q, i) \<in> set (sm_ippair_service_map m)" by auto
      have "q \<noteq> p" using map_of_is_SomeI[OF wf(1) q] Some False by auto
      then have "(q, i) \<in> set ?m" using q wf(1) by (simp add: set_delete)
      then show False using that(2) by force
    qed
    then show ?thesis using that(1) assms False by (simp add: sm_wf_def cell_update_frame)
  qed
  moreover have "distinct (map fst ?m)" "distinct (map snd ?m)"
    using wf by (simp_all add: AList.delete_eq distinct_map_filter)
  ultimately show ?thesis using assms by (simp add: e sm_wf_def)
qed

lemma stop_remove_live:
  assumes "sm_wf m"
  shows "sm_live (stop_and_remove_service p m) = (sm_live m)(p := None)"
proof (cases "map_of (sm_ippair_service_map m) p")
  case None
  then show ?thesis by (auto simp: stop_and_remove_service_def sm_live_def fun_eq_iff)
next
  case (Some ptr)
  have own: "q = p" if "map_of (sm_ippair_service_map m) q = Some ptr" for q
    using pointer_owner[OF assms] map_of_SomeD[OF that] map_of_SomeD[OF Some] by blast
  have "sm_live (stop_and_remove_service p m) q = ((sm_live m)(p := None)) q" for q
  proof (cases "map_of (sm_ippair_service_map m) q")
    case None
    then show ?thesis using Some by (simp add: stop_and_remove_service_def sm_live_def map_of_delete Let_def)
  next
    case (Some ptr')
    have "ptr' \<noteq> ptr" if "q \<noteq> p" using own Some that by blast
    then show ?thesis
      using Some \<open>map_of (sm_ippair_service_map m) p = Some ptr\<close>
      by (simp add: stop_and_remove_service_def sm_live_def map_of_delete Let_def cell_update_frame)
  qed
  then show ?thesis by blast
qed

interpretation reg: service_registry sm_wf sm_live stop_and_remove_service
  by unfold_locales (simp_all add: stop_remove_wf stop_remove_live)

lemma update_best_service_wf:
  assumes "sm_wf m"
  shows "sm_wf (snd (update_best_service now uuid symbol l r m))"
proof -
  let ?p = "l @ ''_'' @ r"
  have sym: "\<forall>p \<in> set (map snd (AList.update symbol ?p (sm_symbol_best_ippair_map m))). p \<noteq> []"
  proof
    fix p assume "p \<in> set (map snd (AList.update symbol ?p (sm_symbol_best_ippair_map m)))"
    then have "p = ?p \<or> p \<in> set (map snd (sm_symbol_best_ippair_map m))" using update_snd_subset by fast
    then show "p \<noteq> []" using assms by (auto simp: sm_wf_def)
  qed
  show ?thesis
  proof (cases "map_of (sm_ippair_service_map m) ?p")
    case None
    let ?n = "length (sm_cells m)"
    let ?w = "ws_start ((ws_init l r (new_WsClientWrapper uuid))\<lparr>ws_update_time_millis := now\<rparr>)"
    let ?m = "m\<lparr>sm_cells := sm_cells m @ [?w], sm_ippair_service_map := sm_ippair_service_map m @ [(?p, ?n)],
      sm_symbol_best_ippair_map := AList.update symbol ?p (sm_symbol_best_ippair_map m)\<rparr>"
    have fresh: "?p \<notin> fst ` set (sm_ippair_service_map m)" using None by (simp add: map_of_eq_None_iff)
    have lt: "\<forall>e \<in> set (sm_ippair_service_map m). snd e < ?n"
      using assms by (auto simp: sm_wf_def service_ok_def split: prod.splits)
    have e: "snd (update_best_service now uuid symbol l r m) = ?m"
      using None update_new_key[OF fresh] by (simp add: update_best_service_def Let_def)
    have "service_ok ?m e" if "e \<in> set (sm_ippair_service_map m)" for e
      using assms that lt by (auto simp: sm_wf_def service_ok_def nth_append split: prod.splits)
    moreover have "service_ok ?m (?p, ?n)"
      by (simp add: service_ok_def ws_start_def ws_init_def new_WsClientWrapper_def)
    moreover have "ws_is_stopped (sm_cells ?m ! i)"
      if "i < length (sm_cells ?m)" "i \<notin> snd ` set (sm_ippair_service_map ?m)" for i
      using that assms by (auto simp: sm_wf_def nth_append)
    moreover have "?n \<notin> snd ` set (sm_ippair_service_map m)" using lt by auto
    ultimately show ?thesis using assms fresh sym unfolding e by (simp add: sm_wf_def)
  next
    case (Some ptr)
    let ?c = "cell_update ptr (\<lambda>w. w\<lparr>ws_update_time_millis := now\<rparr>) (sm_cells m)"
    have c: "i < length (sm_cells m) \<Longrightarrow> \<exists>t. ?c ! i = (sm_cells m ! i)\<lparr>ws_update_time_millis := t\<rparr>" for i
      by (cases "i = ptr") (auto simp: cell_update_nth cell_update_frame intro: exI[of _ "ws_update_time_millis (sm_cells m ! i)"])
    have "service_ok (m\<lparr>sm_cells := ?c\<rparr>) e" if "e \<in> set (sm_ippair_service_map m)" for e
    proof -
      obtain q i where e: "e = (q, i)" by fastforce
      have ok: "service_ok m (q, i)" using assms that e by (simp add: sm_wf_def)
      then show ?thesis using c[of i] by (auto simp: e service_ok_def Let_def)
    qed
    moreover have "ws_is_stopped (?c ! i)"
      if "i < length (sm_cells m)" "i \<notin> snd ` set (sm_ippair_service_map m)" for i
      using that assms c[of i] by (auto simp: sm_wf_def)
    ultimately show ?thesis
      using Some assms sym by (simp add: update_best_service_def Let_def sm_wf_def service_ok_def split: prod.splits)
  qed
qed

lemma zookeeper_wf: "sm_wf m \<Longrightarrow> sm_wf (service_zookeeper_processor now m)"
  by (simp add: service_zookeeper_processor_def Let_def reg.fold_remove_inv)

lemma stop_remove_symbols [simp]:
  "sm_symbol_best_ippair_map (stop_and_remove_service p m) = sm_symbol_best_ippair_map m"
  by (simp add: stop_and_remove_service_def Let_def split: option.splits)

lemma fold_stop_remove_symbols [simp]:
  "sm_symbol_best_ippair_map (fold stop_and_remove_service ps m) = sm_symbol_best_ippair_map m"
  by (induction ps arbitrary: m) simp_all

lemma expired_iff:
  assumes "sm_wf m"
  shows "p \<in> set (find_update_expired_service now d m) \<longleftrightarrow> (\<exists>t. sm_live m p = Some t \<and> t + d \<le> now)"
proof -
  have "distinct (map fst (sm_ippair_service_map m))" using assms by (simp add: sm_wf_def)
  then have "(p, ptr) \<in> set (sm_ippair_service_map m) \<longleftrightarrow> map_of (sm_ippair_service_map m) p = Some ptr" for ptr
    by simp
  then show ?thesis by (force simp: find_update_expired_service_def sm_live_def)
qed

section \<open>Runs of the manager\<close>

datatype service_event = Announce u64 string string string string | Remove string | Janitor u64

fun service_step :: "service_event \<Rightarrow> OrderServiceManager \<Rightarrow> OrderServiceManager" where
  "service_step (Announce now uuid symbol l r) m = snd (update_best_service now uuid symbol l r m)"
| "service_step (Remove p) m = stop_and_remove_service p m"
| "service_step (Janitor now) m = service_zookeeper_processor now m"

lemma service_run_wf: "sm_wf m \<Longrightarrow> sm_wf (fold service_step es m)"
proof (induction es arbitrary: m)
  case (Cons e es)
  then show ?case
    by (cases e) (simp_all add: update_best_service_wf stop_remove_wf zookeeper_wf)
qed simp

lemma new_manager_wf: "sm_wf new_OrderServiceManager"
  by (simp add: sm_wf_def new_OrderServiceManager_def)

text \<open>The pair last announced for a symbol.\<close>

fun last_announced :: "string \<Rightarrow> service_event list \<Rightarrow> string option \<Rightarrow> string option" where
  "last_announced s [] p = p"
| "last_announced s (Announce now uuid symbol l r # es) p =
     last_announced s es (if symbol = s then Some (l @ ''_'' @ r) else p)"
| "last_announced s (_ # es) p = last_announced s es p"

lemma symbols_follow_announcements:
  "map_of (sm_symbol_best_ippair_map (fold service_step es m)) s
   = last_announced s es (map_of (sm_symbol_best_ippair_map m) s)"
proof (induction es arbitrary: m)
  case (Cons e es)
  show ?case
  proof (cases e)
    case (Announce now uuid symbol l r)
    have "sm_symbol_best_ippair_map (snd (update_best_service now uuid symbol l r m))
        = AList.update symbol (l @ ''_'' @ r) (sm_symbol_best_ippair_map m)"
      by (simp add: update_best_service_def Let_def split: option.splits)
    then show ?thesis using Cons.IH Announce by (simp add: update_conv')
  qed (simp_all add: Cons.IH service_zookeeper_processor_def Let_def)
qed simp

section \<open>Properties\<close>

text \<open>C32. After any sequence of best-path announcements, removals and janitor rounds, the service found for a
  symbol is a live one: it has been started, it has not been stopped, and it is connected over the pair
  of addresses that was last announced for the symbol. Every service that the manager no longer holds
  has been stopped, and a stopped service refuses orders.\<close>

theorem best_service_is_live:
  assumes "m = fold service_step es new_OrderServiceManager"
  shows "(\<forall>s ptr. find_best_service s m m = Some ptr \<longrightarrow>
      ptr < length (sm_cells m) \<and> ws_has_init_started (sm_cells m ! ptr) \<and> \<not> ws_is_stopped (sm_cells m ! ptr)
      \<and> (\<exists>remote. ws_client (sm_cells m ! ptr) = Some (ws_local_ip (sm_cells m ! ptr), remote)
          \<and> last_announced s es None = Some (ws_local_ip (sm_cells m ! ptr) @ ''_'' @ remote)))
    \<and> (\<forall>ptr < length (sm_cells m). ptr \<notin> set (map snd (sm_ippair_service_map m)) \<longrightarrow>
      (\<forall>place order. ws_place_order place order (sm_cells m ! ptr) = (False, ''service has stopped'')))"
proof -
  have wf: "sm_wf m" unfolding assms by (rule service_run_wf[OF new_manager_wf])
  have an: "map_of (sm_symbol_best_ippair_map m) s = last_announced s es None" for s
    using symbols_follow_announcements[of es new_OrderServiceManager s] assms
    by (simp add: new_OrderServiceManager_def)
  have "service_ok m (p, ptr) \<and> last_announced s es None = Some p"
    if "find_best_service s m m = Some ptr" "map_of (sm_symbol_best_ippair_map m) s = Some p" for s p ptr
    using that sm_wf_map_of[OF wf] an[of s] by (auto simp: find_best_service_def split: if_splits)
  then have "\<exists>p. service_ok m (p, ptr) \<and> last_announced s es None = Some p" if "find_best_service s m m = Some ptr" for s ptr
    using that by (cases "map_of (sm_symbol_best_ippair_map m) s") (auto simp: find_best_service_def)
  moreover have "ws_is_stopped (sm_cells m ! ptr)"
    if "ptr < length (sm_cells m)" "ptr \<notin> set (map snd (sm_ippair_service_map m))" for ptr
    using wf that by (simp add: sm_wf_def)
  ultimately show ?thesis by (fastforce simp: service_ok_def Let_def ws_place_order_def)
qed

theorem best_service_is_live_witness:
  "\<exists>m. m = fold service_step [Announce 5 ''u'' ''S'' ''a'' ''b''] new_OrderServiceManager
     \<and> find_best_service ''S'' m m = Some 0 \<and> \<not> ws_is_stopped (sm_cells m ! 0)"
proof -
  let ?m = "fold service_step [Announce 5 ''u'' ''S'' ''a'' ''b''] new_OrderServiceManager"
  have "find_best_service ''S'' ?m ?m = Some 0"
    by (simp add: find_best_service_def update_best_service_def new_OrderServiceManager_def Let_def)
  then show ?thesis using best_service_is_live[of ?m "[Announce 5 ''u'' ''S'' ''a'' ''b'']"] by blast
qed

text \<open>A round of the janitor keeps exactly the services that some symbol uses and that have been announced
  within the last 90 minutes; it changes neither their announcement times nor the symbols' pairs.\<close>

theorem janitor_keeps_used_and_fresh:
  assumes "sm_wf m"
  shows "sm_live (service_zookeeper_processor now m) p =
      (case sm_live m p of
         None \<Rightarrow> None
       | Some t \<Rightarrow> if p \<in> set (map snd (sm_symbol_best_ippair_map m)) \<and> now < t + 5400000 then Some t else None)
    \<and> sm_symbol_best_ippair_map (service_zookeeper_processor now m) = sm_symbol_best_ippair_map m"
proof -
  let ?unused = "unused_ip_pairs (get_all_service_ip_pairs m) (get_inuse_symol_ip_mapping m)"
  let ?m = "fold stop_and_remove_service ?unused m"
  have wf: "sm_wf ?m" by (rule reg.fold_remove_inv[OF assms])
  have "p \<in> set (get_all_service_ip_pairs m)" if "sm_live m p = Some t" for t
    using that map_of_SomeD by (force simp: sm_live_def get_all_service_ip_pairs_def)
  then have u: "sm_live ?m p = (if p \<in> set (map snd (sm_symbol_best_ippair_map m)) then sm_live m p else None)"
    by (cases "sm_live m p") (auto simp: reg.fold_remove_live[OF assms] restrict_map_def unused_ip_pairs_def get_inuse_symol_ip_mapping_def)
  have "sm_live (service_zookeeper_processor now m) p
      = (if p \<in> set (find_update_expired_service now (5400 * 1000) ?m) then None else sm_live ?m p)"
    by (simp add: service_zookeeper_processor_def Let_def reg.fold_remove_live[OF wf] restrict_map_def)
  then show ?thesis
    using u by (cases "sm_live m p") (auto simp: expired_iff[OF wf] service_zookeeper_processor_def Let_def not_less)
qed

theorem janitor_keeps_used_and_fresh_witness:
  "sm_live (service_zookeeper_processor 9 (service_step (Announce 5 ''u'' ''S'' ''a'' ''b'') new_OrderServiceManager)) ''a_b'' = Some 5"
proof -
  let ?m = "service_step (Announce 5 ''u'' ''S'' ''a'' ''b'') new_OrderServiceManager"
  have "sm_wf ?m" using service_run_wf[OF new_manager_wf, of "[Announce 5 ''u'' ''S'' ''a'' ''b'']"] by simp
  from janitor_keeps_used_and_fresh[OF this, of 9 "''a_b''"] show ?thesis
    by (simp add: sm_live_def update_best_service_def new_OrderServiceManager_def Let_def ws_start_def
        new_WsClientWrapper_def ws_init_def)
qed

text \<open>The janitor computes the unused pairs from two snapshots and removes them later. An announcement that
  arrives in between for an unused pair refreshes the existing service instead of creating one, and the
  janitor then removes it: the symbol is left without a service.\<close>

theorem janitor_removes_announced_service:
  assumes "sm_wf m" and "sm_live m p = Some t" and "p = l @ ''_'' @ r"
    and "p \<in> set (unused_ip_pairs (get_all_service_ip_pairs m) (get_inuse_symol_ip_mapping m))"
    and "m' = stop_and_remove_service p (snd (update_best_service now uuid symbol l r m))"
  shows "\<not> fst (update_best_service now uuid symbol l r m)
    \<and> find_best_service symbol m' m' = None"
proof -
  let ?m = "snd (update_best_service now uuid symbol l r m)"
  obtain ptr where ptr: "map_of (sm_ippair_service_map m) p = Some ptr" using assms(2) by (auto simp: sm_live_def)
  then have "\<not> fst (update_best_service now uuid symbol l r m)" using assms(3) by (simp add: update_best_service_def Let_def)
  moreover have "map_of (sm_symbol_best_ippair_map m') symbol = Some p"
    using ptr assms(3,5) by (simp add: update_best_service_def Let_def update_conv')
  moreover have "map_of (sm_ippair_service_map m') p = None"
    using stop_remove_live[OF update_best_service_wf[OF assms(1)], THEN fun_cong, of p now uuid symbol l r p] assms(5)
    by (simp add: sm_live_def)
  ultimately show ?thesis by (simp add: find_best_service_def)
qed

theorem janitor_removes_announced_service_witness:
  "\<exists>m'. find_best_service ''S'' m' m' = None \<and> map_of (sm_symbol_best_ippair_map m') ''S'' = Some ''a_b''"
proof -
  let ?es = "[Announce 5 ''u'' ''S'' ''a'' ''b'', Announce 6 ''v'' ''S'' ''a'' ''c'']"
  let ?m = "fold service_step ?es new_OrderServiceManager"
  let ?m' = "stop_and_remove_service ''a_b'' (snd (update_best_service 7 ''w'' ''S'' ''a'' ''b'' ?m))"
  have wf: "sm_wf ?m" by (rule service_run_wf[OF new_manager_wf])
  have m: "?m = \<lparr>sm_symbol_best_ippair_map = [(''S'', ''a_c'')], sm_ippair_service_map = [(''a_b'', 0), (''a_c'', 1)],
      sm_cells = [(ws_start (ws_init ''a'' ''b'' (new_WsClientWrapper ''u'')))\<lparr>ws_update_time_millis := 5\<rparr>,
        (ws_start (ws_init ''a'' ''c'' (new_WsClientWrapper ''v'')))\<lparr>ws_update_time_millis := 6\<rparr>]\<rparr>"
    by (simp add: update_best_service_def new_OrderServiceManager_def Let_def ws_start_def
        new_WsClientWrapper_def ws_init_def)
  have f1: "sm_live ?m ''a_b'' = Some 5"
    unfolding m by (simp add: sm_live_def)
  have f2: "''a_b'' \<in> set (unused_ip_pairs (get_all_service_ip_pairs ?m) (get_inuse_symol_ip_mapping ?m))"
    unfolding m by (simp add: unused_ip_pairs_def get_all_service_ip_pairs_def get_inuse_symol_ip_mapping_def)
  have f3: "map_of (sm_symbol_best_ippair_map ?m') ''S'' = Some ''a_b''"
    unfolding m by (simp add: update_best_service_def Let_def)
  have "''a_b'' = ''a'' @ ''_'' @ ''b''" by simp
  from janitor_removes_announced_service[OF wf f1 this f2 refl, of 7 "''w''" "''S''"] f3 show ?thesis by blast
qed

end
