(* ===== verification/InstConfig.thy ===== *)
theory InstConfig
  imports Double "HOL-Library.Char_ord" "HOL-Library.List_Lexorder" "HOL-Library.Multiset"
begin

text \<open>
  \<open>src/src/config/inst_config.{h,cpp}\<close>, the parameters of each asset, and the assignment of assets to the
  slots of the shared-memory segments, which the receiver and the actuary compute in the same way.
  The JSON library and \<open>binance::str_to_dobule\<close> are parameters: \<open>member\<close> and \<open>items\<close> read the document,
  \<open>asString\<close>, \<open>asDouble\<close> and \<open>str_to_dobule\<close> convert a JSON value.
\<close>

section \<open>Asset parameters\<close>

record InstConfigItem =
  ic_asset :: string
  ic_volatility_a :: double
  ic_volatility_b :: double
  ic_volatility_c :: double
  ic_beta :: double
  ic_min_ticker_notional :: double
  ic_min_ticker_notional_multiple :: double
  ic_order_size :: double
  ic_max_position :: double
  ic_position_adjust_step_ratio :: double
  ic_position_adjust_step_notional :: double

definition inst_config_item ::
  "('j \<Rightarrow> string) \<Rightarrow> ('j \<Rightarrow> double) \<Rightarrow> ('j \<Rightarrow> double) \<Rightarrow> bool \<Rightarrow> (string \<Rightarrow> 'j) \<Rightarrow> InstConfigItem" where
  "inst_config_item asString asDouble str_to_dobule positionCloseOnly info =
     \<lparr>ic_asset = asString (info ''asset''),
      ic_volatility_a = str_to_dobule (info ''volatility_a''),
      ic_volatility_b = str_to_dobule (info ''volatility_b''),
      ic_volatility_c = str_to_dobule (info ''volatility_c''),
      ic_beta = (if positionCloseOnly then dbl (- 1 / 10000) else str_to_dobule (info ''beta'')),
      ic_min_ticker_notional = asDouble (info ''min_ticker_notional''),
      ic_min_ticker_notional_multiple = asDouble (info ''min_ticker_notional_multiple''),
      ic_order_size = str_to_dobule (info ''order_size''),
      ic_max_position = str_to_dobule (info ''max_position''),
      ic_position_adjust_step_ratio = asDouble (info ''position_adjust_step_ratio''),
      ic_position_adjust_step_notional = asDouble (info ''position_adjust_step_notional'')\<rparr>"

text \<open>
  \<open>doc\<close> is \<open>None\<close> when the file cannot be loaded, and otherwise the list under \<open>asset_info_list\<close>,
  if the document has that member.
\<close>

definition loadInstConfig ::
  "('j \<Rightarrow> string) \<Rightarrow> ('j \<Rightarrow> double) \<Rightarrow> ('j \<Rightarrow> double) \<Rightarrow> (string \<Rightarrow> 'j) list option option \<Rightarrow> bool
   \<Rightarrow> (string \<rightharpoonup> InstConfigItem) \<Rightarrow> bool \<times> (string \<rightharpoonup> InstConfigItem)" where
  "loadInstConfig asString asDouble str_to_dobule doc positionCloseOnly inst_map =
     (case doc of
        None \<Rightarrow> (False, inst_map)
      | Some None \<Rightarrow> (True, inst_map)
      | Some (Some info_list) \<Rightarrow>
          (True, fold (\<lambda>info m. let item = inst_config_item asString asDouble str_to_dobule positionCloseOnly info
                                in m(ic_asset item \<mapsto> item)) info_list inst_map))"

section \<open>Assets and slots\<close>

text \<open>
  \<open>for (int i = 0; i < sorted.size(); i++) mapping[sorted[i]] = i\<close> after \<open>std::sort\<close>. The order of
  strings is lexicographic in the characters as unsigned numbers. Mappings are association lists
  because the initialisation of the segments iterates over them.
\<close>

definition index_mapping :: "string list \<Rightarrow> (string \<times> int) list \<Rightarrow> (string \<times> int) list" where
  "index_mapping assets m =
     fold (\<lambda>(i, asset). AList.update asset (int i)) (enumerate 0 (sort assets)) m"

lemma fold_update_fresh:
  assumes "distinct xs" and "set xs \<inter> fst ` set m = {}"
  shows "fold (\<lambda>(i, x). AList.update x (int i)) (enumerate n xs) m =
    m @ map (\<lambda>(i, x). (x, int i)) (enumerate n xs)"
  using assms
proof (induction xs arbitrary: n m)
  case (Cons x xs)
  have upd: "AList.update x (int n) m = m @ [(x, int n)]"
    using Cons.prems(2) by (induction m) auto
  show ?case
    using Cons.IH[of "m @ [(x, int n)]" "Suc n"] Cons.prems by (simp add: upd)
qed simp

lemma index_mapping_distinct:
  assumes "distinct assets"
  shows "index_mapping assets [] = map (\<lambda>(i, x). (x, int i)) (enumerate 0 (sort assets))"
  using fold_update_fresh[of "sort assets" "[]" 0] assms by (simp add: index_mapping_def)

lemma index_mapping_keys:
  assumes "distinct assets"
  shows "map fst (index_mapping assets []) = sort assets"
    and "map snd (index_mapping assets []) = map int [0..<length assets]"
proof -
  have "map fst (map (\<lambda>(i, x). (x, int i)) (enumerate n xs)) = xs"
    "map snd (map (\<lambda>(i, x). (x, int i)) (enumerate n xs)) = map int [n..<n + length xs]" for n and xs :: "string list"
    by (induction xs arbitrary: n) (auto simp: upt_conv_Cons simp del: upt_Suc)
  then show "map fst (index_mapping assets []) = sort assets"
    "map snd (index_mapping assets []) = map int [0..<length assets]"
    using assms by (simp_all add: index_mapping_distinct)
qed

lemma index_mapping_permutation:
  assumes "mset xs = mset ys"
  shows "index_mapping xs m = index_mapping ys m"
proof -
  have "sort xs = sort ys" using assms by (metis properties_for_sort sorted_sort mset_sort)
  then show ?thesis by (simp add: index_mapping_def)
qed

lemma index_mapping_entry:
  assumes "distinct assets" and "(a, i) \<in> set (index_mapping assets [])"
  shows "0 \<le> i \<and> i < int (length assets) \<and> a \<in> set assets"
proof -
  have "i \<in> set (map snd (index_mapping assets []))" "a \<in> set (map fst (index_mapping assets []))"
    using assms(2) by force+
  then show ?thesis using index_mapping_keys[OF assms(1)] by auto
qed

lemma index_mapping_dom:
  assumes "distinct assets" and "a \<in> set assets"
  shows "\<exists>i. map_of (index_mapping assets []) a = Some i \<and> 0 \<le> i \<and> i < int (length assets)"
proof -
  have "a \<in> fst ` set (index_mapping assets [])"
    using index_mapping_keys(1)[OF assms(1)] assms(2) by (metis set_map set_sort)
  then obtain i where i: "map_of (index_mapping assets []) a = Some i"
    by (metis map_of_eq_None_iff option.exhaust)
  then show ?thesis using index_mapping_entry[OF assms(1) map_of_SomeD[OF i]] by blast
qed

lemma index_mapping_inj:
  assumes "distinct assets" and "map_of (index_mapping assets []) a = Some i"
    and "map_of (index_mapping assets []) b = Some i"
  shows "a = b"
proof -
  have "distinct (map snd (index_mapping assets []))"
    using index_mapping_keys(2)[OF assms(1)] by (simp add: distinct_map)
  then show ?thesis
    using map_of_SomeD[OF assms(2)] map_of_SomeD[OF assms(3)]
    by (metis distinct_map inj_onD prod.sel fst_conv snd_conv)
qed

end
