(* ===== verification/Trader.thy ===== *)
theory Trader
  imports OrderService Shm InstConfig
begin

text \<open>
  \<open>src/src/trader/global_context.{h,cpp}\<close> and \<open>trade_processor.cpp\<close>: the state of the trader process, its
  initialisation, and one iteration of the loops that scan an order slot and that handle the
  exchange's order messages. The web-socket clients are external: the results of \<open>placeOrder\<close> are
  arguments. \<open>gen\<close> yields the identifiers and clock values that the constructors of the limiters
  obtain, in the order of the calls.
\<close>

section \<open>State\<close>

record TraderConfig =
  tcfg_open_place_order :: bool
  tcfg_order_validity_micros :: i64
  tcfg_place_order_interval_millis :: u64
  tcfg_order_account_limit_per_minute :: int
  tcfg_order_account_limit_per_10seconds :: int
  tcfg_order_ip_limit_per_minute :: int
  tcfg_order_ip_limit_per_10seconds :: int
  tcfg_benchmark_quote_asset :: string
  tcfg_follower_quote_asset :: string
  tcfg_node_base_assets :: "string list"
  tcfg_all_base_assets :: "string list"
  tcfg_trading_use_best_path :: bool

record TraderContext =
  tx_benchmark_inst_ids :: "string list"
  tx_follower_inst_ids :: "string list"
  tx_follower_inst_id_set :: "string set"
  tx_all_follower_inst_ids :: "string list"
  tx_shm_order_mapping :: "(string \<times> int) list"
  tx_order_start :: "OrderShm list"
  tx_best_order_service_manager :: OrderServiceManager
  tx_order_channel :: "string list"
  tx_order_normal_limiter :: AutoResetCounterBoss
  tx_order_normal_second_limiter :: nat
  tx_order_normal_minute_limiter :: nat
  tx_order_best_path_limiter :: AutoResetOrderLimiterBoss
  tx_order_interval_boss :: AutoResetOrderIntervalBoss

section \<open>Initialisation\<close>

definition tx_init_shm_mapping :: "TraderContext \<Rightarrow> TraderContext" where
  "tx_init_shm_mapping c =
     c\<lparr>tx_shm_order_mapping := index_mapping (tx_all_follower_inst_ids c) (tx_shm_order_mapping c)\<rparr>"

text \<open>\<open>optional::value\<close> throws when the boss has no capacity left.\<close>

definition tx_init_normal_order_limiter :: "(nat \<Rightarrow> string \<times> u64) \<Rightarrow> TraderConfig \<Rightarrow> TraderContext \<Rightarrow> TraderContext result" where
  "tx_init_normal_order_limiter gen config c =
     (let boss = cb_init 10 1 (tx_order_normal_limiter c);
          (second, boss) = cb_create_new_counter (fst (gen 0)) (snd (gen 0))
            (tcfg_order_account_limit_per_10seconds config) (10 * 1000) boss
      in case second of
           None \<Rightarrow> Inl (Exception ''bad_optional_access'')
         | Some second \<Rightarrow>
             let (minute, boss) = cb_create_new_counter (fst (gen 1)) (snd (gen 1))
                   (tcfg_order_account_limit_per_minute config) (60 * 1000) boss
             in case minute of
                  None \<Rightarrow> Inl (Exception ''bad_optional_access'')
                | Some minute \<Rightarrow>
                    Inr (c\<lparr>tx_order_normal_limiter := snd (cb_start boss),
                           tx_order_normal_second_limiter := second, tx_order_normal_minute_limiter := minute\<rparr>))"

definition tx_init_best_path_order_limiter ::
  "(nat \<Rightarrow> string \<times> u64) \<Rightarrow> TraderConfig \<Rightarrow> AutoResetOrderLimiterBoss \<Rightarrow> TraderContext \<Rightarrow> TraderContext" where
  "tx_init_best_path_order_limiter gen config new_boss c =
     c\<lparr>tx_order_best_path_limiter := snd (lb_start
        (lb_init (fst (gen 0)) (snd (gen 0)) (snd (gen 1)) 64 1
          (tcfg_order_account_limit_per_10seconds config) 10 (tcfg_order_account_limit_per_minute config) 1 new_boss))\<rparr>"

text \<open>\<open>is_started\<close> of the interval boss is not initialised: \<open>garbage\<close> is the value it happens to have.\<close>

definition tx_init_order_interval_boss :: "bool \<Rightarrow> (nat \<Rightarrow> string \<times> u64) \<Rightarrow> TraderConfig \<Rightarrow> TraderContext \<Rightarrow> TraderContext" where
  "tx_init_order_interval_boss garbage gen config c =
     c\<lparr>tx_order_interval_boss := ib_start
        (ib_init (map (\<lambda>(i, symbol). (symbol, gen (i + 2))) (enumerate 0 (tx_follower_inst_ids c)))
          1 (tcfg_place_order_interval_millis config) (new_AutoResetOrderIntervalBoss garbage))\<rparr>"

definition tx_init :: "bool \<Rightarrow> (nat \<Rightarrow> string \<times> u64) \<Rightarrow> AutoResetOrderLimiterBoss \<Rightarrow> OrderShm list \<Rightarrow> TraderConfig
    \<Rightarrow> TraderContext \<Rightarrow> TraderContext result" where
  "tx_init garbage gen new_boss attached config c =
     (let node = tcfg_node_base_assets config;
          bq = tcfg_benchmark_quote_asset config; fq = tcfg_follower_quote_asset config;
          c = c\<lparr>tx_benchmark_inst_ids := tx_benchmark_inst_ids c @ map (\<lambda>base. base @ bq) node,
                tx_follower_inst_ids := tx_follower_inst_ids c @ map (\<lambda>base. base @ fq) node,
                tx_follower_inst_id_set := tx_follower_inst_id_set c \<union> set (map (\<lambda>base. base @ fq) node),
                tx_all_follower_inst_ids := tx_all_follower_inst_ids c
                  @ map (\<lambda>base. base @ fq) (tcfg_all_base_assets config),
                tx_order_channel := []\<rparr>;
          c = tx_init_shm_mapping c;
          c = c\<lparr>tx_order_start := attached\<rparr>
      in bind_result
           (if tcfg_trading_use_best_path config
            then Inr (tx_init_best_path_order_limiter gen config new_boss c)
            else tx_init_normal_order_limiter gen config c)
           (\<lambda>c. Inr (tx_init_order_interval_boss garbage gen config c)))"

section \<open>Best-path messages\<close>

text \<open>One announced path, by polling or by subscription.\<close>

definition process_best_path :: "string \<Rightarrow> (nat \<Rightarrow> string \<times> u64) \<Rightarrow> TraderConfig \<Rightarrow> BestPathInfo \<Rightarrow> TraderContext \<Rightarrow> TraderContext" where
  "process_best_path BEST_PATH_ACTION_NEW gen config info c =
     (if \<not> is_valid_best_path BEST_PATH_ACTION_NEW (snd (gen 0)) (tx_follower_inst_id_set c) info then c
      else
        let (new_service, m) = update_best_service (snd (gen 1)) (fst (gen 1)) (bp_symbol info) (bp_local_ip info)
              (bp_remote_ip info) (tx_best_order_service_manager c);
            c = c\<lparr>tx_best_order_service_manager := m\<rparr>
        in if new_service
           then c\<lparr>tx_order_best_path_limiter := snd (lb_create_ip_limiter (fst (gen 2)) (snd (gen 2)) (snd (gen 3))
                    (bp_local_ip info) (tcfg_order_ip_limit_per_10seconds config) 10
                    (tcfg_order_ip_limit_per_minute config) 1 (tx_order_best_path_limiter c))\<rparr>
           else c)"

section \<open>Scanning a slot\<close>

text \<open>The local variable that lives across iterations is \<open>order_version\<close>.\<close>

definition order_delay_micros :: "u64 \<Rightarrow> OrderShm \<Rightarrow> int" where
  "order_delay_micros now shm_order =
     (if now > os_update_time shm_order then sint (ucast (now - os_update_time shm_order) :: 32 word) else 0)"

definition new_order_of :: "string \<Rightarrow> u64 \<Rightarrow> string \<Rightarrow> OrderShm \<Rightarrow> FuturesNewOrder" where
  "new_order_of ORDER_RESP_TYPE_RESULT now follower_inst_id shm_order =
     \<lparr>fo_symbol = follower_inst_id, fo_side = os_side shm_order, fo_positionSide = os_pos_side shm_order,
      fo_quantity = os_volume shm_order, fo_price = os_price shm_order, fo_type = os_type shm_order,
      fo_timeInForce = os_time_in_force shm_order,
      fo_newClientOrderId = os_client_order_id shm_order @ ''_'' @ string_of_int (order_delay_micros now shm_order),
      fo_newOrderRespType = ORDER_RESP_TYPE_RESULT,
      fo_reduceOnly = (if os_reduce_only shm_order = 1 then ''true'' else ''false'')\<rparr>"

text \<open>
  The attempt to place an order. The first component is the order that is handed to a client with the
  service it goes through (\<open>None\<close> for the normal service), if any.
\<close>

definition place_best_path :: "string \<Rightarrow> FuturesNewOrder \<Rightarrow> TraderContext
    \<Rightarrow> (nat option \<times> FuturesNewOrder) option \<times> TraderContext" where
  "place_best_path follower_inst_id order c =
     (let m = tx_best_order_service_manager c
      in case find_best_service follower_inst_id m m of
           None \<Rightarrow> (None, c)
         | Some ptr \<Rightarrow>
             let (has_semaphore, b) = lb_get_order_semaphore (ws_local_ip (sm_cells m ! ptr)) 1 (tx_order_best_path_limiter c);
                 c = c\<lparr>tx_order_best_path_limiter := b\<rparr>
             in if \<not> fst has_semaphore \<or> \<not> snd has_semaphore then (None, c)
                else if ws_is_stopped (sm_cells m ! ptr) then (None, c)
                else (Some (Some ptr, order), c))"

definition take_counter :: "nat \<Rightarrow> TraderContext \<Rightarrow> bool \<times> TraderContext" where
  "take_counter ptr c =
     (let cells = cb_cells (tx_order_normal_limiter c);
          (ok, counter) = ac_get_semaphore 1 (cells ! ptr)
      in (ok, c\<lparr>tx_order_normal_limiter := (tx_order_normal_limiter c)
                 \<lparr>cb_cells := cell_update ptr (\<lambda>_. counter) cells\<rparr>\<rparr>))"

definition place_normal :: "FuturesNewOrder \<Rightarrow> TraderContext
    \<Rightarrow> (nat option \<times> FuturesNewOrder) option \<times> TraderContext" where
  "place_normal order c =
     (let (minute_ok, c) = take_counter (tx_order_normal_minute_limiter c) c
      in if \<not> minute_ok then (None, c)
         else let (second_ok, c) = take_counter (tx_order_normal_second_limiter c) c
              in if \<not> second_ok then (None, c) else (Some (None, order), c))"

definition scan_and_send_order :: "string \<Rightarrow> u64 \<Rightarrow> TraderConfig \<Rightarrow> string \<Rightarrow> int \<Rightarrow> i64 \<Rightarrow> TraderContext
    \<Rightarrow> ((nat option \<times> FuturesNewOrder) option \<times> i64 \<times> TraderContext) result" where
  "scan_and_send_order ORDER_RESP_TYPE_RESULT now config follower_inst_id shm_mapping_index order_version c =
     bind_result (order_shm_reader_get (tx_order_start c) shm_mapping_index) (\<lambda>shm_order.
       if os_version_number shm_order \<le>s order_version then Inr (None, order_version, c)
       else
         let order_version = os_version_number shm_order
         in if now > os_update_time shm_order + tcfg_order_validity_micros config then Inr (None, order_version, c)
            else
              let order = new_order_of ORDER_RESP_TYPE_RESULT now follower_inst_id shm_order;
                  has_interval_semaphore = ib_has_more_semaphore follower_inst_id (tx_order_interval_boss c);
                  (placed, c) =
                    (if tcfg_open_place_order config \<and> has_interval_semaphore
                     then if tcfg_trading_use_best_path config then place_best_path follower_inst_id order c
                          else place_normal order c
                     else (None, c))
              in Inr (placed, order_version, c))"

text \<open>The start of the thread: \<open>None\<close> when the instrument has no slot and the thread returns.\<close>

definition scan_start :: "TraderConfig \<Rightarrow> string \<Rightarrow> TraderContext \<Rightarrow> (string \<times> int) option" where
  "scan_start config base_asset c =
     (let follower_inst_id = base_asset @ tcfg_follower_quote_asset config
      in map_option (Pair follower_inst_id) (map_of (tx_shm_order_mapping c) follower_inst_id))"

section \<open>Order messages\<close>

text \<open>The fields that are read of a parsed order message; the status strings are constants of the library.\<close>

record OrderCallbackEvent =
  oc_status_ok :: bool
  oc_symbol :: string
  oc_status :: string

definition process_order_message :: "string \<Rightarrow> string \<Rightarrow> OrderCallbackEvent \<Rightarrow> TraderContext \<Rightarrow> bool \<times> TraderContext" where
  "process_order_message FILLED PARTIALLY_FILLED event c =
     (if oc_status_ok event \<and> (oc_status event = FILLED \<or> oc_status event = PARTIALLY_FILLED)
      then let (burned, b) = ib_burn_semaphore (oc_symbol event) (tx_order_interval_boss c)
           in (burned, c\<lparr>tx_order_interval_boss := b\<rparr>)
      else (False, c))"


section \<open>Lemmas\<close>

lemma place_best_path_cases:
  assumes "place_best_path inst order c = (placed, c')"
  shows "placed = None \<or> (\<exists>ptr. placed = Some (Some ptr, order)
      \<and> find_best_service inst (tx_best_order_service_manager c) (tx_best_order_service_manager c) = Some ptr
      \<and> \<not> ws_is_stopped (sm_cells (tx_best_order_service_manager c) ! ptr)
      \<and> fst (lb_get_order_semaphore (ws_local_ip (sm_cells (tx_best_order_service_manager c) ! ptr)) 1
          (tx_order_best_path_limiter c)) = (True, True)
      \<and> c' = c\<lparr>tx_order_best_path_limiter := snd (lb_get_order_semaphore
          (ws_local_ip (sm_cells (tx_best_order_service_manager c) ! ptr)) 1 (tx_order_best_path_limiter c))\<rparr>)"
  using assms
  by (auto simp: place_best_path_def Let_def case_prod_beta prod_eq_iff split: option.splits if_splits)

lemma find_best_service_live:
  assumes "sm_wf m" and "find_best_service s m m = Some ptr"
  shows "ptr < length (sm_cells m) \<and> \<not> ws_is_stopped (sm_cells m ! ptr)"
proof -
  obtain p where "map_of (sm_ippair_service_map m) p = Some ptr"
    using assms(2) by (auto simp: find_best_service_def Let_def split: if_splits)
  from sm_wf_map_of[OF assms(1) this] show ?thesis by (simp add: service_ok_def Let_def)
qed

lemma place_best_path_refused:
  assumes "sm_wf (tx_best_order_service_manager c)" and "lb_wf (tx_order_best_path_limiter c)"
    and "place_best_path inst order c = (None, c')"
  shows "c' = c"
proof (cases "find_best_service inst (tx_best_order_service_manager c) (tx_best_order_service_manager c)")
  case None
  then show ?thesis using assms(3) by (simp add: place_best_path_def)
next
  case (Some ptr)
  let ?g = "lb_get_order_semaphore (ws_local_ip (sm_cells (tx_best_order_service_manager c) ! ptr)) 1 (tx_order_best_path_limiter c)"
  have "\<not> ws_is_stopped (sm_cells (tx_best_order_service_manager c) ! ptr)"
    using find_best_service_live[OF assms(1) Some] by simp
  then have "fst ?g \<noteq> (True, True)" "c' = c\<lparr>tx_order_best_path_limiter := snd ?g\<rparr>"
    using assms(3) Some by (auto simp: place_best_path_def Let_def case_prod_beta split: if_splits)
  then show ?thesis using lb_get_refused[OF assms(2)] by simp
qed

lemma place_normal_order:
  assumes "place_normal order c = (Some x, c')"
  shows "x = (None, order)"
  using assms by (auto simp: place_normal_def Let_def case_prod_beta split: if_splits)

lemma place_normal_frame:
  assumes "place_normal order c = (placed, c')"
  shows "\<exists>cells. c' = c\<lparr>tx_order_normal_limiter := (tx_order_normal_limiter c)\<lparr>cb_cells := cells\<rparr>\<rparr>"
  using assms by (auto simp: place_normal_def take_counter_def Let_def case_prod_beta split: if_splits)

lemma scan_cases:
  assumes "scan_and_send_order resp now config inst i v c = Inr (placed, v', c')"
  obtains (quiet) "placed = None" "c' = c" "sint v \<le> sint v'"
  | (attempt) s where "order_shm_reader_get (tx_order_start c) i = Inr s" "v <s os_version_number s"
      "v' = os_version_number s" "now \<le> os_update_time s + tcfg_order_validity_micros config"
      "tcfg_open_place_order config" "ib_has_more_semaphore inst (tx_order_interval_boss c)"
      "(if tcfg_trading_use_best_path config then place_best_path inst (new_order_of resp now inst s) c
        else place_normal (new_order_of resp now inst s) c) = (placed, c')"
proof -
  obtain s where s: "order_shm_reader_get (tx_order_start c) i = Inr s"
    using assms by (auto simp: scan_and_send_order_def bind_result_Inr_iff)
  have ver: "sint v \<le> sint (os_version_number s)" if "\<not> os_version_number s \<le>s v"
    using that by (simp add: word_sle_eq)
  show thesis
    using assms s quiet attempt[OF s] ver
    by (simp add: scan_and_send_order_def Let_def case_prod_beta word_sless_alt word_sle_eq not_less split: if_split_asm) auto
qed

section \<open>Runs of the scanning thread\<close>

text \<open>Each iteration has its own context, because the other threads work in between.\<close>

fun run_scan :: "string \<Rightarrow> TraderConfig \<Rightarrow> string \<Rightarrow> int \<Rightarrow> (u64 \<times> TraderContext) list \<Rightarrow> i64
    \<Rightarrow> (FuturesNewOrder list \<times> i64) result" where
  "run_scan resp config inst i [] v = Inr ([], v)"
| "run_scan resp config inst i ((now, c) # inputs) v =
     bind_result (scan_and_send_order resp now config inst i v c) (\<lambda>(placed, v, _).
     bind_result (run_scan resp config inst i inputs v) (\<lambda>(orders, v).
       Inr ((case placed of None \<Rightarrow> orders | Some (_, order) \<Rightarrow> order # orders), v)))"

lemma scan_version:
  assumes "scan_and_send_order resp now config inst i v c = Inr (placed, v', c')"
  shows "sint v + (if placed = None then 0 else 1) \<le> sint v'"
  using assms
proof (cases rule: scan_cases)
  case (attempt s)
  then show ?thesis by (simp add: word_sless_alt)
qed simp

lemma run_scan_version:
  assumes "run_scan resp config inst i inputs v = Inr (orders, v')"
  shows "sint v + int (length orders) \<le> sint v'"
  using assms
proof (induction inputs arbitrary: v orders)
  case (Cons x inputs)
  obtain now c where x: "x = (now, c)" by fastforce
  obtain placed v1 c1 os where s: "scan_and_send_order resp now config inst i v c = Inr (placed, v1, c1)"
    "run_scan resp config inst i inputs v1 = Inr (os, v')"
    "orders = (case placed of None \<Rightarrow> os | Some (_, order) \<Rightarrow> order # os)"
    using Cons.prems x by (auto simp: bind_result_Inr_iff)
  show ?case using scan_version[OF s(1)] Cons.IH[OF s(2)] s(3) by (auto split: option.splits prod.splits)
qed simp

section \<open>A concrete instance\<close>

definition sample_trader_config :: TraderConfig where
  "sample_trader_config = \<lparr>tcfg_open_place_order = True, tcfg_order_validity_micros = 1000,
     tcfg_place_order_interval_millis = 100, tcfg_order_account_limit_per_minute = 5,
     tcfg_order_account_limit_per_10seconds = 1, tcfg_order_ip_limit_per_minute = 5,
     tcfg_order_ip_limit_per_10seconds = 1, tcfg_benchmark_quote_asset = ''USDT'',
     tcfg_follower_quote_asset = ''USDC'', tcfg_node_base_assets = [''BTC''], tcfg_all_base_assets = [''BTC''],
     tcfg_trading_use_best_path = True\<rparr>"

definition sample_interval_boss :: AutoResetOrderIntervalBoss where
  "sample_interval_boss = ib_init [(''BTCUSDC'', ''u'', 7)] 1 100 (new_AutoResetOrderIntervalBoss False)"

definition sample_manager :: OrderServiceManager where
  "sample_manager = snd (update_best_service 5 ''u'' ''BTCUSDC'' ''a'' ''b'' new_OrderServiceManager)"

definition sample_limiter_boss :: AutoResetOrderLimiterBoss where
  "sample_limiter_boss = \<lparr>lb_max_capacity = 1, lb_refresh_duration_millis = 1, lb_is_started = True,
     lb_account_limiter = ol_init ''x'' 0 0 1 10000 5 60000,
     lb_ip_limiter_map = [(''a'', ol_init ''y'' 0 0 1 10000 5 60000)]\<rparr>"

definition sample_trader_context :: "OrderShm \<Rightarrow> TraderContext" where
  "sample_trader_context slot =
     \<lparr>tx_benchmark_inst_ids = [''BTCUSDT''], tx_follower_inst_ids = [''BTCUSDC''], tx_follower_inst_id_set = {''BTCUSDC''},
      tx_all_follower_inst_ids = [''BTCUSDC''], tx_shm_order_mapping = [(''BTCUSDC'', 0)], tx_order_start = [slot],
      tx_best_order_service_manager = sample_manager, tx_order_channel = [],
      tx_order_normal_limiter = empty_counter_boss\<lparr>cb_cells := [new_AutoResetCounter ''s'' 0 0 10000,
        new_AutoResetCounter ''m'' 0 5 60000]\<rparr>,
      tx_order_normal_second_limiter = 0, tx_order_normal_minute_limiter = 1,
      tx_order_best_path_limiter = sample_limiter_boss, tx_order_interval_boss = sample_interval_boss\<rparr>"

lemma sample_interval_wf:
  "ib_wf sample_interval_boss \<and> ib_cell ''BTCUSDC'' sample_interval_boss = Some (new_AutoResetCounter ''u'' 7 1 100)"
  using ib_init_inv[of "[(''BTCUSDC'', ''u'', 7)]" 1 100 False] by (simp add: ib_loop_inv_def sample_interval_boss_def)

lemma sample_manager_wf: "sm_wf sample_manager"
  unfolding sample_manager_def by (rule update_best_service_wf[OF new_manager_wf])

lemma sample_limiter_wf: "lb_wf sample_limiter_boss"
  by (simp add: lb_wf_def sample_limiter_boss_def ol_wf_def ol_init_def)

lemma sample_find: "find_best_service ''BTCUSDC'' sample_manager sample_manager = Some 0"
  "ws_local_ip (sm_cells sample_manager ! 0) = ''a''"
  by (simp_all add: sample_manager_def find_best_service_def update_best_service_def new_OrderServiceManager_def
      Let_def ws_start_def ws_init_def)

lemma sample_ready:
  "fst (lb_get_order_semaphore ''a'' 1 sample_limiter_boss) = (True, True)"
  "ib_has_more_semaphore ''BTCUSDC'' sample_interval_boss"
  "\<not> ws_is_stopped (sm_cells sample_manager ! 0)"
proof -
  show "fst (lb_get_order_semaphore ''a'' 1 sample_limiter_boss) = (True, True)"
    by (simp add: lb_get_order_semaphore_def sample_limiter_boss_def ol_get_order_semaphore_def ol_init_def)
  show "ib_has_more_semaphore ''BTCUSDC'' sample_interval_boss"
    using sample_interval_wf by (simp add: ib_has_more_cell new_AutoResetCounter_def)
  show "\<not> ws_is_stopped (sm_cells sample_manager ! 0)"
    using find_best_service_live[OF sample_manager_wf sample_find(1)] by simp
qed

lemma sample_slot_order:
  "order_shm_reader_get [sample_order\<lparr>os_version_number := 1\<rparr>] 0 = Inr (sample_order\<lparr>os_version_number := 1\<rparr>)"
  using order_reader_get_ok[of 0 "[sample_order\<lparr>os_version_number := 1\<rparr>]"]
  by (simp add: order_fits_def sample_order_def)

lemma sample_scan:
  "scan_and_send_order ''RESULT'' 10 sample_trader_config ''BTCUSDC'' 0 0 (sample_trader_context (sample_order\<lparr>os_version_number := 1\<rparr>))
   = Inr (Some (Some 0, new_order_of ''RESULT'' 10 ''BTCUSDC'' (sample_order\<lparr>os_version_number := 1\<rparr>)), 1,
       (sample_trader_context (sample_order\<lparr>os_version_number := 1\<rparr>))\<lparr>tx_order_best_path_limiter :=
         snd (lb_get_order_semaphore ''a'' 1 sample_limiter_boss)\<rparr>)"
proof -
  let ?s = "sample_order\<lparr>os_version_number := 1\<rparr>" and ?c = "sample_trader_context (sample_order\<lparr>os_version_number := 1\<rparr>)"
  let ?o = "new_order_of ''RESULT'' 10 ''BTCUSDC'' ?s"
  note sem = sample_ready(1) and more = sample_ready(2) and live = sample_ready(3)
  have c: "tx_best_order_service_manager ?c = sample_manager" "tx_order_best_path_limiter ?c = sample_limiter_boss"
    "tx_order_interval_boss ?c = sample_interval_boss" "tx_order_start ?c = [?s]"
    by (simp_all add: sample_trader_context_def)
  have pl: "place_best_path ''BTCUSDC'' ?o ?c = (Some (Some 0, ?o), ?c\<lparr>tx_order_best_path_limiter :=
         snd (lb_get_order_semaphore ''a'' 1 sample_limiter_boss)\<rparr>)"
    by (simp add: place_best_path_def c sample_find sem live case_prod_beta Let_def)
  have "os_update_time ?s = 5" "os_version_number ?s = 1" by (simp_all add: sample_order_def)
  then show ?thesis
    by (simp add: scan_and_send_order_def c sample_slot_order more pl word_sle_eq Let_def)
      (simp add: sample_trader_config_def)
qed

section \<open>Properties\<close>

text \<open>C12. Every order that the trader hands to the exchange is the order that is published in the slot, with a
  version that the thread has not handled before and not older than the configured validity, and it is
  handed over only if placing is switched on and the symbol is not paused. Over the best path it goes
  through a running service, and one unit of the account budget and of the budget of that
  service's local address has been taken.\<close>

theorem trader_places_published_order:
  assumes "scan_and_send_order resp now config inst i v c = Inr (Some (via, order), v', c')"
  shows "\<exists>s. order_shm_reader_get (tx_order_start c) i = Inr s
    \<and> v <s os_version_number s \<and> v' = os_version_number s
    \<and> now \<le> os_update_time s + tcfg_order_validity_micros config
    \<and> tcfg_open_place_order config \<and> ib_has_more_semaphore inst (tx_order_interval_boss c)
    \<and> fo_symbol order = inst \<and> fo_side order = os_side s \<and> fo_quantity order = os_volume s \<and> fo_price order = os_price s
    \<and> fo_type order = os_type s \<and> fo_timeInForce order = os_time_in_force s \<and> fo_positionSide order = os_pos_side s
    \<and> (fo_reduceOnly order = ''true'' \<longleftrightarrow> os_reduce_only s = 1)
    \<and> take (length (os_client_order_id s)) (fo_newClientOrderId order) = os_client_order_id s
    \<and> (tcfg_trading_use_best_path config \<longrightarrow>
        (\<exists>ptr. via = Some ptr
          \<and> find_best_service inst (tx_best_order_service_manager c) (tx_best_order_service_manager c) = Some ptr
          \<and> \<not> ws_is_stopped (sm_cells (tx_best_order_service_manager c) ! ptr)
          \<and> (let g = lb_get_order_semaphore (ws_local_ip (sm_cells (tx_best_order_service_manager c) ! ptr)) 1
                 (tx_order_best_path_limiter c)
             in fst g = (True, True) \<and> c' = c\<lparr>tx_order_best_path_limiter := snd g\<rparr>)))"
  using assms
proof (cases rule: scan_cases)
  case (attempt s)
  have o: "order = new_order_of resp now inst s"
    using attempt(7) place_best_path_cases place_normal_order by (fastforce split: if_splits)
  show ?thesis
    using attempt place_best_path_cases[of inst "new_order_of resp now inst s" c "Some (via, order)" c']
    by (intro exI[of _ s]) (auto simp: o new_order_of_def Let_def)
qed simp

theorem trader_places_published_order_witness:
  "\<exists>s. order_shm_reader_get [sample_order\<lparr>os_version_number := 1\<rparr>] 0 = Inr s \<and> 0 <s os_version_number s"
proof -
  have "tx_order_start (sample_trader_context s) = [s]" for s by (simp add: sample_trader_context_def)
  then show ?thesis using trader_places_published_order[OF sample_scan] by auto
qed

text \<open>No published order is placed twice: over any run of the scanning thread, whatever the other threads and
  the actuary do in between, at most one order is placed per version of the slot that the thread has
  advanced over.\<close>

theorem trader_one_placement_per_version:
  assumes "run_scan resp config inst i inputs v = Inr (orders, v')"
  shows "int (length orders) \<le> sint v' - sint v"
  using run_scan_version[OF assms] by simp

theorem trader_one_placement_per_version_witness:
  "\<exists>orders. run_scan ''RESULT'' sample_trader_config ''BTCUSDC'' 0
      [(10, sample_trader_context (sample_order\<lparr>os_version_number := 1\<rparr>))] 0 = Inr (orders, 1)
    \<and> int (length orders) \<le> sint (1 :: i64) - sint (0 :: i64)"
proof -
  have "\<exists>orders. run_scan ''RESULT'' sample_trader_config ''BTCUSDC'' 0
      [(10, sample_trader_context (sample_order\<lparr>os_version_number := 1\<rparr>))] 0 = Inr (orders, 1)"
    by (simp add: sample_scan)
  then show ?thesis using trader_one_placement_per_version by blast
qed

text \<open>An order that the best path refuses costs nothing: when no service is known for the symbol or a budget is
  exhausted, nothing is placed and the context is unchanged.\<close>

theorem trader_refused_order_costs_nothing:
  assumes "scan_and_send_order resp now config inst i v c = Inr (None, v', c')"
    and "tcfg_trading_use_best_path config"
    and "sm_wf (tx_best_order_service_manager c)" and "lb_wf (tx_order_best_path_limiter c)"
  shows "c' = c"
  using assms(1)
proof (cases rule: scan_cases)
  case (attempt s)
  then show ?thesis using place_best_path_refused[OF assms(3,4)] assms(2) by simp
qed simp

theorem trader_refused_order_costs_nothing_witness:
  "scan_and_send_order ''RESULT'' 2000 sample_trader_config ''BTCUSDC'' 0 0 (sample_trader_context (sample_order\<lparr>os_version_number := 1\<rparr>))
   = Inr (None, 1, sample_trader_context (sample_order\<lparr>os_version_number := 1\<rparr>))"
proof -
  let ?s = "sample_order\<lparr>os_version_number := 1\<rparr>"
  let ?c = "sample_trader_context ?s"
  have c: "tx_order_start ?c = [?s]" "tx_best_order_service_manager ?c = sample_manager"
    "tx_order_best_path_limiter ?c = sample_limiter_boss" by (simp_all add: sample_trader_context_def)
  have "os_update_time ?s = 5" "os_version_number ?s = 1" by (simp_all add: sample_order_def)
  then have "\<exists>c'. scan_and_send_order ''RESULT'' 2000 sample_trader_config ''BTCUSDC'' 0 0 ?c = Inr (None, 1, c')"
    by (simp add: scan_and_send_order_def c sample_slot_order word_sle_eq Let_def) (simp add: sample_trader_config_def)
  then obtain c' where *: "scan_and_send_order ''RESULT'' 2000 sample_trader_config ''BTCUSDC'' 0 0 ?c = Inr (None, 1, c')" by blast
  have "tcfg_trading_use_best_path sample_trader_config" by (simp add: sample_trader_config_def)
  from trader_refused_order_costs_nothing[OF * this] sample_manager_wf sample_limiter_wf * show ?thesis
    by (simp add: c)
qed

text \<open>Over the normal path a refused order is not free: when the 10-second budget is exhausted, the unit that
  has already been taken from the minute budget is lost although no order is placed.\<close>

theorem normal_path_burns_minute_budget:
  assumes "m = tx_order_normal_minute_limiter c" and "s = tx_order_normal_second_limiter c" and "m \<noteq> s"
    and "m < length (cb_cells (tx_order_normal_limiter c))" and "s < length (cb_cells (tx_order_normal_limiter c))"
    and "1 \<le> ac_semaphore_remain_count (cb_cells (tx_order_normal_limiter c) ! m)"
    and "ac_semaphore_remain_count (cb_cells (tx_order_normal_limiter c) ! s) < 1"
  shows "\<exists>c'. place_normal order c = (None, c')
    \<and> ac_semaphore_remain_count (cb_cells (tx_order_normal_limiter c') ! m)
      = ac_semaphore_remain_count (cb_cells (tx_order_normal_limiter c) ! m) - 1"
  using assms
  by (simp add: place_normal_def take_counter_def ac_get_semaphore_def Let_def case_prod_beta cell_update_nth)

theorem normal_path_burns_minute_budget_witness:
  "\<exists>c'. place_normal (new_order_of ''RESULT'' 10 ''BTCUSDC'' sample_order) (sample_trader_context sample_order) = (None, c')
    \<and> ac_semaphore_remain_count (cb_cells (tx_order_normal_limiter c') ! 1) = 4"
  using normal_path_burns_minute_budget[OF refl refl, of "sample_trader_context sample_order"
      "new_order_of ''RESULT'' 10 ''BTCUSDC'' sample_order"]
  by (simp add: sample_trader_context_def new_AutoResetCounter_def)

text \<open>A fill pauses the symbol: after the message of a filled order the symbol's counter is empty, and while it
  is, the scanning thread places no order for the symbol, whatever is published in the slots.\<close>

theorem fill_pauses_symbol:
  assumes "ib_wf (tx_order_interval_boss c)"
    and "\<forall>k. ib_cell inst (tx_order_interval_boss c) = Some k \<longrightarrow> ac_semaphore_remain_count k \<le> 1"
    and "oc_status_ok event" and "oc_status event = FILLED" and "oc_symbol event = inst"
    and "c' = (snd (process_order_message FILLED PARTIALLY_FILLED event c))\<lparr>tx_order_start := slots\<rparr>"
  shows "\<not> ib_has_more_semaphore inst (tx_order_interval_boss c')
    \<and> (\<forall>now i v placed v' d. scan_and_send_order resp now config inst i v c' = Inr (placed, v', d) \<longrightarrow> placed = None)"
proof -
  let ?b = "snd (ib_burn_semaphore inst (tx_order_interval_boss c))"
  have b: "tx_order_interval_boss c' = ?b" using assms(3-6) by (simp add: process_order_message_def case_prod_beta)
  have "ib_cell inst ?b = map_option (\<lambda>k. snd (ac_get_semaphore 1 k)) (ib_cell inst (tx_order_interval_boss c))"
    using ib_burn_cell[OF assms(1), of inst inst] by simp
  then have n: "\<not> ib_has_more_semaphore inst (tx_order_interval_boss c')"
    using assms(2) unfolding b by (auto simp: ib_has_more_cell ac_get_semaphore_def split: if_splits)
  moreover have "placed = None" if "scan_and_send_order resp now config inst i v c' = Inr (placed, v', d)" for now i v placed v' d
    using that n by (cases rule: scan_cases) simp_all
  ultimately show ?thesis by blast
qed

theorem fill_pauses_symbol_witness:
  "\<not> ib_has_more_semaphore ''BTCUSDC'' (tx_order_interval_boss ((snd (process_order_message ''FILLED'' ''PARTIALLY_FILLED''
      \<lparr>oc_status_ok = True, oc_symbol = ''BTCUSDC'', oc_status = ''FILLED''\<rparr> (sample_trader_context blank_order)))
        \<lparr>tx_order_start := [sample_order]\<rparr>))"
proof -
  have b: "tx_order_interval_boss (sample_trader_context blank_order) = sample_interval_boss"
    by (simp add: sample_trader_context_def)
  have "ib_wf (tx_order_interval_boss (sample_trader_context blank_order))"
    "\<forall>k. ib_cell ''BTCUSDC'' (tx_order_interval_boss (sample_trader_context blank_order)) = Some k \<longrightarrow> ac_semaphore_remain_count k \<le> 1"
    using sample_interval_wf unfolding b by (simp_all add: new_AutoResetCounter_def)
  from fill_pauses_symbol[OF this, of "\<lparr>oc_status_ok = True, oc_symbol = ''BTCUSDC'', oc_status = ''FILLED''\<rparr>" "''FILLED''"]
  show ?thesis by simp
qed

end
