(* ===== verification/TraderProcess.thy ===== *)
theory TraderProcess
  imports Trader
begin

text \<open>
  \<open>src/src/bn_umtaker_trader.cpp\<close>, \<open>start_trade_processors\<close> and \<open>start_best_service_management\<close>: the threads of the trader process
  together. One thread per asset scans its order slot, two kinds of threads receive best paths, one removes unused
  services, one handles the exchange's order messages, and the limiters' own threads refill the budgets. An event is one
  iteration of one thread; a run is any sequence of events. The lemmas lift the invariants of the services and of the
  budgets to runs of the whole process.
\<close>

section \<open>Events\<close>

text \<open>The constants of the exchange and path libraries.\<close>

record TraderLib =
  tl_ORDER_RESP_TYPE_RESULT :: string
  tl_BEST_PATH_ACTION_NEW :: string
  tl_FILLED :: string
  tl_PARTIALLY_FILLED :: string

datatype trader_event =
    ScanSlot u64 string int i64
  | BestPath "nat \<Rightarrow> string \<times> u64" BestPathInfo
  | Janitor u64
  | OrderMessage OrderCallbackEvent
  | RefreshLimiters u64
  | RefreshIntervals u64
  | RefreshCounters u64
  | SlotsChange "OrderShm list"

text \<open>The first component is the order that is handed to the exchange.\<close>

fun trader_do :: "TraderLib \<Rightarrow> TraderConfig \<Rightarrow> trader_event \<Rightarrow> TraderContext \<Rightarrow> (FuturesNewOrder option \<times> TraderContext) result" where
  "trader_do lib config (ScanSlot now inst i v) c =
     bind_result (scan_and_send_order (tl_ORDER_RESP_TYPE_RESULT lib) now config inst i v c)
       (\<lambda>(placed, _, c). Inr (map_option snd placed, c))"
| "trader_do lib config (BestPath gen info) c = Inr (None, process_best_path (tl_BEST_PATH_ACTION_NEW lib) gen config info c)"
| "trader_do lib config (Janitor now) c =
     Inr (None, c\<lparr>tx_best_order_service_manager := service_zookeeper_processor now (tx_best_order_service_manager c)\<rparr>)"
| "trader_do lib config (OrderMessage event) c =
     Inr (None, snd (process_order_message (tl_FILLED lib) (tl_PARTIALLY_FILLED lib) event c))"
| "trader_do lib config (RefreshLimiters now) c =
     Inr (None, c\<lparr>tx_order_best_path_limiter := lb_refresh_all_limiters now (tx_order_best_path_limiter c)\<rparr>)"
| "trader_do lib config (RefreshIntervals now) c =
     Inr (None, c\<lparr>tx_order_interval_boss := ib_refresh now (tx_order_interval_boss c)\<rparr>)"
| "trader_do lib config (RefreshCounters now) c =
     Inr (None, c\<lparr>tx_order_normal_limiter := cb_refresh_counters now (tx_order_normal_limiter c)\<rparr>)"
| "trader_do lib config (SlotsChange slots) c = Inr (None, c\<lparr>tx_order_start := slots\<rparr>)"

fun trader_run :: "TraderLib \<Rightarrow> TraderConfig \<Rightarrow> trader_event list \<Rightarrow> TraderContext \<Rightarrow> (FuturesNewOrder list \<times> TraderContext) result" where
  "trader_run lib config [] c = Inr ([], c)"
| "trader_run lib config (e # es) c =
     bind_result (trader_do lib config e c) (\<lambda>(placed, c).
     bind_result (trader_run lib config es c) (\<lambda>(orders, c).
       Inr ((case placed of None \<Rightarrow> orders | Some order \<Rightarrow> order # orders), c)))"

section \<open>Invariants of the process\<close>

definition trader_wf :: "TraderContext \<Rightarrow> bool" where
  "trader_wf c \<longleftrightarrow> sm_wf (tx_best_order_service_manager c) \<and> lb_wf (tx_order_best_path_limiter c)"

definition trader_limits_ok :: "TraderConfig \<Rightarrow> bool" where
  "trader_limits_ok config \<longleftrightarrow> 0 \<le> tcfg_order_account_limit_per_10seconds config \<and> 0 \<le> tcfg_order_account_limit_per_minute config
     \<and> 0 \<le> tcfg_order_ip_limit_per_10seconds config \<and> 0 \<le> tcfg_order_ip_limit_per_minute config"

lemma lb_create_account [simp]:
  "lb_account_limiter (snd (lb_create_ip_limiter u n1 n2 ip s ds m dm b)) = lb_account_limiter b"
  by (simp add: lb_create_ip_limiter_def Let_def)

lemma process_best_path_wf:
  assumes "trader_wf c" and "trader_limits_ok config"
  shows "trader_wf (process_best_path NEW gen config info c)"
    and "lb_account_limiter (tx_order_best_path_limiter (process_best_path NEW gen config info c))
      = lb_account_limiter (tx_order_best_path_limiter c)"
    and "tx_order_interval_boss (process_best_path NEW gen config info c) = tx_order_interval_boss c"
  using assms
  by (auto simp: process_best_path_def trader_wf_def trader_limits_ok_def Let_def case_prod_beta
      intro: update_best_service_wf lb_create_wf)

lemma process_order_message_frame [simp]:
  "tx_best_order_service_manager (snd (process_order_message F P event c)) = tx_best_order_service_manager c"
  "tx_order_best_path_limiter (snd (process_order_message F P event c)) = tx_order_best_path_limiter c"
  by (simp_all add: process_order_message_def case_prod_beta)

text \<open>What a scan does to the context when orders go over the best path.\<close>

lemma scan_best_path:
  assumes "scan_and_send_order resp now config inst i v c = Inr (placed, v', c')"
    and "tcfg_trading_use_best_path config" and "trader_wf c"
  obtains (none) "placed = None" "c' = c"
  | (sent) ip order ptr where "placed = Some (ptr, order)" "fo_symbol order = inst"
      "ib_has_more_semaphore inst (tx_order_interval_boss c)"
      "fst (lb_get_order_semaphore ip 1 (tx_order_best_path_limiter c)) = (True, True)"
      "c' = c\<lparr>tx_order_best_path_limiter := snd (lb_get_order_semaphore ip 1 (tx_order_best_path_limiter c))\<rparr>"
  using assms(1)
proof (cases rule: scan_cases)
  case quiet
  then show ?thesis using none by simp
next
  case (attempt s)
  let ?o = "new_order_of resp now inst s"
  have p: "place_best_path inst ?o c = (placed, c')" using attempt(7) assms(2) by simp
  show ?thesis
  proof (cases placed)
    case None
    then show ?thesis using p place_best_path_refused assms(3) none by (auto simp: trader_wf_def)
  next
    case (Some x)
    then show ?thesis using place_best_path_cases[OF p] attempt(6) sent by (auto simp: new_order_of_def)
  qed
qed

lemma trader_do_wf:
  assumes "trader_do lib config e c = Inr (placed, c')" and "trader_wf c" and "trader_limits_ok config"
    and "tcfg_trading_use_best_path config"
  shows "trader_wf c'"
proof (cases e)
  case (ScanSlot now inst i v)
  then obtain p v' where "scan_and_send_order (tl_ORDER_RESP_TYPE_RESULT lib) now config inst i v c = Inr (p, v', c')"
    using assms(1) by (auto simp: bind_result_Inr_iff)
  from scan_best_path[OF this assms(4,2)] show ?thesis
    using assms(2) by cases (auto simp: trader_wf_def lb_get_wf)
qed (use assms in \<open>auto simp: trader_wf_def zookeeper_wf lb_refresh_wf process_best_path_wf[unfolded trader_wf_def]\<close>)

section \<open>The account's budget over a run\<close>

lemma granted_append:
  "granted take_n reset (xs @ ys) s = granted take_n reset xs s + granted take_n reset ys (run_budget take_n reset xs s)"
  by (induction take_n reset xs s rule: granted.induct) auto

lemma run_budget_append: "run_budget take_n reset (xs @ ys) s = run_budget take_n reset ys (run_budget take_n reset xs s)"
  by (induction take_n reset xs s rule: run_budget.induct) auto

text \<open>The takes and refills that the limiter of the account sees in a run.\<close>

fun event_trace :: "trader_event \<Rightarrow> FuturesNewOrder option \<Rightarrow> TraderContext \<Rightarrow> budget_event list" where
  "event_trace (RefreshLimiters now) placed c = (if lb_is_started (tx_order_best_path_limiter c) then [Visit now] else [])"
| "event_trace e placed c = (if placed = None then [] else [Take 1])"

fun account_trace :: "TraderLib \<Rightarrow> TraderConfig \<Rightarrow> trader_event list \<Rightarrow> TraderContext \<Rightarrow> budget_event list" where
  "account_trace lib config [] c = []"
| "account_trace lib config (e # es) c =
     (case trader_do lib config e c of
        Inl _ \<Rightarrow> []
      | Inr (placed, c') \<Rightarrow> event_trace e placed c @ account_trace lib config es c')"

abbreviation account_budget :: "TraderContext \<Rightarrow> AutoResetOrderLimiter" where
  "account_budget c \<equiv> lb_account_limiter (tx_order_best_path_limiter c)"

abbreviation account_run :: "budget_event list \<Rightarrow> AutoResetOrderLimiter \<Rightarrow> AutoResetOrderLimiter" where
  "account_run \<equiv> run_budget ol_get_order_semaphore ol_reset_if_cycle_end"

abbreviation account_granted :: "budget_event list \<Rightarrow> AutoResetOrderLimiter \<Rightarrow> int" where
  "account_granted \<equiv> granted ol_get_order_semaphore ol_reset_if_cycle_end"

lemma trader_do_account:
  assumes "trader_do lib config e c = Inr (placed, c')" and "trader_wf c" and "trader_limits_ok config"
    and "tcfg_trading_use_best_path config"
  shows "account_budget c' = account_run (event_trace e placed c) (account_budget c)"
    and "account_granted (event_trace e placed c) (account_budget c) = (if placed = None then 0 else 1)"
proof -
  have "account_budget c' = account_run (event_trace e placed c) (account_budget c)
      \<and> account_granted (event_trace e placed c) (account_budget c) = (if placed = None then 0 else 1)"
  proof (cases e)
    case (ScanSlot now inst i v)
    then obtain p v' where s: "scan_and_send_order (tl_ORDER_RESP_TYPE_RESULT lib) now config inst i v c = Inr (p, v', c')"
      and p: "placed = map_option snd p"
      using assms(1) by (auto simp: bind_result_Inr_iff)
    from s assms(4,2) show ?thesis
    proof (cases rule: scan_best_path)
      case (sent ip order ptr)
      from lb_get_granted[OF sent(4)] show ?thesis using sent(1,5) p ScanSlot by auto
    qed (use ScanSlot p in simp)
  qed (use assms(1-3) in \<open>auto simp: process_best_path_wf lb_refresh_all_limiters_def\<close>)
  then show "account_budget c' = account_run (event_trace e placed c) (account_budget c)"
    "account_granted (event_trace e placed c) (account_budget c) = (if placed = None then 0 else 1)" by simp_all
qed

lemma trader_run_account:
  assumes "trader_run lib config es c = Inr (orders, c')" and "trader_wf c" and "trader_limits_ok config"
    and "tcfg_trading_use_best_path config"
  shows "trader_wf c' \<and> account_budget c' = account_run (account_trace lib config es c) (account_budget c)
    \<and> int (length orders) = account_granted (account_trace lib config es c) (account_budget c)"
  using assms(1,2)
proof (induction es arbitrary: c orders)
  case (Cons e es)
  then obtain placed c1 orders1 where d: "trader_do lib config e c = Inr (placed, c1)"
    and r: "trader_run lib config es c1 = Inr (orders1, c')"
    and o: "orders = (case placed of None \<Rightarrow> orders1 | Some order \<Rightarrow> order # orders1)"
    by (auto simp: bind_result_Inr_iff)
  note w = trader_do_wf[OF d Cons.prems(2) assms(3,4)]
  show ?case
    using Cons.IH[OF r w] trader_do_account[OF d Cons.prems(2) assms(3,4)] d o
    by (auto simp: granted_append run_budget_append split: option.splits)
qed simp

lemma account_trace_within:
  assumes "\<forall>now. RefreshLimiters now \<in> set es \<longrightarrow> a \<le> unat now \<and> unat now \<le> b"
  shows "\<forall>x \<in> set (account_trace lib config es c). event_within a b x"
  using assms
proof (induction es arbitrary: c)
  case (Cons e es)
  have "\<forall>x \<in> set (event_trace e placed c). event_within a b x" for placed
    using Cons.prems by (cases e) (auto simp: event_within_def)
  then show ?case using Cons by (auto split: sum.split)
qed simp

text \<open>Takes and refills change neither the sizes nor the cycles of the two budgets.\<close>

definition same_limits :: "AutoResetOrderLimiter \<Rightarrow> AutoResetOrderLimiter \<Rightarrow> bool" where
  "same_limits l l' \<longleftrightarrow> ol_second_semaphore_init_count l' = ol_second_semaphore_init_count l
     \<and> ol_minute_semaphore_init_count l' = ol_minute_semaphore_init_count l
     \<and> ol_second_reset_duration_millis l' = ol_second_reset_duration_millis l
     \<and> ol_minute_reset_duration_millis l' = ol_minute_reset_duration_millis l"

lemma account_run_limits: "same_limits l (account_run es l)"
proof (induction es arbitrary: l)
  case (Cons e es)
  have "same_limits l (case e of Take k \<Rightarrow> snd (ol_get_order_semaphore k l) | Visit now \<Rightarrow> ol_reset_if_cycle_end now l)"
    by (cases e) (auto simp: same_limits_def ol_get_order_semaphore_def ol_reset_if_cycle_end_def Let_def)
  then show ?case using Cons.IH by (cases e) (auto simp: same_limits_def)
qed (simp add: same_limits_def)

lemma trader_run_limits:
  assumes "trader_run lib config es c = Inr (orders, c')" and "trader_wf c" and "trader_limits_ok config"
    and "tcfg_trading_use_best_path config"
  shows "same_limits (account_budget c) (account_budget c')"
  using trader_run_account[OF assms] account_run_limits by simp

lemma trader_init_budget:
  assumes "tx_init garbage gen new_boss attached config c0 = Inr c" and "tcfg_trading_use_best_path config"
    and "tx_best_order_service_manager c0 = new_OrderServiceManager" and "lb_ip_limiter_map new_boss = []"
    and "trader_limits_ok config"
  shows "trader_wf c"
    and "ol_second_semaphore_init_count (account_budget c) = tcfg_order_account_limit_per_10seconds config"
    and "ol_minute_semaphore_init_count (account_budget c) = tcfg_order_account_limit_per_minute config"
    and "ol_second_reset_duration_millis (account_budget c) = 10000"
    and "ol_minute_reset_duration_millis (account_budget c) = 60000"
proof -
  have b: "tx_order_best_path_limiter c = snd (lb_start (lb_init (fst (gen 0)) (snd (gen 0)) (snd (gen 1)) 64 1
      (tcfg_order_account_limit_per_10seconds config) 10 (tcfg_order_account_limit_per_minute config) 1 new_boss))"
    "tx_best_order_service_manager c = new_OrderServiceManager"
    using assms(1-3) by (auto simp: tx_init_def tx_init_best_path_order_limiter_def tx_init_order_interval_boss_def
        tx_init_shm_mapping_def Let_def)
  show "trader_wf c" "ol_second_semaphore_init_count (account_budget c) = tcfg_order_account_limit_per_10seconds config"
    "ol_minute_semaphore_init_count (account_budget c) = tcfg_order_account_limit_per_minute config"
    "ol_second_reset_duration_millis (account_budget c) = 10000" "ol_minute_reset_duration_millis (account_budget c) = 60000"
    using assms(4,5) new_manager_wf
    by (simp_all add: b trader_wf_def lb_wf_def lb_init_def lb_start_def ol_init_def ol_wf_def trader_limits_ok_def)
qed

section \<open>A paused symbol over a run\<close>

lemma ib_burn_keeps_pause:
  assumes "ib_wf b" and "\<not> ib_has_more_semaphore inst b"
  shows "\<not> ib_has_more_semaphore inst (snd (ib_burn_semaphore s b))"
  using assms by (auto simp: ib_has_more_cell ib_burn_cell ac_get_semaphore_def split: if_splits)

lemma place_interval_boss:
  "place_best_path inst order c = (placed, c') \<Longrightarrow> tx_order_interval_boss c' = tx_order_interval_boss c"
  "place_normal order c = (placed, c') \<Longrightarrow> tx_order_interval_boss c' = tx_order_interval_boss c"
  by (auto simp: place_best_path_def Let_def case_prod_beta split: if_splits option.splits dest: place_normal_frame)

lemma scan_interval_boss:
  assumes "scan_and_send_order resp now config inst i v c = Inr (placed, v', c')"
  shows "tx_order_interval_boss c' = tx_order_interval_boss c"
    and "placed = Some (ptr, order) \<Longrightarrow> fo_symbol order = inst \<and> ib_has_more_semaphore inst (tx_order_interval_boss c)"
proof -
  from assms have "tx_order_interval_boss c' = tx_order_interval_boss c
      \<and> (\<forall>ptr order. placed = Some (ptr, order) \<longrightarrow> fo_symbol order = inst \<and> ib_has_more_semaphore inst (tx_order_interval_boss c))"
  proof (cases rule: scan_cases)
    case (attempt s)
    let ?o = "new_order_of resp now inst s"
    have "tx_order_interval_boss c' = tx_order_interval_boss c"
      using attempt(7) place_interval_boss by (auto split: if_splits)
    moreover have "order = ?o" if "placed = Some (ptr, order)" for ptr order
      using attempt(7) that place_best_path_cases[of inst ?o c placed c'] place_normal_order[of ?o c "(ptr, order)" c']
      by (auto split: if_splits)
    ultimately show ?thesis using attempt(6) by (auto simp: new_order_of_def)
  qed simp
  then show "tx_order_interval_boss c' = tx_order_interval_boss c"
    "placed = Some (ptr, order) \<Longrightarrow> fo_symbol order = inst \<and> ib_has_more_semaphore inst (tx_order_interval_boss c)" by auto
qed

lemma process_best_path_interval [simp]:
  "tx_order_interval_boss (process_best_path NEW gen config info c) = tx_order_interval_boss c"
  by (simp add: process_best_path_def Let_def case_prod_beta)

lemma trader_do_pause:
  assumes "trader_do lib config e c = Inr (placed, c')" and "ib_wf (tx_order_interval_boss c)"
    and "\<not> ib_has_more_semaphore inst (tx_order_interval_boss c)" and "\<forall>now. e \<noteq> RefreshIntervals now"
  shows "ib_wf (tx_order_interval_boss c') \<and> \<not> ib_has_more_semaphore inst (tx_order_interval_boss c')
    \<and> (\<forall>order. placed = Some order \<longrightarrow> fo_symbol order \<noteq> inst)"
proof (cases e)
  case (ScanSlot now i2 i v)
  then obtain p v' where s: "scan_and_send_order (tl_ORDER_RESP_TYPE_RESULT lib) now config i2 i v c = Inr (p, v', c')"
    and p: "placed = map_option snd p"
    using assms(1) by (auto simp: bind_result_Inr_iff)
  show ?thesis using scan_interval_boss[OF s] p assms(2,3) by auto
next
  case (OrderMessage event)
  then show ?thesis
    using assms(1-3) ib_burn_wf[OF assms(2)] ib_burn_keeps_pause[OF assms(2,3)]
    by (auto simp: process_order_message_def Let_def split_beta split: if_split_asm)
qed (use assms in auto)

lemma trader_run_pause:
  assumes "trader_run lib config es c = Inr (orders, c')" and "ib_wf (tx_order_interval_boss c)"
    and "\<not> ib_has_more_semaphore inst (tx_order_interval_boss c)" and "\<forall>now. RefreshIntervals now \<notin> set es"
  shows "\<forall>order \<in> set orders. fo_symbol order \<noteq> inst"
  using assms
proof (induction es arbitrary: c orders)
  case (Cons e es)
  then obtain placed c1 orders1 where d: "trader_do lib config e c = Inr (placed, c1)"
    and r: "trader_run lib config es c1 = Inr (orders1, c')"
    and o: "orders = (case placed of None \<Rightarrow> orders1 | Some order \<Rightarrow> order # orders1)"
    by (auto simp: bind_result_Inr_iff)
  have "\<forall>now. e \<noteq> RefreshIntervals now" using Cons.prems(4) by auto
  from trader_do_pause[OF d Cons.prems(2,3) this] Cons.IH[OF r] Cons.prems(4) o
  show ?case by (auto split: option.splits)
qed simp

section \<open>Properties\<close>

text \<open>C11. The trader process keeps the account's rate limit: from its initialisation on, in every interleaving of the scanning
  threads with the announcements of paths, the removal of services, the order messages and the refills, the orders that
  are handed to the exchange between two moments less than ten seconds (one minute) apart are at most twice the configured
  limit per ten seconds (per minute), and never more than what is left plus one refill.\<close>

theorem trader_process_rate_limit:
  assumes "tx_init garbage gen new_boss attached config c0 = Inr c1" and "tcfg_trading_use_best_path config"
    and "tx_best_order_service_manager c0 = new_OrderServiceManager" and "lb_ip_limiter_map new_boss = []"
    and "trader_limits_ok config"
    and "trader_run lib config es c1 = Inr (earlier, c)" and "trader_run lib config es' c = Inr (orders, c')"
    and "\<forall>now. RefreshLimiters now \<in> set es' \<longrightarrow> a \<le> unat now \<and> unat now \<le> b" and "b + 60000 < 2 ^ 64"
  shows "(b < a + 10000 \<longrightarrow> int (length orders) \<le> ol_second_semaphore_remain_count (account_budget c) + tcfg_order_account_limit_per_10seconds config
        \<and> int (length orders) \<le> 2 * tcfg_order_account_limit_per_10seconds config)
    \<and> (b < a + 60000 \<longrightarrow> int (length orders) \<le> ol_minute_semaphore_remain_count (account_budget c) + tcfg_order_account_limit_per_minute config
        \<and> int (length orders) \<le> 2 * tcfg_order_account_limit_per_minute config)"
proof -
  note i = trader_init_budget[OF assms(1-5)]
  note r1 = trader_run_account[OF assms(6) i(1) assms(5,2)] and l = trader_run_limits[OF assms(6) i(1) assms(5,2)]
  have wf: "trader_wf c" using r1 by blast
  then have w: "ol_wf (account_budget c)" by (simp add: trader_wf_def lb_wf_def)
  have n: "int (length orders) = account_granted (account_trace lib config es' c) (account_budget c)"
    using trader_run_account[OF assms(7) wf assms(5,2)] by blast
  note within = account_trace_within[OF assms(8), of lib config c]
  have "int (length orders) \<le> ol_second_semaphore_remain_count (account_budget c) + ol_second_semaphore_init_count (account_budget c)"
    if "b < a + 10000"
    unfolding n by (rule ol_second.granted_window[OF _ _ within]) (use that w l i(4) assms(9) in \<open>auto simp: ol_wf_def same_limits_def\<close>)
  moreover have "int (length orders) \<le> ol_minute_semaphore_remain_count (account_budget c) + ol_minute_semaphore_init_count (account_budget c)"
    if "b < a + 60000"
    unfolding n by (rule ol_minute.granted_window[OF _ _ within]) (use that w l i(5) assms(9) in \<open>auto simp: ol_wf_def same_limits_def\<close>)
  moreover have "ol_second_semaphore_remain_count (account_budget c) \<le> ol_second_semaphore_init_count (account_budget c)"
    "ol_minute_semaphore_remain_count (account_budget c) \<le> ol_minute_semaphore_init_count (account_budget c)"
    using w by (simp_all add: ol_wf_def)
  ultimately show ?thesis using l i(2,3) by (auto simp: same_limits_def)
qed


definition sample_trader_lib :: TraderLib where
  "sample_trader_lib = \<lparr>tl_ORDER_RESP_TYPE_RESULT = ''RESULT'', tl_BEST_PATH_ACTION_NEW = ''new'', tl_FILLED = ''FILLED'',
     tl_PARTIALLY_FILLED = ''PARTIALLY_FILLED''\<rparr>"

definition idle_trader_context :: TraderContext where
  "idle_trader_context = (sample_trader_context sample_order)\<lparr>tx_best_order_service_manager := new_OrderServiceManager\<rparr>"

definition empty_limiter_boss :: AutoResetOrderLimiterBoss where
  "empty_limiter_boss = sample_limiter_boss\<lparr>lb_ip_limiter_map := []\<rparr>"

definition sample_path :: BestPathInfo where
  "sample_path = \<lparr>bp_action = ''new'', bp_symbol = ''BTCUSDC'', bp_local_ip = ''a'', bp_remote_ip = ''b'', bp_best_cost = 1,
     bp_update_time_millis = 5\<rparr>"

definition placed_count :: "(FuturesNewOrder list \<times> TraderContext) result \<Rightarrow> nat option" where
  "placed_count r = (case r of Inl _ \<Rightarrow> None | Inr (orders, _) \<Rightarrow> Some (length orders))"

theorem trader_process_rate_limit_witness:
  "\<exists>c1 c c' orders. tx_init False (\<lambda>_. (''u'', 0)) empty_limiter_boss [sample_order\<lparr>os_version_number := 1\<rparr>] sample_trader_config
       idle_trader_context = Inr c1
     \<and> trader_run sample_trader_lib sample_trader_config [BestPath (\<lambda>_. (''u'', 7)) sample_path] c1 = Inr ([], c)
     \<and> trader_run sample_trader_lib sample_trader_config [RefreshLimiters 5, ScanSlot 10 ''BTCUSDC'' 0 0] c = Inr (orders, c')
     \<and> length orders = 1
     \<and> int (length orders) \<le> 2 * tcfg_order_account_limit_per_10seconds sample_trader_config"
proof -
  let ?init = "tx_init False (\<lambda>_. (''u'', 0)) empty_limiter_boss [sample_order\<lparr>os_version_number := 1\<rparr>] sample_trader_config idle_trader_context"
  let ?run = "trader_run sample_trader_lib sample_trader_config"
  have "placed_count (bind_result ?init (\<lambda>c1. bind_result (?run [BestPath (\<lambda>_. (''u'', 7)) sample_path] c1)
      (\<lambda>(_, c). ?run [RefreshLimiters 5, ScanSlot 10 ''BTCUSDC'' 0 0] c))) = Some 1" by code_simp
  then obtain c1 c earlier orders c' where i: "?init = Inr c1" and e: "?run [BestPath (\<lambda>_. (''u'', 7)) sample_path] c1 = Inr (earlier, c)"
    and r: "?run [RefreshLimiters 5, ScanSlot 10 ''BTCUSDC'' 0 0] c = Inr (orders, c')" and n: "length orders = 1"
    by (auto simp: placed_count_def bind_result_def simp del: trader_run.simps split: sum.splits prod.splits)
  have "tcfg_trading_use_best_path sample_trader_config" "tx_best_order_service_manager idle_trader_context = new_OrderServiceManager"
      "lb_ip_limiter_map empty_limiter_boss = []" "trader_limits_ok sample_trader_config"
    by (simp_all add: sample_trader_config_def idle_trader_context_def empty_limiter_boss_def trader_limits_ok_def)
  from trader_process_rate_limit[OF i this e r, of 5 5] have
    "int (length orders) \<le> 2 * tcfg_order_account_limit_per_10seconds sample_trader_config" by simp
  moreover have "earlier = []" using e by simp
  ultimately show ?thesis using i e r n by blast
qed


end
