(* ===== verification/Thresholds.thy ===== *)
theory Thresholds
  imports Double
begin

text \<open>
  \<open>src/src/common/threshold_container.{h,cpp}\<close>: the containers of early-run and beta thresholds, and the
  contract that all keyed containers of the program share (thresholds, ticker windows, price offsets):
  a container is a family of independent entries, one per key. \<open>threshold_map\<close> is an
  \<open>unordered_map\<close> of which only look-ups are used, hence a map. Each method runs under the lock.
\<close>

section \<open>Keyed containers\<close>

fun run_puts :: "('k \<Rightarrow> 'a \<Rightarrow> 's \<Rightarrow> 's) \<Rightarrow> ('k \<times> 'a) list \<Rightarrow> 's \<Rightarrow> 's" where
  "run_puts put [] s = s"
| "run_puts put ((k, a) # ops) s = run_puts put ops (put k a s)"

definition ops_of :: "'k \<Rightarrow> ('k \<times> 'a) list \<Rightarrow> 'a list" where
  "ops_of k ops = map snd (filter (\<lambda>(j, _). j = k) ops)"

locale composite =
  fixes look :: "'s \<Rightarrow> 'k \<Rightarrow> 'w option"
    and put :: "'k \<Rightarrow> 'a \<Rightarrow> 's \<Rightarrow> 's"
    and cfg :: "'s \<Rightarrow> 'c"
    and step :: "'c \<Rightarrow> 'k \<Rightarrow> 'a \<Rightarrow> 'w \<Rightarrow> 'w"
    and fresh :: 'w
  assumes put_cfg: "cfg (put k a s) = cfg s"
    and look_put_same: "look (put k a s) k = Some (step (cfg s) k a (case look s k of Some w \<Rightarrow> w | None \<Rightarrow> fresh))"
    and look_put_other: "j \<noteq> k \<Longrightarrow> look (put k a s) j = look s j"
begin

lemma run_cfg: "cfg (run_puts put ops s) = cfg s"
proof (induction ops arbitrary: s)
  case (Cons op ops)
  then show ?case by (cases op) (simp add: put_cfg)
qed simp

lemma look_run:
  assumes "look s k = Some w"
  shows "look (run_puts put ops s) k = Some (fold (step (cfg s) k) (ops_of k ops) w)"
  using assms
proof (induction ops arbitrary: s w)
  case (Cons op ops)
  obtain j a where op: "op = (j, a)" by (metis surj_pair)
  show ?case
    using Cons.IH[of "put j a s"] Cons.prems op
    by (cases "j = k") (simp_all add: ops_of_def look_put_same look_put_other put_cfg)
qed (simp add: ops_of_def)

lemma look_run_fresh:
  assumes "look s k = None" and "ops_of k ops \<noteq> []"
  shows "look (run_puts put ops s) k = Some (fold (step (cfg s) k) (ops_of k ops) fresh)"
  using assms
proof (induction ops arbitrary: s)
  case (Cons op ops)
  obtain j a where op: "op = (j, a)" by (metis surj_pair)
  show ?case
  proof (cases "j = k")
    case True
    then show ?thesis
      using Cons.prems(1) op look_run[of "put k a s" k "step (cfg s) k a fresh" ops]
      by (simp add: ops_of_def look_put_same put_cfg)
  next
    case False
    then show ?thesis
      using Cons.IH[of "put j a s"] Cons.prems op by (simp add: ops_of_def look_put_other put_cfg)
  qed
qed (simp add: ops_of_def)

lemma look_run_other:
  assumes "ops_of k ops = []"
  shows "look (run_puts put ops s) k = look s k"
  using assms
proof (induction ops arbitrary: s)
  case (Cons op ops)
  obtain j a where op: "op = (j, a)" by (metis surj_pair)
  then show ?case using Cons by (cases "j = k") (simp_all add: ops_of_def look_put_other)
qed simp

end

section \<open>Thresholds\<close>

record EarlyRunThreshold =
  avg_price_diff_median :: double
  bid_ask_price_diff_median :: double
  ask_bid_price_diff_median :: double
  er_price_offset_length :: u64
  er_current_time_mills :: u64

record BetaThreshold =
  sma :: double
  volatility :: double
  volatility_multiplier :: double
  beta_threshold :: double
  bid_sma :: double
  bid_volatility :: double
  bid_volatility_multiplier :: double
  bid_beta_threshold :: double
  ask_sma :: double
  ask_volatility :: double
  ask_volatility_multiplier :: double
  ask_beta_threshold :: double
  bt_current_time_mills :: u64

definition new_EarlyRunThreshold :: EarlyRunThreshold where
  "new_EarlyRunThreshold = \<lparr>avg_price_diff_median = Fin 0, bid_ask_price_diff_median = Fin 0,
     ask_bid_price_diff_median = Fin 0, er_price_offset_length = 0, er_current_time_mills = 0\<rparr>"

definition new_BetaThreshold :: BetaThreshold where
  "new_BetaThreshold = \<lparr>sma = Fin 0, volatility = Fin 0, volatility_multiplier = Fin 0,
     beta_threshold = Fin 0, bid_sma = Fin 0, bid_volatility = Fin 0, bid_volatility_multiplier = Fin 0,
     bid_beta_threshold = Fin 0, ask_sma = Fin 0, ask_volatility = Fin 0,
     ask_volatility_multiplier = Fin 0, ask_beta_threshold = Fin 0, bt_current_time_mills = 0\<rparr>"

type_synonym EarlyRunThresholdComposite = "string \<rightharpoonup> EarlyRunThreshold"
type_synonym BetaThresholdComposite = "string \<rightharpoonup> BetaThreshold"

text \<open>\<open>unordered_map::insert\<close> keeps an existing entry; \<open>operator[]\<close> with assignment replaces it.\<close>

definition map_insert :: "'k \<Rightarrow> 'v \<Rightarrow> ('k \<rightharpoonup> 'v) \<Rightarrow> ('k \<rightharpoonup> 'v)" where
  "map_insert k v m = (case m k of None \<Rightarrow> m(k \<mapsto> v) | Some _ \<Rightarrow> m)"

definition ert_init :: "string list \<Rightarrow> EarlyRunThresholdComposite \<Rightarrow> EarlyRunThresholdComposite" where
  "ert_init base_assets m = fold (\<lambda>base. map_insert base new_EarlyRunThreshold) base_assets m"

definition ert_update ::
  "string \<Rightarrow> EarlyRunThreshold \<Rightarrow> EarlyRunThresholdComposite \<Rightarrow> EarlyRunThresholdComposite" where
  "ert_update base_asset threshold m = m(base_asset \<mapsto> threshold)"

definition ert_get_threshold :: "EarlyRunThresholdComposite \<Rightarrow> string \<Rightarrow> EarlyRunThreshold option" where
  "ert_get_threshold m base_asset =
     (case m base_asset of
        Some t \<Rightarrow> Some \<lparr>avg_price_diff_median = avg_price_diff_median t,
          bid_ask_price_diff_median = bid_ask_price_diff_median t,
          ask_bid_price_diff_median = ask_bid_price_diff_median t,
          er_price_offset_length = er_price_offset_length t,
          er_current_time_mills = er_current_time_mills t\<rparr>
      | None \<Rightarrow> None)"

definition bct_init :: "string list \<Rightarrow> BetaThresholdComposite \<Rightarrow> BetaThresholdComposite" where
  "bct_init base_assets m = fold (\<lambda>base. map_insert base new_BetaThreshold) base_assets m"

definition bct_update :: "string \<Rightarrow> BetaThreshold \<Rightarrow> BetaThresholdComposite \<Rightarrow> BetaThresholdComposite" where
  "bct_update base_asset threshold m = m(base_asset \<mapsto> threshold)"

definition bct_get_threshold :: "BetaThresholdComposite \<Rightarrow> string \<Rightarrow> BetaThreshold option" where
  "bct_get_threshold m base_asset =
     (case m base_asset of
        Some t \<Rightarrow> Some \<lparr>sma = sma t, volatility = volatility t,
          volatility_multiplier = volatility_multiplier t, beta_threshold = beta_threshold t,
          bid_sma = bid_sma t, bid_volatility = bid_volatility t,
          bid_volatility_multiplier = bid_volatility_multiplier t, bid_beta_threshold = bid_beta_threshold t,
          ask_sma = ask_sma t, ask_volatility = ask_volatility t,
          ask_volatility_multiplier = ask_volatility_multiplier t, ask_beta_threshold = ask_beta_threshold t,
          bt_current_time_mills = bt_current_time_mills t\<rparr>
      | None \<Rightarrow> None)"

lemma map_insert_apply: "map_insert k v m j = (if j = k \<and> m k = None then Some v else m j)"
  by (auto simp: map_insert_def split: option.splits)

lemma fold_map_insert:
  "fold (\<lambda>k. map_insert k v) ks m j = (if j \<in> set ks \<and> m j = None then Some v else m j)"
  by (induction ks arbitrary: m) (auto simp: map_insert_apply)

interpretation ert: composite ert_get_threshold ert_update "\<lambda>_. ()" "\<lambda>_ _ t _. t" new_EarlyRunThreshold
  by unfold_locales (auto simp: ert_get_threshold_def ert_update_def)

interpretation bct: composite bct_get_threshold bct_update "\<lambda>_. ()" "\<lambda>_ _ t _. t" new_BetaThreshold
  by unfold_locales (auto simp: bct_get_threshold_def bct_update_def)

lemma fold_last: "fold (\<lambda>t _. t) ts w = (if ts = [] then w else last ts)"
  by (induction ts arbitrary: w) auto

text \<open>A threshold look-up returns the latest threshold stored for that asset, whatever was stored for
  other assets, the zero threshold for an asset that was only initialised, and nothing for an asset that
  was neither.\<close>

theorem threshold_last_write_wins:
  "bct_get_threshold (run_puts bct_update ops (bct_init assets Map.empty)) k =
     (if ops_of k ops \<noteq> [] then Some (last (ops_of k ops))
      else if k \<in> set assets then Some new_BetaThreshold else None)"
proof -
  have i: "bct_get_threshold (bct_init assets Map.empty) k = (if k \<in> set assets then Some new_BetaThreshold else None)"
    by (simp add: bct_get_threshold_def bct_init_def fold_map_insert)
  show ?thesis
  proof (cases "ops_of k ops = []")
    case True
    then show ?thesis using i by (simp add: bct.look_run_other)
  next
    case False
    then show ?thesis
      using i bct.look_run[of "bct_init assets Map.empty" k] bct.look_run_fresh[of "bct_init assets Map.empty" k ops]
      by (cases "k \<in> set assets") (simp_all add: fold_last)
  qed
qed

end
