(* ===== verification/AccountContainer.thy ===== *)
theory AccountContainer
  imports Thresholds
begin

text \<open>
  \<open>src/src/actuary/account_container.{h,cpp}\<close> and \<open>common_container.h\<close>: commission rates, and the account's
  meta data, balances, positions and position thresholds. The account and stream messages of the
  exchange library are records of the fields that are read, its string constants a record \<open>BinanceApi\<close>,
  the clock an argument.
\<close>

section \<open>Data\<close>

record BinanceApi =
  PositionSide_BOTH :: string
  PositionSide_LONG :: string
  PositionSide_SHORT :: string
  OrderSide_BUY :: string
  OrderSide_SELL :: string

record CommissionRate =
  cr_symbol :: string
  makerRate :: double
  takerRate :: double
  rateRaised :: bool

type_synonym CommissionRateComposite = "string \<rightharpoonup> CommissionRate"

record AccountMetaInfo =
  multiAssetsMargin :: bool
  totalInitialMargin :: double
  totalMaintMargin :: double
  totalWalletBalance :: double
  totalUnrealizedProfit :: double
  totalCrossWalletBalance :: double
  totalCrossUnPnl :: double
  mi_updateTimeMillis :: u64

record AccountBalanceInfo =
  bi_asset :: string
  walletBalance :: double
  crossWalletBalance :: double
  crossUnPnl :: double
  bi_updateTimeMillis :: u64

record AccountPositionInfo =
  pi_symbol :: string
  initialMargin :: double
  maintMargin :: double
  unrealizedProfit :: double
  entryPrice :: double
  positionSide :: string
  positionAmount :: double
  positionAmountAbs :: double
  pi_updateTimeMillis :: u64

record PositionThresholdInfo =
  pt_symbol :: string
  pt_positionSide :: string
  positionReduceRatioV1 :: double
  positionReduceRatio :: double
  positionFullRate :: double
  totalNotional :: double
  reachMaxPosition :: bool
  pt_updateTimeMillis :: u64

definition new_AccountBalanceInfo :: AccountBalanceInfo where
  "new_AccountBalanceInfo = \<lparr>bi_asset = [], walletBalance = Fin 0, crossWalletBalance = Fin 0,
     crossUnPnl = Fin 0, bi_updateTimeMillis = 0\<rparr>"

definition new_AccountPositionInfo :: AccountPositionInfo where
  "new_AccountPositionInfo = \<lparr>pi_symbol = [], initialMargin = Fin 0, maintMargin = Fin 0,
     unrealizedProfit = Fin 0, entryPrice = Fin 0, positionSide = [], positionAmount = Fin 0,
     positionAmountAbs = Fin 0, pi_updateTimeMillis = 0\<rparr>"

definition new_PositionThresholdInfo :: PositionThresholdInfo where
  "new_PositionThresholdInfo = \<lparr>pt_symbol = [], pt_positionSide = [], positionReduceRatioV1 = Fin 0,
     positionReduceRatio = Fin 0, positionFullRate = Fin 0, totalNotional = Fin 0,
     reachMaxPosition = False, pt_updateTimeMillis = 0\<rparr>"

record AccountBalancePositionComposite =
  ap_meta :: AccountMetaInfo
  balance_map :: "string \<rightharpoonup> AccountBalanceInfo"
  position_map :: "string \<rightharpoonup> AccountPositionInfo"
  threshold_map :: "string \<rightharpoonup> PositionThresholdInfo"

section \<open>Commission rates\<close>

definition update_commission_rate :: "CommissionRate \<Rightarrow> CommissionRateComposite \<Rightarrow> CommissionRateComposite" where
  "update_commission_rate rate m =
     (let raised = (case m (cr_symbol rate) of
            None \<Rightarrow> False
          | Some original \<Rightarrow> makerRate original < makerRate rate \<or> takerRate original < takerRate rate)
      in m(cr_symbol rate \<mapsto> \<lparr>cr_symbol = cr_symbol rate, makerRate = makerRate rate,
           takerRate = takerRate rate, rateRaised = raised\<rparr>))"

definition get_commission_rate :: "string \<Rightarrow> CommissionRateComposite \<Rightarrow> CommissionRate option" where
  "get_commission_rate symbol m =
     (case m symbol of
        None \<Rightarrow> None
      | Some original \<Rightarrow> Some \<lparr>cr_symbol = symbol, makerRate = makerRate original,
          takerRate = takerRate original, rateRaised = rateRaised original\<rparr>)"

section \<open>Balances and positions\<close>

record FuturesAccountAsset =
  fa_asset :: string
  fa_walletBalance :: double
  fa_crossWalletBalance :: double
  fa_crossUnPnl :: double

record FuturesAccountPosition =
  fp_symbol :: string
  fp_initialMargin :: double
  fp_maintMargin :: double
  fp_unrealizedProfit :: double
  fp_entryPrice :: double
  fp_positionSide :: string
  fp_positionAmt :: double
  fp_updateTime :: u64

record WsFuturesAccountUpdateBalanceEvent =
  we_asset :: string
  we_walletBalance :: double
  we_crossWalletBalance :: double

record WsFuturesAccountUpdatePositionEvent =
  wp_symbol :: string
  wp_unrealizedPnL :: double
  wp_entryPrice :: double
  wp_positionSide :: string
  wp_positionAmout :: double

fun dabs :: "double \<Rightarrow> double" where
  "dabs NaN = NaN"
| "dabs (Inf s) = Inf False"
| "dabs NZero = Fin 0"
| "dabs (Fin q) = Fin \<bar>q\<bar>"

definition ap_init :: "string list \<Rightarrow> string list \<Rightarrow> AccountBalancePositionComposite \<Rightarrow> AccountBalancePositionComposite" where
  "ap_init assets inst_ids c =
     c\<lparr>balance_map := fold (\<lambda>a. map_insert a new_AccountBalanceInfo) assets (balance_map c),
       position_map := fold (\<lambda>i. map_insert i new_AccountPositionInfo) inst_ids (position_map c),
       threshold_map := fold (\<lambda>i. map_insert i new_PositionThresholdInfo) inst_ids (threshold_map c)\<rparr>"

text \<open>The account message is given by the fields that \<open>update_meta\<close> copies; its own time is not used.\<close>

definition update_meta :: "u64 \<Rightarrow> AccountMetaInfo \<Rightarrow> AccountBalancePositionComposite \<Rightarrow> bool \<times> AccountBalancePositionComposite" where
  "update_meta now m c = (True, c\<lparr>ap_meta := m\<lparr>mi_updateTimeMillis := now\<rparr>\<rparr>)"

definition update_exist_balance ::
  "u64 \<Rightarrow> FuturesAccountAsset \<Rightarrow> AccountBalancePositionComposite \<Rightarrow> bool \<times> AccountBalancePositionComposite" where
  "update_exist_balance now balance c =
     (case balance_map c (fa_asset balance) of
        Some _ \<Rightarrow> (True, c\<lparr>balance_map := (balance_map c)(fa_asset balance \<mapsto>
          \<lparr>bi_asset = fa_asset balance, walletBalance = fa_walletBalance balance,
           crossWalletBalance = fa_crossWalletBalance balance, crossUnPnl = fa_crossUnPnl balance,
           bi_updateTimeMillis = now\<rparr>)\<rparr>)
      | None \<Rightarrow> (False, c))"

definition side_of_amount :: "BinanceApi \<Rightarrow> string \<Rightarrow> double \<Rightarrow> string" where
  "side_of_amount api side amt =
     (if side = PositionSide_BOTH api
      then if amt < Fin 0 then PositionSide_SHORT api
           else if amt > Fin 0 then PositionSide_LONG api
           else side
      else side)"

definition update_exist_position ::
  "BinanceApi \<Rightarrow> FuturesAccountPosition \<Rightarrow> AccountBalancePositionComposite \<Rightarrow> bool \<times> AccountBalancePositionComposite" where
  "update_exist_position api position c =
     (case position_map c (fp_symbol position) of
        Some _ \<Rightarrow> (True, c\<lparr>position_map := (position_map c)(fp_symbol position \<mapsto>
          \<lparr>pi_symbol = fp_symbol position, initialMargin = fp_initialMargin position,
           maintMargin = fp_maintMargin position, unrealizedProfit = fp_unrealizedProfit position,
           entryPrice = fp_entryPrice position,
           positionSide = side_of_amount api (fp_positionSide position) (fp_positionAmt position),
           positionAmount = fp_positionAmt position, positionAmountAbs = dabs (fp_positionAmt position),
           pi_updateTimeMillis = fp_updateTime position\<rparr>)\<rparr>)
      | None \<Rightarrow> (False, c))"

definition update_exist_position_threshold ::
  "PositionThresholdInfo \<Rightarrow> AccountBalancePositionComposite \<Rightarrow> bool \<times> AccountBalancePositionComposite" where
  "update_exist_position_threshold threshold c =
     (case threshold_map c (pt_symbol threshold) of
        Some _ \<Rightarrow> (True, c\<lparr>threshold_map := (threshold_map c)(pt_symbol threshold \<mapsto>
          new_PositionThresholdInfo\<lparr>pt_symbol := pt_symbol threshold,
           pt_positionSide := pt_positionSide threshold,
           positionReduceRatio := positionReduceRatio threshold, totalNotional := totalNotional threshold,
           pt_updateTimeMillis := pt_updateTimeMillis threshold\<rparr>)\<rparr>)
      | None \<Rightarrow> (False, c))"

definition update_exist_balance_event ::
  "u64 \<Rightarrow> WsFuturesAccountUpdateBalanceEvent \<Rightarrow> AccountBalancePositionComposite
   \<Rightarrow> bool \<times> AccountBalancePositionComposite" where
  "update_exist_balance_event now event c =
     (case balance_map c (we_asset event) of
        Some _ \<Rightarrow> (True, c\<lparr>balance_map := (balance_map c)(we_asset event \<mapsto>
          new_AccountBalanceInfo\<lparr>bi_asset := we_asset event, walletBalance := we_walletBalance event,
           crossWalletBalance := we_crossWalletBalance event, bi_updateTimeMillis := now\<rparr>)\<rparr>)
      | None \<Rightarrow> (False, c))"

definition update_exist_position_event ::
  "BinanceApi \<Rightarrow> u64 \<Rightarrow> WsFuturesAccountUpdatePositionEvent \<Rightarrow> AccountBalancePositionComposite
   \<Rightarrow> bool \<times> AccountBalancePositionComposite" where
  "update_exist_position_event api now event c =
     (case position_map c (wp_symbol event) of
        Some _ \<Rightarrow> (True, c\<lparr>position_map := (position_map c)(wp_symbol event \<mapsto>
          new_AccountPositionInfo\<lparr>pi_symbol := wp_symbol event, unrealizedProfit := wp_unrealizedPnL event,
           entryPrice := wp_entryPrice event,
           positionSide := side_of_amount api (wp_positionSide event) (wp_positionAmout event),
           positionAmount := wp_positionAmout event, positionAmountAbs := dabs (wp_positionAmout event),
           pi_updateTimeMillis := now\<rparr>)\<rparr>)
      | None \<Rightarrow> (False, c))"

definition copy_meta :: "AccountBalancePositionComposite \<Rightarrow> AccountMetaInfo" where
  "copy_meta c = (let m = ap_meta c in
     \<lparr>multiAssetsMargin = multiAssetsMargin m, totalInitialMargin = totalInitialMargin m,
      totalMaintMargin = totalMaintMargin m, totalWalletBalance = totalWalletBalance m,
      totalUnrealizedProfit = totalUnrealizedProfit m, totalCrossWalletBalance = totalCrossWalletBalance m,
      totalCrossUnPnl = totalCrossUnPnl m, mi_updateTimeMillis = mi_updateTimeMillis m\<rparr>)"

definition copy_balance :: "string \<Rightarrow> AccountBalancePositionComposite \<Rightarrow> AccountBalanceInfo option" where
  "copy_balance asset c =
     (case balance_map c asset of
        Some b \<Rightarrow> Some \<lparr>bi_asset = bi_asset b, walletBalance = walletBalance b,
          crossWalletBalance = crossWalletBalance b, crossUnPnl = crossUnPnl b,
          bi_updateTimeMillis = bi_updateTimeMillis b\<rparr>
      | None \<Rightarrow> None)"

definition copy_position :: "string \<Rightarrow> AccountBalancePositionComposite \<Rightarrow> AccountPositionInfo option" where
  "copy_position inst c =
     (case position_map c inst of
        Some p \<Rightarrow> Some \<lparr>pi_symbol = pi_symbol p, initialMargin = initialMargin p, maintMargin = maintMargin p,
          unrealizedProfit = unrealizedProfit p, entryPrice = entryPrice p, positionSide = positionSide p,
          positionAmount = positionAmount p, positionAmountAbs = positionAmountAbs p,
          pi_updateTimeMillis = pi_updateTimeMillis p\<rparr>
      | None \<Rightarrow> None)"

definition copy_position_threshold ::
  "string \<Rightarrow> AccountBalancePositionComposite \<Rightarrow> PositionThresholdInfo option" where
  "copy_position_threshold inst c =
     (case threshold_map c inst of
        Some t \<Rightarrow> Some (new_PositionThresholdInfo\<lparr>pt_symbol := pt_symbol t,
          positionReduceRatio := positionReduceRatio t, totalNotional := totalNotional t,
          pt_updateTimeMillis := pt_updateTimeMillis t\<rparr>)
      | None \<Rightarrow> None)"

section \<open>The contract of updates of existing entries\<close>

fun run_updates :: "('a \<Rightarrow> 's \<Rightarrow> bool \<times> 's) \<Rightarrow> 'a list \<Rightarrow> 's \<Rightarrow> 's" where
  "run_updates upd [] s = s"
| "run_updates upd (a # ops) s = run_updates upd ops (snd (upd a s))"

locale exist_map =
  fixes look :: "'s \<Rightarrow> string \<Rightarrow> 'v option"
    and upd :: "'a \<Rightarrow> 's \<Rightarrow> bool \<times> 's"
    and key :: "'a \<Rightarrow> string"
    and val :: "'a \<Rightarrow> 'v"
  assumes upd_missing: "look s (key a) = None \<Longrightarrow> upd a s = (False, s)"
    and upd_exist: "look s (key a) \<noteq> None \<Longrightarrow>
      fst (upd a s) \<and> look (snd (upd a s)) = (look s)(key a \<mapsto> val a)"
begin

lemma upd_dom: "(look (snd (upd a s)) k = None) = (look s k = None)"
  using upd_missing[of s a] upd_exist[of s a] by (cases "look s (key a)") auto

lemma run_dom: "(look (run_updates upd ops s) k = None) = (look s k = None)"
  by (induction ops arbitrary: s) (simp_all add: upd_dom)

lemma run_last:
  assumes "look s k \<noteq> None"
  shows "look (run_updates upd ops s) k =
    (if filter (\<lambda>a. key a = k) ops = [] then look s k else Some (val (last (filter (\<lambda>a. key a = k) ops))))"
  using assms
proof (induction ops arbitrary: s)
  case (Cons a ops)
  have dom: "look (snd (upd a s)) k \<noteq> None" using Cons.prems by (simp add: upd_dom)
  have same: "look (snd (upd a s)) k = (if key a = k then Some (val a) else look s k)"
    using Cons.prems upd_missing[of s a] upd_exist[of s a] by (cases "look s (key a)") auto
  show ?case using Cons.IH[OF dom] same by simp
qed simp

end

interpretation bal: exist_map balance_map "update_exist_balance now" fa_asset
  "\<lambda>b. \<lparr>bi_asset = fa_asset b, walletBalance = fa_walletBalance b, crossWalletBalance = fa_crossWalletBalance b,
     crossUnPnl = fa_crossUnPnl b, bi_updateTimeMillis = now\<rparr>" for now
  by unfold_locales (auto simp: update_exist_balance_def split: option.splits)

interpretation bev: exist_map balance_map "update_exist_balance_event now" we_asset
  "\<lambda>e. new_AccountBalanceInfo\<lparr>bi_asset := we_asset e, walletBalance := we_walletBalance e,
     crossWalletBalance := we_crossWalletBalance e, bi_updateTimeMillis := now\<rparr>" for now
  by unfold_locales (auto simp: update_exist_balance_event_def split: option.splits)

interpretation pos: exist_map position_map "update_exist_position api" fp_symbol
  "\<lambda>p. \<lparr>pi_symbol = fp_symbol p, initialMargin = fp_initialMargin p, maintMargin = fp_maintMargin p,
     unrealizedProfit = fp_unrealizedProfit p, entryPrice = fp_entryPrice p,
     positionSide = side_of_amount api (fp_positionSide p) (fp_positionAmt p),
     positionAmount = fp_positionAmt p, positionAmountAbs = dabs (fp_positionAmt p),
     pi_updateTimeMillis = fp_updateTime p\<rparr>" for api
  by unfold_locales (auto simp: update_exist_position_def split: option.splits)

interpretation pev: exist_map position_map "update_exist_position_event api now" wp_symbol
  "\<lambda>e. new_AccountPositionInfo\<lparr>pi_symbol := wp_symbol e, unrealizedProfit := wp_unrealizedPnL e,
     entryPrice := wp_entryPrice e, positionSide := side_of_amount api (wp_positionSide e) (wp_positionAmout e),
     positionAmount := wp_positionAmout e, positionAmountAbs := dabs (wp_positionAmout e),
     pi_updateTimeMillis := now\<rparr>" for api now
  by unfold_locales (auto simp: update_exist_position_event_def split: option.splits)

interpretation pth: exist_map threshold_map update_exist_position_threshold pt_symbol
  "\<lambda>t. new_PositionThresholdInfo\<lparr>pt_symbol := pt_symbol t, pt_positionSide := pt_positionSide t,
     positionReduceRatio := positionReduceRatio t, totalNotional := totalNotional t,
     pt_updateTimeMillis := pt_updateTimeMillis t\<rparr>"
  by unfold_locales (auto simp: update_exist_position_threshold_def split: option.splits)

section \<open>Properties\<close>

text \<open>Account positions follow the stream: after any sequence of position events, a symbol that is
  tracked reads back as the last event for it, with the side derived from the sign of the amount in
  one-way mode and the absolute amount; a symbol that is not tracked stays unknown.\<close>

theorem position_follows_last_event:
  "copy_position (wp_symbol e) (run_updates (update_exist_position_event api now) (es @ [e]) c) =
    (case position_map c (wp_symbol e) of
       None \<Rightarrow> None
     | Some _ \<Rightarrow> Some (new_AccountPositionInfo\<lparr>pi_symbol := wp_symbol e,
         unrealizedProfit := wp_unrealizedPnL e, entryPrice := wp_entryPrice e,
         positionSide := side_of_amount api (wp_positionSide e) (wp_positionAmout e),
         positionAmount := wp_positionAmout e, positionAmountAbs := dabs (wp_positionAmout e),
         pi_updateTimeMillis := now\<rparr>))"
proof (cases "position_map c (wp_symbol e)")
  case None
  then show ?thesis using pev.run_dom[of api now "es @ [e]" c "wp_symbol e"]
    by (simp add: copy_position_def)
next
  case (Some p)
  then show ?thesis
    using pev.run_last[of c "wp_symbol e" api now "es @ [e]"]
    by (simp add: copy_position_def new_AccountPositionInfo_def)
qed

text \<open>A commission rate is flagged as raised exactly when the new maker or taker rate exceeds the one stored
  before for that symbol.\<close>

theorem commission_raise_flag:
  "map_option rateRaised (get_commission_rate (cr_symbol rate) (update_commission_rate rate m)) =
     Some (\<exists>old. get_commission_rate (cr_symbol rate) m = Some old
       \<and> (makerRate old < makerRate rate \<or> takerRate old < takerRate rate))"
  by (auto simp: get_commission_rate_def update_commission_rate_def Let_def split: option.splits)

end
