(* ===== verification/DynamicConfig.thy ===== *)
theory DynamicConfig
  imports Prelude
begin

text \<open>
  \<open>src/src/actuary/dynamic_config.{h,cpp}\<close>: the two switches by which the actuary's watchdogs stop all orders
  and stop opening orders. Each switch keeps the set of reasons for which it is off.
\<close>

definition STOP_REASON_STATIC_CONFIG :: string where
  "STOP_REASON_STATIC_CONFIG = ''STOP_REASON_STATIC_CONFIG''"
definition STOP_REASON_ACCOUNT_META :: string where
  "STOP_REASON_ACCOUNT_META = ''STOP_REASON_ACCOUNT_META''"
definition STOP_REASON_MARGIN_LIMITED :: string where
  "STOP_REASON_MARGIN_LIMITED = ''STOP_REASON_MARGIN_LIMITED''"
definition STOP_REASON_BNB :: string where
  "STOP_REASON_BNB = ''STOP_REASON_BNB''"
definition STOP_REASON_BNB_SHORTAGE :: string where
  "STOP_REASON_BNB_SHORTAGE = ''STOP_REASON_BNB_SHORTAGE''"

lemmas stop_reason_defs = STOP_REASON_STATIC_CONFIG_def STOP_REASON_ACCOUNT_META_def
  STOP_REASON_MARGIN_LIMITED_def STOP_REASON_BNB_def STOP_REASON_BNB_SHORTAGE_def

record DynamicConfig =
  stop_order :: bool
  stop_open_order :: bool
  stop_reasons :: "string set"
  stop_open_reasons :: "string set"

definition new_DynamicConfig :: "bool \<Rightarrow> bool \<Rightarrow> DynamicConfig" where
  "new_DynamicConfig stop_make_order make_position_close_only =
     \<lparr>stop_order = stop_make_order,
      stop_open_order = (stop_make_order \<or> make_position_close_only),
      stop_reasons = (if stop_make_order then {STOP_REASON_STATIC_CONFIG} else {}),
      stop_open_reasons =
        (if stop_make_order \<or> make_position_close_only then {STOP_REASON_STATIC_CONFIG} else {})\<rparr>"

definition stop_make_order :: "string \<Rightarrow> DynamicConfig \<Rightarrow> DynamicConfig" where
  "stop_make_order stopReason d =
     (let d = (if stopReason \<notin> stop_reasons d then d\<lparr>stop_reasons := insert stopReason (stop_reasons d)\<rparr> else d)
      in d\<lparr>stop_order := True\<rparr>)"

definition resume_make_order :: "string \<Rightarrow> DynamicConfig \<Rightarrow> bool \<times> DynamicConfig" where
  "resume_make_order stopReason d =
     (let d = (if stopReason \<in> stop_reasons d then d\<lparr>stop_reasons := stop_reasons d - {stopReason}\<rparr> else d);
          d = (if stop_reasons d = {} then d\<lparr>stop_order := False\<rparr> else d)
      in (\<not> stop_order d, d))"

definition is_stop_make_order :: "DynamicConfig \<Rightarrow> bool" where
  "is_stop_make_order d = stop_order d"

definition is_stop_make_order_as_reason :: "string \<Rightarrow> DynamicConfig \<Rightarrow> bool" where
  "is_stop_make_order_as_reason stopReason d =
     (if \<not> stop_order d then False else stop_reasons d \<noteq> {} \<and> stopReason \<in> stop_reasons d)"

definition stop_make_open_order :: "string \<Rightarrow> DynamicConfig \<Rightarrow> DynamicConfig" where
  "stop_make_open_order stopReason d =
     (let d = (if stopReason \<notin> stop_open_reasons d
               then d\<lparr>stop_open_reasons := insert stopReason (stop_open_reasons d)\<rparr> else d)
      in d\<lparr>stop_open_order := True\<rparr>)"

definition resume_make_open_order :: "string \<Rightarrow> DynamicConfig \<Rightarrow> bool \<times> DynamicConfig" where
  "resume_make_open_order stopReason d =
     (let d = (if stopReason \<in> stop_open_reasons d
               then d\<lparr>stop_open_reasons := stop_open_reasons d - {stopReason}\<rparr> else d);
          d = (if stop_open_reasons d = {} then d\<lparr>stop_open_order := False\<rparr> else d)
      in (\<not> stop_open_order d, d))"

definition is_stop_make_open_order :: "DynamicConfig \<Rightarrow> bool" where
  "is_stop_make_open_order d = stop_open_order d"

definition is_stop_make_open_order_as_reason :: "string \<Rightarrow> DynamicConfig \<Rightarrow> bool" where
  "is_stop_make_open_order_as_reason stopReason d =
     (if \<not> stop_open_order d then False else stop_open_reasons d \<noteq> {} \<and> stopReason \<in> stop_open_reasons d)"

section \<open>The contract of a switch\<close>

datatype switch_event = Stop string | Resume string

fun run_switch :: "(string \<Rightarrow> 's \<Rightarrow> 's) \<Rightarrow> (string \<Rightarrow> 's \<Rightarrow> bool \<times> 's) \<Rightarrow> switch_event list \<Rightarrow> 's \<Rightarrow> 's" where
  "run_switch stop resume [] s = s"
| "run_switch stop resume (Stop r # es) s = run_switch stop resume es (stop r s)"
| "run_switch stop resume (Resume r # es) s = run_switch stop resume es (snd (resume r s))"

text \<open>The last event that names a reason decides whether it is active.\<close>

fun active_after :: "switch_event list \<Rightarrow> string set \<Rightarrow> string set" where
  "active_after [] R = R"
| "active_after (Stop r # es) R = active_after es (insert r R)"
| "active_after (Resume r # es) R = active_after es (R - {r})"

locale stop_switch =
  fixes off :: "'s \<Rightarrow> bool"
    and reasons :: "'s \<Rightarrow> string set"
    and stop :: "string \<Rightarrow> 's \<Rightarrow> 's"
    and resume :: "string \<Rightarrow> 's \<Rightarrow> bool \<times> 's"
    and off_as :: "string \<Rightarrow> 's \<Rightarrow> bool"
  assumes stop_reasons: "reasons (stop r s) = insert r (reasons s)"
    and stop_off: "off (stop r s)"
    and resume_reasons: "reasons (snd (resume r s)) = reasons s - {r}"
    and resume_off: "off (snd (resume r s)) \<longleftrightarrow> off s \<and> reasons s - {r} \<noteq> {}"
    and resume_result: "fst (resume r s) \<longleftrightarrow> \<not> off (snd (resume r s))"
    and off_as_iff: "off_as r s \<longleftrightarrow> off s \<and> r \<in> reasons s"
begin

definition consistent :: "'s \<Rightarrow> bool" where
  "consistent s \<longleftrightarrow> (off s \<longleftrightarrow> reasons s \<noteq> {})"

lemma stop_consistent: "consistent (stop r s)"
  by (simp add: consistent_def stop_off stop_reasons)

lemma resume_consistent: "consistent s \<Longrightarrow> consistent (snd (resume r s))"
  by (auto simp: consistent_def resume_off resume_reasons)

lemma off_as_reason: "consistent s \<Longrightarrow> off_as r s \<longleftrightarrow> r \<in> reasons s"
  by (auto simp: consistent_def off_as_iff)

lemma run_reasons:
  "reasons (run_switch stop resume es s) = active_after es (reasons s)"
proof (induction es arbitrary: s)
  case (Cons e es)
  then show ?case by (cases e) (simp_all add: stop_reasons resume_reasons)
qed simp

lemma run_consistent:
  "consistent s \<Longrightarrow> consistent (run_switch stop resume es s)"
proof (induction es arbitrary: s)
  case (Cons e es)
  then show ?case by (cases e) (simp_all add: stop_consistent resume_consistent)
qed simp

lemma run_off:
  assumes "consistent s"
  shows "off (run_switch stop resume es s) \<longleftrightarrow> active_after es (reasons s) \<noteq> {}"
  using run_consistent[OF assms, of es] by (simp add: consistent_def run_reasons)

end

interpretation order_switch: stop_switch stop_order stop_reasons stop_make_order resume_make_order
  is_stop_make_order_as_reason
  by unfold_locales
    (auto simp: stop_make_order_def resume_make_order_def is_stop_make_order_as_reason_def Let_def)

interpretation open_switch: stop_switch stop_open_order stop_open_reasons stop_make_open_order
  resume_make_open_order is_stop_make_open_order_as_reason
  by unfold_locales
    (auto simp: stop_make_open_order_def resume_make_open_order_def is_stop_make_open_order_as_reason_def Let_def)

definition dc_wf :: "DynamicConfig \<Rightarrow> bool" where
  "dc_wf d \<longleftrightarrow> (stop_order d \<longleftrightarrow> stop_reasons d \<noteq> {}) \<and> (stop_open_order d \<longleftrightarrow> stop_open_reasons d \<noteq> {})"

lemma dc_wf_switches: "dc_wf d \<longleftrightarrow> order_switch.consistent d \<and> open_switch.consistent d"
  by (simp add: dc_wf_def order_switch.consistent_def open_switch.consistent_def)

lemma dc_new_wf: "dc_wf (new_DynamicConfig s c)"
  by (simp add: dc_wf_def new_DynamicConfig_def)

lemma dc_frame:
  "stop_open_order (stop_make_order r d) = stop_open_order d"
  "stop_open_reasons (stop_make_order r d) = stop_open_reasons d"
  "stop_open_order (snd (resume_make_order r d)) = stop_open_order d"
  "stop_open_reasons (snd (resume_make_order r d)) = stop_open_reasons d"
  "stop_order (stop_make_open_order r d) = stop_order d"
  "stop_reasons (stop_make_open_order r d) = stop_reasons d"
  "stop_order (snd (resume_make_open_order r d)) = stop_order d"
  "stop_reasons (snd (resume_make_open_order r d)) = stop_reasons d"
  by (simp_all add: stop_make_order_def resume_make_order_def stop_make_open_order_def
      resume_make_open_order_def Let_def)

lemma dc_wf_steps:
  assumes "dc_wf d"
  shows "dc_wf (stop_make_order r d)" "dc_wf (snd (resume_make_order r d))"
    "dc_wf (stop_make_open_order r d)" "dc_wf (snd (resume_make_open_order r d))"
  using assms
  by (auto simp: dc_wf_def dc_frame order_switch.stop_off order_switch.stop_reasons order_switch.resume_off
      order_switch.resume_reasons open_switch.stop_off open_switch.stop_reasons open_switch.resume_off
      open_switch.resume_reasons)


end
