(* ===== verification/RiskControl.thy ===== *)
theory RiskControl
  imports AccountContainer DynamicConfig
begin

text \<open>
  \<open>src/src/actuary/risk_control.cpp\<close>: the two watchdogs of the actuary. Each definition is one iteration of
  a watchdog's loop: it reads the account data and the clock, throws the switches of the dynamic
  configuration, and sends warnings. Warnings are returned in the order of the calls; the messenger
  itself is external.
\<close>

record RiskConfig =
  margin_ratio_thresholds :: "double list"
  bnb_balance_thresholds :: "double list"
  tg_send_message :: bool
  dt_group_main_node :: bool
  account_flag :: string

text \<open>The message that is handed to the messenger, if any.\<close>

definition send_warning_message :: "RiskConfig \<Rightarrow> string \<Rightarrow> string list" where
  "send_warning_message config message =
     (if \<not> tg_send_message config then []
      else if \<not> dt_group_main_node config then []
      else [''['' @ account_flag config @ '']'' @ message])"

text \<open>The thresholds of the configuration are arrays of two numbers, here lists with checked access.\<close>

definition vec_at :: "double list \<Rightarrow> nat \<Rightarrow> double result" where
  "vec_at v i = (if i < length v then Inr (v ! i) else Inl OutOfBounds)"

definition margin_use_ratio :: "AccountMetaInfo \<Rightarrow> double" where
  "margin_use_ratio m =
     (if totalCrossWalletBalance m \<le> Fin 0 then Fin 1
      else totalInitialMargin m / totalCrossWalletBalance m)"

definition watch_margin ::
  "RiskConfig \<Rightarrow> double \<Rightarrow> double \<Rightarrow> double \<Rightarrow> DynamicConfig \<Rightarrow> string list \<times> DynamicConfig" where
  "watch_margin config lo hi ratio d =
     (if ratio > hi then
        if \<not> is_stop_make_open_order_as_reason STOP_REASON_MARGIN_LIMITED d
        then (send_warning_message config ''stop make open position order: margin ratio exceeds limit.'',
              stop_make_open_order STOP_REASON_MARGIN_LIMITED d)
        else ([], d)
      else if ratio < lo then
        if is_stop_make_open_order_as_reason STOP_REASON_MARGIN_LIMITED d
        then let (resumed, d) = resume_make_open_order STOP_REASON_MARGIN_LIMITED d
             in (if resumed then send_warning_message config
                   ''resume make open position order: margin ratio has been recovery.'' else [], d)
        else ([], d)
      else ([], d))"

definition watch_account_meta ::
  "u64 \<Rightarrow> RiskConfig \<Rightarrow> AccountMetaInfo \<Rightarrow> DynamicConfig \<Rightarrow> (string list \<times> DynamicConfig) result" where
  "watch_account_meta now config m d =
     (if mi_updateTimeMillis m + 300 * 1000 < now then
        if \<not> is_stop_make_order_as_reason STOP_REASON_ACCOUNT_META d
        then Inr (send_warning_message config ''stop make order: account meta is expired.'',
                  stop_make_order STOP_REASON_ACCOUNT_META d)
        else Inr ([], d)
      else
        let (msgs, d) =
              (if is_stop_make_order_as_reason STOP_REASON_ACCOUNT_META d
               then (send_warning_message config ''resume make order: account meta refresh time is normal.'',
                     snd (resume_make_order STOP_REASON_ACCOUNT_META d))
               else ([], d))
        in bind_result (vec_at (margin_ratio_thresholds config) 1) (\<lambda>hi.
           bind_result (if margin_use_ratio m > hi then Inr hi else vec_at (margin_ratio_thresholds config) 0) (\<lambda>lo.
             let (msgs', d) = watch_margin config lo hi (margin_use_ratio m) d in Inr (msgs @ msgs', d))))"

definition watch_bnb_balance ::
  "u64 \<Rightarrow> RiskConfig \<Rightarrow> AccountBalanceInfo option \<Rightarrow> DynamicConfig \<Rightarrow> (string list \<times> DynamicConfig) result" where
  "watch_bnb_balance now config balance d =
     (case balance of
        None \<Rightarrow>
          if \<not> is_stop_make_order_as_reason STOP_REASON_BNB d
          then Inr (send_warning_message config ''stop make order: balance of bnb not found.'',
                    stop_make_order STOP_REASON_BNB d)
          else Inr ([], d)
      | Some b \<Rightarrow>
          if bi_updateTimeMillis b + 300 * 1000 < now then
            if \<not> is_stop_make_order_as_reason STOP_REASON_BNB d
            then Inr (send_warning_message config ''stop make order: balance of bnb is expired.'',
                      stop_make_order STOP_REASON_BNB d)
            else Inr ([], d)
          else
            let (msgs, d) =
                  (if is_stop_make_order_as_reason STOP_REASON_BNB d
                   then (send_warning_message config ''resume make order: balance of bnb refresh time is normal.'',
                         snd (resume_make_order STOP_REASON_BNB d))
                   else ([], d))
            in bind_result (vec_at (bnb_balance_thresholds config) 0) (\<lambda>lo.
               if crossWalletBalance b < lo then
                 if \<not> is_stop_make_order_as_reason STOP_REASON_BNB_SHORTAGE d
                 then Inr (msgs @ send_warning_message config ''stop make order: only few balance of bnb.'',
                           stop_make_order STOP_REASON_BNB_SHORTAGE d)
                 else Inr (msgs, d)
               else bind_result (vec_at (bnb_balance_thresholds config) 1) (\<lambda>hi.
                 if crossWalletBalance b < hi then
                   Inr (msgs @ send_warning_message config
                     ''balance of bnb is not enough, transfer as soon as possible to avoid trading stopping.'', d)
                 else if crossWalletBalance b > hi then
                   if is_stop_make_order_as_reason STOP_REASON_BNB_SHORTAGE d
                   then let (resumed, d) = resume_make_order STOP_REASON_BNB_SHORTAGE d
                        in Inr (msgs @ (if resumed then send_warning_message config
                             ''resume make order: has enough balance of bnb.'' else []), d)
                   else Inr (msgs, d)
                 else Inr (msgs, d))))"

section \<open>Lemmas\<close>

lemma stop_if_needed:
  assumes "dc_wf d"
  shows "stop_reasons (if \<not> is_stop_make_order_as_reason r d then stop_make_order r d else d) = insert r (stop_reasons d)"
    and "dc_wf (if \<not> is_stop_make_order_as_reason r d then stop_make_order r d else d)"
  using assms order_switch.off_as_reason[of d r] dc_wf_steps(1)[OF assms, of r]
  by (auto simp: order_switch.stop_reasons dc_wf_switches)

lemma resume_if_needed:
  assumes "dc_wf d"
  shows "stop_reasons (if is_stop_make_order_as_reason r d then snd (resume_make_order r d) else d) = stop_reasons d - {r}"
    and "stop_open_reasons (if is_stop_make_order_as_reason r d then snd (resume_make_order r d) else d) = stop_open_reasons d"
    and "dc_wf (if is_stop_make_order_as_reason r d then snd (resume_make_order r d) else d)"
  using assms order_switch.off_as_reason[of d r] dc_wf_steps(2)[OF assms, of r]
  by (auto simp: order_switch.resume_reasons dc_wf_switches dc_frame)

lemma watch_margin_reasons:
  assumes "dc_wf d"
  shows "stop_open_reasons (snd (watch_margin config lo hi ratio d)) =
      (if ratio > hi then insert STOP_REASON_MARGIN_LIMITED (stop_open_reasons d)
       else if ratio < lo then stop_open_reasons d - {STOP_REASON_MARGIN_LIMITED}
       else stop_open_reasons d)"
    and "stop_reasons (snd (watch_margin config lo hi ratio d)) = stop_reasons d"
    and "dc_wf (snd (watch_margin config lo hi ratio d))"
  using assms open_switch.off_as_reason[of d STOP_REASON_MARGIN_LIMITED] dc_wf_steps(3,4)[OF assms]
  by (auto simp: watch_margin_def open_switch.stop_reasons open_switch.resume_reasons dc_wf_switches dc_frame
      case_prod_beta split: if_splits)

text \<open>The effect of one visit of the account watchdog on the two sets of reasons.\<close>

lemma watch_account_meta_reasons:
  assumes wf: "dc_wf d" and th: "margin_ratio_thresholds config = [lo, hi]"
  shows "\<exists>msgs d'. watch_account_meta now config m d = Inr (msgs, d') \<and> dc_wf d'
    \<and> (if mi_updateTimeMillis m + 300 * 1000 < now
       then stop_reasons d' = insert STOP_REASON_ACCOUNT_META (stop_reasons d)
         \<and> stop_open_reasons d' = stop_open_reasons d
       else stop_reasons d' = stop_reasons d - {STOP_REASON_ACCOUNT_META}
         \<and> stop_open_reasons d' =
             (if margin_use_ratio m > hi then insert STOP_REASON_MARGIN_LIMITED (stop_open_reasons d)
              else if margin_use_ratio m < lo then stop_open_reasons d - {STOP_REASON_MARGIN_LIMITED}
              else stop_open_reasons d))"
proof (cases "mi_updateTimeMillis m + 300 * 1000 < now")
  case True
  then show ?thesis
    using stop_if_needed[OF wf, of STOP_REASON_ACCOUNT_META]
    by (auto simp: watch_account_meta_def dc_frame split: if_splits)
next
  case False
  let ?d = "if is_stop_make_order_as_reason STOP_REASON_ACCOUNT_META d
    then snd (resume_make_order STOP_REASON_ACCOUNT_META d) else d"
  note r = resume_if_needed[OF wf, of STOP_REASON_ACCOUNT_META]
  let ?lo = "if margin_use_ratio m > hi then hi else lo"
  have "\<exists>msgs. watch_account_meta now config m d = Inr (msgs, snd (watch_margin config ?lo hi (margin_use_ratio m) ?d))"
    using False by (auto simp: watch_account_meta_def th vec_at_def Let_def case_prod_beta)
  then show ?thesis using watch_margin_reasons[OF r(3), of config ?lo hi "margin_use_ratio m"] r False by auto
qed

lemma watch_bnb_reasons:
  assumes wf: "dc_wf d" and th: "bnb_balance_thresholds config = [lo, hi]"
  shows "\<exists>msgs d'. watch_bnb_balance now config balance d = Inr (msgs, d') \<and> dc_wf d'
    \<and> stop_open_reasons d' = stop_open_reasons d
    \<and> stop_reasons d' =
       (case balance of
          None \<Rightarrow> insert STOP_REASON_BNB (stop_reasons d)
        | Some b \<Rightarrow>
            if bi_updateTimeMillis b + 300 * 1000 < now then insert STOP_REASON_BNB (stop_reasons d)
            else if crossWalletBalance b < lo
            then insert STOP_REASON_BNB_SHORTAGE (stop_reasons d - {STOP_REASON_BNB})
            else if crossWalletBalance b < hi then stop_reasons d - {STOP_REASON_BNB}
            else if crossWalletBalance b > hi then stop_reasons d - {STOP_REASON_BNB, STOP_REASON_BNB_SHORTAGE}
            else stop_reasons d - {STOP_REASON_BNB})"
proof (cases "balance = None \<or> (\<exists>b. balance = Some b \<and> bi_updateTimeMillis b + 300 * 1000 < now)")
  case True
  then show ?thesis
    using stop_if_needed[OF wf, of STOP_REASON_BNB]
    by (auto simp: watch_bnb_balance_def dc_frame split: if_splits)
next
  case False
  then obtain b where b: "balance = Some b" and fresh: "\<not> bi_updateTimeMillis b + 300 * 1000 < now"
    by (cases balance) auto
  define d1 where "d1 = (if is_stop_make_order_as_reason STOP_REASON_BNB d
    then snd (resume_make_order STOP_REASON_BNB d) else d)"
  note r = resume_if_needed[OF wf, of STOP_REASON_BNB, folded d1_def]
  note s = stop_if_needed[OF r(3), of STOP_REASON_BNB_SHORTAGE]
  note u = resume_if_needed[OF r(3), of STOP_REASON_BNB_SHORTAGE]
  let ?d' = "if crossWalletBalance b < lo
      then (if \<not> is_stop_make_order_as_reason STOP_REASON_BNB_SHORTAGE d1
            then stop_make_order STOP_REASON_BNB_SHORTAGE d1 else d1)
      else if crossWalletBalance b < hi then d1
      else if crossWalletBalance b > hi
      then (if is_stop_make_order_as_reason STOP_REASON_BNB_SHORTAGE d1
            then snd (resume_make_order STOP_REASON_BNB_SHORTAGE d1) else d1)
      else d1"
  have "\<exists>msgs. watch_bnb_balance now config balance d = Inr (msgs, ?d')"
    using b fresh
    by (auto simp: watch_bnb_balance_def th vec_at_def Let_def case_prod_beta d1_def)
  moreover have "dc_wf ?d'" using r(3) s(2) u(3) by simp
  moreover have "stop_open_reasons ?d' = stop_open_reasons d" using r(2) u(2) by (simp add: dc_frame)
  moreover have "stop_reasons ?d' =
      (if crossWalletBalance b < lo then insert STOP_REASON_BNB_SHORTAGE (stop_reasons d - {STOP_REASON_BNB})
       else if crossWalletBalance b < hi then stop_reasons d - {STOP_REASON_BNB}
       else if crossWalletBalance b > hi then stop_reasons d - {STOP_REASON_BNB, STOP_REASON_BNB_SHORTAGE}
       else stop_reasons d - {STOP_REASON_BNB})"
    using r(1) s(1) u(1) by (auto simp: stop_reason_defs)
  ultimately show ?thesis using b fresh by auto
qed

section \<open>Properties\<close>

text \<open>C21. The account watchdog stops what it has to stop, and with hysteresis: a visit that finds the account
  data older than five minutes stops all orders. A visit that finds fresh data stops opening orders when
  the margin ratio is above the upper threshold, lifts its own stop only when the ratio is below the
  lower threshold, leaves the open switch as it is in between, and always lifts the stop for stale data.
  Other reasons are never touched, and the switches stay consistent with their reasons.\<close>

theorem account_watchdog_hysteresis:
  assumes "dc_wf d" and "margin_ratio_thresholds config = [lo, hi]"
  shows "\<exists>msgs d'. watch_account_meta now config m d = Inr (msgs, d') \<and> dc_wf d'
    \<and> (mi_updateTimeMillis m + 300 * 1000 < now \<longrightarrow> is_stop_make_order d')
    \<and> (\<not> mi_updateTimeMillis m + 300 * 1000 < now \<longrightarrow>
         (margin_use_ratio m > hi \<longrightarrow> is_stop_make_open_order d')
         \<and> (\<not> margin_use_ratio m > hi \<longrightarrow> margin_use_ratio m < lo \<longrightarrow>
              is_stop_make_open_order d' = (stop_open_reasons d - {STOP_REASON_MARGIN_LIMITED} \<noteq> {}))
         \<and> (\<not> margin_use_ratio m > hi \<longrightarrow> \<not> margin_use_ratio m < lo \<longrightarrow>
              is_stop_make_open_order d' = is_stop_make_open_order d)
         \<and> is_stop_make_order d' = (stop_reasons d - {STOP_REASON_ACCOUNT_META} \<noteq> {}))"
proof -
  obtain msgs d' where "watch_account_meta now config m d = Inr (msgs, d')" "dc_wf d'"
    "if mi_updateTimeMillis m + 300 * 1000 < now
       then stop_reasons d' = insert STOP_REASON_ACCOUNT_META (stop_reasons d)
         \<and> stop_open_reasons d' = stop_open_reasons d
       else stop_reasons d' = stop_reasons d - {STOP_REASON_ACCOUNT_META}
         \<and> stop_open_reasons d' =
             (if margin_use_ratio m > hi then insert STOP_REASON_MARGIN_LIMITED (stop_open_reasons d)
              else if margin_use_ratio m < lo then stop_open_reasons d - {STOP_REASON_MARGIN_LIMITED}
              else stop_open_reasons d)"
    using watch_account_meta_reasons[OF assms, of now m] by blast
  then show ?thesis
    using assms(1) by (auto simp: is_stop_make_order_def is_stop_make_open_order_def dc_wf_def split: if_splits)
qed

definition sample_risk_config :: RiskConfig where
  "sample_risk_config = \<lparr>margin_ratio_thresholds = [Fin 1, Fin 2], bnb_balance_thresholds = [Fin 1, Fin 2],
     tg_send_message = True, dt_group_main_node = True, account_flag = ''a''\<rparr>"

definition sample_meta :: "u64 \<Rightarrow> double \<Rightarrow> double \<Rightarrow> AccountMetaInfo" where
  "sample_meta t im cw = \<lparr>multiAssetsMargin = False, totalInitialMargin = im, totalMaintMargin = Fin 0,
     totalWalletBalance = Fin 0, totalUnrealizedProfit = Fin 0, totalCrossWalletBalance = cw,
     totalCrossUnPnl = Fin 0, mi_updateTimeMillis = t\<rparr>"

theorem account_watchdog_hysteresis_witness:
  "\<exists>msgs d'. watch_account_meta 1000 sample_risk_config (sample_meta 900 (Fin 3) (Fin 1)) (new_DynamicConfig False False)
     = Inr (msgs, d') \<and> is_stop_make_open_order d'"
proof -
  have r: "margin_use_ratio (sample_meta 900 (Fin 3) (Fin 1)) > Fin 2"
    by (simp add: margin_use_ratio_def sample_meta_def signed_round_def)
  have "margin_ratio_thresholds sample_risk_config = [Fin 1, Fin 2]" by (simp add: sample_risk_config_def)
  from account_watchdog_hysteresis[OF dc_new_wf this, of 1000 "sample_meta 900 (Fin 3) (Fin 1)" False False] r
  show ?thesis by (auto simp: sample_meta_def)
qed

text \<open>The BNB watchdog never lets trading go on without fees: after a visit, orders are stopped whenever the BNB
  balance is unknown, older than five minutes or below the lower threshold; a shortage stop is lifted
  only by a balance above the upper threshold, and no other reason is lifted.\<close>

theorem bnb_watchdog_stops:
  assumes "dc_wf d" and "bnb_balance_thresholds config = [lo, hi]"
  shows "\<exists>msgs d'. watch_bnb_balance now config balance d = Inr (msgs, d') \<and> dc_wf d'
    \<and> ((case balance of None \<Rightarrow> True
         | Some b \<Rightarrow> bi_updateTimeMillis b + 300 * 1000 < now \<or> crossWalletBalance b < lo) \<longrightarrow> is_stop_make_order d')
    \<and> (STOP_REASON_BNB_SHORTAGE \<in> stop_reasons d \<longrightarrow> STOP_REASON_BNB_SHORTAGE \<notin> stop_reasons d' \<longrightarrow>
         (\<exists>b. balance = Some b \<and> crossWalletBalance b > hi))
    \<and> stop_reasons d - {STOP_REASON_BNB, STOP_REASON_BNB_SHORTAGE} \<subseteq> stop_reasons d'
    \<and> stop_open_reasons d' = stop_open_reasons d"
proof -
  obtain msgs d' where d': "watch_bnb_balance now config balance d = Inr (msgs, d')" "dc_wf d'"
    "stop_open_reasons d' = stop_open_reasons d"
    "stop_reasons d' =
       (case balance of
          None \<Rightarrow> insert STOP_REASON_BNB (stop_reasons d)
        | Some b \<Rightarrow>
            if bi_updateTimeMillis b + 300 * 1000 < now then insert STOP_REASON_BNB (stop_reasons d)
            else if crossWalletBalance b < lo
            then insert STOP_REASON_BNB_SHORTAGE (stop_reasons d - {STOP_REASON_BNB})
            else if crossWalletBalance b < hi then stop_reasons d - {STOP_REASON_BNB}
            else if crossWalletBalance b > hi then stop_reasons d - {STOP_REASON_BNB, STOP_REASON_BNB_SHORTAGE}
            else stop_reasons d - {STOP_REASON_BNB})"
    using watch_bnb_reasons[OF assms, of now balance] by blast
  have ne: "STOP_REASON_BNB \<noteq> STOP_REASON_BNB_SHORTAGE" by (simp add: stop_reason_defs)
  show ?thesis
  proof (intro exI[of _ msgs] exI[of _ d'] conjI)
    show "(case balance of None \<Rightarrow> True
         | Some b \<Rightarrow> bi_updateTimeMillis b + 300 * 1000 < now \<or> crossWalletBalance b < lo) \<longrightarrow> is_stop_make_order d'"
      using d'(2,4) by (auto simp: is_stop_make_order_def dc_wf_def split: option.splits if_splits)
    show "STOP_REASON_BNB_SHORTAGE \<in> stop_reasons d \<longrightarrow> STOP_REASON_BNB_SHORTAGE \<notin> stop_reasons d' \<longrightarrow>
         (\<exists>b. balance = Some b \<and> crossWalletBalance b > hi)"
      using d'(4) ne by (auto split: option.splits if_splits)
    show "stop_reasons d - {STOP_REASON_BNB, STOP_REASON_BNB_SHORTAGE} \<subseteq> stop_reasons d'"
      using d'(4) by (auto split: option.splits if_splits)
  qed (use d' in auto)
qed

theorem bnb_watchdog_stops_witness:
  "\<exists>msgs d'. watch_bnb_balance 1000 sample_risk_config None (new_DynamicConfig False False) = Inr (msgs, d')
     \<and> is_stop_make_order d'"
proof -
  have "bnb_balance_thresholds sample_risk_config = [Fin 1, Fin 2]" by (simp add: sample_risk_config_def)
  from bnb_watchdog_stops[OF dc_new_wf this, of 1000 None False False] show ?thesis by auto
qed

end
