(* ===== verification/TickerContainer.thy ===== *)
theory TickerContainer
  imports Thresholds
begin

text \<open>
  \<open>src/src/receiver/ticker_container.{h,cpp}\<close> and \<open>basic_container.{h,cpp}\<close>: per instrument, the window of
  recent tickers with the minimum and maximum of its prices. A new ticker widens the extremes; a
  ticker that leaves the window and touches an extreme invalidates them, and the calculator then
  computes them afresh. The clock is an argument.
\<close>

section \<open>Tickers and windows\<close>

record UmTickerInfo =
  inst_id :: string
  bid_price :: double
  bid_volume :: double
  ask_price :: double
  ask_volume :: double
  avg_price :: double
  update_time_millis :: u64
  is_from_trade :: bool

definition copy_self :: "UmTickerInfo \<Rightarrow> UmTickerInfo" where
  "copy_self t = \<lparr>inst_id = inst_id t, bid_price = bid_price t, bid_volume = bid_volume t,
     ask_price = ask_price t, ask_volume = ask_volume t, avg_price = avg_price t,
     update_time_millis = update_time_millis t, is_from_trade = is_from_trade t\<rparr>"

text \<open>\<open>numeric_limits<double>::max()\<close>, and \<open>min()\<close>, the smallest positive normal number.\<close>

definition dbl_max :: double where
  "dbl_max = Fin ((2 ^ 53 - 1) * 2 ^ 971)"

definition dbl_min :: double where
  "dbl_min = Fin (1 / 2 ^ 1022)"

record TickerMinMaxResult =
  r_min_bid_price :: double
  r_max_bid_price :: double
  r_min_ask_price :: double
  r_max_ask_price :: double
  r_min_avg_price :: double
  r_max_avg_price :: double
  r_ticker_length :: u64
  r_validity_min_max :: bool

record TickerWrapper =
  tw_ticker_list :: "UmTickerInfo list"
  tw_min_bid_price :: double
  tw_max_bid_price :: double
  tw_min_ask_price :: double
  tw_max_ask_price :: double
  tw_min_avg_price :: double
  tw_max_avg_price :: double
  tw_validity_min_max :: bool

definition tw_clear_min_max :: "TickerWrapper \<Rightarrow> TickerWrapper" where
  "tw_clear_min_max w = w\<lparr>tw_min_bid_price := dbl_max, tw_max_bid_price := dbl_min,
     tw_min_ask_price := dbl_max, tw_max_ask_price := dbl_min,
     tw_min_avg_price := dbl_max, tw_max_avg_price := dbl_min, tw_validity_min_max := False\<rparr>"

definition new_TickerWrapper :: TickerWrapper where
  "new_TickerWrapper = tw_clear_min_max
     \<lparr>tw_ticker_list = [], tw_min_bid_price = dbl_max, tw_max_bid_price = dbl_min,
      tw_min_ask_price = dbl_max, tw_max_ask_price = dbl_min,
      tw_min_avg_price = dbl_max, tw_max_avg_price = dbl_min, tw_validity_min_max = False\<rparr>"

definition tw_widen :: "UmTickerInfo \<Rightarrow> TickerWrapper \<Rightarrow> TickerWrapper" where
  "tw_widen ticker w =
     (if tw_validity_min_max w then
        let w = (if bid_price ticker > tw_max_bid_price w then w\<lparr>tw_max_bid_price := bid_price ticker\<rparr> else w);
            w = (if bid_price ticker < tw_min_bid_price w then w\<lparr>tw_min_bid_price := bid_price ticker\<rparr> else w);
            w = (if ask_price ticker > tw_max_ask_price w then w\<lparr>tw_max_ask_price := ask_price ticker\<rparr> else w);
            w = (if ask_price ticker < tw_min_ask_price w then w\<lparr>tw_min_ask_price := ask_price ticker\<rparr> else w);
            w = (if avg_price ticker > tw_max_avg_price w then w\<lparr>tw_max_avg_price := avg_price ticker\<rparr> else w);
            w = (if avg_price ticker < tw_min_avg_price w then w\<lparr>tw_min_avg_price := avg_price ticker\<rparr> else w)
        in w
      else w)"

definition tw_expired :: "u64 \<Rightarrow> u64 \<Rightarrow> UmTickerInfo \<Rightarrow> bool" where
  "tw_expired now remain_senconds t \<longleftrightarrow> now > update_time_millis t + remain_senconds * 1000"

definition tw_touches_extreme :: "UmTickerInfo \<Rightarrow> TickerWrapper \<Rightarrow> bool" where
  "tw_touches_extreme t w \<longleftrightarrow>
     bid_price t \<ge> tw_max_bid_price w \<or> bid_price t \<le> tw_min_bid_price w
     \<or> ask_price t \<ge> tw_max_ask_price w \<or> ask_price t \<le> tw_min_ask_price w
     \<or> avg_price t \<ge> tw_max_avg_price w \<or> avg_price t \<le> tw_min_avg_price w"

text \<open>The eviction loop, on the remaining list.\<close>

fun tw_evict :: "u64 \<Rightarrow> u64 \<Rightarrow> UmTickerInfo list \<Rightarrow> TickerWrapper \<Rightarrow> TickerWrapper" where
  "tw_evict now remain_senconds [] w = w\<lparr>tw_ticker_list := []\<rparr>"
| "tw_evict now remain_senconds (front # rest) w =
     (if tw_expired now remain_senconds front
      then tw_evict now remain_senconds rest (if tw_touches_extreme front w then tw_clear_min_max w else w)
      else w\<lparr>tw_ticker_list := front # rest\<rparr>)"

definition tw_update_ticker :: "u64 \<Rightarrow> UmTickerInfo \<Rightarrow> u64 \<Rightarrow> TickerWrapper \<Rightarrow> TickerWrapper" where
  "tw_update_ticker now ticker remain_senconds w =
     (let w = w\<lparr>tw_ticker_list := tw_ticker_list w @ [ticker]\<rparr>;
          w = tw_widen ticker w
      in tw_evict now remain_senconds (tw_ticker_list w) w)"

definition tw_get_lastest_ticker :: "TickerWrapper \<Rightarrow> UmTickerInfo option" where
  "tw_get_lastest_ticker w =
     (if tw_ticker_list w \<noteq> [] then Some (last (tw_ticker_list w)) else None)"

definition tw_copy_ticker_list_after :: "u64 \<Rightarrow> TickerWrapper \<Rightarrow> UmTickerInfo list" where
  "tw_copy_ticker_list_after remain_ts_after w =
     map copy_self (filter (\<lambda>t. update_time_millis t > remain_ts_after) (tw_ticker_list w))"

definition tw_get_min_max_result :: "TickerWrapper \<Rightarrow> TickerMinMaxResult" where
  "tw_get_min_max_result w =
     \<lparr>r_min_bid_price = tw_min_bid_price w, r_max_bid_price = tw_max_bid_price w,
      r_min_ask_price = tw_min_ask_price w, r_max_ask_price = tw_max_ask_price w,
      r_min_avg_price = tw_min_avg_price w, r_max_avg_price = tw_max_avg_price w,
      r_ticker_length = of_nat (length (tw_ticker_list w)), r_validity_min_max = tw_validity_min_max w\<rparr>"

definition tw_set_min_max_result :: "TickerMinMaxResult \<Rightarrow> TickerWrapper \<Rightarrow> TickerWrapper" where
  "tw_set_min_max_result r w =
     w\<lparr>tw_min_bid_price := r_min_bid_price r, tw_max_bid_price := r_max_bid_price r,
       tw_min_ask_price := r_min_ask_price r, tw_max_ask_price := r_max_ask_price r,
       tw_min_avg_price := r_min_avg_price r, tw_max_avg_price := r_max_avg_price r,
       tw_validity_min_max := r_validity_min_max r\<rparr>"

section \<open>The container of all instruments\<close>

record TickerComposite =
  tc_wrapper_map :: "string \<rightharpoonup> TickerWrapper"
  tc_ticker_remain_senconds :: u64

definition tc_init_wrapper :: "string \<Rightarrow> TickerComposite \<Rightarrow> TickerComposite" where
  "tc_init_wrapper inst c = c\<lparr>tc_wrapper_map := map_insert inst new_TickerWrapper (tc_wrapper_map c)\<rparr>"

definition tc_init :: "string \<Rightarrow> string list \<Rightarrow> u64 \<Rightarrow> TickerComposite \<Rightarrow> TickerComposite" where
  "tc_init quote_asset base_assets remain_seconds c =
     fold (\<lambda>base. tc_init_wrapper (base @ quote_asset)) base_assets
       (c\<lparr>tc_ticker_remain_senconds := remain_seconds\<rparr>)"

definition tc_update_ticker :: "u64 \<Rightarrow> UmTickerInfo \<Rightarrow> TickerComposite \<Rightarrow> TickerComposite" where
  "tc_update_ticker now ticker c =
     (case tc_wrapper_map c (inst_id ticker) of
        Some w \<Rightarrow> c\<lparr>tc_wrapper_map := (tc_wrapper_map c)
          (inst_id ticker \<mapsto> tw_update_ticker now ticker (tc_ticker_remain_senconds c) w)\<rparr>
      | None \<Rightarrow>
          (let w = tw_update_ticker now ticker (tc_ticker_remain_senconds c) new_TickerWrapper
           in c\<lparr>tc_wrapper_map := map_insert (inst_id ticker) w (tc_wrapper_map c)\<rparr>))"

definition tc_get_lastest_ticker :: "string \<Rightarrow> TickerComposite \<Rightarrow> UmTickerInfo option" where
  "tc_get_lastest_ticker inst c =
     (case tc_wrapper_map c inst of Some w \<Rightarrow> tw_get_lastest_ticker w | None \<Rightarrow> None)"

definition tc_copy_ticker_list_after :: "string \<Rightarrow> u64 \<Rightarrow> TickerComposite \<Rightarrow> UmTickerInfo list" where
  "tc_copy_ticker_list_after inst remain_ts_after c =
     (case tc_wrapper_map c inst of Some w \<Rightarrow> tw_copy_ticker_list_after remain_ts_after w | None \<Rightarrow> [])"

definition tc_get_min_max_result :: "string \<Rightarrow> TickerComposite \<Rightarrow> TickerMinMaxResult option" where
  "tc_get_min_max_result inst c =
     (case tc_wrapper_map c inst of Some w \<Rightarrow> Some (tw_get_min_max_result w) | None \<Rightarrow> None)"

definition tc_set_min_max_result :: "string \<Rightarrow> TickerMinMaxResult \<Rightarrow> TickerComposite \<Rightarrow> TickerComposite" where
  "tc_set_min_max_result inst r c =
     (case tc_wrapper_map c inst of
        Some w \<Rightarrow> c\<lparr>tc_wrapper_map := (tc_wrapper_map c)(inst \<mapsto> tw_set_min_max_result r w)\<rparr>
      | None \<Rightarrow> c)"

text \<open>
  The look-up key of an update is the ticker's instrument. For the contract of keyed containers an
  update is a clock value and a ticker, stored under the key's instrument id.
\<close>

interpretation tc: composite tc_wrapper_map
  "\<lambda>inst (now, t). tc_update_ticker now (t\<lparr>inst_id := inst\<rparr>)" tc_ticker_remain_senconds
  "\<lambda>rs inst (now, t). tw_update_ticker now (t\<lparr>inst_id := inst\<rparr>) rs" new_TickerWrapper
  by unfold_locales
    (auto simp: tc_update_ticker_def map_insert_apply Let_def split: option.splits)

section \<open>The extremes of a window\<close>

text \<open>
  \<open>window_extremes sel lo hi ts\<close>: \<open>lo\<close> and \<open>hi\<close> are the minimum and the maximum of the prices \<open>sel\<close> of the
  tickers \<open>ts\<close>, and both are attained.
\<close>

definition window_extremes :: "('t \<Rightarrow> double) \<Rightarrow> double \<Rightarrow> double \<Rightarrow> 't list \<Rightarrow> bool" where
  "window_extremes sel lo hi ts \<longleftrightarrow> (\<forall>t \<in> set ts. lo \<le> sel t \<and> sel t \<le> hi)
     \<and> (\<exists>t \<in> set ts. sel t = lo) \<and> (\<exists>t \<in> set ts. sel t = hi)"

lemma window_extremes_pop:
  "window_extremes sel lo hi (t # ts) \<Longrightarrow> \<not> hi \<le> sel t \<Longrightarrow> \<not> sel t \<le> lo \<Longrightarrow> window_extremes sel lo hi ts"
  unfolding window_extremes_def using d_le_refl d_le_notNaN by (metis set_ConsD list.set_intros(2))

lemma window_extremes_notNaN: "window_extremes sel lo hi ts \<Longrightarrow> lo \<noteq> NaN \<and> hi \<noteq> NaN"
  unfolding window_extremes_def using d_le_notNaN by blast

lemma window_extremes_push:
  assumes w: "window_extremes sel lo hi ts" and n: "sel t \<noteq> NaN"
  shows "window_extremes sel (if sel t < lo then sel t else lo) (if hi < sel t then sel t else hi) (ts @ [t])"
proof -
  have nn: "lo \<noteq> NaN" "hi \<noteq> NaN" using window_extremes_notNaN[OF w] by auto
  let ?lo = "if sel t < lo then sel t else lo" and ?hi = "if hi < sel t then sel t else hi"
  have lo: "?lo \<le> lo" "?lo \<le> sel t"
    using nn n d_not_less[of "sel t" lo] d_less_imp_le[of "sel t" lo] d_le_refl by auto
  have hi: "hi \<le> ?hi" "sel t \<le> ?hi"
    using nn n d_not_less[of hi "sel t"] d_less_imp_le[of hi "sel t"] d_le_refl by auto
  have "\<forall>u \<in> set (ts @ [t]). ?lo \<le> sel u \<and> sel u \<le> ?hi"
    using w lo hi d_le_trans unfolding window_extremes_def
    by (metis Un_iff empty_iff empty_set set_ConsD set_append)
  moreover have "(\<exists>u \<in> set (ts @ [t]). sel u = ?lo) \<and> (\<exists>u \<in> set (ts @ [t]). sel u = ?hi)"
    using w unfolding window_extremes_def by auto
  ultimately show ?thesis unfolding window_extremes_def by blast
qed

text \<open>The invariant of a window: valid extremes are exact for all three prices.\<close>

definition tw_inv :: "TickerWrapper \<Rightarrow> bool" where
  "tw_inv w \<longleftrightarrow> (tw_validity_min_max w \<longrightarrow>
     window_extremes bid_price (tw_min_bid_price w) (tw_max_bid_price w) (tw_ticker_list w)
     \<and> window_extremes ask_price (tw_min_ask_price w) (tw_max_ask_price w) (tw_ticker_list w)
     \<and> window_extremes avg_price (tw_min_avg_price w) (tw_max_avg_price w) (tw_ticker_list w))"

definition ticker_prices_ok :: "UmTickerInfo \<Rightarrow> bool" where
  "ticker_prices_ok t \<longleftrightarrow> bid_price t \<noteq> NaN \<and> ask_price t \<noteq> NaN \<and> avg_price t \<noteq> NaN"

lemma tw_widen_sel:
  "tw_ticker_list (tw_widen t w) = tw_ticker_list w"
  "tw_validity_min_max (tw_widen t w) = tw_validity_min_max w"
  "tw_validity_min_max w \<Longrightarrow> tw_widen t w = w\<lparr>
     tw_max_bid_price := (if tw_max_bid_price w < bid_price t then bid_price t else tw_max_bid_price w),
     tw_min_bid_price := (if bid_price t < tw_min_bid_price w then bid_price t else tw_min_bid_price w),
     tw_max_ask_price := (if tw_max_ask_price w < ask_price t then ask_price t else tw_max_ask_price w),
     tw_min_ask_price := (if ask_price t < tw_min_ask_price w then ask_price t else tw_min_ask_price w),
     tw_max_avg_price := (if tw_max_avg_price w < avg_price t then avg_price t else tw_max_avg_price w),
     tw_min_avg_price := (if avg_price t < tw_min_avg_price w then avg_price t else tw_min_avg_price w)\<rparr>"
  by (simp_all add: tw_widen_def Let_def)

lemma tw_widen_inv:
  assumes "tw_inv w" and "ticker_prices_ok t"
  shows "tw_inv (tw_widen t (w\<lparr>tw_ticker_list := tw_ticker_list w @ [t]\<rparr>))"
proof (cases "tw_validity_min_max w")
  case True
  then have "window_extremes bid_price (tw_min_bid_price w) (tw_max_bid_price w) (tw_ticker_list w)"
    "window_extremes ask_price (tw_min_ask_price w) (tw_max_ask_price w) (tw_ticker_list w)"
    "window_extremes avg_price (tw_min_avg_price w) (tw_max_avg_price w) (tw_ticker_list w)"
    using assms(1) by (simp_all add: tw_inv_def)
  note push = this[THEN window_extremes_push, of t]
  show ?thesis
    using assms(2) push True
    by (simp add: tw_inv_def ticker_prices_ok_def tw_widen_sel(3) split del: if_split cong: if_cong)
qed (simp add: tw_inv_def tw_widen_sel)

lemma tw_list_frame:
  "tw_touches_extreme t (w\<lparr>tw_ticker_list := xs\<rparr>) = tw_touches_extreme t w"
  "tw_clear_min_max (w\<lparr>tw_ticker_list := xs\<rparr>) = (tw_clear_min_max w)\<lparr>tw_ticker_list := xs\<rparr>"
  by (simp_all add: tw_touches_extreme_def tw_clear_min_max_def)

lemma tw_evict_list_irrelevant: "tw_evict now rs ts (w\<lparr>tw_ticker_list := xs\<rparr>) = tw_evict now rs ts w"
  by (induction ts arbitrary: w) (simp_all add: tw_list_frame)

lemma tw_evict_inv:
  "tw_ticker_list w = ts \<Longrightarrow> tw_inv w \<Longrightarrow> tw_inv (tw_evict now rs ts w)"
proof (induction ts arbitrary: w)
  case (Cons t ts)
  show ?case
  proof (cases "tw_expired now rs t")
    case True
    let ?w = "if tw_touches_extreme t w then tw_clear_min_max w else w"
    have "tw_inv (?w\<lparr>tw_ticker_list := ts\<rparr>)"
      using Cons.prems window_extremes_pop[of bid_price _ _ t ts] window_extremes_pop[of ask_price _ _ t ts]
        window_extremes_pop[of avg_price _ _ t ts]
      by (auto simp: tw_inv_def tw_clear_min_max_def tw_touches_extreme_def)
    moreover have "tw_evict now rs ts ?w = tw_evict now rs ts (?w\<lparr>tw_ticker_list := ts\<rparr>)"
      by (rule tw_evict_list_irrelevant [symmetric])
    ultimately show ?thesis using True Cons.IH by simp
  next
    case False
    then show ?thesis using Cons.prems by (simp add: tw_inv_def)
  qed
qed (simp add: tw_inv_def)

lemma tw_update_inv:
  assumes "tw_inv w" and "ticker_prices_ok t"
  shows "tw_inv (tw_update_ticker now t rs w)"
  using tw_evict_inv[OF refl tw_widen_inv[OF assms], of now rs]
  by (simp add: tw_update_ticker_def Let_def)

lemma tw_evict_list: "tw_ticker_list (tw_evict now rs ts w) = dropWhile (tw_expired now rs) ts"
  by (induction ts arbitrary: w) simp_all

lemma tw_update_list:
  "tw_ticker_list (tw_update_ticker now t rs w) = dropWhile (tw_expired now rs) (tw_ticker_list w @ [t])"
  by (simp add: tw_update_ticker_def tw_evict_list tw_widen_sel Let_def)

text \<open>
  Tickers in the order of their times, with times that do not overflow: what the window keeps is
  exactly the tickers that are not expired.
\<close>

definition in_order :: "u64 \<Rightarrow> UmTickerInfo list \<Rightarrow> bool" where
  "in_order rs ts \<longleftrightarrow> sorted_wrt (\<lambda>a b. update_time_millis a \<le> update_time_millis b) ts
     \<and> (\<forall>t \<in> set ts. unat (update_time_millis t) + unat (rs * 1000) < 2 ^ 64)"

lemma dropWhile_filter:
  "\<forall>y \<in> set (dropWhile P xs). \<not> P y \<Longrightarrow> dropWhile P xs = filter (\<lambda>x. \<not> P x) xs"
proof (induction xs)
  case (Cons x xs)
  show ?case
  proof (cases "P x")
    case True
    then have "dropWhile P (x # xs) = dropWhile P xs" "filter (\<lambda>x. \<not> P x) (x # xs) = filter (\<lambda>x. \<not> P x) xs"
      by simp_all
    then show ?thesis using Cons.IH Cons.prems by metis
  next
    case False
    then have eq: "dropWhile P (x # xs) = x # xs" by simp
    have "\<forall>y \<in> set (x # xs). \<not> P y" using Cons.prems unfolding eq .
    then have "filter (\<lambda>x. \<not> P x) (x # xs) = x # xs" by (intro filter_True)
    then show ?thesis unfolding eq by (rule sym)
  qed
qed (simp only: dropWhile.simps filter.simps)

lemma no_overflow_le:
  assumes "a \<le> b" and "unat b + unat d < 2 ^ 64"
  shows "a + d \<le> b + (d :: u64)"
proof -
  have ab: "unat a \<le> unat b" using assms(1) by (simp only: word_le_nat_alt)
  then have "unat a + unat d < 2 ^ 64" using assms(2) by linarith
  then have "unat (a + d) = unat a + unat d" "unat (b + d) = unat b + unat d"
    using assms(2) unat_add_lem[of a d] unat_add_lem[of b d] by simp_all
  then show ?thesis using ab by (simp only: word_le_nat_alt)
qed

lemma window_filter:
  assumes "in_order rs ts"
  shows "dropWhile (tw_expired now rs) ts = filter (\<lambda>t. \<not> tw_expired now rs t) ts"
proof -
  let ?R = "\<lambda>a b. update_time_millis a + rs * 1000 \<le> update_time_millis b + rs * 1000"
  have srt: "sorted_wrt (\<lambda>a b. update_time_millis a \<le> update_time_millis b) ts"
    and ov: "\<forall>t \<in> set ts. unat (update_time_millis t) + unat (rs * 1000) < 2 ^ 64"
    using assms by (simp_all add: in_order_def)
  have "sorted_wrt ?R ts"
    by (rule sorted_wrt_mono_rel [OF _ srt]) (rule no_overflow_le, assumption, use ov in blast)
  then have "\<forall>y \<in> set (dropWhile (tw_expired now rs) ts). \<not> tw_expired now rs y"
    by (rule sorted_dropWhile) (unfold tw_expired_def, erule le_less_trans)
  then show ?thesis by (rule dropWhile_filter)
qed

section \<open>Properties\<close>


definition sample_um_ticker :: "rat \<Rightarrow> u64 \<Rightarrow> UmTickerInfo" where
  "sample_um_ticker p t = \<lparr>inst_id = ''BTCUSDT'', bid_price = Fin p, bid_volume = Fin 1, ask_price = Fin (p + 1),
     ask_volume = Fin 1, avg_price = Fin p, update_time_millis = t, is_from_trade = False\<rparr>"


text \<open>The ticker container is a family of independent windows: after any sequence of tickers of any
  instruments, the window of an instrument is the one that the updates of that instrument alone give,
  starting from its window before, or from an empty one if it had none.\<close>

theorem ticker_windows_independent:
  "tc_wrapper_map (run_puts (\<lambda>inst (now, t). tc_update_ticker now (t\<lparr>inst_id := inst\<rparr>)) ops c) k =
     (if ops_of k ops = [] then tc_wrapper_map c k
      else Some (fold (\<lambda>(now, t). tw_update_ticker now (t\<lparr>inst_id := k\<rparr>) (tc_ticker_remain_senconds c)) (ops_of k ops)
        (case tc_wrapper_map c k of Some w \<Rightarrow> w | None \<Rightarrow> new_TickerWrapper)))"
  using tc.look_run_other[of k ops c] tc.look_run[of c k] tc.look_run_fresh[of c k ops]
  by (cases "tc_wrapper_map c k") auto

end
