(* ===== verification/OffsetContainer.thy ===== *)
theory OffsetContainer
  imports TickerContainer
begin

text \<open>
  \<open>src/src/receiver/offset_container.{h,cpp}\<close>: per asset, the window of price differences between the
  benchmark and the follower exchange, with running sums that are added to on arrival and subtracted
  from on expiry. The expiry test subtracts time stamps as unsigned numbers.
\<close>

record PriceOffset =
  avg_price_diff :: double
  bid_ask_price_diff :: double
  ask_bid_price_diff :: double
  po_update_time_millis :: u64

record PriceOffsetAvgResult =
  ar_price_offset_length :: u64
  ar_sum_avg_price_diff :: double
  ar_sum_bid_ask_price_diff :: double
  ar_sum_ask_bid_price_diff :: double
  ar_avg_avg_price_diff :: double
  ar_avg_bid_ask_price_diff :: double
  ar_avg_ask_bid_price_diff :: double

record PriceOffsetWrapper =
  offset_list :: "PriceOffset list"
  sum_avg_price_diff :: double
  sum_bid_ask_price_diff :: double
  sum_ask_bid_price_diff :: double

definition po_is_expired :: "u64 \<Rightarrow> u64 \<Rightarrow> PriceOffset \<Rightarrow> bool" where
  "po_is_expired now seconds p \<longleftrightarrow> now - po_update_time_millis p > seconds * 1000"

definition po_copy_self :: "PriceOffset \<Rightarrow> PriceOffset" where
  "po_copy_self p = \<lparr>avg_price_diff = avg_price_diff p, bid_ask_price_diff = bid_ask_price_diff p,
     ask_bid_price_diff = ask_bid_price_diff p, po_update_time_millis = po_update_time_millis p\<rparr>"

definition new_PriceOffsetWrapper :: PriceOffsetWrapper where
  "new_PriceOffsetWrapper = \<lparr>offset_list = [], sum_avg_price_diff = Fin 0,
     sum_bid_ask_price_diff = Fin 0, sum_ask_bid_price_diff = Fin 0\<rparr>"

definition price_offset_of :: "u64 \<Rightarrow> UmTickerInfo \<Rightarrow> UmTickerInfo \<Rightarrow> PriceOffset" where
  "price_offset_of now benchmark_tick follower_tick =
     \<lparr>avg_price_diff = (avg_price benchmark_tick - avg_price follower_tick) / Fin 2,
      bid_ask_price_diff = bid_price benchmark_tick - ask_price follower_tick,
      ask_bid_price_diff = ask_price benchmark_tick - bid_price follower_tick,
      po_update_time_millis = now\<rparr>"

definition pw_push :: "PriceOffset \<Rightarrow> PriceOffsetWrapper \<Rightarrow> PriceOffsetWrapper" where
  "pw_push p w = w\<lparr>offset_list := offset_list w @ [p],
     sum_avg_price_diff := sum_avg_price_diff w + avg_price_diff p,
     sum_bid_ask_price_diff := sum_bid_ask_price_diff w + bid_ask_price_diff p,
     sum_ask_bid_price_diff := sum_ask_bid_price_diff w + ask_bid_price_diff p\<rparr>"

fun pw_evict :: "u64 \<Rightarrow> u64 \<Rightarrow> PriceOffset list \<Rightarrow> PriceOffsetWrapper \<Rightarrow> PriceOffsetWrapper" where
  "pw_evict now remain_senconds [] w = w\<lparr>offset_list := []\<rparr>"
| "pw_evict now remain_senconds (front # rest) w =
     (if now - po_update_time_millis front > remain_senconds * 1000
      then pw_evict now remain_senconds rest
        (w\<lparr>sum_avg_price_diff := sum_avg_price_diff w - avg_price_diff front,
           sum_bid_ask_price_diff := sum_bid_ask_price_diff w - bid_ask_price_diff front,
           sum_ask_bid_price_diff := sum_ask_bid_price_diff w - ask_bid_price_diff front\<rparr>)
      else w\<lparr>offset_list := front # rest\<rparr>)"

definition pw_update_price_offset ::
  "u64 \<Rightarrow> UmTickerInfo \<Rightarrow> UmTickerInfo \<Rightarrow> u64 \<Rightarrow> PriceOffsetWrapper \<Rightarrow> PriceOffsetWrapper" where
  "pw_update_price_offset now benchmark_tick follower_tick remain_senconds w =
     (let w = pw_push (price_offset_of now benchmark_tick follower_tick) w
      in pw_evict now remain_senconds (offset_list w) w)"

definition pw_get_latest_price_offset :: "PriceOffsetWrapper \<Rightarrow> PriceOffset option" where
  "pw_get_latest_price_offset w = (if offset_list w \<noteq> [] then Some (last (offset_list w)) else None)"

definition pw_copy_price_offset_list :: "PriceOffsetWrapper \<Rightarrow> PriceOffset list" where
  "pw_copy_price_offset_list w = map po_copy_self (offset_list w)"

definition pw_calculate_avg_result :: "PriceOffsetWrapper \<Rightarrow> PriceOffsetAvgResult" where
  "pw_calculate_avg_result w =
     (if length (offset_list w) = 0
      then \<lparr>ar_price_offset_length = 0, ar_sum_avg_price_diff = Fin 0, ar_sum_bid_ask_price_diff = Fin 0,
            ar_sum_ask_bid_price_diff = Fin 0, ar_avg_avg_price_diff = Fin 0,
            ar_avg_bid_ask_price_diff = Fin 0, ar_avg_ask_bid_price_diff = Fin 0\<rparr>
      else let n = (of_nat (length (offset_list w)) :: u64); d = to_double (uint n)
           in \<lparr>ar_price_offset_length = n,
               ar_sum_avg_price_diff = sum_avg_price_diff w,
               ar_sum_bid_ask_price_diff = sum_bid_ask_price_diff w,
               ar_sum_ask_bid_price_diff = sum_ask_bid_price_diff w,
               ar_avg_avg_price_diff = sum_avg_price_diff w / d,
               ar_avg_bid_ask_price_diff = sum_bid_ask_price_diff w / d,
               ar_avg_ask_bid_price_diff = sum_ask_bid_price_diff w / d\<rparr>)"

section \<open>The container of all assets\<close>

record PriceOffsetComposite =
  pc_wrapper_map :: "string \<rightharpoonup> PriceOffsetWrapper"
  pc_offset_remain_senconds :: u64

definition pc_init_wrapper :: "string \<Rightarrow> PriceOffsetComposite \<Rightarrow> PriceOffsetComposite" where
  "pc_init_wrapper base_asset c =
     c\<lparr>pc_wrapper_map := map_insert base_asset new_PriceOffsetWrapper (pc_wrapper_map c)\<rparr>"

definition pc_init :: "string list \<Rightarrow> u64 \<Rightarrow> PriceOffsetComposite \<Rightarrow> PriceOffsetComposite" where
  "pc_init base_assets remain_senconds c =
     fold pc_init_wrapper base_assets (c\<lparr>pc_offset_remain_senconds := remain_senconds\<rparr>)"

definition pc_update_price_offset ::
  "u64 \<Rightarrow> string \<Rightarrow> UmTickerInfo \<Rightarrow> UmTickerInfo \<Rightarrow> PriceOffsetComposite \<Rightarrow> PriceOffsetComposite" where
  "pc_update_price_offset now base_asset benchmark_tick follower_tick c =
     (case pc_wrapper_map c base_asset of
        Some w \<Rightarrow> c\<lparr>pc_wrapper_map := (pc_wrapper_map c)(base_asset \<mapsto>
          pw_update_price_offset now benchmark_tick follower_tick (pc_offset_remain_senconds c) w)\<rparr>
      | None \<Rightarrow>
          (let w = pw_update_price_offset now benchmark_tick follower_tick
                 (pc_offset_remain_senconds c) new_PriceOffsetWrapper
           in c\<lparr>pc_wrapper_map := map_insert base_asset w (pc_wrapper_map c)\<rparr>))"

definition pc_get_latest_price_offset :: "string \<Rightarrow> PriceOffsetComposite \<Rightarrow> PriceOffset option" where
  "pc_get_latest_price_offset base_asset c =
     (case pc_wrapper_map c base_asset of Some w \<Rightarrow> pw_get_latest_price_offset w | None \<Rightarrow> None)"

definition pc_get_price_offset_list :: "string \<Rightarrow> PriceOffsetComposite \<Rightarrow> PriceOffset list" where
  "pc_get_price_offset_list base_asset c =
     (case pc_wrapper_map c base_asset of Some w \<Rightarrow> pw_copy_price_offset_list w | None \<Rightarrow> [])"

definition pc_get_price_avg_result :: "string \<Rightarrow> PriceOffsetComposite \<Rightarrow> PriceOffsetAvgResult option" where
  "pc_get_price_avg_result base_asset c =
     (case pc_wrapper_map c base_asset of Some w \<Rightarrow> Some (pw_calculate_avg_result w) | None \<Rightarrow> None)"

interpretation pc: composite pc_wrapper_map
  "\<lambda>asset (now, b, f). pc_update_price_offset now asset b f" pc_offset_remain_senconds
  "\<lambda>rs _ (now, b, f). pw_update_price_offset now b f rs" new_PriceOffsetWrapper
  by unfold_locales
    (auto simp: pc_update_price_offset_def map_insert_apply Let_def split: option.splits)

section \<open>The window and its sums\<close>

lemma pw_evict_list:
  "offset_list (pw_evict now rs ps w) = dropWhile (po_is_expired now rs) ps"
  by (induction ps arbitrary: w) (simp_all add: po_is_expired_def)

lemma pw_update_list:
  "offset_list (pw_update_price_offset now b f rs w) =
     dropWhile (po_is_expired now rs) (offset_list w @ [price_offset_of now b f])"
  by (simp add: pw_update_price_offset_def pw_evict_list pw_push_def Let_def)

text \<open>
  A double is \<open>on_grid e m x\<close> when it is the multiple \<open>m\<close> of \<open>2 powi e\<close>. Additions and subtractions of
  numbers on one grid are exact as long as the multiples stay below \<open>2 ^ 53\<close>.
\<close>

definition on_grid :: "int \<Rightarrow> int \<Rightarrow> double \<Rightarrow> bool" where
  "on_grid e m x \<longleftrightarrow> finite_d x \<and> fval x = of_int m * 2 powi e"

lemma plus_finite:
  "finite_d x \<Longrightarrow> finite_d y \<Longrightarrow> x + y =
     signed_round (if fval x + fval y = 0 then neg_sign x \<and> neg_sign y else fval x + fval y < 0) (fval x + fval y)"
  by (cases x; cases y) (simp_all add: Let_def)

lemma uminus_finite: "finite_d x \<Longrightarrow> finite_d (- x) \<and> fval (- x) = - fval x"
  by (cases x) auto

lemma on_grid_plus:
  assumes "on_grid e m x" and "on_grid e n y" and "\<bar>m + n\<bar> < 2 ^ 53" and "- 1074 \<le> e" and "e \<le> 900"
  shows "on_grid e (m + n) (x + y)"
proof -
  let ?q = "of_int (m + n) * 2 powi e :: rat"
  have sum: "fval x + fval y = ?q" using assms(1,2) by (simp add: on_grid_def algebra_simps)
  have q: "rquant ?q = ?q" by (rule rquant_grid[OF refl assms(4,3)])
  have "\<bar>?q\<bar> = of_int \<bar>m + n\<bar> * 2 powi e" by (simp add: abs_mult)
  also have "\<dots> < 2 powi 53 * 2 powi e"
  proof (rule mult_strict_right_mono)
    have "of_int \<bar>m + n\<bar> < (of_int (2 ^ 53) :: rat)" using assms(3) by (simp only: of_int_less_iff)
    then show "of_int \<bar>m + n\<bar> < (2 powi 53 :: rat)" by simp
  qed simp
  also have "\<dots> \<le> 2 powi 1024"
    using assms(5) by (simp add: powi2_add [symmetric] del: power_int_numeral)
  finally have "\<bar>rquant ?q\<bar> < 2 ^ 1024" unfolding q by simp
  note fin = fval_signed_round[OF this]
  have "finite_d x" "finite_d y" using assms(1,2) by (simp_all add: on_grid_def)
  then obtain t where "x + y = signed_round t ?q" using plus_finite[of x y] sum by metis
  then show ?thesis using fin[of t] q by (simp only: on_grid_def)
qed

lemma on_grid_minus:
  assumes "on_grid e m x" and "on_grid e n y" and "\<bar>m - n\<bar> < 2 ^ 53" and "- 1074 \<le> e" and "e \<le> 900"
  shows "on_grid e (m - n) (x - y)"
proof -
  have "on_grid e (- n) (- y)" using assms(2) uminus_finite[of y] by (simp add: on_grid_def)
  then show ?thesis using on_grid_plus[OF assms(1), of "- n" "- y"] assms(3-5) by (simp add: minus_double_def)
qed

definition grid_mult :: "int \<Rightarrow> double \<Rightarrow> int" where
  "grid_mult e x = \<lfloor>fval x / 2 powi e\<rfloor>"

definition sum_exact :: "int \<Rightarrow> ('p \<Rightarrow> double) \<Rightarrow> double \<Rightarrow> 'p list \<Rightarrow> bool" where
  "sum_exact e sel tot ps \<longleftrightarrow> (\<forall>p \<in> set ps. on_grid e (grid_mult e (sel p)) (sel p))
     \<and> (\<Sum>p\<leftarrow>ps. \<bar>grid_mult e (sel p)\<bar>) < 2 ^ 53
     \<and> on_grid e (\<Sum>p\<leftarrow>ps. grid_mult e (sel p)) tot"

lemma abs_sum_list_le: "\<bar>\<Sum>p\<leftarrow>ps. f p\<bar> \<le> (\<Sum>p\<leftarrow>ps. \<bar>f p :: int\<bar>)"
  by (induction ps) auto

lemma sum_exact_push:
  assumes "sum_exact e sel tot ps" and "on_grid e (grid_mult e (sel p)) (sel p)"
    and "(\<Sum>q\<leftarrow>ps @ [p]. \<bar>grid_mult e (sel q)\<bar>) < 2 ^ 53" and "- 1074 \<le> e" and "e \<le> 900"
  shows "sum_exact e sel (tot + sel p) (ps @ [p])"
proof -
  have "\<bar>(\<Sum>q\<leftarrow>ps. grid_mult e (sel q)) + grid_mult e (sel p)\<bar> < 2 ^ 53"
    using abs_sum_list_le[of "\<lambda>q. grid_mult e (sel q)" "ps @ [p]"] assms(3) by simp
  then have "on_grid e ((\<Sum>q\<leftarrow>ps. grid_mult e (sel q)) + grid_mult e (sel p)) (tot + sel p)"
    using assms by (intro on_grid_plus) (simp_all add: sum_exact_def)
  then show ?thesis using assms by (simp add: sum_exact_def)
qed

lemma sum_exact_pop:
  assumes "sum_exact e sel tot (p # ps)" and "- 1074 \<le> e" and "e \<le> 900"
  shows "sum_exact e sel (tot - sel p) ps"
proof -
  have "\<bar>(\<Sum>q\<leftarrow>p # ps. grid_mult e (sel q)) - grid_mult e (sel p)\<bar> < 2 ^ 53"
    using abs_sum_list_le[of "\<lambda>q. grid_mult e (sel q)" ps] assms(1) by (auto simp: sum_exact_def)
  then have "on_grid e ((\<Sum>q\<leftarrow>p # ps. grid_mult e (sel q)) - grid_mult e (sel p)) (tot - sel p)"
    using assms by (intro on_grid_minus) (simp_all add: sum_exact_def)
  then show ?thesis using assms(1) by (auto simp: sum_exact_def)
qed

lemma sum_exact_value:
  assumes "sum_exact e sel tot ps"
  shows "finite_d tot \<and> fval tot = (\<Sum>p\<leftarrow>ps. fval (sel p))"
proof -
  have "(\<Sum>p\<leftarrow>ps. fval (sel p)) = (\<Sum>p\<leftarrow>ps. of_int (grid_mult e (sel p)) * 2 powi e)"
    using assms by (intro arg_cong[where f = sum_list] map_cong) (auto simp: sum_exact_def on_grid_def)
  also have "\<dots> = of_int (\<Sum>p\<leftarrow>ps. grid_mult e (sel p)) * 2 powi e"
    by (induction ps) (simp_all add: algebra_simps)
  finally show ?thesis using assms by (simp add: sum_exact_def on_grid_def)
qed

definition pw_exact :: "int \<Rightarrow> PriceOffset list \<Rightarrow> PriceOffsetWrapper \<Rightarrow> bool" where
  "pw_exact e ps w \<longleftrightarrow> sum_exact e avg_price_diff (sum_avg_price_diff w) ps
     \<and> sum_exact e bid_ask_price_diff (sum_bid_ask_price_diff w) ps
     \<and> sum_exact e ask_bid_price_diff (sum_ask_bid_price_diff w) ps"

lemma pw_evict_exact:
  assumes "- 1074 \<le> e" and "e \<le> 900" and "pw_exact e ps w"
  shows "pw_exact e (offset_list (pw_evict now rs ps w)) (pw_evict now rs ps w)"
  using assms(3)
proof (induction ps arbitrary: w)
  case (Cons p ps)
  let ?w = "w\<lparr>sum_avg_price_diff := sum_avg_price_diff w - avg_price_diff p,
           sum_bid_ask_price_diff := sum_bid_ask_price_diff w - bid_ask_price_diff p,
           sum_ask_bid_price_diff := sum_ask_bid_price_diff w - ask_bid_price_diff p\<rparr>"
  have "pw_exact e ps ?w"
    using Cons.prems by (auto simp: pw_exact_def intro!: sum_exact_pop [OF _ assms(1,2)])
  then show ?case using Cons.IH[of ?w] Cons.prems by (simp add: pw_exact_def)
qed (simp add: pw_exact_def)

text \<open>An offset fits a window on a grid when its differences are on the grid and the sums stay small.\<close>

definition offset_fits :: "int \<Rightarrow> PriceOffset list \<Rightarrow> PriceOffset \<Rightarrow> bool" where
  "offset_fits e ps p \<longleftrightarrow> (\<forall>sel \<in> {avg_price_diff, bid_ask_price_diff, ask_bid_price_diff}.
     on_grid e (grid_mult e (sel p)) (sel p) \<and> (\<Sum>q\<leftarrow>ps @ [p]. \<bar>grid_mult e (sel q)\<bar>) < 2 ^ 53)"

lemma pw_update_exact:
  assumes e: "- 1074 \<le> e" "e \<le> 900" and w: "pw_exact e (offset_list w) w"
    and p: "offset_fits e (offset_list w) (price_offset_of now b f)"
  shows "pw_exact e (offset_list (pw_update_price_offset now b f rs w)) (pw_update_price_offset now b f rs w)"
proof -
  let ?p = "price_offset_of now b f"
  have "pw_exact e (offset_list w @ [?p]) (pw_push ?p w)"
    using w p by (auto simp: pw_exact_def pw_push_def offset_fits_def intro!: sum_exact_push [OF _ _ _ e])
  then show ?thesis
    using pw_evict_exact[OF e] by (simp add: pw_update_price_offset_def pw_push_def Let_def)
qed

section \<open>Properties\<close>

text \<open>The running sums of a price-offset window equal the sums of the differences in the window, with
  no rounding error, as long as the prices are multiples of a common power of two and the sums stay
  below 2 to the 53 such units: adding a new offset and subtracting the expired ones keeps this.\<close>

theorem offset_sums_exact:
  assumes "- 1074 \<le> e" and "e \<le> 900" and "pw_exact e (offset_list w) w"
    and "offset_fits e (offset_list w) (price_offset_of now b f)"
    and w': "w' = pw_update_price_offset now b f rs w"
  shows "pw_exact e (offset_list w') w'
    \<and> fval (sum_avg_price_diff w') = (\<Sum>p\<leftarrow>offset_list w'. fval (avg_price_diff p))
    \<and> fval (sum_bid_ask_price_diff w') = (\<Sum>p\<leftarrow>offset_list w'. fval (bid_ask_price_diff p))
    \<and> fval (sum_ask_bid_price_diff w') = (\<Sum>p\<leftarrow>offset_list w'. fval (ask_bid_price_diff p))"
  using pw_update_exact[OF assms(1-4), of rs] sum_exact_value unfolding w' pw_exact_def by blast

lemma sample_offset:
  "price_offset_of now (sample_um_ticker 8 1) (sample_um_ticker 4 1) =
     \<lparr>avg_price_diff = Fin 2, bid_ask_price_diff = Fin 3, ask_bid_price_diff = Fin 5, po_update_time_millis = now\<rparr>"
  by (simp add: price_offset_of_def sample_um_ticker_def minus_double_def signed_round_def)

theorem offset_sums_exact_witness:
  "fval (sum_avg_price_diff (pw_update_price_offset 7 (sample_um_ticker 8 1) (sample_um_ticker 4 1) 1 new_PriceOffsetWrapper))
     = (\<Sum>p\<leftarrow>offset_list (pw_update_price_offset 7 (sample_um_ticker 8 1) (sample_um_ticker 4 1) 1 new_PriceOffsetWrapper).
          fval (avg_price_diff p))"
proof -
  have "pw_exact 0 (offset_list new_PriceOffsetWrapper) new_PriceOffsetWrapper"
    by (simp add: pw_exact_def new_PriceOffsetWrapper_def sum_exact_def on_grid_def)
  moreover have "offset_fits 0 (offset_list new_PriceOffsetWrapper)
      (price_offset_of 7 (sample_um_ticker 8 1) (sample_um_ticker 4 1))"
    by (simp add: sample_offset offset_fits_def new_PriceOffsetWrapper_def on_grid_def grid_mult_def)
  ultimately show ?thesis
    using offset_sums_exact[OF _ _ _ _ refl, of 0 new_PriceOffsetWrapper 7 "sample_um_ticker 8 1" "sample_um_ticker 4 1" 1]
    by simp
qed

text \<open>A clock that steps back by one millisecond empties the window: the age of an offset is computed as
  an unsigned difference, so an offset with a time stamp after the current clock value counts as expired.
  Every offset stored before the step is dropped on the next update, and only the new one stays.\<close>

theorem offset_clock_step_flushes:
  assumes "\<forall>p \<in> set (offset_list w). now < po_update_time_millis p
      \<and> unat (po_update_time_millis p) - unat now < 2 ^ 63" and "unat (rs * 1000) < 2 ^ 63"
  shows "offset_list (pw_update_price_offset now b f rs w) = [price_offset_of now b f]"
proof -
  have "po_is_expired now rs p" if "p \<in> set (offset_list w)" for p
  proof -
    let ?t = "po_update_time_millis p"
    have lt: "unat now < unat ?t" and d: "unat ?t - unat now < 2 ^ 63"
      using assms(1) that by (auto simp: word_less_nat_alt)
    have t: "unat ?t < 2 ^ 64" using unsigned_less[of ?t] by simp
    have "unat (now - ?t) = 2 ^ 64 - (unat ?t - unat now)"
      using unat_sub_if_size[of now ?t] lt by (simp add: word_size)
    then have "2 ^ 63 < unat (now - ?t) + 1" using d t lt by simp
    then show ?thesis using assms(2) by (simp add: po_is_expired_def word_less_nat_alt)
  qed
  moreover have "\<not> po_is_expired now rs (price_offset_of now b f)"
    by (simp add: po_is_expired_def price_offset_of_def)
  ultimately show ?thesis by (simp add: pw_update_list dropWhile_append2)
qed

theorem offset_clock_step_flushes_witness:
  "offset_list (pw_update_price_offset 999 (sample_um_ticker 8 1) (sample_um_ticker 4 1) 60
     (new_PriceOffsetWrapper\<lparr>offset_list := [price_offset_of 1000 (sample_um_ticker 8 1) (sample_um_ticker 4 1)]\<rparr>))
   = [price_offset_of 999 (sample_um_ticker 8 1) (sample_um_ticker 4 1)]"
  by (rule offset_clock_step_flushes) (simp_all add: price_offset_of_def)

end
