(* ===== verification/ReceiverContext.thy ===== *)
theory ReceiverContext
  imports InstConfig Shm Tools OffsetContainer
begin

text \<open>
  \<open>src/src/receiver/global_context.{h,cpp}\<close>: the state of the receiver process. The members that only
  hand out references are the record's selectors. A new System V segment is zero-filled; creating and
  attaching segments is taken to succeed, and \<open>shm_store_info\<close> holds the segments themselves. The
  concurrent queues are lists, the oldest element first.
\<close>

record ReceiverConfig =
  rcfg_benchmark_quote_asset :: string
  rcfg_follower_quote_asset :: string
  rcfg_calculate_sma_interval_seconds :: u64
  rcfg_node_base_assets :: "string list"
  rcfg_all_base_assets :: "string list"
  rcfg_group_main_node :: bool
  rcfg_early_run_calculation_type :: string

record ShmStoreInfo =
  early_run_start :: "EarlyRunThresholdShm list"
  benchmark_beta_start :: "BetaThresholdShm list"
  follower_beta_start :: "BetaThresholdShm list"
  benchmark_start :: "TickerInfoShm list"
  follower_start :: "TickerInfoShm list"

record ReceiverContext =
  rx_benchmark_inst_config :: "string \<rightharpoonup> InstConfigItem"
  rx_follower_inst_config :: "string \<rightharpoonup> InstConfigItem"
  rx_benchmark_inst_ids :: "string list"
  rx_follower_inst_ids :: "string list"
  rx_all_benchmark_inst_ids :: "string list"
  rx_all_follower_inst_ids :: "string list"
  rx_inst_ids_set :: "string set"
  rx_shm_threshold_mapping :: "(string \<times> int) list"
  rx_shm_benchmark_ticker_mapping :: "(string \<times> int) list"
  rx_shm_follower_ticker_mapping :: "(string \<times> int) list"
  rx_benchmark_ticker_composite :: TickerComposite
  rx_follower_ticker_composite :: TickerComposite
  rx_ticker_info_channel :: "UmTickerInfo list"
  rx_early_run_calculation_channel :: "string list"
  rx_beta_calculation_channel :: "string list"
  rx_price_offset_composite :: PriceOffsetComposite
  rx_early_run_threshold_composite :: EarlyRunThresholdComposite
  rx_benchmark_beta_threshold_composite :: BetaThresholdComposite
  rx_follower_beta_threshold_composite :: BetaThresholdComposite
  rx_shm_store_info :: ShmStoreInfo

definition zero_early_run :: EarlyRunThresholdShm where
  "zero_early_run = \<lparr>er_asset = [], er_avg_median = Fin 0, er_bid_ask_median = Fin 0,
     er_ask_bid_median = Fin 0, er_time_mills = 0, er_version_number = 0\<rparr>"

definition zero_beta :: BetaThresholdShm where
  "zero_beta = \<lparr>bt_asset = [], bt_sma = Fin 0, bt_volatility = Fin 0, bt_volatility_multiplier = Fin 0,
     bt_beta_threshold = Fin 0, bt_bid_sma = Fin 0, bt_bid_volatility = Fin 0,
     bt_bid_volatility_multiplier = Fin 0, bt_bid_beta_threshold = Fin 0, bt_ask_sma = Fin 0,
     bt_ask_volatility = Fin 0, bt_ask_volatility_multiplier = Fin 0, bt_ask_beta_threshold = Fin 0,
     bt_version_number = 0, bt_time_mills = 0\<rparr>"

definition zero_ticker :: TickerInfoShm where
  "zero_ticker = \<lparr>tk_inst_id = [], tk_bid_price = Fin 0, tk_bid_size = Fin 0, tk_ask_price = Fin 0,
     tk_ask_size = Fin 0, tk_update_id = 0, tk_update_time = 0, tk_version_number = 0\<rparr>"

text \<open>A loop over the entries of a mapping that initialises one slot per entry.\<close>

fun init_slots :: "('s list \<Rightarrow> int \<Rightarrow> string \<Rightarrow> 's list result) \<Rightarrow> (string \<times> int) list \<Rightarrow> 's list \<Rightarrow> 's list result" where
  "init_slots f [] seg = Inr seg"
| "init_slots f ((key, value) # m) seg = bind_result (f seg value key) (init_slots f m)"

fun init_threshold_slots :: "(string \<times> int) list
    \<Rightarrow> EarlyRunThresholdShm list \<times> BetaThresholdShm list \<times> BetaThresholdShm list
    \<Rightarrow> (EarlyRunThresholdShm list \<times> BetaThresholdShm list \<times> BetaThresholdShm list) result" where
  "init_threshold_slots [] segs = Inr segs"
| "init_threshold_slots ((key, value) # m) (er, bb, fb) =
     bind_result (early_run_shm_writer_init er value key) (\<lambda>er.
     bind_result (beta_shm_writer_init bb value key) (\<lambda>bb.
     bind_result (beta_shm_writer_init fb value key) (\<lambda>fb. init_threshold_slots m (er, bb, fb))))"

definition rx_init_shm_mapping :: "ReceiverConfig \<Rightarrow> ReceiverContext \<Rightarrow> ReceiverContext" where
  "rx_init_shm_mapping config c =
     c\<lparr>rx_shm_threshold_mapping :=
         index_mapping (rcfg_all_base_assets config) (rx_shm_threshold_mapping c),
       rx_shm_benchmark_ticker_mapping :=
         index_mapping (rx_all_benchmark_inst_ids c) (rx_shm_benchmark_ticker_mapping c),
       rx_shm_follower_ticker_mapping :=
         index_mapping (rx_all_follower_inst_ids c) (rx_shm_follower_ticker_mapping c)\<rparr>"

definition rx_init_shm_for_main :: "ReceiverConfig \<Rightarrow> ReceiverContext \<Rightarrow> ReceiverContext result" where
  "rx_init_shm_for_main config c =
     (let n = length (rcfg_all_base_assets config);
          er0 = replicate n zero_early_run; bb0 = replicate n zero_beta; fb0 = replicate n zero_beta;
          bt0 = replicate (length (rx_benchmark_inst_ids c)) zero_ticker;
          ft0 = replicate (length (rx_follower_inst_ids c)) zero_ticker
      in bind_result (init_threshold_slots (rx_shm_threshold_mapping c) (er0, bb0, fb0)) (\<lambda>(er, bb, fb).
         bind_result (init_slots ticker_shm_writer_init (rx_shm_benchmark_ticker_mapping c) bt0) (\<lambda>bt.
         bind_result (init_slots ticker_shm_writer_init (rx_shm_follower_ticker_mapping c) ft0) (\<lambda>ft.
           Inr (c\<lparr>rx_shm_store_info := \<lparr>early_run_start = er, benchmark_beta_start = bb,
             follower_beta_start = fb, benchmark_start = bt, follower_start = ft\<rparr>\<rparr>)))))"

definition rx_init_shm_for_secondary :: "ShmStoreInfo \<Rightarrow> ReceiverContext \<Rightarrow> ReceiverContext" where
  "rx_init_shm_for_secondary attached c = c\<lparr>rx_shm_store_info := attached\<rparr>"

text \<open>
  \<open>benchmark_file\<close> and \<open>follower_file\<close> are the loaders of the asset parameter files, \<open>attached\<close> the
  segments that the main node has created.
\<close>

definition rx_init ::
  "((string \<rightharpoonup> InstConfigItem) \<Rightarrow> (string \<rightharpoonup> InstConfigItem)) \<Rightarrow> ((string \<rightharpoonup> InstConfigItem) \<Rightarrow> (string \<rightharpoonup> InstConfigItem))
   \<Rightarrow> ShmStoreInfo \<Rightarrow> ReceiverConfig \<Rightarrow> ReceiverContext \<Rightarrow> ReceiverContext result" where
  "rx_init benchmark_file follower_file attached config c =
     (let node = rcfg_node_base_assets config; all = rcfg_all_base_assets config;
          bq = rcfg_benchmark_quote_asset config; fq = rcfg_follower_quote_asset config;
          sma_s = rcfg_calculate_sma_interval_seconds config;
          c = c\<lparr>rx_benchmark_ticker_composite := tc_init bq node sma_s (rx_benchmark_ticker_composite c),
                rx_follower_ticker_composite := tc_init fq node sma_s (rx_follower_ticker_composite c),
                rx_price_offset_composite := pc_init node sma_s (rx_price_offset_composite c),
                rx_early_run_threshold_composite := ert_init node (rx_early_run_threshold_composite c),
                rx_benchmark_beta_threshold_composite := bct_init node (rx_benchmark_beta_threshold_composite c),
                rx_follower_beta_threshold_composite := bct_init node (rx_follower_beta_threshold_composite c),
                rx_benchmark_inst_ids := rx_benchmark_inst_ids c @ map (\<lambda>base. base @ bq) node,
                rx_follower_inst_ids := rx_follower_inst_ids c @ map (\<lambda>base. base @ fq) node,
                rx_inst_ids_set := rx_inst_ids_set c \<union> set (map (\<lambda>base. base @ bq) node)
                  \<union> set (map (\<lambda>base. base @ fq) node),
                rx_all_benchmark_inst_ids := rx_all_benchmark_inst_ids c @ map (\<lambda>base. base @ bq) all,
                rx_all_follower_inst_ids := rx_all_follower_inst_ids c @ map (\<lambda>base. base @ fq) all,
                rx_benchmark_inst_config := benchmark_file (rx_benchmark_inst_config c),
                rx_follower_inst_config := follower_file (rx_follower_inst_config c)\<rparr>;
          c = rx_init_shm_mapping config c
      in if rcfg_group_main_node config then rx_init_shm_for_main config c
         else Inr (rx_init_shm_for_secondary attached c))"

definition new_ReceiverContext :: ReceiverContext where
  "new_ReceiverContext =
     \<lparr>rx_benchmark_inst_config = Map.empty, rx_follower_inst_config = Map.empty,
      rx_benchmark_inst_ids = [], rx_follower_inst_ids = [], rx_all_benchmark_inst_ids = [],
      rx_all_follower_inst_ids = [], rx_inst_ids_set = {}, rx_shm_threshold_mapping = [],
      rx_shm_benchmark_ticker_mapping = [], rx_shm_follower_ticker_mapping = [],
      rx_benchmark_ticker_composite = \<lparr>tc_wrapper_map = Map.empty, tc_ticker_remain_senconds = 0\<rparr>,
      rx_follower_ticker_composite = \<lparr>tc_wrapper_map = Map.empty, tc_ticker_remain_senconds = 0\<rparr>,
      rx_ticker_info_channel = [], rx_early_run_calculation_channel = [], rx_beta_calculation_channel = [],
      rx_price_offset_composite = \<lparr>pc_wrapper_map = Map.empty, pc_offset_remain_senconds = 0\<rparr>,
      rx_early_run_threshold_composite = Map.empty, rx_benchmark_beta_threshold_composite = Map.empty,
      rx_follower_beta_threshold_composite = Map.empty,
      rx_shm_store_info = \<lparr>early_run_start = [], benchmark_beta_start = [], follower_beta_start = [],
        benchmark_start = [], follower_start = []\<rparr>\<rparr>"

section \<open>Initialising the slots\<close>

text \<open>
  A slot initialiser: it fails outside the segment, it fails on names that are too long, and otherwise it
  replaces the slot by a function of the name and the old slot.
\<close>

locale slot_init =
  fixes f :: "'s list \<Rightarrow> int \<Rightarrow> string \<Rightarrow> 's list result"
    and ok :: "string \<Rightarrow> bool"
    and val :: "string \<Rightarrow> 's"
  assumes in_range: "0 \<le> i \<Longrightarrow> i < int (length seg) \<Longrightarrow> ok k \<Longrightarrow> f seg i k = Inr (seg[nat i := val k])"
    and out_of_range: "\<not> (0 \<le> i \<and> i < int (length seg)) \<Longrightarrow> f seg i k = Inl OutOfBounds"
begin

lemma init_slots_ok:
  assumes "\<forall>(k, i) \<in> set m. 0 \<le> i \<and> i < int (length seg) \<and> ok k" and "distinct (map snd m)"
  shows "\<exists>seg'. init_slots f m seg = Inr seg' \<and> length seg' = length seg
    \<and> (\<forall>(k, i) \<in> set m. seg' ! nat i = val k)
    \<and> (\<forall>j < length seg. int j \<notin> snd ` set m \<longrightarrow> seg' ! j = seg ! j)"
  using assms
proof (induction m arbitrary: seg)
  case (Cons e m)
  obtain k i where e: "e = (k, i)" by (metis surj_pair)
  let ?seg = "seg[nat i := val k]"
  have i: "0 \<le> i" "i < int (length seg)" "ok k" "i \<notin> snd ` set m" using Cons.prems e by auto
  obtain seg' where s: "init_slots f m ?seg = Inr seg'" "length seg' = length seg"
    "\<forall>(k, i) \<in> set m. seg' ! nat i = val k"
    "\<forall>j < length seg. int j \<notin> snd ` set m \<longrightarrow> seg' ! j = ?seg ! j"
    using Cons.IH[of ?seg] Cons.prems e by auto
  have "seg' ! nat i = val k" using s(4) i by (auto simp: nat_less_iff)
  moreover have "seg' ! j = seg ! j" if "j < length seg" "int j \<notin> snd ` set (e # m)" for j
    using s(4) that e i(1) by (auto simp: nth_list_update)
  ultimately show ?case using s(1-3) i e in_range[of i seg k] by auto
qed simp

lemma init_slots_out:
  assumes "\<forall>(k, i) \<in> set m. 0 \<le> i \<and> ok k" and "(k, i) \<in> set m" and "int (length seg) \<le> i"
  shows "init_slots f m seg = Inl OutOfBounds"
  using assms
proof (induction m arbitrary: seg)
  case (Cons e m)
  obtain k' i' where e: "e = (k', i')" by (metis surj_pair)
  show ?case
  proof (cases "i' < int (length seg)")
    case True
    then have "(k, i) \<in> set m" using Cons.prems e by auto
    then show ?thesis
      using Cons.IH[of "seg[nat i' := val k']"] Cons.prems e True in_range[of i' seg k'] by auto
  next
    case False
    then show ?thesis using e out_of_range[of i' seg k'] by simp
  qed
qed simp

end

interpretation er_init: slot_init early_run_shm_writer_init "\<lambda>k. length k < 16"
  "\<lambda>k. zero_early_run\<lparr>er_asset := k\<rparr>"
  by unfold_locales (auto simp: early_run_shm_writer_init_def seg_get_def seg_set_def zero_early_run_def)

interpretation bt_init: slot_init beta_shm_writer_init "\<lambda>k. length k < 16" "\<lambda>k. zero_beta\<lparr>bt_asset := k\<rparr>"
  by unfold_locales (auto simp: beta_shm_writer_init_def seg_get_def seg_set_def zero_beta_def)

interpretation tk_init: slot_init ticker_shm_writer_init "\<lambda>k. True"
  "\<lambda>k. zero_ticker\<lparr>tk_inst_id := strncpy_buf 24 k\<rparr>"
  by unfold_locales (auto simp: ticker_shm_writer_init_def seg_set_def zero_ticker_def)

lemma index_mapping_in_range:
  assumes "distinct xs" and "length xs \<le> n"
  shows "\<forall>(k, i) \<in> set (index_mapping xs []). 0 \<le> i \<and> i < int n \<and> k \<in> set xs"
  using index_mapping_entry[OF assms(1)] assms(2) by force

lemma index_mapping_values: "distinct xs \<Longrightarrow> distinct (map snd (index_mapping xs []))"
  by (simp add: index_mapping_keys(2) distinct_map)

lemma distinct_append_suffix: "distinct xs \<Longrightarrow> distinct (map (\<lambda>b. b @ q) xs)" for xs :: "string list"
  by (simp add: distinct_map inj_on_def)

lemma index_mapping_last:
  assumes "distinct xs" and "n < length xs"
  shows "\<exists>k i. (k, i) \<in> set (index_mapping xs []) \<and> int n \<le> i"
proof -
  have "int (length xs - 1) \<in> set (map snd (index_mapping xs []))"
    using index_mapping_keys(2)[OF assms(1)] assms(2) by (simp del: of_nat_diff add: image_iff)
  then obtain k where "(k, int (length xs - 1)) \<in> set (index_mapping xs [])" by auto
  moreover have "int n \<le> int (length xs - 1)" using assms(2) by simp
  ultimately show ?thesis by blast
qed

lemma init_threshold_slots_ok:
  "init_slots early_run_shm_writer_init m er = Inr er' \<Longrightarrow> init_slots beta_shm_writer_init m bb = Inr bb' \<Longrightarrow>
   init_slots beta_shm_writer_init m fb = Inr fb' \<Longrightarrow> init_threshold_slots m (er, bb, fb) = Inr (er', bb', fb')"
  by (induction m arbitrary: er bb fb) (auto simp: bind_result_Inr_iff)

definition short_assets :: "string list \<Rightarrow> bool" where
  "short_assets xs \<longleftrightarrow> (\<forall>x \<in> set xs. length x < 16)"

text \<open>The slot of each asset after the initialisation of the threshold segments.\<close>

lemma threshold_segments_ok:
  assumes "distinct all" and "short_assets all"
  shows "\<exists>er bb fb. init_threshold_slots (index_mapping all [])
      (replicate (length all) zero_early_run, replicate (length all) zero_beta, replicate (length all) zero_beta)
      = Inr (er, bb, fb)
    \<and> length er = length all \<and> length bb = length all \<and> length fb = length all
    \<and> (\<forall>(k, i) \<in> set (index_mapping all []). er ! nat i = zero_early_run\<lparr>er_asset := k\<rparr>
        \<and> bb ! nat i = zero_beta\<lparr>bt_asset := k\<rparr> \<and> fb ! nat i = zero_beta\<lparr>bt_asset := k\<rparr>)"
proof -
  let ?m = "index_mapping all []" and ?n = "length all"
  have m: "\<forall>(k, i) \<in> set ?m. 0 \<le> i \<and> i < int ?n \<and> length k < 16"
    using index_mapping_in_range[OF assms(1) order_refl] assms(2) by (fastforce simp: short_assets_def)
  have d: "distinct (map snd ?m)" by (rule index_mapping_values[OF assms(1)])
  obtain er where er: "init_slots early_run_shm_writer_init ?m (replicate ?n zero_early_run) = Inr er"
    "length er = ?n" "\<forall>(k, i) \<in> set ?m. er ! nat i = zero_early_run\<lparr>er_asset := k\<rparr>"
    using er_init.init_slots_ok[of ?m "replicate ?n zero_early_run"] m d by auto
  obtain bb where bb: "init_slots beta_shm_writer_init ?m (replicate ?n zero_beta) = Inr bb"
    "length bb = ?n" "\<forall>(k, i) \<in> set ?m. bb ! nat i = zero_beta\<lparr>bt_asset := k\<rparr>"
    using bt_init.init_slots_ok[of ?m "replicate ?n zero_beta"] m d by auto
  show ?thesis using init_threshold_slots_ok[OF er(1) bb(1) bb(1)] er bb by fastforce
qed

definition fresh_rx_mapped :: "ReceiverConfig \<Rightarrow> ReceiverContext \<Rightarrow> bool" where
  "fresh_rx_mapped config c \<longleftrightarrow>
     rx_shm_threshold_mapping c = index_mapping (rcfg_all_base_assets config) []
     \<and> rx_shm_benchmark_ticker_mapping c =
         index_mapping (map (\<lambda>b. b @ rcfg_benchmark_quote_asset config) (rcfg_all_base_assets config)) []
     \<and> rx_shm_follower_ticker_mapping c =
         index_mapping (map (\<lambda>b. b @ rcfg_follower_quote_asset config) (rcfg_all_base_assets config)) []
     \<and> length (rx_benchmark_inst_ids c) = length (rcfg_node_base_assets config)
     \<and> length (rx_follower_inst_ids c) = length (rcfg_node_base_assets config)"

lemma rx_init_main:
  assumes "rcfg_group_main_node config"
  shows "\<exists>c. rx_init bf ff att config new_ReceiverContext = rx_init_shm_for_main config c
    \<and> fresh_rx_mapped config c"
  using assms
  by (auto simp: rx_init_def new_ReceiverContext_def Let_def rx_init_shm_mapping_def fresh_rx_mapped_def)

lemma rx_main_overrun:
  assumes f: "fresh_rx_mapped config c" and d: "distinct (rcfg_all_base_assets config)"
    and "short_assets (rcfg_all_base_assets config)"
    and lt: "length (rcfg_node_base_assets config) < length (rcfg_all_base_assets config)"
  shows "rx_init_shm_for_main config c = Inl OutOfBounds"
proof -
  let ?all = "rcfg_all_base_assets config" and ?q = "rcfg_benchmark_quote_asset config"
  let ?m = "index_mapping (map (\<lambda>b. b @ ?q) ?all) []"
  have dq: "distinct (map (\<lambda>b. b @ ?q) ?all)" by (rule distinct_append_suffix[OF d])
  obtain k i where ki: "(k, i) \<in> set ?m" "int (length (rcfg_node_base_assets config)) \<le> i"
    using index_mapping_last[OF dq, of "length (rcfg_node_base_assets config)"] lt by auto
  have "init_slots ticker_shm_writer_init ?m (replicate (length (rx_benchmark_inst_ids c)) zero_ticker)
      = Inl OutOfBounds"
    using index_mapping_in_range[OF dq order_refl] ki f
    by (intro tk_init.init_slots_out[OF _ ki(1)]) (auto simp: fresh_rx_mapped_def)
  then show ?thesis
    using threshold_segments_ok[OF d assms(3)] f
    by (auto simp: rx_init_shm_for_main_def fresh_rx_mapped_def Let_def)
qed

lemma rx_main_ok:
  assumes f: "fresh_rx_mapped config c" and d: "distinct (rcfg_all_base_assets config)"
    and "short_assets (rcfg_all_base_assets config)"
    and eq: "length (rcfg_node_base_assets config) = length (rcfg_all_base_assets config)"
  shows "\<exists>c'. rx_init_shm_for_main config c = Inr c' \<and> fresh_rx_mapped config c'
    \<and> (\<forall>(k, i) \<in> set (rx_shm_threshold_mapping c').
        early_run_shm_reader_get (early_run_start (rx_shm_store_info c')) i = Inr (zero_early_run\<lparr>er_asset := k\<rparr>)
        \<and> beta_shm_reader_get (benchmark_beta_start (rx_shm_store_info c')) i = Inr (zero_beta\<lparr>bt_asset := k\<rparr>)
        \<and> beta_shm_reader_get (follower_beta_start (rx_shm_store_info c')) i = Inr (zero_beta\<lparr>bt_asset := k\<rparr>))"
proof -
  let ?all = "rcfg_all_base_assets config" and ?n = "length (rcfg_all_base_assets config)"
  have tk: "\<exists>seg'. init_slots ticker_shm_writer_init (index_mapping (map (\<lambda>b. b @ q) ?all) []) (replicate ?n zero_ticker) = Inr seg'" for q
  proof -
    have dq: "distinct (map (\<lambda>b. b @ q) ?all)" by (rule distinct_append_suffix[OF d])
    show ?thesis
      using tk_init.init_slots_ok[of "index_mapping (map (\<lambda>b. b @ q) ?all) []" "replicate ?n zero_ticker"]
        index_mapping_in_range[OF dq order_refl] index_mapping_values[OF dq] by fastforce
  qed
  obtain bt ft where t: "init_slots ticker_shm_writer_init (rx_shm_benchmark_ticker_mapping c) (replicate ?n zero_ticker) = Inr bt"
    "init_slots ticker_shm_writer_init (rx_shm_follower_ticker_mapping c) (replicate ?n zero_ticker) = Inr ft"
    using tk f by (metis fresh_rx_mapped_def)
  obtain er bb fb where th: "init_threshold_slots (index_mapping ?all [])
      (replicate ?n zero_early_run, replicate ?n zero_beta, replicate ?n zero_beta) = Inr (er, bb, fb)"
    "length er = ?n" "length bb = ?n" "length fb = ?n"
    "\<forall>(k, i) \<in> set (index_mapping ?all []). er ! nat i = zero_early_run\<lparr>er_asset := k\<rparr>
        \<and> bb ! nat i = zero_beta\<lparr>bt_asset := k\<rparr> \<and> fb ! nat i = zero_beta\<lparr>bt_asset := k\<rparr>"
    using threshold_segments_ok[OF d assms(3)] by blast
  have rd: "early_run_shm_reader_get er i = Inr (zero_early_run\<lparr>er_asset := k\<rparr>)
      \<and> beta_shm_reader_get bb i = Inr (zero_beta\<lparr>bt_asset := k\<rparr>)
      \<and> beta_shm_reader_get fb i = Inr (zero_beta\<lparr>bt_asset := k\<rparr>)" if "(k, i) \<in> set (index_mapping ?all [])" for k i
  proof -
    have "0 \<le> i" "i < int ?n" "length k < 16"
      using index_mapping_entry[OF d that] assms(3) by (auto simp: short_assets_def)
    then show ?thesis
      using th that by (subst early_run_reader_get_ok beta_reader_get_ok, auto)+
  qed
  show ?thesis
    using f t th(1) rd eq
    by (auto simp: rx_init_shm_for_main_def fresh_rx_mapped_def Let_def)
qed

definition sample_receiver_config :: "string list \<Rightarrow> string list \<Rightarrow> ReceiverConfig" where
  "sample_receiver_config node all =
     \<lparr>rcfg_benchmark_quote_asset = ''USDT'', rcfg_follower_quote_asset = ''USDC'',
      rcfg_calculate_sma_interval_seconds = 60, rcfg_node_base_assets = node, rcfg_all_base_assets = all,
      rcfg_group_main_node = True, rcfg_early_run_calculation_type = ''median''\<rparr>"

section \<open>Properties\<close>

text \<open>The main receiver node gives every asset its own slot: when the node handles as many assets as the
  configuration names in total (distinct, with names of fewer than 16 characters), the initialisation
  succeeds, and the early-run and the two beta segments read back, at the slot of each asset, that asset's
  name with zero values.\<close>

theorem receiver_main_init_slots:
  assumes "rcfg_group_main_node config" and "distinct (rcfg_all_base_assets config)"
    and "short_assets (rcfg_all_base_assets config)"
    and "length (rcfg_node_base_assets config) = length (rcfg_all_base_assets config)"
  shows "\<exists>c. rx_init bf ff att config new_ReceiverContext = Inr c
    \<and> (\<forall>a \<in> set (rcfg_all_base_assets config). \<exists>i. map_of (rx_shm_threshold_mapping c) a = Some i
        \<and> early_run_shm_reader_get (early_run_start (rx_shm_store_info c)) i = Inr (zero_early_run\<lparr>er_asset := a\<rparr>)
        \<and> beta_shm_reader_get (benchmark_beta_start (rx_shm_store_info c)) i = Inr (zero_beta\<lparr>bt_asset := a\<rparr>)
        \<and> beta_shm_reader_get (follower_beta_start (rx_shm_store_info c)) i = Inr (zero_beta\<lparr>bt_asset := a\<rparr>))"
proof -
  obtain c0 where c0: "rx_init bf ff att config new_ReceiverContext = rx_init_shm_for_main config c0"
    "fresh_rx_mapped config c0" using rx_init_main[OF assms(1)] by blast
  obtain c where c: "rx_init_shm_for_main config c0 = Inr c" "fresh_rx_mapped config c"
    "\<forall>(k, i) \<in> set (rx_shm_threshold_mapping c).
        early_run_shm_reader_get (early_run_start (rx_shm_store_info c)) i = Inr (zero_early_run\<lparr>er_asset := k\<rparr>)
        \<and> beta_shm_reader_get (benchmark_beta_start (rx_shm_store_info c)) i = Inr (zero_beta\<lparr>bt_asset := k\<rparr>)
        \<and> beta_shm_reader_get (follower_beta_start (rx_shm_store_info c)) i = Inr (zero_beta\<lparr>bt_asset := k\<rparr>)"
    using rx_main_ok[OF c0(2) assms(2-4)] by blast
  have m: "rx_shm_threshold_mapping c = index_mapping (rcfg_all_base_assets config) []"
    using c(2) by (simp add: fresh_rx_mapped_def)
  have "\<exists>i. map_of (rx_shm_threshold_mapping c) a = Some i
        \<and> early_run_shm_reader_get (early_run_start (rx_shm_store_info c)) i = Inr (zero_early_run\<lparr>er_asset := a\<rparr>)
        \<and> beta_shm_reader_get (benchmark_beta_start (rx_shm_store_info c)) i = Inr (zero_beta\<lparr>bt_asset := a\<rparr>)
        \<and> beta_shm_reader_get (follower_beta_start (rx_shm_store_info c)) i = Inr (zero_beta\<lparr>bt_asset := a\<rparr>)"
    if in_all: "a \<in> set (rcfg_all_base_assets config)" for a
  proof -
    obtain i where i: "map_of (rx_shm_threshold_mapping c) a = Some i"
      using index_mapping_dom[OF assms(2) in_all] unfolding m by blast
    from bspec[OF c(3) map_of_SomeD[OF i]] i show ?thesis by simp
  qed
  then show ?thesis using c0(1) c(1) by simp
qed

theorem receiver_main_init_slots_witness:
  "\<forall>att. \<exists>c. rx_init id id att (sample_receiver_config [''ETH'', ''BTC''] [''BTC'', ''ETH'']) new_ReceiverContext = Inr c"
  using receiver_main_init_slots[of "sample_receiver_config [''ETH'', ''BTC''] [''BTC'', ''ETH'']" id id]
  by (force simp: sample_receiver_config_def short_assets_def)

text \<open>C40. A main receiver node that handles fewer assets than the configuration names in total writes outside
  the ticker segments: they are created with the number of the node's instruments but initialised for
  the instruments of all assets.\<close>

theorem receiver_main_init_overruns:
  assumes "rcfg_group_main_node config" and "distinct (rcfg_all_base_assets config)"
    and "short_assets (rcfg_all_base_assets config)"
    and "length (rcfg_node_base_assets config) < length (rcfg_all_base_assets config)"
  shows "rx_init bf ff att config new_ReceiverContext = Inl OutOfBounds"
  using rx_init_main[OF assms(1), of bf ff att] rx_main_overrun[OF _ assms(2-4)] by auto

theorem receiver_main_init_overruns_witness:
  "\<forall>att. rx_init id id att (sample_receiver_config [''BTC''] [''BTC'', ''ETH'']) new_ReceiverContext = Inl OutOfBounds"
  using receiver_main_init_overruns[of "sample_receiver_config [''BTC''] [''BTC'', ''ETH'']" id id]
  by (simp add: sample_receiver_config_def short_assets_def)

end
