(* ===== verification/ActuaryContext.thy ===== *)
theory ActuaryContext
  imports RiskControl ReceiverContext
begin

text \<open>
  \<open>src/src/actuary/global_context.{h,cpp}\<close>, \<open>basic_container.h\<close>, \<open>common_container.h\<close> and
  \<open>market_processor.cpp\<close>: the state of the actuary process and its initialisation. As in the receiver, the
  segments themselves stand in \<open>shm_store_info\<close> and the concurrent queues are lists. The REST client, the
  messenger and the database pool are external; their answers are arguments. The configuration
  record extends that of the watchdogs.
\<close>

section \<open>Data\<close>

record ActuaryConfig = RiskConfig +
  acfg_stop_make_order :: bool
  acfg_make_position_close_only :: bool
  acfg_order_size_zoom :: int
  acfg_max_position_zoom :: int
  acfg_enable_benchmark_ticker_trigger :: bool
  acfg_enable_follower_ticker_trigger :: bool
  acfg_benchmark_ticker_validity_millis :: u64
  acfg_follower_ticker_validity_millis :: u64
  acfg_threshold_validity_millis :: u64
  acfg_order_price_margin :: double
  acfg_enable_position_threshold :: bool
  acfg_position_threshold_margin :: double
  acfg_enable_ticker_size_compare :: bool
  acfg_same_price_pause_time_millis :: i64
  acfg_benchmark_quote_asset :: string
  acfg_follower_quote_asset :: string
  acfg_shm_group_main_node :: bool
  acfg_enable_load_order_to_zmq :: bool
  acfg_enable_save_no_volume_order :: bool
  acfg_node_base_assets :: "string list"
  acfg_node_close_base_assets :: "string list"
  acfg_all_base_assets :: "string list"

record ExchangeInfoLite =
  xi_symbol :: string
  xi_baseAsset :: string
  xi_pricePrecision :: int
  xi_quantityPrecision :: int
  xi_minPrice :: double
  xi_tickSize :: double
  xi_minQty :: double
  xi_stepSize :: double
  xi_positionCloseOnly :: bool

record StatOrderLite =
  so_accountFlag :: string
  so_symbol :: string
  so_orderSide :: string
  so_clientOrderId :: string
  so_averagePrice :: string
  so_filledSize :: string
  so_commissionRate :: string
  so_systemTimestamp :: u64

text \<open>The actuary's \<open>ShmStoreInfo\<close> has the receiver's segments and the order segment.\<close>

record ActuaryShmStoreInfo = ShmStoreInfo +
  order_start :: "OrderShm list"

record ActuaryContext =
  ax_benchmark_inst_config :: "string \<rightharpoonup> InstConfigItem"
  ax_follower_inst_config :: "string \<rightharpoonup> InstConfigItem"
  ax_benchmark_inst_ids :: "string list"
  ax_follower_inst_ids :: "string list"
  ax_all_benchmark_inst_ids :: "string list"
  ax_all_follower_inst_ids :: "string list"
  ax_follower_inst_ids_set :: "string set"
  ax_follower_close_inst_ids_set :: "string set"
  ax_all_inst_ids_set :: "string set"
  ax_follower_exchange_info_map :: "string \<rightharpoonup> ExchangeInfoLite"
  ax_benchmark_exchange_info_map :: "string \<rightharpoonup> ExchangeInfoLite"
  ax_shm_threshold_mapping :: "(string \<times> int) list"
  ax_shm_benchmark_ticker_mapping :: "(string \<times> int) list"
  ax_shm_follower_ticker_mapping :: "(string \<times> int) list"
  ax_shm_order_mapping :: "(string \<times> int) list"
  ax_shm_store_info :: ActuaryShmStoreInfo
  ax_balance_position_composite :: AccountBalancePositionComposite
  ax_commission_rate_composite :: CommissionRateComposite
  ax_account_info_channel :: "string list"
  ax_listen_key :: string
  ax_dynamic_config :: DynamicConfig
  ax_stat_order_channel :: "StatOrderLite list"

section \<open>Exchange information\<close>

text \<open>
  \<open>FuturesExchangeInfo\<close> and \<open>ExchangeInfoResponse\<close> are the fields that are read of the REST answer. The
  loaders return \<open>None\<close> when a zero or negative step makes the precision loop run forever, and
  \<open>ProcessExit\<close> when the request has failed.
\<close>

record FuturesExchangeInfo =
  fx_symbol :: string
  fx_baseAsset :: string
  fx_quoteAsset :: string
  fx_pricePrecision :: int
  fx_quantityPrecision :: int
  fx_minPrice :: double
  fx_tickSize :: double
  fx_minQty :: double
  fx_stepSize :: double

record ExchangeInfoResponse =
  xr_code :: int
  xr_data :: "FuturesExchangeInfo list"

definition exchange_info_lite :: "FuturesExchangeInfo \<Rightarrow> ExchangeInfoLite option" where
  "exchange_info_lite info =
     (case (calculate_precision_by_min_step (fx_tickSize info), calculate_precision_by_min_step (fx_stepSize info)) of
        (Some price_precision, Some quantity_precision) \<Rightarrow>
          Some \<lparr>xi_symbol = fx_symbol info, xi_baseAsset = fx_baseAsset info,
                xi_pricePrecision = min (fx_pricePrecision info) price_precision,
                xi_quantityPrecision = min (fx_quantityPrecision info) quantity_precision,
                xi_minPrice = fx_minPrice info, xi_tickSize = fx_tickSize info,
                xi_minQty = fx_minQty info, xi_stepSize = fx_stepSize info, xi_positionCloseOnly = False\<rparr>
      | _ \<Rightarrow> None)"

fun follower_lites :: "string \<Rightarrow> FuturesExchangeInfo list \<Rightarrow> ExchangeInfoLite list option" where
  "follower_lites quote [] = Some []"
| "follower_lites quote (info # infos) =
     (if fx_quoteAsset info = quote
      then case exchange_info_lite info of
             None \<Rightarrow> None
           | Some lite \<Rightarrow> map_option (\<lambda>lites. lite # lites) (follower_lites quote infos)
      else follower_lites quote infos)"

definition load_follower_exchangeInfo ::
  "int \<Rightarrow> ActuaryConfig \<Rightarrow> ExchangeInfoResponse \<Rightarrow> ExchangeInfoLite list result option" where
  "load_follower_exchangeInfo RestCodeOK config response =
     (if xr_code response \<noteq> RestCodeOK then Some (Inl (ProcessExit (- 1)))
      else map_option Inr (follower_lites (acfg_follower_quote_asset config) (xr_data response)))"

fun benchmark_lites :: "string \<Rightarrow> FuturesExchangeInfo list \<Rightarrow> (string \<rightharpoonup> ExchangeInfoLite)
    \<Rightarrow> (string \<rightharpoonup> ExchangeInfoLite) option" where
  "benchmark_lites quote [] lite_map = Some lite_map"
| "benchmark_lites quote (info # infos) lite_map =
     (if fx_quoteAsset info = quote
      then case exchange_info_lite info of
             None \<Rightarrow> None
           | Some lite \<Rightarrow> benchmark_lites quote infos (map_insert (fx_baseAsset info) lite lite_map)
      else benchmark_lites quote infos lite_map)"

definition load_benchmark_exchangeInfo ::
  "int \<Rightarrow> ActuaryConfig \<Rightarrow> ExchangeInfoResponse \<Rightarrow> (string \<rightharpoonup> ExchangeInfoLite) result option" where
  "load_benchmark_exchangeInfo RestCodeOK config response =
     (if xr_code response \<noteq> RestCodeOK then Some (Inl (ProcessExit (- 1)))
      else map_option Inr (benchmark_lites (acfg_benchmark_quote_asset config) (xr_data response) Map.empty))"

section \<open>Initialisation\<close>

definition zero_order :: OrderShm where
  "zero_order = \<lparr>os_inst_id = [], os_type = [], os_side = [], os_pos_side = [], os_time_in_force = [],
     os_client_order_id = [], os_price = Fin 0, os_volume = Fin 0, os_reduce_only = 0,
     os_update_time = 0, os_version_number = 0\<rparr>"

definition ax_init_shm_mapping :: "ActuaryConfig \<Rightarrow> ActuaryContext \<Rightarrow> ActuaryContext" where
  "ax_init_shm_mapping config c =
     c\<lparr>ax_shm_threshold_mapping :=
         index_mapping (acfg_all_base_assets config) (ax_shm_threshold_mapping c),
       ax_shm_benchmark_ticker_mapping :=
         index_mapping (ax_all_benchmark_inst_ids c) (ax_shm_benchmark_ticker_mapping c),
       ax_shm_follower_ticker_mapping :=
         index_mapping (ax_all_follower_inst_ids c) (ax_shm_follower_ticker_mapping c),
       ax_shm_order_mapping :=
         index_mapping (ax_all_follower_inst_ids c) (ax_shm_order_mapping c)\<rparr>"

text \<open>\<open>attached\<close> holds the segments as they are found in the system; the main node replaces the order
  segment by a new one.\<close>

definition ax_init_shm :: "ActuaryShmStoreInfo \<Rightarrow> ActuaryConfig \<Rightarrow> ActuaryContext \<Rightarrow> ActuaryContext result" where
  "ax_init_shm attached config c =
     (if acfg_shm_group_main_node config
      then bind_result (init_slots order_shm_writer_init (ax_shm_order_mapping c)
             (replicate (length (acfg_all_base_assets config)) zero_order)) (\<lambda>orders.
           Inr (c\<lparr>ax_shm_store_info := attached\<lparr>order_start := orders\<rparr>\<rparr>))
      else Inr (c\<lparr>ax_shm_store_info := attached\<rparr>))"

definition put_exchange_info ::
  "(string \<rightharpoonup> ExchangeInfoLite) \<Rightarrow> ExchangeInfoLite \<Rightarrow> ActuaryContext \<Rightarrow> ActuaryContext" where
  "put_exchange_info benchmark_lite_map lite c =
     (if xi_symbol lite \<in> ax_all_inst_ids_set c
      then let lite = (if xi_symbol lite \<in> ax_follower_close_inst_ids_set c
                       then lite\<lparr>xi_positionCloseOnly := True\<rparr> else lite);
               c = c\<lparr>ax_follower_exchange_info_map :=
                       map_insert (xi_symbol lite) lite (ax_follower_exchange_info_map c)\<rparr>
           in (case benchmark_lite_map (xi_baseAsset lite) of
                 None \<Rightarrow> c
               | Some b \<Rightarrow> c\<lparr>ax_benchmark_exchange_info_map :=
                   map_insert (xi_symbol b) b (ax_benchmark_exchange_info_map c)\<rparr>)
      else c)"

definition ax_load_ids :: "ActuaryConfig \<Rightarrow> ActuaryContext \<Rightarrow> ActuaryContext" where
  "ax_load_ids config c =
     (let node = acfg_node_base_assets config; all = acfg_all_base_assets config;
          bq = acfg_benchmark_quote_asset config; fq = acfg_follower_quote_asset config
      in c\<lparr>ax_benchmark_inst_ids := ax_benchmark_inst_ids c @ map (\<lambda>base. base @ bq) node,
           ax_follower_inst_ids := ax_follower_inst_ids c @ map (\<lambda>base. base @ fq) node,
           ax_all_inst_ids_set := ax_all_inst_ids_set c \<union> set (map (\<lambda>base. base @ bq) node)
             \<union> set (map (\<lambda>base. base @ fq) node),
           ax_follower_inst_ids_set := ax_follower_inst_ids_set c \<union> set (map (\<lambda>base. base @ fq) node),
           ax_follower_close_inst_ids_set := ax_follower_close_inst_ids_set c
             \<union> set (map (\<lambda>base. base @ fq) (acfg_node_close_base_assets config)),
           ax_all_benchmark_inst_ids := ax_all_benchmark_inst_ids c @ map (\<lambda>base. base @ bq) all,
           ax_all_follower_inst_ids := ax_all_follower_inst_ids c @ map (\<lambda>base. base @ fq) all\<rparr>)"

text \<open>
  \<open>benchmark_file\<close> and \<open>follower_file\<close> are the loaders of the asset parameter files, \<open>response1\<close> and
  \<open>response2\<close> the answers to the two exchange information requests.
\<close>

definition ax_init ::
  "(bool \<Rightarrow> (string \<rightharpoonup> InstConfigItem) \<Rightarrow> (string \<rightharpoonup> InstConfigItem))
   \<Rightarrow> (bool \<Rightarrow> (string \<rightharpoonup> InstConfigItem) \<Rightarrow> (string \<rightharpoonup> InstConfigItem))
   \<Rightarrow> ActuaryShmStoreInfo \<Rightarrow> int \<Rightarrow> ExchangeInfoResponse \<Rightarrow> ExchangeInfoResponse
   \<Rightarrow> ActuaryConfig \<Rightarrow> ActuaryContext \<Rightarrow> ActuaryContext result option" where
  "ax_init benchmark_file follower_file attached RestCodeOK response1 response2 config c =
     (let close_only = acfg_make_position_close_only config;
          c = ax_load_ids config c;
          c = c\<lparr>ax_benchmark_inst_config := benchmark_file close_only (ax_benchmark_inst_config c),
                ax_follower_inst_config := follower_file close_only (ax_follower_inst_config c)\<rparr>;
          c = ax_init_shm_mapping config c
      in case ax_init_shm attached config c of
           Inl e \<Rightarrow> Some (Inl e)
         | Inr c \<Rightarrow>
       (case load_follower_exchangeInfo RestCodeOK config response1 of
          None \<Rightarrow> None
        | Some (Inl e) \<Rightarrow> Some (Inl e)
        | Some (Inr follower_exchangeLites) \<Rightarrow>
       (case load_benchmark_exchangeInfo RestCodeOK config response2 of
          None \<Rightarrow> None
        | Some (Inl e) \<Rightarrow> Some (Inl e)
        | Some (Inr benchmark_exchangeLiteMap) \<Rightarrow>
            let c = fold (put_exchange_info benchmark_exchangeLiteMap) follower_exchangeLites c;
                balance_assets = [acfg_benchmark_quote_asset config, acfg_follower_quote_asset config, ''BNB'']
                  @ acfg_all_base_assets config
            in Some (Inr (c\<lparr>ax_balance_position_composite :=
                   ap_init balance_assets (ax_all_follower_inst_ids c) (ax_balance_position_composite c),
                 ax_listen_key := [],
                 ax_dynamic_config := new_DynamicConfig (acfg_stop_make_order config) close_only,
                 ax_account_info_channel := [], ax_stat_order_channel := []\<rparr>)))))"

definition get_follower_exchange_info :: "string \<Rightarrow> ActuaryContext \<Rightarrow> ExchangeInfoLite option" where
  "get_follower_exchange_info symbol c = ax_follower_exchange_info_map c symbol"

definition get_benchmark_exchange_info :: "string \<Rightarrow> ActuaryContext \<Rightarrow> ExchangeInfoLite option" where
  "get_benchmark_exchange_info symbol c = ax_benchmark_exchange_info_map c symbol"

definition dynamic_could_make_order :: "ActuaryContext \<Rightarrow> bool" where
  "dynamic_could_make_order c = (\<not> is_stop_make_order (ax_dynamic_config c))"

definition dynamic_could_make_open_position_order :: "ActuaryContext \<Rightarrow> bool" where
  "dynamic_could_make_open_position_order c = (\<not> is_stop_make_open_order (ax_dynamic_config c))"

end
