(* ===== verification/Strategy.thy ===== *)
theory Strategy
  imports ActuaryContext
begin

text \<open>
  \<open>src/src/actuary/strategy_processor.cpp\<close>: the thread that watches one base asset. \<open>strategy_start\<close> is the
  part of \<open>calculate_signal_make_order\<close> before its loop, and \<open>strategy_step\<close> one iteration of the loop, split
  into the stages between which the source says \<open>continue\<close>. The variables that are fixed before
  the loop are the record \<open>StrategyEnv\<close>, those that live across iterations \<open>StrategyState\<close>. A stage returns
  \<open>None\<close> for \<open>continue\<close>. The clocks are arguments: \<open>now\<close> and \<open>now_micros\<close> are read at the start of the
  iteration, \<open>tv_sec\<close> and \<open>tv_usec\<close> when the client order id is made. Sleeps and log lines have no
  effect on the state and are left out.
\<close>

section \<open>Data\<close>

record OrderApi = BinanceApi +
  ORDER_TYPE_LIMIT :: string
  ORDER_SIDE_BUY :: string
  ORDER_SIDE_SELL :: string
  TimeInForce_IOC :: string

record StrategyEnv =
  se_follower_inst_id :: string
  se_follower_exchange_info :: ExchangeInfoLite
  se_benchmark_shm_index :: int
  se_follower_shm_index :: int
  se_threshold_shm_index :: int
  se_order_shm_index :: int
  se_inst_config :: InstConfigItem

record StrategyState =
  latest_buy_order_price :: double
  latest_buy_order_millis :: u64
  latest_sell_order_price :: double
  latest_sell_order_millis :: u64
  benchmark_ticker_version :: i64
  follower_ticker_version :: i64
  early_run_version :: i64
  benchmark_beta_version :: i64
  follower_beta_version :: i64

abbreviation close_only :: "ActuaryConfig \<Rightarrow> StrategyEnv \<Rightarrow> bool" where
  "close_only config env \<equiv>
     acfg_make_position_close_only config \<or> xi_positionCloseOnly (se_follower_exchange_info env)"

section \<open>Start\<close>

definition find_index :: "(string \<times> int) list \<Rightarrow> string \<Rightarrow> int" where
  "find_index m key = (case map_of m key of None \<Rightarrow> - 1 | Some i \<Rightarrow> i)"

definition strategy_start ::
  "ActuaryConfig \<Rightarrow> ActuaryContext \<Rightarrow> string \<Rightarrow> (StrategyEnv \<times> StrategyState) result" where
  "strategy_start config c base_asset =
     (let benchmark_inst_id = base_asset @ acfg_benchmark_quote_asset config;
          follower_inst_id = base_asset @ acfg_follower_quote_asset config
      in case get_follower_exchange_info follower_inst_id c of
           None \<Rightarrow> Inl (ProcessExit (- 1))
         | Some follower_exchange_info \<Rightarrow>
             let benchmark_shm_index = find_index (ax_shm_benchmark_ticker_mapping c) benchmark_inst_id;
                 follower_shm_index = find_index (ax_shm_follower_ticker_mapping c) follower_inst_id;
                 threshold_shm_index = find_index (ax_shm_threshold_mapping c) base_asset;
                 order_shm_index = find_index (ax_shm_order_mapping c) follower_inst_id
             in if benchmark_shm_index < 0 \<or> follower_shm_index < 0 \<or> threshold_shm_index < 0 \<or> order_shm_index < 0
                then Inl (ProcessExit (- 1))
                else case ax_follower_inst_config c base_asset of
                       None \<Rightarrow> Inl (ProcessExit (- 1))
                     | Some inst_config \<Rightarrow>
                         Inr (\<lparr>se_follower_inst_id = follower_inst_id,
                               se_follower_exchange_info = follower_exchange_info,
                               se_benchmark_shm_index = benchmark_shm_index,
                               se_follower_shm_index = follower_shm_index,
                               se_threshold_shm_index = threshold_shm_index,
                               se_order_shm_index = order_shm_index, se_inst_config = inst_config\<rparr>,
                              \<lparr>latest_buy_order_price = Fin 0, latest_buy_order_millis = 0,
                               latest_sell_order_price = Fin 0, latest_sell_order_millis = 0,
                               benchmark_ticker_version = 0, follower_ticker_version = 0,
                               early_run_version = 0, benchmark_beta_version = 0, follower_beta_version = 0\<rparr>))"

section \<open>Stages of an iteration\<close>

definition read_tickers :: "ActuaryConfig \<Rightarrow> StrategyEnv \<Rightarrow> ActuaryContext \<Rightarrow> StrategyState
    \<Rightarrow> ((TickerInfoShm \<times> TickerInfoShm) option \<times> StrategyState) result" where
  "read_tickers config env c st =
     bind_result (ticker_shm_reader_get (benchmark_start (ax_shm_store_info c)) (se_benchmark_shm_index env)) (\<lambda>bt.
     bind_result (ticker_shm_reader_get (follower_start (ax_shm_store_info c)) (se_follower_shm_index env)) (\<lambda>ft.
       if tk_version_number bt = 0 \<or> tk_version_number ft = 0 then Inr (None, st)
       else if tk_version_number bt <s benchmark_ticker_version st
               \<or> tk_version_number ft <s follower_ticker_version st then Inr (None, st)
       else
         let benchmark_ticker_changed = benchmark_ticker_version st <s tk_version_number bt;
             follower_ticker_changed = follower_ticker_version st <s tk_version_number ft;
             st = (if benchmark_ticker_changed then st\<lparr>benchmark_ticker_version := tk_version_number bt\<rparr> else st);
             st = (if follower_ticker_changed then st\<lparr>follower_ticker_version := tk_version_number ft\<rparr> else st)
         in if (\<not> acfg_enable_benchmark_ticker_trigger config \<or> \<not> benchmark_ticker_changed)
               \<and> (\<not> acfg_enable_follower_ticker_trigger config \<or> \<not> follower_ticker_changed)
            then Inr (None, st)
            else Inr (Some (bt, ft), st)))"

definition raise_threshold_versions ::
  "EarlyRunThresholdShm \<Rightarrow> BetaThresholdShm \<Rightarrow> BetaThresholdShm \<Rightarrow> StrategyState \<Rightarrow> StrategyState" where
  "raise_threshold_versions er bb fb st =
     (let st = (if benchmark_beta_version st <s bt_version_number bb
                then st\<lparr>benchmark_beta_version := bt_version_number bb\<rparr> else st);
          st = (if follower_beta_version st <s bt_version_number fb
                then st\<lparr>follower_beta_version := bt_version_number fb\<rparr> else st)
      in if early_run_version st <s er_version_number er
         then st\<lparr>early_run_version := er_version_number er\<rparr> else st)"

definition read_thresholds :: "StrategyEnv \<Rightarrow> ActuaryContext \<Rightarrow> StrategyState
    \<Rightarrow> ((EarlyRunThresholdShm \<times> BetaThresholdShm \<times> BetaThresholdShm) option \<times> StrategyState) result" where
  "read_thresholds env c st =
     bind_result (early_run_shm_reader_get (early_run_start (ax_shm_store_info c)) (se_threshold_shm_index env)) (\<lambda>er.
     bind_result (beta_shm_reader_get (benchmark_beta_start (ax_shm_store_info c)) (se_threshold_shm_index env)) (\<lambda>bb.
     bind_result (beta_shm_reader_get (follower_beta_start (ax_shm_store_info c)) (se_threshold_shm_index env)) (\<lambda>fb.
       if er_version_number er = 0 then Inr (None, st)
       else if bt_version_number bb = 0 then Inr (None, st)
       else if bt_version_number fb = 0 then Inr (None, st)
       else if bt_version_number bb <s benchmark_beta_version st
               \<or> bt_version_number fb <s follower_beta_version st
               \<or> er_version_number er <s early_run_version st
       then Inr (None, raise_threshold_versions er bb fb st)
       else Inr (Some (er, bb, fb),
              st\<lparr>benchmark_beta_version := bt_version_number bb,
                 follower_beta_version := bt_version_number fb,
                 early_run_version := er_version_number er\<rparr>))))"

text \<open>The sums of a \<open>long\<close> or \<open>uint64_t\<close> time and a \<open>uint64_t\<close> validity are unsigned.\<close>

definition tickers_expired :: "u64 \<Rightarrow> ActuaryConfig \<Rightarrow> TickerInfoShm \<Rightarrow> TickerInfoShm \<Rightarrow> bool" where
  "tickers_expired now config bt ft \<longleftrightarrow>
     now > tk_update_time bt + acfg_benchmark_ticker_validity_millis config
     \<or> now > tk_update_time ft + acfg_follower_ticker_validity_millis config"

definition thresholds_expired ::
  "u64 \<Rightarrow> ActuaryConfig \<Rightarrow> EarlyRunThresholdShm \<Rightarrow> BetaThresholdShm \<Rightarrow> BetaThresholdShm \<Rightarrow> bool" where
  "thresholds_expired now config er bb fb \<longleftrightarrow>
     now > bt_time_mills bb + acfg_threshold_validity_millis config
     \<or> now > bt_time_mills fb + acfg_threshold_validity_millis config
     \<or> now > er_time_mills er + acfg_threshold_validity_millis config"

text \<open>\<open>int(now - update_time)\<close> keeps the low 32 bits, read as two's complement.\<close>

definition ticker_delay :: "u64 \<Rightarrow> TickerInfoShm \<Rightarrow> int" where
  "ticker_delay now ft =
     (if now \<ge> tk_update_time ft then sint (ucast (now - tk_update_time ft) :: 32 word) else 0)"

definition position_reduce_ratio :: "ActuaryConfig \<Rightarrow> StrategyEnv \<Rightarrow> ActuaryContext \<Rightarrow> double" where
  "position_reduce_ratio config env c =
     (if acfg_enable_position_threshold config
      then case copy_position_threshold (se_follower_inst_id env) (ax_balance_position_composite c) of
             None \<Rightarrow> Fin 0
           | Some position_threshold \<Rightarrow> positionReduceRatio position_threshold
      else Fin 0)"

text \<open>
  \<open>bool stop_buy, stop_sell = false\<close> leaves \<open>stop_buy\<close> uninitialised: \<open>stop_buy0\<close> is the value it happens
  to have.
\<close>

definition position_stops ::
  "OrderApi \<Rightarrow> bool \<Rightarrow> ActuaryConfig \<Rightarrow> StrategyEnv \<Rightarrow> AccountPositionInfo \<Rightarrow> bool \<times> bool" where
  "position_stops api stop_buy0 config env position =
     (if positionAmountAbs position \<ge> ic_max_position (se_inst_config env) * to_double (acfg_max_position_zoom config)
      then if positionSide position = PositionSide_LONG api then (True, False) else (stop_buy0, True)
      else (stop_buy0, False))"

definition buy_signal :: "ActuaryConfig \<Rightarrow> InstConfigItem \<Rightarrow> double \<Rightarrow> TickerInfoShm \<Rightarrow> TickerInfoShm
    \<Rightarrow> EarlyRunThresholdShm \<Rightarrow> BetaThresholdShm \<Rightarrow> BetaThresholdShm \<Rightarrow> bool" where
  "buy_signal config inst ratio bt ft er bb fb \<longleftrightarrow>
     tk_bid_price bt / (Fin 1 + (bt_bid_beta_threshold bb + bt_ask_beta_threshold fb) * (Fin 1 + ratio))
       \<ge> tk_ask_price ft + er_bid_ask_median er
     \<and> (\<not> acfg_enable_ticker_size_compare config
        \<or> tk_bid_price bt * tk_bid_size bt \<ge> ic_min_ticker_notional inst
          \<and> tk_bid_price bt * tk_bid_size bt
            \<ge> tk_ask_price ft * tk_ask_size ft * ic_min_ticker_notional_multiple inst)"

definition sell_signal :: "ActuaryConfig \<Rightarrow> InstConfigItem \<Rightarrow> double \<Rightarrow> TickerInfoShm \<Rightarrow> TickerInfoShm
    \<Rightarrow> EarlyRunThresholdShm \<Rightarrow> BetaThresholdShm \<Rightarrow> BetaThresholdShm \<Rightarrow> bool" where
  "sell_signal config inst ratio bt ft er bb fb \<longleftrightarrow>
     tk_ask_price bt * (Fin 1 + (bt_ask_beta_threshold bb + bt_bid_beta_threshold fb) * (Fin 1 - ratio))
       \<le> tk_bid_price ft + er_ask_bid_median er
     \<and> (\<not> acfg_enable_ticker_size_compare config
        \<or> tk_ask_price bt * tk_ask_size bt \<ge> ic_min_ticker_notional inst
          \<and> tk_ask_price bt * tk_ask_size bt
            \<ge> tk_bid_price ft * tk_bid_size ft * ic_min_ticker_notional_multiple inst)"


section \<open>Orders\<close>

text \<open>
  The volume of an order on the side that closes a position held on side \<open>held\<close>: the order size, whether
  the order closes, and the reduce-only flag.
\<close>

definition order_volume ::
  "string \<Rightarrow> ActuaryConfig \<Rightarrow> StrategyEnv \<Rightarrow> AccountPositionInfo \<Rightarrow> double \<times> bool \<times> int" where
  "order_volume held config env position =
     (let order_size = ic_order_size (se_inst_config env) * to_double (acfg_order_size_zoom config)
      in if positionSide position = held
         then if close_only config env \<and> order_size > positionAmountAbs position
              then (positionAmountAbs position, True, 1) else (order_size, True, 0)
         else (order_size, False, 0))"

definition buy_bound :: "StrategyEnv \<Rightarrow> TickerInfoShm \<Rightarrow> EarlyRunThresholdShm \<Rightarrow> double" where
  "buy_bound env bt er = tk_bid_price bt / (Fin 1 + ic_beta (se_inst_config env)) - er_bid_ask_median er"

definition sell_bound :: "StrategyEnv \<Rightarrow> TickerInfoShm \<Rightarrow> EarlyRunThresholdShm \<Rightarrow> double" where
  "sell_bound env bt er = tk_ask_price bt * (Fin 1 + ic_beta (se_inst_config env)) - er_ask_bid_median er"

text \<open>The price of an order and whether it has been adjusted.\<close>

definition buy_price :: "ActuaryConfig \<Rightarrow> StrategyEnv \<Rightarrow> TickerInfoShm \<Rightarrow> TickerInfoShm
    \<Rightarrow> EarlyRunThresholdShm \<Rightarrow> (double \<times> bool) result" where
  "buy_price config env bt ft er =
     (let precision = xi_pricePrecision (se_follower_exchange_info env)
      in bind_result (decimal_process (tk_ask_price ft * (Fin 1 + acfg_order_price_margin config)) precision) (\<lambda>original.
         if acfg_order_price_margin config > Fin 0 \<and> original > buy_bound env bt er
         then bind_result (decimal_process (buy_bound env bt er) precision) (\<lambda>adjusted. Inr (adjusted, True))
         else Inr (original, False)))"

definition sell_price :: "ActuaryConfig \<Rightarrow> StrategyEnv \<Rightarrow> TickerInfoShm \<Rightarrow> TickerInfoShm
    \<Rightarrow> EarlyRunThresholdShm \<Rightarrow> (double \<times> bool) result" where
  "sell_price config env bt ft er =
     (let precision = xi_pricePrecision (se_follower_exchange_info env)
      in bind_result (decimal_process (tk_bid_price ft * (Fin 1 - acfg_order_price_margin config)) precision) (\<lambda>original.
         if acfg_order_price_margin config > Fin 0 \<and> original < sell_bound env bt er
         then bind_result (decimal_process (sell_bound env bt er) precision) (\<lambda>adjusted. Inr (adjusted, True))
         else Inr (original, False)))"

text \<open>\<open>strcpy\<close> into the arrays of a local \<open>OrderShm\<close>. Its version number stays uninitialised; the writer does
  not read it.\<close>

definition make_order_shm :: "OrderApi \<Rightarrow> string \<Rightarrow> string \<Rightarrow> string \<Rightarrow> double \<Rightarrow> double \<Rightarrow> int \<Rightarrow> u64
    \<Rightarrow> OrderShm result" where
  "make_order_shm api follower_inst_id side client_order_id price volume reduce_only now_micros =
     bind_result (memcpy_buf 24 follower_inst_id) (\<lambda>inst.
     bind_result (memcpy_buf 8 (ORDER_TYPE_LIMIT api)) (\<lambda>otype.
     bind_result (memcpy_buf 8 side) (\<lambda>side.
     bind_result (memcpy_buf 8 (PositionSide_BOTH api)) (\<lambda>pos_side.
     bind_result (memcpy_buf 8 (TimeInForce_IOC api)) (\<lambda>time_in_force.
     bind_result (memcpy_buf 40 client_order_id) (\<lambda>client_order_id.
       Inr \<lparr>os_inst_id = inst, os_type = otype, os_side = side, os_pos_side = pos_side,
            os_time_in_force = time_in_force, os_client_order_id = client_order_id, os_price = price,
            os_volume = volume, os_reduce_only = reduce_only, os_update_time = now_micros,
            os_version_number = 0\<rparr>))))))"

text \<open>
  \<open>std::max(int(config.same_price_pause_time_millis * 90 / 100), 50)\<close>: the division truncates toward zero, the
  conversion to \<open>int\<close> keeps the low 32 bits.
\<close>

definition small_pause_time_millis :: "i64 \<Rightarrow> int" where
  "small_pause_time_millis pause =
     (let p = sint (pause * 90)
      in max (sint (word_of_int (sgn p * (\<bar>p\<bar> div 100)) :: 32 word)) 50)"

definition same_price_make_order :: "u64 \<Rightarrow> ActuaryConfig \<Rightarrow> double \<Rightarrow> double \<Rightarrow> u64 \<Rightarrow> int \<Rightarrow> bool" where
  "same_price_make_order now config price latest_price latest_millis reduce_only =
     (if feq price latest_price \<and> latest_millis + acfg_same_price_pause_time_millis config > now
      then if reduce_only = 1
           then latest_millis + word_of_int (small_pause_time_millis (acfg_same_price_pause_time_millis config)) \<le> now
           else False
      else True)"

text \<open>The gates before the write. The first component is the order that is handed to the writer, if any.\<close>

definition submit_order :: "bool \<Rightarrow> bool \<Rightarrow> bool \<Rightarrow> StrategyEnv \<Rightarrow> ActuaryContext \<Rightarrow> OrderShm
    \<Rightarrow> (OrderShm option \<times> ActuaryContext) result" where
  "submit_order stop same_price position_close env c order =
     (if \<not> stop \<and> dynamic_could_make_order c \<and> same_price
         \<and> (position_close \<or> \<not> xi_positionCloseOnly (se_follower_exchange_info env)
            \<and> dynamic_could_make_open_position_order c)
      then bind_result (order_shm_writer_update (order_start (ax_shm_store_info c)) (se_order_shm_index env) order)
             (\<lambda>(_, orders). Inr (Some order,
                c\<lparr>ax_shm_store_info := (ax_shm_store_info c)\<lparr>order_start := orders\<rparr>\<rparr>))
      else Inr (None, c))"

definition make_buy_order :: "OrderApi \<Rightarrow> u64 \<Rightarrow> u64 \<Rightarrow> i64 \<Rightarrow> i64 \<Rightarrow> bool \<Rightarrow> ActuaryConfig \<Rightarrow> StrategyEnv
    \<Rightarrow> AccountPositionInfo \<Rightarrow> TickerInfoShm \<Rightarrow> TickerInfoShm \<Rightarrow> EarlyRunThresholdShm
    \<Rightarrow> StrategyState \<Rightarrow> ActuaryContext \<Rightarrow> (OrderShm option \<times> StrategyState \<times> ActuaryContext) result" where
  "make_buy_order api now now_micros tv_sec tv_usec stop_buy config env position bt ft er st c =
     (let (order_size, position_close, reduce_only) =
            order_volume (PositionSide_SHORT api) config env position
      in bind_result (buy_price config env bt ft er) (\<lambda>(adjusted_buy_price, price_is_adjusted).
         bind_result (make_order_shm api (se_follower_inst_id env) (ORDER_SIDE_BUY api)
             (gen_client_order_id tv_sec tv_usec True price_is_adjusted (ticker_delay now ft) position_close)
             adjusted_buy_price order_size reduce_only now_micros) (\<lambda>order_buy.
           let same_price = same_price_make_order now config adjusted_buy_price
                 (latest_buy_order_price st) (latest_buy_order_millis st) reduce_only;
               st = (if same_price then st\<lparr>latest_buy_order_price := adjusted_buy_price,
                                            latest_buy_order_millis := now\<rparr> else st)
           in bind_result (submit_order stop_buy same_price position_close env c order_buy) (\<lambda>(sent, c).
                Inr (sent, st, c)))))"

definition make_sell_order :: "OrderApi \<Rightarrow> u64 \<Rightarrow> u64 \<Rightarrow> i64 \<Rightarrow> i64 \<Rightarrow> bool \<Rightarrow> ActuaryConfig \<Rightarrow> StrategyEnv
    \<Rightarrow> AccountPositionInfo \<Rightarrow> TickerInfoShm \<Rightarrow> TickerInfoShm \<Rightarrow> EarlyRunThresholdShm
    \<Rightarrow> StrategyState \<Rightarrow> ActuaryContext \<Rightarrow> (OrderShm option \<times> StrategyState \<times> ActuaryContext) result" where
  "make_sell_order api now now_micros tv_sec tv_usec stop_sell config env position bt ft er st c =
     (let (order_size, position_close, reduce_only) =
            order_volume (PositionSide_LONG api) config env position
      in bind_result (sell_price config env bt ft er) (\<lambda>(adjusted_sell_price, price_is_adjusted).
         bind_result (make_order_shm api (se_follower_inst_id env) (ORDER_SIDE_SELL api)
             (gen_client_order_id tv_sec tv_usec False price_is_adjusted (ticker_delay now ft) position_close)
             adjusted_sell_price order_size reduce_only now_micros) (\<lambda>order_sell.
           let same_price = same_price_make_order now config adjusted_sell_price
                 (latest_sell_order_price st) (latest_sell_order_millis st) reduce_only;
               st = (if same_price then st\<lparr>latest_sell_order_price := adjusted_sell_price,
                                            latest_sell_order_millis := now\<rparr> else st)
           in bind_result (submit_order stop_sell same_price position_close env c order_sell) (\<lambda>(sent, c).
                Inr (sent, st, c)))))"

section \<open>One iteration\<close>

record StrategyClock =
  sk_now :: u64
  sk_now_micros :: u64
  sk_tv_sec :: i64
  sk_tv_usec :: i64

definition strategy_signal :: "OrderApi \<Rightarrow> StrategyClock \<Rightarrow> bool \<Rightarrow> ActuaryConfig \<Rightarrow> StrategyEnv
    \<Rightarrow> TickerInfoShm \<Rightarrow> TickerInfoShm \<Rightarrow> EarlyRunThresholdShm \<Rightarrow> BetaThresholdShm \<Rightarrow> BetaThresholdShm
    \<Rightarrow> StrategyState \<Rightarrow> ActuaryContext \<Rightarrow> (OrderShm option \<times> StrategyState \<times> ActuaryContext) result" where
  "strategy_signal api clk stop_buy0 config env bt ft er bb fb st c =
     (case copy_position (se_follower_inst_id env) (ax_balance_position_composite c) of
        None \<Rightarrow> Inr (None, st, c)
      | Some position \<Rightarrow>
          let ratio = position_reduce_ratio config env c
          in if close_only config env \<and> feq (positionAmount position) (Fin 0) then Inr (None, st, c)
             else
               let (stop_buy, stop_sell) = position_stops api stop_buy0 config env position
               in if buy_signal config (se_inst_config env) ratio bt ft er bb fb
                  then make_buy_order api (sk_now clk) (sk_now_micros clk) (sk_tv_sec clk) (sk_tv_usec clk)
                         stop_buy config env position bt ft er st c
                  else if sell_signal config (se_inst_config env) ratio bt ft er bb fb
                  then make_sell_order api (sk_now clk) (sk_now_micros clk) (sk_tv_sec clk) (sk_tv_usec clk)
                         stop_sell config env position bt ft er st c
                  else Inr (None, st, c))"

definition strategy_step :: "OrderApi \<Rightarrow> StrategyClock \<Rightarrow> bool \<Rightarrow> ActuaryConfig \<Rightarrow> StrategyEnv
    \<Rightarrow> StrategyState \<Rightarrow> ActuaryContext \<Rightarrow> (OrderShm option \<times> StrategyState \<times> ActuaryContext) result" where
  "strategy_step api clk stop_buy0 config env st c =
     bind_result (read_tickers config env c st) (\<lambda>(tickers, st).
       case tickers of
         None \<Rightarrow> Inr (None, st, c)
       | Some (bt, ft) \<Rightarrow>
           bind_result (read_thresholds env c st) (\<lambda>(thresholds, st).
             case thresholds of
               None \<Rightarrow> Inr (None, st, c)
             | Some (er, bb, fb) \<Rightarrow>
                 if tickers_expired (sk_now clk) config bt ft then Inr (None, st, c)
                 else if thresholds_expired (sk_now clk) config er bb fb then Inr (None, st, c)
                 else strategy_signal api clk stop_buy0 config env bt ft er bb fb st c))"


section \<open>Lemmas\<close>

lemma submit_order_cases:
  assumes "submit_order stop same closing env c order = Inr (sent, c')"
  shows "(sent = None \<and> c' = c) \<or>
    (sent = Some order \<and> \<not> stop \<and> same \<and> dynamic_could_make_order c
     \<and> (closing \<or> \<not> xi_positionCloseOnly (se_follower_exchange_info env) \<and> dynamic_could_make_open_position_order c)
     \<and> (\<exists>r orders. order_shm_writer_update (order_start (ax_shm_store_info c)) (se_order_shm_index env) order
           = Inr (r, orders)
         \<and> c' = c\<lparr>ax_shm_store_info := (ax_shm_store_info c)\<lparr>order_start := orders\<rparr>\<rparr>))"
  using assms by (auto simp: submit_order_def bind_result_Inr_iff split: if_splits)

lemma make_order_shm_Inr:
  "make_order_shm api inst side cid price volume reduce t = Inr order \<longleftrightarrow>
     length inst < 24 \<and> length (ORDER_TYPE_LIMIT api) < 8 \<and> length side < 8
     \<and> length (PositionSide_BOTH api) < 8 \<and> length (TimeInForce_IOC api) < 8 \<and> length cid < 40
     \<and> order = \<lparr>os_inst_id = inst, os_type = ORDER_TYPE_LIMIT api, os_side = side,
         os_pos_side = PositionSide_BOTH api, os_time_in_force = TimeInForce_IOC api,
         os_client_order_id = cid, os_price = price, os_volume = volume, os_reduce_only = reduce,
         os_update_time = t, os_version_number = 0\<rparr>"
  by (auto simp: make_order_shm_def bind_result_Inr_iff memcpy_buf_Inr_iff)

text \<open>What is known of an order that one side of the strategy sends, for either side.\<close>

definition order_sent_ok :: "OrderApi \<Rightarrow> StrategyClock \<Rightarrow> string \<Rightarrow> string \<Rightarrow> bool \<Rightarrow> ActuaryConfig \<Rightarrow> StrategyEnv
    \<Rightarrow> AccountPositionInfo \<Rightarrow> (double \<times> bool) result \<Rightarrow> double \<Rightarrow> u64 \<Rightarrow> ActuaryContext \<Rightarrow> OrderShm
    \<Rightarrow> ActuaryContext \<Rightarrow> bool" where
  "order_sent_ok api clk side held stop config env position price latest_price latest_millis c order c' \<longleftrightarrow>
     \<not> stop \<and> dynamic_could_make_order c
     \<and> order_fits order
     \<and> os_inst_id order = se_follower_inst_id env \<and> os_side order = side
     \<and> os_update_time order = sk_now_micros clk
     \<and> (\<exists>closing. order_volume held config env position = (os_volume order, closing, os_reduce_only order)
         \<and> (closing \<or> \<not> xi_positionCloseOnly (se_follower_exchange_info env)
             \<and> dynamic_could_make_open_position_order c))
     \<and> (\<exists>adjusted. price = Inr (os_price order, adjusted))
     \<and> same_price_make_order (sk_now clk) config (os_price order) latest_price latest_millis (os_reduce_only order)
     \<and> (\<exists>r orders. order_shm_writer_update (order_start (ax_shm_store_info c)) (se_order_shm_index env) order
           = Inr (r, orders)
         \<and> c' = c\<lparr>ax_shm_store_info := (ax_shm_store_info c)\<lparr>order_start := orders\<rparr>\<rparr>)"

lemma make_buy_order_sent:
  assumes "make_buy_order api (sk_now clk) (sk_now_micros clk) s u stop config env position bt ft er st c = Inr (sent, st', c')"
  shows "(sent = None \<and> c' = c) \<or> (\<exists>order. sent = Some order
     \<and> order_sent_ok api clk (ORDER_SIDE_BUY api) (PositionSide_SHORT api) stop config env position
         (buy_price config env bt ft er) (latest_buy_order_price st) (latest_buy_order_millis st) c order c'
     \<and> st' = st\<lparr>latest_buy_order_price := os_price order, latest_buy_order_millis := sk_now clk\<rparr>)"
proof -
  obtain vol closing reduce where v: "order_volume (PositionSide_SHORT api) config env position = (vol, closing, reduce)"
    by (metis prod_cases3)
  obtain price adj order where p: "buy_price config env bt ft er = Inr (price, adj)"
    and o: "make_order_shm api (se_follower_inst_id env) (ORDER_SIDE_BUY api)
      (gen_client_order_id s u True adj (ticker_delay (sk_now clk) ft) closing) price vol reduce (sk_now_micros clk)
      = Inr order"
    and "submit_order stop (same_price_make_order (sk_now clk) config price (latest_buy_order_price st)
        (latest_buy_order_millis st) reduce) closing env c order = Inr (sent, c')"
    and st: "st' = (if same_price_make_order (sk_now clk) config price (latest_buy_order_price st)
        (latest_buy_order_millis st) reduce
      then st\<lparr>latest_buy_order_price := price, latest_buy_order_millis := sk_now clk\<rparr> else st)"
    using assms by (auto simp: make_buy_order_def v Let_def bind_result_Inr_iff)
  from submit_order_cases[OF this(3)] show ?thesis
  proof
    assume "sent = Some order \<and> \<not> stop \<and> same_price_make_order (sk_now clk) config price
        (latest_buy_order_price st) (latest_buy_order_millis st) reduce \<and> dynamic_could_make_order c
      \<and> (closing \<or> \<not> xi_positionCloseOnly (se_follower_exchange_info env) \<and> dynamic_could_make_open_position_order c)
      \<and> (\<exists>r orders. order_shm_writer_update (order_start (ax_shm_store_info c)) (se_order_shm_index env) order
          = Inr (r, orders)
        \<and> c' = c\<lparr>ax_shm_store_info := (ax_shm_store_info c)\<lparr>order_start := orders\<rparr>\<rparr>)"
    then show ?thesis using v p o st
      by (intro disjI2 exI[of _ order]) (simp add: order_sent_ok_def make_order_shm_Inr order_fits_def)
  qed simp
qed

lemma make_sell_order_sent:
  assumes "make_sell_order api (sk_now clk) (sk_now_micros clk) s u stop config env position bt ft er st c = Inr (sent, st', c')"
  shows "(sent = None \<and> c' = c) \<or> (\<exists>order. sent = Some order
     \<and> order_sent_ok api clk (ORDER_SIDE_SELL api) (PositionSide_LONG api) stop config env position
         (sell_price config env bt ft er) (latest_sell_order_price st) (latest_sell_order_millis st) c order c'
     \<and> st' = st\<lparr>latest_sell_order_price := os_price order, latest_sell_order_millis := sk_now clk\<rparr>)"
proof -
  obtain vol closing reduce where v: "order_volume (PositionSide_LONG api) config env position = (vol, closing, reduce)"
    by (metis prod_cases3)
  obtain price adj order where p: "sell_price config env bt ft er = Inr (price, adj)"
    and o: "make_order_shm api (se_follower_inst_id env) (ORDER_SIDE_SELL api)
      (gen_client_order_id s u False adj (ticker_delay (sk_now clk) ft) closing) price vol reduce (sk_now_micros clk)
      = Inr order"
    and "submit_order stop (same_price_make_order (sk_now clk) config price (latest_sell_order_price st)
        (latest_sell_order_millis st) reduce) closing env c order = Inr (sent, c')"
    and st: "st' = (if same_price_make_order (sk_now clk) config price (latest_sell_order_price st)
        (latest_sell_order_millis st) reduce
      then st\<lparr>latest_sell_order_price := price, latest_sell_order_millis := sk_now clk\<rparr> else st)"
    using assms by (auto simp: make_sell_order_def v Let_def bind_result_Inr_iff)
  from submit_order_cases[OF this(3)] show ?thesis
  proof
    assume "sent = Some order \<and> \<not> stop \<and> same_price_make_order (sk_now clk) config price
        (latest_sell_order_price st) (latest_sell_order_millis st) reduce \<and> dynamic_could_make_order c
      \<and> (closing \<or> \<not> xi_positionCloseOnly (se_follower_exchange_info env) \<and> dynamic_could_make_open_position_order c)
      \<and> (\<exists>r orders. order_shm_writer_update (order_start (ax_shm_store_info c)) (se_order_shm_index env) order
          = Inr (r, orders)
        \<and> c' = c\<lparr>ax_shm_store_info := (ax_shm_store_info c)\<lparr>order_start := orders\<rparr>\<rparr>)"
    then show ?thesis using v p o st
      by (intro disjI2 exI[of _ order]) (simp add: order_sent_ok_def make_order_shm_Inr order_fits_def)
  qed simp
qed

lemma read_tickers_Some:
  assumes "read_tickers config env c st = Inr (Some (bt, ft), st')"
  shows "ticker_shm_reader_get (benchmark_start (ax_shm_store_info c)) (se_benchmark_shm_index env) = Inr bt
    \<and> ticker_shm_reader_get (follower_start (ax_shm_store_info c)) (se_follower_shm_index env) = Inr ft
    \<and> tk_version_number bt \<noteq> 0 \<and> tk_version_number ft \<noteq> 0"
  using assms by (auto simp: read_tickers_def bind_result_Inr_iff Let_def split: if_splits)

text \<open>The remembered ticker versions only grow, and an iteration that goes on has seen a new one.\<close>

definition ticker_versions :: "StrategyState \<Rightarrow> int" where
  "ticker_versions st = sint (benchmark_ticker_version st) + sint (follower_ticker_version st)"

definition versions_le :: "StrategyState \<Rightarrow> StrategyState \<Rightarrow> bool" where
  "versions_le st st' \<longleftrightarrow>
     sint (benchmark_ticker_version st) \<le> sint (benchmark_ticker_version st')
     \<and> sint (follower_ticker_version st) \<le> sint (follower_ticker_version st')
     \<and> sint (early_run_version st) \<le> sint (early_run_version st')
     \<and> sint (benchmark_beta_version st) \<le> sint (benchmark_beta_version st')
     \<and> sint (follower_beta_version st) \<le> sint (follower_beta_version st')"

definition same_order_memory :: "StrategyState \<Rightarrow> StrategyState \<Rightarrow> bool" where
  "same_order_memory st st' \<longleftrightarrow>
     latest_buy_order_price st' = latest_buy_order_price st
     \<and> latest_buy_order_millis st' = latest_buy_order_millis st
     \<and> latest_sell_order_price st' = latest_sell_order_price st
     \<and> latest_sell_order_millis st' = latest_sell_order_millis st"

lemma read_tickers_versions:
  assumes "read_tickers config env c st = Inr (r, st')"
  shows "same_order_memory st st' \<and> ticker_versions st + (if r = None then 0 else 1) \<le> ticker_versions st'
    \<and> versions_le st st'"
  using assms
  by (auto simp: read_tickers_def bind_result_Inr_iff Let_def ticker_versions_def same_order_memory_def
      versions_le_def word_sless_alt split: if_splits)

lemma read_thresholds_Some:
  assumes "read_thresholds env c st = Inr (Some (er, bb, fb), st')"
  shows "early_run_shm_reader_get (early_run_start (ax_shm_store_info c)) (se_threshold_shm_index env) = Inr er
    \<and> beta_shm_reader_get (benchmark_beta_start (ax_shm_store_info c)) (se_threshold_shm_index env) = Inr bb
    \<and> beta_shm_reader_get (follower_beta_start (ax_shm_store_info c)) (se_threshold_shm_index env) = Inr fb
    \<and> er_version_number er \<noteq> 0 \<and> bt_version_number bb \<noteq> 0 \<and> bt_version_number fb \<noteq> 0"
  using assms by (auto simp: read_thresholds_def bind_result_Inr_iff Let_def split: if_splits)

lemma raise_threshold_versions_le:
  "same_order_memory st (raise_threshold_versions er bb fb st)
   \<and> versions_le st (raise_threshold_versions er bb fb st)
   \<and> ticker_versions (raise_threshold_versions er bb fb st) = ticker_versions st"
  by (simp add: raise_threshold_versions_def Let_def same_order_memory_def ticker_versions_def versions_le_def word_sless_alt)

lemma read_thresholds_versions:
  assumes "read_thresholds env c st = Inr (r, st')"
  shows "same_order_memory st st' \<and> ticker_versions st' = ticker_versions st \<and> versions_le st st'"
  using assms raise_threshold_versions_le[of st]
  by (auto simp: read_thresholds_def bind_result_Inr_iff same_order_memory_def ticker_versions_def versions_le_def
      word_sless_alt split: if_split_asm)


lemma make_order_versions:
  "make_buy_order api t m s u stop config env position bt ft er st c = Inr (sent, st', c') \<Longrightarrow>
     ticker_versions st' = ticker_versions st \<and> (versions_le w st \<longrightarrow> versions_le w st')"
  "make_sell_order api t m s u stop config env position bt ft er st c = Inr (sent, st', c') \<Longrightarrow>
     ticker_versions st' = ticker_versions st \<and> (versions_le w st \<longrightarrow> versions_le w st')"
  by (auto simp: make_buy_order_def make_sell_order_def Let_def bind_result_Inr_iff ticker_versions_def versions_le_def
      split: prod.splits)

lemma strategy_signal_versions:
  assumes "strategy_signal api clk sb config env bt ft er bb fb st c = Inr (sent, st', c')"
  shows "ticker_versions st' = ticker_versions st \<and> (versions_le w st \<longrightarrow> versions_le w st')"
  using assms make_order_versions[where w = w]
  by (simp add: strategy_signal_def Let_def split: option.splits if_split_asm prod.splits)

lemma versions_le_trans: "versions_le a b \<Longrightarrow> versions_le b c \<Longrightarrow> versions_le a c"
  by (simp add: versions_le_def)

text \<open>The inputs from which an order may be made: readable, published, not expired, with a known position.\<close>

definition fresh_inputs :: "StrategyClock \<Rightarrow> ActuaryConfig \<Rightarrow> StrategyEnv \<Rightarrow> ActuaryContext \<Rightarrow> TickerInfoShm \<Rightarrow> TickerInfoShm
    \<Rightarrow> EarlyRunThresholdShm \<Rightarrow> BetaThresholdShm \<Rightarrow> BetaThresholdShm \<Rightarrow> AccountPositionInfo \<Rightarrow> bool" where
  "fresh_inputs clk config env c bt ft er bb fb position \<longleftrightarrow>
     ticker_shm_reader_get (benchmark_start (ax_shm_store_info c)) (se_benchmark_shm_index env) = Inr bt
     \<and> ticker_shm_reader_get (follower_start (ax_shm_store_info c)) (se_follower_shm_index env) = Inr ft
     \<and> early_run_shm_reader_get (early_run_start (ax_shm_store_info c)) (se_threshold_shm_index env) = Inr er
     \<and> beta_shm_reader_get (benchmark_beta_start (ax_shm_store_info c)) (se_threshold_shm_index env) = Inr bb
     \<and> beta_shm_reader_get (follower_beta_start (ax_shm_store_info c)) (se_threshold_shm_index env) = Inr fb
     \<and> tk_version_number bt \<noteq> 0 \<and> tk_version_number ft \<noteq> 0
     \<and> er_version_number er \<noteq> 0 \<and> bt_version_number bb \<noteq> 0 \<and> bt_version_number fb \<noteq> 0
     \<and> \<not> tickers_expired (sk_now clk) config bt ft \<and> \<not> thresholds_expired (sk_now clk) config er bb fb
     \<and> copy_position (se_follower_inst_id env) (ax_balance_position_composite c) = Some position
     \<and> \<not> (close_only config env \<and> feq (positionAmount position) (Fin 0))"

text \<open>The two ways in which an iteration sends an order.\<close>

definition buy_sent :: "OrderApi \<Rightarrow> StrategyClock \<Rightarrow> bool \<Rightarrow> ActuaryConfig \<Rightarrow> StrategyEnv \<Rightarrow> AccountPositionInfo
    \<Rightarrow> TickerInfoShm \<Rightarrow> TickerInfoShm \<Rightarrow> EarlyRunThresholdShm \<Rightarrow> BetaThresholdShm \<Rightarrow> BetaThresholdShm
    \<Rightarrow> StrategyState \<Rightarrow> ActuaryContext \<Rightarrow> OrderShm \<Rightarrow> ActuaryContext \<Rightarrow> bool" where
  "buy_sent api clk sb config env position bt ft er bb fb st c order c' \<longleftrightarrow>
     buy_signal config (se_inst_config env) (position_reduce_ratio config env c) bt ft er bb fb
     \<and> order_sent_ok api clk (ORDER_SIDE_BUY api) (PositionSide_SHORT api)
         (fst (position_stops api sb config env position)) config env position
         (buy_price config env bt ft er) (latest_buy_order_price st) (latest_buy_order_millis st) c order c'"

definition sell_sent :: "OrderApi \<Rightarrow> StrategyClock \<Rightarrow> bool \<Rightarrow> ActuaryConfig \<Rightarrow> StrategyEnv \<Rightarrow> AccountPositionInfo
    \<Rightarrow> TickerInfoShm \<Rightarrow> TickerInfoShm \<Rightarrow> EarlyRunThresholdShm \<Rightarrow> BetaThresholdShm \<Rightarrow> BetaThresholdShm
    \<Rightarrow> StrategyState \<Rightarrow> ActuaryContext \<Rightarrow> OrderShm \<Rightarrow> ActuaryContext \<Rightarrow> bool" where
  "sell_sent api clk sb config env position bt ft er bb fb st c order c' \<longleftrightarrow>
     sell_signal config (se_inst_config env) (position_reduce_ratio config env c) bt ft er bb fb
     \<and> order_sent_ok api clk (ORDER_SIDE_SELL api) (PositionSide_LONG api)
         (snd (position_stops api sb config env position)) config env position
         (sell_price config env bt ft er) (latest_sell_order_price st) (latest_sell_order_millis st) c order c'"

lemma strategy_signal_sent:
  assumes "strategy_signal api clk sb config env bt ft er bb fb st c = Inr (sent, st', c')"
  shows "(sent = None \<and> c' = c) \<or> (\<exists>position order. sent = Some order
    \<and> copy_position (se_follower_inst_id env) (ax_balance_position_composite c) = Some position
    \<and> \<not> (close_only config env \<and> feq (positionAmount position) (Fin 0))
    \<and> (buy_sent api clk sb config env position bt ft er bb fb st c order c'
       \<or> sell_sent api clk sb config env position bt ft er bb fb st c order c'))"
proof (cases "copy_position (se_follower_inst_id env) (ax_balance_position_composite c)")
  case (Some position)
  let ?r = "position_reduce_ratio config env c"
  obtain stop_buy stop_sell where p: "position_stops api sb config env position = (stop_buy, stop_sell)" by fastforce
  show ?thesis
  proof (cases "close_only config env \<and> feq (positionAmount position) (Fin 0)")
    case False
    consider (buy) "buy_signal config (se_inst_config env) ?r bt ft er bb fb"
        "make_buy_order api (sk_now clk) (sk_now_micros clk) (sk_tv_sec clk) (sk_tv_usec clk)
           stop_buy config env position bt ft er st c = Inr (sent, st', c')"
      | (sell) "sell_signal config (se_inst_config env) ?r bt ft er bb fb"
        "make_sell_order api (sk_now clk) (sk_now_micros clk) (sk_tv_sec clk) (sk_tv_usec clk)
           stop_sell config env position bt ft er st c = Inr (sent, st', c')"
      | (none) "sent = None" "c' = c"
      using assms Some p False by (auto simp: strategy_signal_def Let_def split: if_split_asm)
    then show ?thesis
    proof cases
      case buy
      then show ?thesis using make_buy_order_sent[OF buy(2)] p Some False by (auto simp: buy_sent_def)
    next
      case sell
      then show ?thesis using make_sell_order_sent[OF sell(2)] p Some False by (auto simp: sell_sent_def)
    qed simp
  qed (use assms Some in \<open>simp add: strategy_signal_def\<close>)
qed (use assms in \<open>simp add: strategy_signal_def\<close>)

lemma order_sent_ok_memory:
  assumes "same_order_memory st st'"
  shows "buy_sent api clk sb config env position bt ft er bb fb st' = buy_sent api clk sb config env position bt ft er bb fb st"
    and "sell_sent api clk sb config env position bt ft er bb fb st' = sell_sent api clk sb config env position bt ft er bb fb st"
  using assms by (auto simp: buy_sent_def sell_sent_def same_order_memory_def fun_eq_iff)

lemma strategy_step_cases:
  assumes "strategy_step api clk sb config env st c = Inr (sent, st', c')"
  obtains (tickers) "sent = None" "c' = c" "read_tickers config env c st = Inr (None, st')"
  | (thresholds) x st1 r where "sent = None" "c' = c" "read_tickers config env c st = Inr (Some x, st1)"
      "read_thresholds env c st1 = Inr (r, st')"
  | (signal) bt ft st1 er bb fb st2 where "read_tickers config env c st = Inr (Some (bt, ft), st1)"
      "read_thresholds env c st1 = Inr (Some (er, bb, fb), st2)"
      "\<not> tickers_expired (sk_now clk) config bt ft" "\<not> thresholds_expired (sk_now clk) config er bb fb"
      "strategy_signal api clk sb config env bt ft er bb fb st2 c = Inr (sent, st', c')"
proof -
  obtain tk st1 where tk: "read_tickers config env c st = Inr (tk, st1)"
    using assms by (auto simp: strategy_step_def bind_result_Inr_iff)
  show thesis
  proof (cases tk)
    case None
    then show thesis using assms tk tickers by (simp add: strategy_step_def)
  next
    case (Some x)
    obtain bt ft where x: "x = (bt, ft)" by fastforce
    obtain th st2 where th: "read_thresholds env c st1 = Inr (th, st2)"
      using assms tk Some x by (auto simp: strategy_step_def bind_result_Inr_iff)
    show thesis
    proof (cases th)
      case None
      then show thesis using assms tk Some x th thresholds by (simp add: strategy_step_def)
    next
      case th_Some: (Some y)
      obtain er bb fb where y: "y = (er, bb, fb)" by (metis prod_cases3)
      show thesis
        using assms tk Some x th th_Some y thresholds signal
        by (simp add: strategy_step_def split: if_split_asm)
    qed
  qed
qed

lemma strategy_step_sent:
  assumes "strategy_step api clk sb config env st c = Inr (sent, st', c')"
  shows "(sent = None \<and> c' = c) \<or> (\<exists>bt ft er bb fb position order. sent = Some order
    \<and> fresh_inputs clk config env c bt ft er bb fb position
    \<and> (buy_sent api clk sb config env position bt ft er bb fb st c order c'
       \<or> sell_sent api clk sb config env position bt ft er bb fb st c order c'))"
  using assms
proof (cases rule: strategy_step_cases)
  case (signal bt ft st1 er bb fb st2)
  have m: "same_order_memory st st2"
    using read_tickers_versions[OF signal(1)] read_thresholds_versions[OF signal(2)] by (auto simp: same_order_memory_def)
  show ?thesis
    using strategy_signal_sent[OF signal(5)] read_tickers_Some[OF signal(1)] read_thresholds_Some[OF signal(2)] signal(3,4)
    unfolding order_sent_ok_memory[OF m] fresh_inputs_def by blast
qed simp_all

lemma strategy_step_versions:
  assumes "strategy_step api clk sb config env st c = Inr (sent, st', c')"
  shows "versions_le st st' \<and> ticker_versions st + (if sent = None then 0 else 1) \<le> ticker_versions st'"
  using assms
proof (cases rule: strategy_step_cases)
  case tickers
  then show ?thesis using read_tickers_versions[OF tickers(3)] by simp
next
  case (thresholds x st1 r)
  then show ?thesis
    using read_tickers_versions[OF thresholds(3)] read_thresholds_versions[OF thresholds(4)]
    by (auto intro: versions_le_trans)
next
  case (signal bt ft st1 er bb fb st2)
  then show ?thesis
    using read_tickers_versions[OF signal(1)] read_thresholds_versions[OF signal(2)]
      strategy_signal_versions[OF signal(5), of st] by (auto intro: versions_le_trans)
qed

text \<open>An iteration reads the segments, the own position and its threshold, and the switches; it writes the order segment only.\<close>

definition same_inputs :: "ActuaryConfig \<Rightarrow> StrategyEnv \<Rightarrow> ActuaryContext \<Rightarrow> ActuaryContext \<Rightarrow> bool" where
  "same_inputs config env c d \<longleftrightarrow> ax_shm_store_info d = ax_shm_store_info c
     \<and> copy_position (se_follower_inst_id env) (ax_balance_position_composite d)
       = copy_position (se_follower_inst_id env) (ax_balance_position_composite c)
     \<and> position_reduce_ratio config env d = position_reduce_ratio config env c
     \<and> ax_dynamic_config d = ax_dynamic_config c"

lemma same_inputs_reads:
  assumes "same_inputs config env c d"
  shows "read_tickers config env d st = read_tickers config env c st"
    and "read_thresholds env d st = read_thresholds env c st"
    and "position_reduce_ratio config env d = position_reduce_ratio config env c"
    and "dynamic_could_make_order d = dynamic_could_make_order c"
    and "dynamic_could_make_open_position_order d = dynamic_could_make_open_position_order c"
    and "copy_position (se_follower_inst_id env) (ax_balance_position_composite d)
       = copy_position (se_follower_inst_id env) (ax_balance_position_composite c)"
  using assms by (simp_all add: same_inputs_def read_tickers_def read_thresholds_def
      dynamic_could_make_order_def dynamic_could_make_open_position_order_def)

definition reframe :: "ActuaryContext \<Rightarrow> ActuaryContext \<Rightarrow> ActuaryContext" where
  "reframe d c' = d\<lparr>ax_shm_store_info := ax_shm_store_info c'\<rparr>"

lemma map_bind_result: "map_sum id f (bind_result r g) = bind_result r (\<lambda>x. map_sum id f (g x))"
  by (cases r) simp_all

lemma reframe_same: "same_inputs config env c d \<Longrightarrow> reframe d c = d"
  by (cases d) (simp add: reframe_def same_inputs_def)

lemma submit_order_frame:
  assumes "same_inputs config env c d"
  shows "submit_order stop same closing env d order = map_sum id (map_prod id (reframe d)) (submit_order stop same closing env c order)"
proof -
  have "ax_shm_store_info d = ax_shm_store_info c" using assms by (simp add: same_inputs_def)
  then show ?thesis
    by (cases "order_shm_writer_update (order_start (ax_shm_store_info c)) (se_order_shm_index env) order")
      (auto simp: submit_order_def same_inputs_reads(4,5)[OF assms] reframe_same[OF assms] reframe_def)
qed

lemma make_order_frame:
  assumes "same_inputs config env c d"
  shows "make_buy_order api now m s u stop config env position bt ft er st d
      = map_sum id (map_prod id (map_prod id (reframe d))) (make_buy_order api now m s u stop config env position bt ft er st c)"
    and "make_sell_order api now m s u stop config env position bt ft er st d
      = map_sum id (map_prod id (map_prod id (reframe d))) (make_sell_order api now m s u stop config env position bt ft er st c)"
proof -
  have b: "bind_result (map_sum id (map_prod id (reframe d)) r) (\<lambda>(sent, c). Inr (sent, st, c))
      = map_sum id (map_prod id (map_prod id (reframe d))) (bind_result r (\<lambda>(sent, c). Inr (sent, st, c)))" for st and r :: "(OrderShm option \<times> ActuaryContext) result"
    by (cases r) (auto split: prod.split)
  show "make_buy_order api now m s u stop config env position bt ft er st d
      = map_sum id (map_prod id (map_prod id (reframe d))) (make_buy_order api now m s u stop config env position bt ft er st c)"
    unfolding make_buy_order_def Let_def case_prod_beta map_bind_result submit_order_frame[OF assms] b[unfolded case_prod_beta] ..
  show "make_sell_order api now m s u stop config env position bt ft er st d
      = map_sum id (map_prod id (map_prod id (reframe d))) (make_sell_order api now m s u stop config env position bt ft er st c)"
    unfolding make_sell_order_def Let_def case_prod_beta map_bind_result submit_order_frame[OF assms] b[unfolded case_prod_beta] ..
qed

lemma strategy_signal_frame:
  assumes "same_inputs config env c d"
  shows "strategy_signal api clk sb config env bt ft er bb fb st d
    = map_sum id (map_prod id (map_prod id (reframe d))) (strategy_signal api clk sb config env bt ft er bb fb st c)"
  by (simp add: strategy_signal_def same_inputs_reads[OF assms] make_order_frame[OF assms] Let_def case_prod_beta
      reframe_same[OF assms] split: option.split)

lemma strategy_step_frame:
  assumes "same_inputs config env c d"
  shows "strategy_step api clk sb config env st d
    = map_sum id (map_prod id (map_prod id (reframe d))) (strategy_step api clk sb config env st c)"
proof (cases "read_tickers config env c st")
  case (Inr a)
  obtain tickers st1 where a: "a = (tickers, st1)" by fastforce
  show ?thesis
    by (cases "read_thresholds env c st1")
      (auto simp: strategy_step_def same_inputs_reads(1,2)[OF assms] Inr a strategy_signal_frame[OF assms] reframe_same[OF assms]
        split: option.split)
qed (simp add: strategy_step_def same_inputs_reads(1)[OF assms])

section \<open>Runs\<close>

text \<open>
  A run of the loop. Between two iterations the other threads and processes may change the context, so that
  each iteration has its own. The result lists the orders that were handed to the order segment.
\<close>

fun run_strategy :: "OrderApi \<Rightarrow> ActuaryConfig \<Rightarrow> StrategyEnv \<Rightarrow> (StrategyClock \<times> bool \<times> ActuaryContext) list
    \<Rightarrow> StrategyState \<Rightarrow> (OrderShm list \<times> StrategyState) result" where
  "run_strategy api config env [] st = Inr ([], st)"
| "run_strategy api config env ((clk, sb, c) # inputs) st =
     bind_result (strategy_step api clk sb config env st c) (\<lambda>(sent, st, _).
     bind_result (run_strategy api config env inputs st) (\<lambda>(orders, st).
       Inr ((case sent of None \<Rightarrow> orders | Some order \<Rightarrow> order # orders), st)))"

lemma run_strategy_versions:
  assumes "run_strategy api config env inputs st = Inr (orders, st')"
  shows "versions_le st st' \<and> ticker_versions st + int (length orders) \<le> ticker_versions st'"
  using assms
proof (induction inputs arbitrary: st orders)
  case Nil
  then show ?case by (simp add: versions_le_def)
next
  case (Cons i inputs)
  obtain clk sb c where i: "i = (clk, sb, c)" by (metis prod_cases3)
  obtain sent st1 c' os where s: "strategy_step api clk sb config env st c = Inr (sent, st1, c')"
    "run_strategy api config env inputs st1 = Inr (os, st')"
    "orders = (case sent of None \<Rightarrow> os | Some order \<Rightarrow> order # os)"
    using Cons.prems i by (auto simp: bind_result_Inr_iff)
  show ?case
    using strategy_step_versions[OF s(1)] Cons.IH[OF s(2)] s(3)
    by (auto intro: versions_le_trans split: option.splits)
qed

lemma order_volume_close:
  assumes "order_volume held config env position = (v, closing, reduce)"
  shows "closing \<longleftrightarrow> positionSide position = held"
    and "close_only config env \<Longrightarrow> closing \<Longrightarrow> \<not> v > positionAmountAbs position"
  using assms by (auto simp: order_volume_def Let_def split: if_splits)

lemma writer_update_slot:
  assumes "order_shm_writer_update seg i order = Inr (r, seg')"
  shows "length seg' = length seg \<and> (\<forall>j. j \<noteq> i \<longrightarrow> seg_get seg' j = seg_get seg j)"
  using assms by (auto simp: order_shm_writer_update_def seg_modify_Inr_iff seg_set_length seg_get_set_other)

section \<open>A concrete instance\<close>

text \<open>
  One asset in close-only operation with a short position of 1, an order size of 2, a benchmark bid of 12 and a
  follower ask of 10: the iteration buys 1 at the bound 12.
\<close>

definition sample_api :: OrderApi where
  "sample_api = \<lparr>PositionSide_BOTH = ''BOTH'', PositionSide_LONG = ''LONG'', PositionSide_SHORT = ''SHORT'',
     OrderSide_BUY = ''BUY'', OrderSide_SELL = ''SELL'', ORDER_TYPE_LIMIT = ''LIMIT'', ORDER_SIDE_BUY = ''BUY'',
     ORDER_SIDE_SELL = ''SELL'', TimeInForce_IOC = ''IOC''\<rparr>"

definition sample_actuary_config :: ActuaryConfig where
  "sample_actuary_config = \<lparr>margin_ratio_thresholds = [Fin 1, Fin 2], bnb_balance_thresholds = [Fin 1, Fin 2],
     tg_send_message = False, dt_group_main_node = False, account_flag = ''a'',
     acfg_stop_make_order = False, acfg_make_position_close_only = True, acfg_order_size_zoom = 1,
     acfg_max_position_zoom = 1, acfg_enable_benchmark_ticker_trigger = True,
     acfg_enable_follower_ticker_trigger = True, acfg_benchmark_ticker_validity_millis = 50,
     acfg_follower_ticker_validity_millis = 50, acfg_threshold_validity_millis = 50,
     acfg_order_price_margin = Fin 1, acfg_enable_position_threshold = False,
     acfg_position_threshold_margin = Fin 0, acfg_enable_ticker_size_compare = False,
     acfg_same_price_pause_time_millis = 10, acfg_benchmark_quote_asset = ''USDT'',
     acfg_follower_quote_asset = ''USDC'', acfg_shm_group_main_node = False,
     acfg_enable_load_order_to_zmq = False, acfg_enable_save_no_volume_order = False,
     acfg_node_base_assets = [''BTC''], acfg_node_close_base_assets = [], acfg_all_base_assets = [''BTC'']\<rparr>"

definition sample_env :: StrategyEnv where
  "sample_env = \<lparr>se_follower_inst_id = ''BTCUSDC'',
     se_follower_exchange_info = \<lparr>xi_symbol = ''BTCUSDC'', xi_baseAsset = ''BTC'', xi_pricePrecision = 0,
       xi_quantityPrecision = 0, xi_minPrice = Fin 1, xi_tickSize = Fin 1, xi_minQty = Fin 1, xi_stepSize = Fin 1,
       xi_positionCloseOnly = False\<rparr>,
     se_benchmark_shm_index = 0, se_follower_shm_index = 0, se_threshold_shm_index = 0, se_order_shm_index = 0,
     se_inst_config = \<lparr>ic_asset = ''BTC'', ic_volatility_a = Fin 0, ic_volatility_b = Fin 0, ic_volatility_c = Fin 0,
       ic_beta = Fin 0, ic_min_ticker_notional = Fin 0, ic_min_ticker_notional_multiple = Fin 0,
       ic_order_size = Fin 2, ic_max_position = Fin 9, ic_position_adjust_step_ratio = Fin 0,
       ic_position_adjust_step_notional = Fin 0\<rparr>\<rparr>"

definition sample_state :: StrategyState where
  "sample_state = \<lparr>latest_buy_order_price = Fin 0, latest_buy_order_millis = 0, latest_sell_order_price = Fin 0,
     latest_sell_order_millis = 0, benchmark_ticker_version = 0, follower_ticker_version = 0,
     early_run_version = 0, benchmark_beta_version = 0, follower_beta_version = 0\<rparr>"

definition sample_position :: AccountPositionInfo where
  "sample_position = new_AccountPositionInfo\<lparr>pi_symbol := ''BTCUSDC'', positionSide := ''SHORT'',
     positionAmount := Fin (- 1), positionAmountAbs := Fin 1\<rparr>"

definition sample_actuary_context :: "i64 \<Rightarrow> ActuaryContext" where
  "sample_actuary_context v =
     \<lparr>ax_benchmark_inst_config = Map.empty, ax_follower_inst_config = Map.empty, ax_benchmark_inst_ids = [],
      ax_follower_inst_ids = [], ax_all_benchmark_inst_ids = [], ax_all_follower_inst_ids = [],
      ax_follower_inst_ids_set = {}, ax_follower_close_inst_ids_set = {}, ax_all_inst_ids_set = {},
      ax_follower_exchange_info_map = Map.empty, ax_benchmark_exchange_info_map = Map.empty,
      ax_shm_threshold_mapping = [], ax_shm_benchmark_ticker_mapping = [], ax_shm_follower_ticker_mapping = [],
      ax_shm_order_mapping = [],
      ax_shm_store_info = \<lparr>early_run_start = [zero_early_run\<lparr>er_version_number := 1, er_time_mills := 100\<rparr>],
        benchmark_beta_start = [zero_beta\<lparr>bt_version_number := 1, bt_time_mills := 100\<rparr>],
        follower_beta_start = [zero_beta\<lparr>bt_version_number := 1, bt_time_mills := 100\<rparr>],
        benchmark_start = [(sample_ticker (Fin 12) (Fin 13) 1 100)\<lparr>tk_version_number := v\<rparr>],
        follower_start = [sample_ticker (Fin 9) (Fin 10) 1 100], order_start = [zero_order]\<rparr>,
      ax_balance_position_composite = \<lparr>ap_meta = \<lparr>multiAssetsMargin = True, totalInitialMargin = Fin 0,
          totalMaintMargin = Fin 0, totalWalletBalance = Fin 0, totalUnrealizedProfit = Fin 0,
          totalCrossWalletBalance = Fin 0, totalCrossUnPnl = Fin 0, mi_updateTimeMillis = 0\<rparr>,
        balance_map = Map.empty, position_map = [''BTCUSDC'' \<mapsto> sample_position], threshold_map = Map.empty\<rparr>,
      ax_commission_rate_composite = Map.empty, ax_account_info_channel = [], ax_listen_key = [],
      ax_dynamic_config = new_DynamicConfig False True, ax_stat_order_channel = []\<rparr>"

definition sample_clock :: "u64 \<Rightarrow> StrategyClock" where
  "sample_clock n = \<lparr>sk_now = n, sk_now_micros = n * 1000, sk_tv_sec = 0, sk_tv_usec = n * 1000\<rparr>"

definition sample_buy :: "u64 \<Rightarrow> OrderShm" where
  "sample_buy n = \<lparr>os_inst_id = ''BTCUSDC'', os_type = ''LIMIT'', os_side = ''BUY'', os_pos_side = ''BOTH'',
     os_time_in_force = ''IOC'', os_client_order_id = gen_client_order_id 0 (n * 1000) True True (ticker_delay n (sample_ticker (Fin 9) (Fin 10) 1 100)) True, os_price = Fin 12, os_volume = Fin 1,
     os_reduce_only = 1, os_update_time = n * 1000, os_version_number = 0\<rparr>"

definition sample_state_after :: "u64 \<Rightarrow> i64 \<Rightarrow> StrategyState" where
  "sample_state_after n v = \<lparr>latest_buy_order_price = Fin 12, latest_buy_order_millis = n, latest_sell_order_price = Fin 0,
     latest_sell_order_millis = 0, benchmark_ticker_version = v, follower_ticker_version = 1,
     early_run_version = 1, benchmark_beta_version = 1, follower_beta_version = 1\<rparr>"

lemmas sample_defs = sample_api_def sample_actuary_config_def sample_env_def sample_state_def sample_position_def
  sample_actuary_context_def sample_clock_def

text \<open>Two consecutive iterations: at 120 ms on version 1 of the benchmark ticker, at 130 ms on version 2.\<close>

definition sample_point :: "u64 \<Rightarrow> i64 \<Rightarrow> StrategyState \<Rightarrow> bool" where
  "sample_point n v st \<longleftrightarrow> n = 120 \<and> v = 1 \<and> st = sample_state \<or> n = 130 \<and> v = 2 \<and> st = sample_state_after 120 1"

lemma sample_pointE:
  assumes "sample_point n v st"
  obtains "n = 120" "v = 1" "st = sample_state" | "n = 130" "v = 2" "st = sample_state_after 120 1"
  using assms by (auto simp: sample_point_def)

abbreviation "sample_bt v \<equiv> (sample_ticker (Fin 12) (Fin 13) 1 100)\<lparr>tk_version_number := v\<rparr>"
abbreviation "sample_ft \<equiv> sample_ticker (Fin 9) (Fin 10) 1 100"
abbreviation "sample_er \<equiv> zero_early_run\<lparr>er_version_number := 1, er_time_mills := 100\<rparr>"
abbreviation "sample_bb \<equiv> zero_beta\<lparr>bt_version_number := 1, bt_time_mills := 100\<rparr>"

lemma sample_read_tickers:
  assumes "sample_point n v st"
  shows "read_tickers sample_actuary_config sample_env (sample_actuary_context v) st =
     Inr (Some (sample_bt v, sample_ft), st\<lparr>benchmark_ticker_version := v, follower_ticker_version := 1\<rparr>)"
  using assms
  by (elim sample_pointE) (simp_all add: read_tickers_def sample_defs ticker_shm_reader_get_def seg_get_def
      sample_ticker_def word_sless_alt strncpy_buf_def sample_state_after_def)

lemma sample_read_thresholds:
  assumes "sample_point n v st"
  shows "read_thresholds sample_env (sample_actuary_context v) (st\<lparr>benchmark_ticker_version := v, follower_ticker_version := 1\<rparr>) =
     Inr (Some (sample_er, sample_bb, sample_bb), (sample_state_after n v)\<lparr>latest_buy_order_price := latest_buy_order_price st,
       latest_buy_order_millis := latest_buy_order_millis st\<rparr>)"
  using assms
  by (elim sample_pointE) (simp_all add: read_thresholds_def sample_defs early_run_shm_reader_get_def
      beta_shm_reader_get_def seg_get_def zero_early_run_def zero_beta_def word_sless_alt strncpy_buf_def
      sample_state_after_def)

lemma sample_signal:
  assumes "sample_point n v st"
  shows "buy_signal sample_actuary_config (se_inst_config sample_env) (Fin 0) (sample_bt v) sample_ft sample_er sample_bb sample_bb"
    and "buy_price sample_actuary_config sample_env (sample_bt v) sample_ft sample_er = Inr (Fin 12, True)"
    and "\<not> tickers_expired n sample_actuary_config (sample_bt v) sample_ft"
    and "\<not> thresholds_expired n sample_actuary_config sample_er sample_bb sample_bb"
    and "in_int32 (ticker_delay n sample_ft)"
    and "same_price_make_order n sample_actuary_config (Fin 12) (latest_buy_order_price st) (latest_buy_order_millis st) 1"
proof -
  show "buy_signal sample_actuary_config (se_inst_config sample_env) (Fin 0) (sample_bt v) sample_ft sample_er sample_bb sample_bb"
    "buy_price sample_actuary_config sample_env (sample_bt v) sample_ft sample_er = Inr (Fin 12, True)"
    by (simp_all add: sample_ticker_def zero_early_run_def zero_beta_def buy_signal_def buy_price_def Let_def
      sample_actuary_config_def sample_env_def signed_round_def buy_bound_def decimal_process_def to_int_def
      trunc_def to_double_exact minus_double_def)
  show "\<not> tickers_expired n sample_actuary_config (sample_bt v) sample_ft"
    "\<not> thresholds_expired n sample_actuary_config sample_er sample_bb sample_bb"
    "in_int32 (ticker_delay n sample_ft)"
    "same_price_make_order n sample_actuary_config (Fin 12) (latest_buy_order_price st) (latest_buy_order_millis st) 1"
    using assms
    by (elim sample_pointE; simp add: sample_ticker_def zero_early_run_def zero_beta_def sample_actuary_config_def
      tickers_expired_def thresholds_expired_def ticker_delay_def in_int32_def same_price_make_order_def
      sample_state_def sample_state_after_def)+
qed

lemma sample_position_facts:
  "copy_position ''BTCUSDC'' (ax_balance_position_composite (sample_actuary_context v)) = Some sample_position"
  "position_stops sample_api sb sample_actuary_config sample_env sample_position = (sb, False)"
  "order_volume ''SHORT'' sample_actuary_config sample_env sample_position = (Fin 1, True, 1)"
  "position_reduce_ratio sample_actuary_config sample_env (sample_actuary_context v) = Fin 0"
  "\<not> feq (positionAmount sample_position) (Fin 0)"
  by (simp_all add: copy_position_def sample_defs new_AccountPositionInfo_def position_stops_def order_volume_def
      to_double_exact signed_round_def position_reduce_ratio_def)

definition sample_after :: "bool \<Rightarrow> u64 \<Rightarrow> i64 \<Rightarrow> ActuaryContext" where
  "sample_after sb n v = (if sb then sample_actuary_context v
     else (sample_actuary_context v)\<lparr>ax_shm_store_info := (ax_shm_store_info (sample_actuary_context v))
              \<lparr>order_start := [(sample_buy n)\<lparr>os_version_number := 1\<rparr>]\<rparr>\<rparr>)"

lemma sample_buy_fits: "in_int32 (ticker_delay n sample_ft) \<Longrightarrow> length (os_client_order_id (sample_buy n)) < 40"
  by (simp add: sample_buy_def client_order_id_length)

lemma sample_submit:
  assumes "sample_point n v st"
  shows "submit_order sb True True sample_env (sample_actuary_context v) (sample_buy n) =
      Inr (if sb then None else Some (sample_buy n), sample_after sb n v)"
proof -
  have "order_newer zero_order (sample_buy n)"
    using assms by (elim sample_pointE) (simp_all add: order_newer_def zero_order_def sample_buy_def word_sless_alt)
  moreover have "length (os_client_order_id (sample_buy n)) < 40" by (rule sample_buy_fits[OF sample_signal(5)[OF assms]])
  then have "order_fits (sample_buy n)" by (simp add: order_fits_def) (simp add: sample_buy_def)
  ultimately obtain r where "order_slot_update (sample_buy n) zero_order = Inr (r, (sample_buy n)\<lparr>os_version_number := 1\<rparr>)"
    using order_slot_update_fits[of "sample_buy n" zero_order] by (auto simp: zero_order_def)
  then show ?thesis
    by (simp add: submit_order_def dynamic_could_make_order_def is_stop_make_order_def sample_actuary_context_def
        new_DynamicConfig_def order_shm_writer_update_def sample_env_def seg_modify_def seg_get_def seg_set_def
        sample_after_def)
qed

lemma sample_make:
  assumes "sample_point n v st"
  shows "make_buy_order sample_api n (n * 1000) 0 (n * 1000) sb sample_actuary_config sample_env sample_position
      (sample_bt v) sample_ft sample_er ((sample_state_after n v)\<lparr>latest_buy_order_price := latest_buy_order_price st,
       latest_buy_order_millis := latest_buy_order_millis st\<rparr>) (sample_actuary_context v)
    = Inr (if sb then None else Some (sample_buy n), sample_state_after n v, sample_after sb n v)"
proof -
  have ord: "make_order_shm sample_api ''BTCUSDC'' ''BUY'' (os_client_order_id (sample_buy n)) (Fin 12) (Fin 1) 1 (n * 1000)
      = Inr (sample_buy n)"
    using sample_buy_fits[OF sample_signal(5)[OF assms]]
    by (simp add: make_order_shm_Inr sample_api_def) (simp add: sample_buy_def)
  have [simp]: "se_follower_inst_id sample_env = ''BTCUSDC''" "PositionSide_SHORT sample_api = ''SHORT''"
    "ORDER_SIDE_BUY sample_api = ''BUY''" by (simp_all add: sample_env_def sample_api_def)
  have id: "os_client_order_id (sample_buy n) =
      gen_client_order_id 0 (n * 1000) True True (ticker_delay n sample_ft) True" by (simp add: sample_buy_def)
  show ?thesis
    by (simp add: make_buy_order_def sample_position_facts sample_signal[OF assms] ord[unfolded id]
        sample_submit[OF assms] Let_def) (simp add: sample_state_after_def)
qed

lemma sample_step:
  assumes "sample_point n v st"
  shows "strategy_step sample_api (sample_clock n) sb sample_actuary_config sample_env st (sample_actuary_context v) =
     Inr (if sb then None else Some (sample_buy n), sample_state_after n v, sample_after sb n v)"
proof -
  have env: "se_follower_inst_id sample_env = ''BTCUSDC''"
    "sk_now (sample_clock n) = n" "sk_now_micros (sample_clock n) = n * 1000"
    "sk_tv_sec (sample_clock n) = 0" "sk_tv_usec (sample_clock n) = n * 1000"
    by (simp_all add: sample_env_def sample_clock_def)
  show ?thesis
    unfolding strategy_step_def sample_read_tickers[OF assms] bind_result_simps prod.case option.case
      sample_read_thresholds[OF assms]
    by (simp add: env sample_signal[OF assms] strategy_signal_def sample_position_facts sample_make[OF assms])
qed

lemma sample_points: "sample_point 120 1 sample_state" "sample_point 130 2 (sample_state_after 120 1)"
  by (simp_all add: sample_point_def)

lemmas sample_step1 = sample_step[OF sample_points(1)]
lemmas sample_step2 = sample_step[OF sample_points(2)]

lemma make_order_memory:
  "make_buy_order api (sk_now clk) (sk_now_micros clk) s u stop config env position bt ft er st c = Inr (Some order, st', c') \<Longrightarrow>
     os_side order = ORDER_SIDE_BUY api \<and> latest_buy_order_price st' = os_price order
     \<and> latest_buy_order_millis st' = sk_now clk"
  "make_sell_order api (sk_now clk) (sk_now_micros clk) s u stop config env position bt ft er st c = Inr (Some order, st', c') \<Longrightarrow>
     os_side order = ORDER_SIDE_SELL api \<and> latest_sell_order_price st' = os_price order
     \<and> latest_sell_order_millis st' = sk_now clk" for clk :: StrategyClock
  by (auto simp: order_sent_ok_def dest!: make_buy_order_sent make_sell_order_sent)

lemma strategy_step_memory:
  assumes "strategy_step api clk sb config env st c = Inr (Some order, st', c')"
    and "ORDER_SIDE_BUY api \<noteq> ORDER_SIDE_SELL api"
  shows "if os_side order = ORDER_SIDE_BUY api
    then latest_buy_order_price st' = os_price order \<and> latest_buy_order_millis st' = sk_now clk
    else latest_sell_order_price st' = os_price order \<and> latest_sell_order_millis st' = sk_now clk"
  using assms(1)
proof (cases rule: strategy_step_cases)
  case (signal bt ft st1 er bb fb st2)
  then show ?thesis
    using assms(2)
    by (auto simp: strategy_signal_def Let_def split: option.splits if_split_asm prod.splits
        dest: make_order_memory)
qed simp_all

lemma strategy_step_same_price:
  assumes "strategy_step api clk sb config env st c = Inr (Some order, st', c')"
    and "ORDER_SIDE_BUY api \<noteq> ORDER_SIDE_SELL api"
  shows "if os_side order = ORDER_SIDE_BUY api
    then same_price_make_order (sk_now clk) config (os_price order) (latest_buy_order_price st)
      (latest_buy_order_millis st) (os_reduce_only order)
    else same_price_make_order (sk_now clk) config (os_price order) (latest_sell_order_price st)
      (latest_sell_order_millis st) (os_reduce_only order)"
  using strategy_step_sent[OF assms(1)] assms(2) by (auto simp: buy_sent_def sell_sent_def order_sent_ok_def)

lemma small_pause_value:
  assumes "pause \<le> 3600000"
  shows "small_pause_time_millis (of_nat pause) = int (max (pause * 90 div 100) 50)"
proof -
  have "sint (of_nat pause * 90 :: i64) = int (pause * 90)"
  proof -
    have "(of_nat pause * 90 :: i64) = word_of_int (int (pause * 90))" by simp
    then show ?thesis using assms by (simp only: sint_sbintrunc') (subst signed_take_bit_int_eq_self, simp_all)
  qed
  moreover have "sint (word_of_int (int (pause * 90) div 100) :: 32 word) = int (pause * 90) div 100"
    using assms by (simp only: sint_sbintrunc') (subst signed_take_bit_int_eq_self, simp_all)
  ultimately show ?thesis by (auto simp: small_pause_time_millis_def Let_def sgn_if zdiv_int)
qed

section \<open>Properties\<close>

text \<open>C5. An iteration hands an order to the order segment only if trading is not stopped and all its inputs are
  usable: both tickers and all three thresholds have been published, none is older than its configured
  validity, and the account position is known. A position at its limit is not increased: no buy order
  on a long position and no sell order on any other position. Only the strategy's own order slot
  changes. Without an order nothing shared changes.\<close>

theorem strategy_order_guarded:
  assumes "strategy_step api clk stop_buy0 config env st c = Inr (sent, st', c')"
  shows "(sent = None \<and> c' = c) \<or> (\<exists>bt ft er bb fb position order. sent = Some order
    \<and> fresh_inputs clk config env c bt ft er bb fb position
    \<and> dynamic_could_make_order c
    \<and> (positionAmountAbs position \<ge> ic_max_position (se_inst_config env) * to_double (acfg_max_position_zoom config) \<longrightarrow>
         os_side order = (if positionSide position = PositionSide_LONG api then ORDER_SIDE_SELL api else ORDER_SIDE_BUY api))
    \<and> (\<exists>orders. c' = c\<lparr>ax_shm_store_info := (ax_shm_store_info c)\<lparr>order_start := orders\<rparr>\<rparr>
        \<and> (\<forall>j. j \<noteq> se_order_shm_index env \<longrightarrow> seg_get orders j = seg_get (order_start (ax_shm_store_info c)) j)))"
  using strategy_step_sent[OF assms]
proof
  assume "\<exists>bt ft er bb fb position order. sent = Some order
    \<and> fresh_inputs clk config env c bt ft er bb fb position
    \<and> (buy_sent api clk stop_buy0 config env position bt ft er bb fb st c order c'
       \<or> sell_sent api clk stop_buy0 config env position bt ft er bb fb st c order c')"
  then obtain bt ft er bb fb position order where f: "sent = Some order"
    "fresh_inputs clk config env c bt ft er bb fb position"
    and s: "buy_sent api clk stop_buy0 config env position bt ft er bb fb st c order c'
       \<or> sell_sent api clk stop_buy0 config env position bt ft er bb fb st c order c'" by blast
  then obtain r orders where w: "order_shm_writer_update (order_start (ax_shm_store_info c)) (se_order_shm_index env) order
      = Inr (r, orders)" "c' = c\<lparr>ax_shm_store_info := (ax_shm_store_info c)\<lparr>order_start := orders\<rparr>\<rparr>"
    by (auto simp: buy_sent_def sell_sent_def order_sent_ok_def)
  have "dynamic_could_make_order c
      \<and> (positionAmountAbs position \<ge> ic_max_position (se_inst_config env) * to_double (acfg_max_position_zoom config) \<longrightarrow>
         os_side order = (if positionSide position = PositionSide_LONG api then ORDER_SIDE_SELL api else ORDER_SIDE_BUY api))"
    using s by (auto simp: buy_sent_def sell_sent_def order_sent_ok_def position_stops_def split: if_split_asm)
  then show ?thesis using f w writer_update_slot[OF w(1)] by blast
qed simp

lemma order_closes_when_stopped:
  assumes "strategy_step api clk stop_buy0 config env st c = Inr (Some order, st', c')"
    and "xi_positionCloseOnly (se_follower_exchange_info env)
      \<or> acfg_make_position_close_only config \<and> is_stop_make_open_order (ax_dynamic_config c)"
  shows "\<exists>position. copy_position (se_follower_inst_id env) (ax_balance_position_composite c) = Some position
    \<and> \<not> feq (positionAmount position) (Fin 0)
    \<and> (positionSide position = PositionSide_SHORT api \<and> os_side order = ORDER_SIDE_BUY api
       \<or> positionSide position = PositionSide_LONG api \<and> os_side order = ORDER_SIDE_SELL api)
    \<and> \<not> os_volume order > positionAmountAbs position"
proof -
  obtain bt ft er bb fb position where f: "fresh_inputs clk config env c bt ft er bb fb position"
    and s: "buy_sent api clk stop_buy0 config env position bt ft er bb fb st c order c'
       \<or> sell_sent api clk stop_buy0 config env position bt ft er bb fb st c order c'"
    using strategy_step_sent[OF assms(1)] by auto
  have "\<exists>held v r closing. order_volume held config env position = (v, closing, r) \<and> closing
      \<and> v = os_volume order \<and> (held = PositionSide_SHORT api \<and> os_side order = ORDER_SIDE_BUY api
        \<or> held = PositionSide_LONG api \<and> os_side order = ORDER_SIDE_SELL api)"
    using s assms(2)
    by (auto simp: buy_sent_def sell_sent_def order_sent_ok_def dynamic_could_make_open_position_order_def)
  then show ?thesis
    using f assms(2) order_volume_close unfolding fresh_inputs_def by blast
qed

text \<open>In close-only operation (of the process, with opening orders switched off, or of the instrument) every
  order that is sent closes: it is on the opposite side of the held position, and its volume is not
  larger than the position.\<close>

theorem strategy_close_only_closes:
  assumes "strategy_step api clk stop_buy0 config env st c = Inr (Some order, st', c')"
    and "xi_positionCloseOnly (se_follower_exchange_info env)
      \<or> acfg_make_position_close_only config \<and> is_stop_make_open_order (ax_dynamic_config c)"
  shows "\<exists>position. copy_position (se_follower_inst_id env) (ax_balance_position_composite c) = Some position
    \<and> \<not> feq (positionAmount position) (Fin 0)
    \<and> (positionSide position = PositionSide_SHORT api \<and> os_side order = ORDER_SIDE_BUY api
       \<or> positionSide position = PositionSide_LONG api \<and> os_side order = ORDER_SIDE_SELL api)
    \<and> \<not> os_volume order > positionAmountAbs position"
  using assms by (rule order_closes_when_stopped)


text \<open>C14. Every order needs a ticker update of its own: over any run of the loop, whatever the other threads do in
  between, the remembered versions never go back, and the number of orders is at most the number of
  ticker versions that the run has advanced over.\<close>

theorem strategy_one_order_per_update:
  assumes "run_strategy api config env inputs st = Inr (orders, st')"
  shows "versions_le st st' \<and> int (length orders) \<le> ticker_versions st' - ticker_versions st"
  using run_strategy_versions[OF assms] by simp



text \<open>Whether a buy signal below the position limit leads to an order depends on the uninitialised variable
  \<open>stop_buy\<close>: on the same inputs the iteration sends the order when the variable happens to be false, and
  silently drops it when it happens to be true.\<close>

theorem strategy_stop_buy_uninitialised:
  "\<exists>api clk config env st c order st' c'.
     strategy_step api clk False config env st c = Inr (Some order, st', c')
     \<and> os_side order = ORDER_SIDE_BUY api
     \<and> strategy_step api clk True config env st c = Inr (None, st', c)"
proof -
  have "sample_after True 120 1 = sample_actuary_context 1" by (simp add: sample_after_def)
  moreover have "os_side (sample_buy 120) = ORDER_SIDE_BUY sample_api" by (simp add: sample_buy_def sample_api_def)
  ultimately show ?thesis using sample_step1[of False] sample_step1[of True] by fastforce
qed

theorem strategy_order_guarded_witness:
  "\<exists>bt ft er bb fb position. fresh_inputs (sample_clock 120) sample_actuary_config sample_env (sample_actuary_context 1) bt ft er bb fb position
     \<and> dynamic_could_make_order (sample_actuary_context 1)"
  using strategy_order_guarded[OF sample_step1[of False, simplified]] by blast

theorem strategy_close_only_closes_witness:
  "\<exists>position. copy_position ''BTCUSDC'' (ax_balance_position_composite (sample_actuary_context 1)) = Some position
     \<and> \<not> os_volume (sample_buy 120) > positionAmountAbs position"
proof -
  have "acfg_make_position_close_only sample_actuary_config" "is_stop_make_open_order (ax_dynamic_config (sample_actuary_context 1))"
    "se_follower_inst_id sample_env = ''BTCUSDC''"
    by (simp_all add: sample_actuary_config_def sample_actuary_context_def is_stop_make_open_order_def
        new_DynamicConfig_def sample_env_def)
  then show ?thesis using strategy_close_only_closes[OF sample_step1[of False, simplified]] by auto
qed


theorem strategy_one_order_per_update_witness:
  "int (length [sample_buy 120, sample_buy 130]) \<le> ticker_versions (sample_state_after 130 2) - ticker_versions sample_state"
proof -
  have "run_strategy sample_api sample_actuary_config sample_env
      [(sample_clock 120, False, sample_actuary_context 1), (sample_clock 130, False, sample_actuary_context 2)] sample_state
    = Inr ([sample_buy 120, sample_buy 130], sample_state_after 130 2)"
    by (simp add: sample_step1 sample_step2)
  from strategy_one_order_per_update[OF this] show ?thesis by simp
qed

end
