(* ===== verification/AccountProcessor.thy ===== *)
theory AccountProcessor
  imports Strategy
begin

text \<open>
  \<open>src/src/actuary/account_processor.cpp\<close>: the account settings at the start, the pollers of commission rates, balances and
  positions, the listen key, the handler of the user data stream, the position thresholds, and the rows
  that are written to the database. The answers of the REST client, the parsed stream messages, the string
  helpers of the exchange library (\<open>startsWith\<close>, \<open>endsWith\<close>, \<open>toString\<close>), the logarithm and the clock are arguments. A
  database statement is the record of its values; whether it succeeds is an argument.
\<close>

section \<open>Account settings\<close>

record RestBool =
  rb_code :: int
  rb_data :: bool

record AccountConfig = ActuaryConfig +
  pcfg_process_account_settings :: bool

definition toggle_bnb_burn :: "int \<Rightarrow> RestBool \<Rightarrow> bool" where
  "toggle_bnb_burn RestCodeOK response =
     (if rb_code response \<noteq> RestCodeOK then rb_code response = - 4145 else rb_data response)"

text \<open>The two loops over the instruments return, beside their result, the instruments a request was made for.\<close>

fun change_init_leverage :: "int \<Rightarrow> (string \<Rightarrow> int) \<Rightarrow> string list \<Rightarrow> bool \<times> string list" where
  "change_init_leverage RestCodeOK answer [] = (True, [])"
| "change_init_leverage RestCodeOK answer (inst # insts) =
     (if answer inst \<noteq> RestCodeOK then (False, [inst])
      else let (ok, asked) = change_init_leverage RestCodeOK answer insts in (ok, inst # asked))"

fun change_margin_type :: "int \<Rightarrow> (string \<Rightarrow> RestBool) \<Rightarrow> string list \<Rightarrow> bool \<times> string list" where
  "change_margin_type RestCodeOK answer [] = (True, [])"
| "change_margin_type RestCodeOK answer (inst # insts) =
     (if rb_code (answer inst) \<noteq> RestCodeOK \<or> \<not> rb_data (answer inst)
      then (rb_code (answer inst) = - 4046, [inst])
      else let (ok, asked) = change_margin_type RestCodeOK answer insts in (ok, inst # asked))"

definition change_multi_assets_margin :: "int \<Rightarrow> RestBool \<Rightarrow> bool" where
  "change_multi_assets_margin RestCodeOK response =
     (if rb_code response \<noteq> RestCodeOK \<or> \<not> rb_data response then rb_code response = - 4171 else True)"

definition change_position_side_dual :: "int \<Rightarrow> RestBool \<Rightarrow> bool" where
  "change_position_side_dual RestCodeOK response =
     (if rb_code response \<noteq> RestCodeOK \<or> \<not> rb_data response then rb_code response = - 4059 else True)"

definition prepare_account_settings ::
  "int \<Rightarrow> RestBool \<Rightarrow> (string \<Rightarrow> int) \<Rightarrow> (string \<Rightarrow> RestBool) \<Rightarrow> RestBool \<Rightarrow> RestBool \<Rightarrow> AccountConfig \<Rightarrow> ActuaryContext \<Rightarrow> unit result" where
  "prepare_account_settings RestCodeOK burn leverage margin multi dual config c =
     (if \<not> dt_group_main_node config \<or> \<not> pcfg_process_account_settings config then Inr ()
      else if \<not> toggle_bnb_burn RestCodeOK burn then Inl (ProcessExit (- 1))
      else if \<not> fst (change_init_leverage RestCodeOK leverage (ax_follower_inst_ids c)) then Inl (ProcessExit (- 1))
      else if \<not> fst (change_margin_type RestCodeOK margin (ax_follower_inst_ids c)) then Inl (ProcessExit (- 1))
      else if \<not> change_multi_assets_margin RestCodeOK multi then Inl (ProcessExit (- 1))
      else if \<not> change_position_side_dual RestCodeOK dual then Inl (ProcessExit (- 1))
      else Inr ())"

section \<open>Commission rates and the listen key\<close>

text \<open>One turn over the instruments; an answer is the code and the two rates.\<close>

definition load_commission_rate :: "int \<Rightarrow> (string \<Rightarrow> int \<times> double \<times> double) \<Rightarrow> ActuaryContext \<Rightarrow> ActuaryContext" where
  "load_commission_rate RestCodeOK answer c =
     c\<lparr>ax_commission_rate_composite := fold (\<lambda>symbol m.
          case answer symbol of (code, maker, taker) \<Rightarrow>
            if code \<noteq> RestCodeOK then m
            else update_commission_rate \<lparr>cr_symbol = symbol, makerRate = maker, takerRate = taker, rateRaised = False\<rparr> m)
        (ax_follower_inst_ids c) (ax_commission_rate_composite c)\<rparr>"

text \<open>One round of \<open>refresh_listen_key\<close>: the answer is the code and, for a new key, the key. The second value is the pause in
  seconds.\<close>

definition refresh_listen_key :: "int \<Rightarrow> int \<times> string \<Rightarrow> ActuaryContext \<Rightarrow> ActuaryContext \<times> nat" where
  "refresh_listen_key RestCodeOK answer c =
     (if ax_listen_key c = []
      then if fst answer \<noteq> RestCodeOK then (c, 5) else (c\<lparr>ax_listen_key := snd answer\<rparr>, 300)
      else if fst answer \<noteq> RestCodeOK then (c\<lparr>ax_listen_key := []\<rparr>, 5) else (c, 300))"

section \<open>Position thresholds\<close>

text \<open>\<open>std::min(x, 1.0)\<close> keeps \<open>x\<close> unless 1 is less.\<close>

definition position_full_rate :: "ActuaryConfig \<Rightarrow> InstConfigItem \<Rightarrow> AccountPositionInfo \<Rightarrow> double" where
  "position_full_rate config inst position =
     (let r = positionAmountAbs position / (ic_max_position inst * to_double (acfg_max_position_zoom config))
      in if Fin 1 < r then Fin 1 else r)"

definition position_threshold ::
  "BinanceApi \<Rightarrow> (double \<Rightarrow> double) \<Rightarrow> u64 \<Rightarrow> ActuaryConfig \<Rightarrow> InstConfigItem \<Rightarrow> TickerInfoShm \<Rightarrow> AccountPositionInfo
   \<Rightarrow> string \<Rightarrow> PositionThresholdInfo" where
  "position_threshold api log_d now config inst ticker position follower_symbol =
     (let notional = positionAmount position * ((tk_ask_price ticker + tk_bid_price ticker) / Fin 2);
          full_rate = position_full_rate config inst position;
          reduce_ratio = log_d (full_rate * full_rate + Fin 1) * acfg_position_threshold_margin config;
          reduce_ratio = (if positionSide position = PositionSide_SHORT api then Fin 0 - reduce_ratio else reduce_ratio)
      in \<lparr>pt_symbol = follower_symbol, pt_positionSide = positionSide position,
          positionReduceRatioV1 = (notional / ic_position_adjust_step_notional inst) * ic_position_adjust_step_ratio inst,
          positionReduceRatio = reduce_ratio, positionFullRate = full_rate, totalNotional = notional,
          reachMaxPosition =
            (ic_max_position inst * to_double (acfg_max_position_zoom config) \<le> positionAmountAbs position),
          pt_updateTimeMillis = now\<rparr>)"

definition calculcate_position_threshold ::
  "BinanceApi \<Rightarrow> (double \<Rightarrow> double) \<Rightarrow> u64 \<Rightarrow> ActuaryConfig \<Rightarrow> ActuaryContext \<Rightarrow> string \<Rightarrow> PositionThresholdInfo option result" where
  "calculcate_position_threshold api log_d now config c follower_symbol =
     (case map_of (ax_shm_follower_ticker_mapping c) follower_symbol of
        None \<Rightarrow> Inr None
      | Some index \<Rightarrow>
     bind_result (ticker_shm_reader_get (follower_start (ax_shm_store_info c)) index) (\<lambda>ticker.
       if tk_bid_price ticker \<le> Fin 0 \<or> tk_ask_price ticker \<le> Fin 0 then Inr None
       else case copy_position follower_symbol (ax_balance_position_composite c) of
              None \<Rightarrow> Inr None
            | Some position \<Rightarrow>
                (case ax_follower_inst_config c (strip_suffix follower_symbol (acfg_follower_quote_asset config)) of
                   None \<Rightarrow> Inr None
                 | Some inst \<Rightarrow>
                     Inr (Some (position_threshold api log_d now config inst ticker position follower_symbol)))))"

text \<open>What both callers do with it.\<close>

definition refresh_position_threshold ::
  "BinanceApi \<Rightarrow> (double \<Rightarrow> double) \<Rightarrow> u64 \<Rightarrow> ActuaryConfig \<Rightarrow> string \<Rightarrow> ActuaryContext \<Rightarrow> ActuaryContext result" where
  "refresh_position_threshold api log_d now config symbol c =
     bind_result (calculcate_position_threshold api log_d now config c symbol) (\<lambda>threshold.
       case threshold of
         None \<Rightarrow> Inr c
       | Some t \<Rightarrow> Inr (c\<lparr>ax_balance_position_composite :=
           snd (update_exist_position_threshold t (ax_balance_position_composite c))\<rparr>))"

section \<open>Polling balances and positions\<close>

text \<open>An asset comes with its margin balance, which only the row of the database uses; a position with the clock value
  that its threshold reads.\<close>

record FuturesAccount =
  acc_meta :: AccountMetaInfo
  acc_assets :: "(FuturesAccountAsset \<times> double) list"
  acc_positions :: "(FuturesAccountPosition \<times> u64) list"

record AccountPnlRow =
  pr_account_flag :: string
  pr_usdc_balance :: double
  pr_usdc_cross_balance :: double
  pr_cross_balance :: double
  pr_cross_un_pnl :: double
  pr_log_ts :: u64

fun load_positions ::
  "BinanceApi \<Rightarrow> (double \<Rightarrow> double) \<Rightarrow> ActuaryConfig \<Rightarrow> (FuturesAccountPosition \<times> u64) list \<Rightarrow> ActuaryContext \<Rightarrow> ActuaryContext result" where
  "load_positions api log_d config [] c = Inr c"
| "load_positions api log_d config ((position, now) # more_positions) c =
     (case update_exist_position api position (ax_balance_position_composite c) of
        (False, _) \<Rightarrow> load_positions api log_d config more_positions c
      | (True, m) \<Rightarrow>
          bind_result (refresh_position_threshold api log_d now config (fp_symbol position)
              (c\<lparr>ax_balance_position_composite := m\<rparr>)) (\<lambda>c.
            load_positions api log_d config more_positions c))"

text \<open>\<open>uninit\<close> are the two local balances before the assets are read, \<open>polls\<close> is \<open>polling_times\<close>; the row is written once in
  30 turns. The updates of one answer share the clock value \<open>now\<close>.\<close>

definition quote_balances :: "string \<Rightarrow> double \<times> double \<Rightarrow> (FuturesAccountAsset \<times> double) list \<Rightarrow> double \<times> double" where
  "quote_balances follower_quote_asset uninit assets =
     fold (\<lambda>(a, margin) r. if fa_asset a = follower_quote_asset then (margin, fa_crossWalletBalance a) else r) assets uninit"

definition load_balance_position ::
  "BinanceApi \<Rightarrow> (double \<Rightarrow> double) \<Rightarrow> double \<times> double \<Rightarrow> u64 \<Rightarrow> u64 \<Rightarrow> FuturesAccount option \<Rightarrow> ActuaryConfig
   \<Rightarrow> int \<Rightarrow> ActuaryContext \<Rightarrow> (int \<times> AccountPnlRow option \<times> ActuaryContext) result" where
  "load_balance_position api log_d uninit now log_ts response config polls c =
     (case response of
        None \<Rightarrow> Inr (polls, None, c)
      | Some account \<Rightarrow>
          let m = snd (update_meta now (acc_meta account) (ax_balance_position_composite c));
              m = fold (\<lambda>(a, _) m. snd (update_exist_balance now a m)) (acc_assets account) m
          in bind_result (load_positions api log_d config (acc_positions account)
               (c\<lparr>ax_balance_position_composite := m\<rparr>)) (\<lambda>c.
             if dt_group_main_node config
             then if polls + 1 = 300 div 10
                  then let (margin, cross) = quote_balances (acfg_follower_quote_asset config) uninit (acc_assets account)
                       in Inr (0, Some \<lparr>pr_account_flag = account_flag config, pr_usdc_balance = margin,
                                 pr_usdc_cross_balance = cross,
                                 pr_cross_balance = totalCrossWalletBalance (acc_meta account),
                                 pr_cross_un_pnl = totalCrossUnPnl (acc_meta account), pr_log_ts = log_ts\<rparr>, c)
                  else Inr (polls + 1, None, c)
             else Inr (polls, None, c)))"

section \<open>The user data stream\<close>

record WsFuturesOrderTradeUpdateEvent =
  oe_symbol :: string
  oe_side :: string
  oe_id :: string
  oe_clientOrderId :: string
  oe_originalOrderType :: string
  oe_orderStatus :: string
  oe_volume :: double
  oe_filledVolume :: double
  oe_price :: double
  oe_averagePrice :: double

record OrderRow =
  or_account_flag :: string
  or_event :: WsFuturesOrderTradeUpdateEvent
  or_average_price :: double
  or_system_timestamp :: u64
  or_commission_rate :: double
  or_has_trading_volume :: string

text \<open>A balance event comes with the clock value of its update, a position event also with that of its threshold.\<close>

datatype user_data_event =
    AccountUpdate "(WsFuturesAccountUpdateBalanceEvent \<times> u64) list" "(WsFuturesAccountUpdatePositionEvent \<times> u64 \<times> u64) list"
  | OrderTradeUpdate WsFuturesOrderTradeUpdateEvent
  | OtherEvent

fun process_positions ::
  "BinanceApi \<Rightarrow> (double \<Rightarrow> double) \<Rightarrow> ActuaryConfig \<Rightarrow> (WsFuturesAccountUpdatePositionEvent \<times> u64 \<times> u64) list
   \<Rightarrow> ActuaryContext \<Rightarrow> ActuaryContext result" where
  "process_positions api log_d config [] c = Inr c"
| "process_positions api log_d config ((event, now, now') # events) c =
     (case update_exist_position_event api now event (ax_balance_position_composite c) of
        (False, _) \<Rightarrow> process_positions api log_d config events c
      | (True, m) \<Rightarrow>
          bind_result (refresh_position_threshold api log_d now' config (wp_symbol event)
              (c\<lparr>ax_balance_position_composite := m\<rparr>)) (\<lambda>c.
            process_positions api log_d config events c))"

definition process_account_update ::
  "BinanceApi \<Rightarrow> (double \<Rightarrow> double) \<Rightarrow> ActuaryConfig \<Rightarrow> (WsFuturesAccountUpdateBalanceEvent \<times> u64) list
   \<Rightarrow> (WsFuturesAccountUpdatePositionEvent \<times> u64 \<times> u64) list \<Rightarrow> ActuaryContext \<Rightarrow> ActuaryContext result" where
  "process_account_update api log_d config balances positions c =
     process_positions api log_d config positions (c\<lparr>ax_balance_position_composite :=
       fold (\<lambda>(event, now) m. snd (update_exist_balance_event now event m)) balances (ax_balance_position_composite c)\<rparr>)"

definition order_event_accepted ::
  "(string \<Rightarrow> string \<Rightarrow> bool) \<Rightarrow> (string \<Rightarrow> string \<Rightarrow> bool) \<Rightarrow> ActuaryConfig \<Rightarrow> WsFuturesOrderTradeUpdateEvent \<Rightarrow> bool" where
  "order_event_accepted startsWith endsWith config event =
     (if startsWith (oe_clientOrderId event) ''temp'' then False
      else if \<not> startsWith (oe_clientOrderId event) ''s'' \<and> \<not> startsWith (oe_clientOrderId event) ''b'' then False
      else if \<not> endsWith (oe_symbol event) (acfg_follower_quote_asset config) then False
      else if \<not> acfg_enable_save_no_volume_order config \<and> feq (oe_filledVolume event) (Fin 0) then False
      else True)"

text \<open>\<open>saved\<close> is \<open>None\<close> without a connection, and otherwise whether the statement succeeded. \<open>now\<close> and \<open>now'\<close> are the clock values
  of the row and of the message to the evaluator.\<close>

definition process_order_trade_update ::
  "(string \<Rightarrow> string \<Rightarrow> bool) \<Rightarrow> (string \<Rightarrow> string \<Rightarrow> bool) \<Rightarrow> (double \<Rightarrow> string) \<Rightarrow> bool option \<Rightarrow> u64 \<Rightarrow> u64 \<Rightarrow> ActuaryConfig
   \<Rightarrow> WsFuturesOrderTradeUpdateEvent \<Rightarrow> ActuaryContext \<Rightarrow> OrderRow option \<times> ActuaryContext" where
  "process_order_trade_update startsWith endsWith toString saved now now' config event c =
     (if \<not> order_event_accepted startsWith endsWith config event then (None, c)
      else if \<not> dt_group_main_node config then (None, c)
      else
        let commission_rate =
              (case get_commission_rate (oe_symbol event) (ax_commission_rate_composite c) of
                 None \<Rightarrow> Fin 0 | Some commission \<Rightarrow> takerRate commission);
            (traded, order_price) =
              (if oe_filledVolume event > Fin 0 then (''Y'', oe_averagePrice event) else (''N'', oe_price event));
            row = \<lparr>or_account_flag = account_flag config, or_event = event, or_average_price = order_price,
                   or_system_timestamp = now, or_commission_rate = commission_rate, or_has_trading_volume = traded\<rparr>
        in case saved of
             None \<Rightarrow> (None, c)
           | Some False \<Rightarrow> (None, c)
           | Some True \<Rightarrow>
               (Some row, c\<lparr>ax_stat_order_channel := ax_stat_order_channel c @
                  [\<lparr>so_accountFlag = account_flag config, so_symbol = oe_symbol event, so_orderSide = oe_side event,
                    so_clientOrderId = oe_clientOrderId event, so_averagePrice = toString order_price,
                    so_filledSize = toString (oe_filledVolume event), so_commissionRate = toString commission_rate,
                    so_systemTimestamp = now'\<rparr>]\<rparr>))"

definition process_balance_position ::
  "BinanceApi \<Rightarrow> (double \<Rightarrow> double) \<Rightarrow> (string \<Rightarrow> string \<Rightarrow> bool) \<Rightarrow> (string \<Rightarrow> string \<Rightarrow> bool) \<Rightarrow> (double \<Rightarrow> string)
   \<Rightarrow> bool option \<Rightarrow> u64 \<Rightarrow> u64 \<Rightarrow> ActuaryConfig \<Rightarrow> user_data_event \<Rightarrow> ActuaryContext \<Rightarrow> (OrderRow option \<times> ActuaryContext) result" where
  "process_balance_position api log_d startsWith endsWith toString saved now now' config event c =
     (case event of
        AccountUpdate balances positions \<Rightarrow>
          bind_result (process_account_update api log_d config balances positions c) (\<lambda>c. Inr (None, c))
      | OrderTradeUpdate event \<Rightarrow>
          Inr (process_order_trade_update startsWith endsWith toString saved now now' config event c)
      | OtherEvent \<Rightarrow> Inr (None, c))"

section \<open>Saving positions\<close>

record PositionRow =
  po_account_flag :: string
  po_symbol :: string
  po_position_side :: string
  po_position_amount :: double
  po_position_notional :: double
  po_unrealized_profit :: double
  po_log_time :: string

definition position_row :: "string \<Rightarrow> ActuaryConfig \<Rightarrow> ActuaryContext \<Rightarrow> string \<Rightarrow> PositionRow option" where
  "position_row log_time config c base_asset =
     (let symbol = base_asset @ acfg_follower_quote_asset config
      in case (copy_position symbol (ax_balance_position_composite c),
               copy_position_threshold symbol (ax_balance_position_composite c)) of
           (Some position, Some threshold) \<Rightarrow>
             Some \<lparr>po_account_flag = account_flag config, po_symbol = symbol,
               po_position_side = positionSide position, po_position_amount = positionAmountAbs position,
               po_position_notional = dabs (totalNotional threshold),
               po_unrealized_profit = unrealizedProfit position, po_log_time = log_time\<rparr>
         | _ \<Rightarrow> None)"

definition save_account_position :: "string \<Rightarrow> ActuaryConfig \<Rightarrow> ActuaryContext \<Rightarrow> PositionRow list" where
  "save_account_position log_time config c = List.map_filter (position_row log_time config c) (acfg_all_base_assets config)"

section \<open>Arithmetic of the reduce ratio\<close>

lemma signed_round_between:
  assumes "0 \<le> q" and "q \<le> b" and "rquant b = b" and "b < 2 ^ 1024" and "q = 0 \<or> \<not> s"
  shows "Fin 0 \<le> signed_round s q \<and> signed_round s q \<le> Fin b"
proof (cases "q = 0")
  case True
  with assms show ?thesis by (cases s) auto
next
  case False
  then have "0 < b" "\<not> s" using assms by auto
  have "signed_round False b = Fin b" using assms \<open>0 < b\<close> by (intro signed_round_exact) auto
  moreover have "signed_round False q \<le> signed_round False b" using assms by (intro signed_round_mono) auto
  ultimately show ?thesis using \<open>\<not> s\<close> signed_round_nonneg [of q s] assms by simp
qed

lemma d_square_unit: "Fin 0 \<le> x \<Longrightarrow> x \<le> Fin 1 \<Longrightarrow> Fin 0 \<le> x * x \<and> x * x \<le> Fin 1"
  using signed_round_between [of "fval x * fval x" 1 False]
  by (cases x) (auto simp: mult_le_one)

lemma d_plus_one: "Fin 0 \<le> y \<Longrightarrow> y \<le> Fin 1 \<Longrightarrow> Fin 1 \<le> y + Fin 1 \<and> y + Fin 1 \<le> Fin 2"
proof -
  assume y: "Fin 0 \<le> y" "y \<le> Fin 1"
  then have q: "finite_d y" "0 \<le> fval y" "fval y \<le> 1" by (cases y; simp)+
  have "y + Fin 1 = signed_round False (fval y + 1)" using q by (cases y) (auto simp: Let_def)
  moreover have "signed_round False 1 \<le> signed_round False (fval y + 1)"
    "signed_round False (fval y + 1) \<le> signed_round False 2" using q by (intro signed_round_mono; simp)+
  moreover have "signed_round False 1 = Fin 1" "signed_round False 2 = Fin 2" by (simp_all add: signed_round_def)
  ultimately show ?thesis by metis
qed

lemma d_scale_unit:
  assumes "Fin 0 \<le> l" and "l \<le> Fin 1" and "Fin 0 \<le> m" and "finite_d m" and "is_f64 m"
  shows "Fin 0 \<le> l * m \<and> l * m \<le> m"
proof -
  have l: "finite_d l" "0 \<le> fval l" "fval l \<le> 1" using assms(1,2) by (cases l; simp)+
  have m: "0 \<le> fval m" "rquant (fval m) = fval m" "fval m < 2 ^ 1024" using assms(3-5) by (cases m; simp add: is_f64_def)+
  have "fval l * fval m \<le> fval m" using l m by (simp add: mult_left_le_one_le)
  moreover have "l * m = signed_round (neg_sign l \<noteq> neg_sign m) (fval l * fval m)"
    using l(1) assms(4) by (cases l; cases m) auto
  moreover have "fval l * fval m = 0 \<or> \<not> (neg_sign l \<noteq> neg_sign m)" using l m assms(4) by (cases l; cases m) auto
  ultimately have "Fin 0 \<le> l * m \<and> l * m \<le> Fin (fval m)"
    using signed_round_between [of "fval l * fval m" "fval m"] l m by simp
  then show ?thesis using assms(4) by (cases m; cases "l * m") auto
qed

lemma d_negate:
  assumes "Fin 0 \<le> r" and "r \<le> m" and "finite_d m" and "is_f64 r"
  shows "- m \<le> Fin 0 - r \<and> Fin 0 - r \<le> Fin 0"
proof -
  have r: "finite_d r" "0 \<le> fval r" "rquant (fval r) = fval r" "fval r < 2 ^ 1024" "fval r \<le> fval m"
    using assms by (cases r; cases m; simp add: is_f64_def)+
  have "Fin 0 - r = signed_round (fval r \<noteq> 0) (- fval r)"
    using r(1,2) by (cases r) (auto simp: minus_double_def Let_def)
  also have "\<dots> = Fin (- fval r)"
    using r by (cases "fval r = 0") (auto simp: signed_round_def rquant_minus)
  finally show ?thesis using r assms(3) by (cases m) auto
qed

lemma position_full_rate_unit:
  assumes "Fin 0 \<le> positionAmountAbs position" and "finite_d (positionAmountAbs position)"
    and "Fin 0 < ic_max_position inst * to_double (acfg_max_position_zoom config)"
  shows "Fin 0 \<le> position_full_rate config inst position \<and> position_full_rate config inst position \<le> Fin 1"
proof -
  have "Fin 0 \<le> positionAmountAbs position / (ic_max_position inst * to_double (acfg_max_position_zoom config))"
    using assms by (intro d_nonneg_div) auto
  then show ?thesis unfolding position_full_rate_def Let_def
    using d_le_notNaN d_not_less [of "Fin 1"] by (auto simp: Let_def)
qed
text \<open>What the development uses of \<open>std::log\<close> on binary64: between 1 and 2 its value is between 0 and 1.\<close>

definition log_unit :: "(double \<Rightarrow> double) \<Rightarrow> bool" where
  "log_unit log_d \<longleftrightarrow> (\<forall>x. Fin 1 \<le> x \<longrightarrow> x \<le> Fin 2 \<longrightarrow> Fin 0 \<le> log_d x \<and> log_d x \<le> Fin 1)"

lemma reduce_ratio_bounds:
  assumes "log_unit log_d" and "Fin 0 \<le> positionAmountAbs position" and "finite_d (positionAmountAbs position)"
    and "Fin 0 < ic_max_position inst * to_double (acfg_max_position_zoom config)"
    and "m = acfg_position_threshold_margin config" and "Fin 0 \<le> m" and "finite_d m" and "is_f64 m"
    and "t = position_threshold api log_d now config inst ticker position symbol"
  shows "if positionSide position = PositionSide_SHORT api
    then - m \<le> positionReduceRatio t \<and> positionReduceRatio t \<le> Fin 0
    else Fin 0 \<le> positionReduceRatio t \<and> positionReduceRatio t \<le> m"
proof -
  let ?x = "position_full_rate config inst position"
  have x: "Fin 0 \<le> ?x" "?x \<le> Fin 1" using position_full_rate_unit [OF assms(2-4)] by auto
  have "Fin 1 \<le> ?x * ?x + Fin 1" "?x * ?x + Fin 1 \<le> Fin 2" using d_plus_one d_square_unit [OF x] by auto
  then have "Fin 0 \<le> log_d (?x * ?x + Fin 1)" "log_d (?x * ?x + Fin 1) \<le> Fin 1" using assms(1) by (auto simp: log_unit_def)
  from d_scale_unit [OF this assms(6-8)]
  have r: "Fin 0 \<le> log_d (?x * ?x + Fin 1) * m" "log_d (?x * ?x + Fin 1) * m \<le> m" by auto
  have n: "- m \<le> Fin 0 - log_d (?x * ?x + Fin 1) * m \<and> Fin 0 - log_d (?x * ?x + Fin 1) * m \<le> Fin 0"
    using d_negate [OF r assms(7)] by simp
  have "positionReduceRatio t = (if positionSide position = PositionSide_SHORT api
      then Fin 0 - log_d (?x * ?x + Fin 1) * m else log_d (?x * ?x + Fin 1) * m)"
    by (simp add: assms(5,9) position_threshold_def Let_def)
  with r n show ?thesis by simp
qed

lemma refresh_position_threshold_stores:
  assumes "refresh_position_threshold api log_d now config symbol c = Inr c'"
    and "map_of (ax_shm_follower_ticker_mapping c) symbol = Some index"
    and "ticker_shm_reader_get (follower_start (ax_shm_store_info c)) index = Inr ticker"
    and "Fin 0 < tk_bid_price ticker" and "Fin 0 < tk_ask_price ticker"
    and "copy_position symbol (ax_balance_position_composite c) = Some position"
    and "ax_follower_inst_config c (strip_suffix symbol (acfg_follower_quote_asset config)) = Some inst"
    and "threshold_map (ax_balance_position_composite c) symbol = Some old"
    and "t = position_threshold api log_d now config inst ticker position symbol"
  shows "\<exists>t'. copy_position_threshold symbol (ax_balance_position_composite c') = Some t'
     \<and> positionReduceRatio t' = positionReduceRatio t \<and> totalNotional t' = totalNotional t
     \<and> pt_updateTimeMillis t' = now \<and> \<not> reachMaxPosition t'"
proof -
  have p: "\<not> tk_bid_price ticker \<le> Fin 0" "\<not> tk_ask_price ticker \<le> Fin 0"
    using assms(4,5) d_less_notNaN d_not_le [of _ "Fin 0"] by blast+
  have s: "pt_symbol t = symbol" "pt_updateTimeMillis t = now" using assms(9) by (simp_all add: position_threshold_def Let_def)
  have "c' = c\<lparr>ax_balance_position_composite :=
      snd (update_exist_position_threshold t (ax_balance_position_composite c))\<rparr>"
    using assms p by (simp add: refresh_position_threshold_def calculcate_position_threshold_def)
  with s assms(8) show ?thesis
    by (simp add: update_exist_position_threshold_def copy_position_threshold_def new_PositionThresholdInfo_def)
qed

text \<open>C27. A position event changes the threshold the strategy reads in the direction of the position: for a long position the reduce
  ratio lies between 0 and the configured margin, for a short one between minus the margin and 0.\<close>

theorem position_event_sets_reduce_ratio:
  assumes "process_positions api log_d config [(event, now, now')] c = Inr c'"
    and "position_map (ax_balance_position_composite c) (wp_symbol event) \<noteq> None"
    and "threshold_map (ax_balance_position_composite c) (wp_symbol event) \<noteq> None"
    and "map_of (ax_shm_follower_ticker_mapping c) (wp_symbol event) = Some index"
    and "ticker_shm_reader_get (follower_start (ax_shm_store_info c)) index = Inr ticker"
    and "Fin 0 < tk_bid_price ticker" and "Fin 0 < tk_ask_price ticker"
    and "ax_follower_inst_config c (strip_suffix (wp_symbol event) (acfg_follower_quote_asset config)) = Some inst"
    and "wp_positionSide event = PositionSide_BOTH api" and "PositionSide_LONG api \<noteq> PositionSide_SHORT api"
    and "finite_d (wp_positionAmout event)" and "\<not> feq (wp_positionAmout event) (Fin 0)"
    and "log_unit log_d" and "Fin 0 < ic_max_position inst * to_double (acfg_max_position_zoom config)"
    and "m = acfg_position_threshold_margin config" and "Fin 0 \<le> m" and "finite_d m" and "is_f64 m"
  shows "\<exists>t. copy_position_threshold (wp_symbol event) (ax_balance_position_composite c') = Some t
     \<and> (if wp_positionAmout event < Fin 0 then - m \<le> positionReduceRatio t \<and> positionReduceRatio t \<le> Fin 0
        else Fin 0 \<le> positionReduceRatio t \<and> positionReduceRatio t \<le> m)"
proof -
  let ?symbol = "wp_symbol event" and ?a = "wp_positionAmout event"
  obtain b where b: "update_exist_position_event api now event (ax_balance_position_composite c) = (True, b)"
      "threshold_map b = threshold_map (ax_balance_position_composite c)"
    using assms(2) by (auto simp: update_exist_position_event_def)
  define p where "p = new_AccountPositionInfo\<lparr>pi_symbol := ?symbol, unrealizedProfit := wp_unrealizedPnL event,
      entryPrice := wp_entryPrice event, positionSide := side_of_amount api (wp_positionSide event) ?a,
      positionAmount := ?a, positionAmountAbs := dabs ?a, pi_updateTimeMillis := now\<rparr>"
  have pos: "copy_position ?symbol b = Some p"
    using assms(2) b(1) by (auto simp: update_exist_position_event_def copy_position_def p_def new_AccountPositionInfo_def)
  have side: "positionSide p = PositionSide_SHORT api \<longleftrightarrow> ?a < Fin 0"
    using assms(9-12) by (cases ?a) (auto simp: p_def side_of_amount_def)
  have amt: "Fin 0 \<le> positionAmountAbs p" "finite_d (positionAmountAbs p)"
    using assms(11) by (cases ?a; simp add: p_def)+
  have "refresh_position_threshold api log_d now' config ?symbol (c\<lparr>ax_balance_position_composite := b\<rparr>) = Inr c'"
    using assms(1) b(1) by (auto simp: bind_result_Inr_iff)
  moreover obtain old where "threshold_map b ?symbol = Some old" using assms(3) b(2) by auto
  ultimately obtain t where t: "copy_position_threshold ?symbol (ax_balance_position_composite c') = Some t"
      "positionReduceRatio t = positionReduceRatio (position_threshold api log_d now' config inst ticker p ?symbol)"
    using refresh_position_threshold_stores [of api log_d now' config ?symbol "c\<lparr>ax_balance_position_composite := b\<rparr>" c'
        index ticker p inst old] assms(4-8) pos by auto
  from reduce_ratio_bounds [OF assms(13) amt assms(14-18) refl] side t show ?thesis by auto
qed

definition threshold_config :: ActuaryConfig where
  "threshold_config = sample_actuary_config\<lparr>acfg_position_threshold_margin := Fin 1\<rparr>"

definition threshold_context :: ActuaryContext where
  "threshold_context = (sample_actuary_context 1)\<lparr>ax_follower_inst_config := [''BTC'' \<mapsto> se_inst_config sample_env],
     ax_shm_follower_ticker_mapping := [(''BTCUSDC'', 0)],
     ax_balance_position_composite := ax_balance_position_composite (sample_actuary_context 1)\<lparr>
       threshold_map := [''BTCUSDC'' \<mapsto> new_PositionThresholdInfo]\<rparr>\<rparr>"

definition threshold_event :: WsFuturesAccountUpdatePositionEvent where
  "threshold_event = \<lparr>wp_symbol = ''BTCUSDC'', wp_unrealizedPnL = Fin 0, wp_entryPrice = Fin 1, wp_positionSide = ''BOTH'',
     wp_positionAmout = Fin (- 3)\<rparr>"

definition threshold_api :: BinanceApi where
  "threshold_api = \<lparr>PositionSide_BOTH = ''BOTH'', PositionSide_LONG = ''LONG'', PositionSide_SHORT = ''SHORT'',
     OrderSide_BUY = ''BUY'', OrderSide_SELL = ''SELL''\<rparr>"

lemmas threshold_sample_defs = threshold_config_def threshold_context_def threshold_event_def threshold_api_def
  sample_actuary_config_def sample_actuary_context_def sample_env_def sample_ticker_def

lemma threshold_sample_strip: "strip_suffix ''BTCUSDC'' ''USDC'' = ''BTC''"
  by (simp add: strip_suffix_def)

lemma threshold_sample_ticker:
  "ticker_shm_reader_get (follower_start (ax_shm_store_info threshold_context)) 0
     = Inr (sample_ticker (Fin 9) (Fin 10) 1 100)"
  by (simp add: threshold_sample_defs ticker_shm_reader_get_def seg_get_def strncpy_buf_def)

lemma threshold_sample_run:
  "\<exists>c'. process_positions threshold_api (\<lambda>_. Fin 0) threshold_config [(threshold_event, 1, 2)] threshold_context = Inr c'"
proof -
  obtain b where b: "update_exist_position_event threshold_api 1 threshold_event (ax_balance_position_composite threshold_context)
      = (True, b)" by (simp add: update_exist_position_event_def threshold_sample_defs)
  let ?c = "threshold_context\<lparr>ax_balance_position_composite := b\<rparr>"
  have m: "map_of (ax_shm_follower_ticker_mapping ?c) ''BTCUSDC'' = Some 0"
      "ticker_shm_reader_get (follower_start (ax_shm_store_info ?c)) 0 = Inr (sample_ticker (Fin 9) (Fin 10) 1 100)"
      "wp_symbol threshold_event = ''BTCUSDC''"
    using threshold_sample_ticker by (simp_all add: threshold_context_def threshold_event_def)
  have "\<exists>t. calculcate_position_threshold threshold_api (\<lambda>_. Fin 0) 2 threshold_config ?c ''BTCUSDC'' = Inr t"
    unfolding calculcate_position_threshold_def m by (auto simp: threshold_sample_ticker split: option.split)
  then have "\<exists>c'. refresh_position_threshold threshold_api (\<lambda>_. Fin 0) 2 threshold_config ''BTCUSDC'' ?c = Inr c'"
    by (auto simp: refresh_position_threshold_def split: option.split)
  then show ?thesis using b m(3) by auto
qed

theorem position_event_sets_reduce_ratio_witness:
  "\<exists>c' t. process_positions threshold_api (\<lambda>_. Fin 0) threshold_config [(threshold_event, 1, 2)] threshold_context = Inr c'
     \<and> copy_position_threshold ''BTCUSDC'' (ax_balance_position_composite c') = Some t
     \<and> - Fin 1 \<le> positionReduceRatio t \<and> positionReduceRatio t \<le> Fin 0"
proof -
  from threshold_sample_run obtain c' where
    c': "process_positions threshold_api (\<lambda>_. Fin 0) threshold_config [(threshold_event, 1, 2)] threshold_context = Inr c'" ..
  have "\<exists>t. copy_position_threshold (wp_symbol threshold_event) (ax_balance_position_composite c') = Some t
     \<and> (if wp_positionAmout threshold_event < Fin 0 then - Fin 1 \<le> positionReduceRatio t \<and> positionReduceRatio t \<le> Fin 0
        else Fin 0 \<le> positionReduceRatio t \<and> positionReduceRatio t \<le> Fin 1)"
    by (rule position_event_sets_reduce_ratio [OF c', where index = 0 and ticker = "sample_ticker (Fin 9) (Fin 10) 1 100"
          and inst = "se_inst_config sample_env"])
       (simp_all add: threshold_sample_defs threshold_sample_strip ticker_shm_reader_get_def seg_get_def strncpy_buf_def
          log_unit_def is_f64_def to_double_exact signed_round_def)
  with c' show ?thesis by (auto simp: threshold_event_def)
qed

text \<open>The settings of the margin type are left incomplete: the first instrument that is already set (code -4046) ends the loop with
  success, and the instruments after it are never asked for.\<close>

theorem margin_type_stops_early:
  assumes "\<forall>i \<in> set done_insts. rb_code (answer i) = RestCodeOK \<and> rb_data (answer i)"
    and "rb_code (answer inst) = - 4046" and "RestCodeOK \<noteq> - 4046"
  shows "change_margin_type RestCodeOK answer (done_insts @ inst # others) = (True, done_insts @ [inst])"
  using assms by (induction done_insts) auto

theorem margin_type_stops_early_witness:
  "change_margin_type 0 (\<lambda>i. if i = ''A'' then \<lparr>rb_code = - 4046, rb_data = False\<rparr> else \<lparr>rb_code = 0, rb_data = True\<rparr>) [''A'', ''B'']
     = (True, [''A''])"
  using margin_type_stops_early [of "[]" "\<lambda>i. if i = ''A'' then \<lparr>rb_code = - 4046, rb_data = False\<rparr> else \<lparr>rb_code = 0, rb_data = True\<rparr>"
      0 "''A''" "[''B'']"] by simp

end
