(* ===== verification/Evaluator.thy ===== *)
theory Evaluator
  imports Tools
begin

text \<open>
  \<open>src/src/evaluator/\<close>: the process that follows every order for an hour after it was placed and records the
  price and the profit at thirteen horizons. Three threads share its state: one feeds tickers, one (per
  socket) feeds orders and fills, and the poller evaluates all orders, saves them to the database and
  drops the old ones. Each member function of the two containers is atomic under its lock; the
  poller's loop is not, so the section on interleavings has a step relation in which the other threads act
  between its steps. An \<open>unordered_map\<close> is an association list whose order carries no meaning. The
  clock, the uninitialised memory that is read, and the string constants of the exchange library are
  arguments.
\<close>

section \<open>Tickers\<close>

record TickerLite =
  tl_symbol :: string
  tl_ask :: double
  tl_bid :: double
  tl_update_id :: u64
  tl_update_time_millis :: u64

type_synonym TickerLiteComposite = "string \<rightharpoonup> TickerLite"

text \<open>\<open>copy_self\<close> writes to its argument, whose time it assigns to itself.\<close>

definition tl_copy_self :: "TickerLite \<Rightarrow> TickerLite \<Rightarrow> TickerLite" where
  "tl_copy_self this lite =
     lite\<lparr>tl_symbol := tl_symbol this, tl_ask := tl_ask this, tl_bid := tl_bid this,
          tl_update_id := tl_update_id this, tl_update_time_millis := tl_update_time_millis lite\<rparr>"

definition tl_update_ticker :: "TickerLite \<Rightarrow> TickerLiteComposite \<Rightarrow> TickerLiteComposite" where
  "tl_update_ticker lite m =
     (case m (tl_symbol lite) of
        None \<Rightarrow> m(tl_symbol lite \<mapsto> lite)
      | Some original \<Rightarrow>
          if tl_update_id original < tl_update_id lite then m(tl_symbol lite \<mapsto> lite) else m)"

text \<open>\<open>uninit\<close> is the content of the local variable before \<open>copy_self\<close> fills it.\<close>

definition tl_get_ticker :: "TickerLite \<Rightarrow> string \<Rightarrow> TickerLiteComposite \<Rightarrow> TickerLite option" where
  "tl_get_ticker uninit symbol m =
     (case m symbol of
        None \<Rightarrow> None
      | Some original \<Rightarrow> Some (tl_copy_self original uninit))"

text \<open>The fields that are read of the exchange's book ticker event, and what its handler does.\<close>

record WsFuturesBookTickerEvent =
  bt_symbol :: string
  bt_bestAskPrice :: double
  bt_bestBidPrice :: double
  bt_updateId :: u64
  bt_eventTime :: u64

definition process_normal_futures_ticker_message ::
  "WsFuturesBookTickerEvent \<Rightarrow> TickerLiteComposite \<Rightarrow> TickerLiteComposite" where
  "process_normal_futures_ticker_message event m =
     tl_update_ticker \<lparr>tl_symbol = bt_symbol event, tl_ask = bt_bestAskPrice event, tl_bid = bt_bestBidPrice event,
       tl_update_id = bt_updateId event, tl_update_time_millis = bt_eventTime event\<rparr> m"

section \<open>Orders\<close>

record EvaluatorOrderLite =
  el_accountFlag :: string
  el_symbol :: string
  el_orderSide :: string
  el_clientOrderId :: string
  el_averagePrice :: double
  el_filledSize :: double
  el_commissionRate :: double
  el_systemTimestamp :: u64

text \<open>The fields of \<open>StatOrderFullInfo\<close>, in three records that extend one another.\<close>

record StatOrderHead =
  fi_account_flag :: string
  fi_symbol :: string
  fi_order_side :: string
  fi_client_order_id :: string
  fi_average_price :: double
  fi_filled_size :: double
  fi_commission_rate :: double
  fi_system_timestamp :: u64
  fi_property_changed :: bool

record StatOrderPrices = StatOrderHead +
  price_after_1s :: double
  price_after_5s :: double
  price_after_10s :: double
  price_after_20s :: double
  price_after_30s :: double
  price_after_40s :: double
  price_after_50s :: double
  price_after_60s :: double
  price_after_120s :: double
  price_after_180s :: double
  price_after_15min :: double
  price_after_30min :: double
  price_after_1hour :: double

record StatOrderFullInfo = StatOrderPrices +
  pnl_1s_percentage :: double
  pnl_5s_percentage :: double
  pnl_10s_percentage :: double
  pnl_20s_percentage :: double
  pnl_30s_percentage :: double
  pnl_40s_percentage :: double
  pnl_50s_percentage :: double
  pnl_60s_percentage :: double
  pnl_120s_percentage :: double
  pnl_180s_percentage :: double
  pnl_15min_percentage :: double
  pnl_30min_percentage :: double
  pnl_1hour_percentage :: double

definition new_StatOrderFullInfo :: "EvaluatorOrderLite \<Rightarrow> StatOrderFullInfo" where
  "new_StatOrderFullInfo lite =
     \<lparr>fi_account_flag = el_accountFlag lite, fi_symbol = el_symbol lite, fi_order_side = el_orderSide lite,
      fi_client_order_id = el_clientOrderId lite, fi_average_price = el_averagePrice lite,
      fi_filled_size = el_filledSize lite, fi_commission_rate = el_commissionRate lite,
      fi_system_timestamp = el_systemTimestamp lite, fi_property_changed = False,
      price_after_1s = Fin 0, price_after_5s = Fin 0, price_after_10s = Fin 0,
      price_after_20s = Fin 0, price_after_30s = Fin 0, price_after_40s = Fin 0,
      price_after_50s = Fin 0, price_after_60s = Fin 0, price_after_120s = Fin 0,
      price_after_180s = Fin 0, price_after_15min = Fin 0, price_after_30min = Fin 0,
      price_after_1hour = Fin 0, pnl_1s_percentage = Fin 0, pnl_5s_percentage = Fin 0,
      pnl_10s_percentage = Fin 0, pnl_20s_percentage = Fin 0, pnl_30s_percentage = Fin 0,
      pnl_40s_percentage = Fin 0, pnl_50s_percentage = Fin 0, pnl_60s_percentage = Fin 0,
      pnl_120s_percentage = Fin 0, pnl_180s_percentage = Fin 0, pnl_15min_percentage = Fin 0,
      pnl_30min_percentage = Fin 0, pnl_1hour_percentage = Fin 0\<rparr>"

text \<open>The horizons, with the pair of fields each one owns.\<close>

datatype horizon =
    H1s | H5s | H10s | H20s | H30s | H40s | H50s | H60s | H120s | H180s | H15min | H30min | H1hour

definition horizons :: "horizon list" where
  "horizons = [H1s, H5s, H10s, H20s, H30s, H40s, H50s, H60s, H120s, H180s, H15min, H30min, H1hour]"

primrec horizon_seconds :: "horizon \<Rightarrow> int" where
  "horizon_seconds H1s = 1"
| "horizon_seconds H5s = 5"
| "horizon_seconds H10s = 10"
| "horizon_seconds H20s = 20"
| "horizon_seconds H30s = 30"
| "horizon_seconds H40s = 40"
| "horizon_seconds H50s = 50"
| "horizon_seconds H60s = 60"
| "horizon_seconds H120s = 120"
| "horizon_seconds H180s = 180"
| "horizon_seconds H15min = 900"
| "horizon_seconds H30min = 1800"
| "horizon_seconds H1hour = 3600"

primrec price_after :: "horizon \<Rightarrow> StatOrderFullInfo \<Rightarrow> double" where
  "price_after H1s info = price_after_1s info"
| "price_after H5s info = price_after_5s info"
| "price_after H10s info = price_after_10s info"
| "price_after H20s info = price_after_20s info"
| "price_after H30s info = price_after_30s info"
| "price_after H40s info = price_after_40s info"
| "price_after H50s info = price_after_50s info"
| "price_after H60s info = price_after_60s info"
| "price_after H120s info = price_after_120s info"
| "price_after H180s info = price_after_180s info"
| "price_after H15min info = price_after_15min info"
| "price_after H30min info = price_after_30min info"
| "price_after H1hour info = price_after_1hour info"

primrec pnl_percentage :: "horizon \<Rightarrow> StatOrderFullInfo \<Rightarrow> double" where
  "pnl_percentage H1s info = pnl_1s_percentage info"
| "pnl_percentage H5s info = pnl_5s_percentage info"
| "pnl_percentage H10s info = pnl_10s_percentage info"
| "pnl_percentage H20s info = pnl_20s_percentage info"
| "pnl_percentage H30s info = pnl_30s_percentage info"
| "pnl_percentage H40s info = pnl_40s_percentage info"
| "pnl_percentage H50s info = pnl_50s_percentage info"
| "pnl_percentage H60s info = pnl_60s_percentage info"
| "pnl_percentage H120s info = pnl_120s_percentage info"
| "pnl_percentage H180s info = pnl_180s_percentage info"
| "pnl_percentage H15min info = pnl_15min_percentage info"
| "pnl_percentage H30min info = pnl_30min_percentage info"
| "pnl_percentage H1hour info = pnl_1hour_percentage info"

primrec set_horizon :: "horizon \<Rightarrow> double \<Rightarrow> double \<Rightarrow> StatOrderFullInfo \<Rightarrow> StatOrderFullInfo" where
  "set_horizon H1s price pnl info = info\<lparr>price_after_1s := price, pnl_1s_percentage := pnl\<rparr>"
| "set_horizon H5s price pnl info = info\<lparr>price_after_5s := price, pnl_5s_percentage := pnl\<rparr>"
| "set_horizon H10s price pnl info = info\<lparr>price_after_10s := price, pnl_10s_percentage := pnl\<rparr>"
| "set_horizon H20s price pnl info = info\<lparr>price_after_20s := price, pnl_20s_percentage := pnl\<rparr>"
| "set_horizon H30s price pnl info = info\<lparr>price_after_30s := price, pnl_30s_percentage := pnl\<rparr>"
| "set_horizon H40s price pnl info = info\<lparr>price_after_40s := price, pnl_40s_percentage := pnl\<rparr>"
| "set_horizon H50s price pnl info = info\<lparr>price_after_50s := price, pnl_50s_percentage := pnl\<rparr>"
| "set_horizon H60s price pnl info = info\<lparr>price_after_60s := price, pnl_60s_percentage := pnl\<rparr>"
| "set_horizon H120s price pnl info = info\<lparr>price_after_120s := price, pnl_120s_percentage := pnl\<rparr>"
| "set_horizon H180s price pnl info = info\<lparr>price_after_180s := price, pnl_180s_percentage := pnl\<rparr>"
| "set_horizon H15min price pnl info = info\<lparr>price_after_15min := price, pnl_15min_percentage := pnl\<rparr>"
| "set_horizon H30min price pnl info = info\<lparr>price_after_30min := price, pnl_30min_percentage := pnl\<rparr>"
| "set_horizon H1hour price pnl info = info\<lparr>price_after_1hour := price, pnl_1hour_percentage := pnl\<rparr>"

type_synonym StatOrderFullInfoComposite = "(string \<times> StatOrderFullInfo) list"

definition update_with_lite :: "EvaluatorOrderLite \<Rightarrow> StatOrderFullInfoComposite \<Rightarrow> StatOrderFullInfoComposite" where
  "update_with_lite lite m =
     (case map_of m (el_clientOrderId lite) of
        Some original \<Rightarrow>
          AList.update (el_clientOrderId lite)
            (original\<lparr>fi_filled_size := el_filledSize lite, fi_average_price := el_averagePrice lite\<rparr>) m
      | None \<Rightarrow> AList.update (el_clientOrderId lite) (new_StatOrderFullInfo lite) m)"

definition update_with_full_info ::
  "u64 \<Rightarrow> StatOrderFullInfo \<Rightarrow> StatOrderFullInfoComposite \<Rightarrow> bool \<times> StatOrderFullInfoComposite" where
  "update_with_full_info now info m =
     (if now > fi_system_timestamp info + 3600 then (False, m)
      else (True, AList.update (fi_client_order_id info) info m))"

definition get_all_stat_orders :: "StatOrderFullInfoComposite \<Rightarrow> StatOrderFullInfo list" where
  "get_all_stat_orders m = map snd m"

text \<open>The expired keys are collected under the shared lock and erased under the exclusive one.\<close>

definition expired_keys :: "u64 \<Rightarrow> StatOrderFullInfoComposite \<Rightarrow> string list" where
  "expired_keys now m = map fst (filter (\<lambda>(_, info). now > fi_system_timestamp info + 3600 + 10) m)"

definition erase_keys :: "string list \<Rightarrow> StatOrderFullInfoComposite \<Rightarrow> StatOrderFullInfoComposite" where
  "erase_keys keys m = fold AList.delete keys m"

definition remove_expired_stat_order ::
  "u64 \<Rightarrow> StatOrderFullInfoComposite \<Rightarrow> (nat \<times> nat) \<times> StatOrderFullInfoComposite" where
  "remove_expired_stat_order now m =
     (let m' = erase_keys (expired_keys now m) m in ((length m, length m'), m'))"

section \<open>Evaluating an order\<close>

definition record_horizon :: "int \<Rightarrow> double \<Rightarrow> double \<Rightarrow> horizon \<Rightarrow> StatOrderFullInfo \<Rightarrow> StatOrderFullInfo" where
  "record_horizon time_range current_price pnl h info =
     (if horizon_seconds h \<le> time_range \<and> feq (price_after h info) (Fin 0)
      then (set_horizon h current_price pnl info)\<lparr>fi_property_changed := True\<rparr>
      else info)"

definition record_horizons :: "int \<Rightarrow> double \<Rightarrow> double \<Rightarrow> StatOrderFullInfo \<Rightarrow> StatOrderFullInfo" where
  "record_horizons time_range current_price pnl info =
     fold (record_horizon time_range current_price pnl) horizons info"

definition evaluation_price :: "string \<Rightarrow> TickerLite \<Rightarrow> StatOrderFullInfo \<Rightarrow> double \<times> int" where
  "evaluation_price ORDER_SIDE_BUY ticker info =
     (if fi_order_side info = ORDER_SIDE_BUY then (tl_ask ticker, 1) else (tl_bid ticker, - 1))"

definition order_pnl :: "double \<Rightarrow> int \<Rightarrow> StatOrderFullInfo \<Rightarrow> double result" where
  "order_pnl current_price pnl_multiple info =
     (let pnl = ((current_price - fi_average_price info) / fi_average_price info) * to_double pnl_multiple
      in decimal_process (pnl - fi_commission_rate info) 5)"

text \<open>One round of the loop over the snapshot; \<open>Inl\<close> is the undefined conversion of \<open>decimal_process\<close>.\<close>

definition evaluate_order ::
  "string \<Rightarrow> TickerLite \<Rightarrow> u64 \<Rightarrow> TickerLiteComposite \<Rightarrow> StatOrderFullInfo \<Rightarrow> StatOrderFullInfo result" where
  "evaluate_order ORDER_SIDE_BUY uninit now tickers info =
     (let info = info\<lparr>fi_property_changed := False\<rparr>
      in if now \<le> fi_system_timestamp info then Inr info
         else case tl_get_ticker uninit (fi_symbol info) tickers of
                None \<Rightarrow> Inr info
              | Some ticker \<Rightarrow>
                  let (current_price, pnl_multiple) = evaluation_price ORDER_SIDE_BUY ticker info;
                      time_range = sint (now - fi_system_timestamp info)
                  in bind_result (order_pnl current_price pnl_multiple info)
                       (\<lambda>pnl. Inr (record_horizons time_range current_price pnl info)))"

definition store_evaluation :: "u64 \<Rightarrow> StatOrderFullInfo \<Rightarrow> StatOrderFullInfoComposite \<Rightarrow> StatOrderFullInfoComposite" where
  "store_evaluation now info m =
     (if fi_property_changed info then snd (update_with_full_info now info m) else m)"

section \<open>The database\<close>

text \<open>
  The statement inserts a row, or, for a client order id that has one already, updates the columns
  it lists; the average price is not among them.
\<close>

record OrderPnlRow =
  row_info :: StatOrderFullInfo
  has_trading_volume :: string

definition upsert_order_pnl :: "StatOrderFullInfo \<Rightarrow> (string \<rightharpoonup> OrderPnlRow) \<Rightarrow> (string \<rightharpoonup> OrderPnlRow)" where
  "upsert_order_pnl info db =
     (let traded = (if fi_filled_size info > Fin 0 then ''Y'' else ''N'');
          key = fi_client_order_id info
      in case db key of
           None \<Rightarrow> db(key \<mapsto> \<lparr>row_info = info, has_trading_volume = traded\<rparr>)
         | Some row \<Rightarrow> db(key \<mapsto> \<lparr>row_info = info\<lparr>
             fi_account_flag := fi_account_flag (row_info row), fi_symbol := fi_symbol (row_info row),
             fi_order_side := fi_order_side (row_info row), fi_average_price := fi_average_price (row_info row),
             fi_system_timestamp := fi_system_timestamp (row_info row),
             fi_commission_rate := fi_commission_rate (row_info row)\<rparr>, has_trading_volume = traded\<rparr>))"

definition rows_to_save :: "u64 \<Rightarrow> StatOrderFullInfo list \<Rightarrow> StatOrderFullInfo list" where
  "rows_to_save now info_list =
     filter (\<lambda>info. \<not> now \<le> fi_system_timestamp info \<and> fi_property_changed info) info_list"

text \<open>Without a connection nothing is saved; a statement that fails is logged and skipped.\<close>

definition save_evaluations ::
  "bool \<Rightarrow> (StatOrderFullInfo \<Rightarrow> bool) \<Rightarrow> u64 \<Rightarrow> StatOrderFullInfo list \<Rightarrow> (string \<rightharpoonup> OrderPnlRow) \<Rightarrow> (string \<rightharpoonup> OrderPnlRow)" where
  "save_evaluations has_conn query_ok now info_list db =
     (if has_conn then fold upsert_order_pnl (filter query_ok (rows_to_save now info_list)) db else db)"

section \<open>Start and one undisturbed cycle of the poller\<close>


text \<open>
  The rows of the last hour and ten seconds are loaded at the start. A row is the list of its columns;
  \<open>stod\<close> and \<open>stoull\<close> are the library's conversions, which throw for a text that is no number. The exception
  ends the loop over the rows. Each row comes with the clock value that its update reads.
\<close>

definition info_of_row :: "(string \<Rightarrow> double option) \<Rightarrow> (string \<Rightarrow> u64 option) \<Rightarrow> string list \<Rightarrow> StatOrderFullInfo option" where
  "info_of_row stod stoull row =
     (case (stoull (row ! 6), those (map stod ([row ! 4, row ! 5] @ drop 7 (take 34 row)))) of
        (Some ts, Some d) \<Rightarrow>
          Some \<lparr>fi_account_flag = row ! 0, fi_symbol = row ! 1, fi_order_side = row ! 2, fi_client_order_id = row ! 3,
            fi_average_price = d ! 0, fi_filled_size = d ! 1, fi_commission_rate = d ! 28,
            fi_system_timestamp = ts, fi_property_changed = False,
            price_after_1s = d ! 2, price_after_5s = d ! 3, price_after_10s = d ! 4,
            price_after_20s = d ! 5, price_after_30s = d ! 6, price_after_40s = d ! 7,
            price_after_50s = d ! 8, price_after_60s = d ! 9, price_after_120s = d ! 10,
            price_after_180s = d ! 11, price_after_15min = d ! 12, price_after_30min = d ! 13,
            price_after_1hour = d ! 14, pnl_1s_percentage = d ! 15, pnl_5s_percentage = d ! 16,
            pnl_10s_percentage = d ! 17, pnl_20s_percentage = d ! 18, pnl_30s_percentage = d ! 19,
            pnl_40s_percentage = d ! 20, pnl_50s_percentage = d ! 21, pnl_60s_percentage = d ! 22,
            pnl_120s_percentage = d ! 23, pnl_180s_percentage = d ! 24, pnl_15min_percentage = d ! 25,
            pnl_30min_percentage = d ! 26, pnl_1hour_percentage = d ! 27\<rparr>
      | _ \<Rightarrow> None)"

fun load_recently_order_stat_result ::
  "(string \<Rightarrow> double option) \<Rightarrow> (string \<Rightarrow> u64 option) \<Rightarrow> (u64 \<times> string list) list
   \<Rightarrow> StatOrderFullInfoComposite \<Rightarrow> StatOrderFullInfoComposite" where
  "load_recently_order_stat_result stod stoull [] m = m"
| "load_recently_order_stat_result stod stoull ((now, row) # rows) m =
     (case info_of_row stod stoull row of
        None \<Rightarrow> m
      | Some info \<Rightarrow>
          load_recently_order_stat_result stod stoull rows (snd (update_with_full_info now info m)))"


fun poll_orders ::
  "string \<Rightarrow> TickerLite \<Rightarrow> u64 \<Rightarrow> TickerLiteComposite \<Rightarrow> StatOrderFullInfo list \<Rightarrow> StatOrderFullInfoComposite
   \<Rightarrow> (StatOrderFullInfo list \<times> StatOrderFullInfoComposite) result" where
  "poll_orders ORDER_SIDE_BUY uninit now tickers [] m = Inr ([], m)"
| "poll_orders ORDER_SIDE_BUY uninit now tickers (info # infos) m =
     bind_result (evaluate_order ORDER_SIDE_BUY uninit now tickers info) (\<lambda>info.
     bind_result (poll_orders ORDER_SIDE_BUY uninit now tickers infos (store_evaluation now info m)) (\<lambda>(done, m).
     Inr (info # done, m)))"

record EvaluatorContext =
  ex_futures_ticker_composite :: TickerLiteComposite
  ex_stat_order_composite :: StatOrderFullInfoComposite
  ex_order_pnl_table :: "string \<rightharpoonup> OrderPnlRow"

definition polling_calculate_order_pnl ::
  "string \<Rightarrow> TickerLite \<Rightarrow> u64 \<Rightarrow> bool \<Rightarrow> (StatOrderFullInfo \<Rightarrow> bool) \<Rightarrow> EvaluatorContext \<Rightarrow> EvaluatorContext result" where
  "polling_calculate_order_pnl ORDER_SIDE_BUY uninit now has_conn query_ok c =
     bind_result (poll_orders ORDER_SIDE_BUY uninit now (ex_futures_ticker_composite c)
         (get_all_stat_orders (ex_stat_order_composite c)) (ex_stat_order_composite c)) (\<lambda>(info_list, m).
       Inr (c\<lparr>ex_order_pnl_table := save_evaluations has_conn query_ok now info_list (ex_order_pnl_table c),
              ex_stat_order_composite := snd (remove_expired_stat_order now m)\<rparr>))"

section \<open>What an evaluation records\<close>

lemma set_horizons [simp]: "set horizons = UNIV" "distinct horizons"
proof -
  have "h \<in> set horizons" for h by (cases h) (simp_all add: horizons_def)
  then show "set horizons = UNIV" by blast
  show "distinct horizons" by (simp add: horizons_def)
qed

lemma horizon_seconds_bounds: "1 \<le> horizon_seconds h" "horizon_seconds h \<le> 3600"
  by (cases h; simp)+

lemma price_after_set_horizon [simp]:
  "price_after h (set_horizon h' p v info) = (if h = h' then p else price_after h info)"
  by (cases h'; cases h; simp)

lemma pnl_percentage_set_horizon [simp]:
  "pnl_percentage h (set_horizon h' p v info) = (if h = h' then v else pnl_percentage h info)"
  by (cases h'; cases h; simp)

lemma price_after_changed [simp]: "price_after h (info\<lparr>fi_property_changed := b\<rparr>) = price_after h info"
    "pnl_percentage h (info\<lparr>fi_property_changed := b\<rparr>) = pnl_percentage h info"
  by (cases h; simp)+

lemma price_after_fill [simp]:
  "price_after h (info\<lparr>fi_filled_size := x, fi_average_price := y\<rparr>) = price_after h info"
  "pnl_percentage h (info\<lparr>fi_filled_size := x, fi_average_price := y\<rparr>) = pnl_percentage h info"
  by (cases h; simp)+

lemma price_after_new [simp]: "price_after h (new_StatOrderFullInfo lite) = Fin 0"
  by (cases h; simp add: new_StatOrderFullInfo_def)

lemma set_horizon_head [simp]:
  "fi_account_flag (set_horizon h p v info) = fi_account_flag info"
  "fi_symbol (set_horizon h p v info) = fi_symbol info"
  "fi_order_side (set_horizon h p v info) = fi_order_side info"
  "fi_client_order_id (set_horizon h p v info) = fi_client_order_id info"
  "fi_average_price (set_horizon h p v info) = fi_average_price info"
  "fi_filled_size (set_horizon h p v info) = fi_filled_size info"
  "fi_commission_rate (set_horizon h p v info) = fi_commission_rate info"
  "fi_system_timestamp (set_horizon h p v info) = fi_system_timestamp info"
  "fi_property_changed (set_horizon h p v info) = fi_property_changed info"
  by (cases h; simp)+

text \<open>The fields an evaluation never touches.\<close>

definition order_identity :: "StatOrderFullInfo \<Rightarrow> (string \<times> string \<times> string \<times> string) \<times> double \<times> double \<times> double \<times> u64" where
  "order_identity info =
     ((fi_account_flag info, fi_symbol info, fi_order_side info, fi_client_order_id info),
      fi_average_price info, fi_filled_size info, fi_commission_rate info, fi_system_timestamp info)"

lemma record_horizon_identity [simp]: "order_identity (record_horizon t p v h info) = order_identity info"
  by (simp add: record_horizon_def order_identity_def)

lemma record_horizon_price:
  "price_after h (record_horizon t p v h' info)
     = (if h = h' \<and> horizon_seconds h \<le> t \<and> feq (price_after h info) (Fin 0) then p else price_after h info)"
  "pnl_percentage h (record_horizon t p v h' info)
     = (if h = h' \<and> horizon_seconds h \<le> t \<and> feq (price_after h info) (Fin 0) then v else pnl_percentage h info)"
  by (auto simp: record_horizon_def)

lemma record_fold_identity: "order_identity (fold (record_horizon t p v) hs info) = order_identity info"
  by (induction hs arbitrary: info) simp_all

lemma record_fold_other:
  "h \<notin> set hs \<Longrightarrow> price_after h (fold (record_horizon t p v) hs info) = price_after h info
     \<and> pnl_percentage h (fold (record_horizon t p v) hs info) = pnl_percentage h info"
  by (induction hs arbitrary: info) (simp_all add: record_horizon_price)

abbreviation due :: "int \<Rightarrow> horizon \<Rightarrow> StatOrderFullInfo \<Rightarrow> bool" where
  "due t h info \<equiv> horizon_seconds h \<le> t \<and> feq (price_after h info) (Fin 0)"

lemma record_fold_price:
  "distinct hs \<Longrightarrow> h \<in> set hs \<Longrightarrow>
     price_after h (fold (record_horizon t p v) hs info) = (if due t h info then p else price_after h info)
     \<and> pnl_percentage h (fold (record_horizon t p v) hs info) = (if due t h info then v else pnl_percentage h info)"
proof (induction hs arbitrary: info)
  case (Cons h' hs)
  show ?case
  proof (cases "h = h'")
    case True
    with Cons.prems show ?thesis by (simp add: record_fold_other record_horizon_price)
  next
    case False
    with Cons have "price_after h (fold (record_horizon t p v) hs (record_horizon t p v h' info))
          = (if due t h (record_horizon t p v h' info) then p else price_after h (record_horizon t p v h' info))
       \<and> pnl_percentage h (fold (record_horizon t p v) hs (record_horizon t p v h' info))
          = (if due t h (record_horizon t p v h' info) then v else pnl_percentage h (record_horizon t p v h' info))"
      by simp
    with False show ?thesis by (simp add: record_horizon_price)
  qed
qed simp

lemma record_fold_changed:
  "distinct hs \<Longrightarrow>
   fi_property_changed (fold (record_horizon t p v) hs info)
     \<longleftrightarrow> fi_property_changed info \<or> (\<exists>h \<in> set hs. due t h info)"
proof (induction hs arbitrary: info)
  case (Cons h' hs)
  have "due t h (record_horizon t p v h' info) = due t h info" if "h \<in> set hs" for h
    using that Cons.prems by (auto simp: record_horizon_def)
  with Cons show ?case by (auto simp: record_horizon_def)
qed simp

lemma record_horizons_price [simp]:
  "price_after h (record_horizons t p v info) = (if due t h info then p else price_after h info)"
  "pnl_percentage h (record_horizons t p v info) = (if due t h info then v else pnl_percentage h info)"
  by (simp_all add: record_horizons_def record_fold_price)

lemma record_horizons_changed [simp]:
  "fi_property_changed (record_horizons t p v info) \<longleftrightarrow> fi_property_changed info \<or> (\<exists>h. due t h info)"
  by (simp add: record_horizons_def record_fold_changed)

lemma record_horizons_identity [simp]: "order_identity (record_horizons t p v info) = order_identity info"
  by (simp add: record_horizons_def record_fold_identity)

lemma elapsed_seconds:
  fixes now ts :: u64
  assumes "ts < now" and "0 < s" and "s \<le> sint (now - ts)"
  shows "uint ts + s \<le> uint now"
proof -
  have "0 \<le> sint (now - ts)" using assms(2,3) by simp
  moreover have "sint w = uint w \<or> sint w < 0" for w :: u64
    using uint_lt2p [of w] by (simp add: sint_uint signed_take_bit_eq_take_bit_minus take_bit_int_eq_self)
  ultimately have "sint (now - ts) = uint (now - ts)" by (meson not_less)
  moreover have "uint (now - ts) = uint now - uint ts"
    using assms(1) by (intro uint_minus_simple_alt [THEN iffD1]) simp
  ultimately show ?thesis using assms(3) by linarith
qed
lemma evaluate_order_priced:
  assumes "fi_system_timestamp info < now" and "tl_get_ticker uninit (fi_symbol info) tickers = Some ticker"
    and "evaluation_price BUY ticker info = (p, j)"
  shows "evaluate_order BUY uninit now tickers info = bind_result (order_pnl p j info) (\<lambda>v.
     Inr (record_horizons (sint (now - fi_system_timestamp info)) p v (info\<lparr>fi_property_changed := False\<rparr>)))"
proof -
  have "evaluation_price BUY ticker (info\<lparr>fi_property_changed := False\<rparr>) = (p, j)"
      "order_pnl p j (info\<lparr>fi_property_changed := False\<rparr>) = order_pnl p j info" "\<not> now \<le> fi_system_timestamp info"
    using assms(1,3) by (simp_all add: evaluation_price_def order_pnl_def)
  with assms(2) show ?thesis by (simp add: evaluate_order_def Let_def)
qed

lemma evaluate_order_cases:
  assumes "evaluate_order BUY uninit now tickers info = Inr info'"
  shows "order_identity info' = order_identity info"
    and "(\<forall>h. price_after h info' = price_after h info \<and> pnl_percentage h info' = pnl_percentage h info)
           \<and> \<not> fi_property_changed info'
         \<or> fi_system_timestamp info < now \<and> (\<exists>p v. \<forall>h.
             price_after h info' = (if due (sint (now - fi_system_timestamp info)) h info then p else price_after h info) \<and>
             pnl_percentage h info' = (if due (sint (now - fi_system_timestamp info)) h info then v else pnl_percentage h info))"
proof -
  have "order_identity info' = order_identity info \<and>
     ((\<forall>h. price_after h info' = price_after h info \<and> pnl_percentage h info' = pnl_percentage h info)
           \<and> \<not> fi_property_changed info'
         \<or> fi_system_timestamp info < now \<and> (\<exists>p v. \<forall>h.
             price_after h info' = (if due (sint (now - fi_system_timestamp info)) h info then p else price_after h info) \<and>
             pnl_percentage h info' = (if due (sint (now - fi_system_timestamp info)) h info then v else pnl_percentage h info)))"
  proof (cases "now \<le> fi_system_timestamp info \<or> tl_get_ticker uninit (fi_symbol info) tickers = None")
    case True
    with assms have "info' = info\<lparr>fi_property_changed := False\<rparr>"
      by (auto simp: evaluate_order_def Let_def split: if_splits)
    then show ?thesis by (simp add: order_identity_def)
  next
    case False
    then obtain ticker where t: "tl_get_ticker uninit (fi_symbol info) tickers = Some ticker"
        "\<not> now \<le> fi_system_timestamp info" by blast
    obtain p k where "evaluation_price BUY ticker info = (p, k)" by fastforce
    moreover have now: "fi_system_timestamp info < now" using t(2) by simp
    ultimately obtain v
      where v: "info' = record_horizons (sint (now - fi_system_timestamp info)) p v (info\<lparr>fi_property_changed := False\<rparr>)"
      using assms evaluate_order_priced [of info now uninit tickers ticker BUY p k] t by (auto simp: bind_result_Inr_iff)
    have "order_identity (info\<lparr>fi_property_changed := False\<rparr>) = order_identity info"
      by (simp add: order_identity_def)
    with now show ?thesis unfolding v by (simp; blast)
  qed
  then show "order_identity info' = order_identity info"
    and "(\<forall>h. price_after h info' = price_after h info \<and> pnl_percentage h info' = pnl_percentage h info)
           \<and> \<not> fi_property_changed info'
         \<or> fi_system_timestamp info < now \<and> (\<exists>p v. \<forall>h.
             price_after h info' = (if due (sint (now - fi_system_timestamp info)) h info then p else price_after h info) \<and>
             pnl_percentage h info' = (if due (sint (now - fi_system_timestamp info)) h info then v else pnl_percentage h info))"
    by blast+
qed

lemma order_identityD:
  "order_identity a = order_identity b \<Longrightarrow> fi_client_order_id a = fi_client_order_id b"
  "order_identity a = order_identity b \<Longrightarrow> fi_system_timestamp a = fi_system_timestamp b"
  by (simp_all add: order_identity_def)

section \<open>Interleavings\<close>

text \<open>
  The poller is idle, or it works on a snapshot taken at a time (orders to evaluate, orders evaluated),
  or has saved them, or has collected the keys to erase. The other rules are the ticker thread, the
  order threads and the passing of time; they apply in every state of the poller.
\<close>

datatype poller = Idle | Scanning u64 "StatOrderFullInfo list" "StatOrderFullInfo list" | Saved | Erasing "string list"

record EvaluatorState = EvaluatorContext +
  es_clock :: u64
  es_poller :: poller

definition evaluator_start ::
  "(string \<Rightarrow> double option) \<Rightarrow> (string \<Rightarrow> u64 option) \<Rightarrow> (u64 \<times> string list) list \<Rightarrow> (string \<rightharpoonup> OrderPnlRow) \<Rightarrow> u64 \<Rightarrow> EvaluatorState" where
  "evaluator_start stod stoull rows db clock =
     \<lparr>ex_futures_ticker_composite = Map.empty,
      ex_stat_order_composite = load_recently_order_stat_result stod stoull rows [],
      ex_order_pnl_table = db, es_clock = clock, es_poller = Idle\<rparr>"

inductive estep :: "string \<Rightarrow> EvaluatorState \<Rightarrow> EvaluatorState \<Rightarrow> bool" for BUY :: string where
  tick: "es_clock s \<le> now \<Longrightarrow> estep BUY s (s\<lparr>es_clock := now\<rparr>)"
| ticker: "estep BUY s (s\<lparr>ex_futures_ticker_composite :=
      process_normal_futures_ticker_message event (ex_futures_ticker_composite s)\<rparr>)"
| order: "estep BUY s (s\<lparr>ex_stat_order_composite := update_with_lite lite (ex_stat_order_composite s)\<rparr>)"
| snapshot: "es_poller s = Idle \<Longrightarrow>
    estep BUY s (s\<lparr>es_poller := Scanning (es_clock s) (get_all_stat_orders (ex_stat_order_composite s)) []\<rparr>)"
| evaluate: "es_poller s = Scanning now (info # todo) finished \<Longrightarrow>
    evaluate_order BUY uninit now (ex_futures_ticker_composite s) info = Inr info' \<Longrightarrow>
    estep BUY s (s\<lparr>ex_stat_order_composite := store_evaluation (es_clock s) info' (ex_stat_order_composite s),
                   es_poller := Scanning now todo (finished @ [info'])\<rparr>)"
| save: "es_poller s = Scanning now [] finished \<Longrightarrow>
    estep BUY s (s\<lparr>ex_order_pnl_table := save_evaluations has_conn query_ok now finished (ex_order_pnl_table s),
                   es_poller := Saved\<rparr>)"
| collect: "es_poller s = Saved \<Longrightarrow>
    estep BUY s (s\<lparr>es_poller := Erasing (expired_keys (es_clock s) (ex_stat_order_composite s))\<rparr>)"
| erase: "es_poller s = Erasing keys \<Longrightarrow>
    estep BUY s (s\<lparr>ex_stat_order_composite := erase_keys keys (ex_stat_order_composite s), es_poller := Idle\<rparr>)"

text \<open>
  The keys of the map are the ids of its orders, and while the poller works on its snapshot every order
  it has still to evaluate is in the map with the recorded prices of the snapshot.
\<close>

definition same_record :: "StatOrderFullInfo \<Rightarrow> StatOrderFullInfo \<Rightarrow> bool" where
  "same_record a b \<longleftrightarrow> fi_system_timestamp a = fi_system_timestamp b \<and>
     (\<forall>h. price_after h a = price_after h b \<and> pnl_percentage h a = pnl_percentage h b)"

definition keyed_by_id :: "StatOrderFullInfoComposite \<Rightarrow> bool" where
  "keyed_by_id m \<longleftrightarrow> distinct (map fst m) \<and> (\<forall>k info. map_of m k = Some info \<longrightarrow> fi_client_order_id info = k)"

definition tracks :: "StatOrderFullInfoComposite \<Rightarrow> StatOrderFullInfo list \<Rightarrow> bool" where
  "tracks m todo \<longleftrightarrow> distinct (map fi_client_order_id todo) \<and>
     (\<forall>info \<in> set todo. \<exists>e. map_of m (fi_client_order_id info) = Some e \<and> same_record e info)"

primrec poller_synchronised :: "StatOrderFullInfoComposite \<Rightarrow> poller \<Rightarrow> bool" where
  "poller_synchronised m Idle = True"
| "poller_synchronised m (Scanning now todo finished) = tracks m todo"
| "poller_synchronised m Saved = True"
| "poller_synchronised m (Erasing keys) = True"

definition evaluator_inv :: "EvaluatorState \<Rightarrow> bool" where
  "evaluator_inv s \<longleftrightarrow> keyed_by_id (ex_stat_order_composite s)
     \<and> poller_synchronised (ex_stat_order_composite s) (es_poller s)"

lemma same_record_refl [simp]: "same_record a a"
  by (simp add: same_record_def)

lemma same_record_trans: "same_record a b \<Longrightarrow> same_record b c \<Longrightarrow> same_record a c"
  by (simp add: same_record_def)

lemma keyed_by_id_update:
  "keyed_by_id m \<Longrightarrow> fi_client_order_id info = k \<Longrightarrow> keyed_by_id (AList.update k info m)"
  by (auto simp: keyed_by_id_def distinct_update update_conv' split: if_splits)

lemma keyed_by_id_erase: "keyed_by_id m \<Longrightarrow> keyed_by_id (erase_keys keys m)"
  unfolding erase_keys_def
proof (induction keys arbitrary: m)
  case (Cons k keys)
  have "keyed_by_id (AList.delete k m)"
    using Cons.prems by (auto simp: keyed_by_id_def distinct_delete delete_conv')
  with Cons.IH show ?case by simp
qed simp

lemma keyed_by_id_lite: "keyed_by_id m \<Longrightarrow> keyed_by_id (update_with_lite lite m)"
  unfolding update_with_lite_def
  by (auto split: option.split intro!: keyed_by_id_update) (auto simp: keyed_by_id_def new_StatOrderFullInfo_def)

lemma keyed_by_id_full: "keyed_by_id m \<Longrightarrow> keyed_by_id (snd (update_with_full_info now info m))"
  by (simp add: update_with_full_info_def keyed_by_id_update)

lemma keyed_by_id_load: "keyed_by_id m \<Longrightarrow> keyed_by_id (load_recently_order_stat_result stod stoull rows m)"
  by (induction stod stoull rows m rule: load_recently_order_stat_result.induct)
     (auto simp: keyed_by_id_full split: option.split)

text \<open>An order thread never changes what has been recorded of an order.\<close>

lemma update_with_lite_keeps:
  "map_of m k = Some e \<Longrightarrow> \<exists>e'. map_of (update_with_lite lite m) k = Some e' \<and> same_record e' e"
  by (auto simp: update_with_lite_def update_conv' same_record_def split: option.split)

lemma tracks_mono:
  assumes "tracks m todo"
    and "\<And>k e. map_of m k = Some e \<Longrightarrow> k \<in> fi_client_order_id ` set todo
           \<Longrightarrow> \<exists>e'. map_of m' k = Some e' \<and> same_record e' e"
  shows "tracks m' todo"
  using assms unfolding tracks_def by (meson image_eqI same_record_trans)

lemma tracks_snapshot:
  assumes "keyed_by_id m" shows "tracks m (get_all_stat_orders m)"
proof -
  have ids: "map fi_client_order_id (get_all_stat_orders m) = map fst m"
    using assms by (auto simp: get_all_stat_orders_def keyed_by_id_def)
  have "map_of m (fi_client_order_id info) = Some info" if "info \<in> set (get_all_stat_orders m)" for info
    using that assms by (auto simp: get_all_stat_orders_def keyed_by_id_def)
  moreover have "distinct (map fi_client_order_id (get_all_stat_orders m))"
    using ids assms by (simp add: keyed_by_id_def)
  ultimately show ?thesis unfolding tracks_def by (metis same_record_refl)
qed

lemma store_evaluation_lookup:
  "map_of (store_evaluation now info m) k
     = (if fi_property_changed info \<and> now \<le> fi_system_timestamp info + 3600 \<and> k = fi_client_order_id info
        then Some info else map_of m k)"
  by (auto simp: store_evaluation_def update_with_full_info_def update_conv')

lemma keyed_by_id_store: "keyed_by_id m \<Longrightarrow> keyed_by_id (store_evaluation now info m)"
  by (simp add: store_evaluation_def keyed_by_id_full)

lemma evaluator_inv_step: "estep BUY s s' \<Longrightarrow> evaluator_inv s \<Longrightarrow> evaluator_inv s'"
proof (induction rule: estep.induct)
  case (order s lite)
  have "poller_synchronised (update_with_lite lite (ex_stat_order_composite s)) (es_poller s)"
    using order update_with_lite_keeps
    by (cases "es_poller s") (auto simp: evaluator_inv_def elim!: tracks_mono)
  with order show ?case by (simp add: evaluator_inv_def keyed_by_id_lite)
next
  case (snapshot s)
  then show ?case by (simp add: evaluator_inv_def tracks_snapshot)
next
  case (evaluate s now info todo finished uninit info')
  let ?m = "ex_stat_order_composite s"
  have t: "tracks ?m (info # todo)" using evaluate by (simp add: evaluator_inv_def)
  have "fi_client_order_id info' = fi_client_order_id info"
    using evaluate_order_cases(1) [OF evaluate(2)] by (rule order_identityD)
  moreover have "fi_client_order_id info \<notin> fi_client_order_id ` set todo" "tracks ?m todo"
    using t by (auto simp: tracks_def)
  ultimately have "tracks (store_evaluation (es_clock s) info' ?m) todo"
    by (elim tracks_mono) (metis store_evaluation_lookup same_record_refl)
  with evaluate show ?case by (simp add: evaluator_inv_def keyed_by_id_store)
qed (simp_all add: evaluator_inv_def keyed_by_id_erase)

lemma evaluator_inv_start: "evaluator_inv (evaluator_start stod stoull rows db clock)"
proof -
  have "keyed_by_id []" by (simp add: keyed_by_id_def)
  then show ?thesis by (simp add: evaluator_inv_def evaluator_start_def keyed_by_id_load)
qed

interpretation ev: invariant_system "estep BUY" "\<lambda>s. \<exists>stod stoull rows db clock. s = evaluator_start stod stoull rows db clock"
    evaluator_inv for BUY
  by unfold_locales (auto simp: evaluator_inv_start intro: evaluator_inv_step)

lemma map_of_erase_keys: "map_of (erase_keys keys m) k = (if k \<in> set keys then None else map_of m k)"
  unfolding erase_keys_def by (induction keys arbitrary: m) (auto simp: delete_conv')

text \<open>The price and the profit of a horizon, once recorded, are kept.\<close>

lemma recorded_kept_evaluation:
  assumes "evaluate_order BUY uninit now tickers info = Inr info'" and "\<not> feq (price_after h info) (Fin 0)"
  shows "price_after h info' = price_after h info \<and> pnl_percentage h info' = pnl_percentage h info"
  using evaluate_order_cases(2) [OF assms(1)] assms(2) by auto

text \<open>C18. Write-once. In every interleaving of the threads, once the price of a horizon has been recorded for an order,
  no step changes that price or its profit, nor the order's time, for as long as the order is kept.\<close>

theorem horizon_price_written_once:
  assumes "(estep BUY)\<^sup>*\<^sup>* (evaluator_start stod stoull rows db clock) s" and "estep BUY s s'"
    and "map_of (ex_stat_order_composite s) k = Some info" and "map_of (ex_stat_order_composite s') k = Some info'"
    and "\<not> feq (price_after h info) (Fin 0)"
  shows "price_after h info' = price_after h info \<and> pnl_percentage h info' = pnl_percentage h info
    \<and> fi_system_timestamp info' = fi_system_timestamp info"
proof -
  have inv: "evaluator_inv s" using assms(1) by (rule ev.inv_reachable) blast
  from assms(2) show ?thesis
  proof cases
    case (order lite)
    with assms(3,4) update_with_lite_keeps [of "ex_stat_order_composite s" k info lite]
    show ?thesis by (auto simp: same_record_def)
  next
    case (evaluate now i todo finished uninit i')
    then obtain e where e: "map_of (ex_stat_order_composite s) (fi_client_order_id i) = Some e" "same_record e i"
      using inv by (auto simp: evaluator_inv_def tracks_def)
    have id: "fi_client_order_id i' = fi_client_order_id i" "fi_system_timestamp i' = fi_system_timestamp i"
      using order_identityD [OF evaluate_order_cases(1) [OF evaluate(3)]] by auto
    show ?thesis
    proof (cases "k = fi_client_order_id i")
      case True
      with e assms(3) have "e = info" by simp
      with e assms(5) recorded_kept_evaluation [OF evaluate(3), of h] id
      have "price_after h i' = price_after h info \<and> pnl_percentage h i' = pnl_percentage h info
          \<and> fi_system_timestamp i' = fi_system_timestamp info"
        by (simp add: same_record_def)
      with evaluate(1) assms(3,4) show ?thesis by (auto simp: store_evaluation_lookup split: if_splits)
    qed (use evaluate(1) assms(3,4) id in \<open>auto simp: store_evaluation_lookup\<close>)
  qed (use assms(3,4) in \<open>auto simp: map_of_erase_keys split: if_splits\<close>)
qed
text \<open>A run of the evaluator: an order bought at 1 is evaluated two seconds later at an ask of 3.\<close>

definition eval_sample_lite :: "double \<Rightarrow> EvaluatorOrderLite" where
  "eval_sample_lite filled = \<lparr>el_accountFlag = ''a'', el_symbol = ''ETH'', el_orderSide = ''BUY'', el_clientOrderId = ''id'',
     el_averagePrice = Fin 1, el_filledSize = filled, el_commissionRate = Fin 0, el_systemTimestamp = 100\<rparr>"

definition eval_sample_event :: WsFuturesBookTickerEvent where
  "eval_sample_event = \<lparr>bt_symbol = ''ETH'', bt_bestAskPrice = Fin 3, bt_bestBidPrice = Fin 2, bt_updateId = 7, bt_eventTime = 9\<rparr>"

definition eval_sample_uninit :: TickerLite where
  "eval_sample_uninit = \<lparr>tl_symbol = [], tl_ask = NaN, tl_bid = NaN, tl_update_id = 0, tl_update_time_millis = 0\<rparr>"

definition eval_sample_tickers :: TickerLiteComposite where
  "eval_sample_tickers = process_normal_futures_ticker_message eval_sample_event Map.empty"

definition eval_sample_info :: "double \<Rightarrow> StatOrderFullInfo" where
  "eval_sample_info filled = new_StatOrderFullInfo (eval_sample_lite filled)"

definition eval_sample_evaluated :: "double \<Rightarrow> StatOrderFullInfo" where
  "eval_sample_evaluated filled = record_horizons 2 (Fin 3) (Fin 2) (eval_sample_info filled)"

lemma eval_sample_info_head [simp]:
  "fi_client_order_id (eval_sample_info filled) = ''id''" "fi_system_timestamp (eval_sample_info filled) = 100"
  "fi_symbol (eval_sample_info filled) = ''ETH''" "fi_order_side (eval_sample_info filled) = ''BUY''"
  "fi_average_price (eval_sample_info filled) = Fin 1" "fi_commission_rate (eval_sample_info filled) = Fin 0"
  "fi_filled_size (eval_sample_info filled) = filled" "fi_property_changed (eval_sample_info filled) = False"
  "price_after h (eval_sample_info filled) = Fin 0"
  by (simp_all add: eval_sample_info_def) (simp_all add: new_StatOrderFullInfo_def eval_sample_lite_def)

lemma eval_sample_ticker:
  "tl_get_ticker eval_sample_uninit ''ETH'' eval_sample_tickers
     = Some \<lparr>tl_symbol = ''ETH'', tl_ask = Fin 3, tl_bid = Fin 2, tl_update_id = 7, tl_update_time_millis = 0\<rparr>"
  by (simp add: tl_get_ticker_def eval_sample_tickers_def process_normal_futures_ticker_message_def tl_update_ticker_def
      eval_sample_event_def tl_copy_self_def eval_sample_uninit_def)

lemma eval_sample_pnl: "decimal_process (Fin 2) 5 = Inr (Fin 2)"
  by (simp add: decimal_process_def pow10_def dbl_def to_int_def trunc_def signed_round_def to_double_def)

lemma eval_sample_order_pnl: "order_pnl (Fin 3) 1 (eval_sample_info filled) = Inr (Fin 2)"
  by (simp add: order_pnl_def to_double_def minus_double_def signed_round_def eval_sample_pnl)

lemma eval_sample_info_unchanged [simp]: "eval_sample_info filled\<lparr>fi_property_changed := False\<rparr> = eval_sample_info filled"
  by (simp add: eval_sample_info_def new_StatOrderFullInfo_def)

lemma eval_sample_evaluation:
  "evaluate_order ''BUY'' eval_sample_uninit 102 eval_sample_tickers (eval_sample_info filled) = Inr (eval_sample_evaluated filled)"
  by (simp add: evaluate_order_def eval_sample_ticker evaluation_price_def eval_sample_order_pnl eval_sample_evaluated_def)

lemma eval_sample_evaluated_head [simp]:
  "fi_client_order_id (eval_sample_evaluated filled) = ''id''" "fi_system_timestamp (eval_sample_evaluated filled) = 100"
  "fi_filled_size (eval_sample_evaluated filled) = filled" "fi_property_changed (eval_sample_evaluated filled)"
  "price_after h (eval_sample_evaluated filled) = (if h = H1s then Fin 3 else Fin 0)"
proof -
  have id: "order_identity (eval_sample_evaluated filled) = order_identity (eval_sample_info filled)"
    by (simp add: eval_sample_evaluated_def)
  then show "fi_client_order_id (eval_sample_evaluated filled) = ''id''" "fi_system_timestamp (eval_sample_evaluated filled) = 100"
      "fi_filled_size (eval_sample_evaluated filled) = filled"
    by (simp_all add: order_identity_def)
  have "\<exists>h. horizon_seconds h \<le> 2" by (rule exI [of _ H1s]) simp
  then show "fi_property_changed (eval_sample_evaluated filled)" by (simp add: eval_sample_evaluated_def)
  show "price_after h (eval_sample_evaluated filled) = (if h = H1s then Fin 3 else Fin 0)"
    by (cases h) (simp_all add: eval_sample_evaluated_def del: price_after.simps)
qed

definition eval_sample_state :: "StatOrderFullInfoComposite \<Rightarrow> u64 \<Rightarrow> poller \<Rightarrow> EvaluatorState" where
  "eval_sample_state m clock p = \<lparr>ex_futures_ticker_composite = eval_sample_tickers, ex_stat_order_composite = m,
     ex_order_pnl_table = Map.empty, es_clock = clock, es_poller = p\<rparr>"

lemma eval_sample_run:
  "(estep ''BUY'')\<^sup>*\<^sup>* (evaluator_start (\<lambda>_. None) (\<lambda>_. None) [] Map.empty 100)
     (eval_sample_state [(''id'', eval_sample_evaluated filled)] 102 (Scanning 102 [] [eval_sample_evaluated filled]))"
proof -
  have "estep ''BUY'' (evaluator_start (\<lambda>_. None) (\<lambda>_. None) [] Map.empty 100) (eval_sample_state [] 100 Idle)"
    using ticker [of "''BUY''" "evaluator_start (\<lambda>_. None) (\<lambda>_. None) [] Map.empty 100" eval_sample_event]
    by (simp add: evaluator_start_def eval_sample_state_def eval_sample_tickers_def)
  moreover have "estep ''BUY'' (eval_sample_state [] 100 Idle) (eval_sample_state [(''id'', eval_sample_info filled)] 100 Idle)"
    using order [of "''BUY''" "eval_sample_state [] 100 Idle" "eval_sample_lite filled"]
    by (simp add: eval_sample_state_def update_with_lite_def eval_sample_info_def) (simp add: eval_sample_lite_def)
  moreover have "estep ''BUY'' (eval_sample_state [(''id'', eval_sample_info filled)] 100 Idle)
      (eval_sample_state [(''id'', eval_sample_info filled)] 102 Idle)"
    using tick [of "eval_sample_state [(''id'', eval_sample_info filled)] 100 Idle" 102 "''BUY''"]
    by (simp add: eval_sample_state_def)
  moreover have "estep ''BUY'' (eval_sample_state [(''id'', eval_sample_info filled)] 102 Idle)
      (eval_sample_state [(''id'', eval_sample_info filled)] 102 (Scanning 102 [eval_sample_info filled] []))"
    using snapshot [of "eval_sample_state [(''id'', eval_sample_info filled)] 102 Idle" "''BUY''"]
    by (simp add: eval_sample_state_def get_all_stat_orders_def)
  moreover have "estep ''BUY'' (eval_sample_state [(''id'', eval_sample_info filled)] 102 (Scanning 102 [eval_sample_info filled] []))
      (eval_sample_state [(''id'', eval_sample_evaluated filled)] 102 (Scanning 102 [] [eval_sample_evaluated filled]))"
    using evaluate [of "eval_sample_state [(''id'', eval_sample_info filled)] 102 (Scanning 102 [eval_sample_info filled] [])" 102
        "eval_sample_info filled" "[]" "[]" "''BUY''" eval_sample_uninit "eval_sample_evaluated filled"] eval_sample_evaluation
    by (simp add: eval_sample_state_def store_evaluation_def update_with_full_info_def)
  ultimately show ?thesis by (meson converse_rtranclp_into_rtranclp rtranclp.rtrancl_refl)
qed

theorem horizon_price_written_once_witness:
  "price_after H1s (eval_sample_evaluated (Fin 1)\<lparr>fi_filled_size := Fin 2, fi_average_price := Fin 1\<rparr>) = Fin 3"
proof -
  let ?s = "eval_sample_state [(''id'', eval_sample_evaluated (Fin 1))] 102 (Scanning 102 [] [eval_sample_evaluated (Fin 1)])"
  let ?i = "eval_sample_evaluated (Fin 1)\<lparr>fi_filled_size := Fin 2, fi_average_price := Fin 1\<rparr>"
  have step: "estep ''BUY'' ?s
      (?s\<lparr>ex_stat_order_composite := update_with_lite (eval_sample_lite (Fin 2)) (ex_stat_order_composite ?s)\<rparr>)"
    by (rule order)
  have "update_with_lite (eval_sample_lite (Fin 2)) [(''id'', eval_sample_evaluated (Fin 1))] = [(''id'', ?i)]"
    by (simp add: update_with_lite_def eval_sample_lite_def)
  then have "map_of (ex_stat_order_composite (?s\<lparr>ex_stat_order_composite :=
      update_with_lite (eval_sample_lite (Fin 2)) (ex_stat_order_composite ?s)\<rparr>)) ''id'' = Some ?i"
    by (simp add: eval_sample_state_def)
  from horizon_price_written_once [OF eval_sample_run step _ this, of "eval_sample_evaluated (Fin 1)" H1s]
  show ?thesis by (simp add: eval_sample_state_def del: price_after.simps)
qed
section \<open>Nothing is recorded early\<close>

definition recorded_in_time :: "u64 \<Rightarrow> StatOrderFullInfo \<Rightarrow> bool" where
  "recorded_in_time clock info \<longleftrightarrow>
     (\<forall>h. feq (price_after h info) (Fin 0) \<or> uint (fi_system_timestamp info) + horizon_seconds h \<le> uint clock)"

primrec poller_in_time :: "u64 \<Rightarrow> poller \<Rightarrow> bool" where
  "poller_in_time clock Idle = True"
| "poller_in_time clock (Scanning now todo finished) = (now \<le> clock \<and> (\<forall>info \<in> set todo. recorded_in_time clock info))"
| "poller_in_time clock Saved = True"
| "poller_in_time clock (Erasing keys) = True"

definition timely :: "EvaluatorState \<Rightarrow> bool" where
  "timely s \<longleftrightarrow> poller_in_time (es_clock s) (es_poller s) \<and>
     (\<forall>(k, info) \<in> set (ex_stat_order_composite s). recorded_in_time (es_clock s) info)"

lemma recorded_in_time_mono:
  "recorded_in_time clock info \<Longrightarrow> clock \<le> clock' \<Longrightarrow> recorded_in_time clock' info"
  unfolding recorded_in_time_def word_le_def by (meson order_trans)

lemma evaluated_in_time:
  assumes "evaluate_order BUY uninit now tickers info = Inr info'" and "now \<le> clock" and "recorded_in_time clock info"
  shows "recorded_in_time clock info'"
proof -
  have ts: "fi_system_timestamp info' = fi_system_timestamp info"
    using evaluate_order_cases(1) [OF assms(1)] by (rule order_identityD)
  have "uint (fi_system_timestamp info) + horizon_seconds h \<le> uint clock"
    if "due (sint (now - fi_system_timestamp info)) h info" "fi_system_timestamp info < now" for h
    using elapsed_seconds [of _ now "horizon_seconds h"] that horizon_seconds_bounds(1) [of h] assms(2)
    by (force simp: word_le_def)
  with evaluate_order_cases(2) [OF assms(1)] assms(3) ts show ?thesis
    unfolding recorded_in_time_def by (metis (full_types))
qed

lemma in_set_update: "x \<in> set (AList.update k v m) \<Longrightarrow> x = (k, v) \<or> x \<in> set m"
  by (induction m) (auto split: if_splits)

lemma set_erase_keys: "set (erase_keys keys m) \<subseteq> set m"
  unfolding erase_keys_def
proof (induction keys arbitrary: m)
  case (Cons k keys)
  have "set (AList.delete k m) \<subseteq> set m" by (auto simp: AList.delete_eq)
  with Cons.IH [of "AList.delete k m"] show ?case by auto
qed simp

lemma timely_lite:
  assumes "\<forall>(k, info) \<in> set m. recorded_in_time clock info" and "(k, info) \<in> set (update_with_lite lite m)"
  shows "recorded_in_time clock info"
proof (cases "map_of m (el_clientOrderId lite)")
  case None
  with assms show ?thesis
    by (auto simp: update_with_lite_def recorded_in_time_def dest!: in_set_update)
next
  case (Some original)
  then have "recorded_in_time clock original" using assms(1) by (auto dest!: map_of_SomeD)
  with Some assms show ?thesis
    by (auto simp: update_with_lite_def recorded_in_time_def dest!: in_set_update)
qed

lemma timely_step: "estep BUY s s' \<Longrightarrow> timely s \<Longrightarrow> timely s'"
proof (induction rule: estep.induct)
  case (tick s now)
  then have "poller_in_time now (es_poller s)"
    by (cases "es_poller s") (auto simp: timely_def intro: recorded_in_time_mono)
  with tick show ?case by (auto simp: timely_def intro: recorded_in_time_mono)
next
  case (order s lite)
  then show ?case by (auto simp: timely_def intro: timely_lite)
next
  case (snapshot s)
  then show ?case by (auto simp: timely_def get_all_stat_orders_def)
next
  case (evaluate s now info todo finished uninit info')
  then have "recorded_in_time (es_clock s) info'"
    by (intro evaluated_in_time [OF evaluate(2)]) (auto simp: timely_def)
  with evaluate show ?case
    by (auto simp: timely_def store_evaluation_def update_with_full_info_def dest!: in_set_update)
next
  case (erase s keys)
  then show ?case using set_erase_keys by (fastforce simp: timely_def)
qed (simp_all add: timely_def)

lemma timely_start: "timely (evaluator_start stod stoull [] db clock)"
  by (simp add: timely_def evaluator_start_def)

interpretation ev_time: invariant_system "estep BUY" "\<lambda>s. \<exists>stod stoull db clock. s = evaluator_start stod stoull [] db clock"
    timely for BUY
  by unfold_locales (auto simp: timely_start intro: timely_step)

text \<open>In every interleaving the price of a horizon is recorded for an order only when that many seconds have passed
  since the order was placed.\<close>

theorem horizon_not_recorded_early:
  assumes "(estep BUY)\<^sup>*\<^sup>* (evaluator_start stod stoull [] db clock) s"
    and "map_of (ex_stat_order_composite s) k = Some info" and "\<not> feq (price_after h info) (Fin 0)"
  shows "uint (fi_system_timestamp info) + horizon_seconds h \<le> uint (es_clock s)"
proof -
  have "timely s" using assms(1) by (rule ev_time.inv_reachable) blast
  then have "recorded_in_time (es_clock s) info" using assms(2) by (auto simp: timely_def dest!: map_of_SomeD)
  with assms(3) show ?thesis by (auto simp: recorded_in_time_def)
qed

theorem horizon_not_recorded_early_witness: "uint (100 :: u64) + horizon_seconds H1s \<le> uint (102 :: u64)"
  using horizon_not_recorded_early [OF eval_sample_run [of "Fin 1"], of "''id''" "eval_sample_evaluated (Fin 1)" H1s]
  by (simp add: eval_sample_state_def del: price_after.simps)

section \<open>Fills that arrive during a cycle\<close>

text \<open>A fill that arrives between the snapshot and the evaluation of its order is lost: the evaluated copy of
  the snapshot, with the old size and average price, overwrites it.\<close>

theorem evaluation_overwrites_fill:
  assumes "evaluate_order BUY uninit now tickers info = Inr info'" and "fi_property_changed info'"
    and "clock \<le> fi_system_timestamp info + 3600" and "el_clientOrderId lite = fi_client_order_id info"
  shows "\<exists>e. map_of (store_evaluation clock info' (update_with_lite lite m)) (fi_client_order_id info) = Some e
     \<and> fi_filled_size e = fi_filled_size info \<and> fi_average_price e = fi_average_price info"
proof -
  have "order_identity info' = order_identity info" using assms(1) by (rule evaluate_order_cases(1))
  with assms show ?thesis by (auto simp: store_evaluation_lookup order_identity_def)
qed

theorem evaluation_overwrites_fill_witness:
  "\<exists>e. map_of (store_evaluation 102 (eval_sample_evaluated (Fin 1))
       (update_with_lite (eval_sample_lite (Fin 2)) [(''id'', eval_sample_info (Fin 1))])) ''id'' = Some e
     \<and> fi_filled_size e = Fin 1 \<and> fi_average_price e = Fin 1"
  using evaluation_overwrites_fill [OF eval_sample_evaluation [of "Fin 1"], of 102 "eval_sample_lite (Fin 2)" "[(''id'', eval_sample_info (Fin 1))]"]
  by (simp add: eval_sample_lite_def)

section \<open>The last horizon\<close>

text \<open>An evaluation of an order more than an hour old is not kept: it goes to the database, but not to the map, so that the
  price of the one-hour horizon is recorded again, and its row written again, in the next cycle.\<close>

theorem hour_price_recorded_again:
  assumes "price_after_1hour info = Fin 0" and "tl_get_ticker uninit (fi_symbol info) tickers = Some ticker"
    and "evaluation_price BUY ticker info = (p, k)" and "order_pnl p k info = Inr v"
    and "fi_system_timestamp info < now" and "3600 \<le> sint (now - fi_system_timestamp info)"
    and "fi_system_timestamp info + 3600 < clock"
  shows "\<exists>info'. evaluate_order BUY uninit now tickers info = Inr info' \<and> price_after_1hour info' = p
     \<and> info' \<in> set (rows_to_save now [info']) \<and> store_evaluation clock info' m = m"
proof -
  let ?i = "info\<lparr>fi_property_changed := False\<rparr>"
  let ?j = "record_horizons (sint (now - fi_system_timestamp info)) p v ?i"
  have e: "evaluate_order BUY uninit now tickers info = Inr ?j"
    using evaluate_order_priced [OF assms(5,2,3)] assms(4) by simp
  have d: "due (sint (now - fi_system_timestamp info)) H1hour ?i" using assms(1,6) by simp
  have "price_after_1hour ?j = p" using record_horizons_price(1) [of H1hour] d by (simp del: record_horizons_price)
  moreover have "fi_system_timestamp ?j = fi_system_timestamp info"
    using order_identityD(2) [OF record_horizons_identity] by simp
  moreover have "fi_property_changed ?j" using d by (auto simp del: price_after.simps horizon_seconds.simps)
  ultimately show ?thesis using e assms(5,7)
    by (simp add: rows_to_save_def store_evaluation_def update_with_full_info_def)
qed

theorem hour_price_recorded_again_witness:
  "\<exists>info'. evaluate_order ''BUY'' eval_sample_uninit 3701 eval_sample_tickers (eval_sample_info (Fin 1)) = Inr info'
     \<and> price_after_1hour info' = Fin 3 \<and> info' \<in> set (rows_to_save 3701 [info'])
     \<and> store_evaluation 3701 info' [(''id'', eval_sample_info (Fin 1))] = [(''id'', eval_sample_info (Fin 1))]"
proof -
  have "price_after_1hour (eval_sample_info (Fin 1)) = Fin 0" by (rule eval_sample_info_head(9) [of H1hour, unfolded price_after.simps])
  from hour_price_recorded_again [OF this, of eval_sample_uninit eval_sample_tickers _ "''BUY''" "Fin 3" 1 "Fin 2" 3701 3701
      "[(''id'', eval_sample_info (Fin 1))]"]
  show ?thesis by (simp add: eval_sample_ticker evaluation_price_def eval_sample_order_pnl)
qed
section \<open>A cycle without interference\<close>

lemma poll_orders_Cons:
  assumes "poll_orders BUY uninit now tickers (i # todo) m = Inr (finished, m')"
  obtains i' f where "evaluate_order BUY uninit now tickers i = Inr i'" "fi_client_order_id i' = fi_client_order_id i"
    "poll_orders BUY uninit now tickers todo (store_evaluation now i' m) = Inr (f, m')"
proof -
  from assms obtain i' where i: "evaluate_order BUY uninit now tickers i = Inr i'"
    by (auto simp: bind_result_Inr_iff)
  with assms obtain f where "poll_orders BUY uninit now tickers todo (store_evaluation now i' m) = Inr (f, m')"
    by (auto simp: bind_result_Inr_iff)
  with i order_identityD(1) [OF evaluate_order_cases(1) [OF i]] that show thesis by blast
qed

lemma poll_orders_other:
  "poll_orders BUY uninit now tickers todo m = Inr (finished, m') \<Longrightarrow> k \<notin> fi_client_order_id ` set todo
     \<Longrightarrow> map_of m' k = map_of m k"
proof (induction todo arbitrary: m finished)
  case (Cons i todo)
  from Cons.prems(1) obtain i' f where "fi_client_order_id i' = fi_client_order_id i"
      "poll_orders BUY uninit now tickers todo (store_evaluation now i' m) = Inr (f, m')"
    by (rule poll_orders_Cons)
  with Cons show ?case by (auto simp: store_evaluation_lookup)
qed simp

lemma poll_orders_lookup:
  "poll_orders BUY uninit now tickers todo m = Inr (finished, m') \<Longrightarrow> distinct (map fi_client_order_id todo)
    \<Longrightarrow> info \<in> set todo \<Longrightarrow> \<exists>info'. evaluate_order BUY uninit now tickers info = Inr info' \<and>
          map_of m' (fi_client_order_id info) = map_of (store_evaluation now info' m) (fi_client_order_id info)"
proof (induction todo arbitrary: m finished)
  case (Cons i todo)
  from Cons.prems(1) obtain i' f where i: "evaluate_order BUY uninit now tickers i = Inr i'"
      "fi_client_order_id i' = fi_client_order_id i"
      "poll_orders BUY uninit now tickers todo (store_evaluation now i' m) = Inr (f, m')"
    by (rule poll_orders_Cons)
  show ?case
  proof (cases "info = i")
    case True
    with Cons.prems(2) i poll_orders_other [OF i(3), of "fi_client_order_id i"] show ?thesis by auto
  next
    case False
    then have "info \<in> set todo" using Cons.prems(3) by simp
    moreover from this have "fi_client_order_id info \<noteq> fi_client_order_id i"
      using Cons.prems(2) by (metis distinct.simps(2) image_eqI list.map(2) list.set_map)
    ultimately show ?thesis using Cons.IH [OF i(3)] Cons.prems(2) i(2)
      by (auto simp: store_evaluation_lookup)
  qed
qed simp

lemma remove_expired_lookup:
  assumes "distinct (map fst m)"
  shows "map_of (snd (remove_expired_stat_order now m)) k
    = (case map_of m k of
         None \<Rightarrow> None
       | Some info \<Rightarrow> if now > fi_system_timestamp info + 3600 + 10 then None else Some info)"
proof -
  have "k \<in> set (expired_keys now m) \<longleftrightarrow>
      (\<exists>info. map_of m k = Some info \<and> now > fi_system_timestamp info + 3600 + 10)"
    using assms by (force simp: expired_keys_def)
  then show ?thesis
    by (auto simp: remove_expired_stat_order_def Let_def map_of_erase_keys split: option.split)
qed

lemma keyed_by_id_poll:
  "poll_orders BUY uninit now tickers todo m = Inr (finished, m') \<Longrightarrow> keyed_by_id m \<Longrightarrow> keyed_by_id m'"
  by (induction todo arbitrary: m finished) (fastforce simp: bind_result_Inr_iff keyed_by_id_store)+

lemma kept_for_an_hour:
  fixes now ts :: u64
  assumes "now \<le> ts + 3600" and "uint ts + 3610 < 2 ^ 64"
  shows "\<not> ts + 3600 + 10 < now"
proof -
  have "uint (ts + 3600) = uint ts + 3600" "uint (ts + 3600 + 10) = uint ts + 3610"
    using assms(2) uint_ge_0 [of ts] by (simp_all add: uint_word_ariths)
  with assms(1) show ?thesis by (simp add: word_less_def word_le_def)
qed


definition eval_sample_context :: EvaluatorContext where
  "eval_sample_context = \<lparr>ex_futures_ticker_composite = eval_sample_tickers,
     ex_stat_order_composite = [(''id'', eval_sample_info (Fin 1))], ex_order_pnl_table = Map.empty\<rparr>"

lemma eval_sample_cycle:
  "\<exists>c'. polling_calculate_order_pnl ''BUY'' eval_sample_uninit 102 True (\<lambda>_. True) eval_sample_context = Inr c'"
  by (simp add: polling_calculate_order_pnl_def eval_sample_context_def get_all_stat_orders_def eval_sample_evaluation)


text \<open>The housekeeping of a cycle drops exactly the orders that are more than an hour and ten seconds old.\<close>

theorem expired_orders_removed:
  assumes "distinct (map fst m)"
  shows "map_of (snd (remove_expired_stat_order now m)) k = Some info \<longleftrightarrow>
    map_of m k = Some info \<and> now \<le> fi_system_timestamp info + 3610"
  using remove_expired_lookup [OF assms, of now k] by (auto simp: add.assoc split: option.splits)

theorem expired_orders_removed_witness:
  "map_of (snd (remove_expired_stat_order 3711 [(''id'', eval_sample_info (Fin 1))])) ''id'' = None
   \<and> map_of (snd (remove_expired_stat_order 3710 [(''id'', eval_sample_info (Fin 1))])) ''id'' = Some (eval_sample_info (Fin 1))"
proof -
  have "map_of (snd (remove_expired_stat_order 3711 [(''id'', eval_sample_info (Fin 1))])) ''id'' \<noteq> Some i" for i
    using expired_orders_removed [of "[(''id'', eval_sample_info (Fin 1))]" 3711 "''id''" i] by auto
  moreover have "map_of (snd (remove_expired_stat_order 3710 [(''id'', eval_sample_info (Fin 1))])) ''id'' = Some (eval_sample_info (Fin 1))"
    using expired_orders_removed [of "[(''id'', eval_sample_info (Fin 1))]" 3710 "''id''" "eval_sample_info (Fin 1)"] by simp
  ultimately show ?thesis by blast
qed

section \<open>Tickers\<close>

text \<open>The ticker map returns, per symbol, the prices of a ticker with the largest update id of all tickers of the symbol that arrived, in
  whatever order they came.\<close>

theorem latest_ticker_wins:
  assumes "ticker \<in> set arrived"
  shows "\<exists>kept. fold tl_update_ticker arrived Map.empty (tl_symbol ticker) = Some kept \<and> kept \<in> set arrived
     \<and> tl_symbol kept = tl_symbol ticker \<and> tl_update_id ticker \<le> tl_update_id kept"
  using assms
proof (induction arrived arbitrary: ticker rule: rev_induct)
  case (snoc lite arrived)
  let ?m = "fold tl_update_ticker arrived Map.empty"
  have m: "\<exists>t \<in> set arrived. tl_symbol t = k \<and> kept = t" if "?m k = Some kept" for k kept
    using that by (induction arrived arbitrary: k kept rule: rev_induct)
      (auto simp: tl_update_ticker_def split: option.splits if_splits)
  show ?case
  proof (cases "?m (tl_symbol lite)")
    case None
    then have "tl_symbol t \<noteq> tl_symbol lite" if "t \<in> set arrived" for t
      using snoc.IH [OF that] by auto
    with None snoc.IH [of ticker] snoc.prems show ?thesis
      by (cases "ticker = lite") (auto simp: tl_update_ticker_def [of lite])
  next
    case (Some original)
    then have o: "original \<in> set arrived" "tl_symbol original = tl_symbol lite" using m by auto
    have le: "tl_update_id t \<le> tl_update_id original" if "t \<in> set arrived" "tl_symbol t = tl_symbol lite" for t
      using snoc.IH [OF that(1)] that(2) Some by auto
    show ?thesis
    proof (cases "tl_symbol ticker = tl_symbol lite")
      case True
      then have "ticker = lite \<or> tl_update_id ticker \<le> tl_update_id original" using snoc.prems le by auto
      with True Some o show ?thesis by (auto simp: tl_update_ticker_def [of lite])
    next
      case False
      with snoc.prems have "ticker \<in> set arrived" by auto
      with False snoc.IH [OF this] Some show ?thesis by (auto simp: tl_update_ticker_def [of lite])
    qed
  qed
qed simp

theorem latest_ticker_wins_witness:
  "\<exists>kept. fold tl_update_ticker [eval_sample_uninit\<lparr>tl_update_id := 5\<rparr>, eval_sample_uninit] Map.empty [] = Some kept
     \<and> 5 \<le> tl_update_id kept"
  using latest_ticker_wins [of "eval_sample_uninit\<lparr>tl_update_id := 5\<rparr>" "[eval_sample_uninit\<lparr>tl_update_id := 5\<rparr>, eval_sample_uninit]"]
  by (auto simp: eval_sample_uninit_def)

end
