(* ===== verification/StatDispatch.thy ===== *)
theory StatDispatch
  imports AccountProcessor Evaluator
begin

text \<open>
  \<open>src/src/actuary/stat_dispatch.cpp\<close>, \<open>src/src/zmq/zmq_client.h\<close> and \<open>src/src/evaluator/zmq_subscribe.cpp\<close>: how the actuary tells the
  evaluator of an order. The publisher takes an order from the channel, writes it as a JSON object and sends
  it; the subscriber receives it into a buffer, reads the object and updates its orders. The JSON writer and
  reader, \<open>strHelper::replaceString\<close> and \<open>binance::str_to_dobule\<close> are arguments. The theory also has the two other tasks of the
  file: announcing the orders of the last hour again, and saving the exchange information.
\<close>

section \<open>Messages\<close>

datatype json = JNull | JString string | JUInt u64

type_synonym json_object = "(string \<times> json) list"

definition json_member :: "json_object \<Rightarrow> string \<Rightarrow> json" where
  "json_member obj key = (case map_of obj key of None \<Rightarrow> JNull | Some v \<Rightarrow> v)"

text \<open>\<open>asString\<close> of a null value is the empty string, \<open>asUInt64\<close> of it is 0; a value of the wrong type throws. An unsigned number
  is printed.\<close>

fun asString :: "json \<Rightarrow> string result" where
  "asString JNull = Inr ''''"
| "asString (JString s) = Inr s"
| "asString (JUInt n) = Inr (string_of_nat (unat n))"

fun asUInt64 :: "json \<Rightarrow> u64 result" where
  "asUInt64 JNull = Inr 0"
| "asUInt64 (JUInt n) = Inr n"
| "asUInt64 (JString s) = Inl (Exception ''Value is not convertible to UInt64.'')"

definition stat_message :: "u64 \<Rightarrow> StatOrderLite \<Rightarrow> json_object" where
  "stat_message now_ms lite =
     [(''accountFlag'', JString (so_accountFlag lite)), (''symbol'', JString (so_symbol lite)),
      (''orderSide'', JString (so_orderSide lite)), (''clientOrderId'', JString (so_clientOrderId lite)),
      (''averagePrice'', JString (so_averagePrice lite)), (''filledSize'', JString (so_filledSize lite)),
      (''systemTimestamp'', JUInt (so_systemTimestamp lite)), (''commissionRate'', JString (so_commissionRate lite)),
      (''message_timestamp_mills'', JUInt now_ms)]"

text \<open>One turn of \<open>stat_zmq_server_listen\<close>: \<open>None\<close> while the channel is empty.\<close>

definition stat_zmq_server_listen :: "(json_object \<Rightarrow> string) \<Rightarrow> u64 \<Rightarrow> ActuaryContext \<Rightarrow> (string \<times> ActuaryContext) option" where
  "stat_zmq_server_listen writeString now_ms c =
     (case ax_stat_order_channel c of
        [] \<Rightarrow> None
      | lite # lites \<Rightarrow> Some (writeString (stat_message now_ms lite), c\<lparr>ax_stat_order_channel := lites\<rparr>))"

section \<open>Receiving\<close>

text \<open>
  \<open>zmq_recv\<close> copies at most 1023 bytes into the buffer of 1024 and returns the size of the whole message, where \<open>Receive\<close> then
  writes the terminator. The string ends at the first zero byte.
\<close>

definition zmq_receive :: "string \<Rightarrow> string result" where
  "zmq_receive payload =
     (if length payload < 1024
      then Inr (takeWhile (\<lambda>ch. ch \<noteq> CHR 0x00) (take 1023 payload))
      else Inl BufferOverflow)"

definition lite_of_message :: "(json \<Rightarrow> double) \<Rightarrow> json_object \<Rightarrow> EvaluatorOrderLite result" where
  "lite_of_message str_to_dobule obj =
     bind_result (asString (json_member obj ''accountFlag'')) (\<lambda>flag.
     bind_result (asString (json_member obj ''symbol'')) (\<lambda>symbol.
     bind_result (asString (json_member obj ''orderSide'')) (\<lambda>side.
     bind_result (asString (json_member obj ''clientOrderId'')) (\<lambda>client.
     bind_result (asUInt64 (json_member obj ''systemTimestamp'')) (\<lambda>ts.
     Inr \<lparr>el_accountFlag = flag, el_symbol = symbol, el_orderSide = side, el_clientOrderId = client,
       el_averagePrice = str_to_dobule (json_member obj ''averagePrice''),
       el_filledSize = str_to_dobule (json_member obj ''filledSize''),
       el_commissionRate = str_to_dobule (json_member obj ''commissionRate''), el_systemTimestamp = ts\<rparr>)))))"

text \<open>One turn of the subscriber.\<close>

definition subscribe_process_order_stat_zmq ::
  "(string \<Rightarrow> string) \<Rightarrow> (string \<Rightarrow> json_object) \<Rightarrow> (json \<Rightarrow> double) \<Rightarrow> string \<Rightarrow> EvaluatorContext \<Rightarrow> EvaluatorContext result" where
  "subscribe_process_order_stat_zmq removeNewlines parse str_to_dobule payload c =
     bind_result (zmq_receive payload) (\<lambda>message.
     bind_result (lite_of_message str_to_dobule (parse (removeNewlines message))) (\<lambda>lite.
     Inr (c\<lparr>ex_stat_order_composite := update_with_lite lite (ex_stat_order_composite c)\<rparr>)))"

section \<open>Announcing recent orders again\<close>

text \<open>\<open>rows\<close> is the result of the query, \<open>None\<close> when it failed or there is no connection. A column that is no number throws, which
  ends the loop.\<close>

definition lite_of_row :: "(string \<Rightarrow> u64 option) \<Rightarrow> string list \<Rightarrow> StatOrderLite option" where
  "lite_of_row stoull row =
     map_option (\<lambda>ts. \<lparr>so_accountFlag = row ! 0, so_symbol = row ! 1, so_orderSide = row ! 2, so_clientOrderId = row ! 3,
       so_averagePrice = row ! 4, so_filledSize = row ! 5, so_commissionRate = row ! 7, so_systemTimestamp = ts\<rparr>)
       (stoull (row ! 6))"

fun enqueue_rows :: "(string \<Rightarrow> u64 option) \<Rightarrow> string list list \<Rightarrow> ActuaryContext \<Rightarrow> ActuaryContext" where
  "enqueue_rows stoull [] c = c"
| "enqueue_rows stoull (row # rows) c =
     (case lite_of_row stoull row of
        None \<Rightarrow> c
      | Some lite \<Rightarrow> enqueue_rows stoull rows (c\<lparr>ax_stat_order_channel := ax_stat_order_channel c @ [lite]\<rparr>))"

definition load_recent_orders_to_zmq ::
  "(string \<Rightarrow> u64 option) \<Rightarrow> string list list option \<Rightarrow> ActuaryContext \<Rightarrow> ActuaryContext" where
  "load_recent_orders_to_zmq stoull rows c = (case rows of None \<Rightarrow> c | Some rows \<Rightarrow> enqueue_rows stoull rows c)"

definition start_delay_load_orders_to_zmq ::
  "(string \<Rightarrow> u64 option) \<Rightarrow> string list list option \<Rightarrow> ActuaryConfig \<Rightarrow> ActuaryContext \<Rightarrow> ActuaryContext" where
  "start_delay_load_orders_to_zmq stoull rows config c =
     (if \<not> dt_group_main_node config then c
      else if \<not> acfg_enable_load_order_to_zmq config then c
      else load_recent_orders_to_zmq stoull rows c)"

section \<open>Saving exchange information\<close>

record ExchangeInfoRow =
  er_account_flag :: string
  er_symbol :: string
  er_ticker_price :: double
  er_ticker_size :: double
  er_step_size :: double
  er_benchmark_price_precision :: int
  er_follower_price_precision :: int
  er_quantity_precision :: int

definition follower_ticker_price :: "ActuaryContext \<Rightarrow> string \<Rightarrow> double result" where
  "follower_ticker_price c follower_inst_id =
     (case map_of (ax_shm_follower_ticker_mapping c) follower_inst_id of
        None \<Rightarrow> Inr (Fin 0)
      | Some index \<Rightarrow> bind_result (ticker_shm_reader_get (follower_start (ax_shm_store_info c)) index)
          (\<lambda>ticker. Inr (tk_bid_price ticker)))"

text \<open>The statements, in the order of the assets; assets without exchange information are skipped.\<close>

fun delay_save_exchange_info :: "ActuaryConfig \<Rightarrow> ActuaryContext \<Rightarrow> string list \<Rightarrow> ExchangeInfoRow list result" where
  "delay_save_exchange_info config c [] = Inr []"
| "delay_save_exchange_info config c (baseAsset # assets) =
     (let follower_inst_id = baseAsset @ acfg_follower_quote_asset config;
          benchmark_inst_id = baseAsset @ acfg_benchmark_quote_asset config
      in case (get_follower_exchange_info follower_inst_id c, get_benchmark_exchange_info benchmark_inst_id c) of
           (Some follower, Some benchmark) \<Rightarrow>
             bind_result (follower_ticker_price c follower_inst_id) (\<lambda>price.
             bind_result (delay_save_exchange_info config c assets) (\<lambda>rows.
             Inr (\<lparr>er_account_flag = account_flag config, er_symbol = xi_symbol follower, er_ticker_price = price,
                    er_ticker_size = xi_tickSize follower, er_step_size = xi_stepSize follower,
                    er_benchmark_price_precision = xi_pricePrecision benchmark,
                    er_follower_price_precision = xi_pricePrecision follower,
                    er_quantity_precision = xi_quantityPrecision follower\<rparr> # rows)))
         | _ \<Rightarrow> delay_save_exchange_info config c assets)"

section \<open>Properties\<close>

text \<open>The subscriber accepts a message exactly when it has at most 1023 bytes; a longer one writes the terminator outside the
  buffer.\<close>

theorem zmq_receive_overflow_iff: "zmq_receive payload = Inl BufferOverflow \<longleftrightarrow> 1024 \<le> length payload"
  by (auto simp: zmq_receive_def)

lemma stat_message_members:
  "json_member (stat_message t lite) ''accountFlag'' = JString (so_accountFlag lite)"
  "json_member (stat_message t lite) ''symbol'' = JString (so_symbol lite)"
  "json_member (stat_message t lite) ''orderSide'' = JString (so_orderSide lite)"
  "json_member (stat_message t lite) ''clientOrderId'' = JString (so_clientOrderId lite)"
  "json_member (stat_message t lite) ''averagePrice'' = JString (so_averagePrice lite)"
  "json_member (stat_message t lite) ''filledSize'' = JString (so_filledSize lite)"
  "json_member (stat_message t lite) ''commissionRate'' = JString (so_commissionRate lite)"
  "json_member (stat_message t lite) ''systemTimestamp'' = JUInt (so_systemTimestamp lite)"
  by (simp_all add: json_member_def stat_message_def)

definition received_lite :: "(json \<Rightarrow> double) \<Rightarrow> StatOrderLite \<Rightarrow> EvaluatorOrderLite" where
  "received_lite str_to_dobule lite =
     \<lparr>el_accountFlag = so_accountFlag lite, el_symbol = so_symbol lite, el_orderSide = so_orderSide lite,
      el_clientOrderId = so_clientOrderId lite, el_averagePrice = str_to_dobule (JString (so_averagePrice lite)),
      el_filledSize = str_to_dobule (JString (so_filledSize lite)),
      el_commissionRate = str_to_dobule (JString (so_commissionRate lite)), el_systemTimestamp = so_systemTimestamp lite\<rparr>"

lemma lite_of_stat_message: "lite_of_message str_to_dobule (stat_message t lite) = Inr (received_lite str_to_dobule lite)"
  by (simp add: lite_of_message_def stat_message_members received_lite_def)

lemma zmq_receive_text: "length payload < 1024 \<Longrightarrow> CHR 0x00 \<notin> set payload \<Longrightarrow> zmq_receive payload = Inr payload"
  by (auto simp: zmq_receive_def takeWhile_eq_all_conv)

text \<open>Publishing an order and receiving it gives the evaluator the order that the actuary put into the channel, field by field, with
  its numbers read back from their text: for a message that fits the buffer and a JSON reader that inverts the writer.\<close>

theorem stat_order_roundtrip:
  assumes "stat_zmq_server_listen writeString now_ms c = Some (payload, c')"
    and "ax_stat_order_channel c = lite # lites"
    and "parse (removeNewlines payload) = stat_message now_ms lite"
    and "length payload < 1024" and "CHR 0x00 \<notin> set payload"
  shows "ax_stat_order_channel c' = lites
    \<and> subscribe_process_order_stat_zmq removeNewlines parse str_to_dobule payload e =
      Inr (e\<lparr>ex_stat_order_composite := update_with_lite (received_lite str_to_dobule lite) (ex_stat_order_composite e)\<rparr>)"
proof -
  have "ax_stat_order_channel c' = lites" using assms(1,2) by (auto simp: stat_zmq_server_listen_def)
  then show ?thesis
    by (simp add: subscribe_process_order_stat_zmq_def zmq_receive_text [OF assms(4,5)] assms(3) lite_of_stat_message)
qed

definition stat_sample :: StatOrderLite where
  "stat_sample = \<lparr>so_accountFlag = ''a'', so_symbol = ''BTCUSDC'', so_orderSide = ''BUY'', so_clientOrderId = ''b_1'',
     so_averagePrice = ''10'', so_filledSize = ''1'', so_commissionRate = ''0'', so_systemTimestamp = 100\<rparr>"

definition stat_context :: ActuaryContext where
  "stat_context = (sample_actuary_context 1)\<lparr>ax_stat_order_channel := [stat_sample]\<rparr>"

theorem stat_order_roundtrip_witness:
  "subscribe_process_order_stat_zmq (\<lambda>s. s) (\<lambda>_. stat_message 5 stat_sample) (\<lambda>_. Fin 1) ''message'' eval_sample_context =
     Inr (eval_sample_context\<lparr>ex_stat_order_composite :=
       update_with_lite (received_lite (\<lambda>_. Fin 1) stat_sample) (ex_stat_order_composite eval_sample_context)\<rparr>)"
proof -
  have "stat_zmq_server_listen (\<lambda>_. ''message'') 5 stat_context
      = Some (''message'', stat_context\<lparr>ax_stat_order_channel := []\<rparr>)"
    by (simp add: stat_zmq_server_listen_def stat_context_def)
  from stat_order_roundtrip [OF this, of stat_sample "[]" "\<lambda>_. stat_message 5 stat_sample" "\<lambda>s. s" "\<lambda>_. Fin 1" eval_sample_context]
  show ?thesis by (simp add: stat_context_def)
qed

lemma order_event_dispatched:
  assumes "order_event_accepted startsWith endsWith config event" and "dt_group_main_node config"
    and "process_order_trade_update startsWith endsWith toString (Some True) now now' config event c = (row, c')"
  shows "\<exists>lite. ax_stat_order_channel c' = ax_stat_order_channel c @ [lite] \<and> so_clientOrderId lite = oe_clientOrderId event
     \<and> so_symbol lite = oe_symbol event \<and> so_orderSide lite = oe_side event \<and> so_systemTimestamp lite = now'
     \<and> so_filledSize lite = toString (oe_filledVolume event)
     \<and> so_averagePrice lite = toString (if oe_filledVolume event > Fin 0 then oe_averagePrice event else oe_price event)"
  using assms by (auto simp: process_order_trade_update_def Let_def)


definition trade_sample :: WsFuturesOrderTradeUpdateEvent where
  "trade_sample = \<lparr>oe_symbol = ''BTCUSDC'', oe_side = ''BUY'', oe_id = ''1'', oe_clientOrderId = ''b_1'',
     oe_originalOrderType = ''LIMIT'', oe_orderStatus = ''FILLED'', oe_volume = Fin 1, oe_filledVolume = Fin 1,
     oe_price = Fin 11, oe_averagePrice = Fin 10\<rparr>"

definition text_starts :: "string \<Rightarrow> string \<Rightarrow> bool" where
  "text_starts s p \<longleftrightarrow> take (length p) s = p"

definition text_ends :: "string \<Rightarrow> string \<Rightarrow> bool" where
  "text_ends s p \<longleftrightarrow> drop (length s - length p) s = p"

definition trade_config :: ActuaryConfig where
  "trade_config = sample_actuary_config\<lparr>dt_group_main_node := True\<rparr>"

definition trade_text :: "double \<Rightarrow> string" where
  "trade_text x = (if x = Fin 1 then ''1'' else if x = Fin 10 then ''10'' else ''11'')"

definition trade_number :: "json \<Rightarrow> double" where
  "trade_number j = (if j = JString ''1'' then Fin 1 else if j = JString ''10'' then Fin 10 else Fin 11)"

definition trade_lite :: StatOrderLite where
  "trade_lite = \<lparr>so_accountFlag = ''a'', so_symbol = ''BTCUSDC'', so_orderSide = ''BUY'', so_clientOrderId = ''b_1'',
     so_averagePrice = ''10'', so_filledSize = ''1'', so_commissionRate = ''11'', so_systemTimestamp = 2\<rparr>"

lemma trade_sample_accepted:
  "order_event_accepted text_starts text_ends trade_config trade_sample"
  by (simp add: order_event_accepted_def trade_sample_def text_starts_def text_ends_def trade_config_def sample_actuary_config_def)

lemma trade_sample_processed:
  "\<exists>row. process_order_trade_update text_starts text_ends trade_text (Some True) 1 2 trade_config trade_sample
     (sample_actuary_context 1) = (row, (sample_actuary_context 1)\<lparr>ax_stat_order_channel := [trade_lite]\<rparr>)"
proof -
  have c: "get_commission_rate (oe_symbol trade_sample) (ax_commission_rate_composite (sample_actuary_context 1)) = None"
      "ax_stat_order_channel (sample_actuary_context 1) = []"
    by (simp_all add: get_commission_rate_def sample_actuary_context_def)
  have t: "dt_group_main_node trade_config" "account_flag trade_config = ''a''" "Fin 0 < oe_filledVolume trade_sample"
      "\<lparr>so_accountFlag = ''a'', so_symbol = oe_symbol trade_sample, so_orderSide = oe_side trade_sample,
        so_clientOrderId = oe_clientOrderId trade_sample, so_averagePrice = trade_text (oe_averagePrice trade_sample),
        so_filledSize = trade_text (oe_filledVolume trade_sample), so_commissionRate = trade_text (Fin 0),
        so_systemTimestamp = 2\<rparr> = trade_lite"
    by (simp_all add: trade_config_def sample_actuary_config_def trade_sample_def trade_lite_def trade_text_def)
  show ?thesis by (simp add: process_order_trade_update_def trade_sample_accepted c t)
qed


end
