(* ===== verification/Actuary.thy ===== *)
theory Actuary
  imports StatDispatch
begin

text \<open>
  The threads of the actuary process together: the strategy threads, the two watchdogs, the pollers of the account, the handler of
  the user data stream and the publisher of order statistics, which share the context, and the receiver process, which changes
  the tickers and thresholds in shared memory. Each step is one iteration of one thread; the threads are
  interleaved arbitrarily. The lemmas show that no step but the watchdogs' touches the trading
  switches, and that no watchdog lifts a stop of the static configuration.
\<close>

section \<open>Steps of the process\<close>

inductive actuary_step :: "ActuaryConfig \<Rightarrow> ActuaryContext \<Rightarrow> ActuaryContext \<Rightarrow> bool" for config :: ActuaryConfig where
  strategy: "strategy_step api clk stop_buy0 config env st c = Inr (sent, st', c') \<Longrightarrow> actuary_step config c c'"
| account_watchdog: "watch_account_meta now (RiskConfig.truncate config) (copy_meta (ax_balance_position_composite c)) (ax_dynamic_config c)
    = Inr (msgs, d) \<Longrightarrow> actuary_step config c (c\<lparr>ax_dynamic_config := d\<rparr>)"
| bnb_watchdog: "watch_bnb_balance now (RiskConfig.truncate config) (copy_balance ''BNB'' (ax_balance_position_composite c)) (ax_dynamic_config c)
    = Inr (msgs, d) \<Longrightarrow> actuary_step config c (c\<lparr>ax_dynamic_config := d\<rparr>)"
| account_poll: "load_balance_position bapi log_d uninit now log_ts response config polls c = Inr (polls', row, c')
    \<Longrightarrow> actuary_step config c c'"
| user_data: "process_balance_position bapi log_d startsWith endsWith toString saved now now' config event c = Inr (saved_row, c')
    \<Longrightarrow> actuary_step config c c'"
| commission_poll: "actuary_step config c (load_commission_rate RestCodeOK rates c)"
| listen_key: "actuary_step config c (fst (refresh_listen_key RestCodeOK answer c))"
| publisher: "stat_zmq_server_listen writeString now c = Some (payload, c') \<Longrightarrow> actuary_step config c c'"
| recent_orders: "actuary_step config c (start_delay_load_orders_to_zmq stoull rows config c)"
| receiver: "order_start shm = order_start (ax_shm_store_info c) \<Longrightarrow> actuary_step config c (c\<lparr>ax_shm_store_info := shm\<rparr>)"

section \<open>The switches\<close>

lemma refresh_position_threshold_switches:
  "refresh_position_threshold api log_d now config symbol c = Inr c' \<Longrightarrow> ax_dynamic_config c' = ax_dynamic_config c"
  by (auto simp: refresh_position_threshold_def bind_result_Inr_iff split: option.splits)

lemma load_positions_switches:
  "load_positions api log_d config positions c = Inr c' \<Longrightarrow> ax_dynamic_config c' = ax_dynamic_config c"
  by (induction api log_d config positions c rule: load_positions.induct)
     (auto simp: bind_result_Inr_iff dest!: refresh_position_threshold_switches split: prod.splits bool.splits)

lemma process_positions_switches:
  "process_positions api log_d config events c = Inr c' \<Longrightarrow> ax_dynamic_config c' = ax_dynamic_config c"
  by (induction api log_d config events c rule: process_positions.induct)
     (auto simp: bind_result_Inr_iff dest!: refresh_position_threshold_switches split: prod.splits bool.splits)

lemma load_balance_position_switches:
  "load_balance_position api log_d uninit now log_ts response config polls c = Inr (polls', row, c')
     \<Longrightarrow> ax_dynamic_config c' = ax_dynamic_config c"
  by (auto simp: load_balance_position_def bind_result_Inr_iff Let_def dest!: load_positions_switches
      split: option.splits if_splits prod.splits)

lemma process_balance_position_switches:
  "process_balance_position api log_d startsWith endsWith toString saved now now' config event c = Inr (row, c')
     \<Longrightarrow> ax_dynamic_config c' = ax_dynamic_config c"
  by (auto simp: process_balance_position_def process_account_update_def process_order_trade_update_def bind_result_Inr_iff Let_def
      dest!: process_positions_switches split: user_data_event.splits if_splits option.splits bool.splits prod.splits)

lemma enqueue_rows_switches: "ax_dynamic_config (enqueue_rows stoull rows c) = ax_dynamic_config c"
  by (induction stoull rows c rule: enqueue_rows.induct) (auto split: option.split)

lemma strategy_step_switches:
  assumes "strategy_step api clk stop_buy0 config env st c = Inr (sent, st', c')"
  shows "ax_dynamic_config c' = ax_dynamic_config c"
  using strategy_step_sent [OF assms] by (auto simp: buy_sent_def sell_sent_def order_sent_ok_def)

lemma truncate_thresholds [simp]:
  "margin_ratio_thresholds (RiskConfig.truncate config) = margin_ratio_thresholds config"
  "bnb_balance_thresholds (RiskConfig.truncate config) = bnb_balance_thresholds config"
  by (simp_all add: RiskConfig.truncate_def)

text \<open>The reasons the static configuration gives, and that they stay.\<close>

definition static_stops :: "ActuaryConfig \<Rightarrow> DynamicConfig \<Rightarrow> bool" where
  "static_stops config d \<longleftrightarrow> dc_wf d
     \<and> (acfg_stop_make_order config \<longrightarrow> STOP_REASON_STATIC_CONFIG \<in> stop_reasons d)
     \<and> (acfg_stop_make_order config \<or> acfg_make_position_close_only config \<longrightarrow> STOP_REASON_STATIC_CONFIG \<in> stop_open_reasons d)"

lemma static_stops_account:
  assumes "watch_account_meta now (RiskConfig.truncate config) m d = Inr (msgs, d')" and "static_stops config d"
    and "margin_ratio_thresholds config = [lo, hi]"
  shows "static_stops config d'"
  using watch_account_meta_reasons [of d "RiskConfig.truncate config" lo hi now m] assms
  by (auto simp: static_stops_def stop_reason_defs split: if_splits)

lemma static_stops_bnb:
  assumes "watch_bnb_balance now (RiskConfig.truncate config) b d = Inr (msgs, d')" and "static_stops config d"
    and "bnb_balance_thresholds config = [lo, hi]"
  shows "static_stops config d'"
  using watch_bnb_reasons [of d "RiskConfig.truncate config" lo hi now b] assms
  by (auto simp: static_stops_def stop_reason_defs split: if_splits option.splits)

text \<open>The two arrays of thresholds in the configuration have two elements.\<close>

definition valid_thresholds :: "ActuaryConfig \<Rightarrow> bool" where
  "valid_thresholds config \<longleftrightarrow> length (margin_ratio_thresholds config) = 2 \<and> length (bnb_balance_thresholds config) = 2"

lemma valid_thresholdsE:
  assumes "valid_thresholds config"
  obtains a b p q where "margin_ratio_thresholds config = [a, b]" "bnb_balance_thresholds config = [p, q]"
  using assms by (auto simp: valid_thresholds_def numeral_2_eq_2 length_Suc_conv)

lemma static_stops_step:
  assumes "actuary_step config c c'" and "valid_thresholds config" and "static_stops config (ax_dynamic_config c)"
  shows "static_stops config (ax_dynamic_config c')"
proof -
  obtain a b p q where th: "margin_ratio_thresholds config = [a, b]" "bnb_balance_thresholds config = [p, q]"
    using assms(2) by (rule valid_thresholdsE)
  from assms(1,3) show ?thesis
  proof (induction rule: actuary_step.induct)
    case strategy
    then show ?case by (simp add: strategy_step_switches)
  next
    case account_watchdog
    with th(1) show ?case by (auto intro: static_stops_account)
  next
    case bnb_watchdog
    with th(2) show ?case by (auto intro: static_stops_bnb)
  next
    case account_poll
    then show ?case by (simp add: load_balance_position_switches)
  next
    case user_data
    then show ?case by (simp add: process_balance_position_switches)
  next
    case publisher
    then show ?case by (auto simp: stat_zmq_server_listen_def split: list.splits)
  qed (simp_all add: load_commission_rate_def refresh_listen_key_def start_delay_load_orders_to_zmq_def
      load_recent_orders_to_zmq_def enqueue_rows_switches split: option.split)
qed

text \<open>A process that has been initialised from its configuration.\<close>

definition actuary_started :: "ActuaryConfig \<Rightarrow> ActuaryContext \<Rightarrow> bool" where
  "actuary_started config c \<longleftrightarrow> valid_thresholds config \<and> (\<exists>benchmark_file follower_file attached RestCodeOK response1 response2 c0.
     ax_init benchmark_file follower_file attached RestCodeOK response1 response2 config c0 = Some (Inr c))"

lemma ax_init_switches:
  assumes "ax_init bf ff attached OK r1 r2 config c0 = Some (Inr c)"
  shows "ax_dynamic_config c = new_DynamicConfig (acfg_stop_make_order config) (acfg_make_position_close_only config)"
  using assms by (auto simp: ax_init_def Let_def split: sum.splits option.splits)

lemma static_stops_start: "actuary_started config c \<Longrightarrow> static_stops config (ax_dynamic_config c)"
  by (auto simp: actuary_started_def ax_init_switches static_stops_def dc_new_wf) (auto simp: new_DynamicConfig_def)

interpretation act: invariant_system "actuary_step config" "actuary_started config"
    "\<lambda>c. valid_thresholds config \<longrightarrow> static_stops config (ax_dynamic_config c)" for config
  by unfold_locales (auto intro: static_stops_start static_stops_step)

lemma reachable_static_stops:
  assumes "(actuary_step config)\<^sup>*\<^sup>* c0 c" and "actuary_started config c0"
  shows "static_stops config (ax_dynamic_config c)"
  using act.inv_reachable [OF assms] assms(2) by (simp add: actuary_started_def)

section \<open>Properties\<close>

text \<open>A process that is configured to close positions only never opens one: in every interleaving of its threads opening orders stay
  switched off, whatever the watchdogs do, and every order that a strategy thread sends is on the opposite side of
  the held position and not larger than it.\<close>

theorem close_only_process_never_opens:
  assumes "(actuary_step config)\<^sup>*\<^sup>* c0 c" and "actuary_started config c0" and "acfg_make_position_close_only config"
  shows "is_stop_make_open_order (ax_dynamic_config c)
    \<and> (\<forall>api clk stop_buy0 env st order st' c'. strategy_step api clk stop_buy0 config env st c = Inr (Some order, st', c') \<longrightarrow>
        (\<exists>position. copy_position (se_follower_inst_id env) (ax_balance_position_composite c) = Some position
          \<and> (positionSide position = PositionSide_SHORT api \<and> os_side order = ORDER_SIDE_BUY api
             \<or> positionSide position = PositionSide_LONG api \<and> os_side order = ORDER_SIDE_SELL api)
          \<and> \<not> os_volume order > positionAmountAbs position))"
proof -
  have stop: "is_stop_make_open_order (ax_dynamic_config c)"
    using reachable_static_stops [OF assms(1,2)] assms(3)
    by (auto simp: static_stops_def dc_wf_def is_stop_make_open_order_def)
  have "\<exists>position. copy_position (se_follower_inst_id env) (ax_balance_position_composite c) = Some position
        \<and> (positionSide position = PositionSide_SHORT api \<and> os_side order = ORDER_SIDE_BUY api
           \<or> positionSide position = PositionSide_LONG api \<and> os_side order = ORDER_SIDE_SELL api)
        \<and> \<not> os_volume order > positionAmountAbs position"
    if "strategy_step api clk stop_buy0 config env st c = Inr (Some order, st', c')"
    for api clk stop_buy0 env st order st' c'
    using order_closes_when_stopped [OF that] assms(3) stop by blast
  with stop show ?thesis by blast
qed

text \<open>A process that is configured not to trade never sends an order, in any interleaving of its threads.\<close>

theorem stopped_process_never_trades:
  assumes "(actuary_step config)\<^sup>*\<^sup>* c0 c" and "actuary_started config c0" and "acfg_stop_make_order config"
  shows "is_stop_make_order (ax_dynamic_config c)
    \<and> (\<forall>api clk stop_buy0 env st sent st' c'. strategy_step api clk stop_buy0 config env st c = Inr (sent, st', c')
        \<longrightarrow> sent = None \<and> c' = c)"
proof -
  have stop: "is_stop_make_order (ax_dynamic_config c)"
    using reachable_static_stops [OF assms(1,2)] assms(3)
    by (auto simp: static_stops_def dc_wf_def is_stop_make_order_def)
  then have no: "\<not> dynamic_could_make_order c" by (simp add: dynamic_could_make_order_def)
  have "sent = None \<and> c' = c" if "strategy_step api clk stop_buy0 config env st c = Inr (sent, st', c')"
    for api clk stop_buy0 env st sent st' c'
    using strategy_step_sent [OF that] no by (auto simp: buy_sent_def sell_sent_def order_sent_ok_def)
  with stop show ?thesis by blast
qed

definition no_exchange_infos :: ExchangeInfoResponse where
  "no_exchange_infos = \<lparr>xr_code = 0, xr_data = []\<rparr>"

definition stopped_config :: ActuaryConfig where
  "stopped_config = sample_actuary_config\<lparr>acfg_stop_make_order := True, acfg_shm_group_main_node := False\<rparr>"

lemma sample_actuary_started:
  assumes "config = sample_actuary_config\<lparr>acfg_stop_make_order := b, acfg_shm_group_main_node := False\<rparr>"
  shows "\<exists>c. actuary_started config c"
proof -
  have "\<exists>c. ax_init (\<lambda>_ m. m) (\<lambda>_ m. m) (ax_shm_store_info (sample_actuary_context 1)) 0 no_exchange_infos no_exchange_infos config
      (sample_actuary_context 1) = Some (Inr c)"
    by (simp add: assms ax_init_def Let_def ax_init_shm_def load_follower_exchangeInfo_def load_benchmark_exchangeInfo_def
        no_exchange_infos_def sample_actuary_config_def)
  moreover have "valid_thresholds config" by (simp add: assms valid_thresholds_def sample_actuary_config_def)
  ultimately show ?thesis unfolding actuary_started_def by blast
qed

theorem close_only_process_never_opens_witness:
  "\<exists>c. actuary_started stopped_config c \<and> is_stop_make_open_order (ax_dynamic_config c)"
proof -
  obtain c where c: "actuary_started stopped_config c" using sample_actuary_started stopped_config_def by blast
  have "acfg_make_position_close_only stopped_config" by (simp add: stopped_config_def sample_actuary_config_def)
  with close_only_process_never_opens [OF rtranclp.rtrancl_refl c] c show ?thesis by blast
qed

theorem stopped_process_never_trades_witness:
  "\<exists>c. actuary_started stopped_config c \<and> is_stop_make_order (ax_dynamic_config c)"
proof -
  obtain c where c: "actuary_started stopped_config c" using sample_actuary_started stopped_config_def by blast
  have "acfg_stop_make_order stopped_config" by (simp add: stopped_config_def)
  with stopped_process_never_trades [OF rtranclp.rtrancl_refl c] c show ?thesis by blast
qed

end
