(* ===== verification/TradingSystem.thy ===== *)
theory TradingSystem
  imports TraderProcess Actuary
begin

text \<open>
  The actuary and the trader process together (\<open>src/src/bn_umtaker_actuary.cpp\<close>, \<open>src/src/bn_umtaker_trader.cpp\<close>), connected by the
  order segment. Every asset of the actuary has a strategy thread (\<open>start_strategy_processors\<close>) and every asset of the trader a
  scanning thread (\<open>start_trade_processors\<close>), each with its local variables; the other threads of both processes, the
  receiver's writes and the exchange's messages happen in between. The state also keeps two histories that the
  programs do not have: what the strategies published, with the state in which they did, and what the trader handed to the
  exchange. The properties relate the two.
\<close>

section \<open>State and steps\<close>

record Publication =
  pb_env :: StrategyEnv
  pb_state :: StrategyState
  pb_clock :: StrategyClock
  pb_stop_buy :: bool
  pb_context :: ActuaryContext
  pb_order :: OrderShm

record Placement =
  pl_base :: string
  pl_slot :: int
  pl_time :: u64
  pl_order :: FuturesNewOrder

record TradingSystem =
  sy_actuary :: ActuaryContext
  sy_strategies :: "string \<rightharpoonup> StrategyEnv \<times> StrategyState"
  sy_trader :: TraderContext
  sy_scans :: "string \<rightharpoonup> string \<times> int \<times> i64"
  sy_published :: "Publication list"
  sy_placed :: "Placement list"

abbreviation sy_orders :: "TradingSystem \<Rightarrow> OrderShm list" where
  "sy_orders s \<equiv> order_start (ax_shm_store_info (sy_actuary s))"

abbreviation attach_orders :: "TradingSystem \<Rightarrow> TraderContext" where
  "attach_orders s \<equiv> (sy_trader s)\<lparr>tx_order_start := sy_orders s\<rparr>"

fun trader_background :: "trader_event \<Rightarrow> bool" where
  "trader_background (ScanSlot _ _ _ _) = False"
| "trader_background (SlotsChange _) = False"
| "trader_background _ = True"

inductive system_step :: "OrderApi \<Rightarrow> TraderLib \<Rightarrow> ActuaryConfig \<Rightarrow> TraderConfig \<Rightarrow> TradingSystem \<Rightarrow> TradingSystem \<Rightarrow> bool"
  for api lib aconfig tconfig where
  start_strategy: "base \<in> set (acfg_node_base_assets aconfig) \<Longrightarrow> sy_strategies s base = None
    \<Longrightarrow> strategy_start aconfig (sy_actuary s) base = Inr local
    \<Longrightarrow> system_step api lib aconfig tconfig s (s\<lparr>sy_strategies := (sy_strategies s)(base \<mapsto> local)\<rparr>)"
| strategy: "sy_strategies s base = Some (env, st)
    \<Longrightarrow> strategy_step api clk stop_buy0 aconfig env st (sy_actuary s) = Inr (sent, st', a')
    \<Longrightarrow> system_step api lib aconfig tconfig s
      (s\<lparr>sy_actuary := a', sy_strategies := (sy_strategies s)(base \<mapsto> (env, st')),
         sy_published := sy_published s @ (case sent of None \<Rightarrow> [] | Some order \<Rightarrow>
           [\<lparr>pb_env = env, pb_state = st, pb_clock = clk, pb_stop_buy = stop_buy0, pb_context = sy_actuary s, pb_order = order\<rparr>])\<rparr>)"
| actuary: "actuary_step aconfig (sy_actuary s) a' \<Longrightarrow> order_start (ax_shm_store_info a') = sy_orders s
    \<Longrightarrow> system_step api lib aconfig tconfig s (s\<lparr>sy_actuary := a'\<rparr>)"
| start_scan: "base \<in> set (tcfg_node_base_assets tconfig) \<Longrightarrow> sy_scans s base = None
    \<Longrightarrow> scan_start tconfig base (sy_trader s) = Some (inst, i)
    \<Longrightarrow> system_step api lib aconfig tconfig s (s\<lparr>sy_scans := (sy_scans s)(base \<mapsto> (inst, i, 0))\<rparr>)"
| scan: "sy_scans s base = Some (inst, i, v)
    \<Longrightarrow> scan_and_send_order (tl_ORDER_RESP_TYPE_RESULT lib) now tconfig inst i v (attach_orders s) = Inr (placed, v', t')
    \<Longrightarrow> system_step api lib aconfig tconfig s
      (s\<lparr>sy_trader := t', sy_scans := (sy_scans s)(base \<mapsto> (inst, i, v')),
         sy_placed := sy_placed s @ (case placed of None \<Rightarrow> [] | Some (_, order) \<Rightarrow>
           [\<lparr>pl_base = base, pl_slot = i, pl_time = now, pl_order = order\<rparr>])\<rparr>)"
| trader: "trader_background e \<Longrightarrow> trader_do lib tconfig e (sy_trader s) = Inr (None, t')
    \<Longrightarrow> system_step api lib aconfig tconfig s (s\<lparr>sy_trader := t'\<rparr>)"

text \<open>Both processes have been initialised, the order segment is new, and no thread has started.\<close>

definition system_start :: "ActuaryConfig \<Rightarrow> TradingSystem \<Rightarrow> bool" where
  "system_start aconfig s \<longleftrightarrow> actuary_started aconfig (sy_actuary s)
     \<and> (\<forall>slot \<in> set (sy_orders s). os_version_number slot = 0)
     \<and> sy_strategies s = Map.empty \<and> sy_scans s = Map.empty \<and> sy_published s = [] \<and> sy_placed s = []"

section \<open>What the histories and the slots say\<close>

text \<open>A publication was made by an iteration of a strategy.\<close>

definition genuine :: "OrderApi \<Rightarrow> ActuaryConfig \<Rightarrow> Publication \<Rightarrow> bool" where
  "genuine api aconfig p \<longleftrightarrow> (\<exists>st' c'. strategy_step api (pb_clock p) (pb_stop_buy p) aconfig (pb_env p) (pb_state p) (pb_context p)
     = Inr (Some (pb_order p), st', c'))"

text \<open>A placement is the copy of a publication to the same slot, not older than the validity.\<close>

definition copies_order :: "TraderConfig \<Rightarrow> Publication \<Rightarrow> Placement \<Rightarrow> bool" where
  "copies_order tconfig p x \<longleftrightarrow> se_order_shm_index (pb_env p) = pl_slot x
     \<and> fo_side (pl_order x) = os_side (pb_order p) \<and> fo_price (pl_order x) = os_price (pb_order p)
     \<and> fo_quantity (pl_order x) = os_volume (pb_order p) \<and> fo_type (pl_order x) = os_type (pb_order p)
     \<and> fo_timeInForce (pl_order x) = os_time_in_force (pb_order p)
     \<and> (fo_reduceOnly (pl_order x) = ''true'' \<longleftrightarrow> os_reduce_only (pb_order p) = 1)
     \<and> pl_time x \<le> os_update_time (pb_order p) + tcfg_order_validity_micros tconfig"

text \<open>A slot is as it was created or holds a publication to it.\<close>

definition slot_published :: "Publication list \<Rightarrow> nat \<Rightarrow> OrderShm \<Rightarrow> bool" where
  "slot_published ps i slot \<longleftrightarrow> os_version_number slot = 0
     \<or> (\<exists>p \<in> set ps. se_order_shm_index (pb_env p) = int i \<and> order_fits (pb_order p)
          \<and> slot = (pb_order p)\<lparr>os_version_number := os_version_number slot\<rparr>)"

definition published_to :: "int \<Rightarrow> Publication list \<Rightarrow> Publication list" where
  "published_to i ps = filter (\<lambda>p. se_order_shm_index (pb_env p) = i) ps"

definition system_inv :: "OrderApi \<Rightarrow> ActuaryConfig \<Rightarrow> TraderConfig \<Rightarrow> TradingSystem \<Rightarrow> bool" where
  "system_inv api aconfig tconfig s \<longleftrightarrow> valid_thresholds aconfig \<and> static_stops aconfig (ax_dynamic_config (sy_actuary s))
     \<and> (\<forall>p \<in> set (sy_published s). genuine api aconfig p \<and> static_stops aconfig (ax_dynamic_config (pb_context p)))
     \<and> (\<forall>i < length (sy_orders s). slot_published (sy_published s) i (sy_orders s ! i))
     \<and> (\<forall>x \<in> set (sy_placed s). \<exists>p \<in> set (sy_published s). copies_order tconfig p x)
     \<and> (\<forall>base inst i v. sy_scans s base = Some (inst, i, v) \<longrightarrow> 0 \<le> sint v)"

lemma system_inv_start:
  assumes "system_start aconfig s"
  shows "system_inv api aconfig tconfig s"
proof -
  have a: "actuary_started aconfig (sy_actuary s)" using assms by (simp add: system_start_def)
  then have "valid_thresholds aconfig" by (simp add: actuary_started_def)
  with a assms static_stops_start[OF a] show ?thesis
    by (simp add: system_start_def system_inv_def slot_published_def)
qed

lemma slot_published_mono: "slot_published ps i slot \<Longrightarrow> slot_published (ps @ qs) i slot"
  by (auto simp: slot_published_def)

text \<open>What a strategy iteration that sends does to the segment.\<close>

lemma strategy_sent_slot:
  assumes "strategy_step api clk sb config env st c = Inr (Some order, st', c')"
  obtains k where "se_order_shm_index env = int k" "k < length (order_start (ax_shm_store_info c))" "order_fits order"
    "order_start (ax_shm_store_info c') = (order_start (ax_shm_store_info c))
       [k := (if order_newer (order_start (ax_shm_store_info c) ! k) order
              then order\<lparr>os_version_number := os_version_number (order_start (ax_shm_store_info c) ! k) + 1\<rparr>
              else order_start (ax_shm_store_info c) ! k)]"
proof -
  let ?seg = "order_start (ax_shm_store_info c)" and ?i = "se_order_shm_index env"
  from strategy_step_sent[OF assms] obtain r orders where
      w: "order_shm_writer_update ?seg ?i order = Inr (r, orders)"
      "c' = c\<lparr>ax_shm_store_info := (ax_shm_store_info c)\<lparr>order_start := orders\<rparr>\<rparr>" and f: "order_fits order"
    by (auto simp: buy_sent_def sell_sent_def order_sent_ok_def)
  from w(1) obtain slot slot' where g: "seg_get ?seg ?i = Inr slot" "order_slot_update order slot = Inr (r, slot')"
      "seg_set ?seg ?i slot' = Inr orders"
    by (auto simp: order_shm_writer_update_def seg_modify_Inr_iff)
  have "slot' = (if order_newer slot order then order\<lparr>os_version_number := os_version_number slot + 1\<rparr> else slot)"
    using g(2) order_slot_update_fits[OF f, of slot] by (auto simp: order_slot_update_def split: if_splits)
  then show thesis
    using that[of "nat ?i"] g(1,3) w(2) f by (auto simp: seg_get_Inr_iff seg_set_Inr_iff)
qed

lemma strategy_quiet:
  assumes "strategy_step api clk sb config env st c = Inr (None, st', c')"
  shows "c' = c"
  using strategy_step_sent[OF assms] by simp

lemma reader_get_Inr:
  assumes "order_shm_reader_get seg i = Inr slot"
  obtains k where "i = int k" "k < length seg" "slot = seg ! k"
proof -
  from assms obtain raw where "seg_get seg i = Inr raw" and "slot = raw"
    by (auto simp: order_shm_reader_get_def bind_result_Inr_iff memcpy_buf_Inr_iff)
  then show thesis using that[of "nat i"] by (auto simp: seg_get_Inr_iff)
qed

lemma placed_order_of:
  assumes "(if best then place_best_path inst o1 t else place_normal o1 t) = (Some (via, order), t')"
  shows "order = o1"
proof (cases best)
  case True
  then show ?thesis using assms place_best_path_cases[of inst o1 t "Some (via, order)" t'] by auto
next
  case False
  then show ?thesis using assms place_normal_order[of o1 t "(via, order)" t'] by auto
qed

lemma copies_of_slot:
  assumes "order = new_order_of resp now inst ((pb_order p)\<lparr>os_version_number := n\<rparr>)" and "se_order_shm_index (pb_env p) = i"
    and "now \<le> os_update_time (pb_order p) + tcfg_order_validity_micros tconfig"
  shows "copies_order tconfig p \<lparr>pl_base = base, pl_slot = i, pl_time = now, pl_order = order\<rparr>"
  using assms by (simp add: copies_order_def new_order_of_def)

lemma placed_copies:
  assumes "scan_and_send_order resp now tconfig inst i v t = Inr (Some (via, order), v', t')" and "0 \<le> sint v"
    and "\<forall>k < length (tx_order_start t). slot_published ps k (tx_order_start t ! k)"
  shows "\<exists>p \<in> set ps. copies_order tconfig p \<lparr>pl_base = base, pl_slot = i, pl_time = now, pl_order = order\<rparr>"
  using assms(1)
proof (cases rule: scan_cases)
  case (attempt s)
  have o: "order = new_order_of resp now inst s" by (rule placed_order_of[OF attempt(7)])
  from attempt(1) obtain k where k: "i = int k" "k < length (tx_order_start t)" "s = tx_order_start t ! k"
    by (rule reader_get_Inr)
  have "os_version_number s \<noteq> 0" using attempt(2) assms(2) by (auto simp: word_sless_alt)
  moreover have "slot_published ps k s" using assms(3) k by simp
  ultimately obtain p n where p: "p \<in> set ps" "se_order_shm_index (pb_env p) = i"
    and s: "s = (pb_order p)\<lparr>os_version_number := n\<rparr>"
    unfolding slot_published_def k(1) by blast
  have "now \<le> os_update_time (pb_order p) + tcfg_order_validity_micros tconfig" using attempt(4) by (simp add: s)
  from copies_of_slot[OF o[unfolded s] p(2) this] p(1) show ?thesis by blast
qed simp

lemma system_inv_strategy:
  assumes "system_inv api aconfig tconfig s"
    and "strategy_step api clk stop_buy0 aconfig env st (sy_actuary s) = Inr (sent, st', a')"
    and "s' = s\<lparr>sy_actuary := a', sy_strategies := m,
         sy_published := sy_published s @ (case sent of None \<Rightarrow> [] | Some order \<Rightarrow>
           [\<lparr>pb_env = env, pb_state = st, pb_clock = clk, pb_stop_buy = stop_buy0, pb_context = sy_actuary s, pb_order = order\<rparr>])\<rparr>"
  shows "system_inv api aconfig tconfig s'"
proof (cases sent)
  case None
  then have "a' = sy_actuary s" using strategy_quiet assms(2) by blast
  then show ?thesis using assms(1,3) None by (simp add: system_inv_def)
next
  case (Some order)
  let ?p = "\<lparr>pb_env = env, pb_state = st, pb_clock = clk, pb_stop_buy = stop_buy0, pb_context = sy_actuary s, pb_order = order\<rparr>"
  have step: "strategy_step api clk stop_buy0 aconfig env st (sy_actuary s) = Inr (Some order, st', a')"
    using assms(2) Some by simp
  from step obtain k where k: "se_order_shm_index env = int k" "k < length (sy_orders s)" "order_fits order"
    and o: "order_start (ax_shm_store_info a') = (sy_orders s)[k := (if order_newer (sy_orders s ! k) order
              then order\<lparr>os_version_number := os_version_number (sy_orders s ! k) + 1\<rparr> else sy_orders s ! k)]"
    by (rule strategy_sent_slot)
  have p: "sy_published s' = sy_published s @ [?p]" using assms(3) Some by simp
  have gen: "genuine api aconfig ?p" using step by (auto simp: genuine_def)
  have sl: "slot_published (sy_published s @ [?p]) i (order_start (ax_shm_store_info a') ! i)"
    if "i < length (sy_orders s)" for i
  proof (cases "i = k \<and> order_newer (sy_orders s ! k) order")
    case True
    then show ?thesis using k o by (auto simp: slot_published_def)
  next
    case False
    then have "order_start (ax_shm_store_info a') ! i = sy_orders s ! i" using o by (auto simp: nth_list_update)
    then show ?thesis using assms(1) that by (simp add: system_inv_def slot_published_mono)
  qed
  have "static_stops aconfig (ax_dynamic_config (sy_actuary s))" using assms(1) by (simp add: system_inv_def)
  then show ?thesis
    using assms(1,3) p gen sl strategy_step_switches[OF step] o
    by (simp add: system_inv_def)
qed

lemma system_inv_scan:
  assumes "system_inv api aconfig tconfig s" and "sy_scans s base = Some (inst, i, v)"
    and "scan_and_send_order resp now tconfig inst i v (attach_orders s) = Inr (placed, v', t')"
    and "s' = s\<lparr>sy_trader := t', sy_scans := (sy_scans s)(base \<mapsto> (inst, i, v')),
         sy_placed := sy_placed s @ (case placed of None \<Rightarrow> [] | Some (_, order) \<Rightarrow>
           [\<lparr>pl_base = base, pl_slot = i, pl_time = now, pl_order = order\<rparr>])\<rparr>"
  shows "system_inv api aconfig tconfig s'"
proof -
  have v: "0 \<le> sint v" using assms(1,2) by (simp add: system_inv_def)
  then have v': "0 \<le> sint v'" using scan_version[OF assms(3)] by (simp split: if_splits)
  have "\<exists>p \<in> set (sy_published s). copies_order tconfig p \<lparr>pl_base = base, pl_slot = i, pl_time = now, pl_order = order\<rparr>"
    if "placed = Some (via, order)" for via order
    using placed_copies[OF assms(3)[unfolded that] v] assms(1) by (simp add: system_inv_def)
  then show ?thesis
    using assms(1,4) v' by (cases placed) (auto simp: system_inv_def)
qed

lemma system_inv_step:
  assumes "system_step api lib aconfig tconfig s s'" and "system_inv api aconfig tconfig s"
  shows "system_inv api aconfig tconfig s'"
  using assms
proof cases
  case strategy
  with assms(2) show ?thesis by (blast intro: system_inv_strategy)
next
  case actuary
  then have "static_stops aconfig (ax_dynamic_config a')" if "actuary_step aconfig (sy_actuary s) a'" for a'
    using static_stops_step[OF that] assms(2) by (simp add: system_inv_def)
  with actuary assms(2) show ?thesis by (auto simp: system_inv_def)
next
  case scan
  with assms(2) show ?thesis by (blast intro: system_inv_scan)
qed (auto simp: system_inv_def)

interpretation sys: invariant_system "system_step api lib aconfig tconfig" "system_start aconfig" "system_inv api aconfig tconfig"
  for api lib aconfig tconfig
  by unfold_locales (auto intro: system_inv_start system_inv_step)

text \<open>An actuary whose configuration switches trading off never publishes.\<close>

lemma stopped_silent:
  assumes "(system_step api lib aconfig tconfig)\<^sup>*\<^sup>* s0 s" and "system_start aconfig s0" and "acfg_stop_make_order aconfig"
  shows "sy_published s = [] \<and> sy_placed s = []"
proof -
  have i: "system_inv api aconfig tconfig s" by (rule sys.inv_reachable[OF assms(1,2)])
  have "False" if p: "p \<in> set (sy_published s)" for p
  proof -
    have "static_stops aconfig (ax_dynamic_config (pb_context p))" "genuine api aconfig p" using i p by (simp_all add: system_inv_def)
    moreover from this(1) have "\<not> dynamic_could_make_order (pb_context p)"
      using assms(3) by (auto simp: static_stops_def dc_wf_def dynamic_could_make_order_def is_stop_make_order_def)
    ultimately show False
      using strategy_step_sent by (fastforce simp: genuine_def buy_sent_def sell_sent_def order_sent_ok_def)
  qed
  then have "sy_published s = []" by (meson last_in_set)
  then show ?thesis using i by (simp add: system_inv_def)
qed

section \<open>Counting placements\<close>

text \<open>
  As long as fewer than \<open>2 ^ 63\<close> orders have been published, the version of a slot is at most the number of publications to it, and
  a scanning thread has placed at most as many orders as the version it has reached.
\<close>

definition placed_by :: "string \<Rightarrow> Placement list \<Rightarrow> Placement list" where
  "placed_by base xs = filter (\<lambda>x. pl_base x = base) xs"

text \<open>The two parts of the invariant: slots, and scanning threads.\<close>

definition slots_counted :: "Publication list \<Rightarrow> OrderShm list \<Rightarrow> bool" where
  "slots_counted ps orders \<longleftrightarrow> (\<forall>k < length orders. 0 \<le> sint (os_version_number (orders ! k))
     \<and> sint (os_version_number (orders ! k)) \<le> int (length (published_to (int k) ps)))"

definition scan_counted :: "Publication list \<Rightarrow> Placement list \<Rightarrow> string \<Rightarrow> (string \<times> int \<times> i64) option \<Rightarrow> bool" where
  "scan_counted ps xs base local \<longleftrightarrow> (case local of
     None \<Rightarrow> placed_by base xs = []
   | Some (inst, i, v) \<Rightarrow> int (length (placed_by base xs)) \<le> sint v \<and> sint v \<le> int (length (published_to i ps)))"

definition count_inv :: "TradingSystem \<Rightarrow> bool" where
  "count_inv s \<longleftrightarrow> (length (sy_published s) < 2 ^ 63 - 1 \<longrightarrow> slots_counted (sy_published s) (sy_orders s)
     \<and> (\<forall>base. scan_counted (sy_published s) (sy_placed s) base (sy_scans s base)))"

lemma published_to_le: "length (published_to i ps) \<le> length ps"
  by (simp add: published_to_def)

lemma version_succ:
  assumes "0 \<le> sint (v :: i64)" and "sint v < 2 ^ 63 - 1"
  shows "sint (v + 1) = sint v + 1"
proof -
  have "sint (v + 1) = signed_take_bit 63 (sint v + sint (1 :: i64))" by (simp add: signed_take_bit_add sint_word_ariths)
  also have "\<dots> = sint v + 1" using assms by (simp add: signed_take_bit_int_eq_self)
  finally show ?thesis .
qed

lemma count_inv_start: "system_start aconfig s \<Longrightarrow> count_inv s"
  by (simp add: system_start_def count_inv_def slots_counted_def scan_counted_def placed_by_def published_to_def)

lemma scan_reached:
  assumes "scan_and_send_order resp now tconfig inst i v t = Inr (placed, v', t')"
  shows "v' = v \<or> (\<exists>k. i = int k \<and> k < length (tx_order_start t) \<and> v' = os_version_number (tx_order_start t ! k))"
proof -
  from assms obtain s where s: "order_shm_reader_get (tx_order_start t) i = Inr s"
    by (auto simp: scan_and_send_order_def bind_result_Inr_iff)
  have "v' = v \<or> v' = os_version_number s"
    using assms s by (auto simp: scan_and_send_order_def Let_def case_prod_beta split: if_splits)
  with s show ?thesis by (auto elim!: reader_get_Inr)
qed

lemma published_to_append: "published_to i (ps @ qs) = published_to i ps @ published_to i qs"
  by (simp add: published_to_def)

lemma placed_by_append: "placed_by base (xs @ ys) = placed_by base xs @ placed_by base ys"
  by (simp add: placed_by_def)

lemma scan_counted_mono: "scan_counted ps xs base local \<Longrightarrow> scan_counted (ps @ qs) xs base local"
  by (auto simp: scan_counted_def published_to_append split: option.splits)

lemma scan_counted_cong: "placed_by base xs = placed_by base ys \<Longrightarrow> scan_counted ps xs base local = scan_counted ps ys base local"
  by (cases local) (auto simp: scan_counted_def)

lemma slots_counted_publish:
  assumes "slots_counted ps orders" and "k < length orders" and "se_order_shm_index (pb_env p) = int k" and "length ps < 2 ^ 63 - 1"
  shows "slots_counted (ps @ [p]) (orders[k := (if b then o1\<lparr>os_version_number := os_version_number (orders ! k) + 1\<rparr> else orders ! k)])"
proof -
  let ?v = "os_version_number (orders ! k)"
  have v: "0 \<le> sint ?v" "sint ?v \<le> int (length (published_to (int k) ps))"
    using assms(1,2) by (simp_all add: slots_counted_def)
  have "length (published_to (int k) ps) < 9223372036854775807" using published_to_le[of "int k" ps] assms(4) by simp
  then have "sint ?v < 2 ^ 63 - 1" using v(2) by simp
  then have "sint (?v + 1) = sint ?v + 1" using v(1) version_succ by blast
  moreover have "published_to j (ps @ [p]) = published_to j ps @ (if j = int k then [p] else [])" for j
    using assms(3) by (auto simp: published_to_def)
  ultimately show ?thesis using assms(1) v by (auto simp: slots_counted_def nth_list_update)
qed

lemma count_inv_strategy:
  assumes "count_inv s"
    and "strategy_step api clk stop_buy0 aconfig env st (sy_actuary s) = Inr (sent, st', a')"
    and "s' = s\<lparr>sy_actuary := a', sy_strategies := m,
         sy_published := sy_published s @ (case sent of None \<Rightarrow> [] | Some order \<Rightarrow>
           [\<lparr>pb_env = env, pb_state = st, pb_clock = clk, pb_stop_buy = stop_buy0, pb_context = sy_actuary s, pb_order = order\<rparr>])\<rparr>"
  shows "count_inv s'"
proof (cases sent)
  case None
  then have "a' = sy_actuary s" using strategy_quiet assms(2) by blast
  then show ?thesis using assms(1,3) None by (simp add: count_inv_def)
next
  case (Some order)
  let ?p = "\<lparr>pb_env = env, pb_state = st, pb_clock = clk, pb_stop_buy = stop_buy0, pb_context = sy_actuary s, pb_order = order\<rparr>"
  obtain k where k: "se_order_shm_index env = int k" "k < length (sy_orders s)"
    and o: "order_start (ax_shm_store_info a') = (sy_orders s)[k := (if order_newer (sy_orders s ! k) order
              then order\<lparr>os_version_number := os_version_number (sy_orders s ! k) + 1\<rparr> else sy_orders s ! k)]"
    using assms(2) Some by (auto elim: strategy_sent_slot)
  have "slots_counted (sy_published s @ [?p]) (order_start (ax_shm_store_info a'))"
    if "slots_counted (sy_published s) (sy_orders s)" "length (sy_published s) < 2 ^ 63 - 1"
    unfolding o by (rule slots_counted_publish[OF that(1) k(2) _ that(2)]) (simp add: k(1))
  then show ?thesis using assms(1,3) Some by (simp add: count_inv_def scan_counted_mono)
qed

lemma count_inv_scan:
  assumes "count_inv s" and "sy_scans s base = Some (inst, i, v)"
    and "scan_and_send_order resp now tconfig inst i v (attach_orders s) = Inr (placed, v', t')"
    and "s' = s\<lparr>sy_trader := t', sy_scans := (sy_scans s)(base \<mapsto> (inst, i, v')),
         sy_placed := sy_placed s @ (case placed of None \<Rightarrow> [] | Some (_, order) \<Rightarrow>
           [\<lparr>pl_base = base, pl_slot = i, pl_time = now, pl_order = order\<rparr>])\<rparr>"
  shows "count_inv s'"
proof -
  define new where "new = (case placed of None \<Rightarrow> [] | Some (_, order) \<Rightarrow>
    [\<lparr>pl_base = base, pl_slot = i, pl_time = now, pl_order = order\<rparr>])"
  have n: "placed_by b new = (if b = base then new else [])" for b
    by (auto simp: placed_by_def new_def split: option.splits)
  have l: "length new = (if placed = None then 0 else 1)" by (auto simp: new_def split: option.splits)
  have counted: "scan_counted (sy_published s) (sy_placed s @ new) b (((sy_scans s)(base \<mapsto> (inst, i, v'))) b)"
    if "slots_counted (sy_published s) (sy_orders s)" "\<forall>b. scan_counted (sy_published s) (sy_placed s) b (sy_scans s b)" for b
  proof (cases "b = base")
    case True
    have c: "int (length (placed_by base (sy_placed s))) \<le> sint v" "sint v \<le> int (length (published_to i (sy_published s)))"
      using that(2)[rule_format, of base] assms(2) by (simp_all add: scan_counted_def)
    have "sint v' \<le> int (length (published_to i (sy_published s)))"
      using scan_reached[OF assms(3)] c(2) that(1) by (auto simp: slots_counted_def)
    moreover have "int (length (placed_by base (sy_placed s @ new))) \<le> sint v'"
      using c(1) scan_version[OF assms(3)] n[of base] l by (simp add: placed_by_append split: if_split_asm)
    ultimately show ?thesis using True by (simp add: scan_counted_def)
  next
    case False
    then have "placed_by b (sy_placed s @ new) = placed_by b (sy_placed s)" using n[of b] by (simp add: placed_by_append)
    from scan_counted_cong[OF this, of "sy_published s"] show ?thesis using False that(2) by simp
  qed
  have "s' = s\<lparr>sy_trader := t', sy_scans := (sy_scans s)(base \<mapsto> (inst, i, v')), sy_placed := sy_placed s @ new\<rparr>"
    using assms(4) by (simp add: new_def)
  then show ?thesis using assms(1) counted by (simp add: count_inv_def)
qed

lemma count_inv_step:
  assumes "system_step api lib aconfig tconfig s s'" and "count_inv s"
  shows "count_inv s'"
  using assms
proof cases
  case strategy
  with assms(2) show ?thesis by (blast intro: count_inv_strategy)
next
  case (start_scan base inst i)
  then have "scan_counted (sy_published s) (sy_placed s) base (Some (inst, i, 0))"
    if "scan_counted (sy_published s) (sy_placed s) base (sy_scans s base)"
    using that by (simp add: scan_counted_def)
  then show ?thesis using start_scan(1) assms(2) by (auto simp: count_inv_def)
next
  case scan
  with assms(2) show ?thesis by (blast intro: count_inv_scan)
qed (auto simp: count_inv_def)

interpretation count: invariant_system "system_step api lib aconfig tconfig" "system_start aconfig" count_inv
  for api lib aconfig tconfig
  by unfold_locales (auto intro: count_inv_start count_inv_step)

section \<open>A complete run\<close>

text \<open>
  The actuary is initialised, the strategy of one asset starts and buys back a short position of 1, the scanning thread starts and hands the order to
  the exchange.
\<close>

definition demo_fresh :: ActuaryContext where
  "demo_fresh = (sample_actuary_context 1)\<lparr>ax_follower_exchange_info_map := [''BTCUSDC'' \<mapsto> se_follower_exchange_info sample_env],
     ax_follower_inst_config := [''BTC'' \<mapsto> se_inst_config sample_env]\<rparr>"

definition demo_actuary :: ActuaryContext where
  "demo_actuary = (let c = ax_init_shm_mapping sample_actuary_config (ax_load_ids sample_actuary_config demo_fresh)
     in c\<lparr>ax_balance_position_composite := ap_init [''USDT'', ''USDC'', ''BNB'', ''BTC''] [''BTCUSDC''] (ax_balance_position_composite c)\<rparr>)"

lemma demo_init:
  "ax_init (\<lambda>_ m. m) (\<lambda>_ m. m) (ax_shm_store_info (sample_actuary_context 1)) 0 no_exchange_infos no_exchange_infos
     sample_actuary_config demo_fresh = Some (Inr demo_actuary)"
  by (simp add: ax_init_def demo_actuary_def Let_def ax_init_shm_def load_follower_exchangeInfo_def load_benchmark_exchangeInfo_def
      no_exchange_infos_def sample_actuary_config_def demo_fresh_def ax_load_ids_def ax_init_shm_mapping_def sample_actuary_context_def)

lemma demo_started: "actuary_started sample_actuary_config demo_actuary"
proof -
  have "valid_thresholds sample_actuary_config" by (simp add: valid_thresholds_def sample_actuary_config_def)
  then show ?thesis using demo_init unfolding actuary_started_def by blast
qed

lemma demo_strategy_start: "strategy_start sample_actuary_config demo_actuary ''BTC'' = Inr (sample_env, sample_state)"
  by (simp add: strategy_start_def demo_actuary_def demo_fresh_def sample_defs sample_env_def sample_state_def get_follower_exchange_info_def
      ax_load_ids_def ax_init_shm_mapping_def index_mapping_def find_index_def Let_def)

lemma demo_same: "same_inputs sample_actuary_config sample_env (sample_actuary_context 1) demo_actuary"
  by (simp add: same_inputs_def demo_actuary_def demo_fresh_def ax_load_ids_def ax_init_shm_mapping_def Let_def ap_init_def
      copy_position_def map_insert_def sample_actuary_context_def sample_env_def position_reduce_ratio_def sample_actuary_config_def)

definition demo_after :: ActuaryContext where
  "demo_after = reframe demo_actuary (sample_after False 120 1)"

lemma demo_strategy_step:
  "strategy_step sample_api (sample_clock 120) False sample_actuary_config sample_env sample_state demo_actuary
     = Inr (Some (sample_buy 120), sample_state_after 120 1, demo_after)"
  using strategy_step_frame[OF demo_same] sample_step1[of False] by (simp add: demo_after_def)

abbreviation demo_slot :: OrderShm where
  "demo_slot \<equiv> (sample_buy 120)\<lparr>os_version_number := 1\<rparr>"

definition demo_placed :: FuturesNewOrder where
  "demo_placed = new_order_of ''RESULT'' 120500 ''BTCUSDC'' demo_slot"

lemma demo_scan_start: "scan_start sample_trader_config ''BTC'' (sample_trader_context zero_order) = Some (''BTCUSDC'', 0)"
  by (simp add: scan_start_def sample_trader_config_def sample_trader_context_def)

lemma demo_scan:
  "\<exists>t'. scan_and_send_order ''RESULT'' 120500 sample_trader_config ''BTCUSDC'' 0 0
      ((sample_trader_context zero_order)\<lparr>tx_order_start := [demo_slot]\<rparr>) = Inr (Some (Some 0, demo_placed), 1, t')"
proof -
  let ?t = "(sample_trader_context zero_order)\<lparr>tx_order_start := [demo_slot]\<rparr>"
  have c: "tx_best_order_service_manager ?t = sample_manager" "tx_order_best_path_limiter ?t = sample_limiter_boss"
    "tx_order_interval_boss ?t = sample_interval_boss" "tx_order_start ?t = [demo_slot]"
    by (simp_all add: sample_trader_context_def)
  have "order_fits (sample_buy 120)"
    using sample_buy_fits[OF sample_signal(5)[OF sample_points(1)]] by (simp add: order_fits_def) (simp add: sample_buy_def)
  then have g: "order_shm_reader_get [demo_slot] 0 = Inr demo_slot"
    using order_reader_get_ok[of 0 "[demo_slot]"] by (simp add: order_fits_def)
  have u: "os_update_time demo_slot = 120000" by (simp add: sample_buy_def)
  obtain t' where "place_best_path ''BTCUSDC'' demo_placed ?t = (Some (Some 0, demo_placed), t')"
    by (simp add: place_best_path_def c sample_find sample_ready case_prod_beta Let_def)
  then show ?thesis
    by (simp add: scan_and_send_order_def c g u sample_ready word_sle_eq Let_def demo_placed_def)
      (simp add: sample_trader_config_def)
qed

definition demo_start :: TradingSystem where
  "demo_start = \<lparr>sy_actuary = demo_actuary, sy_strategies = Map.empty, sy_trader = sample_trader_context zero_order,
     sy_scans = Map.empty, sy_published = [], sy_placed = []\<rparr>"

definition demo_publication :: Publication where
  "demo_publication = \<lparr>pb_env = sample_env, pb_state = sample_state, pb_clock = sample_clock 120, pb_stop_buy = False,
     pb_context = demo_actuary, pb_order = sample_buy 120\<rparr>"

definition demo_placement :: Placement where
  "demo_placement = \<lparr>pl_base = ''BTC'', pl_slot = 0, pl_time = 120500, pl_order = demo_placed\<rparr>"

lemma demo_system_start: "system_start sample_actuary_config demo_start"
proof -
  have "order_start (ax_shm_store_info demo_actuary) = [zero_order]"
    by (simp add: demo_actuary_def demo_fresh_def ax_init_shm_mapping_def ax_load_ids_def Let_def sample_actuary_context_def)
  then show ?thesis using demo_started by (simp add: system_start_def demo_start_def zero_order_def)
qed

text \<open>The states of the run: the strategy has started, it has published, the scanning thread has started, it has placed.\<close>

definition demo_1 :: TradingSystem where
  "demo_1 = demo_start\<lparr>sy_strategies := [''BTC'' \<mapsto> (sample_env, sample_state)]\<rparr>"

definition demo_2 :: TradingSystem where
  "demo_2 = demo_start\<lparr>sy_actuary := demo_after, sy_strategies := [''BTC'' \<mapsto> (sample_env, sample_state_after 120 1)],
     sy_published := [demo_publication]\<rparr>"

definition demo_3 :: TradingSystem where
  "demo_3 = demo_2\<lparr>sy_scans := [''BTC'' \<mapsto> (''BTCUSDC'', 0, 0)]\<rparr>"

definition demo_4 :: "TraderContext \<Rightarrow> TradingSystem" where
  "demo_4 t = demo_3\<lparr>sy_trader := t, sy_scans := [''BTC'' \<mapsto> (''BTCUSDC'', 0, 1)], sy_placed := [demo_placement]\<rparr>"

lemma demo_4_simps:
  "sy_actuary (demo_4 t) = demo_after" "sy_published (demo_4 t) = [demo_publication]" "sy_placed (demo_4 t) = [demo_placement]"
  "sy_scans (demo_4 t) ''BTC'' = Some (''BTCUSDC'', 0, 1)"
  by (simp_all add: demo_4_def demo_3_def demo_2_def)

lemma demo_steps:
  "\<exists>t. system_step sample_api sample_trader_lib sample_actuary_config sample_trader_config demo_start demo_1
     \<and> system_step sample_api sample_trader_lib sample_actuary_config sample_trader_config demo_1 demo_2
     \<and> system_step sample_api sample_trader_lib sample_actuary_config sample_trader_config demo_2 demo_3
     \<and> system_step sample_api sample_trader_lib sample_actuary_config sample_trader_config demo_3 (demo_4 t)"
proof -
  let ?step = "system_step sample_api sample_trader_lib sample_actuary_config sample_trader_config"
  have node: "''BTC'' \<in> set (acfg_node_base_assets sample_actuary_config)" "''BTC'' \<in> set (tcfg_node_base_assets sample_trader_config)"
    "tl_ORDER_RESP_TYPE_RESULT sample_trader_lib = ''RESULT''"
    by (simp_all add: sample_actuary_config_def sample_trader_config_def sample_trader_lib_def)
  have e: "order_start (ax_shm_store_info demo_after) = [demo_slot]" by (simp add: demo_after_def reframe_def sample_after_def)
  obtain t' where t': "scan_and_send_order ''RESULT'' 120500 sample_trader_config ''BTCUSDC'' 0 0
      ((sample_trader_context zero_order)\<lparr>tx_order_start := [demo_slot]\<rparr>) = Inr (Some (Some 0, demo_placed), 1, t')"
    using demo_scan by blast
  have 1: "?step demo_start demo_1"
    using system_step.start_strategy[OF node(1), of demo_start "(sample_env, sample_state)" sample_api sample_trader_lib sample_trader_config]
    by (simp add: demo_start_def demo_strategy_start demo_1_def)
  have 2: "?step demo_1 demo_2"
    using system_step.strategy[of demo_1 "''BTC''" sample_env sample_state sample_api "sample_clock 120" False sample_actuary_config
        "Some (sample_buy 120)" "sample_state_after 120 1" demo_after sample_trader_lib sample_trader_config]
    by (simp add: demo_start_def demo_strategy_step demo_publication_def demo_1_def demo_2_def)
  have 3: "?step demo_2 demo_3"
    using system_step.start_scan[OF node(2), of demo_2 "''BTCUSDC''" 0 sample_api sample_trader_lib sample_actuary_config]
    by (simp add: demo_start_def demo_scan_start demo_2_def demo_3_def)
  have "?step demo_3 (demo_4 t')"
    using system_step.scan[of demo_3 "''BTC''" "''BTCUSDC''" 0 0 sample_trader_lib 120500 sample_trader_config "Some (Some 0, demo_placed)" 1 t'
        sample_api sample_actuary_config]
    by (simp add: demo_start_def e t' node(3) demo_placement_def demo_2_def demo_3_def demo_4_def)
  with 1 2 3 show ?thesis by blast
qed

lemma demo_reaches:
  "\<exists>s. (system_step sample_api sample_trader_lib sample_actuary_config sample_trader_config)\<^sup>*\<^sup>* demo_start s
     \<and> sy_published s = [demo_publication] \<and> sy_placed s = [demo_placement] \<and> sy_scans s ''BTC'' = Some (''BTCUSDC'', 0, 1)"
  using demo_steps demo_4_simps by (meson r_into_rtranclp rtranclp.rtrancl_into_rtrancl)

section \<open>Properties\<close>

text \<open>C2. Every order at the exchange was decided by the strategy: in every interleaving of the two processes, an order that the trader
  has handed to the exchange carries the side, price, quantity, type and reduce-only flag of an order that a strategy
  published to the same slot, and is not older than the configured validity; at that publication trading was allowed, and all tickers and
  thresholds were published and within their validity.\<close>

theorem exchange_orders_are_decided:
  assumes "(system_step api lib aconfig tconfig)\<^sup>*\<^sup>* s0 s" and "system_start aconfig s0" and "x \<in> set (sy_placed s)"
  shows "\<exists>p \<in> set (sy_published s). copies_order tconfig p x \<and> genuine api aconfig p \<and> dynamic_could_make_order (pb_context p)
    \<and> (\<exists>bt ft er bb fb position. fresh_inputs (pb_clock p) aconfig (pb_env p) (pb_context p) bt ft er bb fb position)"
proof -
  have "system_inv api aconfig tconfig s" by (rule sys.inv_reachable[OF assms(1,2)])
  then obtain p where p: "p \<in> set (sy_published s)" "copies_order tconfig p x" "genuine api aconfig p"
    using assms(3) unfolding system_inv_def by blast
  then obtain st' c' where "strategy_step api (pb_clock p) (pb_stop_buy p) aconfig (pb_env p) (pb_state p) (pb_context p)
      = Inr (Some (pb_order p), st', c')" by (auto simp: genuine_def)
  from strategy_step_sent[OF this] obtain bt ft er bb fb position where
      f: "fresh_inputs (pb_clock p) aconfig (pb_env p) (pb_context p) bt ft er bb fb position"
    and "buy_sent api (pb_clock p) (pb_stop_buy p) aconfig (pb_env p) position bt ft er bb fb (pb_state p) (pb_context p) (pb_order p) c'
      \<or> sell_sent api (pb_clock p) (pb_stop_buy p) aconfig (pb_env p) position bt ft er bb fb (pb_state p) (pb_context p) (pb_order p) c'"
    by auto
  then have "dynamic_could_make_order (pb_context p)" by (auto simp: buy_sent_def sell_sent_def order_sent_ok_def)
  then show ?thesis using p f by blast
qed

theorem exchange_orders_are_decided_witness:
  "\<exists>p. copies_order sample_trader_config p demo_placement \<and> dynamic_could_make_order (pb_context p)"
proof -
  obtain s where s: "(system_step sample_api sample_trader_lib sample_actuary_config sample_trader_config)\<^sup>*\<^sup>* demo_start s"
    "sy_placed s = [demo_placement]" using demo_reaches by blast
  have "demo_placement \<in> set (sy_placed s)" using s(2) by simp
  from exchange_orders_are_decided[OF s(1) demo_system_start this] show ?thesis by blast
qed

text \<open>A process that is configured not to trade never causes an order: whatever the watchdogs, the account, the feeds and the
  trader do, nothing is published and nothing is handed to the exchange.\<close>

theorem stopped_system_is_silent:
  assumes "(system_step api lib aconfig tconfig)\<^sup>*\<^sup>* s0 s" and "system_start aconfig s0" and "acfg_stop_make_order aconfig"
  shows "sy_published s = [] \<and> sy_placed s = []"
  by (rule stopped_silent[OF assms])

text \<open>C4. A process that is configured to close positions only never opens one at the exchange: every order that is handed over was decided against a
  held position of the opposite side and is not larger than it.\<close>

theorem close_only_system_closes:
  assumes "(system_step api lib aconfig tconfig)\<^sup>*\<^sup>* s0 s" and "system_start aconfig s0" and "acfg_make_position_close_only aconfig"
    and "x \<in> set (sy_placed s)"
  shows "\<exists>p \<in> set (sy_published s). copies_order tconfig p x
    \<and> (\<exists>position. copy_position (se_follower_inst_id (pb_env p)) (ax_balance_position_composite (pb_context p)) = Some position
        \<and> (positionSide position = PositionSide_SHORT api \<and> fo_side (pl_order x) = ORDER_SIDE_BUY api
           \<or> positionSide position = PositionSide_LONG api \<and> fo_side (pl_order x) = ORDER_SIDE_SELL api)
        \<and> \<not> fo_quantity (pl_order x) > positionAmountAbs position)"
proof -
  have i: "system_inv api aconfig tconfig s" by (rule sys.inv_reachable[OF assms(1,2)])
  then obtain p where p: "p \<in> set (sy_published s)" "copies_order tconfig p x" "genuine api aconfig p"
      "static_stops aconfig (ax_dynamic_config (pb_context p))"
    using assms(4) unfolding system_inv_def by blast
  then obtain st' c' where s: "strategy_step api (pb_clock p) (pb_stop_buy p) aconfig (pb_env p) (pb_state p) (pb_context p)
      = Inr (Some (pb_order p), st', c')" by (auto simp: genuine_def)
  have "is_stop_make_open_order (ax_dynamic_config (pb_context p))"
    using p(4) assms(3) by (auto simp: static_stops_def dc_wf_def is_stop_make_open_order_def)
  with order_closes_when_stopped[OF s] assms(3) p(1,2) show ?thesis
    unfolding copies_order_def by (intro bexI[of _ p]) auto
qed

theorem close_only_system_closes_witness:
  "\<exists>p (position :: AccountPositionInfo). copies_order sample_trader_config p demo_placement \<and> \<not> fo_quantity demo_placed > positionAmountAbs position
    \<and> fo_side demo_placed = ''BUY''"
proof -
  obtain s where s: "(system_step sample_api sample_trader_lib sample_actuary_config sample_trader_config)\<^sup>*\<^sup>* demo_start s"
    "sy_placed s = [demo_placement]" using demo_reaches by blast
  have m: "demo_placement \<in> set (sy_placed s)" "pl_order demo_placement = demo_placed" using s(2) by (simp_all add: demo_placement_def)
  have "acfg_make_position_close_only sample_actuary_config" by (simp add: sample_actuary_config_def)
  from close_only_system_closes[OF s(1) demo_system_start this m(1)] obtain p and position :: AccountPositionInfo
    where "copies_order sample_trader_config p demo_placement" "\<not> fo_quantity demo_placed > positionAmountAbs position"
    unfolding m(2) by blast
  moreover have "fo_side demo_placed = ''BUY''" by (simp add: demo_placed_def new_order_of_def sample_buy_def)
  ultimately show ?thesis by blast
qed

definition stopped_system :: TradingSystem where
  "stopped_system = demo_start\<lparr>sy_actuary := demo_actuary\<lparr>ax_dynamic_config := new_DynamicConfig True True\<rparr>\<rparr>"

lemma stopped_system_start: "system_start (sample_actuary_config\<lparr>acfg_stop_make_order := True\<rparr>) stopped_system"
proof -
  have "ax_init (\<lambda>_ m. m) (\<lambda>_ m. m) (ax_shm_store_info (sample_actuary_context 1)) 0 no_exchange_infos no_exchange_infos
     (sample_actuary_config\<lparr>acfg_stop_make_order := True\<rparr>) demo_fresh = Some (Inr (sy_actuary stopped_system))"
    by (simp add: ax_init_def demo_actuary_def Let_def ax_init_shm_def load_follower_exchangeInfo_def load_benchmark_exchangeInfo_def
      no_exchange_infos_def sample_actuary_config_def demo_fresh_def ax_load_ids_def ax_init_shm_mapping_def sample_actuary_context_def
      stopped_system_def)
  moreover have "valid_thresholds (sample_actuary_config\<lparr>acfg_stop_make_order := True\<rparr>)"
    by (simp add: valid_thresholds_def sample_actuary_config_def)
  ultimately have "actuary_started (sample_actuary_config\<lparr>acfg_stop_make_order := True\<rparr>) (sy_actuary stopped_system)"
    unfolding actuary_started_def by blast
  then show ?thesis using demo_system_start by (simp add: system_start_def stopped_system_def demo_start_def)
qed

theorem stopped_system_is_silent_witness:
  "\<exists>s. (system_step sample_api sample_trader_lib (sample_actuary_config\<lparr>acfg_stop_make_order := True\<rparr>) sample_trader_config)\<^sup>*\<^sup>*
       stopped_system s \<and> sy_scans s ''BTC'' = Some (''BTCUSDC'', 0, 0) \<and> sy_placed s = []"
proof -
  let ?config = "sample_actuary_config\<lparr>acfg_stop_make_order := True\<rparr>"
  have "''BTC'' \<in> set (tcfg_node_base_assets sample_trader_config)" by (simp add: sample_trader_config_def)
  from system_step.start_scan[OF this, of stopped_system "''BTCUSDC''" 0 sample_api sample_trader_lib ?config]
  have r: "(system_step sample_api sample_trader_lib ?config sample_trader_config)\<^sup>*\<^sup>* stopped_system
      (stopped_system\<lparr>sy_scans := (sy_scans stopped_system)(''BTC'' \<mapsto> (''BTCUSDC'', 0, 0))\<rparr>)"
    by (intro r_into_rtranclp) (simp add: stopped_system_def demo_start_def demo_scan_start)
  from stopped_system_is_silent[OF this stopped_system_start] have
    "sy_placed (stopped_system\<lparr>sy_scans := (sy_scans stopped_system)(''BTC'' \<mapsto> (''BTCUSDC'', 0, 0))\<rparr>) = []" by simp
  with r show ?thesis
    by (intro exI[of _ "stopped_system\<lparr>sy_scans := (sy_scans stopped_system)(''BTC'' \<mapsto> (''BTCUSDC'', 0, 0))\<rparr>"]) simp
qed

text \<open>C6. No publication is placed twice: the orders that the scanning thread of an asset has handed to the exchange are at most
  as many as the orders that the strategies have published to its slot (as long as fewer than \<open>2 ^ 63 - 1\<close> orders have been
  published, when the versions would wrap around).\<close>

theorem placements_bounded_by_publications:
  assumes "(system_step api lib aconfig tconfig)\<^sup>*\<^sup>* s0 s" and "system_start aconfig s0"
    and "sy_scans s base = Some (inst, i, v)" and "length (sy_published s) < 2 ^ 63 - 1"
  shows "length (placed_by base (sy_placed s)) \<le> length (published_to i (sy_published s))"
proof -
  have "count_inv s" by (rule count.inv_reachable[OF assms(1,2)])
  then have "scan_counted (sy_published s) (sy_placed s) base (sy_scans s base)" using assms(4) unfolding count_inv_def by blast
  then show ?thesis using assms(3) by (simp add: scan_counted_def)
qed

theorem placements_bounded_by_publications_witness:
  "\<exists>s :: TradingSystem. sy_placed s = [demo_placement] \<and> length (placed_by ''BTC'' (sy_placed s)) \<le> length (published_to 0 (sy_published s))"
proof -
  obtain s where s: "(system_step sample_api sample_trader_lib sample_actuary_config sample_trader_config)\<^sup>*\<^sup>* demo_start s"
    "sy_placed s = [demo_placement]" "sy_published s = [demo_publication]" "sy_scans s ''BTC'' = Some (''BTCUSDC'', 0, 1)"
    using demo_reaches by blast
  have "length (sy_published s) < 2 ^ 63 - 1" using s(3) by simp
  from placements_bounded_by_publications[OF s(1) demo_system_start s(4) this] s(2) show ?thesis by (intro exI[of _ s]) simp
qed

end
