(* ===== verification/ReceiverCalc.thy ===== *)
theory ReceiverCalc
  imports ReceiverContext
begin

text \<open>
  \<open>src/src/receiver/ticker_calculate.cpp\<close>: the three calculator threads of the receiver. Each definition is
  one iteration of a thread's loop on a message taken from its queue; \<open>continue\<close> returns the context
  unchanged. The clock value read in the iteration is an argument, and so is whether the concurrent
  queue accepts a new element (\<open>try_enqueue\<close> may refuse one). Random logging is left out.
\<close>

section \<open>Early-run thresholds\<close>

text \<open>\<open>std::sort\<close> on doubles. Elements are ordered by the built-in comparison.\<close>

fun insert_d :: "double \<Rightarrow> double list \<Rightarrow> double list" where
  "insert_d x [] = [x]"
| "insert_d x (y # ys) = (if y < x then y # insert_d x ys else x # y # ys)"

definition sort_d :: "double list \<Rightarrow> double list" where
  "sort_d xs = foldr insert_d xs []"

definition median_d :: "double list \<Rightarrow> double" where
  "median_d xs = sort_d xs ! (length xs div 2)"

definition calc_base_asset :: "ReceiverConfig \<Rightarrow> string \<Rightarrow> string" where
  "calc_base_asset config inst =
     (if str_ends_with inst (rcfg_benchmark_quote_asset config)
      then strip_suffix inst (rcfg_benchmark_quote_asset config)
      else strip_suffix inst (rcfg_follower_quote_asset config))"

definition early_run_median_threshold :: "u64 \<Rightarrow> ReceiverConfig \<Rightarrow> PriceOffset list \<Rightarrow> EarlyRunThreshold option" where
  "early_run_median_threshold now config offsets =
     (if (of_nat (length offsets) :: u64) < rcfg_calculate_sma_interval_seconds config then None
      else Some \<lparr>avg_price_diff_median = median_d (map avg_price_diff offsets),
        bid_ask_price_diff_median = median_d (map bid_ask_price_diff offsets),
        ask_bid_price_diff_median = median_d (map ask_bid_price_diff offsets),
        er_price_offset_length = of_nat (length offsets), er_current_time_mills = now\<rparr>)"

definition early_run_average_threshold ::
  "u64 \<Rightarrow> ReceiverConfig \<Rightarrow> PriceOffsetAvgResult option \<Rightarrow> EarlyRunThreshold option" where
  "early_run_average_threshold now config avg_result =
     (case avg_result of
        None \<Rightarrow> None
      | Some r \<Rightarrow>
          (if ar_price_offset_length r < rcfg_calculate_sma_interval_seconds config then None
           else Some \<lparr>avg_price_diff_median = ar_avg_avg_price_diff r,
             bid_ask_price_diff_median = ar_avg_bid_ask_price_diff r,
             ask_bid_price_diff_median = ar_avg_ask_bid_price_diff r,
             er_price_offset_length = ar_price_offset_length r, er_current_time_mills = now\<rparr>))"

text \<open>
  The median branch indexes the sorted lists at \<open>offset_list.size() / 2\<close>, which is past the end of empty
  lists: with an interval of 0 an asset without offsets is read out of bounds.
\<close>

definition process_early_run_threshold_calculate ::
  "u64 \<Rightarrow> ReceiverConfig \<Rightarrow> string \<Rightarrow> ReceiverContext \<Rightarrow> ReceiverContext result" where
  "process_early_run_threshold_calculate now config inst c =
     (let base_asset = calc_base_asset config inst;
          median = (rcfg_early_run_calculation_type config = ''median'');
          offsets = pc_get_price_offset_list base_asset (rx_price_offset_composite c);
          threshold =
            (if median then early_run_median_threshold now config offsets
             else early_run_average_threshold now config
               (pc_get_price_avg_result base_asset (rx_price_offset_composite c)))
      in case threshold of
           None \<Rightarrow> Inr c
         | Some t \<Rightarrow>
             if median \<and> offsets = [] then Inl OutOfBounds
             else
               let c = c\<lparr>rx_early_run_threshold_composite :=
                       ert_update base_asset t (rx_early_run_threshold_composite c)\<rparr>
               in case map_of (rx_shm_threshold_mapping c) base_asset of
                    None \<Rightarrow> Inr c
                  | Some offset \<Rightarrow>
                      bind_result
                        (early_run_shm_writer_update (early_run_start (rx_shm_store_info c)) offset
                          (zero_early_run\<lparr>er_avg_median := avg_price_diff_median t,
                             er_bid_ask_median := bid_ask_price_diff_median t,
                             er_ask_bid_median := ask_bid_price_diff_median t,
                             er_time_mills := er_current_time_mills t\<rparr>))
                        (\<lambda>(_, seg). Inr (c\<lparr>rx_shm_store_info :=
                           (rx_shm_store_info c)\<lparr>early_run_start := seg\<rparr>\<rparr>)))"

section \<open>Beta thresholds\<close>

datatype TickerRole = Benchmark | Follower

definition calculate_volatility_multiplier :: "double \<Rightarrow> InstConfigItem \<Rightarrow> double" where
  "calculate_volatility_multiplier vol inst_config =
     ic_volatility_a inst_config + ic_volatility_b inst_config * vol
     + ic_volatility_c inst_config * vol * vol"

definition calculate_beta_threshold :: "double \<Rightarrow> InstConfigItem \<Rightarrow> double" where
  "calculate_beta_threshold multiplier inst_config = multiplier * ic_beta inst_config"

definition min_max_step :: "UmTickerInfo \<Rightarrow> TickerMinMaxResult \<Rightarrow> TickerMinMaxResult" where
  "min_max_step t r =
     (let r = (if bid_price t > r_max_bid_price r then r\<lparr>r_max_bid_price := bid_price t\<rparr> else r);
          r = (if bid_price t < r_min_bid_price r then r\<lparr>r_min_bid_price := bid_price t\<rparr> else r);
          r = (if ask_price t > r_max_ask_price r then r\<lparr>r_max_ask_price := ask_price t\<rparr> else r);
          r = (if ask_price t < r_min_ask_price r then r\<lparr>r_min_ask_price := ask_price t\<rparr> else r);
          r = (if avg_price t > r_max_avg_price r then r\<lparr>r_max_avg_price := avg_price t\<rparr> else r);
          r = (if avg_price t < r_min_avg_price r then r\<lparr>r_min_avg_price := avg_price t\<rparr> else r)
      in r)"

definition fresh_min_max :: TickerMinMaxResult where
  "fresh_min_max = \<lparr>r_min_bid_price = dbl_max, r_max_bid_price = dbl_min, r_min_ask_price = dbl_max,
     r_max_ask_price = dbl_min, r_min_avg_price = dbl_max, r_max_avg_price = dbl_min,
     r_ticker_length = 0, r_validity_min_max = False\<rparr>"

text \<open>The loop over the copied tickers; the length of the previous result is kept.\<close>

definition calculate_min_max :: "UmTickerInfo list \<Rightarrow> TickerMinMaxResult \<Rightarrow> TickerMinMaxResult" where
  "calculate_min_max tickers prev =
     (fold min_max_step tickers fresh_min_max)
       \<lparr>r_ticker_length := r_ticker_length prev, r_validity_min_max := True\<rparr>"

definition price_volatility :: "double \<Rightarrow> double \<Rightarrow> double" where
  "price_volatility lo hi = (hi - lo) / lo"

definition beta_threshold_of :: "u64 \<Rightarrow> InstConfigItem \<Rightarrow> TickerMinMaxResult \<Rightarrow> BetaThreshold option" where
  "beta_threshold_of now inst_config r =
     (if r_min_bid_price r \<le> Fin 0 \<or> r_min_ask_price r \<le> Fin 0 \<or> r_min_avg_price r \<le> Fin 0 then None
      else
        let bid_v = price_volatility (r_min_bid_price r) (r_max_bid_price r);
            bid_m = calculate_volatility_multiplier bid_v inst_config;
            ask_v = price_volatility (r_min_ask_price r) (r_max_ask_price r);
            ask_m = calculate_volatility_multiplier ask_v inst_config;
            avg_v = price_volatility (r_min_avg_price r) (r_max_avg_price r);
            avg_m = calculate_volatility_multiplier avg_v inst_config
        in Some (new_BetaThreshold\<lparr>bid_volatility := bid_v, bid_volatility_multiplier := bid_m,
             bid_beta_threshold := calculate_beta_threshold bid_m inst_config,
             ask_volatility := ask_v, ask_volatility_multiplier := ask_m,
             ask_beta_threshold := calculate_beta_threshold ask_m inst_config,
             volatility := avg_v, volatility_multiplier := avg_m,
             beta_threshold := calculate_beta_threshold avg_m inst_config,
             bt_current_time_mills := now\<rparr>))"

definition beta_shm_of :: "BetaThreshold \<Rightarrow> BetaThresholdShm" where
  "beta_shm_of t = zero_beta\<lparr>bt_sma := sma t, bt_volatility := volatility t,
     bt_volatility_multiplier := volatility_multiplier t, bt_beta_threshold := beta_threshold t,
     bt_bid_sma := bid_sma t, bt_bid_volatility := bid_volatility t,
     bt_bid_volatility_multiplier := bid_volatility_multiplier t,
     bt_bid_beta_threshold := bid_beta_threshold t,
     bt_ask_sma := ask_sma t, bt_ask_volatility := ask_volatility t,
     bt_ask_volatility_multiplier := ask_volatility_multiplier t,
     bt_ask_beta_threshold := ask_beta_threshold t, bt_time_mills := bt_current_time_mills t\<rparr>"

definition role_tickers :: "TickerRole \<Rightarrow> ReceiverContext \<Rightarrow> TickerComposite" where
  "role_tickers role c =
     (case role of Benchmark \<Rightarrow> rx_benchmark_ticker_composite c | Follower \<Rightarrow> rx_follower_ticker_composite c)"

definition set_role_tickers :: "TickerRole \<Rightarrow> TickerComposite \<Rightarrow> ReceiverContext \<Rightarrow> ReceiverContext" where
  "set_role_tickers role tc c =
     (case role of Benchmark \<Rightarrow> c\<lparr>rx_benchmark_ticker_composite := tc\<rparr>
      | Follower \<Rightarrow> c\<lparr>rx_follower_ticker_composite := tc\<rparr>)"

definition store_beta_threshold ::
  "TickerRole \<Rightarrow> string \<Rightarrow> BetaThreshold \<Rightarrow> ReceiverContext \<Rightarrow> ReceiverContext result" where
  "store_beta_threshold role base_asset t c =
     (let c = (case role of
           Benchmark \<Rightarrow> c\<lparr>rx_benchmark_beta_threshold_composite :=
             bct_update base_asset t (rx_benchmark_beta_threshold_composite c)\<rparr>
         | Follower \<Rightarrow> c\<lparr>rx_follower_beta_threshold_composite :=
             bct_update base_asset t (rx_follower_beta_threshold_composite c)\<rparr>)
      in case map_of (rx_shm_threshold_mapping c) base_asset of
           None \<Rightarrow> Inr c
         | Some offset \<Rightarrow>
             (case role of
                Benchmark \<Rightarrow>
                  bind_result (beta_shm_writer_update (benchmark_beta_start (rx_shm_store_info c)) offset (beta_shm_of t))
                    (\<lambda>(_, seg). Inr (c\<lparr>rx_shm_store_info := (rx_shm_store_info c)\<lparr>benchmark_beta_start := seg\<rparr>\<rparr>))
              | Follower \<Rightarrow>
                  bind_result (beta_shm_writer_update (follower_beta_start (rx_shm_store_info c)) offset (beta_shm_of t))
                    (\<lambda>(_, seg). Inr (c\<lparr>rx_shm_store_info := (rx_shm_store_info c)\<lparr>follower_beta_start := seg\<rparr>\<rparr>))))"

definition process_beta_threshold_calculate ::
  "u64 \<Rightarrow> ReceiverConfig \<Rightarrow> string \<Rightarrow> ReceiverContext \<Rightarrow> ReceiverContext result" where
  "process_beta_threshold_calculate now config inst c =
     (let role = (if str_ends_with inst (rcfg_benchmark_quote_asset config) then Benchmark else Follower);
          base_asset = calc_base_asset config inst;
          inst_map = (case role of Benchmark \<Rightarrow> rx_benchmark_inst_config c | Follower \<Rightarrow> rx_follower_inst_config c);
          interval = rcfg_calculate_sma_interval_seconds config
      in case inst_map base_asset of
           None \<Rightarrow> Inr c
         | Some inst_config \<Rightarrow>
             let r = (case tc_get_min_max_result inst (role_tickers role c) of Some r \<Rightarrow> r | None \<Rightarrow> fresh_min_max);
                 require = (\<not> r_validity_min_max r \<or> r_ticker_length r < interval);
                 tickers = tc_copy_ticker_list_after inst (now - interval * 1000) (role_tickers role c)
             in if require \<and> (of_nat (length tickers) :: u64) < interval then Inr c
                else
                  let r = (if require then calculate_min_max tickers r else r);
                      c = (if require
                           then set_role_tickers role (tc_set_min_max_result inst r (role_tickers role c)) c else c)
                  in case beta_threshold_of now inst_config r of
                       None \<Rightarrow> Inr c
                     | Some t \<Rightarrow> store_beta_threshold role base_asset t c)"

section \<open>Price offsets\<close>

definition process_ticker_info_price_offset ::
  "u64 \<Rightarrow> bool \<Rightarrow> ReceiverConfig \<Rightarrow> UmTickerInfo \<Rightarrow> ReceiverContext \<Rightarrow> ReceiverContext" where
  "process_ticker_info_price_offset now enqueue_ok config ticker_info c =
     (let inst = inst_id ticker_info;
          bq = rcfg_benchmark_quote_asset config; fq = rcfg_follower_quote_asset config;
          c = (if str_ends_with inst bq then
                 let base_asset = strip_suffix inst bq
                 in case tc_get_lastest_ticker (base_asset @ fq) (rx_follower_ticker_composite c) of
                      None \<Rightarrow> c
                    | Some follower \<Rightarrow> c\<lparr>rx_price_offset_composite :=
                        pc_update_price_offset now base_asset ticker_info follower (rx_price_offset_composite c)\<rparr>
               else if str_ends_with inst fq then
                 let base_asset = strip_suffix inst fq
                 in case tc_get_lastest_ticker (base_asset @ bq) (rx_benchmark_ticker_composite c) of
                      None \<Rightarrow> c
                    | Some benchmark \<Rightarrow> c\<lparr>rx_price_offset_composite :=
                        pc_update_price_offset now base_asset benchmark ticker_info (rx_price_offset_composite c)\<rparr>
               else c)
      in if enqueue_ok
         then c\<lparr>rx_early_run_calculation_channel := rx_early_run_calculation_channel c @ [inst]\<rparr> else c)"

section \<open>Sorting and medians\<close>

definition le_d :: "double \<Rightarrow> double \<Rightarrow> bool" where
  "le_d x y \<longleftrightarrow> x \<le> y"

lemma insert_d_mset: "mset (insert_d x ys) = add_mset x (mset ys)"
  by (induction ys) auto

lemma sort_d_mset: "mset (sort_d xs) = mset xs"
  by (induction xs) (simp_all add: sort_d_def insert_d_mset)

lemma sort_d_length [simp]: "length (sort_d xs) = length xs"
  using sort_d_mset by (metis size_mset)

lemma sort_d_set [simp]: "set (sort_d xs) = set xs"
  using sort_d_mset by (metis set_mset_mset)

lemma insert_d_set: "set (insert_d x ys) = insert x (set ys)"
  by (induction ys) auto

lemma insert_d_sorted:
  assumes "sorted_wrt le_d ys" and "x \<noteq> NaN" and "\<forall>y \<in> set ys. y \<noteq> NaN"
  shows "sorted_wrt le_d (insert_d x ys)"
  using assms
proof (induction ys)
  case (Cons y ys)
  show ?case
  proof (cases "y < x")
    case True
    have "\<forall>z \<in> set (insert_d x ys). le_d y z"
      using Cons.prems True by (auto simp: insert_d_set le_d_def intro: d_less_imp_le)
    then show ?thesis using Cons True by simp
  next
    case False
    then have xy: "x \<le> y" using Cons.prems d_not_less[of y x] by simp
    then have "\<forall>z \<in> set (y # ys). le_d x z"
      using Cons.prems d_le_trans by (auto simp: le_d_def)
    then show ?thesis using Cons.prems False by simp
  qed
qed simp

lemma sort_d_sorted:
  assumes "\<forall>x \<in> set xs. x \<noteq> NaN"
  shows "sorted_wrt le_d (sort_d xs)"
  using assms
proof (induction xs)
  case (Cons x xs)
  have "\<forall>y \<in> set (sort_d xs). y \<noteq> NaN" using Cons.prems by simp
  then show ?case using Cons by (simp add: sort_d_def insert_d_sorted)
qed (simp add: sort_d_def)

lemma filter_length_mset: "mset xs = mset ys \<Longrightarrow> length (filter P xs) = length (filter P ys)"
  by (metis mset_filter size_mset)

lemma d_le_not_less: "x \<le> y \<Longrightarrow> \<not> y < x" for x y :: double
  by (cases x; cases y) auto

lemma sorted_filter_less:
  assumes "sorted_wrt le_d ys" and "k < length ys"
  shows "length (filter (\<lambda>y. y < ys ! k) ys) \<le> k"
    and "length (filter (\<lambda>y. ys ! k < y) ys) \<le> length ys - Suc k"
proof -
  have low: "\<forall>y \<in> set (drop k ys). \<not> y < ys ! k"
  proof
    fix y assume "y \<in> set (drop k ys)"
    then obtain j where "y = ys ! (k + j)" "k + j < length ys"
      by (auto simp: in_set_conv_nth)
    then show "\<not> y < ys ! k"
      using assms sorted_wrt_nth_less[OF assms(1), of k "k + j"] d_le_not_less
      by (cases "j = 0") (auto simp: le_d_def)
  qed
  have high: "\<forall>y \<in> set (take (Suc k) ys). \<not> ys ! k < y"
  proof
    fix y assume "y \<in> set (take (Suc k) ys)"
    then obtain j where "y = ys ! j" "j \<le> k" by (auto simp: in_set_conv_nth less_Suc_eq_le)
    then show "\<not> ys ! k < y"
      using assms sorted_wrt_nth_less[OF assms(1), of j k] d_le_not_less
      by (cases "j = k") (auto simp: le_d_def)
  qed
  have "filter (\<lambda>y. y < ys ! k) ys = filter (\<lambda>y. y < ys ! k) (take k ys)"
    using low by (subst append_take_drop_id[of k ys, symmetric]) (simp only: filter_append filter_empty_conv, simp)
  then show "length (filter (\<lambda>y. y < ys ! k) ys) \<le> k"
    using length_filter_le[of "\<lambda>y. y < ys ! k" "take k ys"] by simp
  have "filter (\<lambda>y. ys ! k < y) ys = filter (\<lambda>y. ys ! k < y) (drop (Suc k) ys)"
    using high by (subst append_take_drop_id[of "Suc k" ys, symmetric]) (simp only: filter_append filter_empty_conv, simp)
  then show "length (filter (\<lambda>y. ys ! k < y) ys) \<le> length ys - Suc k"
    using length_filter_le[of "\<lambda>y. ys ! k < y" "drop (Suc k) ys"] by simp
qed

lemma median_d_splits:
  assumes "xs \<noteq> []" and "\<forall>x \<in> set xs. x \<noteq> NaN"
  shows "median_d xs \<in> set xs
    \<and> length (filter (\<lambda>x. x < median_d xs) xs) \<le> length xs div 2
    \<and> length (filter (\<lambda>x. median_d xs < x) xs) \<le> (length xs - 1) div 2"
proof -
  let ?k = "length xs div 2" and ?ys = "sort_d xs"
  have k: "?k < length ?ys" using assms(1) by (cases xs) auto
  have s: "sorted_wrt le_d ?ys" by (rule sort_d_sorted[OF assms(2)])
  have f: "length (filter P xs) = length (filter P ?ys)" for P
    by (rule filter_length_mset) (simp add: sort_d_mset)
  have "median_d xs \<in> set xs" using nth_mem[OF k] by (simp add: median_d_def)
  moreover have "length xs - Suc ?k \<le> (length xs - 1) div 2" by linarith
  ultimately show ?thesis
    using sorted_filter_less[OF s k] by (simp add: median_d_def f)
qed

section \<open>Extremes computed by the calculator\<close>

definition normal_price :: "double \<Rightarrow> bool" where
  "normal_price p \<longleftrightarrow> dbl_min \<le> p \<and> p \<le> dbl_max"

definition normal_ticker :: "UmTickerInfo \<Rightarrow> bool" where
  "normal_ticker t \<longleftrightarrow> normal_price (bid_price t) \<and> normal_price (ask_price t) \<and> normal_price (avg_price t)"

definition lo_step :: "double \<Rightarrow> double \<Rightarrow> double" where
  "lo_step p lo = (if p < lo then p else lo)"

definition hi_step :: "double \<Rightarrow> double \<Rightarrow> double" where
  "hi_step p hi = (if hi < p then p else hi)"

lemma min_max_step_sel:
  "r_min_bid_price (min_max_step t r) = lo_step (bid_price t) (r_min_bid_price r)"
  "r_max_bid_price (min_max_step t r) = hi_step (bid_price t) (r_max_bid_price r)"
  "r_min_ask_price (min_max_step t r) = lo_step (ask_price t) (r_min_ask_price r)"
  "r_max_ask_price (min_max_step t r) = hi_step (ask_price t) (r_max_ask_price r)"
  "r_min_avg_price (min_max_step t r) = lo_step (avg_price t) (r_min_avg_price r)"
  "r_max_avg_price (min_max_step t r) = hi_step (avg_price t) (r_max_avg_price r)"
  by (simp_all add: min_max_step_def lo_step_def hi_step_def Let_def)

lemma min_max_fold_sel:
  "r_min_bid_price (fold min_max_step ts r) = fold lo_step (map bid_price ts) (r_min_bid_price r)"
  "r_max_bid_price (fold min_max_step ts r) = fold hi_step (map bid_price ts) (r_max_bid_price r)"
  "r_min_ask_price (fold min_max_step ts r) = fold lo_step (map ask_price ts) (r_min_ask_price r)"
  "r_max_ask_price (fold min_max_step ts r) = fold hi_step (map ask_price ts) (r_max_ask_price r)"
  "r_min_avg_price (fold min_max_step ts r) = fold lo_step (map avg_price ts) (r_min_avg_price r)"
  "r_max_avg_price (fold min_max_step ts r) = fold hi_step (map avg_price ts) (r_max_avg_price r)"
  by (induction ts arbitrary: r) (simp_all add: min_max_step_sel)

lemma dbl_limits:
  "dbl_min \<noteq> NaN" "dbl_max \<noteq> NaN" "Fin 0 < dbl_min"
  by (simp_all add: dbl_min_def dbl_max_def)

lemma normal_price_start:
  assumes "normal_price p"
  shows "lo_step p dbl_max = p" and "hi_step p dbl_min = p"
  using assms by (cases p; simp add: normal_price_def lo_step_def hi_step_def dbl_min_def dbl_max_def)+

lemma extremes_extend:
  assumes "window_extremes sel lo hi ts" and "\<forall>u \<in> set us. sel u \<noteq> NaN"
  shows "window_extremes sel (fold lo_step (map sel us) lo) (fold hi_step (map sel us) hi) (ts @ us)"
  using assms
proof (induction us arbitrary: lo hi ts)
  case (Cons u us)
  have "window_extremes sel (lo_step (sel u) lo) (hi_step (sel u) hi) (ts @ [u])"
    using window_extremes_push[OF Cons.prems(1), of u] Cons.prems(2) by (simp add: lo_step_def hi_step_def)
  from Cons.IH[OF this] Cons.prems(2) show ?case by simp
qed simp

lemma fold_extremes:
  assumes "ts \<noteq> []" and "\<forall>t \<in> set ts. normal_price (sel t)"
  shows "window_extremes sel (fold lo_step (map sel ts) dbl_max) (fold hi_step (map sel ts) dbl_min) ts"
proof (cases ts)
  case (Cons t us)
  have nn: "\<forall>u \<in> set us. sel u \<noteq> NaN" "sel t \<noteq> NaN"
    using assms(2) Cons d_le_notNaN by (auto simp: normal_price_def)
  have "window_extremes sel (sel t) (sel t) [t]" using nn(2) by (simp add: window_extremes_def d_le_refl)
  from extremes_extend[OF this nn(1)] show ?thesis
    using normal_price_start[of "sel t"] assms(2) Cons by simp
qed (use assms in simp)

definition min_max_exact :: "TickerMinMaxResult \<Rightarrow> UmTickerInfo list \<Rightarrow> bool" where
  "min_max_exact r ts \<longleftrightarrow> window_extremes bid_price (r_min_bid_price r) (r_max_bid_price r) ts
     \<and> window_extremes ask_price (r_min_ask_price r) (r_max_ask_price r) ts
     \<and> window_extremes avg_price (r_min_avg_price r) (r_max_avg_price r) ts"

lemma calculate_min_max_exact:
  assumes "ts \<noteq> []" and "\<forall>t \<in> set ts. normal_ticker t"
  shows "min_max_exact (calculate_min_max ts prev) ts"
proof -
  have "\<forall>t \<in> set ts. normal_price (bid_price t)" "\<forall>t \<in> set ts. normal_price (ask_price t)"
    "\<forall>t \<in> set ts. normal_price (avg_price t)"
    using assms(2) by (simp_all add: normal_ticker_def)
  from this[THEN fold_extremes[OF assms(1)]] show ?thesis
    by (simp add: min_max_exact_def calculate_min_max_def min_max_fold_sel fresh_min_max_def)
qed

lemma normal_price_finite: "normal_price p \<Longrightarrow> finite_d p \<and> Fin 0 < p"
  using d_less_le_trans[OF dbl_limits(3), of p]
  by (cases p) (auto simp: normal_price_def dbl_min_def dbl_max_def)

lemma volatility_nonneg:
  assumes "window_extremes sel lo hi ts" and "\<forall>t \<in> set ts. normal_price (sel t)"
  shows "Fin 0 \<le> price_volatility lo hi \<and> \<not> lo \<le> Fin 0"
proof -
  obtain t u where tu: "t \<in> set ts" "sel t = lo" "u \<in> set ts" "sel u = hi"
    using assms(1) by (auto simp: window_extremes_def)
  have n: "normal_price lo" "normal_price hi" using tu assms(2) by auto
  have le: "lo \<le> hi" using tu assms(1) by (auto simp: window_extremes_def)
  have fin: "finite_d lo" "finite_d hi" and pos: "Fin 0 < lo"
    using n normal_price_finite by blast+
  have "Fin 0 \<le> hi - lo" by (rule d_diff_nonneg[OF le fin(2,1)])
  then have "Fin 0 \<le> (hi - lo) / lo"
    using pos fin(1) by (intro d_nonneg_div) auto
  then show ?thesis using pos d_le_not_less[of lo "Fin 0"] by (auto simp: price_volatility_def)
qed

definition volatilities_nonneg :: "BetaThreshold \<Rightarrow> bool" where
  "volatilities_nonneg t \<longleftrightarrow> Fin 0 \<le> bid_volatility t \<and> Fin 0 \<le> ask_volatility t \<and> Fin 0 \<le> volatility t"

lemma beta_threshold_of_exact:
  assumes "min_max_exact r ts" and "\<forall>t \<in> set ts. normal_ticker t"
  shows "\<exists>th. beta_threshold_of now ic r = Some th \<and> volatilities_nonneg th \<and> bt_current_time_mills th = now"
proof -
  have "Fin 0 \<le> price_volatility (r_min_bid_price r) (r_max_bid_price r) \<and> \<not> r_min_bid_price r \<le> Fin 0"
    "Fin 0 \<le> price_volatility (r_min_ask_price r) (r_max_ask_price r) \<and> \<not> r_min_ask_price r \<le> Fin 0"
    "Fin 0 \<le> price_volatility (r_min_avg_price r) (r_max_avg_price r) \<and> \<not> r_min_avg_price r \<le> Fin 0"
    using assms by (auto simp: min_max_exact_def normal_ticker_def intro!: volatility_nonneg[of _ _ _ ts])
  then show ?thesis
    by (simp add: beta_threshold_of_def Let_def volatilities_nonneg_def new_BetaThreshold_def)
qed

lemma process_beta_benchmark:
  assumes "str_ends_with inst (rcfg_benchmark_quote_asset config)"
    and "rx_benchmark_inst_config c (calc_base_asset config inst) = Some ic"
    and "tc_wrapper_map (rx_benchmark_ticker_composite c) inst = Some w"
    and r: "r = tw_get_min_max_result w" and iv: "iv = rcfg_calculate_sma_interval_seconds config"
    and ts: "ts = tw_copy_ticker_list_after (now - iv * 1000) w"
    and req: "req = (\<not> r_validity_min_max r \<or> r_ticker_length r < iv)"
  shows "process_beta_threshold_calculate now config inst c =
    (if req \<and> (of_nat (length ts) :: u64) < iv then Inr c
     else let r' = (if req then calculate_min_max ts r else r);
              c1 = (if req then set_role_tickers Benchmark
                     (tc_set_min_max_result inst r' (rx_benchmark_ticker_composite c)) c else c)
          in case beta_threshold_of now ic r' of
               None \<Rightarrow> Inr c1 | Some t \<Rightarrow> store_beta_threshold Benchmark (calc_base_asset config inst) t c1)"
  using assms(1-3) unfolding r iv ts req
  by (cases "r_validity_min_max (tw_get_min_max_result w)";
      cases "r_ticker_length (tw_get_min_max_result w) < rcfg_calculate_sma_interval_seconds config")
    (simp_all add: process_beta_threshold_calculate_def role_tickers_def tc_get_min_max_result_def
      tc_copy_ticker_list_after_def Let_def)

lemma store_beta_benchmark:
  assumes "\<forall>i. map_of (rx_shm_threshold_mapping c) base = Some i \<longrightarrow>
      0 \<le> i \<and> i < int (length (benchmark_beta_start (rx_shm_store_info c)))"
  shows "\<exists>c'. store_beta_threshold Benchmark base t c = Inr c'
    \<and> bct_get_threshold (rx_benchmark_beta_threshold_composite c') base = Some t"
proof (cases "map_of (rx_shm_threshold_mapping c) base")
  case None
  then show ?thesis by (simp add: store_beta_threshold_def bct.look_put_same)
next
  case (Some i)
  let ?seg = "benchmark_beta_start (rx_shm_store_info c)"
  obtain r s' where "beta_slot_update (beta_shm_of t) (?seg ! nat i) = Inr (r, s')" using bt.upd_total by blast
  then have "beta_shm_writer_update ?seg i (beta_shm_of t) = Inr (r, ?seg[nat i := s'])"
    using assms Some by (simp add: beta_shm_writer_update_def seg_modify_ok)
  then show ?thesis using Some by (simp add: store_beta_threshold_def bct.look_put_same)
qed

text \<open>The extremes that an iteration uses are exact for some tickers of the window.\<close>

lemma used_extremes_exact:
  assumes "tw_inv w" and "\<forall>t \<in> set (tw_ticker_list w). normal_ticker t" and "0 < iv"
    and "ts = tw_copy_ticker_list_after n w" and "r = tw_get_min_max_result w"
    and "\<not> (req \<and> (of_nat (length ts) :: u64) < iv)" and "\<not> req \<Longrightarrow> r_validity_min_max r"
  shows "\<exists>us. min_max_exact (if req then calculate_min_max ts r else r) us \<and> (\<forall>t \<in> set us. normal_ticker t)"
proof (cases req)
  case True
  have "copy_self t = t" for t by (simp add: copy_self_def)
  then have sub: "\<forall>t \<in> set ts. normal_ticker t"
    using assms(2,4) by (auto simp: tw_copy_ticker_list_after_def)
  have "ts \<noteq> []" using True assms(3,6) by auto
  then show ?thesis using calculate_min_max_exact[OF _ sub, of r] sub True by (intro exI[of _ ts]) simp
next
  case False
  then show ?thesis
    using assms(1,2,5,7) by (intro exI[of _ "tw_ticker_list w"])
      (simp add: tw_inv_def min_max_exact_def tw_get_min_max_result_def)
qed

section \<open>Properties\<close>

text \<open>The early-run threshold in median mode is a median of the price differences: it is one of them, at
  most half of them lie below it, and fewer than half lie above it. It is published to the asset's
  threshold and to its shared-memory slot with the current time.\<close>

theorem early_run_median_splits:
  assumes "offsets \<noteq> []" and "\<forall>p \<in> set offsets. avg_price_diff p \<noteq> NaN"
    and "early_run_median_threshold now config offsets = Some t"
  shows "avg_price_diff_median t \<in> avg_price_diff ` set offsets
    \<and> length (filter (\<lambda>p. avg_price_diff p < avg_price_diff_median t) offsets) \<le> length offsets div 2
    \<and> length (filter (\<lambda>p. avg_price_diff_median t < avg_price_diff p) offsets) \<le> (length offsets - 1) div 2
    \<and> er_current_time_mills t = now"
proof -
  have t: "avg_price_diff_median t = median_d (map avg_price_diff offsets)" "er_current_time_mills t = now"
    using assms(3) by (auto simp: early_run_median_threshold_def split: if_splits)
  show ?thesis
    using median_d_splits[of "map avg_price_diff offsets"] assms(1,2) t
    by (auto simp: filter_map comp_def)
qed

theorem early_run_median_splits_witness:
  "\<exists>t. early_run_median_threshold 9 ((sample_receiver_config [] [])\<lparr>rcfg_calculate_sma_interval_seconds := 1\<rparr>)
      [price_offset_of 1 (sample_um_ticker 8 1) (sample_um_ticker 4 1)] = Some t
    \<and> er_current_time_mills t = 9"
proof -
  let ?p = "price_offset_of 1 (sample_um_ticker 8 1) (sample_um_ticker 4 1)"
  let ?cfg = "(sample_receiver_config [] [])\<lparr>rcfg_calculate_sma_interval_seconds := 1\<rparr>"
  obtain t where t: "early_run_median_threshold 9 ?cfg [?p] = Some t"
    by (simp add: early_run_median_threshold_def sample_receiver_config_def)
  have "\<forall>p \<in> set [?p]. avg_price_diff p \<noteq> NaN" by (simp add: sample_offset)
  from t early_run_median_splits[OF _ this t] show ?thesis by simp
qed

text \<open>The beta calculator publishes non-negative volatilities. For a benchmark instrument whose window has
  positive normal prices and exact extremes where they are marked valid, and whose slot lies in the segment, an
  iteration never fails; it either skips because the extremes have to be recomputed and the window has
  fewer tickers than the interval, or it stores for the asset a threshold with the current time and
  three volatilities that are at least zero.\<close>

theorem beta_volatility_nonneg:
  assumes "str_ends_with inst (rcfg_benchmark_quote_asset config)"
    and "rx_benchmark_inst_config c (calc_base_asset config inst) = Some ic"
    and "tc_wrapper_map (rx_benchmark_ticker_composite c) inst = Some w"
    and "tw_inv w" and "\<forall>t \<in> set (tw_ticker_list w). normal_ticker t"
    and "\<forall>i. map_of (rx_shm_threshold_mapping c) (calc_base_asset config inst) = Some i \<longrightarrow>
      0 \<le> i \<and> i < int (length (benchmark_beta_start (rx_shm_store_info c)))"
    and "0 < rcfg_calculate_sma_interval_seconds config"
  shows "\<exists>c'. process_beta_threshold_calculate now config inst c = Inr c'
    \<and> (c' = c \<or> (\<exists>th. bct_get_threshold (rx_benchmark_beta_threshold_composite c') (calc_base_asset config inst) = Some th
            \<and> volatilities_nonneg th \<and> bt_current_time_mills th = now))"
proof -
  let ?r = "tw_get_min_max_result w" and ?iv = "rcfg_calculate_sma_interval_seconds config"
  let ?ts = "tw_copy_ticker_list_after (now - ?iv * 1000) w"
  define req where "req = (\<not> r_validity_min_max ?r \<or> r_ticker_length ?r < ?iv)"
  note step = process_beta_benchmark[OF assms(1-3) refl refl refl req_def, of now]
  show ?thesis
  proof (cases "req \<and> (of_nat (length ?ts) :: u64) < ?iv")
    case True
    then show ?thesis using step by simp
  next
    case False
    let ?r' = "if req then calculate_min_max ?ts ?r else ?r"
    let ?c1 = "if req then set_role_tickers Benchmark
        (tc_set_min_max_result inst ?r' (rx_benchmark_ticker_composite c)) c else c"
    obtain th where th: "beta_threshold_of now ic ?r' = Some th" "volatilities_nonneg th"
      "bt_current_time_mills th = now"
      using used_extremes_exact[OF assms(4,5,7) refl refl False] beta_threshold_of_exact req_def by blast
    have "rx_shm_threshold_mapping ?c1 = rx_shm_threshold_mapping c" "rx_shm_store_info ?c1 = rx_shm_store_info c"
      by (simp_all add: set_role_tickers_def)
    then obtain c' where "store_beta_threshold Benchmark (calc_base_asset config inst) th ?c1 = Inr c'"
      "bct_get_threshold (rx_benchmark_beta_threshold_composite c') (calc_base_asset config inst) = Some th"
      using store_beta_benchmark[of ?c1 "calc_base_asset config inst" th] assms(6) by metis
    then show ?thesis using step False th by (simp add: Let_def)
  qed
qed

definition sample_inst_config :: InstConfigItem where
  "sample_inst_config = \<lparr>ic_asset = ''BTC'', ic_volatility_a = Fin 1, ic_volatility_b = Fin 1,
     ic_volatility_c = Fin 1, ic_beta = Fin 1, ic_min_ticker_notional = Fin 1,
     ic_min_ticker_notional_multiple = Fin 1, ic_order_size = Fin 1, ic_max_position = Fin 1,
     ic_position_adjust_step_ratio = Fin 1, ic_position_adjust_step_notional = Fin 1\<rparr>"

definition sample_window :: "UmTickerInfo list \<Rightarrow> ReceiverContext" where
  "sample_window ts = new_ReceiverContext
     \<lparr>rx_benchmark_inst_config := [''BTC'' \<mapsto> sample_inst_config],
      rx_benchmark_ticker_composite := \<lparr>tc_wrapper_map = [''BTCUSDT'' \<mapsto> new_TickerWrapper\<lparr>tw_ticker_list := ts\<rparr>],
        tc_ticker_remain_senconds = 1\<rparr>\<rparr>"

lemma sample_normal: "1 \<le> p \<Longrightarrow> p \<le> 1000 \<Longrightarrow> normal_ticker (sample_um_ticker p t)"
proof -
  assume p: "1 \<le> p" "p \<le> 1000"
  have a: "(1 / 2 ^ 1022 :: rat) \<le> 1" by simp
  have b: "(1001 :: rat) \<le> (2 ^ 53 - 1) * 2 ^ 971" by simp
  have "1 / 2 ^ 1022 \<le> p" "1 / 2 ^ 1022 \<le> p + 1" "p \<le> (2 ^ 53 - 1) * 2 ^ 971" "p + 1 \<le> (2 ^ 53 - 1) * 2 ^ 971"
    using p a b by linarith+
  then show ?thesis
    unfolding normal_ticker_def normal_price_def sample_um_ticker_def dbl_min_def dbl_max_def by simp
qed

theorem beta_volatility_nonneg_witness:
  "\<exists>c'. process_beta_threshold_calculate 1500 ((sample_receiver_config [] [])\<lparr>rcfg_calculate_sma_interval_seconds := 1\<rparr>)
     ''BTCUSDT'' (sample_window [sample_um_ticker 5 1000]) = Inr c'"
proof -
  let ?cfg = "(sample_receiver_config [] [])\<lparr>rcfg_calculate_sma_interval_seconds := 1\<rparr>"
  let ?c = "sample_window [sample_um_ticker 5 1000]"
  have q: "str_ends_with ''BTCUSDT'' (rcfg_benchmark_quote_asset ?cfg)"
    by (subst str_ends_with_iff, rule exI[of _ "''BTC''"]) (simp add: sample_receiver_config_def)
  then have b: "calc_base_asset ?cfg ''BTCUSDT'' = ''BTC''"
    by (simp add: calc_base_asset_def strip_suffix_def sample_receiver_config_def)
  let ?w = "new_TickerWrapper\<lparr>tw_ticker_list := [sample_um_ticker 5 1000]\<rparr>"
  have "rx_benchmark_inst_config ?c (calc_base_asset ?cfg ''BTCUSDT'') = Some sample_inst_config"
    "tc_wrapper_map (rx_benchmark_ticker_composite ?c) ''BTCUSDT'' = Some ?w" "tw_inv ?w"
    by (simp_all add: b sample_window_def tw_inv_def new_TickerWrapper_def tw_clear_min_max_def)
  moreover have "\<forall>t \<in> set (tw_ticker_list ?w). normal_ticker t" by (simp add: sample_normal)
  moreover have "\<forall>i. map_of (rx_shm_threshold_mapping ?c) (calc_base_asset ?cfg ''BTCUSDT'') = Some i \<longrightarrow>
      0 \<le> i \<and> i < int (length (benchmark_beta_start (rx_shm_store_info ?c)))"
    by (simp add: sample_window_def new_ReceiverContext_def)
  moreover have "0 < rcfg_calculate_sma_interval_seconds ?cfg" by simp
  ultimately show ?thesis using beta_volatility_nonneg[OF q, of ?c _ ?w 1500] by blast
qed

text \<open>The extremes that the calculator installs can be wrong: it copies the tickers, computes their extremes and
  installs them in three separate critical sections, so a ticker that arrives in between is not covered.
  The window then has extremes that are marked valid although the newest bid lies above the maximum.\<close>

theorem beta_min_max_race:
  "\<exists>tc inst now t w'.
     let r = calculate_min_max (tc_copy_ticker_list_after inst (now - 1000) tc) fresh_min_max;
         tc1 = tc_update_ticker now t tc;
         tc2 = tc_set_min_max_result inst r tc1
     in tc_wrapper_map tc2 inst = Some w' \<and> tw_validity_min_max w' \<and> t \<in> set (tw_ticker_list w')
        \<and> tw_max_bid_price w' < bid_price t \<and> \<not> tw_inv w'"
proof -
  let ?t0 = "sample_um_ticker 5 1000" and ?t1 = "sample_um_ticker 7 1500"
  let ?tc = "\<lparr>tc_wrapper_map = [''BTCUSDT'' \<mapsto> new_TickerWrapper\<lparr>tw_ticker_list := [?t0]\<rparr>],
        tc_ticker_remain_senconds = 1\<rparr>"
  have copy: "tc_copy_ticker_list_after ''BTCUSDT'' (1500 - 1000) ?tc = [?t0]"
    by (simp add: tc_copy_ticker_list_after_def tw_copy_ticker_list_after_def sample_um_ticker_def copy_self_def)
  let ?r = "calculate_min_max [?t0] fresh_min_max"
  have r: "r_max_bid_price ?r = Fin 5" "r_validity_min_max ?r"
    using normal_price_start(2)[of "Fin 5"] sample_normal[of 5 1000]
    by (simp_all add: calculate_min_max_def min_max_step_sel fresh_min_max_def sample_um_ticker_def normal_ticker_def)
  obtain w1 where w1: "tc_wrapper_map (tc_update_ticker 1500 ?t1 ?tc) ''BTCUSDT'' = Some w1"
    "tw_ticker_list w1 = [?t0, ?t1]"
    by (simp add: tc_update_ticker_def sample_um_ticker_def tw_update_list tw_expired_def)
  let ?w2 = "tw_set_min_max_result ?r w1"
  have "tw_validity_min_max ?w2" "tw_max_bid_price ?w2 = Fin 5" "tw_ticker_list ?w2 = [?t0, ?t1]"
    using r w1 by (simp_all add: tw_set_min_max_result_def)
  moreover from this have "tw_max_bid_price ?w2 < bid_price ?t1" "\<not> tw_inv ?w2"
    by (simp_all add: sample_um_ticker_def tw_inv_def window_extremes_def)
  moreover have "tc_wrapper_map (tc_set_min_max_result ''BTCUSDT'' ?r (tc_update_ticker 1500 ?t1 ?tc)) ''BTCUSDT'' = Some ?w2"
    using w1 by (simp add: tc_set_min_max_result_def)
  ultimately show ?thesis
    using copy by (intro exI[of _ ?tc] exI[of _ "''BTCUSDT''"] exI[of _ 1500] exI[of _ ?t1] exI[of _ ?w2])
      (simp add: Let_def)
qed

end
