(* ===== verification/ReceiverSubscribe.thy ===== *)
theory ReceiverSubscribe
  imports ReceiverCalc
begin

text \<open>
  \<open>src/src/receiver/ticker_subscribe.cpp\<close>: what the receiver does with one ticker message of the
  exchange's web socket, of the ZeroMQ feed and of the UDP feed. Parsing (JSON, protobuf) and the
  sockets are outside: an event is a parsed message. \<open>now\<close> is the clock of the window update, \<open>ok1\<close> and
  \<open>ok2\<close> tell whether the two queues accept an element.
\<close>

section \<open>Storing one ticker\<close>

text \<open>The common part: the window of the role, the slot of the instrument if it has one.\<close>

definition store_ticker ::
  "u64 \<Rightarrow> TickerRole \<Rightarrow> UmTickerInfo \<Rightarrow> TickerInfoShm \<Rightarrow> ReceiverContext \<Rightarrow> ReceiverContext result" where
  "store_ticker now role info info_shm c =
     (let c = set_role_tickers role (tc_update_ticker now info (role_tickers role c)) c;
          mapping = (case role of Benchmark \<Rightarrow> rx_shm_benchmark_ticker_mapping c
                     | Follower \<Rightarrow> rx_shm_follower_ticker_mapping c)
      in case map_of mapping (inst_id info) of
           None \<Rightarrow> Inr c
         | Some offset \<Rightarrow>
             (case role of
                Benchmark \<Rightarrow>
                  bind_result (ticker_shm_writer_update (benchmark_start (rx_shm_store_info c)) offset info_shm)
                    (\<lambda>(_, seg). Inr (c\<lparr>rx_shm_store_info := (rx_shm_store_info c)\<lparr>benchmark_start := seg\<rparr>\<rparr>))
              | Follower \<Rightarrow>
                  bind_result (ticker_shm_writer_update (follower_start (rx_shm_store_info c)) offset info_shm)
                    (\<lambda>(_, seg). Inr (c\<lparr>rx_shm_store_info := (rx_shm_store_info c)\<lparr>follower_start := seg\<rparr>\<rparr>))))"

definition enqueue_ticker :: "bool \<Rightarrow> bool \<Rightarrow> UmTickerInfo \<Rightarrow> ReceiverContext \<Rightarrow> ReceiverContext" where
  "enqueue_ticker ok1 ok2 info c =
     (let c = (if ok1 then c\<lparr>rx_ticker_info_channel := rx_ticker_info_channel c @ [info]\<rparr> else c)
      in if ok2 then c\<lparr>rx_beta_calculation_channel := rx_beta_calculation_channel c @ [inst_id info]\<rparr> else c)"

definition um_ticker_of :: "string \<Rightarrow> double \<Rightarrow> double \<Rightarrow> double \<Rightarrow> double \<Rightarrow> u64 \<Rightarrow> UmTickerInfo" where
  "um_ticker_of symbol bid bid_sz ask ask_sz ts =
     \<lparr>inst_id = symbol, bid_price = bid, bid_volume = bid_sz, ask_price = ask, ask_volume = ask_sz,
      avg_price = (bid + ask) / Fin 2, update_time_millis = ts, is_from_trade = False\<rparr>"

definition ticker_shm_of :: "UmTickerInfo \<Rightarrow> u64 \<Rightarrow> TickerInfoShm" where
  "ticker_shm_of info uid = zero_ticker\<lparr>tk_bid_price := bid_price info, tk_bid_size := bid_volume info,
     tk_ask_price := ask_price info, tk_ask_size := ask_volume info, tk_update_id := uid,
     tk_update_time := update_time_millis info\<rparr>"

section \<open>The three feeds\<close>

record BookTickerEvent =
  ev_symbol :: string
  ev_bestBid :: double
  ev_bidSize :: double
  ev_bestAsk :: double
  ev_askSize :: double
  ev_eventTime :: u64
  ev_updateId :: u64

text \<open>The web-socket messages of a role; they carry no update id that is used.\<close>

definition process_normal_ticker_message ::
  "u64 \<Rightarrow> bool \<Rightarrow> bool \<Rightarrow> TickerRole \<Rightarrow> BookTickerEvent \<Rightarrow> ReceiverContext \<Rightarrow> ReceiverContext result" where
  "process_normal_ticker_message now ok1 ok2 role event c =
     (let info = um_ticker_of (ev_symbol event) (ev_bestBid event) (ev_bidSize event) (ev_bestAsk event)
            (ev_askSize event) (ev_eventTime event)
      in bind_result (store_ticker now role info (ticker_shm_of info 0) c)
           (\<lambda>c. Inr (enqueue_ticker ok1 ok2 info c)))"

text \<open>A parsed message of the ZeroMQ or the UDP feed: unknown instruments are ignored, the role is the suffix.\<close>

definition process_feed_ticker ::
  "u64 \<Rightarrow> bool \<Rightarrow> bool \<Rightarrow> ReceiverConfig \<Rightarrow> BookTickerEvent \<Rightarrow> ReceiverContext \<Rightarrow> ReceiverContext result" where
  "process_feed_ticker now ok1 ok2 config event c =
     (if ev_symbol event \<notin> rx_inst_ids_set c then Inr c
      else
        let info = um_ticker_of (ev_symbol event) (ev_bestBid event) (ev_bidSize event) (ev_bestAsk event)
              (ev_askSize event) (ev_eventTime event);
            info_shm = ticker_shm_of info (ev_updateId event)
        in if str_ends_with (inst_id info) (rcfg_benchmark_quote_asset config)
           then bind_result (store_ticker now Benchmark info info_shm c) (\<lambda>c. Inr (enqueue_ticker ok1 ok2 info c))
           else if str_ends_with (inst_id info) (rcfg_follower_quote_asset config)
           then bind_result (store_ticker now Follower info info_shm c) (\<lambda>c. Inr (enqueue_ticker ok1 ok2 info c))
           else Inr c)"

text \<open>
  The UDP datagram is the index of a coin in the memory-mapped table; the ring of the coin's last 32
  tickers is indexed by the coin's update counter, with C's remainder. \<open>um_rows\<close> holds per coin the
  counter and the ring. Indices are used unchecked, so an index outside the table is \<open>OutOfBounds\<close>.
\<close>

record UDPMapData =
  um_rows :: "(int \<times> BookTickerEvent list) list"

definition c_rem :: "int \<Rightarrow> int \<Rightarrow> int" where
  "c_rem a b = (if 0 \<le> a then a mod b else - ((- a) mod b))"

definition udp_book_ticker :: "UDPMapData \<Rightarrow> int \<Rightarrow> BookTickerEvent result" where
  "udp_book_ticker g_data coin_idx =
     bind_result (seg_get (um_rows g_data) coin_idx) (\<lambda>(counter, ring). seg_get ring (c_rem counter 32))"

definition subscribe_process_udp_ticker ::
  "u64 \<Rightarrow> bool \<Rightarrow> bool \<Rightarrow> ReceiverConfig \<Rightarrow> UDPMapData \<Rightarrow> int \<Rightarrow> ReceiverContext \<Rightarrow> ReceiverContext result" where
  "subscribe_process_udp_ticker now ok1 ok2 config g_data coin_idx c =
     bind_result (udp_book_ticker g_data coin_idx) (\<lambda>event. process_feed_ticker now ok1 ok2 config event c)"

section \<open>Lemmas\<close>

lemma set_role_tickers_frame [simp]:
  "rx_shm_benchmark_ticker_mapping (set_role_tickers role tc c) = rx_shm_benchmark_ticker_mapping c"
  "rx_shm_follower_ticker_mapping (set_role_tickers role tc c) = rx_shm_follower_ticker_mapping c"
  "rx_shm_store_info (set_role_tickers role tc c) = rx_shm_store_info c"
  "role_tickers role (set_role_tickers role tc c) = tc"
  by (cases role; simp add: set_role_tickers_def role_tickers_def)+

lemma enqueue_ticker_frame [simp]:
  "rx_shm_store_info (enqueue_ticker ok1 ok2 info c) = rx_shm_store_info c"
  "role_tickers role (enqueue_ticker ok1 ok2 info c) = role_tickers role c"
  by (simp_all add: enqueue_ticker_def Let_def role_tickers_def split: TickerRole.splits)

text \<open>Every instrument of a mapping has a slot inside the segment of its role.\<close>

definition ticker_slots_ok :: "ReceiverContext \<Rightarrow> bool" where
  "ticker_slots_ok c \<longleftrightarrow>
     (\<forall>k i. map_of (rx_shm_benchmark_ticker_mapping c) k = Some i \<longrightarrow>
        0 \<le> i \<and> i < int (length (benchmark_start (rx_shm_store_info c))))
     \<and> (\<forall>k i. map_of (rx_shm_follower_ticker_mapping c) k = Some i \<longrightarrow>
        0 \<le> i \<and> i < int (length (follower_start (rx_shm_store_info c))))"

lemma ticker_writer_total:
  assumes "0 \<le> i" and "i < int (length seg)"
  shows "\<exists>r s'. ticker_slot_update v (seg ! nat i) = Inr (r, s')
    \<and> ticker_shm_writer_update seg i v = Inr (r, seg[nat i := s'])"
  using assms tk.upd_total[of v "seg ! nat i"]
  by (auto simp: ticker_shm_writer_update_def seg_modify_ok)

definition role_segment :: "TickerRole \<Rightarrow> ReceiverContext \<Rightarrow> TickerInfoShm list" where
  "role_segment role c =
     (case role of Benchmark \<Rightarrow> benchmark_start (rx_shm_store_info c)
      | Follower \<Rightarrow> follower_start (rx_shm_store_info c))"

definition role_mapping :: "TickerRole \<Rightarrow> ReceiverContext \<Rightarrow> (string \<times> int) list" where
  "role_mapping role c =
     (case role of Benchmark \<Rightarrow> rx_shm_benchmark_ticker_mapping c
      | Follower \<Rightarrow> rx_shm_follower_ticker_mapping c)"

lemma store_ticker_total:
  assumes "ticker_slots_ok c"
  shows "\<exists>c'. store_ticker now role info info_shm c = Inr c' \<and> ticker_slots_ok c'
    \<and> role_tickers role c' = tc_update_ticker now info (role_tickers role c)
    \<and> (\<forall>i. map_of (role_mapping role c) (inst_id info) = Some i \<longrightarrow>
        (\<exists>r s'. ticker_slot_update info_shm (role_segment role c ! nat i) = Inr (r, s')
          \<and> role_segment role c' = (role_segment role c)[nat i := s']))"
proof (cases "map_of (role_mapping role c) (inst_id info)")
  case None
  then show ?thesis
    using assms by (cases role)
      (simp_all add: store_ticker_def role_mapping_def Let_def ticker_slots_ok_def)
next
  case (Some i)
  then have i: "0 \<le> i" "i < int (length (role_segment role c))"
    using assms by (cases role; auto simp: ticker_slots_ok_def role_mapping_def role_segment_def)+
  obtain r s' where u: "ticker_slot_update info_shm (role_segment role c ! nat i) = Inr (r, s')"
    "ticker_shm_writer_update (role_segment role c) i info_shm = Inr (r, (role_segment role c)[nat i := s'])"
    using ticker_writer_total[OF i] by blast
  show ?thesis
    using Some u assms
    by (cases role) (auto simp: store_ticker_def role_mapping_def role_segment_def Let_def ticker_slots_ok_def
        role_tickers_def set_role_tickers_def)
qed

lemma um_ticker_of_inst [simp]: "inst_id (um_ticker_of s b bs a asz ts) = s"
  by (simp add: um_ticker_of_def)

section \<open>Properties\<close>

text \<open>A ticker of a known benchmark instrument reaches both consumers, whatever it contains: processing it
  never fails, its window is updated, and its shared-memory slot becomes exactly the slot updated with
  the ticker's prices, time and update id; all slots stay inside their segments, so this holds for any
  sequence of messages.\<close>

theorem feed_ticker_reaches_slot:
  assumes "ticker_slots_ok c" and "ev_symbol event \<in> rx_inst_ids_set c"
    and "str_ends_with (ev_symbol event) (rcfg_benchmark_quote_asset config)"
    and "map_of (rx_shm_benchmark_ticker_mapping c) (ev_symbol event) = Some i"
    and info: "info = um_ticker_of (ev_symbol event) (ev_bestBid event) (ev_bidSize event) (ev_bestAsk event)
      (ev_askSize event) (ev_eventTime event)"
  shows "\<exists>c' r s'. process_feed_ticker now ok1 ok2 config event c = Inr c' \<and> ticker_slots_ok c'
    \<and> rx_benchmark_ticker_composite c' = tc_update_ticker now info (rx_benchmark_ticker_composite c)
    \<and> ticker_slot_update (ticker_shm_of info (ev_updateId event)) (benchmark_start (rx_shm_store_info c) ! nat i) = Inr (r, s')
    \<and> benchmark_start (rx_shm_store_info c') = (benchmark_start (rx_shm_store_info c))[nat i := s']"
proof -
  let ?shm = "ticker_shm_of info (ev_updateId event)"
  obtain c' where st: "store_ticker now Benchmark info ?shm c = Inr c'" "ticker_slots_ok c'"
    "role_tickers Benchmark c' = tc_update_ticker now info (role_tickers Benchmark c)"
    "\<exists>r s'. ticker_slot_update ?shm (role_segment Benchmark c ! nat i) = Inr (r, s')
          \<and> role_segment Benchmark c' = (role_segment Benchmark c)[nat i := s']"
    using store_ticker_total[OF assms(1), of now Benchmark info ?shm] assms(4)
    by (auto simp: role_mapping_def info)
  let ?c = "enqueue_ticker ok1 ok2 info c'"
  have "ticker_slots_ok ?c" "rx_benchmark_ticker_composite ?c = rx_benchmark_ticker_composite c'"
    using st(2) by (simp_all add: ticker_slots_ok_def enqueue_ticker_def Let_def)
  moreover have "process_feed_ticker now ok1 ok2 config event c = Inr ?c"
    using assms(2,3) st(1) by (simp add: process_feed_ticker_def Let_def info)
  ultimately show ?thesis using st(3,4) by (auto simp: role_tickers_def role_segment_def)
qed

definition sample_event :: BookTickerEvent where
  "sample_event = \<lparr>ev_symbol = ''BTCUSDT'', ev_bestBid = Fin 2, ev_bidSize = Fin 1, ev_bestAsk = Fin 4,
     ev_askSize = Fin 1, ev_eventTime = 7, ev_updateId = 9\<rparr>"

definition sample_slots :: ReceiverContext where
  "sample_slots = new_ReceiverContext\<lparr>rx_inst_ids_set := {''BTCUSDT''},
     rx_shm_benchmark_ticker_mapping := [(''BTCUSDT'', 0)],
     rx_shm_store_info := \<lparr>early_run_start = [], benchmark_beta_start = [], follower_beta_start = [],
       benchmark_start = [zero_ticker], follower_start = []\<rparr>\<rparr>"

theorem feed_ticker_reaches_slot_witness:
  "\<exists>c'. process_feed_ticker 8 True True (sample_receiver_config [] []) sample_event sample_slots = Inr c'"
proof -
  have "ticker_slots_ok sample_slots" "ev_symbol sample_event \<in> rx_inst_ids_set sample_slots"
    "map_of (rx_shm_benchmark_ticker_mapping sample_slots) (ev_symbol sample_event) = Some 0"
    by (simp_all add: ticker_slots_ok_def sample_slots_def sample_event_def new_ReceiverContext_def)
  moreover have "str_ends_with (ev_symbol sample_event) (rcfg_benchmark_quote_asset (sample_receiver_config [] []))"
    by (subst str_ends_with_iff, rule exI[of _ "''BTC''"]) (simp add: sample_receiver_config_def sample_event_def)
  ultimately show ?thesis
    using feed_ticker_reaches_slot[OF _ _ _ _ refl, of sample_slots sample_event "sample_receiver_config [] []" 0]
    by blast
qed

end
