(* ===== verification/ReceiverProcess.thy ===== *)
theory ReceiverProcess
  imports ReceiverSubscribe
begin

text \<open>
  The threads of a receiver process together (\<open>src/src/bn_umtaker_receiver.cpp\<close>): a ticker of one of the feeds, or one iteration of one of the three
  calculator threads on an element of its queue. The lemmas follow the data through the process: the windows and queues hold tickers
  that were received, the price offsets are differences of received tickers, and the slots of the segments hold quotes and medians that come
  from received tickers.
\<close>

section \<open>Steps of the process\<close>

text \<open>A ticker that is received is the label of its step. A queue of several producers gives its elements in no particular order.\<close>

inductive receiver_step :: "ReceiverConfig \<Rightarrow> ReceiverContext \<Rightarrow> BookTickerEvent option \<Rightarrow> ReceiverContext \<Rightarrow> bool"
  for config :: ReceiverConfig where
  normal_ticker: "process_normal_ticker_message now ok1 ok2 role event c = Inr c' \<Longrightarrow> receiver_step config c (Some event) c'"
| feed_ticker: "process_feed_ticker now ok1 ok2 config event c = Inr c' \<Longrightarrow> receiver_step config c (Some event) c'"
| price_offset: "ticker \<in> set (rx_ticker_info_channel c)
    \<Longrightarrow> c' = process_ticker_info_price_offset now ok config ticker
          (c\<lparr>rx_ticker_info_channel := remove1 ticker (rx_ticker_info_channel c)\<rparr>)
    \<Longrightarrow> receiver_step config c None c'"
| early_run: "inst \<in> set (rx_early_run_calculation_channel c)
    \<Longrightarrow> process_early_run_threshold_calculate now config inst
          (c\<lparr>rx_early_run_calculation_channel := remove1 inst (rx_early_run_calculation_channel c)\<rparr>) = Inr c'
    \<Longrightarrow> receiver_step config c None c'"
| beta: "inst \<in> set (rx_beta_calculation_channel c)
    \<Longrightarrow> process_beta_threshold_calculate now config inst
          (c\<lparr>rx_beta_calculation_channel := remove1 inst (rx_beta_calculation_channel c)\<rparr>) = Inr c'
    \<Longrightarrow> receiver_step config c None c'"

section \<open>Where data comes from\<close>

definition ticker_of_event :: "BookTickerEvent \<Rightarrow> UmTickerInfo" where
  "ticker_of_event e = um_ticker_of (ev_symbol e) (ev_bestBid e) (ev_bidSize e) (ev_bestAsk e) (ev_askSize e) (ev_eventTime e)"

text \<open>One side of a quote: as the slot was created, or that of a received ticker whose price and size are positive.\<close>

definition bid_from :: "BookTickerEvent set \<Rightarrow> string \<Rightarrow> double \<Rightarrow> double \<Rightarrow> bool" where
  "bid_from evs inst price volume \<longleftrightarrow> (price = Fin 0 \<and> volume = Fin 0)
     \<or> (\<exists>e \<in> evs. ev_symbol e = inst \<and> ev_bestBid e = price \<and> ev_bidSize e = volume \<and> Fin 0 < price \<and> Fin 0 < volume)"

definition ask_from :: "BookTickerEvent set \<Rightarrow> string \<Rightarrow> double \<Rightarrow> double \<Rightarrow> bool" where
  "ask_from evs inst price volume \<longleftrightarrow> (price = Fin 0 \<and> volume = Fin 0)
     \<or> (\<exists>e \<in> evs. ev_symbol e = inst \<and> ev_bestAsk e = price \<and> ev_askSize e = volume \<and> Fin 0 < price \<and> Fin 0 < volume)"

text \<open>A published ticker slot: both sides, and the time, come from received tickers of the instrument.\<close>

definition quotes_from :: "BookTickerEvent set \<Rightarrow> string \<Rightarrow> TickerInfoShm \<Rightarrow> bool" where
  "quotes_from evs inst slot \<longleftrightarrow> bid_from evs inst (tk_bid_price slot) (tk_bid_size slot)
     \<and> ask_from evs inst (tk_ask_price slot) (tk_ask_size slot)
     \<and> (tk_version_number slot = 0 \<or> (\<exists>e \<in> evs. ev_symbol e = inst \<and> ev_eventTime e = tk_update_time slot))"

text \<open>A price offset of an asset is the difference of a received pair of tickers of its two instruments, and so are published medians.\<close>

definition spread_pairs :: "BookTickerEvent set \<Rightarrow> string \<Rightarrow> string \<Rightarrow> (double \<times> double) set" where
  "spread_pairs evs bi fi = {(ev_bestBid b - ev_bestAsk f, ev_bestAsk b - ev_bestBid f) |b f.
     b \<in> evs \<and> f \<in> evs \<and> ev_symbol b = bi \<and> ev_symbol f = fi}"

definition medians_from :: "BookTickerEvent set \<Rightarrow> string \<Rightarrow> string \<Rightarrow> EarlyRunThresholdShm \<Rightarrow> bool" where
  "medians_from evs bi fi slot \<longleftrightarrow> er_version_number slot = 0
     \<or> (er_bid_ask_median slot \<in> fst ` spread_pairs evs bi fi \<and> er_ask_bid_median slot \<in> snd ` spread_pairs evs bi fi)"

text \<open>The containers and queues of a receiver.\<close>

definition window_received :: "BookTickerEvent set \<Rightarrow> TickerComposite \<Rightarrow> bool" where
  "window_received evs tc \<longleftrightarrow> (\<forall>inst w. tc_wrapper_map tc inst = Some w
     \<longrightarrow> (\<forall>t \<in> set (tw_ticker_list w). inst_id t = inst \<and> t \<in> ticker_of_event ` evs))"

definition offsets_received :: "BookTickerEvent set \<Rightarrow> ReceiverConfig \<Rightarrow> PriceOffsetComposite \<Rightarrow> bool" where
  "offsets_received evs config pc \<longleftrightarrow> (\<forall>base w. pc_wrapper_map pc base = Some w
     \<longrightarrow> (\<forall>p \<in> set (offset_list w). (bid_ask_price_diff p, ask_bid_price_diff p)
            \<in> spread_pairs evs (base @ rcfg_benchmark_quote_asset config) (base @ rcfg_follower_quote_asset config)))"

definition receiver_holds :: "BookTickerEvent set \<Rightarrow> ReceiverConfig \<Rightarrow> ReceiverContext \<Rightarrow> bool" where
  "receiver_holds evs config c \<longleftrightarrow> window_received evs (rx_benchmark_ticker_composite c)
     \<and> window_received evs (rx_follower_ticker_composite c)
     \<and> set (rx_ticker_info_channel c) \<subseteq> ticker_of_event ` evs
     \<and> offsets_received evs config (rx_price_offset_composite c)"

text \<open>A segment whose slots belong to the keys of a mapping.\<close>

definition segment_all :: "(string \<Rightarrow> 's \<Rightarrow> bool) \<Rightarrow> (string \<times> int) list \<Rightarrow> 's list \<Rightarrow> bool" where
  "segment_all P m seg \<longleftrightarrow> (\<forall>k i s. map_of m k = Some i \<longrightarrow> seg_get seg i = Inr s \<longrightarrow> P k s)"

definition slots_injective :: "(string \<times> int) list \<Rightarrow> bool" where
  "slots_injective m \<longleftrightarrow> inj_on (map_of m) (dom (map_of m))"

lemma segment_all_update:
  assumes "segment_all P m seg" and "slots_injective m" and "map_of m k = Some i"
    and "seg_modify f seg i = Inr (r, seg')" and "\<And>s s'. P k s \<Longrightarrow> f s = Inr (r, s') \<Longrightarrow> P k s'"
  shows "segment_all P m seg'"
  unfolding segment_all_def
proof (intro allI impI)
  fix k' i' s assume k': "map_of m k' = Some i'" and g: "seg_get seg' i' = Inr s"
  obtain s0 s1 where s: "seg_get seg i = Inr s0" "f s0 = Inr (r, s1)" "seg_set seg i s1 = Inr seg'"
    using assms(4) by (auto simp: seg_modify_Inr_iff)
  show "P k' s"
  proof (cases "i' = i")
    case True
    then have "k' = k" using assms(2,3) k' by (auto simp: slots_injective_def inj_on_def dom_def)
    moreover have "s = s1" using g True seg_get_set_same[OF s(3)] by simp
    moreover have "P k s0" using assms(1,3) s(1) by (auto simp: segment_all_def)
    ultimately show ?thesis using assms(5) s(2) by blast
  next
    case False
    then have "seg_get seg i' = Inr s" using g seg_get_set_other[OF s(3), of i'] by auto
    then show ?thesis using assms(1) k' by (auto simp: segment_all_def)
  qed
qed

lemma segment_all_mono: "segment_all P m seg \<Longrightarrow> (\<And>k s. P k s \<Longrightarrow> Q k s) \<Longrightarrow> segment_all Q m seg"
  by (auto simp: segment_all_def)

section \<open>More received tickers\<close>

lemma spread_pairs_mono: "evs \<subseteq> evs' \<Longrightarrow> spread_pairs evs bi fi \<subseteq> spread_pairs evs' bi fi"
  by (auto simp: spread_pairs_def)

lemma quotes_from_mono: "quotes_from evs inst slot \<Longrightarrow> evs \<subseteq> evs' \<Longrightarrow> quotes_from evs' inst slot"
  unfolding quotes_from_def bid_from_def ask_from_def by blast

lemma medians_from_mono: "medians_from evs bi fi slot \<Longrightarrow> evs \<subseteq> evs' \<Longrightarrow> medians_from evs' bi fi slot"
  unfolding medians_from_def using spread_pairs_mono by blast

lemma receiver_holds_mono: "receiver_holds evs config c \<Longrightarrow> evs \<subseteq> evs' \<Longrightarrow> receiver_holds evs' config c"
  unfolding receiver_holds_def window_received_def offsets_received_def using spread_pairs_mono by blast

section \<open>Windows and offsets\<close>

lemma tc_update_ticker_tickers:
  assumes "tc_wrapper_map (tc_update_ticker now t tc) inst = Some w" and "x \<in> set (tw_ticker_list w)"
  shows "x = t \<and> inst = inst_id t \<or> (\<exists>w0. tc_wrapper_map tc inst = Some w0 \<and> x \<in> set (tw_ticker_list w0))"
proof (cases "tc_wrapper_map tc (inst_id t)")
  case None
  then show ?thesis
    using assms set_dropWhile_subset[of "tw_expired now (tc_ticker_remain_senconds tc)" "[t]"]
    by (cases "inst = inst_id t")
      (auto simp: tc_update_ticker_def map_insert_def tw_update_list new_TickerWrapper_def tw_clear_min_max_def split: if_splits)
next
  case (Some w0)
  then show ?thesis
    using assms set_dropWhile_subset[of "tw_expired now (tc_ticker_remain_senconds tc)" "tw_ticker_list w0 @ [t]"]
    by (cases "inst = inst_id t") (auto simp: tc_update_ticker_def tw_update_list dest!: set_dropWhileD)
qed

lemma window_received_update:
  assumes "window_received evs tc" and "t \<in> ticker_of_event ` evs"
  shows "window_received evs (tc_update_ticker now t tc)"
  using assms tc_update_ticker_tickers unfolding window_received_def by (metis (no_types, lifting))

lemma window_received_latest:
  assumes "window_received evs tc" and "tc_get_lastest_ticker inst tc = Some t"
  shows "inst_id t = inst \<and> t \<in> ticker_of_event ` evs"
  using assms by (auto simp: tc_get_lastest_ticker_def tw_get_lastest_ticker_def window_received_def split: option.splits if_splits)

lemma window_received_min_max: "window_received evs tc \<Longrightarrow> window_received evs (tc_set_min_max_result inst r tc)"
  by (auto simp: window_received_def tc_set_min_max_result_def tw_set_min_max_result_def split: option.splits if_splits)

lemma pc_update_offsets:
  assumes "pc_wrapper_map (pc_update_price_offset now base b f pc) base' = Some w" and "p \<in> set (offset_list w)"
  shows "p = price_offset_of now b f \<and> base' = base \<or> (\<exists>w0. pc_wrapper_map pc base' = Some w0 \<and> p \<in> set (offset_list w0))"
proof (cases "pc_wrapper_map pc base")
  case None
  then show ?thesis
    using assms by (cases "base' = base")
      (auto simp: pc_update_price_offset_def map_insert_def pw_update_list new_PriceOffsetWrapper_def split: if_splits)
next
  case (Some w0)
  then show ?thesis
    using assms by (cases "base' = base") (auto simp: pc_update_price_offset_def pw_update_list dest!: set_dropWhileD)
qed

lemma price_offset_of_events:
  assumes "b \<in> ticker_of_event ` evs" and "f \<in> ticker_of_event ` evs"
  shows "(bid_ask_price_diff (price_offset_of now b f), ask_bid_price_diff (price_offset_of now b f)) \<in> spread_pairs evs (inst_id b) (inst_id f)"
  using assms unfolding price_offset_of_def spread_pairs_def by (force simp: ticker_of_event_def um_ticker_of_def)

lemma offsets_received_update:
  assumes "offsets_received evs config pc" and "b \<in> ticker_of_event ` evs" and "f \<in> ticker_of_event ` evs"
    and "inst_id b = base @ rcfg_benchmark_quote_asset config" and "inst_id f = base @ rcfg_follower_quote_asset config"
  shows "offsets_received evs config (pc_update_price_offset now base b f pc)"
  unfolding offsets_received_def
proof (intro allI impI ballI)
  fix base' w p assume w: "pc_wrapper_map (pc_update_price_offset now base b f pc) base' = Some w" "p \<in> set (offset_list w)"
  from pc_update_offsets[OF this] consider "p = price_offset_of now b f" "base' = base"
    | w0 where "pc_wrapper_map pc base' = Some w0" "p \<in> set (offset_list w0)" by blast
  then show "(bid_ask_price_diff p, ask_bid_price_diff p)
      \<in> spread_pairs evs (base' @ rcfg_benchmark_quote_asset config) (base' @ rcfg_follower_quote_asset config)"
  proof cases
    case 1
    then show ?thesis using price_offset_of_events[OF assms(2,3), of now] assms(4,5) by simp
  next
    case 2
    then show ?thesis using assms(1) by (auto simp: offsets_received_def)
  qed
qed

section \<open>The slots\<close>

definition segments_from :: "BookTickerEvent set \<Rightarrow> string \<Rightarrow> string \<Rightarrow> bool \<Rightarrow> (string \<times> int) list \<Rightarrow> (string \<times> int) list
    \<Rightarrow> (string \<times> int) list \<Rightarrow> 'x ShmStoreInfo_scheme \<Rightarrow> bool" where
  "segments_from evs bq fq median bm fm tm shm \<longleftrightarrow> segment_all (quotes_from evs) bm (benchmark_start shm)
     \<and> segment_all (quotes_from evs) fm (follower_start shm)
     \<and> (median \<longrightarrow> segment_all (\<lambda>base. medians_from evs (base @ bq) (base @ fq)) tm (early_run_start shm))"

lemma segments_from_mono: "segments_from evs bq fq median bm fm tm shm \<Longrightarrow> evs \<subseteq> evs' \<Longrightarrow> segments_from evs' bq fq median bm fm tm shm"
  unfolding segments_from_def
  by (intro conjI impI; elim conjE) (blast intro: segment_all_mono quotes_from_mono medians_from_mono)+

definition receiver_maps :: "ReceiverContext \<Rightarrow> (string \<times> int) list \<times> (string \<times> int) list \<times> (string \<times> int) list" where
  "receiver_maps c = (rx_shm_benchmark_ticker_mapping c, rx_shm_follower_ticker_mapping c, rx_shm_threshold_mapping c)"

text \<open>What an update can do to a ticker slot.\<close>

lemma ticker_slot_update_eq:
  assumes "ticker_slot_update v slot = Inr (r, slot')"
  defines "b \<equiv> Fin 0 < tk_bid_price v \<and> Fin 0 < tk_bid_size v" and "a \<equiv> Fin 0 < tk_ask_price v \<and> Fin 0 < tk_ask_size v"
  shows "slot' = slot \<or> slot' = slot\<lparr>tk_bid_price := if b then tk_bid_price v else tk_bid_price slot,
    tk_bid_size := if b then tk_bid_size v else tk_bid_size slot,
    tk_ask_price := if a then tk_ask_price v else tk_ask_price slot,
    tk_ask_size := if a then tk_ask_size v else tk_ask_size slot,
    tk_update_id := tk_update_id v, tk_update_time := tk_update_time v, tk_version_number := tk_version_number slot + 1\<rparr>"
proof (cases "ticker_newer slot v")
  case True
  note u = assms(1)[unfolded ticker_slot_update_def Let_def, folded b_def a_def]
  show ?thesis using u True by (cases b; cases a) (simp_all only: if_True if_False sum.inject prod.inject, simp_all)
qed (use assms in \<open>simp add: ticker_slot_update_def\<close>)

lemma ticker_slot_update_sides:
  assumes "ticker_slot_update v slot = Inr (r, slot')"
  shows "tk_bid_price slot' = tk_bid_price slot \<and> tk_bid_size slot' = tk_bid_size slot
      \<or> tk_bid_price slot' = tk_bid_price v \<and> tk_bid_size slot' = tk_bid_size v \<and> Fin 0 < tk_bid_price v \<and> Fin 0 < tk_bid_size v"
    and "tk_ask_price slot' = tk_ask_price slot \<and> tk_ask_size slot' = tk_ask_size slot
      \<or> tk_ask_price slot' = tk_ask_price v \<and> tk_ask_size slot' = tk_ask_size v \<and> Fin 0 < tk_ask_price v \<and> Fin 0 < tk_ask_size v"
    and "slot' = slot \<or> tk_update_time slot' = tk_update_time v"
  using ticker_slot_update_eq[OF assms] by (elim disjE; simp)+

lemma quotes_from_update:
  assumes "quotes_from evs inst slot" and "ticker_slot_update (ticker_shm_of (ticker_of_event e) uid) slot = Inr (r, slot')"
    and "e \<in> evs" and "ev_symbol e = inst"
  shows "quotes_from evs inst slot'"
proof -
  let ?v = "ticker_shm_of (ticker_of_event e) uid"
  have v: "tk_bid_price ?v = ev_bestBid e" "tk_bid_size ?v = ev_bidSize e" "tk_ask_price ?v = ev_bestAsk e" "tk_ask_size ?v = ev_askSize e"
    "tk_update_time ?v = ev_eventTime e"
    by (simp_all add: ticker_shm_of_def ticker_of_event_def um_ticker_of_def)
  note u = ticker_slot_update_sides[OF assms(2), unfolded v]
  have old: "bid_from evs inst (tk_bid_price slot) (tk_bid_size slot)" "ask_from evs inst (tk_ask_price slot) (tk_ask_size slot)"
    "tk_version_number slot = 0 \<or> (\<exists>e \<in> evs. ev_symbol e = inst \<and> ev_eventTime e = tk_update_time slot)"
    using assms(1) by (simp_all add: quotes_from_def)
  have new: "bid_from evs inst (ev_bestBid e) (ev_bidSize e)" if "Fin 0 < ev_bestBid e" "Fin 0 < ev_bidSize e"
    using that assms(3,4) unfolding bid_from_def by blast
  have new': "ask_from evs inst (ev_bestAsk e) (ev_askSize e)" if "Fin 0 < ev_bestAsk e" "Fin 0 < ev_askSize e"
    using that assms(3,4) unfolding ask_from_def by blast
  have "bid_from evs inst (tk_bid_price slot') (tk_bid_size slot')"
    using u(1) by (elim disjE conjE) (simp_all only: old new)
  moreover have "ask_from evs inst (tk_ask_price slot') (tk_ask_size slot')"
    using u(2) by (elim disjE conjE) (simp_all only: old new')
  moreover have "tk_version_number slot' = 0 \<or> (\<exists>e \<in> evs. ev_symbol e = inst \<and> ev_eventTime e = tk_update_time slot')"
    using u(3) old(3) assms(3,4) by (elim disjE) (auto simp only:)
  ultimately show ?thesis by (simp add: quotes_from_def)
qed

lemma store_ticker_from:
  assumes "store_ticker now role (ticker_of_event e) (ticker_shm_of (ticker_of_event e) uid) c = Inr c'"
    and "receiver_holds evs config c" and "segments_from evs bq fq median bm fm tm (rx_shm_store_info c)"
    and "receiver_maps c = (bm, fm, tm)" and "slots_injective bm" and "slots_injective fm" and "e \<in> evs"
  shows "receiver_holds evs config c' \<and> segments_from evs bq fq median bm fm tm (rx_shm_store_info c') \<and> receiver_maps c' = (bm, fm, tm)"
proof -
  let ?t = "ticker_of_event e"
  let ?c = "set_role_tickers role (tc_update_ticker now ?t (role_tickers role c)) c"
  have t: "inst_id ?t = ev_symbol e" by (simp add: ticker_of_event_def)
  have h: "receiver_holds evs config ?c"
    using assms(2,7) by (cases role) (auto simp: receiver_holds_def set_role_tickers_def role_tickers_def intro: window_received_update)
  have m: "receiver_maps ?c = (bm, fm, tm)" using assms(4) by (cases role) (simp_all add: receiver_maps_def set_role_tickers_def)
  have up: "segment_all (quotes_from evs) m seg'"
    if "segment_all (quotes_from evs) m seg" "slots_injective m" "map_of m (ev_symbol e) = Some i"
      "ticker_shm_writer_update seg i (ticker_shm_of ?t uid) = Inr (r, seg')" for m seg seg' i r
    using segment_all_update[OF that(1,2,3) that(4)[unfolded ticker_shm_writer_update_def]] quotes_from_update assms(7) by blast
  show ?thesis
  proof (cases role)
    case Benchmark
    then show ?thesis
      using assms(1,3,4,5) h m up unfolding store_ticker_def Let_def
      by (auto simp: t bind_result_Inr_iff receiver_maps_def segments_from_def receiver_holds_def split: option.splits)
  next
    case Follower
    then show ?thesis
      using assms(1,3,4,6) h m up unfolding store_ticker_def Let_def
      by (auto simp: t bind_result_Inr_iff receiver_maps_def segments_from_def receiver_holds_def split: option.splits)
  qed
qed

lemma enqueue_ticker_from:
  assumes "receiver_holds evs config c" and "e \<in> evs"
  shows "receiver_holds evs config (enqueue_ticker ok1 ok2 (ticker_of_event e) c)"
  using assms by (auto simp: receiver_holds_def enqueue_ticker_def Let_def)

lemma enqueue_ticker_maps: "receiver_maps (enqueue_ticker ok1 ok2 t c) = receiver_maps c"
  by (simp add: receiver_maps_def enqueue_ticker_def Let_def)

text \<open>Both kinds of feed store the ticker of the event, if they store one.\<close>

lemma ticker_message_cases:
  assumes "process_normal_ticker_message now ok1 ok2 role event c = Inr c' \<or> process_feed_ticker now ok1 ok2 config event c = Inr c'"
  obtains "c' = c"
  | role uid c1 where "store_ticker now role (ticker_of_event event) (ticker_shm_of (ticker_of_event event) uid) c = Inr c1"
      "c' = enqueue_ticker ok1 ok2 (ticker_of_event event) c1"
  using assms
  by (auto simp: process_normal_ticker_message_def process_feed_ticker_def ticker_of_event_def bind_result_Inr_iff Let_def split: if_splits)

lemma median_d_mem: "xs \<noteq> [] \<Longrightarrow> median_d xs \<in> set xs"
  using nth_mem[of "length xs div 2" "sort_d xs"] by (cases xs) (auto simp: median_d_def)

lemma medians_from_offsets:
  assumes "offsets_received evs config pc" and "early_run_median_threshold now config (pc_get_price_offset_list base pc) = Some t"
    and "pc_get_price_offset_list base pc \<noteq> []"
    and "bq = rcfg_benchmark_quote_asset config" and "fq = rcfg_follower_quote_asset config"
  shows "bid_ask_price_diff_median t \<in> fst ` spread_pairs evs (base @ bq) (base @ fq)
    \<and> ask_bid_price_diff_median t \<in> snd ` spread_pairs evs (base @ bq) (base @ fq)"
proof -
  let ?ps = "pc_get_price_offset_list base pc" and ?S = "spread_pairs evs (base @ bq) (base @ fq)"
  have p: "(bid_ask_price_diff p, ask_bid_price_diff p) \<in> ?S" if "p \<in> set ?ps" for p
  proof -
    from that obtain w q where "pc_wrapper_map pc base = Some w" "q \<in> set (offset_list w)" "p = po_copy_self q"
      by (cases "pc_wrapper_map pc base") (auto simp: pc_get_price_offset_list_def pw_copy_price_offset_list_def)
    then show ?thesis using assms(1,4,5) by (simp add: offsets_received_def po_copy_self_def)
  qed
  have "bid_ask_price_diff_median t \<in> bid_ask_price_diff ` set ?ps" "ask_bid_price_diff_median t \<in> ask_bid_price_diff ` set ?ps"
    using assms(2,3) median_d_mem[of "map bid_ask_price_diff ?ps"] median_d_mem[of "map ask_bid_price_diff ?ps"]
    by (auto simp: early_run_median_threshold_def split: if_splits)
  then show ?thesis using p by force
qed

lemma early_run_from:
  assumes "process_early_run_threshold_calculate now config inst c = Inr c'"
    and "receiver_holds evs config c" and "segments_from evs bq fq median bm fm tm (rx_shm_store_info c)"
    and "receiver_maps c = (bm, fm, tm)" and "slots_injective tm"
    and "bq = rcfg_benchmark_quote_asset config" and "fq = rcfg_follower_quote_asset config"
    and "median \<longrightarrow> rcfg_early_run_calculation_type config = ''median''"
  shows "receiver_holds evs config c' \<and> segments_from evs bq fq median bm fm tm (rx_shm_store_info c') \<and> receiver_maps c' = (bm, fm, tm)"
proof -
  let ?base = "calc_base_asset config inst" and ?pc = "rx_price_offset_composite c"
  let ?median = "rcfg_early_run_calculation_type config = ''median''" and ?ps = "pc_get_price_offset_list ?base ?pc"
  let ?t = "if ?median then early_run_median_threshold now config ?ps
    else early_run_average_threshold now config (pc_get_price_avg_result ?base ?pc)"
  show ?thesis
  proof (cases ?t)
    case None
    then show ?thesis using assms(1-4) by (simp add: process_early_run_threshold_calculate_def Let_def)
  next
    case (Some t)
    let ?c = "c\<lparr>rx_early_run_threshold_composite := ert_update ?base t (rx_early_run_threshold_composite c)\<rparr>"
    let ?v = "zero_early_run\<lparr>er_avg_median := avg_price_diff_median t, er_bid_ask_median := bid_ask_price_diff_median t,
      er_ask_bid_median := ask_bid_price_diff_median t, er_time_mills := er_current_time_mills t\<rparr>"
    have ps: "?median \<longrightarrow> ?ps \<noteq> []" using assms(1) Some by (auto simp: process_early_run_threshold_calculate_def Let_def)
    have f: "medians_from evs (?base @ bq) (?base @ fq) s'" if "?median" "medians_from evs (?base @ bq) (?base @ fq) s"
        "early_run_slot_update ?v s = Inr (r, s')" for s s' r
    proof -
      have "offsets_received evs config ?pc" using assms(2) by (simp add: receiver_holds_def)
      from medians_from_offsets[OF this _ _ assms(6,7), of now ?base t] have
        m: "bid_ask_price_diff_median t \<in> fst ` spread_pairs evs (?base @ bq) (?base @ fq)"
          "ask_bid_price_diff_median t \<in> snd ` spread_pairs evs (?base @ bq) (?base @ fq)"
        using that(1) ps Some by simp_all
      have "s' = s \<or> er_bid_ask_median s' = bid_ask_price_diff_median t \<and> er_ask_bid_median s' = ask_bid_price_diff_median t"
        using that(3) by (cases "early_run_newer s ?v") (auto simp: early_run_slot_update_def)
      with that(2) m show ?thesis unfolding medians_from_def by metis
    qed
    have r: "c' = ?c \<or> (\<exists>i r seg. map_of tm ?base = Some i
        \<and> early_run_shm_writer_update (early_run_start (rx_shm_store_info c)) i ?v = Inr (r, seg)
        \<and> c' = ?c\<lparr>rx_shm_store_info := (rx_shm_store_info c)\<lparr>early_run_start := seg\<rparr>\<rparr>)"
      using assms(1,4) Some ps
      by (auto simp: process_early_run_threshold_calculate_def Let_def receiver_maps_def bind_result_Inr_iff split: option.splits)
    have up: "segment_all (\<lambda>base. medians_from evs (base @ bq) (base @ fq)) tm seg"
      if "?median" "segment_all (\<lambda>base. medians_from evs (base @ bq) (base @ fq)) tm (early_run_start (rx_shm_store_info c))"
        "map_of tm ?base = Some i" "early_run_shm_writer_update (early_run_start (rx_shm_store_info c)) i ?v = Inr (r, seg)" for i r seg
      using segment_all_update[OF that(2) assms(5) that(3) that(4)[unfolded early_run_shm_writer_update_def]] f[OF that(1)] by blast
    show ?thesis using r assms(2-4,8) up by (auto simp: receiver_holds_def segments_from_def receiver_maps_def)
  qed
qed

lemma beta_from:
  assumes "process_beta_threshold_calculate now config inst c = Inr c'"
    and "receiver_holds evs config c" and "segments_from evs bq fq median bm fm tm (rx_shm_store_info c)"
    and "receiver_maps c = (bm, fm, tm)"
  shows "receiver_holds evs config c' \<and> segments_from evs bq fq median bm fm tm (rx_shm_store_info c') \<and> receiver_maps c' = (bm, fm, tm)"
proof -
  let ?ok = "\<lambda>c'. receiver_holds evs config c' \<and> segments_from evs bq fq median bm fm tm (rx_shm_store_info c') \<and> receiver_maps c' = (bm, fm, tm)"
  have w: "?ok (set_role_tickers role (tc_set_min_max_result inst r (role_tickers role c)) c)" for role r
    using assms(2-4) by (cases role)
      (auto simp: receiver_holds_def set_role_tickers_def role_tickers_def receiver_maps_def intro: window_received_min_max)
  have s: "?ok c2" if "store_beta_threshold role base t c1 = Inr c2" "?ok c1" for role base t c1 c2
    using that by (cases role)
      (auto simp: store_beta_threshold_def Let_def bind_result_Inr_iff receiver_holds_def segments_from_def receiver_maps_def split: option.splits)
  show ?thesis
    using assms(1) w s assms(2-4) unfolding process_beta_threshold_calculate_def Let_def
    by (auto split: option.splits if_split_asm)
qed

lemma price_offset_from:
  assumes "receiver_holds evs config c" and "ticker \<in> ticker_of_event ` evs"
  shows "receiver_holds evs config (process_ticker_info_price_offset now ok config ticker c)
    \<and> rx_shm_store_info (process_ticker_info_price_offset now ok config ticker c) = rx_shm_store_info c
    \<and> receiver_maps (process_ticker_info_price_offset now ok config ticker c) = receiver_maps c"
proof -
  let ?bq = "rcfg_benchmark_quote_asset config" and ?fq = "rcfg_follower_quote_asset config" and ?inst = "inst_id ticker"
  have b: "offsets_received evs config (pc_update_price_offset now (strip_suffix ?inst ?bq) ticker f (rx_price_offset_composite c))"
    if "str_ends_with ?inst ?bq" "tc_get_lastest_ticker (strip_suffix ?inst ?bq @ ?fq) (rx_follower_ticker_composite c) = Some f" for f
    using assms that window_received_latest[of evs "rx_follower_ticker_composite c" _ f]
    by (intro offsets_received_update) (auto simp: receiver_holds_def str_ends_with_iff)
  have f: "offsets_received evs config (pc_update_price_offset now (strip_suffix ?inst ?fq) b ticker (rx_price_offset_composite c))"
    if "str_ends_with ?inst ?fq" "tc_get_lastest_ticker (strip_suffix ?inst ?fq @ ?bq) (rx_benchmark_ticker_composite c) = Some b" for b
    using assms that window_received_latest[of evs "rx_benchmark_ticker_composite c" _ b]
    by (intro offsets_received_update) (auto simp: receiver_holds_def str_ends_with_iff)
  show ?thesis
    using assms(1) b f unfolding process_ticker_info_price_offset_def Let_def
    by (auto simp: receiver_holds_def receiver_maps_def split: option.splits)
qed

section \<open>Every step keeps the origins\<close>

lemma receiver_step_from:
  assumes "receiver_step config c ev c'" and "receiver_holds evs config c"
    and "segments_from evs bq fq median bm fm tm (rx_shm_store_info c)" and "receiver_maps c = (bm, fm, tm)"
    and "slots_injective bm" "slots_injective fm" "slots_injective tm"
    and "bq = rcfg_benchmark_quote_asset config" "fq = rcfg_follower_quote_asset config"
    and "median \<longrightarrow> rcfg_early_run_calculation_type config = ''median''"
    and "evs' = evs \<union> set_option ev"
  shows "receiver_holds evs' config c' \<and> segments_from evs' bq fq median bm fm tm (rx_shm_store_info c') \<and> receiver_maps c' = (bm, fm, tm)"
proof -
  let ?ok = "\<lambda>c'. receiver_holds evs' config c' \<and> segments_from evs' bq fq median bm fm tm (rx_shm_store_info c') \<and> receiver_maps c' = (bm, fm, tm)"
  have c: "?ok c" using assms(2-4,11) receiver_holds_mono segments_from_mono by (metis Un_upper1)
  have ticker: "?ok c'" if "ev = Some event"
      "process_normal_ticker_message now ok1 ok2 role event c = Inr c' \<or> process_feed_ticker now ok1 ok2 config event c = Inr c'"
    for now ok1 ok2 role event
    using that(2)
  proof (cases rule: ticker_message_cases)
    case 1
    with c show ?thesis by simp
  next
    case (2 role' uid c1)
    have e: "event \<in> evs'" using assms(11) that(1) by simp
    from store_ticker_from[OF 2(1) _ _ _ assms(5,6) e] c have "?ok c1" by blast
    with 2(2) e show ?thesis
      by (simp add: enqueue_ticker_from enqueue_ticker_maps)
  qed
  from assms(1) show ?thesis
  proof cases
    case normal_ticker
    then show ?thesis using ticker by blast
  next
    case feed_ticker
    then show ?thesis using ticker by blast
  next
    case (price_offset ticker now ok)
    have "receiver_holds evs' config (c\<lparr>rx_ticker_info_channel := remove1 ticker (rx_ticker_info_channel c)\<rparr>)"
      "ticker \<in> ticker_of_event ` evs'"
      using c price_offset(2) set_remove1_subset[of ticker "rx_ticker_info_channel c"] by (auto simp: receiver_holds_def)
    from price_offset_from[OF this, of now ok] c show ?thesis unfolding price_offset(3) by (simp add: receiver_maps_def)
  next
    case (early_run inst now)
    let ?c = "c\<lparr>rx_early_run_calculation_channel := remove1 inst (rx_early_run_calculation_channel c)\<rparr>"
    have "?ok ?c" using c by (simp add: receiver_holds_def receiver_maps_def)
    then show ?thesis using early_run_from[OF early_run(3) _ _ _ assms(7,8,9,10)] by blast
  next
    case (beta inst now)
    let ?c = "c\<lparr>rx_beta_calculation_channel := remove1 inst (rx_beta_calculation_channel c)\<rparr>"
    have "?ok ?c" using c by (simp add: receiver_holds_def receiver_maps_def)
    then show ?thesis using beta_from[OF beta(3)] by blast
  qed
qed

text \<open>A receiver that has been initialised holds nothing, and a main receiver has created slots without quotes.\<close>

lemma fold_invariant: "P s \<Longrightarrow> (\<And>x s. P s \<Longrightarrow> P (f x s)) \<Longrightarrow> P (fold f xs s)"
  by (induction xs arbitrary: s) auto

lemma window_received_init: "window_received evs (tc_init q bases rs \<lparr>tc_wrapper_map = Map.empty, tc_ticker_remain_senconds = n\<rparr>)"
  unfolding tc_init_def
proof (rule fold_invariant)
  show "window_received evs (tc_init_wrapper (base @ q) tc)" if "window_received evs tc" for base tc
    using that by (cases "tc_wrapper_map tc (base @ q)")
      (auto simp: window_received_def tc_init_wrapper_def map_insert_def new_TickerWrapper_def tw_clear_min_max_def)
qed (simp add: window_received_def)

lemma offsets_received_init: "offsets_received evs config (pc_init bases rs \<lparr>pc_wrapper_map = Map.empty, pc_offset_remain_senconds = n\<rparr>)"
  unfolding pc_init_def
proof (rule fold_invariant)
  show "offsets_received evs config (pc_init_wrapper base pc)" if "offsets_received evs config pc" for base pc
    using that by (cases "pc_wrapper_map pc base")
      (auto simp: offsets_received_def pc_init_wrapper_def map_insert_def new_PriceOffsetWrapper_def)
qed (simp add: offsets_received_def)

lemma receiver_holds_init:
  assumes "rx_init bf ff att config new_ReceiverContext = Inr c"
  shows "receiver_holds evs config c"
  using assms window_received_init offsets_received_init
  by (auto simp: rx_init_def new_ReceiverContext_def Let_def rx_init_shm_mapping_def rx_init_shm_for_main_def
      rx_init_shm_for_secondary_def bind_result_Inr_iff receiver_holds_def split: if_splits)

lemma init_slots_all:
  assumes "init_slots f m seg = Inr seg'" and "\<forall>s \<in> set seg. P s"
    and "\<And>seg i k seg'. f seg i k = Inr seg' \<Longrightarrow> \<forall>s \<in> set seg. P s \<Longrightarrow> \<forall>s \<in> set seg'. P s"
  shows "\<forall>s \<in> set seg'. P s"
  using assms(1,2)
proof (induction m arbitrary: seg)
  case (Cons e m)
  obtain k i where e: "e = (k, i)" by fastforce
  from Cons.prems(1) obtain seg1 where s: "f seg i k = Inr seg1" "init_slots f m seg1 = Inr seg'" by (auto simp: e bind_result_Inr_iff)
  show ?case using Cons.IH[OF s(2) assms(3)[OF s(1) Cons.prems(2)]] .
qed simp

lemma init_threshold_slots_early_run:
  assumes "init_threshold_slots m (er, bb, fb) = Inr (er', bb', fb')"
  shows "init_slots early_run_shm_writer_init m er = Inr er'"
  using assms by (induction m arbitrary: er bb fb) (auto simp: bind_result_Inr_iff)

lemma seg_set_all: "seg_set seg i v = Inr seg' \<Longrightarrow> \<forall>s \<in> set seg. P s \<Longrightarrow> P v \<Longrightarrow> \<forall>s \<in> set seg'. P s"
  using set_update_subset_insert[of seg "nat i" v] by (auto simp: seg_set_Inr_iff)

lemma segment_all_set: "(\<And>s k. s \<in> set seg \<Longrightarrow> P k s) \<Longrightarrow> segment_all P m seg"
  by (auto simp: segment_all_def seg_get_Inr_iff)

lemma fresh_segments_from:
  assumes "rcfg_group_main_node config" and "rx_init bf ff att config new_ReceiverContext = Inr c"
  shows "segments_from evs bq fq median bm fm tm (rx_shm_store_info c)"
proof -
  let ?Q = "\<lambda>s. tk_bid_price s = Fin 0 \<and> tk_bid_size s = Fin 0 \<and> tk_ask_price s = Fin 0 \<and> tk_ask_size s = Fin 0 \<and> tk_version_number s = 0"
  obtain c0 where "rx_init_shm_for_main config c0 = Inr c" using rx_init_main[OF assms(1)] assms(2) by metis
  then obtain er bb fb bt ft n1 n2 where th: "init_threshold_slots (rx_shm_threshold_mapping c0)
        (replicate (length (rcfg_all_base_assets config)) zero_early_run, replicate (length (rcfg_all_base_assets config)) zero_beta,
         replicate (length (rcfg_all_base_assets config)) zero_beta) = Inr (er, bb, fb)"
      and bt: "init_slots ticker_shm_writer_init (rx_shm_benchmark_ticker_mapping c0) (replicate n1 zero_ticker) = Inr bt"
      and ft: "init_slots ticker_shm_writer_init (rx_shm_follower_ticker_mapping c0) (replicate n2 zero_ticker) = Inr ft"
      and c: "rx_shm_store_info c = \<lparr>early_run_start = er, benchmark_beta_start = bb, follower_beta_start = fb,
        benchmark_start = bt, follower_start = ft\<rparr>"
    by (auto simp: rx_init_shm_for_main_def Let_def bind_result_Inr_iff)
  have tk: "\<forall>s \<in> set seg'. ?Q s" if "init_slots ticker_shm_writer_init m (replicate n zero_ticker) = Inr seg'" for m n seg'
  proof (rule init_slots_all[OF that])
    show "\<forall>s \<in> set seg'. ?Q s" if "ticker_shm_writer_init seg i k = Inr seg'" "\<forall>s \<in> set seg. ?Q s" for seg i k seg'
      by (rule seg_set_all[OF that(1)[unfolded ticker_shm_writer_init_def] that(2)]) simp
  qed (simp add: zero_ticker_def)
  have "\<forall>s \<in> set er. er_version_number s = 0"
  proof (rule init_slots_all[OF init_threshold_slots_early_run[OF th]])
    show "\<forall>s \<in> set seg'. er_version_number s = 0"
      if "early_run_shm_writer_init seg i k = Inr seg'" "\<forall>s \<in> set seg. er_version_number s = 0" for seg i k seg'
    proof -
      from that(1) obtain a where "seg_set seg i \<lparr>er_asset = a, er_avg_median = Fin 0, er_bid_ask_median = Fin 0,
          er_ask_bid_median = Fin 0, er_time_mills = 0, er_version_number = 0\<rparr> = Inr seg'"
        by (auto simp: early_run_shm_writer_init_def bind_result_Inr_iff)
      from seg_set_all[OF this that(2)] show ?thesis by simp
    qed
  qed (simp add: zero_early_run_def)
  with tk[OF bt] tk[OF ft] show ?thesis
    unfolding segments_from_def c by (auto intro!: segment_all_set simp: quotes_from_def bid_from_def ask_from_def medians_from_def)
qed

end
