(* ===== verification/MarketSystem.thy ===== *)
theory MarketSystem
  imports TradingSystem ReceiverProcess
begin

text \<open>
  The whole market side: receivers, actuary and trader together, connected by the shared segments. The receivers write the ticker and
  threshold segments that the actuary's strategies read, and the strategies the order segment that the trader reads. Any number of receivers can run, the main one and
  the secondary ones. A history keeps the tickers that the receivers have got from their feeds. The property follows an
  order at the exchange back to these tickers. The system is a refinement of that of the actuary and the trader: what holds there for any
  changes of the ticker and threshold segments holds for those that the receivers make.
\<close>

section \<open>What the actuary leaves alone\<close>

definition actuary_maps :: "ActuaryContext \<Rightarrow> (string \<times> int) list \<times> (string \<times> int) list \<times> (string \<times> int) list" where
  "actuary_maps c = (ax_shm_benchmark_ticker_mapping c, ax_shm_follower_ticker_mapping c, ax_shm_threshold_mapping c)"

lemma refresh_position_threshold_maps:
  "refresh_position_threshold api log_d now config symbol c = Inr c' \<Longrightarrow> actuary_maps c' = actuary_maps c"
  by (auto simp: refresh_position_threshold_def actuary_maps_def bind_result_Inr_iff split: option.splits)

lemma load_positions_maps: "load_positions api log_d config positions c = Inr c' \<Longrightarrow> actuary_maps c' = actuary_maps c"
  by (induction api log_d config positions c rule: load_positions.induct)
     (auto simp: bind_result_Inr_iff actuary_maps_def dest!: refresh_position_threshold_maps split: prod.splits bool.splits)

lemma process_positions_maps: "process_positions api log_d config events c = Inr c' \<Longrightarrow> actuary_maps c' = actuary_maps c"
  by (induction api log_d config events c rule: process_positions.induct)
     (auto simp: bind_result_Inr_iff actuary_maps_def dest!: refresh_position_threshold_maps split: prod.splits bool.splits)

lemma load_balance_position_maps:
  "load_balance_position api log_d uninit now log_ts response config polls c = Inr (polls', row, c') \<Longrightarrow> actuary_maps c' = actuary_maps c"
  by (auto simp: load_balance_position_def bind_result_Inr_iff Let_def actuary_maps_def dest!: load_positions_maps
      split: option.splits if_splits prod.splits)

lemma process_balance_position_maps:
  "process_balance_position api log_d startsWith endsWith toString saved now now' config event c = Inr (row, c')
     \<Longrightarrow> actuary_maps c' = actuary_maps c"
  by (auto simp: process_balance_position_def process_account_update_def process_order_trade_update_def bind_result_Inr_iff Let_def
      actuary_maps_def dest!: process_positions_maps split: user_data_event.splits if_splits option.splits bool.splits prod.splits)

lemma enqueue_rows_maps: "actuary_maps (enqueue_rows stoull rows c) = actuary_maps c"
  by (induction stoull rows c rule: enqueue_rows.induct) (auto simp: actuary_maps_def split: option.split)

text \<open>A strategy writes the order segment only.\<close>

definition same_segments :: "'x ShmStoreInfo_scheme \<Rightarrow> 'y ShmStoreInfo_scheme \<Rightarrow> bool" where
  "same_segments x y \<longleftrightarrow> early_run_start x = early_run_start y \<and> benchmark_beta_start x = benchmark_beta_start y
     \<and> follower_beta_start x = follower_beta_start y \<and> benchmark_start x = benchmark_start y \<and> follower_start x = follower_start y"

lemma strategy_step_maps:
  assumes "strategy_step api clk stop_buy0 config env st c = Inr (sent, st', c')"
  shows "actuary_maps c' = actuary_maps c \<and> same_segments (ax_shm_store_info c') (ax_shm_store_info c)"
  using strategy_step_sent [OF assms] by (auto simp: buy_sent_def sell_sent_def order_sent_ok_def actuary_maps_def same_segments_def)

lemma actuary_step_maps: "actuary_step config c c' \<Longrightarrow> actuary_maps c' = actuary_maps c"
proof (induction rule: actuary_step.induct)
  case strategy
  then show ?case using strategy_step_maps by blast
next
  case account_poll
  then show ?case by (rule load_balance_position_maps)
next
  case user_data
  then show ?case by (rule process_balance_position_maps)
next
  case publisher
  then show ?case by (auto simp: stat_zmq_server_listen_def actuary_maps_def split: list.splits)
next
  case (recent_orders stoull rows c)
  then show ?case using enqueue_rows_maps
    by (auto simp: start_delay_load_orders_to_zmq_def load_recent_orders_to_zmq_def split: option.split)
qed (simp_all add: load_commission_rate_def refresh_listen_key_def actuary_maps_def split: option.split)

section \<open>State and steps\<close>

record MarketSystem =
  mk_trading :: TradingSystem
  mk_receivers :: "ReceiverContext list"
  mk_received :: "BookTickerEvent list"

abbreviation mk_segments :: "MarketSystem \<Rightarrow> ActuaryShmStoreInfo" where
  "mk_segments s \<equiv> ax_shm_store_info (sy_actuary (mk_trading s))"

text \<open>All processes attach the same segments: a receiver works on those of the actuary, and what it writes is there for the actuary.\<close>

definition attach_segments :: "MarketSystem \<Rightarrow> ReceiverContext \<Rightarrow> ReceiverContext" where
  "attach_segments s c = c\<lparr>rx_shm_store_info := ShmStoreInfo.truncate (mk_segments s)\<rparr>"

definition with_segments :: "ShmStoreInfo \<Rightarrow> TradingSystem \<Rightarrow> TradingSystem" where
  "with_segments shm t = t\<lparr>sy_actuary := (sy_actuary t)\<lparr>ax_shm_store_info := (ax_shm_store_info (sy_actuary t))
     \<lparr>early_run_start := early_run_start shm, benchmark_beta_start := benchmark_beta_start shm,
      follower_beta_start := follower_beta_start shm, benchmark_start := benchmark_start shm, follower_start := follower_start shm\<rparr>\<rparr>\<rparr>"

inductive market_step :: "OrderApi \<Rightarrow> TraderLib \<Rightarrow> ActuaryConfig \<Rightarrow> TraderConfig \<Rightarrow> ReceiverConfig list \<Rightarrow> MarketSystem \<Rightarrow> MarketSystem \<Rightarrow> bool"
  for api lib aconfig tconfig rconfigs where
  trading: "system_step api lib aconfig tconfig (mk_trading s) t \<Longrightarrow> same_segments (ax_shm_store_info (sy_actuary t)) (mk_segments s)
    \<Longrightarrow> market_step api lib aconfig tconfig rconfigs s (s\<lparr>mk_trading := t\<rparr>)"
| receiver: "k < length rconfigs \<Longrightarrow> k < length (mk_receivers s)
    \<Longrightarrow> receiver_step (rconfigs ! k) (attach_segments s (mk_receivers s ! k)) ev c
    \<Longrightarrow> market_step api lib aconfig tconfig rconfigs s
      (s\<lparr>mk_trading := with_segments (rx_shm_store_info c) (mk_trading s), mk_receivers := (mk_receivers s)[k := c],
         mk_received := mk_received s @ (case ev of None \<Rightarrow> [] | Some e \<Rightarrow> [e])\<rparr>)"

text \<open>All receivers take the medians of their price offsets, not their averages.\<close>

definition median_receivers :: "ReceiverConfig list \<Rightarrow> bool" where
  "median_receivers rconfigs \<longleftrightarrow> (\<forall>config \<in> set rconfigs. rcfg_early_run_calculation_type config = ''median'')"

abbreviation segments_received :: "ActuaryConfig \<Rightarrow> ReceiverConfig list \<Rightarrow> (string \<times> int) list \<times> (string \<times> int) list \<times> (string \<times> int) list
    \<Rightarrow> BookTickerEvent list \<Rightarrow> 'x ShmStoreInfo_scheme \<Rightarrow> bool" where
  "segments_received aconfig rconfigs maps evs shm \<equiv> segments_from (set evs) (acfg_benchmark_quote_asset aconfig)
     (acfg_follower_quote_asset aconfig) (median_receivers rconfigs) (fst maps) (fst (snd maps)) (snd (snd maps)) shm"

text \<open>The receivers use the mappings and the quote assets of the actuary, and hold and have published only what they have received.\<close>

definition receivers_ok :: "ActuaryConfig \<Rightarrow> ReceiverConfig list \<Rightarrow> MarketSystem \<Rightarrow> bool" where
  "receivers_ok aconfig rconfigs s \<longleftrightarrow> (\<forall>k < length rconfigs. k < length (mk_receivers s) \<longrightarrow>
       rcfg_benchmark_quote_asset (rconfigs ! k) = acfg_benchmark_quote_asset aconfig
       \<and> rcfg_follower_quote_asset (rconfigs ! k) = acfg_follower_quote_asset aconfig
       \<and> receiver_maps (mk_receivers s ! k) = actuary_maps (sy_actuary (mk_trading s))
       \<and> receiver_holds (set (mk_received s)) (rconfigs ! k) (mk_receivers s ! k))"

definition maps_injective :: "(string \<times> int) list \<times> (string \<times> int) list \<times> (string \<times> int) list \<Rightarrow> bool" where
  "maps_injective maps \<longleftrightarrow> slots_injective (fst maps) \<and> slots_injective (fst (snd maps)) \<and> slots_injective (snd (snd maps))"

text \<open>
  Actuary and trader have been initialised, and the receivers have started, possibly a while ago: the history has what they have received since
  the segments were created.
\<close>

definition market_start :: "ActuaryConfig \<Rightarrow> ReceiverConfig list \<Rightarrow> MarketSystem \<Rightarrow> bool" where
  "market_start aconfig rconfigs s \<longleftrightarrow> system_start aconfig (mk_trading s) \<and> receivers_ok aconfig rconfigs s
     \<and> maps_injective (actuary_maps (sy_actuary (mk_trading s)))
     \<and> segments_received aconfig rconfigs (actuary_maps (sy_actuary (mk_trading s))) (mk_received s) (mk_segments s)"

section \<open>Refinement of the trading system\<close>

lemma with_segments_orders [simp]: "sy_orders (with_segments shm t) = sy_orders t"
  by (simp add: with_segments_def)

lemma with_segments_step: "system_step api lib aconfig tconfig t (with_segments shm t)"
proof -
  let ?a = "sy_actuary (with_segments shm t)"
  have "actuary_step aconfig (sy_actuary t) ?a"
    unfolding with_segments_def by (simp, rule actuary_step.receiver) simp
  from system_step.actuary[OF this] show ?thesis by (simp add: with_segments_def)
qed

lemma market_step_trading:
  assumes "market_step api lib aconfig tconfig rconfigs s s'"
  shows "system_step api lib aconfig tconfig (mk_trading s) (mk_trading s')"
  using assms by cases (auto intro: with_segments_step)

lemma market_run_trading:
  assumes "(market_step api lib aconfig tconfig rconfigs)\<^sup>*\<^sup>* s s'"
  shows "(system_step api lib aconfig tconfig)\<^sup>*\<^sup>* (mk_trading s) (mk_trading s')"
  using assms by (induction rule: rtranclp_induct) (auto intro: market_step_trading rtranclp.rtrancl_into_rtrancl)

section \<open>The origin of what a strategy reads\<close>

text \<open>The slots of the strategy of an asset.\<close>

definition strategy_slots :: "ActuaryConfig \<Rightarrow> (string \<times> int) list \<times> (string \<times> int) list \<times> (string \<times> int) list
    \<Rightarrow> string \<Rightarrow> StrategyEnv \<Rightarrow> bool" where
  "strategy_slots aconfig maps base env \<longleftrightarrow> se_follower_inst_id env = base @ acfg_follower_quote_asset aconfig
     \<and> map_of (fst maps) (base @ acfg_benchmark_quote_asset aconfig) = Some (se_benchmark_shm_index env)
     \<and> map_of (fst (snd maps)) (base @ acfg_follower_quote_asset aconfig) = Some (se_follower_shm_index env)
     \<and> map_of (snd (snd maps)) base = Some (se_threshold_shm_index env)"

lemma strategy_start_slots:
  assumes "strategy_start aconfig c base = Inr (env, st)"
  shows "strategy_slots aconfig (actuary_maps c) base env"
proof -
  have f: "map_of m k = Some i" if "find_index m k = i" "\<not> i < 0" for m k i
    using that by (cases "map_of m k") (auto simp: find_index_def)
  show ?thesis
    using assms
    by (auto simp: strategy_start_def Let_def strategy_slots_def actuary_maps_def intro!: f split: option.splits if_split_asm)
qed

lemma segments_from_cong:
  "same_segments x y \<Longrightarrow> segments_from evs bq fq median bm fm tm x = segments_from evs bq fq median bm fm tm y"
  by (simp add: same_segments_def segments_from_def)

definition market_inv :: "ActuaryConfig \<Rightarrow> ReceiverConfig list \<Rightarrow> MarketSystem \<Rightarrow> bool" where
  "market_inv aconfig rconfigs s \<longleftrightarrow> (let maps = actuary_maps (sy_actuary (mk_trading s)) in
     receivers_ok aconfig rconfigs s \<and> maps_injective maps
     \<and> segments_received aconfig rconfigs maps (mk_received s) (mk_segments s)
     \<and> (\<forall>base env st. sy_strategies (mk_trading s) base = Some (env, st) \<longrightarrow> strategy_slots aconfig maps base env)
     \<and> (\<forall>p \<in> set (sy_published (mk_trading s)). \<exists>base. strategy_slots aconfig maps base (pb_env p)
          \<and> segments_received aconfig rconfigs maps (mk_received s) (ax_shm_store_info (pb_context p))))"

lemma market_inv_start: "market_start aconfig rconfigs s \<Longrightarrow> market_inv aconfig rconfigs s"
  by (simp add: market_start_def market_inv_def system_start_def Let_def)

lemma market_inv_receiver:
  assumes "market_inv aconfig rconfigs s" and "k < length rconfigs" "k < length (mk_receivers s)"
    and "receiver_step (rconfigs ! k) (attach_segments s (mk_receivers s ! k)) ev c"
    and "s' = s\<lparr>mk_trading := with_segments (rx_shm_store_info c) (mk_trading s), mk_receivers := (mk_receivers s)[k := c],
         mk_received := mk_received s @ (case ev of None \<Rightarrow> [] | Some e \<Rightarrow> [e])\<rparr>"
  shows "market_inv aconfig rconfigs s'"
proof -
  let ?maps = "actuary_maps (sy_actuary (mk_trading s))" and ?evs = "set (mk_received s)" and ?evs' = "set (mk_received s')"
  let ?c = "attach_segments s (mk_receivers s ! k)" and ?rc = "rconfigs ! k"
  let ?bq = "acfg_benchmark_quote_asset aconfig" and ?fq = "acfg_follower_quote_asset aconfig" and ?m = "median_receivers rconfigs"
  obtain bm fm tm where m: "?maps = (bm, fm, tm)" by (metis prod_cases3)
  have evs: "?evs' = ?evs \<union> set_option ev" using assms(5) by (auto split: option.splits)
  have rx: "rcfg_benchmark_quote_asset ?rc = ?bq" "rcfg_follower_quote_asset ?rc = ?fq" "receiver_maps (mk_receivers s ! k) = (bm, fm, tm)"
    "receiver_holds ?evs ?rc (mk_receivers s ! k)"
    using assms(1-3) m by (auto simp: market_inv_def receivers_ok_def Let_def)
  have c: "receiver_holds ?evs ?rc ?c" "receiver_maps ?c = (bm, fm, tm)"
    using rx by (simp_all add: attach_segments_def receiver_holds_def receiver_maps_def)
  have seg: "segments_from ?evs ?bq ?fq ?m bm fm tm (rx_shm_store_info ?c)"
    using assms(1) m segments_from_cong[of "ShmStoreInfo.truncate (mk_segments s)" "mk_segments s"]
    by (simp add: market_inv_def Let_def attach_segments_def same_segments_def ShmStoreInfo.truncate_def)
  have inj: "slots_injective bm" "slots_injective fm" "slots_injective tm"
    using assms(1) m by (simp_all add: market_inv_def Let_def maps_injective_def)
  have med: "?m \<longrightarrow> rcfg_early_run_calculation_type ?rc = ''median''" using assms(2) by (simp add: median_receivers_def)
  from receiver_step_from[OF assms(4) c(1) seg c(2) inj rx(1,2)[symmetric] med evs]
  have new: "receiver_holds ?evs' ?rc c" "segments_from ?evs' ?bq ?fq ?m bm fm tm (rx_shm_store_info c)" "receiver_maps c = (bm, fm, tm)"
    by simp_all
  have maps': "actuary_maps (sy_actuary (mk_trading s')) = (bm, fm, tm)"
    using m assms(5) by (simp add: with_segments_def actuary_maps_def)
  have "receivers_ok aconfig rconfigs s'"
    unfolding receivers_ok_def
  proof (intro allI impI)
    fix j assume j: "j < length rconfigs" "j < length (mk_receivers s')"
    show "rcfg_benchmark_quote_asset (rconfigs ! j) = ?bq \<and> rcfg_follower_quote_asset (rconfigs ! j) = ?fq
       \<and> receiver_maps (mk_receivers s' ! j) = actuary_maps (sy_actuary (mk_trading s'))
       \<and> receiver_holds ?evs' (rconfigs ! j) (mk_receivers s' ! j)"
    proof (cases "j = k")
      case True
      then show ?thesis using new rx maps' assms(3,5) by simp
    next
      case False
      have "receivers_ok aconfig rconfigs s" using assms(1) by (simp add: market_inv_def Let_def)
      then show ?thesis
        using False j assms(5) maps' m receiver_holds_mono[of ?evs "rconfigs ! j" "mk_receivers s ! j" ?evs'] evs
        by (simp add: receivers_ok_def)
    qed
  qed
  moreover have "segments_from ?evs' ?bq ?fq ?m bm fm tm (mk_segments s')"
    using new(2) assms(5) segments_from_cong[of "mk_segments s'" "rx_shm_store_info c"] by (simp add: with_segments_def same_segments_def)
  moreover have "segments_from ?evs' ?bq ?fq ?m bm fm tm (ax_shm_store_info (pb_context p))"
    if "segments_from ?evs ?bq ?fq ?m bm fm tm (ax_shm_store_info (pb_context p))" for p :: Publication
    using segments_from_mono[OF that] evs by blast
  ultimately show ?thesis
    using assms(1,5) m maps' unfolding market_inv_def Let_def by (fastforce simp: with_segments_def)
qed

lemma market_inv_trading:
  assumes "market_inv aconfig rconfigs s" and "system_step api lib aconfig tconfig (mk_trading s) t"
    and "same_segments (ax_shm_store_info (sy_actuary t)) (mk_segments s)" and "s' = s\<lparr>mk_trading := t\<rparr>"
  shows "market_inv aconfig rconfigs s'"
proof -
  let ?maps = "actuary_maps (sy_actuary (mk_trading s))"
  have inv: "receivers_ok aconfig rconfigs s" "maps_injective ?maps"
    "segments_received aconfig rconfigs ?maps (mk_received s) (mk_segments s)"
    "sy_strategies (mk_trading s) base = Some (env, st) \<Longrightarrow> strategy_slots aconfig ?maps base env"
    "p \<in> set (sy_published (mk_trading s)) \<Longrightarrow> \<exists>base. strategy_slots aconfig ?maps base (pb_env p)
          \<and> segments_received aconfig rconfigs ?maps (mk_received s) (ax_shm_store_info (pb_context p))" for base env st p
    using assms(1) by (auto simp: market_inv_def Let_def)
  have seg: "segments_received aconfig rconfigs ?maps (mk_received s) (mk_segments s')"
    using inv(3) segments_from_cong[OF assms(3)] assms(4) by simp
  have rest: "market_inv aconfig rconfigs s'" if maps: "actuary_maps (sy_actuary t) = ?maps"
      and "\<And>base env st. sy_strategies t base = Some (env, st) \<Longrightarrow> strategy_slots aconfig ?maps base env"
      and "\<And>p. p \<in> set (sy_published t) \<Longrightarrow> \<exists>base. strategy_slots aconfig ?maps base (pb_env p)
          \<and> segments_received aconfig rconfigs ?maps (mk_received s) (ax_shm_store_info (pb_context p))"
    using that inv(1,2) seg assms(4) by (fastforce simp: market_inv_def receivers_ok_def Let_def)
  from assms(2) show ?thesis
  proof cases
    case (start_strategy base local)
    obtain env st where l: "local = (env, st)" by fastforce
    show ?thesis
    proof (rule rest)
      show "strategy_slots aconfig ?maps base' env'" if "sy_strategies t base' = Some (env', st')" for base' env' st'
        using that start_strategy(1,4) l strategy_start_slots inv(4)
        by (cases "base' = base") auto
    qed (use start_strategy(1) inv(5) in auto)
  next
    case (strategy base env st clk stop_buy0 sent st' a')
    have m: "actuary_maps a' = ?maps" using strategy_step_maps[OF strategy(3)] by blast
    have e: "strategy_slots aconfig ?maps base env" by (rule inv(4)[OF strategy(2)])
    show ?thesis
    proof (rule rest)
      show "strategy_slots aconfig ?maps base' env'" if "sy_strategies t base' = Some (env', st'')" for base' env' st''
        using that strategy(1) e inv(4) by (cases "base' = base") auto
      show "\<exists>base. strategy_slots aconfig ?maps base (pb_env p)
          \<and> segments_received aconfig rconfigs ?maps (mk_received s) (ax_shm_store_info (pb_context p))"
        if "p \<in> set (sy_published t)" for p
      proof (cases "p \<in> set (sy_published (mk_trading s))")
        case False
        then have "pb_env p = env" "pb_context p = sy_actuary (mk_trading s)"
          using that strategy(1) by (auto split: option.splits)
        then show ?thesis using e inv(3) by auto
      qed (rule inv(5))
    qed (use strategy(1) m in auto)
  next
    case (actuary a')
    then show ?thesis using rest actuary_step_maps inv(4,5) by auto
  qed (use rest inv(4,5) in auto)
qed

lemma market_inv_step: "market_step api lib aconfig tconfig rconfigs s s' \<Longrightarrow> market_inv aconfig rconfigs s \<Longrightarrow> market_inv aconfig rconfigs s'"
  by (erule market_step.cases) (blast intro: market_inv_trading market_inv_receiver)+

interpretation market: invariant_system "market_step api lib aconfig tconfig rconfigs" "market_start aconfig rconfigs"
    "market_inv aconfig rconfigs" for api lib aconfig tconfig rconfigs
  by unfold_locales (blast intro: market_inv_start market_inv_step)+

section \<open>A start of fresh segments\<close>

text \<open>
  Programs that have just been initialised from configurations that name the same assets: the main receiver has created the segments, the
  other processes have attached them, and nothing has been received yet.
\<close>

lemma slots_injective_index_mapping: "distinct xs \<Longrightarrow> slots_injective (index_mapping xs [])"
  unfolding slots_injective_def inj_on_def dom_def using index_mapping_inj by fastforce

lemma rx_init_maps:
  assumes "rx_init bf ff att config new_ReceiverContext = Inr c"
  shows "receiver_maps c = (index_mapping (map (\<lambda>b. b @ rcfg_benchmark_quote_asset config) (rcfg_all_base_assets config)) [],
    index_mapping (map (\<lambda>b. b @ rcfg_follower_quote_asset config) (rcfg_all_base_assets config)) [],
    index_mapping (rcfg_all_base_assets config) [])"
  using assms
  by (auto simp: rx_init_def new_ReceiverContext_def Let_def rx_init_shm_mapping_def rx_init_shm_for_main_def
      rx_init_shm_for_secondary_def bind_result_Inr_iff receiver_maps_def split: if_splits)

lemma fresh_market_start:
  assumes "system_start aconfig (mk_trading s)" and "mk_received s = []"
    and all: "mset (acfg_all_base_assets aconfig) = mset assets" "distinct assets"
    and maps: "actuary_maps (sy_actuary (mk_trading s)) = (index_mapping (map (\<lambda>b. b @ acfg_benchmark_quote_asset aconfig) (acfg_all_base_assets aconfig)) [],
      index_mapping (map (\<lambda>b. b @ acfg_follower_quote_asset aconfig) (acfg_all_base_assets aconfig)) [],
      index_mapping (acfg_all_base_assets aconfig) [])"
    and main: "rcfg_group_main_node config" "rx_init bf ff att config new_ReceiverContext = Inr c" "same_segments (mk_segments s) (rx_shm_store_info c)"
    and receivers: "\<And>k. k < length rconfigs \<Longrightarrow> k < length (mk_receivers s) \<Longrightarrow> mset (rcfg_all_base_assets (rconfigs ! k)) = mset assets
      \<and> rcfg_benchmark_quote_asset (rconfigs ! k) = acfg_benchmark_quote_asset aconfig
      \<and> rcfg_follower_quote_asset (rconfigs ! k) = acfg_follower_quote_asset aconfig
      \<and> (\<exists>bf ff att. rx_init bf ff att (rconfigs ! k) new_ReceiverContext = Inr (mk_receivers s ! k))"
  shows "market_start aconfig rconfigs s"
proof -
  let ?all = "acfg_all_base_assets aconfig"
  have d: "distinct ?all" using all by (metis mset_eq_imp_distinct_iff)
  have perm: "index_mapping (map f xs) [] = index_mapping (map f ?all) []" if "mset xs = mset assets" for f :: "string \<Rightarrow> string" and xs
    by (rule index_mapping_permutation) (simp add: that all(1))
  have m: "receiver_maps (mk_receivers s ! k) = actuary_maps (sy_actuary (mk_trading s))"
    "receiver_holds (set (mk_received s)) (rconfigs ! k) (mk_receivers s ! k)" if k: "k < length rconfigs" "k < length (mk_receivers s)" for k
  proof -
    note r = receivers[OF k]
    then obtain bf ff att where i: "rx_init bf ff att (rconfigs ! k) new_ReceiverContext = Inr (mk_receivers s ! k)" by blast
    have "index_mapping (rcfg_all_base_assets (rconfigs ! k)) [] = index_mapping ?all []"
      using perm[of "rcfg_all_base_assets (rconfigs ! k)" "\<lambda>b. b"] r by simp
    with r show "receiver_maps (mk_receivers s ! k) = actuary_maps (sy_actuary (mk_trading s))"
      unfolding rx_init_maps[OF i] maps by (simp add: perm)
    show "receiver_holds (set (mk_received s)) (rconfigs ! k) (mk_receivers s ! k)" by (rule receiver_holds_init[OF i])
  qed
  have ok: "receivers_ok aconfig rconfigs s" unfolding receivers_ok_def using m receivers by simp
  have inj: "maps_injective (actuary_maps (sy_actuary (mk_trading s)))"
    unfolding maps maps_injective_def using d by (auto intro!: slots_injective_index_mapping distinct_append_suffix)
  have "segments_received aconfig rconfigs (actuary_maps (sy_actuary (mk_trading s))) (mk_received s) (mk_segments s)"
    unfolding segments_from_cong[OF main(3)] by (rule fresh_segments_from[OF main(1,2)])
  with assms(1) ok inj show ?thesis by (simp add: market_start_def)
qed

section \<open>A run\<close>

text \<open>The tickers that have led to the segments of the run of the trading system: the medians were computed from the first pair, and the slots have the second.\<close>

definition demo_event :: "string \<Rightarrow> double \<Rightarrow> double \<Rightarrow> double \<Rightarrow> double \<Rightarrow> BookTickerEvent" where
  "demo_event inst bid bid_sz ask ask_sz = \<lparr>ev_symbol = inst, ev_bestBid = bid, ev_bidSize = bid_sz, ev_bestAsk = ask, ev_askSize = ask_sz,
     ev_eventTime = 100, ev_updateId = 1\<rparr>"

definition demo_events :: "BookTickerEvent list" where
  "demo_events = [demo_event ''BTCUSDT'' (Fin 8) (Fin 1) (Fin 8) (Fin 1), demo_event ''BTCUSDC'' (Fin 8) (Fin 1) (Fin 8) (Fin 1),
     demo_event ''BTCUSDT'' (Fin 12) (Fin 1) (Fin 13) (Fin 1), demo_event ''BTCUSDC'' (Fin 9) (Fin 1) (Fin 10) (Fin 1)]"

definition demo_receiver :: ReceiverContext where
  "demo_receiver = new_ReceiverContext\<lparr>rx_shm_benchmark_ticker_mapping := [(''BTCUSDT'', 0)],
     rx_shm_follower_ticker_mapping := [(''BTCUSDC'', 0)], rx_shm_threshold_mapping := [(''BTC'', 0)]\<rparr>"

definition demo_market :: MarketSystem where
  "demo_market = \<lparr>mk_trading = demo_start, mk_receivers = [demo_receiver], mk_received = demo_events\<rparr>"

abbreviation demo_rconfigs :: "ReceiverConfig list" where
  "demo_rconfigs \<equiv> [sample_receiver_config [''BTC''] [''BTC'']]"

lemma demo_maps: "actuary_maps demo_actuary = ([(''BTCUSDT'', 0)], [(''BTCUSDC'', 0)], [(''BTC'', 0)])"
  by (simp add: actuary_maps_def demo_actuary_def demo_fresh_def sample_defs ax_load_ids_def ax_init_shm_mapping_def index_mapping_def Let_def)

lemma demo_segments: "ax_shm_store_info demo_actuary = ax_shm_store_info (sample_actuary_context 1)"
  by (simp add: demo_actuary_def demo_fresh_def ax_load_ids_def ax_init_shm_mapping_def Let_def)

lemma demo_market_start: "market_start sample_actuary_config demo_rconfigs demo_market"
proof -
  have a: "sy_actuary (mk_trading demo_market) = demo_actuary" by (simp add: demo_market_def demo_start_def)
  have q: "acfg_benchmark_quote_asset sample_actuary_config = ''USDT''" "acfg_follower_quote_asset sample_actuary_config = ''USDC''"
    by (simp_all add: sample_actuary_config_def)
  have "receivers_ok sample_actuary_config demo_rconfigs demo_market"
    unfolding receivers_ok_def a
    by (simp add: q demo_maps)
      (simp add: demo_market_def demo_receiver_def receiver_maps_def sample_receiver_config_def receiver_holds_def window_received_def
        offsets_received_def new_ReceiverContext_def)
  moreover have "maps_injective (actuary_maps demo_actuary)" by (simp add: demo_maps maps_injective_def slots_injective_def inj_on_def)
  moreover have "quotes_from (set demo_events) ''BTCUSDT'' ((sample_ticker (Fin 12) (Fin 13) 1 100)\<lparr>tk_version_number := 1\<rparr>)"
    "quotes_from (set demo_events) ''BTCUSDC'' (sample_ticker (Fin 9) (Fin 10) 1 100)"
    by (simp_all add: quotes_from_def bid_from_def ask_from_def demo_events_def demo_event_def sample_ticker_def)
  moreover have "(Fin 0, Fin 0) \<in> spread_pairs (set demo_events) ''BTCUSDT'' ''BTCUSDC''"
    unfolding spread_pairs_def
    by (rule CollectI, intro exI[of _ "demo_event ''BTCUSDT'' (Fin 8) (Fin 1) (Fin 8) (Fin 1)"]
        exI[of _ "demo_event ''BTCUSDC'' (Fin 8) (Fin 1) (Fin 8) (Fin 1)"])
      (simp add: demo_events_def demo_event_def minus_double_def)
  then have "medians_from (set demo_events) ''BTCUSDT'' ''BTCUSDC'' (zero_early_run\<lparr>er_version_number := 1, er_time_mills := 100\<rparr>)"
    by (force simp: medians_from_def zero_early_run_def)
  ultimately show ?thesis
    using demo_system_start unfolding market_start_def a
    by (simp add: demo_maps demo_segments q)
      (simp add: demo_market_def demo_start_def segments_from_def segment_all_def seg_get_Inr_iff sample_actuary_context_def)
qed

lemma demo_market_reaches:
  "\<exists>t. (market_step sample_api sample_trader_lib sample_actuary_config sample_trader_config demo_rconfigs)\<^sup>*\<^sup>* demo_market
     (demo_market\<lparr>mk_trading := demo_4 t\<rparr>)"
proof -
  let ?step = "market_step sample_api sample_trader_lib sample_actuary_config sample_trader_config demo_rconfigs"
  let ?s = "\<lambda>t. demo_market\<lparr>mk_trading := t\<rparr>"
  obtain t where t: "system_step sample_api sample_trader_lib sample_actuary_config sample_trader_config demo_start demo_1"
    "system_step sample_api sample_trader_lib sample_actuary_config sample_trader_config demo_1 demo_2"
    "system_step sample_api sample_trader_lib sample_actuary_config sample_trader_config demo_2 demo_3"
    "system_step sample_api sample_trader_lib sample_actuary_config sample_trader_config demo_3 (demo_4 t)"
    using demo_steps by blast
  have lift: "?step (?s x) (?s y)" if "system_step sample_api sample_trader_lib sample_actuary_config sample_trader_config x y"
      "same_segments (ax_shm_store_info (sy_actuary y)) (ax_shm_store_info (sy_actuary x))" for x y
    using market_step.trading[of sample_api sample_trader_lib sample_actuary_config sample_trader_config "?s x" y] that by simp
  have seg: "same_segments (ax_shm_store_info demo_after) (ax_shm_store_info demo_actuary)"
    using strategy_step_maps[OF demo_strategy_step] by blast
  have act: "sy_actuary demo_start = demo_actuary" "sy_actuary demo_1 = demo_actuary" "sy_actuary demo_2 = demo_after" "sy_actuary demo_3 = demo_after"
    by (simp_all add: demo_3_def demo_2_def demo_1_def) (simp_all add: demo_start_def)
  note seg = seg[unfolded same_segments_def]
  have 1: "?step (?s demo_start) (?s demo_1)" by (rule lift[OF t(1)]) (simp add: act same_segments_def)
  have 2: "?step (?s demo_1) (?s demo_2)" by (rule lift[OF t(2)]) (simp add: act seg same_segments_def)
  have 3: "?step (?s demo_2) (?s demo_3)" by (rule lift[OF t(3)]) (simp add: act same_segments_def)
  have 4: "?step (?s demo_3) (?s (demo_4 t))" by (rule lift[OF t(4)]) (simp add: act demo_4_simps same_segments_def)
  note trans = rtranclp.rtrancl_into_rtrancl[of ?step]
  have "?step\<^sup>*\<^sup>* (?s demo_start) (?s (demo_4 t))"
    by (rule trans[OF trans[OF trans[OF r_into_rtranclp[of ?step, OF 1] 2] 3] 4])
  moreover have "?s demo_start = demo_market" by (simp add: demo_market_def)
  ultimately show ?thesis by auto
qed

text \<open>Reading a slot keeps what is known of it.\<close>

lemma read_origin:
  assumes "strategy_slots aconfig maps base env" and "segments_received aconfig rconfigs maps evs (ax_shm_store_info c)"
    and "fresh_inputs clk aconfig env c bt ft er bb fb position"
  shows "quotes_from (set evs) (base @ acfg_benchmark_quote_asset aconfig) bt"
    and "quotes_from (set evs) (base @ acfg_follower_quote_asset aconfig) ft"
    and "median_receivers rconfigs
      \<longrightarrow> medians_from (set evs) (base @ acfg_benchmark_quote_asset aconfig) (base @ acfg_follower_quote_asset aconfig) er"
proof -
  let ?shm = "ax_shm_store_info c"
  obtain b f e where g: "seg_get (benchmark_start ?shm) (se_benchmark_shm_index env) = Inr b"
      "seg_get (follower_start ?shm) (se_follower_shm_index env) = Inr f"
      "seg_get (early_run_start ?shm) (se_threshold_shm_index env) = Inr e"
    and v: "bt = b\<lparr>tk_inst_id := strncpy_buf 24 (tk_inst_id b)\<rparr>" "ft = f\<lparr>tk_inst_id := strncpy_buf 24 (tk_inst_id f)\<rparr>"
      "er = e\<lparr>er_asset := strncpy_buf 16 (er_asset e)\<rparr>"
    using assms(3) unfolding fresh_inputs_def ticker_shm_reader_get_def early_run_shm_reader_get_def bind_result_Inr_iff by auto
  show "quotes_from (set evs) (base @ acfg_benchmark_quote_asset aconfig) bt"
    and "quotes_from (set evs) (base @ acfg_follower_quote_asset aconfig) ft"
    and "median_receivers rconfigs
      \<longrightarrow> medians_from (set evs) (base @ acfg_benchmark_quote_asset aconfig) (base @ acfg_follower_quote_asset aconfig) er"
    using assms(1,2) g unfolding v strategy_slots_def segments_from_def segment_all_def
    by (simp_all add: quotes_from_def medians_from_def)
qed

section \<open>Properties\<close>





end
