(* ===== verification/StatSystem.thy ===== *)
theory StatSystem
  imports Actuary StatDispatch
begin

text \<open>
  The statistics side: any number of actuaries, the sockets between them, and the evaluator. The actuaries put the trades that they see, and the
  rows of the last hour, into their channels; the publishers hand them to the socket library, which delivers a message any number of times or never; the evaluator's
  threads work as in the theory \<open>Evaluator\<close>. A history keeps what was put into the channels. The property follows an order of the evaluator, and a row of its
  table, back to these sources.
\<close>

section \<open>The system\<close>

text \<open>What the libraries do with the messages: the JSON writer and reader, \<open>strHelper\<close> and \<open>std::stoull\<close>.\<close>

record StatLib =
  sl_writeString :: "json_object \<Rightarrow> string"
  sl_removeNewlines :: "string \<Rightarrow> string"
  sl_parse :: "string \<Rightarrow> json_object"
  sl_str_to_dobule :: "json \<Rightarrow> double"
  sl_toString :: "double \<Rightarrow> string"
  sl_stoull :: "string \<Rightarrow> u64 option"

text \<open>On printable ASCII text the reader inverts the writer, also without the line breaks that the writer inserts, and the writer puts no zero bytes.\<close>

definition printable :: "string \<Rightarrow> bool" where
  "printable s = list_all (\<lambda>c. 32 \<le> (of_char c :: nat) \<and> (of_char c :: nat) < 127) s"

definition printable_lite :: "StatOrderLite \<Rightarrow> bool" where
  "printable_lite lite = list_all printable [so_accountFlag lite, so_symbol lite, so_orderSide lite, so_clientOrderId lite,
     so_averagePrice lite, so_filledSize lite, so_commissionRate lite]"

definition stat_lib_ok :: "StatLib \<Rightarrow> bool" where
  "stat_lib_ok lib \<longleftrightarrow> (\<forall>now_ms lite. printable_lite lite \<longrightarrow>
     sl_parse lib (sl_removeNewlines lib (sl_writeString lib (stat_message now_ms lite))) = stat_message now_ms lite
     \<and> CHR 0x00 \<notin> set (sl_writeString lib (stat_message now_ms lite)))"

text \<open>What is put into a channel: a trade event with the commission rate and the time of its message, or a row of the database.\<close>

datatype order_source = TradeEvent WsFuturesOrderTradeUpdateEvent double u64 | SavedRow "string list"

fun lite_of_source :: "StatLib \<Rightarrow> ActuaryConfig \<times> order_source \<Rightarrow> StatOrderLite option" where
  "lite_of_source lib (config, TradeEvent event rate ts) =
     Some \<lparr>so_accountFlag = account_flag config, so_symbol = oe_symbol event, so_orderSide = oe_side event,
       so_clientOrderId = oe_clientOrderId event,
       so_averagePrice = sl_toString lib (if oe_filledVolume event > Fin 0 then oe_averagePrice event else oe_price event),
       so_filledSize = sl_toString lib (oe_filledVolume event), so_commissionRate = sl_toString lib rate, so_systemTimestamp = ts\<rparr>"
| "lite_of_source lib (config, SavedRow row) = lite_of_row (sl_stoull lib) row"

record StatSystem =
  st_actuaries :: "ActuaryContext list"
  st_wire :: "string list"
  st_evaluator :: EvaluatorState
  st_sources :: "(ActuaryConfig \<times> order_source) list"

text \<open>A step of the evaluator that is not the reception of an order changes its tickers, its clock or the poller's place, or nothing.\<close>

definition own_step :: "EvaluatorState \<Rightarrow> EvaluatorState \<Rightarrow> bool" where
  "own_step e e' \<longleftrightarrow> ex_futures_ticker_composite e' \<noteq> ex_futures_ticker_composite e \<or> es_clock e' \<noteq> es_clock e \<or> es_poller e' \<noteq> es_poller e"

inductive stat_step :: "StatLib \<Rightarrow> (string \<Rightarrow> string \<Rightarrow> bool) \<Rightarrow> (string \<Rightarrow> string \<Rightarrow> bool) \<Rightarrow> string \<Rightarrow> ActuaryConfig list
    \<Rightarrow> StatSystem \<Rightarrow> StatSystem \<Rightarrow> bool" for lib startsWith endsWith BUY configs where
  actuary: "k < length configs \<Longrightarrow> k < length (st_actuaries s) \<Longrightarrow> actuary_step (configs ! k) (st_actuaries s ! k) c
     \<Longrightarrow> ax_stat_order_channel c = ax_stat_order_channel (st_actuaries s ! k)
     \<Longrightarrow> stat_step lib startsWith endsWith BUY configs s (s\<lparr>st_actuaries := (st_actuaries s)[k := c]\<rparr>)"
| trade: "k < length configs \<Longrightarrow> k < length (st_actuaries s)
     \<Longrightarrow> process_balance_position bapi log_d startsWith endsWith (sl_toString lib) saved now now' (configs ! k) (OrderTradeUpdate event) (st_actuaries s ! k)
       = Inr (Some row, c)
     \<Longrightarrow> list_all printable_lite (ax_stat_order_channel c)
     \<Longrightarrow> stat_step lib startsWith endsWith BUY configs s (s\<lparr>st_actuaries := (st_actuaries s)[k := c],
          st_sources := st_sources s @ [(configs ! k, TradeEvent event (or_commission_rate row) now')]\<rparr>)"
| recent_orders: "k < length configs \<Longrightarrow> k < length (st_actuaries s) \<Longrightarrow> dt_group_main_node (configs ! k)
     \<Longrightarrow> acfg_enable_load_order_to_zmq (configs ! k)
     \<Longrightarrow> c = start_delay_load_orders_to_zmq (sl_stoull lib) rows (configs ! k) (st_actuaries s ! k)
     \<Longrightarrow> list_all printable_lite (ax_stat_order_channel c)
     \<Longrightarrow> stat_step lib startsWith endsWith BUY configs s (s\<lparr>st_actuaries := (st_actuaries s)[k := c],
          st_sources := st_sources s @ map (\<lambda>row. (configs ! k, SavedRow row)) (case rows of None \<Rightarrow> [] | Some rows \<Rightarrow> rows)\<rparr>)"
| publish: "k < length (st_actuaries s) \<Longrightarrow> stat_zmq_server_listen (sl_writeString lib) now_ms (st_actuaries s ! k) = Some (payload, c)
     \<Longrightarrow> stat_step lib startsWith endsWith BUY configs s (s\<lparr>st_actuaries := (st_actuaries s)[k := c],
          st_wire := st_wire s @ (if sent then [payload] else [])\<rparr>)"
| receive: "payload \<in> set (st_wire s)
     \<Longrightarrow> subscribe_process_order_stat_zmq (sl_removeNewlines lib) (sl_parse lib) (sl_str_to_dobule lib) payload
          (EvaluatorContext.truncate (st_evaluator s)) = Inr ec
     \<Longrightarrow> stat_step lib startsWith endsWith BUY configs s
          (s\<lparr>st_evaluator := (st_evaluator s)\<lparr>ex_stat_order_composite := ex_stat_order_composite ec\<rparr>\<rparr>)"
| evaluator: "estep BUY (st_evaluator s) e \<Longrightarrow> own_step (st_evaluator s) e
     \<Longrightarrow> stat_step lib startsWith endsWith BUY configs s (s\<lparr>st_evaluator := e\<rparr>)"

text \<open>At the start the channels are empty, and the evaluator has loaded nothing.\<close>

definition stat_start :: "ActuaryContext list \<Rightarrow> u64 \<Rightarrow> StatSystem" where
  "stat_start actuaries clock = \<lparr>st_actuaries = map (\<lambda>c. c\<lparr>ax_stat_order_channel := []\<rparr>) actuaries, st_wire = [],
     st_evaluator = evaluator_start (\<lambda>_. None) (\<lambda>_. None) [] Map.empty clock, st_sources = []\<rparr>"

section \<open>Where statistics come from\<close>

definition received_from :: "StatLib \<Rightarrow> (ActuaryConfig \<times> order_source) list \<Rightarrow> EvaluatorOrderLite set" where
  "received_from lib sources = {received_lite (sl_str_to_dobule lib) lite | lite src. src \<in> set sources \<and> lite_of_source lib src = Some lite}"

text \<open>The head of an order is that of a message with its id, the price and the size are those of one message with this id. The row of an order can
  have them from different messages.\<close>

definition head_from :: "EvaluatorOrderLite set \<Rightarrow> StatOrderFullInfo \<Rightarrow> bool" where
  "head_from L info \<longleftrightarrow> (\<exists>l\<in>L. fi_client_order_id info = el_clientOrderId l \<and> fi_account_flag info = el_accountFlag l
     \<and> fi_symbol info = el_symbol l \<and> fi_order_side info = el_orderSide l \<and> fi_system_timestamp info = el_systemTimestamp l
     \<and> fi_commission_rate info = el_commissionRate l)"

definition info_from :: "EvaluatorOrderLite set \<Rightarrow> StatOrderFullInfo \<Rightarrow> bool" where
  "info_from L info \<longleftrightarrow> head_from L info
     \<and> (\<exists>l\<in>L. el_clientOrderId l = fi_client_order_id info \<and> fi_average_price info = el_averagePrice l \<and> fi_filled_size info = el_filledSize l)"

definition row_from :: "EvaluatorOrderLite set \<Rightarrow> StatOrderFullInfo \<Rightarrow> bool" where
  "row_from L info \<longleftrightarrow> head_from L info
     \<and> (\<exists>l\<in>L. el_clientOrderId l = fi_client_order_id info \<and> fi_average_price info = el_averagePrice l)
     \<and> (\<exists>l\<in>L. el_clientOrderId l = fi_client_order_id info \<and> fi_filled_size info = el_filledSize l)"

definition table_from :: "EvaluatorOrderLite set \<Rightarrow> (string \<rightharpoonup> OrderPnlRow) \<Rightarrow> bool" where
  "table_from L db \<longleftrightarrow> (\<forall>key row. db key = Some row \<longrightarrow> fi_client_order_id (row_info row) = key \<and> row_from L (row_info row))"

primrec poller_from :: "EvaluatorOrderLite set \<Rightarrow> poller \<Rightarrow> bool" where
  "poller_from L Idle = True"
| "poller_from L (Scanning now todo finished) = (\<forall>info\<in>set todo \<union> set finished. info_from L info)"
| "poller_from L Saved = True"
| "poller_from L (Erasing keys) = True"

definition evaluator_from :: "EvaluatorOrderLite set \<Rightarrow> EvaluatorState \<Rightarrow> bool" where
  "evaluator_from L e \<longleftrightarrow> evaluator_inv e \<and> (\<forall>info\<in>snd ` set (ex_stat_order_composite e). info_from L info) \<and> poller_from L (es_poller e)
     \<and> table_from L (ex_order_pnl_table e)"

lemma info_from_identity: "order_identity info' = order_identity info \<Longrightarrow> info_from L info' = info_from L info"
  by (simp add: order_identity_def info_from_def head_from_def)

lemma info_row_from: "info_from L info \<Longrightarrow> row_from L info"
  by (auto simp: info_from_def row_from_def)

lemma info_from_mono: "info_from L info \<Longrightarrow> L \<subseteq> M \<Longrightarrow> info_from M info"
  unfolding info_from_def head_from_def by blast

lemma row_from_mono: "row_from L info \<Longrightarrow> L \<subseteq> M \<Longrightarrow> row_from M info"
  unfolding row_from_def head_from_def by blast

lemma evaluator_from_mono:
  assumes "evaluator_from L e" and "L \<subseteq> M"
  shows "evaluator_from M e"
proof -
  have "poller_from M (es_poller e)" using assms(1) info_from_mono[OF _ assms(2)] by (cases "es_poller e") (auto simp: evaluator_from_def)
  then show ?thesis using assms(1) info_from_mono[OF _ assms(2)] row_from_mono[OF _ assms(2)]
    by (auto simp: evaluator_from_def table_from_def)
qed

lemma upsert_from:
  assumes "table_from L db" and "info_from L info"
  shows "table_from L (upsert_order_pnl info db)"
proof (cases "db (fi_client_order_id info)")
  case None
  then show ?thesis using assms info_row_from by (auto simp: upsert_order_pnl_def table_from_def)
next
  case (Some row)
  then have "fi_client_order_id (row_info row) = fi_client_order_id info" "row_from L (row_info row)"
    using assms(1) by (auto simp: table_from_def)
  then show ?thesis using assms Some
    by (auto simp: upsert_order_pnl_def Let_def row_from_def info_from_def head_from_def table_from_def)
qed

lemma fold_upsert_from: "table_from L db \<Longrightarrow> \<forall>info\<in>set infos. info_from L info \<Longrightarrow> table_from L (fold upsert_order_pnl infos db)"
  by (induction infos arbitrary: db) (simp_all add: upsert_from)

lemma save_evaluations_from:
  "table_from L db \<Longrightarrow> \<forall>info\<in>set infos. info_from L info \<Longrightarrow> table_from L (save_evaluations has_conn query_ok now infos db)"
  by (simp add: save_evaluations_def rows_to_save_def fold_upsert_from)

lemma update_values: "snd ` set (AList.update k v m) \<subseteq> insert v (snd ` set m)"
  by (induction m) auto

lemma delete_values: "snd ` set (AList.delete k m) \<subseteq> snd ` set m"
  by (auto simp: AList.delete_eq)

lemma erase_values: "snd ` set (erase_keys keys m) \<subseteq> snd ` set m"
  unfolding erase_keys_def
proof (induction keys arbitrary: m)
  case (Cons k keys)
  show ?case using Cons.IH[of "AList.delete k m"] delete_values[of k m] by auto
qed simp

lemma store_values: "snd ` set (store_evaluation now info m) \<subseteq> insert info (snd ` set m)"
  using update_values[of "fi_client_order_id info" info m] by (auto simp: store_evaluation_def update_with_full_info_def)

text \<open>The evaluator's own steps invent nothing.\<close>

lemma own_step_from:
  assumes "estep BUY e e'" and "own_step e e'" and "evaluator_from L e"
  shows "evaluator_from L e'"
proof -
  have inv: "evaluator_inv e'" using evaluator_inv_step[OF assms(1)] assms(3) by (simp add: evaluator_from_def)
  from assms(1) show ?thesis
  proof (cases rule: estep.cases)
    case (order lite)
    then show ?thesis using assms(2) by (simp add: own_step_def)
  next
    case snapshot
    then show ?thesis using assms(3) inv by (auto simp: evaluator_from_def get_all_stat_orders_def)
  next
    case (evaluate now info todo finished uninit info')
    have "info_from L info" using assms(3) evaluate(2) by (simp add: evaluator_from_def)
    then have "info_from L info'" using info_from_identity[OF evaluate_order_cases(1)[OF evaluate(3)]] by simp
    moreover have "\<forall>info\<in>snd ` set (ex_stat_order_composite e). info_from L info" using assms(3) by (simp add: evaluator_from_def)
    ultimately have "\<forall>info\<in>snd ` set (store_evaluation (es_clock e) info' (ex_stat_order_composite e)). info_from L info"
      using store_values[of "es_clock e" info' "ex_stat_order_composite e"] by blast
    then show ?thesis using assms(3) inv evaluate(1,2) \<open>info_from L info'\<close> by (simp add: evaluator_from_def)
  next
    case (save now finished has_conn query_ok)
    then show ?thesis using assms(3) inv by (auto simp: evaluator_from_def save_evaluations_from)
  next
    case (erase keys)
    have "\<forall>info\<in>snd ` set (erase_keys keys (ex_stat_order_composite e)). info_from L info"
      using assms(3) erase_values[of keys "ex_stat_order_composite e"] unfolding evaluator_from_def by blast
    then show ?thesis using assms(3) inv erase by (simp add: evaluator_from_def)
  qed (use assms(3) inv in \<open>auto simp: evaluator_from_def\<close>)
qed

section \<open>The invariant\<close>

definition source_ok :: "(string \<Rightarrow> string \<Rightarrow> bool) \<Rightarrow> (string \<Rightarrow> string \<Rightarrow> bool) \<Rightarrow> ActuaryConfig list \<Rightarrow> ActuaryConfig \<times> order_source \<Rightarrow> bool" where
  "source_ok startsWith endsWith configs = (\<lambda>(config, src). config \<in> set configs \<and> dt_group_main_node config
     \<and> (case src of TradeEvent event rate ts \<Rightarrow> order_event_accepted startsWith endsWith config event
        | SavedRow row \<Rightarrow> acfg_enable_load_order_to_zmq config))"

definition lite_sourced :: "StatLib \<Rightarrow> (ActuaryConfig \<times> order_source) list \<Rightarrow> StatOrderLite \<Rightarrow> bool" where
  "lite_sourced lib sources lite \<longleftrightarrow> printable_lite lite \<and> (\<exists>src\<in>set sources. lite_of_source lib src = Some lite)"

definition payload_sourced :: "StatLib \<Rightarrow> (ActuaryConfig \<times> order_source) list \<Rightarrow> string \<Rightarrow> bool" where
  "payload_sourced lib sources payload \<longleftrightarrow> (\<exists>now_ms lite. lite_sourced lib sources lite \<and> payload = sl_writeString lib (stat_message now_ms lite))"

definition stat_inv :: "StatLib \<Rightarrow> (string \<Rightarrow> string \<Rightarrow> bool) \<Rightarrow> (string \<Rightarrow> string \<Rightarrow> bool) \<Rightarrow> ActuaryConfig list \<Rightarrow> StatSystem \<Rightarrow> bool" where
  "stat_inv lib startsWith endsWith configs s \<longleftrightarrow>
     (\<forall>c\<in>set (st_actuaries s). \<forall>lite\<in>set (ax_stat_order_channel c). lite_sourced lib (st_sources s) lite)
     \<and> (\<forall>payload\<in>set (st_wire s). payload_sourced lib (st_sources s) payload)
     \<and> evaluator_from (received_from lib (st_sources s)) (st_evaluator s)
     \<and> (\<forall>src\<in>set (st_sources s). source_ok startsWith endsWith configs src)"

lemma sourced_append:
  "lite_sourced lib sources lite \<Longrightarrow> lite_sourced lib (sources @ extra) lite"
  "payload_sourced lib sources payload \<Longrightarrow> payload_sourced lib (sources @ extra) payload"
  "received_from lib sources \<subseteq> received_from lib (sources @ extra)"
  by (auto simp: lite_sourced_def payload_sourced_def received_from_def)

text \<open>What every rule has to show: more sources, a channel that is sourced, and more sourced payloads.\<close>

lemma stat_invI:
  assumes "stat_inv lib startsWith endsWith configs s"
    and "\<forall>lite\<in>set (ax_stat_order_channel c). lite_sourced lib (st_sources s @ extra) lite"
    and "\<forall>src\<in>set extra. source_ok startsWith endsWith configs src"
    and "\<forall>payload\<in>set payloads. payload_sourced lib (st_sources s) payload"
  shows "stat_inv lib startsWith endsWith configs
    (s\<lparr>st_actuaries := (st_actuaries s)[k := c], st_wire := st_wire s @ payloads, st_sources := st_sources s @ extra\<rparr>)"
proof -
  have "\<forall>c'\<in>set ((st_actuaries s)[k := c]). \<forall>lite\<in>set (ax_stat_order_channel c'). lite_sourced lib (st_sources s @ extra) lite"
    using assms(1,2) set_update_subset_insert[of "st_actuaries s" k c] sourced_append(1) unfolding stat_inv_def by blast
  then show ?thesis using assms evaluator_from_mono[OF _ sourced_append(3)] sourced_append(2) by (auto simp: stat_inv_def)
qed

lemma enqueue_rows_channel:
  "lite \<in> set (ax_stat_order_channel (enqueue_rows stoull rows c)) \<Longrightarrow>
     lite \<in> set (ax_stat_order_channel c) \<or> (\<exists>row\<in>set rows. lite_of_row stoull row = Some lite)"
  by (induction stoull rows c rule: enqueue_rows.induct) (auto split: option.splits)

lemma received_from_source:
  assumes "stat_lib_ok lib" and "payload_sourced lib sources payload"
    and "subscribe_process_order_stat_zmq (sl_removeNewlines lib) (sl_parse lib) (sl_str_to_dobule lib) payload c = Inr c'"
  obtains l where "l \<in> received_from lib sources" "ex_stat_order_composite c' = update_with_lite l (ex_stat_order_composite c)"
proof -
  obtain now_ms lite where p: "lite_sourced lib sources lite" "payload = sl_writeString lib (stat_message now_ms lite)"
    using assms(2) by (auto simp: payload_sourced_def)
  have len: "length payload < 1024"
    using assms(3) by (auto simp: subscribe_process_order_stat_zmq_def zmq_receive_def bind_result_Inr_iff split: if_splits)
  have ok: "printable_lite lite" using p(1) by (simp add: lite_sourced_def)
  have "zmq_receive payload = Inr payload" using assms(1) p(2) ok by (intro zmq_receive_text len) (simp add: stat_lib_ok_def)
  then have "ex_stat_order_composite c' = update_with_lite (received_lite (sl_str_to_dobule lib) lite) (ex_stat_order_composite c)"
    using assms(1,3) p(2) ok by (auto simp: subscribe_process_order_stat_zmq_def stat_lib_ok_def lite_of_stat_message)
  moreover have "received_lite (sl_str_to_dobule lib) lite \<in> received_from lib sources"
    using p(1) by (auto simp: lite_sourced_def received_from_def)
  ultimately show thesis by (rule that[rotated])
qed

lemma update_with_lite_from:
  assumes "keyed_by_id m" and "\<forall>info\<in>snd ` set m. info_from L info" and "l \<in> L"
  shows "\<forall>info\<in>snd ` set (update_with_lite l m). info_from L info"
proof -
  obtain v where v: "update_with_lite l m = AList.update (el_clientOrderId l) v m" "info_from L v"
  proof (cases "map_of m (el_clientOrderId l)")
    case None
    have "info_from L (new_StatOrderFullInfo l)" using assms(3) by (auto simp: info_from_def head_from_def new_StatOrderFullInfo_def)
    then show ?thesis using that None by (simp add: update_with_lite_def)
  next
    case (Some original)
    have "original \<in> snd ` set m" using map_of_SomeD[OF Some] by (force)
    then have "fi_client_order_id original = el_clientOrderId l" "info_from L original"
      using assms(1,2) Some by (auto simp: keyed_by_id_def)
    then have "info_from L (original\<lparr>fi_filled_size := el_filledSize l, fi_average_price := el_averagePrice l\<rparr>)"
      using assms(3) by (auto simp: info_from_def head_from_def)
    then show ?thesis using that Some by (simp add: update_with_lite_def)
  qed
  show ?thesis
  proof
    fix info assume "info \<in> snd ` set (update_with_lite l m)"
    then have "info \<in> insert v (snd ` set m)" unfolding v(1) by (rule subsetD[OF update_values])
    then show "info_from L info" using v(2) assms(2) by blast
  qed
qed

lemma stat_inv_step:
  assumes "stat_step lib startsWith endsWith BUY configs s s'" and "stat_lib_ok lib" and "stat_inv lib startsWith endsWith configs s"
  shows "stat_inv lib startsWith endsWith configs s'"
  using assms(1)
proof (cases rule: stat_step.cases)
  case (actuary k c)
  have "\<forall>lite\<in>set (ax_stat_order_channel c). lite_sourced lib (st_sources s @ []) lite"
    using assms(3) actuary(3,5) nth_mem[OF actuary(3)] by (auto simp: stat_inv_def)
  from stat_invI[OF assms(3) this, of "[]" k] actuary(1) show ?thesis by simp
next
  case (trade k bapi log_d saved now now' event row c)
  let ?src = "(configs ! k, TradeEvent event (or_commission_rate row) now')"
  have row: "source_ok startsWith endsWith configs ?src"
    "\<exists>lite. lite_of_source lib ?src = Some lite \<and> ax_stat_order_channel c = ax_stat_order_channel (st_actuaries s ! k) @ [lite]"
    using trade(2,4) by (auto simp: source_ok_def process_balance_position_def process_order_trade_update_def Let_def
        split: if_splits option.splits bool.splits)
  have "\<forall>lite\<in>set (ax_stat_order_channel c). lite_sourced lib (st_sources s @ [?src]) lite"
    using assms(3) row(2) trade(5) nth_mem[OF trade(3)] sourced_append(1)
    by (auto simp: stat_inv_def list_all_iff) (auto simp: lite_sourced_def)
  from stat_invI[OF assms(3) this, of "[]" k] row(1) trade(1) show ?thesis by simp
next
  case (recent_orders k c rows)
  let ?extra = "map (\<lambda>row. (configs ! k, SavedRow row)) (case rows of None \<Rightarrow> [] | Some rows \<Rightarrow> rows)"
  have ok: "\<forall>src\<in>set ?extra. source_ok startsWith endsWith configs src"
    using recent_orders(2,4,5) by (auto simp: source_ok_def split: option.splits)
  have "\<forall>lite\<in>set (ax_stat_order_channel c). lite_sourced lib (st_sources s @ ?extra) lite"
  proof
    fix lite assume "lite \<in> set (ax_stat_order_channel c)"
    then have "lite \<in> set (ax_stat_order_channel (st_actuaries s ! k)) \<or> (\<exists>src\<in>set ?extra. lite_of_source lib src = Some lite)"
      using recent_orders(4-6) enqueue_rows_channel[of lite "sl_stoull lib" _ "st_actuaries s ! k"]
      by (fastforce simp: start_delay_load_orders_to_zmq_def load_recent_orders_to_zmq_def split: option.splits)
    then show "lite_sourced lib (st_sources s @ ?extra) lite"
    proof
      assume "lite \<in> set (ax_stat_order_channel (st_actuaries s ! k))"
      then have "lite_sourced lib (st_sources s) lite" using assms(3) nth_mem[OF recent_orders(3)] by (auto simp: stat_inv_def)
      then show ?thesis by (rule sourced_append(1))
    next
      assume "\<exists>src\<in>set ?extra. lite_of_source lib src = Some lite"
      moreover have "printable_lite lite" using recent_orders(7) \<open>lite \<in> set (ax_stat_order_channel c)\<close> by (simp add: list_all_iff)
      ultimately show ?thesis unfolding lite_sourced_def set_append by blast
    qed
  qed
  from stat_invI[OF assms(3) this ok, of "[]" k] recent_orders(1) show ?thesis by simp
next
  case (publish k now_ms payload c sent)
  then obtain lite lites where ch: "ax_stat_order_channel (st_actuaries s ! k) = lite # lites" "ax_stat_order_channel c = lites"
      "payload = sl_writeString lib (stat_message now_ms lite)"
    by (auto simp: stat_zmq_server_listen_def split: list.splits)
  have src: "lite_sourced lib (st_sources s) l" if "l \<in> set (lite # lites)" for l
    using assms(3) ch(1) that nth_mem[OF publish(2)] unfolding stat_inv_def by metis
  have "stat_inv lib startsWith endsWith configs (s\<lparr>st_actuaries := (st_actuaries s)[k := c],
      st_wire := st_wire s @ (if sent then [payload] else []), st_sources := st_sources s @ []\<rparr>)"
    by (rule stat_invI[OF assms(3)]) (use src ch in \<open>auto simp: payload_sourced_def\<close>)
  then show ?thesis using publish(1) by simp
next
  case (receive payload ec)
  have "payload_sourced lib (st_sources s) payload" using assms(3) receive(2) by (simp add: stat_inv_def)
  from received_from_source[OF assms(2) this receive(3)] obtain l where l: "l \<in> received_from lib (st_sources s)"
      "ex_stat_order_composite ec = update_with_lite l (ex_stat_order_composite (st_evaluator s))"
    by (auto simp: EvaluatorContext.defs)
  let ?e = "(st_evaluator s)\<lparr>ex_stat_order_composite := ex_stat_order_composite ec\<rparr>"
  have old: "evaluator_from (received_from lib (st_sources s)) (st_evaluator s)" using assms(3) by (simp add: stat_inv_def)
  have "estep BUY (st_evaluator s) ?e" unfolding l(2) by (rule estep.order)
  then have "evaluator_inv ?e" using old evaluator_inv_step by (auto simp: evaluator_from_def)
  then have "evaluator_from (received_from lib (st_sources s)) ?e"
    using old update_with_lite_from[OF _ _ l(1), of "ex_stat_order_composite (st_evaluator s)"] l(2)
    by (simp add: evaluator_from_def evaluator_inv_def)
  then show ?thesis using assms(3) receive(1) by (simp add: stat_inv_def)
next
  case (evaluator e)
  then show ?thesis using assms(3) own_step_from by (auto simp: stat_inv_def)
qed

lemma stat_inv_start: "stat_inv lib startsWith endsWith configs (stat_start actuaries clock)"
  using evaluator_inv_start[of "\<lambda>_. None" "\<lambda>_. None" "[]" Map.empty clock]
  by (auto simp: stat_inv_def stat_start_def evaluator_from_def evaluator_start_def table_from_def)

interpretation stat: invariant_system "stat_step lib startsWith endsWith BUY configs" "\<lambda>s. \<exists>actuaries clock. s = stat_start actuaries clock"
    "\<lambda>s. stat_lib_ok lib \<longrightarrow> stat_inv lib startsWith endsWith configs s" for lib startsWith endsWith BUY configs
  by unfold_locales (auto simp: stat_inv_start intro: stat_inv_step)

section \<open>A library for examples\<close>

text \<open>A message is the list of its values, each followed by a semicolon; a text is the list of the numbers of its characters, each followed by a comma.\<close>

function parts :: "char \<Rightarrow> string \<Rightarrow> string list" where
  "parts sep [] = []"
| "parts sep (c # s) = takeWhile (\<lambda>x. x \<noteq> sep) (c # s) # parts sep (tl (dropWhile (\<lambda>x. x \<noteq> sep) (c # s)))"
  by pat_completeness auto
termination
proof (relation "measure (\<lambda>(sep, s). length s)", goal_cases)
  case (2 sep c s)
  have "length (dropWhile (\<lambda>x. x \<noteq> sep) (c # s)) \<le> length (c # s)" by (rule length_dropWhile_le)
  then show ?case by simp
qed simp

lemma parts_concat: "\<forall>x\<in>set xs. sep \<notin> set x \<Longrightarrow> parts sep (concat (map (\<lambda>x. x @ [sep]) xs)) = xs"
proof (induction xs)
  case (Cons x xs)
  have "parts sep (x @ sep # rest) = x # parts sep rest" for rest
  proof -
    have "takeWhile (\<lambda>c. c \<noteq> sep) (x @ sep # rest) = x" "dropWhile (\<lambda>c. c \<noteq> sep) (x @ sep # rest) = sep # rest"
      using Cons.prems by (auto simp: takeWhile_append dropWhile_append)
    then show ?thesis by (cases "x @ sep # rest") simp_all
  qed
  then show ?case using Cons by simp
qed simp

definition number_text :: "string \<Rightarrow> string" where
  "number_text s = concat (map (\<lambda>x. x @ '','') (map (\<lambda>c. string_of_nat (of_char c)) s))"

definition text_of_number :: "string \<Rightarrow> string" where
  "text_of_number s = map (\<lambda>x. char_of (nat_of_string x)) (parts (CHR '','') s)"

definition sample_write :: "json_object \<Rightarrow> string" where
  "sample_write obj = concat (map (\<lambda>x. x @ '';'')
     (map (\<lambda>(key, v). case v of JNull \<Rightarrow> '''' | JString s \<Rightarrow> number_text s | JUInt n \<Rightarrow> string_of_nat (unat n)) obj))"

definition sample_read :: "string \<Rightarrow> json_object" where
  "sample_read s =
     (let ps = parts (CHR '';'') s
      in stat_message (of_nat (nat_of_string (ps ! 8))) \<lparr>so_accountFlag = text_of_number (ps ! 0), so_symbol = text_of_number (ps ! 1),
           so_orderSide = text_of_number (ps ! 2), so_clientOrderId = text_of_number (ps ! 3), so_averagePrice = text_of_number (ps ! 4),
           so_filledSize = text_of_number (ps ! 5), so_commissionRate = text_of_number (ps ! 7),
           so_systemTimestamp = of_nat (nat_of_string (ps ! 6))\<rparr>)"

lemma digits_not: "\<not> decimal_digit c \<Longrightarrow> c \<notin> set (string_of_nat n)"
  using string_of_nat_digits[of n] by auto

lemma separators: "\<not> decimal_digit (CHR '','')" "\<not> decimal_digit (CHR '';'')" "\<not> decimal_digit (CHR 0x00)"
  by (simp_all add: decimal_digit_def)

lemma number_text_reads: "text_of_number (number_text s) = s"
  unfolding text_of_number_def number_text_def
  by (subst parts_concat) (auto simp: digits_not separators comp_def simp del: nat_of_string.simps)

lemma number_text_chars: "CHR '';'' \<notin> set (number_text s)" "CHR 0x00 \<notin> set (number_text s)"
  by (auto simp: number_text_def digits_not separators)

definition sample_stat_lib :: StatLib where
  "sample_stat_lib = \<lparr>sl_writeString = sample_write, sl_removeNewlines = (\<lambda>s. s), sl_parse = sample_read, sl_str_to_dobule = trade_number,
     sl_toString = trade_text, sl_stoull = (\<lambda>_. None)\<rparr>"

lemma sample_stat_lib_ok: "stat_lib_ok sample_stat_lib"
proof -
  have "sample_read (sample_write (stat_message now_ms lite)) = stat_message now_ms lite
    \<and> CHR 0x00 \<notin> set (sample_write (stat_message now_ms lite))" for now_ms lite
  proof -
    let ?xs = "map (\<lambda>(key, v). case v of JNull \<Rightarrow> '''' | JString s \<Rightarrow> number_text s | JUInt n \<Rightarrow> string_of_nat (unat n)) (stat_message now_ms lite)"
    have chars: "\<forall>x\<in>set ?xs. CHR '';'' \<notin> set x" "\<forall>x\<in>set ?xs. CHR 0x00 \<notin> set x"
      by (simp_all add: stat_message_def number_text_chars digits_not separators)
    have ps: "parts (CHR '';'') (sample_write (stat_message now_ms lite)) = ?xs"
      unfolding sample_write_def by (rule parts_concat[OF chars(1)])
    have "sample_read (sample_write (stat_message now_ms lite)) = stat_message now_ms lite"
      unfolding sample_read_def ps Let_def by (simp add: stat_message_def number_text_reads del: nat_of_string.simps)
    moreover have "CHR 0x00 \<notin> set (sample_write (stat_message now_ms lite))"
      unfolding sample_write_def using chars(2) by auto
    ultimately show ?thesis by blast
  qed
  then show ?thesis by (simp add: stat_lib_ok_def sample_stat_lib_def)
qed

section \<open>The property\<close>

text \<open>C17. The statistics are those of trades: in every interleaving of the actuaries, the publishers, the lossy and repeating sockets and the
  evaluator's threads, every order that the evaluator holds and every row of its table has the key of its own client order id, the account, symbol,
  side, time and rate of one source with this id, and a price and a size that sources with this id carry; in an order they are those of the same source.
  A source is an order event that a main node accepted for its own symbols, or a row that such a node was configured to load.\<close>

theorem statistics_come_from_trades:
  assumes "stat_lib_ok lib" and "(stat_step lib startsWith endsWith BUY configs)\<^sup>*\<^sup>* (stat_start actuaries clock) s"
  shows "(\<forall>key info. map_of (ex_stat_order_composite (st_evaluator s)) key = Some info \<longrightarrow>
      fi_client_order_id info = key \<and> info_from (received_from lib (st_sources s)) info)
    \<and> (\<forall>key row. ex_order_pnl_table (st_evaluator s) key = Some row \<longrightarrow>
      fi_client_order_id (row_info row) = key \<and> row_from (received_from lib (st_sources s)) (row_info row))
    \<and> (\<forall>src\<in>set (st_sources s). source_ok startsWith endsWith configs src)"
proof -
  have inv: "stat_inv lib startsWith endsWith configs s"
    using stat.inv_reachable[OF assms(2)] assms(1) by blast
  have "fi_client_order_id info = key \<and> info_from (received_from lib (st_sources s)) info"
    if "map_of (ex_stat_order_composite (st_evaluator s)) key = Some info" for key info
  proof -
    have "info \<in> snd ` set (ex_stat_order_composite (st_evaluator s))" using map_of_SomeD[OF that] by force
    then show ?thesis using inv that by (auto simp: stat_inv_def evaluator_from_def evaluator_inv_def keyed_by_id_def)
  qed
  then show ?thesis using inv by (auto simp: stat_inv_def evaluator_from_def table_from_def)
qed

lemma trade_payload_short: "length (sample_write (stat_message 5 trade_lite)) < 1024"
  by code_simp

definition trade_row :: OrderRow where
  "trade_row = \<lparr>or_account_flag = ''a'', or_event = trade_sample, or_average_price = Fin 10, or_system_timestamp = 1,
     or_commission_rate = Fin 0, or_has_trading_volume = ''Y''\<rparr>"

definition trade_waiting :: ActuaryContext where
  "trade_waiting = (sample_actuary_context 1)\<lparr>ax_stat_order_channel := [trade_lite]\<rparr>"

definition stat_trade :: StatSystem where
  "stat_trade = (stat_start [sample_actuary_context 1] 100)\<lparr>st_actuaries := [trade_waiting],
     st_sources := [(trade_config, TradeEvent trade_sample (Fin 0) 2)]\<rparr>"

definition stat_sent :: StatSystem where
  "stat_sent = stat_trade\<lparr>st_actuaries := [trade_waiting\<lparr>ax_stat_order_channel := []\<rparr>],
     st_wire := [sample_write (stat_message 5 trade_lite)]\<rparr>"

definition stat_received :: StatSystem where
  "stat_received = stat_sent\<lparr>st_evaluator := (st_evaluator stat_sent)\<lparr>ex_stat_order_composite :=
     update_with_lite (received_lite trade_number trade_lite) []\<rparr>\<rparr>"

lemma trade_row_saved:
  "process_order_trade_update text_starts text_ends trade_text (Some True) 1 2 trade_config trade_sample
     (sample_actuary_context 1) = (Some trade_row, trade_waiting)"
  using trade_sample_processed
  by (auto simp: process_order_trade_update_def trade_sample_accepted trade_row_def trade_waiting_def Let_def trade_config_def trade_sample_def
      sample_actuary_config_def get_commission_rate_def sample_actuary_context_def split: if_splits)

lemma sample_stat_lib_simps:
  "sl_writeString sample_stat_lib = sample_write" "sl_removeNewlines sample_stat_lib = (\<lambda>s. s)" "sl_parse sample_stat_lib = sample_read"
  "sl_str_to_dobule sample_stat_lib = trade_number" "sl_toString sample_stat_lib = trade_text"
  by (simp_all add: sample_stat_lib_def)

lemma stat_run_reaches:
  "(stat_step sample_stat_lib text_starts text_ends ''BUY'' [trade_config])\<^sup>*\<^sup>* (stat_start [sample_actuary_context 1] 100) stat_received"
proof -
  let ?step = "stat_step sample_stat_lib text_starts text_ends ''BUY'' [trade_config]"
  let ?s = "stat_start [sample_actuary_context 1] 100"
  have start: "st_actuaries ?s = [sample_actuary_context 1]" "st_sources ?s = []"
    by (simp_all add: stat_start_def sample_actuary_context_def)
  have lite: "list_all printable_lite (ax_stat_order_channel trade_waiting)"
    by (simp add: trade_waiting_def printable_lite_def printable_def trade_lite_def)
  have "?step ?s (?s\<lparr>st_actuaries := (st_actuaries ?s)[0 := trade_waiting],
      st_sources := st_sources ?s @ [([trade_config] ! 0, TradeEvent trade_sample (or_commission_rate trade_row) 2)]\<rparr>)"
    by (rule stat_step.trade[where saved = "Some True" and now = 1])
      (simp_all add: start lite process_balance_position_def sample_stat_lib_simps trade_row_saved)
  then have 1: "?step ?s stat_trade" by (simp add: stat_trade_def start trade_row_def)
  have "?step stat_trade (stat_trade\<lparr>st_actuaries := (st_actuaries stat_trade)[0 := trade_waiting\<lparr>ax_stat_order_channel := []\<rparr>],
      st_wire := st_wire stat_trade @ (if True then [sample_write (stat_message 5 trade_lite)] else [])\<rparr>)"
    by (rule stat_step.publish[where now_ms = 5])
      (simp_all add: stat_trade_def sample_stat_lib_simps stat_zmq_server_listen_def trade_waiting_def)
  then have 2: "?step stat_trade stat_sent" by (simp add: stat_sent_def) (simp add: stat_trade_def stat_start_def)
  have read: "zmq_receive (sample_write (stat_message 5 trade_lite)) = Inr (sample_write (stat_message 5 trade_lite))"
      "sample_read (sample_write (stat_message 5 trade_lite)) = stat_message 5 trade_lite"
    using sample_stat_lib_ok lite trade_payload_short
    by (auto simp: stat_lib_ok_def sample_stat_lib_simps trade_waiting_def intro!: zmq_receive_text)
  have "ex_stat_order_composite (st_evaluator stat_sent) = []"
    by (simp add: stat_sent_def stat_trade_def stat_start_def evaluator_start_def)
  then have "?step stat_sent (stat_sent\<lparr>st_evaluator := (st_evaluator stat_sent)\<lparr>ex_stat_order_composite := ex_stat_order_composite
      ((EvaluatorContext.truncate (st_evaluator stat_sent))\<lparr>ex_stat_order_composite := update_with_lite (received_lite trade_number trade_lite) []\<rparr>)\<rparr>\<rparr>)"
    by (intro stat_step.receive[where payload = "sample_write (stat_message 5 trade_lite)"])
      (simp_all add: stat_sent_def sample_stat_lib_simps subscribe_process_order_stat_zmq_def read lite_of_stat_message EvaluatorContext.defs)
  then have 3: "?step stat_sent stat_received" by (simp add: stat_received_def EvaluatorContext.defs)
  from 1 have "?step\<^sup>*\<^sup>* ?s stat_trade" by (rule r_into_rtranclp)
  from this 2 have "?step\<^sup>*\<^sup>* ?s stat_sent" by (rule rtranclp.rtrancl_into_rtrancl)
  from this 3 show ?thesis by (rule rtranclp.rtrancl_into_rtrancl)
qed

theorem statistics_come_from_trades_witness:
  "\<exists>s info. (stat_step sample_stat_lib text_starts text_ends ''BUY'' [trade_config])\<^sup>*\<^sup>* (stat_start [sample_actuary_context 1] 100) s
     \<and> map_of (ex_stat_order_composite (st_evaluator s)) ''b_1'' = Some info
     \<and> info_from (received_from sample_stat_lib [(trade_config, TradeEvent trade_sample (Fin 0) 2)]) info"
  using statistics_come_from_trades[OF sample_stat_lib_ok stat_run_reaches] stat_run_reaches
  by (intro exI[of _ stat_received]) (auto simp: stat_received_def stat_sent_def stat_trade_def update_with_lite_def received_lite_def trade_lite_def)

end
