(* ===== verification/ConnectionPool.thy ===== *)
theory ConnectionPool
  imports Prelude
begin

text \<open>
  \<open>src/src/dbsource/mysql_source.{h,cpp}\<close>: the pool of database connections. A connection is a number; the
  record \<open>MysqlClient\<close> stands for what the client library keeps: which handles are open, and the next one it
  hands out. Whether a ping or an attempt to connect succeeds is an argument. Every member function
  holds the pool's mutex, so it is one step; \<open>getConnection\<close> waits while its condition is false, and then
  its value is \<open>None\<close>.
\<close>

section \<open>The pool\<close>

record MySQLConnectionPool =
  connections :: "nat list"
  pool_size :: u64
  max_pool_size :: u64
  is_shutdown :: bool

record MysqlClient =
  my_open :: "nat set"
  my_next :: nat

definition createConnection :: "bool \<Rightarrow> MysqlClient \<Rightarrow> nat result \<times> MysqlClient" where
  "createConnection connects w =
     (if connects then (Inr (my_next w), w\<lparr>my_open := insert (my_next w) (my_open w), my_next := my_next w + 1\<rparr>)
      else (Inl (Exception ''Connection failed''), w\<lparr>my_next := my_next w + 1\<rparr>))"

definition mysql_close :: "nat \<Rightarrow> MysqlClient \<Rightarrow> MysqlClient" where
  "mysql_close conn w = w\<lparr>my_open := my_open w - {conn}\<rparr>"

text \<open>The constructor opens the initial connections one by one; each element of the list says whether it succeeds.\<close>

fun open_initial :: "bool list \<Rightarrow> MySQLConnectionPool \<Rightarrow> MysqlClient \<Rightarrow> unit result \<times> MySQLConnectionPool \<times> MysqlClient" where
  "open_initial [] p w = (Inr (), p, w)"
| "open_initial (connects # others) p w =
     (case createConnection connects w of
        (Inr conn, w) \<Rightarrow>
          open_initial others (p\<lparr>connections := connections p @ [conn], pool_size := pool_size p + 1\<rparr>) w
      | (Inl e, w) \<Rightarrow> (Inl e, p, w))"

definition new_MySQLConnectionPool :: "bool list \<Rightarrow> u64 \<Rightarrow> MysqlClient \<Rightarrow> unit result \<times> MySQLConnectionPool \<times> MysqlClient" where
  "new_MySQLConnectionPool initial max_size w =
     open_initial initial \<lparr>connections = [], pool_size = 0, max_pool_size = max_size, is_shutdown = False\<rparr> w"

definition getConnection ::
  "(nat \<Rightarrow> bool) \<Rightarrow> bool \<Rightarrow> MySQLConnectionPool \<Rightarrow> MysqlClient
   \<Rightarrow> (nat option result \<times> MySQLConnectionPool \<times> MysqlClient) option" where
  "getConnection ping connects p w =
     (if \<not> (connections p \<noteq> [] \<or> is_shutdown p \<or> pool_size p < max_pool_size p) then None
      else if is_shutdown p then Some (Inr None, p, w)
      else case connections p of
             conn # rest \<Rightarrow>
               let p = p\<lparr>connections := rest\<rparr>
               in if ping conn then Some (Inr (Some conn), p, w)
                  else let w = mysql_close conn w; p = p\<lparr>pool_size := pool_size p - 1\<rparr>
                       in (case createConnection connects w of
                             (Inr conn, w) \<Rightarrow> Some (Inr (Some conn), p\<lparr>pool_size := pool_size p + 1\<rparr>, w)
                           | (Inl e, w) \<Rightarrow> Some (Inl (Exception ''Failed to create replacement connection''), p, w))
           | [] \<Rightarrow>
               if pool_size p < max_pool_size p
               then (case createConnection connects w of
                       (Inr conn, w) \<Rightarrow> Some (Inr (Some conn), p\<lparr>pool_size := pool_size p + 1\<rparr>, w)
                     | (Inl e, w) \<Rightarrow> Some (Inl (Exception ''Failed to create new connection''), p, w))
               else Some (Inl (Exception ''No connections available''), p, w))"

definition releaseConnection :: "nat option \<Rightarrow> MySQLConnectionPool \<Rightarrow> MysqlClient \<Rightarrow> MySQLConnectionPool \<times> MysqlClient" where
  "releaseConnection conn p w =
     (case conn of
        None \<Rightarrow> (p, w)
      | Some conn \<Rightarrow>
          if is_shutdown p then (p\<lparr>pool_size := pool_size p - 1\<rparr>, mysql_close conn w)
          else (p\<lparr>connections := connections p @ [conn]\<rparr>, w))"

definition pool_shutdown :: "MySQLConnectionPool \<Rightarrow> MysqlClient \<Rightarrow> MySQLConnectionPool \<times> MysqlClient" where
  "pool_shutdown p w = (p\<lparr>is_shutdown := True, connections := []\<rparr>, fold mysql_close (connections p) w)"

definition getAvailableConnections :: "MySQLConnectionPool \<Rightarrow> nat" where
  "getAvailableConnections p = length (connections p)"

definition getTotalConnections :: "MySQLConnectionPool \<Rightarrow> u64" where
  "getTotalConnections p = pool_size p"

section \<open>Users of the pool\<close>

text \<open>\<open>lent\<close> holds the connections that threads have got and not yet given back.\<close>

record PoolState =
  ps_pool :: MySQLConnectionPool
  ps_client :: MysqlClient
  lent :: "nat set"

inductive pool_step :: "PoolState \<Rightarrow> PoolState \<Rightarrow> bool" where
  get: "getConnection ping connects (ps_pool s) (ps_client s) = Some (Inr (Some conn), p, w) \<Longrightarrow>
    pool_step s (s\<lparr>ps_pool := p, ps_client := w, lent := insert conn (lent s)\<rparr>)"
| get_none: "getConnection ping connects (ps_pool s) (ps_client s) = Some (Inr None, p, w) \<Longrightarrow>
    pool_step s (s\<lparr>ps_pool := p, ps_client := w\<rparr>)"
| get_throws: "getConnection ping connects (ps_pool s) (ps_client s) = Some (Inl e, p, w) \<Longrightarrow>
    pool_step s (s\<lparr>ps_pool := p, ps_client := w\<rparr>)"
| release: "conn \<in> lent s \<Longrightarrow> releaseConnection (Some conn) (ps_pool s) (ps_client s) = (p, w) \<Longrightarrow>
    pool_step s (s\<lparr>ps_pool := p, ps_client := w, lent := lent s - {conn}\<rparr>)"
| shutdown: "pool_shutdown (ps_pool s) (ps_client s) = (p, w) \<Longrightarrow>
    pool_step s (s\<lparr>ps_pool := p, ps_client := w\<rparr>)"

definition pool_start :: "PoolState \<Rightarrow> bool" where
  "pool_start s \<longleftrightarrow> lent s = {} \<and> (\<exists>initial max_size w. my_open w = {} \<and> length initial \<le> unat max_size
     \<and> new_MySQLConnectionPool initial max_size w = (Inr (), ps_pool s, ps_client s))"

text \<open>
  The open handles are the idle and the lent ones, no connection is both or idle twice, and before the
  shutdown their number is what \<open>pool_size\<close> says and at most the maximum.
\<close>

definition pool_ok :: "MySQLConnectionPool \<Rightarrow> MysqlClient \<Rightarrow> nat set \<Rightarrow> bool" where
  "pool_ok p w held \<longleftrightarrow>
     finite held \<and> distinct (connections p) \<and> set (connections p) \<inter> held = {}
     \<and> my_open w = set (connections p) \<union> held \<and> (\<forall>conn \<in> my_open w. conn < my_next w)
     \<and> (if is_shutdown p then connections p = [] \<and> card held \<le> unat (max_pool_size p)
        else length (connections p) + card held = unat (pool_size p) \<and> pool_size p \<le> max_pool_size p)"

definition pool_inv :: "PoolState \<Rightarrow> bool" where
  "pool_inv s \<longleftrightarrow> pool_ok (ps_pool s) (ps_client s) (lent s)"

lemma unat_plus_one: "p < m \<Longrightarrow> unat (p + 1) = unat p + 1" for p m :: u64
  using unsigned_less [of m, where 'a = nat] by (simp add: word_less_nat_alt unat_word_ariths)

lemma plus_one_le: "p < m \<Longrightarrow> p + 1 \<le> m" for p m :: u64
  using unat_plus_one [of p m] by (simp add: word_le_nat_alt word_less_nat_alt)

lemma fold_mysql_close: "fold mysql_close conns w = w\<lparr>my_open := my_open w - set conns\<rparr>"
  by (induction conns arbitrary: w) (simp_all add: mysql_close_def Diff_insert2 [symmetric])

text \<open>The four ways in which \<open>getConnection\<close> returns.\<close>

lemma getConnection_cases:
  assumes "getConnection ping connects p w = Some (r, p', w')"
  obtains (down) "is_shutdown p" "r = Inr None" "p' = p" "w' = w"
  | (idle) conn rest where "\<not> is_shutdown p" "connections p = conn # rest" "r = Inr (Some conn)"
      "p' = p\<lparr>connections := rest\<rparr>" "w' = w"
  | (replaced) conn rest where "\<not> is_shutdown p" "connections p = conn # rest" "r = Inr (Some (my_next w))"
      "p' = p\<lparr>connections := rest\<rparr>"
      "w' = w\<lparr>my_open := insert (my_next w) (my_open w - {conn}), my_next := my_next w + 1\<rparr>"
  | (opened) "\<not> is_shutdown p" "connections p = []" "pool_size p < max_pool_size p" "r = Inr (Some (my_next w))"
      "p' = p\<lparr>pool_size := pool_size p + 1\<rparr>"
      "w' = w\<lparr>my_open := insert (my_next w) (my_open w), my_next := my_next w + 1\<rparr>"
  | (lost) conn rest e where "\<not> is_shutdown p" "connections p = conn # rest" "r = Inl e"
      "p' = p\<lparr>connections := rest, pool_size := pool_size p - 1\<rparr>"
      "w' = w\<lparr>my_open := my_open w - {conn}, my_next := my_next w + 1\<rparr>"
  | (refused) e where "\<not> is_shutdown p" "connections p = []" "r = Inl e" "p' = p" "w' = w\<lparr>my_next := my_next w + 1\<rparr>"
proof (cases "is_shutdown p")
  case True
  with assms show thesis by (intro down) (simp_all add: getConnection_def)
next
  case up: False
  show thesis
  proof (cases "connections p")
    case Nil
    have lt: "pool_size p < max_pool_size p"
      by (rule ccontr) (use assms up Nil in \<open>simp add: getConnection_def\<close>)
    show thesis
    proof (cases connects)
      case True
      with assms up Nil lt show thesis by (intro opened) (auto simp: getConnection_def createConnection_def)
    next
      case False
      with assms up Nil lt have "r = Inl (Exception ''Failed to create new connection'')" "p' = p"
          "w' = w\<lparr>my_next := my_next w + 1\<rparr>"
        by (auto simp: getConnection_def createConnection_def)
      with up Nil show thesis by (intro refused)
    qed
  next
    case (Cons conn rest)
    note get = assms [unfolded getConnection_def createConnection_def mysql_close_def]
    consider "ping conn" | "\<not> ping conn" connects | "\<not> ping conn" "\<not> connects" by blast
    then show thesis
    proof cases
      case 1
      with get up Cons show thesis by (intro idle) auto
    next
      case 2
      with get up Cons show thesis by (intro replaced) auto
    next
      case 3
      with get up Cons have "r = Inl (Exception ''Failed to create replacement connection'')"
          "p' = p\<lparr>connections := rest, pool_size := pool_size p - 1\<rparr>"
          "w' = w\<lparr>my_open := my_open w - {conn}, my_next := my_next w + 1\<rparr>"
        by auto
      with up Cons show thesis by (intro lost)
    qed
  qed
qed

lemma pool_ok_open_card:
  assumes "pool_ok p w held" and "\<not> is_shutdown p"
  shows "card (my_open w) = unat (pool_size p)"
proof -
  have "card (set (connections p) \<union> held) = length (connections p) + card held"
    using assms(1) by (subst card_Un_disjoint) (auto simp: pool_ok_def distinct_card)
  with assms show ?thesis by (auto simp: pool_ok_def)
qed

lemma open_initial_inv:
  "open_initial initial p w = (Inr (), p', w') \<Longrightarrow> \<not> is_shutdown p \<Longrightarrow> pool_ok p w {}
    \<Longrightarrow> unat (pool_size p) + length initial \<le> unat (max_pool_size p) \<Longrightarrow> pool_ok p' w' {}"
proof (induction initial arbitrary: p w)
  case (Cons connects initial)
  let ?p = "p\<lparr>connections := connections p @ [my_next w], pool_size := pool_size p + 1\<rparr>"
  let ?w = "w\<lparr>my_open := insert (my_next w) (my_open w), my_next := my_next w + 1\<rparr>"
  have lt: "pool_size p < max_pool_size p" using Cons.prems(4) by (simp add: word_less_nat_alt)
  have "open_initial initial ?p ?w = (Inr (), p', w')"
    using Cons.prems(1) by (auto simp: createConnection_def split: if_splits)
  moreover have "pool_ok ?p ?w {}"
    using Cons.prems(2,3) unat_plus_one [OF lt] plus_one_le [OF lt] by (auto simp: pool_ok_def less_SucI)
  ultimately show ?case using Cons.IH Cons.prems unat_plus_one [OF lt] by simp
qed simp

lemma pool_inv_start: "pool_start s \<Longrightarrow> pool_inv s"
proof -
  assume "pool_start s"
  then obtain initial max_size w where s: "lent s = {}" "my_open w = {}" "length initial \<le> unat max_size"
      "new_MySQLConnectionPool initial max_size w = (Inr (), ps_pool s, ps_client s)"
    by (auto simp: pool_start_def)
  have "pool_ok (ps_pool s) (ps_client s) {}"
    by (rule open_initial_inv [OF s(4) [unfolded new_MySQLConnectionPool_def]]) (use s in \<open>auto simp: pool_ok_def\<close>)
  with s(1) show ?thesis by (simp add: pool_inv_def)
qed

lemma pool_ok_get:
  assumes "pool_ok p w held" and "getConnection ping connects p w = Some (r, p', w')"
  shows "case r of
      Inr (Some conn) \<Rightarrow> conn \<notin> held \<and> pool_ok p' w' (insert conn held)
    | _ \<Rightarrow> pool_ok p' w' held"
  using assms(2)
proof (cases rule: getConnection_cases)
  case down
  with assms(1) show ?thesis by simp
next
  case (idle conn rest)
  with assms(1) show ?thesis by (auto simp: pool_ok_def)
next
  case (replaced conn rest)
  then have "my_next w \<notin> held" using assms(1) by (auto simp: pool_ok_def)
  with replaced assms(1) show ?thesis by (auto simp: pool_ok_def less_SucI)
next
  case opened
  then have "my_next w \<notin> held" using assms(1) by (auto simp: pool_ok_def)
  with assms(1) opened unat_plus_one [OF opened(3)] plus_one_le [OF opened(3)] show ?thesis
    by (auto simp: pool_ok_def less_SucI)
next
  case (lost conn rest e)
  then have "0 < unat (pool_size p)" using assms(1) by (auto simp: pool_ok_def)
  then have "unat (pool_size p - 1) = unat (pool_size p) - 1" by (intro unat_minus_one) auto
  with lost assms(1) show ?thesis by (auto simp: pool_ok_def word_le_nat_alt less_SucI)
next
  case (refused e)
  with assms(1) show ?thesis by (auto simp: pool_ok_def less_SucI)
qed

lemma pool_ok_release:
  "pool_ok p w held \<Longrightarrow> conn \<in> held \<Longrightarrow> releaseConnection (Some conn) p w = (p', w') \<Longrightarrow> pool_ok p' w' (held - {conn})"
  using card_gt_0_iff [of held]
  by (auto simp: pool_ok_def releaseConnection_def mysql_close_def card_Diff_singleton split: if_splits)

lemma pool_ok_shutdown: "pool_ok p w held \<Longrightarrow> pool_shutdown p w = (p', w') \<Longrightarrow> pool_ok p' w' held"
  by (auto simp: pool_ok_def pool_shutdown_def fold_mysql_close word_le_nat_alt split: if_splits)

lemma pool_inv_step: "pool_step s s' \<Longrightarrow> pool_inv s \<Longrightarrow> pool_inv s'"
  by (induction rule: pool_step.induct)
     (auto simp: pool_inv_def dest: pool_ok_get intro: pool_ok_release pool_ok_shutdown)

interpretation cp: invariant_system pool_step pool_start pool_inv
  by unfold_locales (auto intro: pool_inv_start pool_inv_step)
section \<open>Properties\<close>

text \<open>C30. In every run of the pool's users a connection that is handed out is held by nobody else and is open, and there are never more
  open connections than the pool's maximum.\<close>

theorem pool_exclusive_and_bounded:
  assumes "pool_step\<^sup>*\<^sup>* s0 s" and "pool_start s0"
    and "getConnection ping connects (ps_pool s) (ps_client s) = Some (Inr (Some conn), p, w)"
  shows "conn \<notin> lent s \<and> conn \<notin> set (connections p) \<and> conn \<in> my_open w \<and> card (my_open w) \<le> unat (max_pool_size p)"
proof -
  have inv: "pool_inv s" using assms(1,2) by (rule cp.inv_reachable)
  from pool_ok_get [OF inv [unfolded pool_inv_def] assms(3)]
  have n: "conn \<notin> lent s" and ok: "pool_ok p w (insert conn (lent s))" by auto
  have "card (my_open w) \<le> unat (max_pool_size p)"
    using ok pool_ok_open_card [OF ok] by (cases "is_shutdown p") (auto simp: pool_ok_def word_le_nat_alt)
  with n ok show ?thesis by (auto simp: pool_ok_def)
qed

definition sample_client :: MysqlClient where
  "sample_client = \<lparr>my_open = {}, my_next = 0\<rparr>"

definition sample_pool :: PoolState where
  "sample_pool = \<lparr>ps_pool = \<lparr>connections = [0], pool_size = 1, max_pool_size = 2, is_shutdown = False\<rparr>,
     ps_client = \<lparr>my_open = {0}, my_next = 1\<rparr>, lent = {}\<rparr>"

lemma sample_pool_start: "pool_start sample_pool"
proof -
  have "new_MySQLConnectionPool [True] 2 sample_client = (Inr (), ps_pool sample_pool, ps_client sample_pool)"
    by (simp add: new_MySQLConnectionPool_def createConnection_def sample_client_def sample_pool_def)
  moreover have "lent sample_pool = {}" "my_open sample_client = {}" "length [True] \<le> unat (2 :: u64)"
    by (simp_all add: sample_pool_def sample_client_def)
  ultimately show ?thesis unfolding pool_start_def by blast
qed

theorem pool_exclusive_and_bounded_witness:
  "\<exists>p w. getConnection (\<lambda>_. False) True (ps_pool sample_pool) (ps_client sample_pool) = Some (Inr (Some 1), p, w)
     \<and> (1::nat) \<notin> lent sample_pool \<and> card (my_open w) \<le> unat (max_pool_size p)"
proof -
  have "\<exists>p w. getConnection (\<lambda>_. False) True (ps_pool sample_pool) (ps_client sample_pool) = Some (Inr (Some 1), p, w)"
    by (simp add: getConnection_def sample_pool_def createConnection_def mysql_close_def)
  with pool_exclusive_and_bounded [OF rtranclp.rtrancl_refl sample_pool_start] show ?thesis by blast
qed

text \<open>C31. A request for a connection waits only while the pool is up and as many connections as its maximum are held by others, and
  then every release lets a waiting request through with a connection.\<close>

theorem pool_waits_only_when_exhausted:
  assumes "pool_step\<^sup>*\<^sup>* s0 s" and "pool_start s0" and "getConnection ping connects (ps_pool s) (ps_client s) = None"
  shows "\<not> is_shutdown (ps_pool s) \<and> card (lent s) = unat (max_pool_size (ps_pool s))
    \<and> (\<forall>conn p w. releaseConnection (Some conn) (ps_pool s) (ps_client s) = (p, w) \<longrightarrow>
         (\<exists>r. getConnection (\<lambda>_. True) connects p w = Some (Inr (Some conn), r)))"
proof -
  have inv: "pool_inv s" using assms(1,2) by (rule cp.inv_reachable)
  from assms(3) have n: "connections (ps_pool s) = []" "\<not> is_shutdown (ps_pool s)"
      "\<not> pool_size (ps_pool s) < max_pool_size (ps_pool s)"
    by (auto simp: getConnection_def createConnection_def Let_def split: if_splits list.splits)
  with inv have "card (lent s) = unat (max_pool_size (ps_pool s))"
    by (simp add: pool_inv_def pool_ok_def word_le_nat_alt word_less_nat_alt)
  with n show ?thesis by (auto simp: releaseConnection_def getConnection_def)
qed

definition drained_pool :: PoolState where
  "drained_pool = \<lparr>ps_pool = \<lparr>connections = [], pool_size = 2, max_pool_size = 2, is_shutdown = False\<rparr>,
     ps_client = \<lparr>my_open = {0, 1}, my_next = 2\<rparr>, lent = {0, 1}\<rparr>"

lemma drained_pool_reachable: "pool_step\<^sup>*\<^sup>* sample_pool drained_pool"
proof -
  let ?s = "sample_pool\<lparr>ps_pool := ps_pool sample_pool\<lparr>connections := []\<rparr>, lent := {0}\<rparr>"
  have "pool_step sample_pool ?s"
    using pool_step.get [of "\<lambda>_. True" True sample_pool 0 "ps_pool sample_pool\<lparr>connections := []\<rparr>" "ps_client sample_pool"]
    by (simp add: getConnection_def sample_pool_def)
  moreover have "pool_step ?s drained_pool"
    using pool_step.get [of "\<lambda>_. True" True ?s 1 "ps_pool drained_pool" "ps_client drained_pool"]
    by (simp add: getConnection_def sample_pool_def drained_pool_def createConnection_def insert_commute)
  ultimately show ?thesis by (meson converse_rtranclp_into_rtranclp rtranclp.rtrancl_refl)
qed

theorem pool_waits_only_when_exhausted_witness: "card (lent drained_pool) = unat (2 :: u64)"
proof -
  have "getConnection (\<lambda>_. True) True (ps_pool drained_pool) (ps_client drained_pool) = None"
    by (simp add: getConnection_def drained_pool_def)
  from pool_waits_only_when_exhausted [OF drained_pool_reachable sample_pool_start this]
  show ?thesis by (simp add: drained_pool_def)
qed

text \<open>After the shutdown the count of connections is too high: the idle connections are closed without being
  subtracted, so that the reported total exceeds the open connections by their number.\<close>

theorem shutdown_total_too_high:
  assumes "pool_step\<^sup>*\<^sup>* s0 s" and "pool_start s0" and "\<not> is_shutdown (ps_pool s)"
    and "pool_shutdown (ps_pool s) (ps_client s) = (p, w)"
  shows "unat (getTotalConnections p) = card (my_open w) + getAvailableConnections (ps_pool s)"
proof -
  have inv: "pool_inv s" using assms(1,2) by (rule cp.inv_reachable)
  have "my_open w = lent s" "pool_size p = pool_size (ps_pool s)"
    using assms(4) inv by (auto simp: pool_shutdown_def fold_mysql_close pool_inv_def pool_ok_def)
  with inv assms(3) show ?thesis
    by (simp add: pool_inv_def pool_ok_def getTotalConnections_def getAvailableConnections_def)
qed

theorem shutdown_total_too_high_witness:
  "\<exists>p w. pool_shutdown (ps_pool sample_pool) (ps_client sample_pool) = (p, w) \<and> my_open w = {} \<and> getTotalConnections p = 1"
proof -
  obtain p w where p: "pool_shutdown (ps_pool sample_pool) (ps_client sample_pool) = (p, w)" by fastforce
  then have "my_open w = {}" by (auto simp: pool_shutdown_def sample_pool_def mysql_close_def)
  moreover from shutdown_total_too_high [OF rtranclp.rtrancl_refl sample_pool_start _ p]
  have "unat (getTotalConnections p) = card (my_open w) + 1" by (simp add: sample_pool_def getAvailableConnections_def)
  ultimately have "getTotalConnections p = 1" by (simp add: word_unat_eq_iff)
  with p \<open>my_open w = {}\<close> show ?thesis by blast
qed

end
