(* ===== verification/ConfigFiles.thy ===== *)
theory ConfigFiles
  imports TradingSystem ReceiverContext
begin

text \<open>
  \<open>src/src/config/{config,actuary_config,receiver_config,trader_config,evaluator_config,main_config}.{h,cpp}\<close>: the loaders of the
  configuration files. A loader is the sequence of its assignments: each reads a member of the document, converts it and
  stores it in a field, and any of them can throw. The JSON library is the record \<open>JsonLib\<close> of its operations: parsing (which returns
  false for a malformed text, together with what it has read so far), the access operators, and the conversions. The fields are indeterminate
  before the load, so that they are those of an arbitrary object; vectors start empty and are appended to.
\<close>

section \<open>The JSON library\<close>

record 'j JsonLib =
  js_parse :: "string \<Rightarrow> (bool \<times> 'j) result"
  js_member :: "'j \<Rightarrow> string \<Rightarrow> 'j result"
  js_element :: "'j \<Rightarrow> nat \<Rightarrow> 'j result"
  js_size :: "'j \<Rightarrow> nat"
  js_asBool :: "'j \<Rightarrow> bool result"
  js_asInt :: "'j \<Rightarrow> int result"
  js_asUInt :: "'j \<Rightarrow> int result"
  js_asInt64 :: "'j \<Rightarrow> i64 result"
  js_asUInt64 :: "'j \<Rightarrow> u64 result"
  js_asDouble :: "'j \<Rightarrow> double result"
  js_asString :: "'j \<Rightarrow> string result"

section \<open>Loading a file\<close>

text \<open>
  \<open>file\<close> is the content of the file, \<open>None\<close> if it cannot be opened. The buffer is read as a C string. \<open>None\<close> stands for the result
  false: the value that \<open>parse\<close> returns is not looked at.
\<close>

definition load_config_file :: "'j JsonLib \<Rightarrow> string option \<Rightarrow> 'j option" where
  "load_config_file js file =
     (case file of
        None \<Rightarrow> None
      | Some buffer \<Rightarrow>
          (case js_parse js (takeWhile (\<lambda>ch. ch \<noteq> CHR 0x00) buffer) of
             Inl _ \<Rightarrow> None
           | Inr (ok, doc) \<Rightarrow> Some doc))"

fun run_steps :: "('c \<Rightarrow> 'c result) list \<Rightarrow> 'c \<Rightarrow> 'c result" where
  "run_steps [] c = Inr c"
| "run_steps (s # ss) c = bind_result (s c) (run_steps ss)"

text \<open>\<open>this->field = doc["key"].asT()\<close>\<close>

definition read_member :: "'j JsonLib \<Rightarrow> 'j \<Rightarrow> ('j \<Rightarrow> 'a result) \<Rightarrow> string \<Rightarrow> 'a result" where
  "read_member js doc conv key = bind_result (js_member js doc key) conv"

definition assign :: "'a result \<Rightarrow> (('a \<Rightarrow> 'a) \<Rightarrow> 'c \<Rightarrow> 'c) \<Rightarrow> 'c \<Rightarrow> 'c result" where
  "assign value upd c = bind_result value (\<lambda>x. Inr (upd (\<lambda>_. x) c))"

text \<open>\<open>doc["key"][i]\<close>, and the loop that pushes every element of \<open>doc["key"]\<close> to a vector.\<close>

definition read_element :: "'j JsonLib \<Rightarrow> 'j \<Rightarrow> ('j \<Rightarrow> 'a result) \<Rightarrow> string \<Rightarrow> nat \<Rightarrow> 'a result" where
  "read_element js doc conv key i = bind_result (js_member js doc key) (\<lambda>xs. bind_result (js_element js xs i) conv)"

fun all_results :: "'a result list \<Rightarrow> 'a list result" where
  "all_results [] = Inr []"
| "all_results (r # rs) = bind_result r (\<lambda>x. bind_result (all_results rs) (\<lambda>xs. Inr (x # xs)))"

definition read_elements :: "'j JsonLib \<Rightarrow> 'j \<Rightarrow> ('j \<Rightarrow> 'a result) \<Rightarrow> string \<Rightarrow> 'a list result" where
  "read_elements js doc conv key = bind_result (js_member js doc key)
     (\<lambda>xs. all_results (map (\<lambda>i. bind_result (js_element js xs i) conv) [0..<js_size js xs]))"

definition push_back_all :: "'a list result \<Rightarrow> (('a list \<Rightarrow> 'a list) \<Rightarrow> 'c \<Rightarrow> 'c) \<Rightarrow> 'c \<Rightarrow> 'c result" where
  "push_back_all values upd c = bind_result values (\<lambda>xs. Inr (upd (\<lambda>old. old @ xs) c))"

definition assign_at :: "'a result \<Rightarrow> nat \<Rightarrow> (('a list \<Rightarrow> 'a list) \<Rightarrow> 'c \<Rightarrow> 'c) \<Rightarrow> 'c \<Rightarrow> 'c result" where
  "assign_at value i upd c = bind_result value (\<lambda>x. Inr (upd (\<lambda>old. old[i := x]) c))"

record CommonConfig =
  cc_logger_name :: string
  cc_logger_level :: int
  cc_logger_max_files :: int
  cc_logger_file_path :: string

definition common_steps :: "'j JsonLib \<Rightarrow> 'j \<Rightarrow> (CommonConfig \<Rightarrow> CommonConfig result) list" where
  "common_steps js doc =
     [assign (read_member js doc (js_asString js) ''logger_name'') cc_logger_name_update,
      assign (read_member js doc (js_asString js) ''logger_file_path'') cc_logger_file_path_update,
      assign (read_member js doc (js_asInt js) ''logger_level'') cc_logger_level_update,
      assign (read_member js doc (js_asInt js) ''logger_max_files'') cc_logger_max_files_update]"

text \<open>\<open>None\<close> is the result false.\<close>

definition load_config :: "'j JsonLib \<Rightarrow> string option \<Rightarrow> CommonConfig \<Rightarrow> ('j \<times> CommonConfig) option result" where
  "load_config js file base =
     (case load_config_file js file of
        None \<Rightarrow> Inr None
      | Some doc \<Rightarrow> bind_result (run_steps (common_steps js doc) base) (\<lambda>base. Inr (Some (doc, base))))"

text \<open>The part that the loaders of the five programs share.\<close>

definition load_own :: "('j \<Rightarrow> ('c \<Rightarrow> 'c result) list) \<Rightarrow> 'j JsonLib \<Rightarrow> string option \<Rightarrow> CommonConfig \<times> 'c
    \<Rightarrow> (bool \<times> CommonConfig \<times> 'c) result" where
  "load_own steps js file = (\<lambda>(base, c). bind_result (load_config js file base) (\<lambda>r.
     case r of
       None \<Rightarrow> Inr (False, base, c)
     | Some (doc, base) \<Rightarrow> bind_result (run_steps (steps doc) c) (\<lambda>c. Inr (True, base, c))))"
section \<open>The actuary\<close>

record ActuaryConfigFile = ActuaryConfig +
  acfg_db_host :: string
  acfg_db_port :: int
  acfg_db_username :: string
  acfg_db_password :: string
  acfg_db_database :: string
  acfg_benchmark_inst_config_file :: string
  acfg_follower_inst_config_file :: string
  acfg_tg_bot_token :: string
  acfg_tg_chat_id :: i64
  acfg_api_key_hmac :: string
  acfg_secret_key_hmac :: string
  acfg_rest_use_intranet :: bool
  acfg_rest_local_ip :: string
  acfg_loop_pause_time_millis :: i64
  acfg_enable_write_parameter_log :: bool
  acfg_enable_write_sampling_log :: bool
  acfg_zmq_ipc_order_stat :: string
  acfg_process_account_settings :: bool
  acfg_initial_leverage :: int
  acfg_margin_type :: string
  acfg_multi_assets_margin :: bool
  acfg_position_side_dual :: bool
  acfg_share_memory_project_id :: int
  acfg_share_memory_path_benchmark_ticker :: string
  acfg_share_memory_path_follower_ticker :: string
  acfg_share_memory_path_early_run :: string
  acfg_share_memory_path_benchmark_beta :: string
  acfg_share_memory_path_follower_beta :: string
  acfg_share_memory_path_order :: string

definition actuary_steps :: "'j JsonLib \<Rightarrow> 'j \<Rightarrow> (ActuaryConfigFile \<Rightarrow> ActuaryConfigFile result) list" where
  "actuary_steps js doc =
     [assign (read_member js doc (js_asBool js) ''stop_make_order'') acfg_stop_make_order_update,
      assign (read_member js doc (js_asBool js) ''make_position_close_only'') acfg_make_position_close_only_update,
      assign (read_member js doc (js_asString js) ''account_flag'') account_flag_update,
      assign (read_member js doc (js_asString js) ''db_host'') acfg_db_host_update,
      assign (read_member js doc (js_asUInt js) ''db_port'') acfg_db_port_update,
      assign (read_member js doc (js_asString js) ''db_username'') acfg_db_username_update,
      assign (read_member js doc (js_asString js) ''db_password'') acfg_db_password_update,
      assign (read_member js doc (js_asString js) ''db_database'') acfg_db_database_update,
      assign (read_member js doc (js_asString js) ''benchmark_inst_config_file'') acfg_benchmark_inst_config_file_update,
      assign (read_member js doc (js_asString js) ''follower_inst_config_file'') acfg_follower_inst_config_file_update,
      assign (read_member js doc (js_asString js) ''tg_bot_token'') acfg_tg_bot_token_update,
      assign (read_member js doc (js_asInt64 js) ''tg_chat_id'') acfg_tg_chat_id_update,
      assign (read_member js doc (js_asBool js) ''tg_send_message'') tg_send_message_update,
      assign_at (read_element js doc (js_asDouble js) ''margin_ratio_thresholds'' 0) 0 margin_ratio_thresholds_update,
      assign_at (read_element js doc (js_asDouble js) ''margin_ratio_thresholds'' 1) 1 margin_ratio_thresholds_update,
      assign_at (read_element js doc (js_asDouble js) ''bnb_balance_thresholds'' 0) 0 bnb_balance_thresholds_update,
      assign_at (read_element js doc (js_asDouble js) ''bnb_balance_thresholds'' 1) 1 bnb_balance_thresholds_update,
      assign (read_member js doc (js_asInt js) ''order_size_zoom'') acfg_order_size_zoom_update,
      assign (read_member js doc (js_asInt js) ''max_position_zoom'') acfg_max_position_zoom_update,
      assign (read_member js doc (js_asString js) ''api_key_hmac'') acfg_api_key_hmac_update,
      assign (read_member js doc (js_asString js) ''secret_key_hmac'') acfg_secret_key_hmac_update,
      assign (read_member js doc (js_asBool js) ''rest_use_intranet'') acfg_rest_use_intranet_update,
      assign (read_member js doc (js_asBool js) ''enable_benchmark_ticker_trigger'') acfg_enable_benchmark_ticker_trigger_update,
      assign (read_member js doc (js_asString js) ''rest_local_ip'') acfg_rest_local_ip_update,
      assign (read_member js doc (js_asBool js) ''enable_follower_ticker_trigger'') acfg_enable_follower_ticker_trigger_update,
      assign (read_member js doc (js_asUInt64 js) ''benchmark_ticker_validity_millis'') acfg_benchmark_ticker_validity_millis_update,
      assign (read_member js doc (js_asUInt64 js) ''follower_ticker_validity_millis'') acfg_follower_ticker_validity_millis_update,
      assign (read_member js doc (js_asUInt64 js) ''threshold_validity_millis'') acfg_threshold_validity_millis_update,
      assign (read_member js doc (js_asInt64 js) ''loop_pause_time_millis'') acfg_loop_pause_time_millis_update,
      assign (read_member js doc (js_asDouble js) ''order_price_margin'') acfg_order_price_margin_update,
      assign (read_member js doc (js_asBool js) ''enable_position_threshold'') acfg_enable_position_threshold_update,
      assign (read_member js doc (js_asDouble js) ''position_threshold_margin'') acfg_position_threshold_margin_update,
      assign (read_member js doc (js_asBool js) ''enable_ticker_size_compare'') acfg_enable_ticker_size_compare_update,
      assign (read_member js doc (js_asInt64 js) ''same_price_pause_time_millis'') acfg_same_price_pause_time_millis_update,
      assign (read_member js doc (js_asBool js) ''enable_write_parameter_log'') acfg_enable_write_parameter_log_update,
      assign (read_member js doc (js_asBool js) ''enable_write_sampling_log'') acfg_enable_write_sampling_log_update,
      assign (read_member js doc (js_asString js) ''benchmark_quote_asset'') acfg_benchmark_quote_asset_update,
      assign (read_member js doc (js_asString js) ''follower_quote_asset'') acfg_follower_quote_asset_update,
      assign (read_member js doc (js_asBool js) ''shm_group_main_node'') acfg_shm_group_main_node_update,
      assign (read_member js doc (js_asBool js) ''dt_group_main_node'') dt_group_main_node_update,
      assign (read_member js doc (js_asString js) ''zmq_ipc_order_stat'') acfg_zmq_ipc_order_stat_update,
      assign (read_member js doc (js_asBool js) ''enable_load_order_to_zmq'') acfg_enable_load_order_to_zmq_update,
      assign (read_member js doc (js_asBool js) ''enable_save_no_volume_order'') acfg_enable_save_no_volume_order_update,
      push_back_all (read_elements js doc (js_asString js) ''node_base_assets'') acfg_node_base_assets_update,
      push_back_all (read_elements js doc (js_asString js) ''node_close_base_assets'') acfg_node_close_base_assets_update,
      push_back_all (read_elements js doc (js_asString js) ''all_base_assets'') acfg_all_base_assets_update,
      assign (read_member js doc (js_asBool js) ''process_account_settings'') acfg_process_account_settings_update,
      assign (read_member js doc (js_asInt js) ''initial_leverage'') acfg_initial_leverage_update,
      assign (read_member js doc (js_asString js) ''margin_type'') acfg_margin_type_update,
      assign (read_member js doc (js_asBool js) ''multi_assets_margin'') acfg_multi_assets_margin_update,
      assign (read_member js doc (js_asBool js) ''position_side_dual'') acfg_position_side_dual_update,
      assign (read_member js doc (js_asInt js) ''share_memory_project_id'') acfg_share_memory_project_id_update,
      assign (read_member js doc (js_asString js) ''share_memory_path_benchmark_ticker'') acfg_share_memory_path_benchmark_ticker_update,
      assign (read_member js doc (js_asString js) ''share_memory_path_follower_ticker'') acfg_share_memory_path_follower_ticker_update,
      assign (read_member js doc (js_asString js) ''share_memory_path_early_run'') acfg_share_memory_path_early_run_update,
      assign (read_member js doc (js_asString js) ''share_memory_path_benchmark_beta'') acfg_share_memory_path_benchmark_beta_update,
      assign (read_member js doc (js_asString js) ''share_memory_path_follower_beta'') acfg_share_memory_path_follower_beta_update,
      assign (read_member js doc (js_asString js) ''share_memory_path_order'') acfg_share_memory_path_order_update]"

definition loadActuaryConfig :: "'j JsonLib \<Rightarrow> string option \<Rightarrow> CommonConfig \<times> ActuaryConfigFile
    \<Rightarrow> (bool \<times> CommonConfig \<times> ActuaryConfigFile) result" where
  "loadActuaryConfig js = load_own (actuary_steps js) js"

section \<open>The receiver\<close>

record UDPTickerIPC =
  ui_mmap_file :: string
  ui_host :: string
  ui_port :: int

definition udp_ipc :: "'j JsonLib \<Rightarrow> 'j \<Rightarrow> UDPTickerIPC result" where
  "udp_ipc js item = bind_result (read_member js item (js_asString js) ''mmap_file'') (\<lambda>mmap_file.
     bind_result (read_member js item (js_asString js) ''host'') (\<lambda>host.
     bind_result (read_member js item (js_asInt js) ''port'') (\<lambda>port.
       Inr \<lparr>ui_mmap_file = mmap_file, ui_host = host, ui_port = port\<rparr>)))"

record ReceiverConfigFile = ReceiverConfig +
  rcfg_benchmark_inst_config_file :: string
  rcfg_follower_inst_config_file :: string
  rcfg_use_ticker_source :: string
  rcfg_normal_ticker_use_intranet :: bool
  rcfg_normal_ticker_local_ip :: string
  rcfg_ticker_zmq_ipcs :: "string list"
  rcfg_ticker_udp_ipcs :: "UDPTickerIPC list"
  rcfg_stats_interval_seconds :: u64
  rcfg_enable_beta_strategy :: bool
  rcfg_enable_early_run_strategy :: bool
  rcfg_share_memory_project_id :: int
  rcfg_share_memory_path_benchmark_ticker :: string
  rcfg_share_memory_path_follower_ticker :: string
  rcfg_share_memory_path_early_run :: string
  rcfg_share_memory_path_benchmark_beta :: string
  rcfg_share_memory_path_follower_beta :: string

definition receiver_steps :: "'j JsonLib \<Rightarrow> 'j \<Rightarrow> (ReceiverConfigFile \<Rightarrow> ReceiverConfigFile result) list" where
  "receiver_steps js doc =
     [assign (read_member js doc (js_asString js) ''benchmark_inst_config_file'') rcfg_benchmark_inst_config_file_update,
      assign (read_member js doc (js_asString js) ''follower_inst_config_file'') rcfg_follower_inst_config_file_update,
      assign (read_member js doc (js_asString js) ''use_ticker_source'') rcfg_use_ticker_source_update,
      assign (read_member js doc (js_asBool js) ''normal_ticker_use_intranet'') rcfg_normal_ticker_use_intranet_update,
      assign (read_member js doc (js_asString js) ''normal_ticker_local_ip'') rcfg_normal_ticker_local_ip_update,
      push_back_all (read_elements js doc (js_asString js) ''ticker_zmq_ipcs'') rcfg_ticker_zmq_ipcs_update,
      push_back_all (read_elements js doc (udp_ipc js) ''ticker_udp_ipcs'') rcfg_ticker_udp_ipcs_update,
      assign (read_member js doc (js_asUInt64 js) ''calculate_sma_interval_seconds'') rcfg_calculate_sma_interval_seconds_update,
      assign (read_member js doc (js_asUInt64 js) ''stats_interval_seconds'') rcfg_stats_interval_seconds_update,
      assign (read_member js doc (js_asString js) ''benchmark_quote_asset'') rcfg_benchmark_quote_asset_update,
      assign (read_member js doc (js_asString js) ''follower_quote_asset'') rcfg_follower_quote_asset_update,
      assign (read_member js doc (js_asBool js) ''group_main_node'') rcfg_group_main_node_update,
      push_back_all (read_elements js doc (js_asString js) ''node_base_assets'') rcfg_node_base_assets_update,
      push_back_all (read_elements js doc (js_asString js) ''all_base_assets'') rcfg_all_base_assets_update,
      assign (read_member js doc (js_asBool js) ''enable_beta_strategy'') rcfg_enable_beta_strategy_update,
      assign (read_member js doc (js_asBool js) ''enable_early_run_strategy'') rcfg_enable_early_run_strategy_update,
      assign (read_member js doc (js_asString js) ''early_run_calculation_type'') rcfg_early_run_calculation_type_update,
      assign (read_member js doc (js_asInt js) ''share_memory_project_id'') rcfg_share_memory_project_id_update,
      assign (read_member js doc (js_asString js) ''share_memory_path_benchmark_ticker'') rcfg_share_memory_path_benchmark_ticker_update,
      assign (read_member js doc (js_asString js) ''share_memory_path_follower_ticker'') rcfg_share_memory_path_follower_ticker_update,
      assign (read_member js doc (js_asString js) ''share_memory_path_early_run'') rcfg_share_memory_path_early_run_update,
      assign (read_member js doc (js_asString js) ''share_memory_path_benchmark_beta'') rcfg_share_memory_path_benchmark_beta_update,
      assign (read_member js doc (js_asString js) ''share_memory_path_follower_beta'') rcfg_share_memory_path_follower_beta_update]"

definition loadReceiverConfig :: "'j JsonLib \<Rightarrow> string option \<Rightarrow> CommonConfig \<times> ReceiverConfigFile
    \<Rightarrow> (bool \<times> CommonConfig \<times> ReceiverConfigFile) result" where
  "loadReceiverConfig js = load_own (receiver_steps js) js"

section \<open>The trader\<close>

record TraderConfigFile = TraderConfig +
  tcfg_api_key_ed25519 :: string
  tcfg_secret_key_ed25519 :: string
  tcfg_trade_use_intranet :: bool
  tcfg_trade_local_ip :: string
  tcfg_loop_pause_time_micros :: i64
  tcfg_share_memory_project_id :: int
  tcfg_share_memory_path_order :: string
  tcfg_best_path_rest_urls :: "string list"
  tcfg_best_path_zmq_ipcs :: "string list"

definition trader_steps :: "'j JsonLib \<Rightarrow> 'j \<Rightarrow> (TraderConfigFile \<Rightarrow> TraderConfigFile result) list" where
  "trader_steps js doc =
     [assign (read_member js doc (js_asString js) ''api_key_ed25519'') tcfg_api_key_ed25519_update,
      assign (read_member js doc (js_asString js) ''secret_key_ed25519'') tcfg_secret_key_ed25519_update,
      assign (read_member js doc (js_asBool js) ''trade_use_intranet'') tcfg_trade_use_intranet_update,
      assign (read_member js doc (js_asString js) ''trade_local_ip'') tcfg_trade_local_ip_update,
      assign (read_member js doc (js_asBool js) ''open_place_order'') tcfg_open_place_order_update,
      assign (read_member js doc (js_asInt64 js) ''order_validity_micros'') tcfg_order_validity_micros_update,
      assign (read_member js doc (js_asInt64 js) ''loop_pause_time_micros'') tcfg_loop_pause_time_micros_update,
      assign (read_member js doc (js_asInt64 js) ''place_order_interval_millis'') tcfg_place_order_interval_millis_update,
      assign (read_member js doc (js_asInt js) ''order_account_limit_per_minute'') tcfg_order_account_limit_per_minute_update,
      assign (read_member js doc (js_asInt js) ''order_account_limit_per_10seconds'') tcfg_order_account_limit_per_10seconds_update,
      assign (read_member js doc (js_asInt js) ''order_ip_limit_per_minute'') tcfg_order_ip_limit_per_minute_update,
      assign (read_member js doc (js_asInt js) ''order_ip_limit_per_10seconds'') tcfg_order_ip_limit_per_10seconds_update,
      assign (read_member js doc (js_asString js) ''benchmark_quote_asset'') tcfg_benchmark_quote_asset_update,
      assign (read_member js doc (js_asString js) ''follower_quote_asset'') tcfg_follower_quote_asset_update,
      push_back_all (read_elements js doc (js_asString js) ''node_base_assets'') tcfg_node_base_assets_update,
      push_back_all (read_elements js doc (js_asString js) ''all_base_assets'') tcfg_all_base_assets_update,
      assign (read_member js doc (js_asInt js) ''share_memory_project_id'') tcfg_share_memory_project_id_update,
      assign (read_member js doc (js_asString js) ''share_memory_path_order'') tcfg_share_memory_path_order_update,
      push_back_all (read_elements js doc (js_asString js) ''best_path_rest_urls'') tcfg_best_path_rest_urls_update,
      push_back_all (read_elements js doc (js_asString js) ''best_path_zmq_ipcs'') tcfg_best_path_zmq_ipcs_update,
      assign (read_member js doc (js_asBool js) ''trading_use_best_path'') tcfg_trading_use_best_path_update]"

definition loadTraderConfig :: "'j JsonLib \<Rightarrow> string option \<Rightarrow> CommonConfig \<times> TraderConfigFile
    \<Rightarrow> (bool \<times> CommonConfig \<times> TraderConfigFile) result" where
  "loadTraderConfig js = load_own (trader_steps js) js"

section \<open>The evaluator\<close>

record EvaluatorConfig = 
  ecfg_db_host :: string
  ecfg_db_port :: int
  ecfg_db_username :: string
  ecfg_db_password :: string
  ecfg_db_database :: string
  ecfg_order_stat_zmq_ipcs :: "string list"
  ecfg_accounts_need_statistics :: "string list"
  ecfg_normal_ticker_local_ip :: string

definition evaluator_steps :: "'j JsonLib \<Rightarrow> 'j \<Rightarrow> (EvaluatorConfig \<Rightarrow> EvaluatorConfig result) list" where
  "evaluator_steps js doc =
     [assign (read_member js doc (js_asString js) ''db_host'') ecfg_db_host_update,
      assign (read_member js doc (js_asUInt js) ''db_port'') ecfg_db_port_update,
      assign (read_member js doc (js_asString js) ''db_username'') ecfg_db_username_update,
      assign (read_member js doc (js_asString js) ''db_password'') ecfg_db_password_update,
      assign (read_member js doc (js_asString js) ''db_database'') ecfg_db_database_update,
      push_back_all (read_elements js doc (js_asString js) ''order_stat_zmq_ipcs'') ecfg_order_stat_zmq_ipcs_update,
      push_back_all (read_elements js doc (js_asString js) ''accounts_need_statistics'') ecfg_accounts_need_statistics_update,
      assign (read_member js doc (js_asString js) ''normal_ticker_local_ip'') ecfg_normal_ticker_local_ip_update]"

definition loadEvaluatorConfig :: "'j JsonLib \<Rightarrow> string option \<Rightarrow> CommonConfig \<times> EvaluatorConfig
    \<Rightarrow> (bool \<times> CommonConfig \<times> EvaluatorConfig) result" where
  "loadEvaluatorConfig js = load_own (evaluator_steps js) js"

section \<open>The test program\<close>

record MainConfig = 
  mcfg_api_key_hmac :: string
  mcfg_secret_key_hmac :: string
  mcfg_rest_use_intranet :: bool
  mcfg_rest_local_ip :: string
  mcfg_api_key_ed25519 :: string
  mcfg_secret_key_ed25519 :: string
  mcfg_zmq_ipc :: string

definition main_steps :: "'j JsonLib \<Rightarrow> 'j \<Rightarrow> (MainConfig \<Rightarrow> MainConfig result) list" where
  "main_steps js doc =
     [assign (read_member js doc (js_asString js) ''api_key_hmac'') mcfg_api_key_hmac_update,
      assign (read_member js doc (js_asString js) ''secret_key_hmac'') mcfg_secret_key_hmac_update,
      assign (read_member js doc (js_asBool js) ''rest_use_intranet'') mcfg_rest_use_intranet_update,
      assign (read_member js doc (js_asString js) ''rest_local_ip'') mcfg_rest_local_ip_update,
      assign (read_member js doc (js_asString js) ''api_key_ed25519'') mcfg_api_key_ed25519_update,
      assign (read_member js doc (js_asString js) ''secret_key_ed25519'') mcfg_secret_key_ed25519_update,
      assign (read_member js doc (js_asString js) ''zmq_ipc'') mcfg_zmq_ipc_update]"

definition loadMainConfig :: "'j JsonLib \<Rightarrow> string option \<Rightarrow> CommonConfig \<times> MainConfig
    \<Rightarrow> (bool \<times> CommonConfig \<times> MainConfig) result" where
  "loadMainConfig js = load_own (main_steps js) js"
section \<open>Typed documents\<close>

text \<open>The type that a loader expects of each member, and when a document has it.\<close>

datatype json_kind = KBool | KInt | KUInt | KInt64 | KUInt64 | KDouble | KString | KDoubleAt nat | KStrings | KUdpIpcs

definition succeeds :: "'a result \<Rightarrow> bool" where
  "succeeds r \<longleftrightarrow> (case r of Inl _ \<Rightarrow> False | Inr _ \<Rightarrow> True)"

fun member_typed :: "'j JsonLib \<Rightarrow> 'j \<Rightarrow> string \<times> json_kind \<Rightarrow> bool" where
  "member_typed js doc (key, KBool) = succeeds (read_member js doc (js_asBool js) key)"
| "member_typed js doc (key, KInt) = succeeds (read_member js doc (js_asInt js) key)"
| "member_typed js doc (key, KUInt) = succeeds (read_member js doc (js_asUInt js) key)"
| "member_typed js doc (key, KInt64) = succeeds (read_member js doc (js_asInt64 js) key)"
| "member_typed js doc (key, KUInt64) = succeeds (read_member js doc (js_asUInt64 js) key)"
| "member_typed js doc (key, KDouble) = succeeds (read_member js doc (js_asDouble js) key)"
| "member_typed js doc (key, KString) = succeeds (read_member js doc (js_asString js) key)"
| "member_typed js doc (key, KDoubleAt i) = succeeds (read_element js doc (js_asDouble js) key i)"
| "member_typed js doc (key, KStrings) = succeeds (read_elements js doc (js_asString js) key)"
| "member_typed js doc (key, KUdpIpcs) = succeeds (read_elements js doc (udp_ipc js) key)"

definition document_typed :: "'j JsonLib \<Rightarrow> (string \<times> json_kind) list \<Rightarrow> 'j \<Rightarrow> bool" where
  "document_typed js schema doc \<longleftrightarrow> list_all (member_typed js doc) schema"

definition common_schema :: "(string \<times> json_kind) list" where
  "common_schema = [(''logger_name'', KString), (''logger_file_path'', KString), (''logger_level'', KInt), (''logger_max_files'', KInt)]"

definition actuary_schema :: "(string \<times> json_kind) list" where
  "actuary_schema =
     [(''stop_make_order'', KBool), (''make_position_close_only'', KBool), (''account_flag'', KString), (''db_host'', KString),
      (''db_port'', KUInt), (''db_username'', KString), (''db_password'', KString), (''db_database'', KString),
      (''benchmark_inst_config_file'', KString), (''follower_inst_config_file'', KString), (''tg_bot_token'', KString),
      (''tg_chat_id'', KInt64), (''tg_send_message'', KBool), (''margin_ratio_thresholds'', KDoubleAt 0),
      (''margin_ratio_thresholds'', KDoubleAt 1), (''bnb_balance_thresholds'', KDoubleAt 0),
      (''bnb_balance_thresholds'', KDoubleAt 1), (''order_size_zoom'', KInt), (''max_position_zoom'', KInt),
      (''api_key_hmac'', KString), (''secret_key_hmac'', KString), (''rest_use_intranet'', KBool),
      (''enable_benchmark_ticker_trigger'', KBool), (''rest_local_ip'', KString), (''enable_follower_ticker_trigger'', KBool),
      (''benchmark_ticker_validity_millis'', KUInt64), (''follower_ticker_validity_millis'', KUInt64),
      (''threshold_validity_millis'', KUInt64), (''loop_pause_time_millis'', KInt64), (''order_price_margin'', KDouble),
      (''enable_position_threshold'', KBool), (''position_threshold_margin'', KDouble),
      (''enable_ticker_size_compare'', KBool), (''same_price_pause_time_millis'', KInt64),
      (''enable_write_parameter_log'', KBool), (''enable_write_sampling_log'', KBool), (''benchmark_quote_asset'', KString),
      (''follower_quote_asset'', KString), (''shm_group_main_node'', KBool), (''dt_group_main_node'', KBool),
      (''zmq_ipc_order_stat'', KString), (''enable_load_order_to_zmq'', KBool), (''enable_save_no_volume_order'', KBool),
      (''node_base_assets'', KStrings), (''node_close_base_assets'', KStrings), (''all_base_assets'', KStrings),
      (''process_account_settings'', KBool), (''initial_leverage'', KInt), (''margin_type'', KString),
      (''multi_assets_margin'', KBool), (''position_side_dual'', KBool), (''share_memory_project_id'', KInt),
      (''share_memory_path_benchmark_ticker'', KString), (''share_memory_path_follower_ticker'', KString),
      (''share_memory_path_early_run'', KString), (''share_memory_path_benchmark_beta'', KString),
      (''share_memory_path_follower_beta'', KString), (''share_memory_path_order'', KString)]"

definition receiver_schema :: "(string \<times> json_kind) list" where
  "receiver_schema =
     [(''benchmark_inst_config_file'', KString), (''follower_inst_config_file'', KString), (''use_ticker_source'', KString),
      (''normal_ticker_use_intranet'', KBool), (''normal_ticker_local_ip'', KString), (''ticker_zmq_ipcs'', KStrings),
      (''ticker_udp_ipcs'', KUdpIpcs), (''calculate_sma_interval_seconds'', KUInt64), (''stats_interval_seconds'', KUInt64),
      (''benchmark_quote_asset'', KString), (''follower_quote_asset'', KString), (''group_main_node'', KBool),
      (''node_base_assets'', KStrings), (''all_base_assets'', KStrings), (''enable_beta_strategy'', KBool),
      (''enable_early_run_strategy'', KBool), (''early_run_calculation_type'', KString), (''share_memory_project_id'', KInt),
      (''share_memory_path_benchmark_ticker'', KString), (''share_memory_path_follower_ticker'', KString),
      (''share_memory_path_early_run'', KString), (''share_memory_path_benchmark_beta'', KString),
      (''share_memory_path_follower_beta'', KString)]"

definition trader_schema :: "(string \<times> json_kind) list" where
  "trader_schema =
     [(''api_key_ed25519'', KString), (''secret_key_ed25519'', KString), (''trade_use_intranet'', KBool),
      (''trade_local_ip'', KString), (''open_place_order'', KBool), (''order_validity_micros'', KInt64),
      (''loop_pause_time_micros'', KInt64), (''place_order_interval_millis'', KInt64),
      (''order_account_limit_per_minute'', KInt), (''order_account_limit_per_10seconds'', KInt),
      (''order_ip_limit_per_minute'', KInt), (''order_ip_limit_per_10seconds'', KInt), (''benchmark_quote_asset'', KString),
      (''follower_quote_asset'', KString), (''node_base_assets'', KStrings), (''all_base_assets'', KStrings),
      (''share_memory_project_id'', KInt), (''share_memory_path_order'', KString), (''best_path_rest_urls'', KStrings),
      (''best_path_zmq_ipcs'', KStrings), (''trading_use_best_path'', KBool)]"

definition evaluator_schema :: "(string \<times> json_kind) list" where
  "evaluator_schema =
     [(''db_host'', KString), (''db_port'', KUInt), (''db_username'', KString), (''db_password'', KString), (''db_database'', KString),
      (''order_stat_zmq_ipcs'', KStrings), (''accounts_need_statistics'', KStrings), (''normal_ticker_local_ip'', KString)]"

definition main_schema :: "(string \<times> json_kind) list" where
  "main_schema =
     [(''api_key_hmac'', KString), (''secret_key_hmac'', KString), (''rest_use_intranet'', KBool), (''rest_local_ip'', KString),
      (''api_key_ed25519'', KString), (''secret_key_ed25519'', KString), (''zmq_ipc'', KString)]"

lemma succeeds_iff: "succeeds r \<longleftrightarrow> (\<exists>x. r = Inr x)"
  by (cases r) (simp_all add: succeeds_def)

lemma succeeds_simps [simp]: "succeeds (Inr x)" "\<not> succeeds (Inl e)"
  by (simp_all add: succeeds_def)

text \<open>Whether an assignment succeeds does not depend on the object.\<close>

definition step_ok :: "('c \<Rightarrow> 'c result) \<Rightarrow> bool \<Rightarrow> bool" where
  "step_ok s b \<longleftrightarrow> (\<forall>c. succeeds (s c) = b)"

lemma assign_ok [simp]: "step_ok (assign value upd) (succeeds value)"
  by (cases "value") (simp_all add: step_ok_def assign_def)

lemma push_back_all_ok [simp]: "step_ok (push_back_all values upd) (succeeds values)"
  by (cases "values") (simp_all add: step_ok_def push_back_all_def)

lemma assign_at_ok [simp]: "step_ok (assign_at value i upd) (succeeds value)"
  by (cases "value") (simp_all add: step_ok_def assign_at_def)

lemma run_steps_succeeds:
  assumes "list_all2 step_ok steps bs"
  shows "succeeds (run_steps steps c) \<longleftrightarrow> (\<forall>b \<in> set bs. b)"
  using assms
proof (induction arbitrary: c rule: list_all2_induct)
  case (Cons s ss b bs)
  then show ?case by (cases "s c") (auto simp: step_ok_def succeeds_def split: sum.splits)
qed simp

lemma run_steps_typed:
  assumes "list_all2 step_ok steps (map (member_typed js doc) schema)"
  shows "succeeds (run_steps steps c) \<longleftrightarrow> document_typed js schema doc"
  using run_steps_succeeds[OF assms] by (simp add: document_typed_def list_all_iff)

lemma common_steps_ok: "list_all2 step_ok (common_steps js doc) (map (member_typed js doc) common_schema)"
  by (simp add: common_steps_def common_schema_def)

lemma actuary_steps_ok: "list_all2 step_ok (actuary_steps js doc) (map (member_typed js doc) actuary_schema)"
  by (simp add: actuary_steps_def actuary_schema_def)

lemma receiver_steps_ok: "list_all2 step_ok (receiver_steps js doc) (map (member_typed js doc) receiver_schema)"
  by (simp add: receiver_steps_def receiver_schema_def)

lemma trader_steps_ok: "list_all2 step_ok (trader_steps js doc) (map (member_typed js doc) trader_schema)"
  by (simp add: trader_steps_def trader_schema_def)

lemma evaluator_steps_ok: "list_all2 step_ok (evaluator_steps js doc) (map (member_typed js doc) evaluator_schema)"
  by (simp add: evaluator_steps_def evaluator_schema_def)

lemma main_steps_ok: "list_all2 step_ok (main_steps js doc) (map (member_typed js doc) main_schema)"
  by (simp add: main_steps_def main_schema_def)

text \<open>A loader succeeds exactly on typed documents.\<close>

lemma load_own_typed:
  assumes "load_config_file js file = Some doc"
    and "list_all2 step_ok (steps doc) (map (member_typed js doc) schema)"
  shows "succeeds (load_own steps js file config) \<longleftrightarrow> document_typed js common_schema doc \<and> document_typed js schema doc"
proof -
  obtain base c where c: "config = (base, c)" by fastforce
  note common = run_steps_typed[OF common_steps_ok, of js doc base] and own = run_steps_typed[OF assms(2), of c]
  show ?thesis
    using common own
    by (cases "run_steps (common_steps js doc) base"; cases "run_steps (steps doc) c")
      (simp_all add: load_own_def load_config_def assms(1) c)
qed

lemma load_own_result:
  assumes "load_own steps js file (base, c) = Inr (True, base', c')"
  obtains doc where "load_config_file js file = Some doc" "run_steps (steps doc) c = Inr c'"
  using assms by (auto simp: load_own_def load_config_def bind_result_Inr_iff split: option.splits)

text \<open>What a field holds after a load: the steps that do not write it leave it, and the one that does determines it.\<close>

definition keeps :: "('c \<Rightarrow> 'a) \<Rightarrow> ('c \<Rightarrow> 'c result) \<Rightarrow> bool" where
  "keeps g s \<longleftrightarrow> (\<forall>c d. s c = Inr d \<longrightarrow> g d = g c)"

lemma keeps_assign [simp]: "(\<And>f c. g (upd f c) = g c) \<Longrightarrow> keeps g (assign value upd)"
  by (auto simp: keeps_def assign_def bind_result_Inr_iff)

lemma keeps_push_back_all [simp]: "(\<And>f c. g (upd f c) = g c) \<Longrightarrow> keeps g (push_back_all values upd)"
  by (auto simp: keeps_def push_back_all_def bind_result_Inr_iff)

lemma keeps_assign_at [simp]: "(\<And>x c. g (upd (\<lambda>old. old[i := x]) c) = g c) \<Longrightarrow> keeps g (assign_at value i upd)"
  by (auto simp: keeps_def assign_at_def bind_result_Inr_iff)

lemma run_steps_keeps: "run_steps ss c = Inr c' \<Longrightarrow> list_all (keeps g) ss \<Longrightarrow> g c' = g c"
  by (induction ss arbitrary: c) (auto simp: keeps_def bind_result_Inr_iff)

lemma run_steps_append: "run_steps (ss @ ts) c = bind_result (run_steps ss c) (run_steps ts)"
  by (induction ss arbitrary: c) (auto simp: bind_result_def split: sum.splits)

lemma run_steps_writes:
  assumes "run_steps ss c = Inr c'" and "n < length ss"
    and "list_all (keeps g) (take n ss)" and "list_all (keeps g) (drop (Suc n) ss)"
  obtains d d' where "(ss ! n) d = Inr d'" "g d = g c" "g c' = g d'"
proof -
  have "ss = take n ss @ ss ! n # drop (Suc n) ss" using assms(2) by (rule id_take_nth_drop)
  with assms(1) have "run_steps (take n ss @ ss ! n # drop (Suc n) ss) c = Inr c'" by simp
  then obtain d d' where "run_steps (take n ss) c = Inr d" "(ss ! n) d = Inr d'" "run_steps (drop (Suc n) ss) d' = Inr c'"
    by (auto simp: run_steps_append bind_result_Inr_iff)
  with that show thesis using run_steps_keeps assms(3,4) by metis
qed

lemma run_steps_assign:
  assumes "run_steps ss c = Inr c'" and "n < length ss" and "ss ! n = assign value upd" and "\<And>f c. g (upd f c) = f (g c)"
    and "list_all (keeps g) (take n ss)" and "list_all (keeps g) (drop (Suc n) ss)"
  shows "value = Inr (g c')"
proof -
  obtain d d' where "assign value upd d = Inr d'" "g c' = g d'"
    using run_steps_writes[OF assms(1,2,5,6)] assms(3) by metis
  then show ?thesis using assms(4) by (auto simp: assign_def bind_result_Inr_iff)
qed

lemma run_steps_push_back:
  assumes "run_steps ss c = Inr c'" and "n < length ss" and "ss ! n = push_back_all values upd" and "\<And>f c. g (upd f c) = f (g c)"
    and "list_all (keeps g) (take n ss)" and "list_all (keeps g) (drop (Suc n) ss)"
  shows "\<exists>xs. values = Inr xs \<and> g c' = g c @ xs"
proof -
  obtain d d' where "push_back_all values upd d = Inr d'" "g d = g c" "g c' = g d'"
    using run_steps_writes[OF assms(1,2,5,6)] assms(3) by metis
  then show ?thesis using assms(4) by (auto simp: push_back_all_def bind_result_Inr_iff)
qed

text \<open>What the programs are configured with: the members that decide on trading, and the assets.\<close>

lemma actuary_stop_read:
  assumes "run_steps (actuary_steps js doc) c = Inr c'"
  shows "read_member js doc (js_asBool js) ''stop_make_order'' = Inr (acfg_stop_make_order c')"
  by (rule run_steps_assign[OF assms, of 0 _ acfg_stop_make_order_update]) (simp_all add: actuary_steps_def)

lemma actuary_close_only_read:
  assumes "run_steps (actuary_steps js doc) c = Inr c'"
  shows "read_member js doc (js_asBool js) ''make_position_close_only'' = Inr (acfg_make_position_close_only c')"
  by (rule run_steps_assign[OF assms, of 1 _ acfg_make_position_close_only_update]) (simp_all add: actuary_steps_def)

lemma actuary_assets_read:
  assumes "run_steps (actuary_steps js doc) c = Inr c'"
  shows "\<exists>xs. read_elements js doc (js_asString js) ''node_base_assets'' = Inr xs
    \<and> acfg_node_base_assets c' = acfg_node_base_assets c @ xs"
  by (rule run_steps_push_back[OF assms, of 43 _ acfg_node_base_assets_update]) (simp_all add: actuary_steps_def)

lemma actuary_main_node_read:
  assumes "run_steps (actuary_steps js doc) c = Inr c'"
  shows "read_member js doc (js_asBool js) ''shm_group_main_node'' = Inr (acfg_shm_group_main_node c')"
  by (rule run_steps_assign[OF assms, of 38 _ acfg_shm_group_main_node_update]) (simp_all add: actuary_steps_def)

lemma actuary_thresholds_kept:
  assumes "run_steps (actuary_steps js doc) c = Inr c'"
  shows "valid_thresholds (ActuaryConfig.truncate c') \<longleftrightarrow> valid_thresholds (ActuaryConfig.truncate c)"
proof -
  have "length (margin_ratio_thresholds c') = length (margin_ratio_thresholds c)"
    using run_steps_keeps[OF assms, where g = "\<lambda>c. length (margin_ratio_thresholds c)"] by (simp add: actuary_steps_def)
  moreover have "length (bnb_balance_thresholds c') = length (bnb_balance_thresholds c)"
    using run_steps_keeps[OF assms, where g = "\<lambda>c. length (bnb_balance_thresholds c)"] by (simp add: actuary_steps_def)
  ultimately show ?thesis by (simp add: valid_thresholds_def ActuaryConfig.defs)
qed

lemma trader_open_read:
  assumes "run_steps (trader_steps js doc) c = Inr c'"
  shows "read_member js doc (js_asBool js) ''open_place_order'' = Inr (tcfg_open_place_order c')"
  by (rule run_steps_assign[OF assms, of 4 _ tcfg_open_place_order_update]) (simp_all add: trader_steps_def)

lemma trader_assets_read:
  assumes "run_steps (trader_steps js doc) c = Inr c'"
  shows "\<exists>xs. read_elements js doc (js_asString js) ''node_base_assets'' = Inr xs
    \<and> tcfg_node_base_assets c' = tcfg_node_base_assets c @ xs"
  by (rule run_steps_push_back[OF assms, of 14 _ tcfg_node_base_assets_update]) (simp_all add: trader_steps_def)

section \<open>The entry points\<close>

text \<open>
  How every program begins: without an argument it prints its usage and returns 0, if the loader returns false it returns 1, an exception of
  the loader ends it, and otherwise it goes on with the configuration. \<open>files\<close> is the file system.
\<close>

datatype 'c start_up = Returned int | Configured CommonConfig 'c

definition program_start :: "(string option \<Rightarrow> CommonConfig \<times> 'c \<Rightarrow> (bool \<times> CommonConfig \<times> 'c) result)
    \<Rightarrow> (string \<rightharpoonup> string) \<Rightarrow> string list \<Rightarrow> CommonConfig \<times> 'c \<Rightarrow> 'c start_up result" where
  "program_start load files argv config =
     (if length argv < 2 then Inr (Returned 0)
      else bind_result (load (files (argv ! 1)) config) (\<lambda>(ok, base, c).
        Inr (if \<not> ok then Returned 1 else Configured base c)))"

definition actuary_program :: "'j JsonLib \<Rightarrow> (string \<rightharpoonup> string) \<Rightarrow> string list \<Rightarrow> CommonConfig \<times> ActuaryConfigFile
    \<Rightarrow> ActuaryConfigFile start_up result" where
  "actuary_program js = program_start (loadActuaryConfig js)"

definition trader_program :: "'j JsonLib \<Rightarrow> (string \<rightharpoonup> string) \<Rightarrow> string list \<Rightarrow> CommonConfig \<times> TraderConfigFile
    \<Rightarrow> TraderConfigFile start_up result" where
  "trader_program js = program_start (loadTraderConfig js)"

definition evaluator_program :: "'j JsonLib \<Rightarrow> (string \<rightharpoonup> string) \<Rightarrow> string list \<Rightarrow> CommonConfig \<times> EvaluatorConfig
    \<Rightarrow> EvaluatorConfig start_up result" where
  "evaluator_program js = program_start (loadEvaluatorConfig js)"

definition receiver_program :: "'j JsonLib \<Rightarrow> (string \<rightharpoonup> string) \<Rightarrow> string list \<Rightarrow> CommonConfig \<times> ReceiverConfigFile
    \<Rightarrow> ReceiverConfigFile start_up result" where
  "receiver_program js = program_start (loadReceiverConfig js)"

text \<open>The feed that the receiver subscribes to; any other source leaves it without one.\<close>

datatype ticker_feed = NormalTicker | ZmqBestTicker | UdpTicker

definition receiver_feed :: "ReceiverConfigFile \<Rightarrow> ticker_feed option" where
  "receiver_feed config =
     (if rcfg_use_ticker_source config = ''normal'' then Some NormalTicker
      else if rcfg_use_ticker_source config = ''zmq'' then Some ZmqBestTicker
      else if rcfg_use_ticker_source config = ''udp'' then Some UdpTicker
      else None)"

section \<open>Missing and malformed files\<close>

text \<open>What jsoncpp documents for the null value, which every absent member is.\<close>

definition null_value :: "'j JsonLib \<Rightarrow> 'j \<Rightarrow> bool" where
  "null_value js null \<longleftrightarrow> (\<forall>key. js_member js null key = Inr null) \<and> (\<forall>i. js_element js null i = Inr null) \<and> js_size js null = 0
     \<and> js_asBool js null = Inr False \<and> js_asInt js null = Inr 0 \<and> js_asUInt js null = Inr 0 \<and> js_asInt64 js null = Inr 0
     \<and> js_asUInt64 js null = Inr 0 \<and> succeeds (js_asDouble js null) \<and> js_asString js null = Inr []"

lemma null_reads:
  assumes "null_value js null"
  shows "read_member js null (js_asBool js) key = Inr False"
    and "read_member js null (js_asInt js) key = Inr 0"
    and "read_member js null (js_asUInt js) key = Inr 0"
    and "read_member js null (js_asInt64 js) key = Inr 0"
    and "read_member js null (js_asUInt64 js) key = Inr 0"
    and "read_member js null (js_asString js) key = Inr []"
    and "read_elements js null conv key = Inr []"
  using assms by (simp_all add: null_value_def read_member_def read_elements_def)

lemma null_typed:
  assumes "null_value js null"
  shows "member_typed js null (key, kind)"
  using assms by (cases kind) (simp_all add: null_reads null_value_def read_member_def read_element_def)

lemma null_document_typed: "null_value js null \<Longrightarrow> document_typed js schema null"
  by (auto simp: document_typed_def list_all_iff null_typed)

lemma program_configured:
  assumes "program_start (load_own steps js) files argv (base, c) = Inr (Configured base' c')"
  obtains doc where "load_config_file js (files (argv ! 1)) = Some doc" "run_steps (steps doc) c = Inr c'"
proof -
  have "load_own steps js (files (argv ! 1)) (base, c) = Inr (True, base', c')"
    using assms by (cases "load_own steps js (files (argv ! 1)) (base, c)") (auto simp: program_start_def split: if_split_asm)
  then show thesis using that by (rule load_own_result)
qed

lemma program_succeeds:
  assumes "load_config_file js (files (argv ! 1)) = Some doc" "2 \<le> length argv"
    and "document_typed js common_schema doc" "document_typed js schema doc"
    and "list_all2 step_ok (steps doc) (map (member_typed js doc) schema)"
  shows "\<exists>base' c'. program_start (load_own steps js) files argv (base, c) = Inr (Configured base' c')"
proof -
  obtain base' where b: "run_steps (common_steps js doc) base = Inr base'"
    using run_steps_typed[OF common_steps_ok, of js doc base] assms(3) by (auto simp: succeeds_iff)
  obtain c' where "run_steps (steps doc) c = Inr c'"
    using run_steps_typed[OF assms(5), of c] assms(4) by (auto simp: succeeds_iff)
  with b have "load_own steps js (files (argv ! 1)) (base, c) = Inr (True, base', c')"
    by (simp add: load_own_def load_config_def assms(1)[unfolded One_nat_def])
  then show ?thesis using assms(2) by (simp add: program_start_def)
qed

text \<open>A document whose members are all null has every type.\<close>

lemma null_start:
  assumes "null_value js null" and "load_config_file js (files (argv ! 1)) = Some null" and "2 \<le> length argv"
    and "list_all2 step_ok (steps null) (map (member_typed js null) schema)"
  obtains base' c' where "program_start (load_own steps js) files argv (base, c) = Inr (Configured base' c')" "run_steps (steps null) c = Inr c'"
proof -
  obtain base' c' where c: "program_start (load_own steps js) files argv (base, c) = Inr (Configured base' c')"
    using program_succeeds[of js files argv null schema steps base c] null_document_typed[OF assms(1)] assms(2-4) by auto
  then show thesis using that assms(2) by (auto elim: program_configured)
qed

lemma document_typed_append: "document_typed js (schema @ schema') doc \<longleftrightarrow> document_typed js schema doc \<and> document_typed js schema' doc"
  by (simp add: document_typed_def)

lemma program_start_typed:
  assumes "load_config_file js (files (argv ! 1)) = Some doc" and "2 \<le> length argv"
    and "list_all2 step_ok (steps doc) (map (member_typed js doc) schema)"
  shows "succeeds (program_start (load_own steps js) files argv config)
    \<longleftrightarrow> document_typed js common_schema doc \<and> document_typed js schema doc"
  using load_own_typed[of js "files (argv ! 1)" doc steps schema config, OF assms(1,3)] assms(2)
  by (cases "load_own steps js (files (argv ! 1)) config") (auto simp: program_start_def)

section \<open>A sample library\<close>

text \<open>A fragment of the library for the witnesses: null, booleans and objects, and a parser that knows two texts.\<close>

datatype sample_json = CNull | CBool bool | CObject "(string \<times> sample_json) list"

fun sample_member :: "sample_json \<Rightarrow> string \<Rightarrow> sample_json result" where
  "sample_member CNull key = Inr CNull"
| "sample_member (CBool b) key = Inl (Exception ''not an object'')"
| "sample_member (CObject xs) key = Inr (case map_of xs key of None \<Rightarrow> CNull | Some v \<Rightarrow> v)"

fun sample_convert :: "'a \<Rightarrow> (bool \<Rightarrow> 'a) \<Rightarrow> sample_json \<Rightarrow> 'a result" where
  "sample_convert null bool CNull = Inr null"
| "sample_convert null bool (CBool b) = Inr (bool b)"
| "sample_convert null bool (CObject xs) = Inl BadConversion"

definition stop_document :: sample_json where
  "stop_document = CObject [(''stop_make_order'', CBool True)]"

definition sample_jsoncpp :: "sample_json JsonLib" where
  "sample_jsoncpp = \<lparr>js_parse = (\<lambda>text. Inr (if text = ''stop'' then (True, stop_document) else (False, CNull))),
     js_member = sample_member, js_element = (\<lambda>v i. if v = CNull then Inr CNull else Inl BadConversion), js_size = (\<lambda>v. 0),
     js_asBool = sample_convert False (\<lambda>b. b), js_asInt = sample_convert 0 of_bool, js_asUInt = sample_convert 0 of_bool,
     js_asInt64 = sample_convert 0 of_bool, js_asUInt64 = sample_convert 0 of_bool,
     js_asDouble = sample_convert (Fin 0) (\<lambda>b. Fin (of_bool b)), js_asString = sample_convert [] (\<lambda>b. if b then ''true'' else ''false'')\<rparr>"

definition sample_base :: CommonConfig where
  "sample_base = \<lparr>cc_logger_name = [], cc_logger_level = 7, cc_logger_max_files = 7, cc_logger_file_path = []\<rparr>"

definition sample_actuary_file :: ActuaryConfigFile where
  "sample_actuary_file = ActuaryConfig.extend (sample_actuary_config\<lparr>acfg_node_base_assets := [], acfg_all_base_assets := []\<rparr>)
     (ActuaryConfigFile.fields [] 0 [] [] [] [] [] [] 0 [] [] False [] 0 False False [] False 0 [] False False 0 [] [] [] [] [] [])"

definition sample_trader_file :: TraderConfigFile where
  "sample_trader_file = TraderConfig.extend (sample_trader_config\<lparr>tcfg_node_base_assets := [], tcfg_all_base_assets := []\<rparr>)
     (TraderConfigFile.fields [] [] False [] 0 0 [] [] [])"

lemma sample_null: "null_value sample_jsoncpp CNull"
  by (simp add: null_value_def sample_jsoncpp_def)

lemma sample_stop_member:
  "js_member sample_jsoncpp stop_document key = Inr (if key = ''stop_make_order'' then CBool True else CNull)"
  by (simp add: sample_jsoncpp_def stop_document_def)

lemma sample_stop_typed:
  assumes "key \<noteq> ''stop_make_order''"
  shows "member_typed sample_jsoncpp stop_document (key, kind)"
  using sample_null assms
  by (cases kind) (simp_all add: read_member_def read_element_def read_elements_def sample_stop_member null_value_def)

lemma sample_stop_schemas:
  "document_typed sample_jsoncpp common_schema stop_document" "document_typed sample_jsoncpp actuary_schema stop_document"
proof -
  have "member_typed sample_jsoncpp stop_document (''stop_make_order'', KBool)"
    by (simp add: read_member_def sample_stop_member) (simp add: sample_jsoncpp_def)
  then show "document_typed sample_jsoncpp common_schema stop_document" "document_typed sample_jsoncpp actuary_schema stop_document"
    by (simp_all add: document_typed_def common_schema_def actuary_schema_def sample_stop_typed del: member_typed.simps)
qed

section \<open>Properties\<close>

text \<open>C23. A program starts exactly if its configuration is typed: once the file has been opened and parsed, the loader throws unless every
  member that the program reads, and every element of its lists, converts to the type of the field; members beyond the schema
  do not matter.\<close>

theorem programs_start_on_typed_documents:
  assumes "load_config_file js (files (argv ! 1)) = Some doc" and "2 \<le> length argv"
  shows "(succeeds (actuary_program js files argv (base, ac)) \<longleftrightarrow> document_typed js (common_schema @ actuary_schema) doc)
    \<and> (succeeds (trader_program js files argv (base, tc)) \<longleftrightarrow> document_typed js (common_schema @ trader_schema) doc)
    \<and> (succeeds (receiver_program js files argv (base, rc)) \<longleftrightarrow> document_typed js (common_schema @ receiver_schema) doc)
    \<and> (succeeds (evaluator_program js files argv (base, ec)) \<longleftrightarrow> document_typed js (common_schema @ evaluator_schema) doc)"
  unfolding actuary_program_def trader_program_def receiver_program_def evaluator_program_def document_typed_append
    loadActuaryConfig_def loadTraderConfig_def loadReceiverConfig_def loadEvaluatorConfig_def
  by (intro conjI program_start_typed assms actuary_steps_ok trader_steps_ok receiver_steps_ok evaluator_steps_ok)

theorem programs_start_on_typed_documents_witness:
  "succeeds (actuary_program sample_jsoncpp [''f'' \<mapsto> ''stop''] [''p'', ''f''] (sample_base, sample_actuary_file))"
proof -
  have "load_config_file sample_jsoncpp ([''f'' \<mapsto> ''stop''] ([''p'', ''f''] ! 1)) = Some stop_document"
    by (simp add: load_config_file_def sample_jsoncpp_def)
  from programs_start_on_typed_documents[of sample_jsoncpp "[''f'' \<mapsto> ''stop'']" "[''p'', ''f'']", OF this]
  show ?thesis using sample_stop_schemas by (simp add: document_typed_append)
qed



text \<open>C3. The stop switch of the configuration file is effective from the file to the exchange: when the document of the actuary's file
  has \<open>stop_make_order\<close> true and the actuary and the trader run from there, nothing is ever published and no order is handed to the
  exchange.\<close>

theorem configured_stop_reaches_the_exchange:
  assumes "actuary_program js files argv (base, ac) = Inr (Configured base' config)"
    and "load_config_file js (files (argv ! 1)) = Some doc"
    and "read_member js doc (js_asBool js) ''stop_make_order'' = Inr True"
    and "system_start (ActuaryConfig.truncate config) s0"
    and "(system_step api lib (ActuaryConfig.truncate config) tconfig)\<^sup>*\<^sup>* s0 s"
  shows "sy_published s = [] \<and> sy_placed s = []"
proof -
  have "run_steps (actuary_steps js doc) ac = Inr config"
    using assms(1,2) by (auto simp: actuary_program_def loadActuaryConfig_def elim: program_configured)
  from actuary_stop_read[OF this] assms(3) have "acfg_stop_make_order (ActuaryConfig.truncate config)"
    by (simp add: ActuaryConfig.defs)
  then show ?thesis by (rule stopped_silent[OF assms(5,4)])
qed

text \<open>The witness: the two processes start from the document that only says stop, and the scanning thread of an asset starts.\<close>

lemma stop_file_start:
  assumes "actuary_program sample_jsoncpp [''f'' \<mapsto> ''stop''] [''p'', ''f''] (sample_base, sample_actuary_file)
      = Inr (Configured base' config)"
  obtains a where "system_start (ActuaryConfig.truncate config) (demo_start\<lparr>sy_actuary := a\<rparr>)"
proof -
  let ?config = "ActuaryConfig.truncate config"
  have d: "load_config_file sample_jsoncpp ([''f'' \<mapsto> ''stop''] ([''p'', ''f''] ! 1)) = Some stop_document"
    by (simp add: load_config_file_def sample_jsoncpp_def)
  then have r: "run_steps (actuary_steps sample_jsoncpp stop_document) sample_actuary_file = Inr config"
    using assms by (auto simp: actuary_program_def loadActuaryConfig_def elim: program_configured)
  have "\<not> acfg_shm_group_main_node ?config"
    using actuary_main_node_read[OF r]
    by (simp add: read_member_def sample_stop_member ActuaryConfig.defs) (simp add: sample_jsoncpp_def)
  then obtain a where a: "ax_init (\<lambda>_ m. m) (\<lambda>_ m. m) (ax_shm_store_info (sample_actuary_context 1)) 0 no_exchange_infos no_exchange_infos
      ?config demo_fresh = Some (Inr a)" "order_start (ax_shm_store_info a) = [zero_order]"
    by (simp add: ax_init_def Let_def ax_init_shm_def load_follower_exchangeInfo_def load_benchmark_exchangeInfo_def
      no_exchange_infos_def sample_actuary_context_def)
  have "valid_thresholds ?config"
    using actuary_thresholds_kept[OF r]
    by (simp add: sample_actuary_file_def valid_thresholds_def ActuaryConfig.defs sample_actuary_config_def)
  with a have "actuary_started ?config a" unfolding actuary_started_def by blast
  with a(2) have "system_start ?config (demo_start\<lparr>sy_actuary := a\<rparr>)" by (simp add: system_start_def demo_start_def zero_order_def)
  then show thesis by (rule that)
qed

theorem configured_stop_reaches_the_exchange_witness:
  "\<exists>base' config s0 s. actuary_program sample_jsoncpp [''f'' \<mapsto> ''stop''] [''p'', ''f''] (sample_base, sample_actuary_file)
       = Inr (Configured base' config)
     \<and> system_start (ActuaryConfig.truncate config) s0
     \<and> (system_step sample_api sample_trader_lib (ActuaryConfig.truncate config) sample_trader_config)\<^sup>*\<^sup>* s0 s
     \<and> sy_scans s ''BTC'' = Some (''BTCUSDC'', 0, 0) \<and> sy_placed s = []"
proof -
  have d: "load_config_file sample_jsoncpp ([''f'' \<mapsto> ''stop''] ([''p'', ''f''] ! 1)) = Some stop_document"
    by (simp add: load_config_file_def sample_jsoncpp_def)
  obtain base' config where p: "actuary_program sample_jsoncpp [''f'' \<mapsto> ''stop''] [''p'', ''f''] (sample_base, sample_actuary_file)
      = Inr (Configured base' config)"
    using program_succeeds[where files = "[''f'' \<mapsto> ''stop'']" and argv = "[''p'', ''f'']" and steps = "actuary_steps sample_jsoncpp"
      and base = sample_base and c = sample_actuary_file, OF d _ sample_stop_schemas actuary_steps_ok] by (auto simp: actuary_program_def loadActuaryConfig_def)
  obtain a where a: "system_start (ActuaryConfig.truncate config) (demo_start\<lparr>sy_actuary := a\<rparr>)" using stop_file_start[OF p] .
  let ?start = "demo_start\<lparr>sy_actuary := a\<rparr>" and ?config = "ActuaryConfig.truncate config"
  let ?now = "?start\<lparr>sy_scans := [''BTC'' \<mapsto> (''BTCUSDC'', 0, 0)]\<rparr>"
  have "''BTC'' \<in> set (tcfg_node_base_assets sample_trader_config)" by (simp add: sample_trader_config_def)
  from system_step.start_scan[OF this, of ?start "''BTCUSDC''" 0 sample_api sample_trader_lib ?config]
  have "system_step sample_api sample_trader_lib ?config sample_trader_config ?start
      (?start\<lparr>sy_scans := (sy_scans ?start)(''BTC'' \<mapsto> (''BTCUSDC'', 0, 0))\<rparr>)"
    by (simp add: demo_start_def demo_scan_start)
  moreover have "sy_scans ?start = Map.empty" by (simp add: demo_start_def)
  ultimately have r: "(system_step sample_api sample_trader_lib ?config sample_trader_config)\<^sup>*\<^sup>* ?start ?now"
    by (metis r_into_rtranclp)
  have "read_member sample_jsoncpp stop_document (js_asBool sample_jsoncpp) ''stop_make_order'' = Inr True"
    by (simp add: read_member_def sample_stop_member) (simp add: sample_jsoncpp_def)
  from configured_stop_reaches_the_exchange[OF p d this a r] have "sy_placed ?now = []" by simp
  moreover have "sy_scans ?now ''BTC'' = Some (''BTCUSDC'', 0, 0)" by simp
  ultimately show ?thesis using p a r by blast
qed

end
