(* ===== verification/Feeds.thy ===== *)
theory Feeds
  imports ConfigFiles ReceiverSubscribe StatDispatch
begin

text \<open>
  The subscriber loops: \<open>subscribe_process_zmq_best_ticker\<close> and \<open>subscribe_process_udp_ticker\<close> of \<open>src/src/receiver/ticker_subscribe.cpp\<close>,
  \<open>subscribe_best_path_processor\<close>, \<open>polling_best_path_processor\<close> and \<open>simple_call_best_path\<close> of \<open>src/src/trader/service_manager.cpp\<close>,
  \<open>subscribe_process_order_stat_zmq\<close> of \<open>src/src/evaluator/zmq_subscribe.cpp\<close>, and the loops that keep the streams of the exchange running. An input is what one blocking call returns and how long it
  waits; the thread keeps its clock in milliseconds, the number of connections it has made, and the state of its process.
  The properties are about time: how long a loop sleeps, and when it connects again.
\<close>

section \<open>Inputs and threads\<close>

datatype zmq_outcome = Payload string | ReceiveError

text \<open>\<open>fi_now\<close>, \<open>fi_ok1\<close> and \<open>fi_ok2\<close> are the clock and the answers of the two queues for the handling of a ticker.\<close>

record FeedInput =
  fi_wait :: nat
  fi_outcome :: zmq_outcome
  fi_now :: u64
  fi_ok1 :: bool
  fi_ok2 :: bool

record TickerThread =
  tt_clock :: nat
  tt_connects :: nat
  tt_handled :: "(nat \<times> BookTickerEvent) list"
  tt_context :: ReceiverContext

fun run_inputs :: "('i \<Rightarrow> 's \<Rightarrow> 's result) \<Rightarrow> 'i list \<Rightarrow> 's \<Rightarrow> 's result" where
  "run_inputs turn [] s = Inr s"
| "run_inputs turn (x # xs) s = bind_result (turn x s) (run_inputs turn xs)"

lemma run_inputs_append: "run_inputs turn (xs @ ys) s = bind_result (run_inputs turn xs s) (run_inputs turn ys)"
  by (induction xs arbitrary: s) (auto simp: bind_result_def split: sum.splits)

lemma run_inputs_induct [consumes 1, case_names Nil Cons]:
  assumes "run_inputs turn xs s = Inr s'"
    and "\<And>s. P [] s s" and "\<And>x xs s t s'. turn x s = Inr t \<Longrightarrow> P xs t s' \<Longrightarrow> P (x # xs) s s'"
  shows "P xs s s'"
  using assms(1) by (induction xs arbitrary: s) (auto simp: bind_result_Inr_iff intro: assms(2,3))

section \<open>The ticker feed over ZeroMQ\<close>

text \<open>
  One turn of the receive loop. \<open>ParseFromString\<close> is the generated parser: whether it succeeded, which is not looked at, and the event, with
  the fields it has not read at their defaults. An unknown instrument is skipped with \<open>continue\<close>; after every other event the thread sleeps for
  five seconds; an exception leaves the loop, and the outer loop connects again at once.
\<close>

definition zmq_ticker_turn :: "(string \<Rightarrow> bool \<times> BookTickerEvent) \<Rightarrow> ReceiverConfig \<Rightarrow> FeedInput \<Rightarrow> TickerThread \<Rightarrow> TickerThread result" where
  "zmq_ticker_turn ParseFromString config x s =
     (let now = tt_clock s + fi_wait x
      in case fi_outcome x of
           ReceiveError \<Rightarrow> Inr (s\<lparr>tt_clock := now, tt_connects := tt_connects s + 1\<rparr>)
         | Payload payload \<Rightarrow>
             bind_result (zmq_receive payload) (\<lambda>message.
             let event = snd (ParseFromString message)
             in if ev_symbol event \<notin> rx_inst_ids_set (tt_context s) then Inr (s\<lparr>tt_clock := now\<rparr>)
                else bind_result (process_feed_ticker (fi_now x) (fi_ok1 x) (fi_ok2 x) config event (tt_context s)) (\<lambda>c.
                  Inr (s\<lparr>tt_clock := now + 5000, tt_handled := tt_handled s @ [(now, event)], tt_context := c\<rparr>))))"

abbreviation zmq_ticker_thread :: "(string \<Rightarrow> bool \<times> BookTickerEvent) \<Rightarrow> ReceiverConfig \<Rightarrow> FeedInput list \<Rightarrow> TickerThread \<Rightarrow> TickerThread result" where
  "zmq_ticker_thread ParseFromString config \<equiv> run_inputs (zmq_ticker_turn ParseFromString config)"

definition start_ticker_thread :: "ReceiverContext \<Rightarrow> TickerThread" where
  "start_ticker_thread c = \<lparr>tt_clock = 0, tt_connects = 1, tt_handled = [], tt_context = c\<rparr>"

definition receive_errors :: "FeedInput list \<Rightarrow> nat" where
  "receive_errors xs = length (filter (\<lambda>x. fi_outcome x = ReceiveError) xs)"

definition waited :: "FeedInput list \<Rightarrow> nat" where
  "waited xs = sum_list (map fi_wait xs)"

lemma input_counts [simp]:
  "receive_errors [] = 0" "waited [] = 0"
  "receive_errors (x # xs) = (if fi_outcome x = ReceiveError then 1 else 0) + receive_errors xs"
  "waited (x # xs) = fi_wait x + waited xs"
  by (simp_all add: receive_errors_def waited_def)

lemma zmq_receive_cut:
  assumes "CHR 0x00 \<notin> set bytes" and "length bytes + length rest < 1023"
  shows "zmq_receive (bytes @ CHR 0x00 # rest) = Inr bytes" and "zmq_receive bytes = Inr bytes"
proof -
  have "\<forall>ch \<in> set bytes. ch \<noteq> CHR 0x00" using assms(1) by blast
  then have "takeWhile (\<lambda>ch. ch \<noteq> CHR 0x00) (bytes @ CHR 0x00 # rest) = bytes" "takeWhile (\<lambda>ch. ch \<noteq> CHR 0x00) bytes = bytes"
    by (simp_all add: takeWhile_append2 takeWhile_eq_all_conv)
  moreover have "take 1023 (bytes @ CHR 0x00 # rest) = bytes @ CHR 0x00 # rest" "take 1023 bytes = bytes"
    using assms(2) by (simp_all only: take_all_iff length_append list.size)
  ultimately show "zmq_receive (bytes @ CHR 0x00 # rest) = Inr bytes" "zmq_receive bytes = Inr bytes"
    using assms(2) unfolding zmq_receive_def by (simp_all only: length_append list.size split: if_split) auto
qed

lemma zmq_ticker_turn_cases:
  assumes "zmq_ticker_turn parse config x s = Inr s'"
  obtains (error) "fi_outcome x = ReceiveError" "s' = s\<lparr>tt_clock := tt_clock s + fi_wait x, tt_connects := tt_connects s + 1\<rparr>"
  | (unknown) "fi_outcome x \<noteq> ReceiveError" "s' = s\<lparr>tt_clock := tt_clock s + fi_wait x\<rparr>"
  | (handled) event c where "fi_outcome x \<noteq> ReceiveError"
      "process_feed_ticker (fi_now x) (fi_ok1 x) (fi_ok2 x) config event (tt_context s) = Inr c"
      "s' = s\<lparr>tt_clock := tt_clock s + fi_wait x + 5000, tt_handled := tt_handled s @ [(tt_clock s + fi_wait x, event)], tt_context := c\<rparr>"
  using assms
  by (auto simp: zmq_ticker_turn_def Let_def bind_result_Inr_iff split: zmq_outcome.splits if_splits)

text \<open>Every handled ticker costs five seconds, an error none.\<close>

lemma zmq_ticker_thread_time:
  assumes "zmq_ticker_thread parse config xs s = Inr s'"
  shows "tt_clock s' + 5000 * length (tt_handled s) = tt_clock s + waited xs + 5000 * length (tt_handled s')
    \<and> tt_connects s' = tt_connects s + receive_errors xs"
  using assms
proof (induction rule: run_inputs_induct)
  case (Cons x xs s t s')
  from Cons(1) show ?case using Cons(2) by (cases rule: zmq_ticker_turn_cases) simp_all
qed simp

text \<open>The thread never fails as long as the messages fit the buffer.\<close>

definition payload_fits :: "FeedInput \<Rightarrow> bool" where
  "payload_fits x \<longleftrightarrow> (case fi_outcome x of Payload payload \<Rightarrow> length payload < 1024 | ReceiveError \<Rightarrow> True)"

lemma enqueue_ticker_slots [simp]: "ticker_slots_ok (enqueue_ticker ok1 ok2 info c) = ticker_slots_ok c"
  by (simp add: ticker_slots_ok_def enqueue_ticker_def Let_def)

lemma process_feed_ticker_total:
  assumes "ticker_slots_ok c"
  shows "\<exists>c'. process_feed_ticker now ok1 ok2 config event c = Inr c' \<and> ticker_slots_ok c'"
proof -
  define info where "info = um_ticker_of (ev_symbol event) (ev_bestBid event) (ev_bidSize event) (ev_bestAsk event)
    (ev_askSize event) (ev_eventTime event)"
  have "\<exists>c'. store_ticker now role info (ticker_shm_of info (ev_updateId event)) c = Inr c' \<and> ticker_slots_ok c'" for role
    using store_ticker_total[OF assms] by blast
  from this[of Benchmark] this[of Follower] show ?thesis
    using assms by (auto simp: process_feed_ticker_def Let_def info_def[symmetric])
qed

lemma zmq_ticker_turn_total:
  assumes "ticker_slots_ok (tt_context s)" and "payload_fits x"
  shows "\<exists>s'. zmq_ticker_turn parse config x s = Inr s' \<and> ticker_slots_ok (tt_context s')"
proof (cases "fi_outcome x")
  case ReceiveError
  then show ?thesis using assms(1) by (simp add: zmq_ticker_turn_def Let_def)
next
  case (Payload payload)
  let ?event = "snd (parse (takeWhile (\<lambda>ch. ch \<noteq> CHR 0x00) (take 1023 payload)))"
  obtain c' where "process_feed_ticker (fi_now x) (fi_ok1 x) (fi_ok2 x) config ?event (tt_context s) = Inr c'" "ticker_slots_ok c'"
    using process_feed_ticker_total[OF assms(1)] by blast
  then show ?thesis using assms Payload by (simp add: zmq_ticker_turn_def Let_def zmq_receive_def payload_fits_def)
qed

lemma zmq_ticker_thread_total:
  assumes "ticker_slots_ok (tt_context s)" and "\<forall>x \<in> set xs. payload_fits x"
  shows "\<exists>s'. run_inputs (zmq_ticker_turn parse config) xs s = Inr s'"
  using assms
proof (induction xs arbitrary: s)
  case (Cons x xs)
  then obtain t where "zmq_ticker_turn parse config x s = Inr t" "ticker_slots_ok (tt_context t)"
    using zmq_ticker_turn_total[of s x parse config] by auto
  then show ?case using Cons by simp
qed simp

definition handled_apart :: "TickerThread \<Rightarrow> bool" where
  "handled_apart s \<longleftrightarrow> sorted_wrt (\<lambda>x y. fst x + 5000 \<le> fst y) (tt_handled s) \<and> (\<forall>x \<in> set (tt_handled s). fst x + 5000 \<le> tt_clock s)"

lemma zmq_ticker_thread_apart:
  assumes "zmq_ticker_thread parse config xs s = Inr s'" and "handled_apart s"
  shows "handled_apart s'"
  using assms
proof (induction rule: run_inputs_induct)
  case (Cons x xs s t s')
  from Cons(1) have "handled_apart t"
    using Cons(3) by (cases rule: zmq_ticker_turn_cases) (auto simp: handled_apart_def sorted_wrt_append)
  then show ?case by (rule Cons(2))
qed

section \<open>The ticker feed over UDP\<close>

text \<open>
  Opening and mapping the file fails for good; then every attempt sleeps for five seconds, opens a socket, converts the address and
  subscribes. An attempt is the pair of what \<open>socket\<close> and \<open>inet_pton\<close> answer. The result is the time at which the request is sent.
\<close>

fun udp_connect :: "(bool \<times> bool) list \<Rightarrow> nat \<Rightarrow> nat option" where
  "udp_connect [] clock = None"
| "udp_connect ((socket_ok, address_ok) # attempts) clock =
     (let clock = clock + 5000
      in if \<not> socket_ok then udp_connect attempts clock
         else if \<not> address_ok then udp_connect attempts clock
         else Some clock)"

definition udp_start :: "bool \<Rightarrow> bool \<Rightarrow> (bool \<times> bool) list \<Rightarrow> ReceiverContext \<Rightarrow> TickerThread option" where
  "udp_start open_ok mmap_ok attempts c =
     (if \<not> open_ok then None else if \<not> mmap_ok then None
      else map_option (\<lambda>clock. (start_ticker_thread c)\<lparr>tt_clock := clock\<rparr>) (udp_connect attempts 0))"

text \<open>
  One turn of the receive loop: what \<open>recvfrom\<close> returns, with the index in the datagram and the mapped table at that moment. Anything but four bytes,
  in particular an error, is ignored.
\<close>

record UdpInput =
  ud_wait :: nat
  ud_recv_len :: int
  ud_coin_idx :: int
  ud_table :: UDPMapData
  ud_now :: u64
  ud_ok1 :: bool
  ud_ok2 :: bool

definition udp_turn :: "ReceiverConfig \<Rightarrow> UdpInput \<Rightarrow> TickerThread \<Rightarrow> TickerThread result" where
  "udp_turn config x s =
     (let s = s\<lparr>tt_clock := tt_clock s + ud_wait x\<rparr>
      in if ud_recv_len x = 4
         then bind_result (subscribe_process_udp_ticker (ud_now x) (ud_ok1 x) (ud_ok2 x) config (ud_table x) (ud_coin_idx x) (tt_context s))
                (\<lambda>c. Inr (s\<lparr>tt_context := c\<rparr>))
         else Inr s)"

lemma udp_thread_connects:
  assumes "run_inputs (udp_turn config) xs s = Inr s'"
  shows "tt_connects s' = tt_connects s \<and> tt_clock s' = tt_clock s + sum_list (map ud_wait xs)
    \<and> (list_all (\<lambda>x. ud_recv_len x \<noteq> 4) xs \<longrightarrow> tt_context s' = tt_context s)"
  using assms
  by (induction rule: run_inputs_induct) (auto simp: udp_turn_def Let_def bind_result_Inr_iff split: if_splits)

section \<open>Subscribers with the wait outside\<close>

text \<open>
  The loops of the best paths and of the order statistics have the same form: \<open>handle\<close> is what they do with a message, an exception in it or in receiving
  leaves the inner loop, and the thread sleeps for five seconds before it connects again.
\<close>

record 'c Subscriber =
  sb_clock :: nat
  sb_connects :: nat
  sb_context :: 'c

definition subscriber_turn :: "(FeedInput \<Rightarrow> string \<Rightarrow> 'c \<Rightarrow> 'c result) \<Rightarrow> FeedInput \<Rightarrow> 'c Subscriber \<Rightarrow> 'c Subscriber result" where
  "subscriber_turn handle x s =
     (let now = sb_clock s + fi_wait x; again = s\<lparr>sb_clock := now + 5000, sb_connects := sb_connects s + 1\<rparr>
      in case fi_outcome x of
           ReceiveError \<Rightarrow> Inr again
         | Payload payload \<Rightarrow>
             bind_result (zmq_receive payload) (\<lambda>message.
               case handle x message (sb_context s) of
                 Inl e \<Rightarrow> Inr again
               | Inr c \<Rightarrow> Inr (s\<lparr>sb_clock := now, sb_context := c\<rparr>)))"

text \<open>A path announcement: the members are read whether or not the text was parsed. \<open>gen\<close> makes the names and clocks of an input.\<close>

definition read_best_path :: "'j JsonLib \<Rightarrow> 'j \<Rightarrow> BestPathInfo result" where
  "read_best_path js doc =
     bind_result (read_member js doc (js_asString js) ''symbol'') (\<lambda>symbol.
     bind_result (read_member js doc (js_asString js) ''action'') (\<lambda>action.
     bind_result (read_member js doc (js_asString js) ''local_ip'') (\<lambda>local_ip.
     bind_result (read_member js doc (js_asString js) ''remote_ip'') (\<lambda>remote_ip.
     bind_result (read_member js doc (js_asUInt64 js) ''best_cost'') (\<lambda>best_cost.
     bind_result (read_member js doc (js_asUInt64 js) ''update_time_millis'') (\<lambda>update_time_millis.
       Inr \<lparr>bp_action = action, bp_symbol = symbol, bp_local_ip = local_ip, bp_remote_ip = remote_ip,
         bp_best_cost = best_cost, bp_update_time_millis = update_time_millis\<rparr>))))))"

definition best_path_message :: "'j JsonLib \<Rightarrow> string \<Rightarrow> BestPathInfo result" where
  "best_path_message js message = bind_result (js_parse js message) (\<lambda>(ok, doc). read_best_path js doc)"

definition subscribe_best_path_processor :: "'j JsonLib \<Rightarrow> string \<Rightarrow> (FeedInput \<Rightarrow> nat \<Rightarrow> string \<times> u64) \<Rightarrow> TraderConfig
    \<Rightarrow> FeedInput \<Rightarrow> TraderContext Subscriber \<Rightarrow> TraderContext Subscriber result" where
  "subscribe_best_path_processor js NEW gen config =
     subscriber_turn (\<lambda>x message c. bind_result (best_path_message js message) (\<lambda>info. Inr (process_best_path NEW (gen x) config info c)))"

definition order_stat_turn :: "(string \<Rightarrow> string) \<Rightarrow> (string \<Rightarrow> json_object) \<Rightarrow> (json \<Rightarrow> double)
    \<Rightarrow> FeedInput \<Rightarrow> EvaluatorContext Subscriber \<Rightarrow> EvaluatorContext Subscriber result" where
  "order_stat_turn removeNewlines parse str_to_dobule =
     subscriber_turn (\<lambda>x message c. bind_result (lite_of_message str_to_dobule (parse (removeNewlines message)))
       (\<lambda>lite. Inr (c\<lparr>ex_stat_order_composite := update_with_lite lite (ex_stat_order_composite c)\<rparr>)))"

text \<open>Both threads start after five seconds.\<close>

definition start_subscriber :: "'c \<Rightarrow> 'c Subscriber" where
  "start_subscriber c = \<lparr>sb_clock = 5000, sb_connects = 1, sb_context = c\<rparr>"

lemma subscriber_turn_cases:
  assumes "subscriber_turn handle x s = Inr s'"
  obtains (again) "s' = s\<lparr>sb_clock := sb_clock s + fi_wait x + 5000, sb_connects := sb_connects s + 1\<rparr>"
      "fi_outcome x = ReceiveError \<or> (\<exists>payload message e. fi_outcome x = Payload payload \<and> zmq_receive payload = Inr message
        \<and> handle x message (sb_context s) = Inl e)"
  | (handled) payload message c where "fi_outcome x = Payload payload" "zmq_receive payload = Inr message"
      "handle x message (sb_context s) = Inr c" "s' = s\<lparr>sb_clock := sb_clock s + fi_wait x, sb_context := c\<rparr>"
proof (cases "fi_outcome x")
  case ReceiveError
  then show thesis using assms again by (simp add: subscriber_turn_def Let_def)
next
  case (Payload payload)
  then obtain message where m: "zmq_receive payload = Inr message"
    using assms by (auto simp: subscriber_turn_def Let_def bind_result_Inr_iff)
  then show thesis
    using assms Payload again handled by (cases "handle x message (sb_context s)") (auto simp: subscriber_turn_def Let_def)
qed

text \<open>The time of such a loop: the waits, and five seconds for each connection that was lost.\<close>

lemma subscriber_time:
  assumes "run_inputs (subscriber_turn handle) xs s = Inr s'"
  shows "sb_clock s' + 5000 * sb_connects s = sb_clock s + waited xs + 5000 * sb_connects s' \<and> sb_connects s \<le> sb_connects s'"
  using assms
proof (induction rule: run_inputs_induct)
  case (Cons x xs s t s')
  from Cons(1) show ?case using Cons(2) by (cases rule: subscriber_turn_cases) simp_all
qed simp

lemma subscriber_preserves:
  assumes "run_inputs (subscriber_turn handle) xs s = Inr s'"
    and "\<And>x message c c'. handle x message c = Inr c' \<Longrightarrow> P c \<Longrightarrow> P c'" and "P (sb_context s)"
  shows "P (sb_context s')"
  using assms(1,3)
proof (induction rule: run_inputs_induct)
  case (Cons x xs s t s')
  from Cons(1) have "P (sb_context t)" using Cons(3) assms(2) by (cases rule: subscriber_turn_cases) auto
  then show ?case by (rule Cons(2))
qed simp

text \<open>An exception in one message changes nothing but the time and the connection.\<close>

lemma subscriber_again_context:
  assumes "subscriber_turn handle x s = Inr s'" and "sb_connects s' \<noteq> sb_connects s"
  shows "sb_context s' = sb_context s"
  using assms by (cases rule: subscriber_turn_cases) simp_all

section \<open>Polling\<close>

text \<open>The list is filled until an element throws; what it holds by then is returned.\<close>

record 'j PathJson = "'j JsonLib" +
  js_isArray :: "'j \<Rightarrow> bool"

fun push_until_error :: "'a result list \<Rightarrow> 'a list" where
  "push_until_error [] = []"
| "push_until_error (r # rs) = (case r of Inl e \<Rightarrow> [] | Inr x \<Rightarrow> x # push_until_error rs)"

text \<open>\<open>call_result\<close> is the body of the response, \<open>None\<close> when the call failed. Each member access starts from the element.\<close>

definition simple_call_best_path :: "'j PathJson \<Rightarrow> string option \<Rightarrow> BestPathInfo list" where
  "simple_call_best_path js call_result =
     (case call_result of
        None \<Rightarrow> []
      | Some body \<Rightarrow>
          (case js_parse js body of
             Inl e \<Rightarrow> []
           | Inr (ok, doc) \<Rightarrow>
               if js_isArray js doc
               then push_until_error (map (\<lambda>i. bind_result (js_element js doc i) (read_best_path (JsonLib.truncate js)))
                      [0..<js_size js doc])
               else []))"

text \<open>One round: every address in turn, a second after each valid path, five minutes at the end.\<close>

type_synonym best_path_call = "string option \<times> (nat \<Rightarrow> nat \<Rightarrow> string \<times> u64)"

fun process_polled :: "string \<Rightarrow> (nat \<Rightarrow> nat \<Rightarrow> string \<times> u64) \<Rightarrow> TraderConfig \<Rightarrow> nat \<Rightarrow> BestPathInfo list \<Rightarrow> nat \<times> TraderContext \<Rightarrow> nat \<times> TraderContext" where
  "process_polled NEW gen config i [] s = s"
| "process_polled NEW gen config i (info # infos) (clock, c) =
     (if \<not> is_valid_best_path NEW (snd (gen i 0)) (tx_follower_inst_id_set c) info
      then process_polled NEW gen config (i + 1) infos (clock, c)
      else process_polled NEW gen config (i + 1) infos (clock + 1000, process_best_path NEW (gen i) config info c))"

definition poll_call :: "'j PathJson \<Rightarrow> string \<Rightarrow> TraderConfig \<Rightarrow> best_path_call \<Rightarrow> nat \<times> TraderContext \<Rightarrow> nat \<times> TraderContext" where
  "poll_call js NEW config call s = process_polled NEW (snd call) config 0 (simple_call_best_path js (fst call)) s"

definition polling_best_path_round :: "'j PathJson \<Rightarrow> string \<Rightarrow> TraderConfig \<Rightarrow> best_path_call list \<Rightarrow> nat \<times> TraderContext \<Rightarrow> nat \<times> TraderContext" where
  "polling_best_path_round js NEW config calls s =
     (let (clock, c) = fold (poll_call js NEW config) calls s in (clock + 300000, c))"

lemma push_until_error_prefix: "push_until_error rs = map projr (takeWhile succeeds rs)"
  by (induction rs) (auto simp: succeeds_def split: sum.splits)

text \<open>A polled list is the same as its announcements one after the other, and takes a second for each valid one.\<close>

fun announce_all :: "string \<Rightarrow> (nat \<Rightarrow> nat \<Rightarrow> string \<times> u64) \<Rightarrow> TraderConfig \<Rightarrow> nat \<Rightarrow> BestPathInfo list \<Rightarrow> TraderContext \<Rightarrow> TraderContext" where
  "announce_all NEW gen config i [] c = c"
| "announce_all NEW gen config i (info # infos) c = announce_all NEW gen config (i + 1) infos (process_best_path NEW (gen i) config info c)"

lemma process_polled_announces: "snd (process_polled NEW gen config i infos (clock, c)) = announce_all NEW gen config i infos c"
  by (induction infos arbitrary: i clock c) (simp_all add: process_best_path_def)

lemma process_polled_time: "clock \<le> fst (process_polled NEW gen config i infos (clock, c))
    \<and> fst (process_polled NEW gen config i infos (clock, c)) \<le> clock + 1000 * length infos"
proof (induction infos arbitrary: i clock c)
  case (Cons info infos)
  show ?case
    using Cons[where i = "i + 1" and clock = clock and c = c]
      Cons[where i = "i + 1" and clock = "clock + 1000" and c = "process_best_path NEW (gen i) config info c"] by auto
qed simp

lemma announce_all_wf:
  assumes "trader_wf c" and "trader_limits_ok config"
  shows "trader_wf (announce_all NEW gen config i infos c)"
  using assms(1) process_best_path_wf(1)[OF _ assms(2)] by (induction infos arbitrary: i c) auto

lemma poll_call_announces:
  "snd (poll_call js NEW config call s) = announce_all NEW (snd call) config 0 (simple_call_best_path js (fst call)) (snd s)"
  using process_polled_announces[where clock = "fst s" and c = "snd s"] by (simp add: poll_call_def)

lemma polled_calls_wf: "trader_wf (snd s) \<Longrightarrow> trader_limits_ok config \<Longrightarrow> trader_wf (snd (fold (poll_call js NEW config) calls s))"
  by (induction calls arbitrary: s) (simp_all add: poll_call_announces announce_all_wf)

section \<open>Streams of the exchange\<close>

text \<open>
  The threads that keep a web-socket stream running (\<open>subscribe_normal_ticker\<close> of the receiver, \<open>subscribe_normal_futures_ticker\<close> of the
  evaluator, \<open>start_order_service\<close> of the trader, \<open>subscribe_balance_position\<close> of the actuary): starting the stream blocks until it ends, with a result or
  an exception, which are only logged, and after five seconds it is started again. The state is the clock and the number of starts; \<open>lasted\<close> is how long
  the stream has run. The user data stream is only started when there is a listen key.
\<close>

definition stream_turn :: "nat \<Rightarrow> nat \<times> nat \<Rightarrow> nat \<times> nat" where
  "stream_turn lasted s = (fst s + lasted + 5000, snd s + 1)"

definition user_stream_turn :: "string \<times> nat \<Rightarrow> nat \<times> nat \<Rightarrow> nat \<times> nat" where
  "user_stream_turn x s = (if 0 < length (fst x) then (fst s + snd x + 5000, snd s + 1) else (fst s + 5000, snd s))"

text \<open>However often a stream breaks, it is started at most once in five seconds; without a listen key it is not started.\<close>

lemma streams_start_rarely: "5000 * snd (fold stream_turn xs (0, 0)) \<le> fst (fold stream_turn xs (0, 0))"
proof -
  have "5000 * snd s \<le> fst s \<Longrightarrow> 5000 * snd (fold stream_turn xs s) \<le> fst (fold stream_turn xs s)" for s
    by (induction xs arbitrary: s) (simp_all add: stream_turn_def)
  then show ?thesis by simp
qed

lemma user_stream_starts:
  "snd (fold user_stream_turn xs s) = snd s + length (filter (\<lambda>x. fst x \<noteq> []) xs)"
  "fst s + 5000 * length xs \<le> fst (fold user_stream_turn xs s)"
proof -
  show "snd (fold user_stream_turn xs s) = snd s + length (filter (\<lambda>x. fst x \<noteq> []) xs)"
    by (induction xs arbitrary: s) (simp_all add: user_stream_turn_def)
  show "fst s + 5000 * length xs \<le> fst (fold user_stream_turn xs s)"
  proof (induction xs arbitrary: s)
    case (Cons x xs)
    show ?case using Cons[of "user_stream_turn x s"] by (auto simp: user_stream_turn_def split: if_splits)
  qed simp
qed

section \<open>A sample feed\<close>

text \<open>The encoding of a ticker of BTCUSDT with the bid 0.5 (field 1: seven characters; field 2: eight bytes, the low ones first), and a
  parser that knows these two fields and leaves a field that is not complete at its default, zero.\<close>

definition sample_ticker_bytes :: string where
  "sample_ticker_bytes = [CHR 0x0A, CHR 0x07] @ ''BTCUSDT''
     @ [CHR 0x11, CHR 0x00, CHR 0x00, CHR 0x00, CHR 0x00, CHR 0x00, CHR 0x00, CHR 0xE0, CHR 0x3F]"

definition sample_ParseFromString :: "string \<Rightarrow> bool \<times> BookTickerEvent" where
  "sample_ParseFromString bytes =
     (let complete = (length bytes = 18)
      in (complete, \<lparr>ev_symbol = take 7 (drop 2 bytes), ev_bestBid = (if complete then Fin (1 / 2) else Fin 0), ev_bidSize = Fin 0,
            ev_bestAsk = Fin 0, ev_askSize = Fin 0, ev_eventTime = 0, ev_updateId = 0\<rparr>))"

definition sample_input :: "nat \<Rightarrow> zmq_outcome \<Rightarrow> FeedInput" where
  "sample_input wait out = \<lparr>fi_wait = wait, fi_outcome = out, fi_now = 8, fi_ok1 = True, fi_ok2 = True\<rparr>"

lemma sample_slots_ok: "ticker_slots_ok sample_slots"
  by (simp add: ticker_slots_ok_def sample_slots_def new_ReceiverContext_def)

section \<open>Properties\<close>

text \<open>C26. The ticker feed over ZeroMQ delivers at most one ticker every five seconds: with segments as they are initialised and messages that fit the
  buffer its thread never fails, and in every run two handled tickers are at least five seconds apart, so that a backlog of n
  tickers takes 5 n seconds, whatever their own times are; a receive error, in contrast, is followed by a new connection without any wait.\<close>

theorem zmq_tickers_are_throttled:
  assumes "ticker_slots_ok c" and "\<forall>x \<in> set xs. payload_fits x"
  shows "\<exists>s. run_inputs (zmq_ticker_turn parse config) xs (start_ticker_thread c) = Inr s
    \<and> sorted_wrt (\<lambda>x y. fst x + 5000 \<le> fst y) (tt_handled s) \<and> tt_clock s = waited xs + 5000 * length (tt_handled s)
    \<and> tt_connects s = 1 + receive_errors xs"
proof -
  obtain s where s: "run_inputs (zmq_ticker_turn parse config) xs (start_ticker_thread c) = Inr s"
    using zmq_ticker_thread_total[of "start_ticker_thread c" xs parse config] assms by (auto simp: start_ticker_thread_def)
  have "handled_apart (start_ticker_thread c)" by (simp add: handled_apart_def start_ticker_thread_def)
  from zmq_ticker_thread_apart[OF s this] zmq_ticker_thread_time[OF s] s show ?thesis
    by (simp add: handled_apart_def start_ticker_thread_def)
qed

theorem zmq_tickers_are_throttled_witness:
  "\<exists>s. run_inputs (zmq_ticker_turn sample_ParseFromString (sample_receiver_config [] []))
       [sample_input 3 ReceiveError, sample_input 4 (Payload sample_ticker_bytes), sample_input 5 (Payload sample_ticker_bytes)]
       (start_ticker_thread sample_slots) = Inr s
     \<and> tt_clock s = 12 + 5000 * length (tt_handled s) \<and> tt_connects s = 2"
proof -
  let ?xs = "[sample_input 3 ReceiveError, sample_input 4 (Payload sample_ticker_bytes), sample_input 5 (Payload sample_ticker_bytes)]"
  have "\<forall>x \<in> set ?xs. payload_fits x" by (simp add: sample_input_def payload_fits_def sample_ticker_bytes_def)
  moreover have "receive_errors ?xs = 1" "waited ?xs = 12" by (simp_all add: sample_input_def)
  ultimately show ?thesis
    using zmq_tickers_are_throttled[OF sample_slots_ok, of ?xs sample_ParseFromString "sample_receiver_config [] []"] by fastforce
qed

text \<open>A binary ticker message is cut at its first zero byte: receiving copies the message as a C string and the parser's answer is not looked at, so that a
  message whose encoding contains a zero byte, as that of most numbers does, is handled as the message that ends there.\<close>

theorem binary_tickers_are_cut:
  assumes "fi_outcome x = Payload (bytes @ CHR 0x00 # rest)" and "length bytes + length rest < 1023" and "CHR 0x00 \<notin> set bytes"
  shows "zmq_ticker_turn parse config x s = zmq_ticker_turn parse config (x\<lparr>fi_outcome := Payload bytes\<rparr>) s"
proof -
  have "zmq_receive (bytes @ CHR 0x00 # rest) = zmq_receive bytes"
    using zmq_receive_cut[OF assms(3,2)] by simp
  then show ?thesis using assms(1) by (simp add: zmq_ticker_turn_def Let_def cong: if_cong)
qed

theorem binary_tickers_are_cut_witness:
  "ev_bestBid (snd (sample_ParseFromString sample_ticker_bytes)) = Fin (1 / 2)
   \<and> (\<exists>s event. zmq_ticker_turn sample_ParseFromString (sample_receiver_config [] []) (sample_input 4 (Payload sample_ticker_bytes))
          (start_ticker_thread sample_slots) = Inr s \<and> tt_handled s = [(4, event)] \<and> ev_symbol event = ''BTCUSDT'' \<and> ev_bestBid event = Fin 0)"
proof -
  let ?cut = "[CHR 0x0A, CHR 0x07] @ ''BTCUSDT'' @ [CHR 0x11]"
  let ?x = "sample_input 4 (Payload sample_ticker_bytes)"
  have x: "fi_outcome ?x = Payload (?cut @ CHR 0x00 # [CHR 0x00, CHR 0x00, CHR 0x00, CHR 0x00, CHR 0x00, CHR 0xE0, CHR 0x3F])"
    by (simp add: sample_input_def sample_ticker_bytes_def)
  have r: "zmq_receive ?cut = Inr ?cut" by (simp add: zmq_receive_def)
  obtain c where "process_feed_ticker 8 True True (sample_receiver_config [] []) (snd (sample_ParseFromString ?cut)) sample_slots = Inr c"
    using process_feed_ticker_total[OF sample_slots_ok] by blast
  moreover have "ev_symbol (snd (sample_ParseFromString ?cut)) = ''BTCUSDT''" "ev_bestBid (snd (sample_ParseFromString ?cut)) = Fin 0"
    by (simp_all add: sample_ParseFromString_def)
  moreover have "''BTCUSDT'' \<in> rx_inst_ids_set sample_slots" by (simp add: sample_slots_def)
  moreover have "zmq_ticker_turn sample_ParseFromString (sample_receiver_config [] []) ?x (start_ticker_thread sample_slots)
      = zmq_ticker_turn sample_ParseFromString (sample_receiver_config [] []) (?x\<lparr>fi_outcome := Payload ?cut\<rparr>) (start_ticker_thread sample_slots)"
    by (rule binary_tickers_are_cut[OF x]) simp_all
  ultimately have "\<exists>s event. zmq_ticker_turn sample_ParseFromString (sample_receiver_config [] []) ?x (start_ticker_thread sample_slots) = Inr s
      \<and> tt_handled s = [(4, event)] \<and> ev_symbol event = ''BTCUSDT'' \<and> ev_bestBid event = Fin 0"
    by (simp add: zmq_ticker_turn_def r sample_input_def start_ticker_thread_def Let_def del: append.simps)
  then show ?thesis by (simp add: sample_ParseFromString_def sample_ticker_bytes_def)
qed


text \<open>The subscriber of the best paths survives every message: a text that is no announcement, or a receive error, costs five seconds and a
  new connection and leaves the trader as it is, and in every run the services and the budgets stay well formed.\<close>

theorem best_path_subscriber_recovers:
  assumes "run_inputs (subscribe_best_path_processor js NEW gen config) xs (start_subscriber c) = Inr s"
    and "trader_wf c" and "trader_limits_ok config"
  shows "sb_clock s = waited xs + 5000 * sb_connects s \<and> trader_wf (sb_context s)
    \<and> (\<forall>x t. subscribe_best_path_processor js NEW gen config x s = Inr t \<and> sb_connects t \<noteq> sb_connects s \<longrightarrow> sb_context t = sb_context s)"
  using subscriber_time[OF assms(1)[unfolded subscribe_best_path_processor_def]] assms(2)
    subscriber_preserves[OF assms(1)[unfolded subscribe_best_path_processor_def], of trader_wf]
    process_best_path_wf(1)[OF _ assms(3)] subscriber_again_context
  by (auto simp: start_subscriber_def subscribe_best_path_processor_def bind_result_Inr_iff)

text \<open>Polling applies the announcements before the first malformed one: a polled list has the effect of announcing its elements one after the other up to
  the first that cannot be read, which takes with it all elements behind it.\<close>

theorem polling_applies_the_readable_prefix:
  assumes "js_parse js body = Inr (ok, doc)" and "js_isArray js doc"
  shows "snd (poll_call js NEW config (Some body, gen) s) = announce_all NEW gen config 0
    (map projr (takeWhile succeeds (map (\<lambda>i. bind_result (js_element js doc i) (read_best_path (JsonLib.truncate js))) [0..<js_size js doc])))
    (snd s)"
  by (simp add: poll_call_announces simple_call_best_path_def assms push_until_error_prefix)

text \<open>Witnesses: a datagram and then a socket that fails, a lost connection, and a polled list whose second element is no object.\<close>

definition sample_datagram :: UdpInput where
  "sample_datagram = \<lparr>ud_wait = 2, ud_recv_len = 4, ud_coin_idx = 0, ud_table = \<lparr>um_rows = [(0, [sample_event])]\<rparr>,
     ud_now = 8, ud_ok1 = True, ud_ok2 = True\<rparr>"


theorem best_path_subscriber_recovers_witness:
  "\<exists>s. run_inputs (subscribe_best_path_processor sample_jsoncpp ''new'' (\<lambda>x _. (''u'', 7)) sample_trader_config)
       [sample_input 3 ReceiveError, sample_input 4 (Payload ''{'')] (start_subscriber (sample_trader_context zero_order)) = Inr s
     \<and> sb_clock s = 7 + 5000 * sb_connects s \<and> sb_connects s = 2 \<and> trader_wf (sb_context s)"
proof -
  let ?run = "run_inputs (subscribe_best_path_processor sample_jsoncpp ''new'' (\<lambda>x _. (''u'', 7)) sample_trader_config)
    [sample_input 3 ReceiveError, sample_input 4 (Payload ''{'')] (start_subscriber (sample_trader_context zero_order))"
  have "zmq_receive ''{'' = Inr ''{''" by (simp add: zmq_receive_def)
  moreover have "best_path_message sample_jsoncpp ''{'' = Inr \<lparr>bp_action = [], bp_symbol = [], bp_local_ip = [], bp_remote_ip = [],
      bp_best_cost = 0, bp_update_time_millis = 0\<rparr>"
    using null_reads[OF sample_null] by (simp add: best_path_message_def read_best_path_def) (simp add: sample_jsoncpp_def)
  ultimately obtain s where s: "?run = Inr s" "sb_connects s = 2"
    by (simp add: subscribe_best_path_processor_def subscriber_turn_def sample_input_def start_subscriber_def Let_def)
  have "trader_wf (sample_trader_context zero_order)" "trader_limits_ok sample_trader_config"
    using sample_manager_wf sample_limiter_wf
    by (simp_all add: trader_wf_def sample_trader_context_def trader_limits_ok_def sample_trader_config_def)
  from best_path_subscriber_recovers[OF s(1) this] s show ?thesis by (auto simp: sample_input_def)
qed

definition sample_path_json :: "sample_json PathJson" where
  "sample_path_json = JsonLib.extend (sample_jsoncpp\<lparr>js_size := (\<lambda>v. 2), js_element := (\<lambda>v i. Inr (if i = 0 then CNull else CBool True))\<rparr>)
     (PathJson.fields (\<lambda>v. True))"

theorem polling_applies_the_readable_prefix_witness:
  "snd (poll_call sample_path_json ''new'' sample_trader_config (Some ''x'', \<lambda>_ _. (''u'', 7)) (0, c))
     = announce_all ''new'' (\<lambda>_ _. (''u'', 7)) sample_trader_config 0 [\<lparr>bp_action = [], bp_symbol = [], bp_local_ip = [], bp_remote_ip = [],
         bp_best_cost = 0, bp_update_time_millis = 0\<rparr>] c"
proof -
  have p: "js_parse sample_path_json ''x'' = Inr (False, CNull)" "js_isArray sample_path_json CNull"
    by (simp_all add: sample_path_json_def JsonLib.defs PathJson.defs sample_jsoncpp_def)
  have "upt 0 (js_size sample_path_json CNull) = [0, 1]"
    by (simp add: sample_path_json_def JsonLib.defs PathJson.defs upt_rec)
  then show ?thesis
    using polling_applies_the_readable_prefix[OF p, of "''new''" sample_trader_config "\<lambda>_ _. (''u'', 7)" "(0, c)"]
    by (simp add: sample_path_json_def JsonLib.defs PathJson.defs sample_jsoncpp_def read_best_path_def read_member_def)
qed

end
