(* ===== verification/Segments.thy ===== *)
theory Segments
  imports ConfigFiles
begin

text \<open>
  \<open>src/src/shm/share_memory_mng.cpp\<close>: creating, deleting and attaching the System V segments that connect the processes, and the segments that the
  receiver and the actuary create and attach at their start (\<open>init_shm\<close>, \<open>init_shm_for_main\<close>, \<open>init_shm_for_secondary\<close>). The system calls are
  the record \<open>SysV\<close> of functions on a system state; \<open>sysv_ok\<close> says what their manual pages promise. Whether a call succeeds is otherwise left open.
\<close>

section \<open>The system calls\<close>

text \<open>\<open>ftok\<close>, \<open>shmget\<close> and \<open>shmat\<close> return \<open>None\<close> for -1; the flag of \<open>shmget\<close> is \<open>IPC_CREAT | IPC_EXCL\<close>. \<open>sv_lookup\<close>, the table of the
  keys, and \<open>sv_attached\<close>, the segments that some process has attached, are not called: the promises speak of them.\<close>

record 'k SysV =
  sv_ftok :: "string \<Rightarrow> int \<Rightarrow> int option"
  sv_shmget :: "int \<Rightarrow> int \<Rightarrow> bool \<Rightarrow> 'k \<Rightarrow> int option \<times> 'k"
  sv_rmid :: "int \<Rightarrow> 'k \<Rightarrow> 'k"
  sv_shmat :: "int \<Rightarrow> 'k \<Rightarrow> int option \<times> 'k"
  sv_lookup :: "'k \<Rightarrow> int \<rightharpoonup> int"
  sv_attached :: "'k \<Rightarrow> int set"

text \<open>
  Without the flag the segment of the key is returned; with it, a segment that is neither in the table nor attached is made, unless the key has one; removing
  a segment takes it from the table, or if it is not permitted does nothing, and leaves the processes attached to it; \<open>shmat\<close> maps only
  a segment that exists, and the process is then attached to it.
\<close>

definition shmget_ok :: "'k SysV \<Rightarrow> bool" where
  "shmget_ok os \<longleftrightarrow> (\<forall>key n k r k'. sv_shmget os key n True k = (r, k') \<longrightarrow>
     (r = None \<and> k' = k)
     \<or> (\<exists>shm_id. r = Some shm_id \<and> 0 \<le> shm_id \<and> sv_lookup os k key = None
          \<and> shm_id \<notin> ran (sv_lookup os k) \<union> sv_attached os k
          \<and> sv_lookup os k' = (sv_lookup os k)(key \<mapsto> shm_id)))"

definition rmid_ok :: "'k SysV \<Rightarrow> bool" where
  "rmid_ok os \<longleftrightarrow> (\<forall>shm_id k. sv_attached os (sv_rmid os shm_id k) = sv_attached os k
     \<and> (sv_lookup os (sv_rmid os shm_id k) = sv_lookup os k
          \<or> sv_lookup os (sv_rmid os shm_id k) = (\<lambda>key. if sv_lookup os k key = Some shm_id then None else sv_lookup os k key)))"

definition shmat_ok :: "'k SysV \<Rightarrow> bool" where
  "shmat_ok os \<longleftrightarrow> (\<forall>shm_id k address k'. sv_shmat os shm_id k = (address, k') \<longrightarrow>
     (address = None \<and> k' = k)
     \<or> (shm_id \<in> ran (sv_lookup os k) \<union> sv_attached os k \<and> sv_lookup os k' = sv_lookup os k
          \<and> sv_attached os k' = insert shm_id (sv_attached os k)))"

definition sysv_ok :: "'k SysV \<Rightarrow> bool" where
  "sysv_ok os \<longleftrightarrow> (\<forall>key k. sv_shmget os key 0 False k = (sv_lookup os k key, k)) \<and> shmget_ok os \<and> rmid_ok os \<and> shmat_ok os"

section \<open>The operations\<close>

definition writer_common_delete_shm :: "'k SysV \<Rightarrow> string \<Rightarrow> int \<Rightarrow> 'k \<Rightarrow> 'k" where
  "writer_common_delete_shm os path project_id k =
     (case sv_ftok os path project_id of
        None \<Rightarrow> k
      | Some key \<Rightarrow>
          (case sv_shmget os key 0 False k of
             (None, k) \<Rightarrow> k
           | (Some shm_id, k) \<Rightarrow> sv_rmid os shm_id k))"

definition writer_common_create_shm :: "'k SysV \<Rightarrow> string \<Rightarrow> int \<Rightarrow> int \<Rightarrow> int \<Rightarrow> 'k \<Rightarrow> int \<times> 'k" where
  "writer_common_create_shm os path project_id seg_size n_segs k =
     (let k = writer_common_delete_shm os path project_id k
      in case sv_ftok os path project_id of
           None \<Rightarrow> (- 1, k)
         | Some key \<Rightarrow>
             (case sv_shmget os key (seg_size * n_segs) True k of
                (None, k) \<Rightarrow> (- 2, k)
              | (Some shm_id, k) \<Rightarrow> (shm_id, k)))"

definition reader_common_attach_shm :: "'k SysV \<Rightarrow> string \<Rightarrow> int \<Rightarrow> 'k \<Rightarrow> int \<times> 'k" where
  "reader_common_attach_shm os path project_id k =
     (case sv_ftok os path project_id of
        None \<Rightarrow> (- 1, k)
      | Some key \<Rightarrow>
          (case sv_shmget os key 0 False k of
             (None, k) \<Rightarrow> (- 2, k)
           | (Some shm_id, k) \<Rightarrow> (shm_id, k)))"

text \<open>The address of the slots, \<open>None\<close> for the invalid address -1, which no caller checks.\<close>

definition find_start_address :: "'k SysV \<Rightarrow> int \<Rightarrow> 'k \<Rightarrow> int option \<times> 'k" where
  "find_start_address os shm_id k = sv_shmat os shm_id k"

text \<open>The segments of a process in the order of its initialisation, each with its path, the size of a slot and the number of slots.\<close>

type_synonym segment_request = "string \<times> int \<times> int"

fun create_segments :: "'k SysV \<Rightarrow> int \<Rightarrow> segment_request list \<Rightarrow> 'k \<Rightarrow> int list \<times> 'k" where
  "create_segments os project_id [] k = ([], k)"
| "create_segments os project_id ((path, seg_size, n_segs) # rs) k =
     (let (shm_id, k) = writer_common_create_shm os path project_id seg_size n_segs k;
          (ids, k) = create_segments os project_id rs k
      in (shm_id # ids, k))"

fun attach_segments :: "'k SysV \<Rightarrow> int \<Rightarrow> string list \<Rightarrow> 'k \<Rightarrow> int list \<times> 'k" where
  "attach_segments os project_id [] k = ([], k)"
| "attach_segments os project_id (path # paths) k =
     (let (shm_id, k) = reader_common_attach_shm os path project_id k;
          (ids, k) = attach_segments os project_id paths k
      in (shm_id # ids, k))"

text \<open>
  The main receiver creates the threshold segments with a slot per asset and the ticker segments with a slot per instrument of its own; every other
  receiver and the actuary attach them; \<open>size_early_run\<close>, \<open>size_beta\<close> and \<open>size_ticker\<close> are the sizes of the slots.
\<close>

definition receiver_requests :: "int \<Rightarrow> int \<Rightarrow> int \<Rightarrow> ReceiverConfigFile \<Rightarrow> ReceiverContext \<Rightarrow> segment_request list" where
  "receiver_requests size_early_run size_beta size_ticker config c =
     (let assets = int (length (rcfg_all_base_assets config))
      in [(rcfg_share_memory_path_early_run config, size_early_run, assets),
          (rcfg_share_memory_path_benchmark_beta config, size_beta, assets),
          (rcfg_share_memory_path_follower_beta config, size_beta, assets),
          (rcfg_share_memory_path_benchmark_ticker config, size_ticker, int (length (rx_benchmark_inst_ids c))),
          (rcfg_share_memory_path_follower_ticker config, size_ticker, int (length (rx_follower_inst_ids c)))])"

definition receiver_main_segments :: "'k SysV \<Rightarrow> int \<Rightarrow> int \<Rightarrow> int \<Rightarrow> ReceiverConfigFile \<Rightarrow> ReceiverContext \<Rightarrow> 'k \<Rightarrow> int list \<times> 'k" where
  "receiver_main_segments os size_early_run size_beta size_ticker config c =
     create_segments os (rcfg_share_memory_project_id config) (receiver_requests size_early_run size_beta size_ticker config c)"

definition receiver_secondary_segments :: "'k SysV \<Rightarrow> ReceiverConfigFile \<Rightarrow> 'k \<Rightarrow> int list \<times> 'k" where
  "receiver_secondary_segments os config =
     attach_segments os (rcfg_share_memory_project_id config)
       [rcfg_share_memory_path_early_run config, rcfg_share_memory_path_benchmark_beta config, rcfg_share_memory_path_follower_beta config,
        rcfg_share_memory_path_benchmark_ticker config, rcfg_share_memory_path_follower_ticker config]"

text \<open>The actuary attaches these five, and creates the order segment if it is the main node of its group and attaches it if not.\<close>

definition actuary_feed_paths :: "ActuaryConfigFile \<Rightarrow> string list" where
  "actuary_feed_paths config =
     [acfg_share_memory_path_early_run config, acfg_share_memory_path_benchmark_beta config, acfg_share_memory_path_follower_beta config,
      acfg_share_memory_path_benchmark_ticker config, acfg_share_memory_path_follower_ticker config]"

definition actuary_segments :: "'k SysV \<Rightarrow> int \<Rightarrow> ActuaryConfigFile \<Rightarrow> 'k \<Rightarrow> int list \<times> 'k" where
  "actuary_segments os size_order config k =
     (let project_id = acfg_share_memory_project_id config;
          (ids, k) = attach_segments os project_id (actuary_feed_paths config) k;
          (order_id, k) = (if acfg_shm_group_main_node config
             then writer_common_create_shm os (acfg_share_memory_path_order config) project_id size_order
                    (int (length (acfg_all_base_assets config))) k
             else reader_common_attach_shm os (acfg_share_memory_path_order config) project_id k)
      in (ids @ [order_id], k))"

definition trader_segments :: "'k SysV \<Rightarrow> TraderConfigFile \<Rightarrow> 'k \<Rightarrow> int \<times> 'k" where
  "trader_segments os config = reader_common_attach_shm os (tcfg_share_memory_path_order config) (tcfg_share_memory_project_id config)"

section \<open>Lemmas\<close>

lemma sysv_get: "sysv_ok os \<Longrightarrow> sv_shmget os key 0 False k = (sv_lookup os k key, k)"
  by (simp add: sysv_ok_def)

lemma sysv_create:
  assumes "sysv_ok os" and "sv_shmget os key n True k = (r, k')"
  shows "(r = None \<and> k' = k) \<or> (\<exists>shm_id. r = Some shm_id \<and> 0 \<le> shm_id \<and> sv_lookup os k key = None
    \<and> shm_id \<notin> ran (sv_lookup os k) \<union> sv_attached os k \<and> sv_lookup os k' = (sv_lookup os k)(key \<mapsto> shm_id))"
  using assms unfolding sysv_ok_def shmget_ok_def by blast

lemma sysv_remove:
  assumes "sysv_ok os"
  shows "sv_lookup os (sv_rmid os shm_id k) = sv_lookup os k
    \<or> sv_lookup os (sv_rmid os shm_id k) = (\<lambda>key. if sv_lookup os k key = Some shm_id then None else sv_lookup os k key)"
  using assms by (simp add: sysv_ok_def rmid_ok_def)

text \<open>No two keys have the same segment, and segments are numbered from 0.\<close>

definition keys_ok :: "(int \<rightharpoonup> int) \<Rightarrow> bool" where
  "keys_ok m \<longleftrightarrow> (\<forall>a b i. m a = Some i \<longrightarrow> m b = Some i \<longrightarrow> a = b) \<and> (\<forall>a i. m a = Some i \<longrightarrow> 0 \<le> i)"

definition table_ok :: "'k SysV \<Rightarrow> 'k \<Rightarrow> bool" where
  "table_ok os k \<longleftrightarrow> keys_ok (sv_lookup os k)"

lemma keys_ok_unique: "keys_ok m \<Longrightarrow> m a = Some i \<Longrightarrow> m b = Some i \<Longrightarrow> a = b"
  by (simp add: keys_ok_def)

lemma keys_ok_delete: "keys_ok m \<Longrightarrow> keys_ok (m(key := None))"
  by (simp add: keys_ok_def)

lemma keys_ok_insert: "keys_ok m \<Longrightarrow> i \<notin> ran m \<Longrightarrow> 0 \<le> i \<Longrightarrow> keys_ok (m(key \<mapsto> i))"
  unfolding keys_ok_def ran_def by auto

lemma delete_lookup:
  assumes "sysv_ok os" and "table_ok os k" and "sv_ftok os path project_id = Some key"
  shows "table_ok os (writer_common_delete_shm os path project_id k)"
    and "sv_lookup os (writer_common_delete_shm os path project_id k) = sv_lookup os k
      \<or> sv_lookup os (writer_common_delete_shm os path project_id k) = (sv_lookup os k)(key := None)"
proof -
  let ?d = "writer_common_delete_shm os path project_id k" and ?l = "sv_lookup os k"
  show l: "sv_lookup os ?d = ?l \<or> sv_lookup os ?d = ?l(key := None)"
  proof (cases "?l key")
    case None
    then show ?thesis by (simp add: writer_common_delete_shm_def assms(3) sysv_get[OF assms(1)])
  next
    case (Some shm_id)
    have "(\<lambda>a. if ?l a = Some shm_id then None else ?l a) = ?l(key := None)"
      using keys_ok_unique[OF assms(2)[unfolded table_ok_def]] Some by (intro ext) auto
    then show ?thesis
      using sysv_remove[OF assms(1), of shm_id k] Some by (simp add: writer_common_delete_shm_def assms(3) sysv_get[OF assms(1)])
  qed
  then show "table_ok os ?d" using assms(2) keys_ok_delete by (auto simp: table_ok_def)
qed

lemma create_lookup:
  assumes "sysv_ok os" and "table_ok os k" and "sv_ftok os path project_id = Some key"
    and "writer_common_create_shm os path project_id n m k = (shm_id, k')"
  shows "table_ok os k'"
    and "\<And>a. a \<noteq> key \<Longrightarrow> sv_lookup os k' a = sv_lookup os k a"
    and "0 \<le> shm_id \<Longrightarrow> sv_lookup os k' key = Some shm_id"
proof -
  let ?d = "writer_common_delete_shm os path project_id k"
  obtain r where r: "sv_shmget os key (n * m) True ?d = (r, k')" "shm_id = (case r of None \<Rightarrow> - 2 | Some i \<Rightarrow> i)"
    using assms(3,4) by (auto simp: writer_common_create_shm_def Let_def split: prod.splits option.splits)
  note d = delete_lookup[OF assms(1-3)] and c = sysv_create[OF assms(1) r(1)]
  show "table_ok os k'"
    using c d(1) keys_ok_insert by (auto simp: table_ok_def)
  show "\<And>a. a \<noteq> key \<Longrightarrow> sv_lookup os k' a = sv_lookup os k a" using c d(2) by auto
  show "0 \<le> shm_id \<Longrightarrow> sv_lookup os k' key = Some shm_id" using c r(2) by auto
qed

lemma created_not_attached:
  assumes "sysv_ok os" and "sv_ftok os path project_id = Some key"
    and "writer_common_create_shm os path project_id n m k = (shm_id, k')" and "0 \<le> shm_id"
  shows "shm_id \<notin> sv_attached os k"
proof -
  let ?d = "writer_common_delete_shm os path project_id k"
  have "sv_attached os ?d = sv_attached os k"
    using assms(1) by (simp add: writer_common_delete_shm_def assms(2) sysv_get[OF assms(1)] split: option.split) (simp add: sysv_ok_def rmid_ok_def)
  moreover obtain r where "sv_shmget os key (n * m) True ?d = (r, k')" "shm_id = (case r of None \<Rightarrow> - 2 | Some i \<Rightarrow> i)"
    using assms(2,3) by (auto simp: writer_common_create_shm_def Let_def split: prod.splits option.splits)
  ultimately show ?thesis using sysv_create[OF assms(1), of key "n * m" ?d r k'] assms(4) by auto
qed

lemma attach_lookup:
  assumes "sysv_ok os" and "sv_ftok os path project_id = Some key"
  shows "reader_common_attach_shm os path project_id k = (case sv_lookup os k key of None \<Rightarrow> - 2 | Some i \<Rightarrow> i, k)"
  by (simp add: reader_common_attach_shm_def assms(2) sysv_get[OF assms(1)] split: option.splits)

lemma mapped_segment:
  assumes "sysv_ok os" and "find_start_address os shm_id k = (Some address, k')"
  shows "shm_id \<in> sv_attached os k'" and "sv_lookup os k' = sv_lookup os k"
    and "shm_id \<in> ran (sv_lookup os k) \<union> sv_attached os k"
proof -
  have "(Some address :: int option) = None \<and> k' = k \<or> shm_id \<in> ran (sv_lookup os k) \<union> sv_attached os k
      \<and> sv_lookup os k' = sv_lookup os k \<and> sv_attached os k' = insert shm_id (sv_attached os k)"
    using assms unfolding sysv_ok_def shmat_ok_def find_start_address_def by blast
  then show "shm_id \<in> sv_attached os k'" "sv_lookup os k' = sv_lookup os k" "shm_id \<in> ran (sv_lookup os k) \<union> sv_attached os k" by auto
qed

text \<open>A reader that starts before the writer gets no address.\<close>

lemma early_reader_has_no_address:
  assumes "sysv_ok os" and "table_ok os k" and "sv_ftok os path project_id = Some key" and "sv_lookup os k key = None"
    and "\<forall>i \<in> sv_attached os k. 0 \<le> i"
  shows "reader_common_attach_shm os path project_id k = (- 2, k) \<and> fst (find_start_address os (- 2) k) = None"
proof -
  have "- 2 \<notin> ran (sv_lookup os k) \<union> sv_attached os k"
    using assms(2,5) by (fastforce simp: table_ok_def keys_ok_def ran_def)
  then have "fst (find_start_address os (- 2) k) = None"
    using mapped_segment(3)[OF assms(1), of "- 2" k] by (cases "find_start_address os (- 2) k"; cases "fst (find_start_address os (- 2) k)") auto
  then show ?thesis by (simp add: attach_lookup[OF assms(1,3)] assms(4))
qed

text \<open>The keys of a list of paths.\<close>

definition has_keys :: "'k SysV \<Rightarrow> int \<Rightarrow> string list \<Rightarrow> int list \<Rightarrow> bool" where
  "has_keys os project_id paths ks \<longleftrightarrow> map (\<lambda>path. sv_ftok os path project_id) paths = map Some ks"

lemma has_keys_Cons: "has_keys os pid (path # paths) ks \<longleftrightarrow> (\<exists>key keys. ks = key # keys \<and> sv_ftok os path pid = Some key \<and> has_keys os pid paths keys)"
  by (cases ks) (auto simp: has_keys_def)

lemma create_segments_lookup:
  assumes "sysv_ok os" and "table_ok os k" and "has_keys os pid (map fst rs) ks" and "distinct ks"
    and "create_segments os pid rs k = (ids, k')" and "\<forall>i \<in> set ids. 0 \<le> i"
  shows "table_ok os k' \<and> map (sv_lookup os k') ks = map Some ids \<and> (\<forall>a. a \<notin> set ks \<longrightarrow> sv_lookup os k' a = sv_lookup os k a)"
  using assms(2-6)
proof (induction rs arbitrary: k ks ids)
  case Nil
  then show ?case by (simp add: has_keys_def)
next
  case (Cons r rs)
  obtain path n m where r: "r = (path, n, m)" by (cases r)
  obtain key keys where k: "ks = key # keys" "sv_ftok os path pid = Some key" "has_keys os pid (map fst rs) keys"
    using Cons.prems(2) r by (auto simp: has_keys_Cons)
  obtain i k1 ids' where c: "writer_common_create_shm os path pid n m k = (i, k1)" "create_segments os pid rs k1 = (ids', k')" "ids = i # ids'"
    using Cons.prems(4) r by (auto split: prod.splits)
  note w = create_lookup[OF assms(1) Cons.prems(1) k(2) c(1)]
  have "table_ok os k' \<and> map (sv_lookup os k') keys = map Some ids' \<and> (\<forall>a. a \<notin> set keys \<longrightarrow> sv_lookup os k' a = sv_lookup os k1 a)"
    using Cons.IH[OF w(1) k(3) _ c(2)] Cons.prems(3,5) k(1) c(3) by simp
  then show ?case using w(2,3) Cons.prems(3,5) k(1) c(3) by auto
qed

lemma attach_segments_lookup:
  assumes "sysv_ok os" and "has_keys os pid paths ks" and "map (sv_lookup os k) ks = map Some ids"
  shows "attach_segments os pid paths k = (ids, k)"
  using assms(2,3)
proof (induction paths arbitrary: ks ids)
  case Nil
  then show ?case by (simp add: has_keys_def)
next
  case (Cons path paths)
  then obtain key keys i ids' where k: "ks = key # keys" "sv_ftok os path pid = Some key" "has_keys os pid paths keys" "ids = i # ids'"
    by (auto simp: has_keys_Cons)
  then show ?case using Cons attach_lookup[OF assms(1) k(2), of k] by simp
qed

section \<open>A sample system\<close>

text \<open>A table of keys, the next number and the attached segments; the key of a path is its length.\<close>

definition sample_sysv :: "((int \<rightharpoonup> int) \<times> nat \<times> int set) SysV" where
  "sample_sysv = \<lparr>sv_ftok = (\<lambda>path project_id. Some (int (length path))),
     sv_shmget = (\<lambda>key n create (m, next, att).
       if \<not> create then (m key, (m, next, att))
       else if m key = None \<and> int next \<notin> ran m \<union> att then (Some (int next), (m(key \<mapsto> int next), next + 1, att)) else (None, (m, next, att))),
     sv_rmid = (\<lambda>shm_id (m, next, att). ((\<lambda>key. if m key = Some shm_id then None else m key), next, att)),
     sv_shmat = (\<lambda>shm_id (m, next, att). if shm_id \<in> ran m \<union> att then (Some (4096 * shm_id), (m, next, insert shm_id att))
       else (None, (m, next, att))),
     sv_lookup = fst, sv_attached = (\<lambda>(m, next, att). att)\<rparr>"

lemma sample_sysv_ok: "sysv_ok sample_sysv"
  by (auto simp: sysv_ok_def shmget_ok_def rmid_ok_def shmat_ok_def sample_sysv_def split: if_splits)

section \<open>Properties\<close>

text \<open>C25. The processes meet in the same segments: after the main receiver has created its five segments, and unless two of their paths have the same key, every
  receiver and actuary that is configured with the same paths attaches exactly these segments, in the same roles.\<close>

theorem readers_attach_the_writers_segments:
  assumes "sysv_ok os" and "table_ok os k"
    and "receiver_main_segments os size_early_run size_beta size_ticker config c k = (ids, k')" and "\<forall>i \<in> set ids. 0 \<le> i"
    and "has_keys os (rcfg_share_memory_project_id config) (actuary_feed_paths aconfig) ks" and "distinct ks"
    and "acfg_share_memory_project_id aconfig = rcfg_share_memory_project_id config"
    and "actuary_feed_paths aconfig = map fst (receiver_requests size_early_run size_beta size_ticker config c)"
  shows "receiver_secondary_segments os config k' = (ids, k') \<and> take 5 (fst (actuary_segments os size_order aconfig k')) = ids"
proof -
  have l: "map (sv_lookup os k') ks = map Some ids"
    using create_segments_lookup[OF assms(1,2) _ assms(6) assms(3)[unfolded receiver_main_segments_def] assms(4)] assms(5,8) by simp
  then have a: "attach_segments os (rcfg_share_memory_project_id config) (actuary_feed_paths aconfig) k' = (ids, k')"
    by (rule attach_segments_lookup[OF assms(1,5)])
  have "length ids = length ks" using l by (metis length_map)
  also have "\<dots> = 5" using assms(5) by (auto simp: has_keys_def actuary_feed_paths_def dest: arg_cong[of _ _ length])
  finally have n: "length ids = 5" .
  have "receiver_secondary_segments os config k' = (ids, k')"
    using a by (simp add: receiver_secondary_segments_def assms(8) receiver_requests_def Let_def)
  moreover have "take 5 (fst (actuary_segments os size_order aconfig k')) = ids"
    using a n by (simp add: actuary_segments_def assms(7) Let_def split: prod.split)
  ultimately show ?thesis by simp
qed

text \<open>Restarting a writer cuts off its readers: creating the segment again gives a new one, which is what every later reader attaches, while a
  process that has attached the old one keeps it and no path leads to it any more; nothing in the code attaches a second time.\<close>

theorem restarted_writer_cuts_off_readers:
  assumes "sysv_ok os" and "table_ok os k" and "sv_ftok os path project_id = Some key"
    and "reader_common_attach_shm os path project_id k = (old, k)" and "0 \<le> old" and "find_start_address os old k = (Some address, k1)"
    and "writer_common_create_shm os path project_id seg_size n_segs k1 = (new, k')" and "0 \<le> new"
  shows "new \<noteq> old \<and> reader_common_attach_shm os path project_id k' = (new, k')
    \<and> (\<forall>other. fst (reader_common_attach_shm os other project_id k') \<noteq> old)"
proof -
  note m = mapped_segment[OF assms(1,6)]
  have t: "table_ok os k1" using assms(2) m(2) by (simp add: table_ok_def)
  note c = create_lookup[OF assms(1) t assms(3,7)]
  have old: "sv_lookup os k1 key = Some old"
    using assms(4,5) attach_lookup[OF assms(1,3), of k] m(2) by (auto split: option.splits)
  have new: "new \<noteq> old" using created_not_attached[OF assms(1,3,7,8)] m(1) by blast
  have gone: "sv_lookup os k' a \<noteq> Some old" for a
  proof (cases "a = key")
    case True
    then show ?thesis using c(3)[OF assms(8)] new by simp
  next
    case False
    then have "sv_lookup os k1 a \<noteq> Some old" using keys_ok_unique[OF t[unfolded table_ok_def] old] by metis
    then show ?thesis using c(2)[OF False] by simp
  qed
  have "fst (reader_common_attach_shm os other project_id k') \<noteq> old" for other
  proof (cases "sv_ftok os other project_id")
    case None
    then show ?thesis using assms(5) by (simp add: reader_common_attach_shm_def)
  next
    case (Some a)
    then show ?thesis using assms(5) gone[of a] attach_lookup[OF assms(1) Some, of k'] by (auto split: option.split)
  qed
  then show ?thesis using new c(3)[OF assms(8)] by (simp add: attach_lookup[OF assms(1,3)])
qed

text \<open>Witnesses: five segments on a fresh system, and the first of them again.\<close>

definition sample_feed_receiver :: ReceiverConfigFile where
  "sample_feed_receiver = ReceiverConfig.extend (sample_receiver_config [''BTC''] [''BTC''])
     (ReceiverConfigFile.fields [] [] [] False [] [] [] 0 False False 1 ''abc'' ''abcd'' ''a'' ''ab'' ''abcde'')"

definition sample_feed_actuary :: ActuaryConfigFile where
  "sample_feed_actuary = sample_actuary_file\<lparr>acfg_share_memory_project_id := 1, acfg_share_memory_path_early_run := ''a'',
     acfg_share_memory_path_benchmark_beta := ''ab'', acfg_share_memory_path_follower_beta := ''abcde'',
     acfg_share_memory_path_benchmark_ticker := ''abc'', acfg_share_memory_path_follower_ticker := ''abcd''\<rparr>"

theorem readers_attach_the_writers_segments_witness:
  "\<exists>k'. receiver_main_segments sample_sysv 64 48 64 sample_feed_receiver new_ReceiverContext (Map.empty, 7, {}) = ([7, 8, 9, 10, 11], k')
     \<and> take 5 (fst (actuary_segments sample_sysv 200 sample_feed_actuary k')) = [7, 8, 9, 10, 11]"
proof -
  let ?paths = "[''a'', ''ab'', ''abcde'', ''abc'', ''abcd'']"
  have p: "map fst (receiver_requests 64 48 64 sample_feed_receiver new_ReceiverContext) = ?paths"
    "rcfg_share_memory_project_id sample_feed_receiver = 1" "actuary_feed_paths sample_feed_actuary = ?paths"
    "acfg_share_memory_project_id sample_feed_actuary = 1"
    by (simp_all add: receiver_requests_def sample_feed_receiver_def ReceiverConfig.defs ReceiverConfigFile.defs Let_def
        actuary_feed_paths_def sample_feed_actuary_def)
  have k: "has_keys sample_sysv 1 ?paths [1, 2, 5, 3, 4]" by (simp add: has_keys_def sample_sysv_def)
  have t: "table_ok sample_sysv (Map.empty, 7, {})" by (simp add: table_ok_def keys_ok_def sample_sysv_def)
  obtain k' where r: "receiver_main_segments sample_sysv 64 48 64 sample_feed_receiver new_ReceiverContext (Map.empty, 7, {}) = ([7, 8, 9, 10, 11], k')"
    by (simp add: receiver_main_segments_def p(2) receiver_requests_def sample_feed_receiver_def ReceiverConfig.defs ReceiverConfigFile.defs
      Let_def writer_common_create_shm_def writer_common_delete_shm_def sample_sysv_def)
  have n: "\<forall>i \<in> set [7, 8, 9, 10, 11 :: int]. 0 \<le> i" by simp
  show ?thesis
    using readers_attach_the_writers_segments[OF sample_sysv_ok t r n, of sample_feed_actuary "[1, 2, 5, 3, 4]" 200] r k p by simp
qed

theorem restarted_writer_cuts_off_readers_witness:
  "\<exists>k1 k'. find_start_address sample_sysv 6 ([1 \<mapsto> 6], 7, {}) = (Some 24576, k1)
     \<and> writer_common_create_shm sample_sysv ''a'' 1 64 1 k1 = (7, k') \<and> reader_common_attach_shm sample_sysv ''a'' 1 k' = (7, k')
     \<and> (\<forall>other. fst (reader_common_attach_shm sample_sysv other 1 k') \<noteq> 6)"
proof -
  let ?k = "([1 \<mapsto> 6], 7, {}) :: (int \<rightharpoonup> int) \<times> nat \<times> int set"
  let ?k1 = "([1 \<mapsto> 6], 7, {6}) :: (int \<rightharpoonup> int) \<times> nat \<times> int set"
  have t: "table_ok sample_sysv ?k" by (simp add: table_ok_def keys_ok_def sample_sysv_def)
  have f: "sv_ftok sample_sysv ''a'' 1 = Some 1" "reader_common_attach_shm sample_sysv ''a'' 1 ?k = (6, ?k)"
    by (simp_all add: sample_sysv_def reader_common_attach_shm_def)
  have a: "find_start_address sample_sysv 6 ?k = (Some 24576, ?k1)" by (simp add: sample_sysv_def find_start_address_def ran_def)
  obtain k' where c: "writer_common_create_shm sample_sysv ''a'' 1 64 1 ?k1 = (7, k')"
    by (simp add: writer_common_create_shm_def writer_common_delete_shm_def sample_sysv_def Let_def ran_def)
  from restarted_writer_cuts_off_readers[OF sample_sysv_ok t f(1,2) _ a c] a c show ?thesis by (intro exI[of _ ?k1] exI[of _ k']) simp
qed

end
