(* ===== verification/Processes.thy ===== *)
theory Processes
  imports Feeds Segments
begin

text \<open>
  The threads of the four programs (\<open>src/src/bn_umtaker_*.cpp\<close> and the \<open>start_*\<close> functions they call), as the lists of the threads that are created, in this
  order. What a thread does is modelled in the theory of its component; the lists say which of them run together under a configuration.
\<close>

section \<open>The receiver\<close>

datatype receiver_thread =
    PriceOffsetThread
  | EarlyRunThread
  | BetaThread
  | ProcessNormalThread TickerRole
  | SubscribeNormalThread TickerRole
  | ZmqBestThread nat
  | UdpThread nat

definition start_ticker_calculate :: "receiver_thread list" where
  "start_ticker_calculate = [PriceOffsetThread, EarlyRunThread, BetaThread]"

definition start_subscribe_normal_ticker :: "receiver_thread list" where
  "start_subscribe_normal_ticker =
     [ProcessNormalThread Benchmark, ProcessNormalThread Follower, SubscribeNormalThread Benchmark, SubscribeNormalThread Follower]"

definition start_subscribe_zmq_best_ticker :: "ReceiverConfigFile \<Rightarrow> receiver_thread list" where
  "start_subscribe_zmq_best_ticker config = map ZmqBestThread [0..<length (rcfg_ticker_zmq_ipcs config)]"

definition start_subscribe_udp_ticker :: "ReceiverConfigFile \<Rightarrow> receiver_thread list" where
  "start_subscribe_udp_ticker config = map UdpThread [0..<length (rcfg_ticker_udp_ipcs config)]"

definition receiver_threads :: "ReceiverConfigFile \<Rightarrow> receiver_thread list" where
  "receiver_threads config =
     start_ticker_calculate
     @ (case receiver_feed config of
          None \<Rightarrow> []
        | Some NormalTicker \<Rightarrow> start_subscribe_normal_ticker
        | Some ZmqBestTicker \<Rightarrow> start_subscribe_zmq_best_ticker config
        | Some UdpTicker \<Rightarrow> start_subscribe_udp_ticker config)"

section \<open>The trader\<close>

datatype trader_thread =
    PollingBestPathThread
  | SubscribeBestPathThread nat
  | ZookeeperThread
  | OrderMessageThread
  | OrderServiceThread
  | ScanThread string

definition start_best_service_management :: "TraderConfigFile \<Rightarrow> trader_thread list" where
  "start_best_service_management config =
     (if tcfg_trading_use_best_path config
      then PollingBestPathThread # map SubscribeBestPathThread [0..<length (tcfg_best_path_zmq_ipcs config)] @ [ZookeeperThread]
      else [])"

definition start_trade_processors :: "TraderConfigFile \<Rightarrow> trader_thread list" where
  "start_trade_processors config =
     OrderMessageThread # (if \<not> tcfg_trading_use_best_path config then [OrderServiceThread] else [])
     @ map ScanThread (tcfg_node_base_assets config)"

definition trader_threads :: "TraderConfigFile \<Rightarrow> trader_thread list" where
  "trader_threads config = start_best_service_management config @ start_trade_processors config"

section \<open>The evaluator\<close>

datatype evaluator_thread =
    ProcessTickerThread
  | SubscribeTickerThread
  | OrderStatThread nat
  | PollingThread

definition start_subscribe_futures_ticker :: "evaluator_thread list" where
  "start_subscribe_futures_ticker = [ProcessTickerThread, SubscribeTickerThread]"

definition start_order_stat_zmq :: "EvaluatorConfig \<Rightarrow> evaluator_thread list" where
  "start_order_stat_zmq config = map OrderStatThread [0..<length (ecfg_order_stat_zmq_ipcs config)]"

definition evaluator_threads :: "EvaluatorConfig \<Rightarrow> evaluator_thread list" where
  "evaluator_threads config = start_subscribe_futures_ticker @ start_order_stat_zmq config @ [PollingThread]"

section \<open>The actuary\<close>

datatype actuary_thread =
    CommissionRateThread
  | BalancePositionThread
  | SavePositionThread
  | ListenKeyThread
  | SubscribeUserDataThread
  | ProcessUserDataThread
  | SaveExchangeInfoThread
  | StatServerThread
  | LoadOrdersThread
  | StrategyThread string
  | AccountMetaThread
  | BnbBalanceThread

definition start_polling_commission_rate :: "actuary_thread list" where
  "start_polling_commission_rate = [CommissionRateThread]"

definition start_polling_load_balance_position :: "actuary_thread list" where
  "start_polling_load_balance_position = [BalancePositionThread]"

definition start_polling_save_account_position :: "ActuaryConfigFile \<Rightarrow> actuary_thread list" where
  "start_polling_save_account_position config = (if dt_group_main_node config then [SavePositionThread] else [])"

definition start_subscribe_balance_position :: "actuary_thread list" where
  "start_subscribe_balance_position = [ListenKeyThread, SubscribeUserDataThread, ProcessUserDataThread]"

definition start_delay_save_exchange_info :: "actuary_thread list" where
  "start_delay_save_exchange_info = [SaveExchangeInfoThread]"

definition start_stat_zmq_server :: "ActuaryConfigFile \<Rightarrow> actuary_thread list" where
  "start_stat_zmq_server config = (if dt_group_main_node config then [StatServerThread] else [])"

definition start_load_orders :: "ActuaryConfigFile \<Rightarrow> actuary_thread list" where
  "start_load_orders config =
     (if \<not> dt_group_main_node config then []
      else if \<not> acfg_enable_load_order_to_zmq config then []
      else [LoadOrdersThread])"

definition start_strategy_processors :: "ActuaryConfigFile \<Rightarrow> actuary_thread list" where
  "start_strategy_processors config = map StrategyThread (acfg_node_base_assets config)"

definition start_watchdog :: "actuary_thread list" where
  "start_watchdog = [AccountMetaThread, BnbBalanceThread]"

lemmas actuary_start_defs = start_polling_commission_rate_def start_polling_load_balance_position_def start_polling_save_account_position_def
  start_subscribe_balance_position_def start_delay_save_exchange_info_def start_stat_zmq_server_def start_load_orders_def
  start_strategy_processors_def start_watchdog_def

definition actuary_threads :: "ActuaryConfigFile \<Rightarrow> actuary_thread list" where
  "actuary_threads config =
     start_polling_commission_rate @ start_polling_load_balance_position @ start_polling_save_account_position config
     @ start_subscribe_balance_position @ start_delay_save_exchange_info @ start_stat_zmq_server config
     @ start_load_orders config @ start_strategy_processors config @ start_watchdog"

section \<open>Lemmas\<close>

text \<open>
  An asset has as many strategy threads and scanning threads as its name stands in the list of the node: the state of the trading system, which has
  at most one of each, is that of a node without repetitions.
\<close>

lemma strategy_threads: "count_list (actuary_threads config) (StrategyThread base) = count_list (acfg_node_base_assets config) base"
proof -
  have "count_list (map StrategyThread xs) (StrategyThread base) = count_list xs base" for xs by (induction xs) simp_all
  then show ?thesis by (simp add: actuary_threads_def actuary_start_defs)
qed

lemma scan_threads: "count_list (trader_threads config) (ScanThread base) = count_list (tcfg_node_base_assets config) base"
proof -
  have "count_list (map SubscribeBestPathThread ks) (ScanThread base) = 0" for ks by (induction ks) simp_all
  moreover have "count_list (map ScanThread xs) (ScanThread base) = count_list xs base" for xs by (induction xs) simp_all
  ultimately show ?thesis
    by (simp add: trader_threads_def start_best_service_management_def start_trade_processors_def)
qed

lemma actuary_threads_distinct: "distinct (acfg_node_base_assets config) \<Longrightarrow> distinct (actuary_threads config)"
  by (auto simp: actuary_threads_def actuary_start_defs distinct_map inj_on_def)

lemma trader_threads_distinct: "distinct (tcfg_node_base_assets config) \<Longrightarrow> distinct (trader_threads config)"
  by (auto simp: trader_threads_def start_best_service_management_def start_trade_processors_def distinct_map inj_on_def)

text \<open>The orders go over the best path exactly in the processes that look for paths.\<close>

lemma best_path_threads:
  "PollingBestPathThread \<in> set (trader_threads config) \<longleftrightarrow> tcfg_trading_use_best_path config"
  "OrderServiceThread \<in> set (trader_threads config) \<longleftrightarrow> \<not> tcfg_trading_use_best_path config"
  by (auto simp: trader_threads_def start_best_service_management_def start_trade_processors_def)

text \<open>A source that is not one of the three names leaves the receiver with its calculations and no ticker.\<close>

lemma unknown_source_has_no_feed:
  "rcfg_use_ticker_source config \<notin> {''normal'', ''zmq'', ''udp''} \<Longrightarrow> receiver_threads config = start_ticker_calculate"
  by (simp add: receiver_threads_def receiver_feed_def)

end
