(* ===== verification/Services.thy ===== *)
theory Services
  imports OrderService Processes
begin

text \<open>
  The clients of the exchange: how each program sets its clients up (\<open>WsClientWrapper::init\<close>, \<open>init_normal_order_service\<close>, \<open>subscribe_balance_position\<close>,
  \<open>subscribe_normal_ticker\<close>, \<open>subscribe_normal_futures_ticker\<close>), which thread reads the channel of a client, and the threads that keep the
  services of the best path running (\<open>start_process_trade_thread\<close> of \<open>src/src/trader/service_container.cpp\<close>). A client is an object of a library:
  its set-up is the list of the calls made on it. The properties relate the threads of the services to the manager of the theory \<open>OrderService\<close>.
\<close>

section \<open>Setting clients up\<close>

datatype message_channel = OrderChannel | AccountInfoChannel | TickerChannel TickerRole | FuturesTickerChannel

datatype client_call =
    SetLocalIP string
  | SetRemoteIP string
  | InitOrderService string string bool
  | InitUserDataStreamV1 string string bool
  | InitBookTickerV1 bool bool
  | SetMessageChannel message_channel

definition ws_client_setup :: "TraderConfigFile \<Rightarrow> string \<Rightarrow> string \<Rightarrow> client_call list" where
  "ws_client_setup config local_ip remote_ip =
     [SetLocalIP local_ip, SetRemoteIP remote_ip,
      InitOrderService (tcfg_api_key_ed25519 config) (tcfg_secret_key_ed25519 config) (tcfg_trade_use_intranet config),
      SetMessageChannel OrderChannel]"

definition init_normal_order_service :: "TraderConfigFile \<Rightarrow> client_call list" where
  "init_normal_order_service config =
     (if 0 < length (tcfg_trade_local_ip config) then [SetLocalIP (tcfg_trade_local_ip config)] else [])
     @ [InitOrderService (tcfg_api_key_ed25519 config) (tcfg_secret_key_ed25519 config) (tcfg_trade_use_intranet config),
        SetMessageChannel OrderChannel]"

definition user_data_setup :: "ActuaryConfigFile \<Rightarrow> client_call list" where
  "user_data_setup config =
     (if 0 < length (acfg_rest_local_ip config) then [SetLocalIP (acfg_rest_local_ip config)] else [])
     @ [InitUserDataStreamV1 (acfg_api_key_hmac config) (acfg_secret_key_hmac config) (acfg_rest_use_intranet config),
        SetMessageChannel AccountInfoChannel]"

definition normal_ticker_setup :: "ReceiverConfigFile \<Rightarrow> TickerRole \<Rightarrow> client_call list" where
  "normal_ticker_setup config role =
     (if rcfg_normal_ticker_local_ip config \<noteq> '''' then [SetLocalIP (rcfg_normal_ticker_local_ip config)] else [])
     @ [InitBookTickerV1 (rcfg_normal_ticker_use_intranet config) False,
        SetMessageChannel (if role = Benchmark then TickerChannel Benchmark else TickerChannel Follower)]"

definition futures_ticker_setup :: "EvaluatorConfig \<Rightarrow> client_call list" where
  "futures_ticker_setup config =
     (if ecfg_normal_ticker_local_ip config \<noteq> '''' then [SetLocalIP (ecfg_normal_ticker_local_ip config)] else [])
     @ [InitBookTickerV1 False False, SetMessageChannel FuturesTickerChannel]"

text \<open>The channels that a set-up hands messages to.\<close>

definition setup_channels :: "client_call list \<Rightarrow> message_channel set" where
  "setup_channels calls = {ch. SetMessageChannel ch \<in> set calls}"

section \<open>Writers and readers of the channels\<close>

text \<open>The clients that a thread runs, by their set-ups. Only the threads of the best path make clients for any pair of addresses.\<close>

fun receiver_clients :: "ReceiverConfigFile \<Rightarrow> receiver_thread \<Rightarrow> client_call list set" where
  "receiver_clients config (SubscribeNormalThread role) = {normal_ticker_setup config role}"
| "receiver_clients config _ = {}"

fun trader_clients :: "TraderConfigFile \<Rightarrow> trader_thread \<Rightarrow> client_call list set" where
  "trader_clients config PollingBestPathThread = range (\<lambda>(l, r). ws_client_setup config l r)"
| "trader_clients config (SubscribeBestPathThread i) = range (\<lambda>(l, r). ws_client_setup config l r)"
| "trader_clients config OrderServiceThread = {init_normal_order_service config}"
| "trader_clients config _ = {}"

fun evaluator_clients :: "EvaluatorConfig \<Rightarrow> evaluator_thread \<Rightarrow> client_call list set" where
  "evaluator_clients config SubscribeTickerThread = {futures_ticker_setup config}"
| "evaluator_clients config _ = {}"

fun actuary_clients :: "ActuaryConfigFile \<Rightarrow> actuary_thread \<Rightarrow> client_call list set" where
  "actuary_clients config SubscribeUserDataThread = {user_data_setup config}"
| "actuary_clients config _ = {}"

fun receiver_reads :: "receiver_thread \<Rightarrow> message_channel option" where
  "receiver_reads (ProcessNormalThread role) = Some (TickerChannel role)"
| "receiver_reads _ = None"

fun trader_reads :: "trader_thread \<Rightarrow> message_channel option" where
  "trader_reads OrderMessageThread = Some OrderChannel"
| "trader_reads _ = None"

fun evaluator_reads :: "evaluator_thread \<Rightarrow> message_channel option" where
  "evaluator_reads ProcessTickerThread = Some FuturesTickerChannel"
| "evaluator_reads _ = None"

fun actuary_reads :: "actuary_thread \<Rightarrow> message_channel option" where
  "actuary_reads ProcessUserDataThread = Some AccountInfoChannel"
| "actuary_reads _ = None"

text \<open>Every channel that a client of the threads hands its messages to is read by exactly one of them.\<close>

definition channels_served :: "('t \<Rightarrow> client_call list set) \<Rightarrow> ('t \<Rightarrow> message_channel option) \<Rightarrow> 't list \<Rightarrow> bool" where
  "channels_served clients reads threads \<longleftrightarrow>
     (\<forall>t\<in>set threads. \<forall>calls\<in>clients t. \<exists>!ch. ch \<in> setup_channels calls \<and> length (filter (\<lambda>r. reads r = Some ch) threads) = 1)"

section \<open>The threads of the services\<close>

text \<open>
  A thread looks at the flag of its service, calls the client, which blocks until the connection ends, waits a second and looks again. The number counts its
  calls. \<open>Inl\<close> is an exception of the call, which nothing catches: it ends the process (\<open>None\<close>).
\<close>

datatype service_thread = AtCheck nat | InCall nat | Ended nat

fun start_process_trade_thread :: "bool \<Rightarrow> string + bool \<times> string \<Rightarrow> service_thread \<Rightarrow> service_thread option" where
  "start_process_trade_thread is_stopped r (AtCheck n) = Some (if is_stopped then Ended n else InCall (n + 1))"
| "start_process_trade_thread is_stopped (Inr result) (InCall n) = Some (AtCheck n)"
| "start_process_trade_thread is_stopped (Inl what) (InCall n) = None"
| "start_process_trade_thread is_stopped r (Ended n) = Some (Ended n)"

fun thread_calls :: "service_thread \<Rightarrow> nat" where
  "thread_calls (AtCheck n) = n"
| "thread_calls (InCall n) = n"
| "thread_calls (Ended n) = n"

record ServiceSystem =
  ss_manager :: OrderServiceManager
  ss_threads :: "service_thread list"
  ss_terminated :: bool

definition new_ServiceSystem :: ServiceSystem where
  "new_ServiceSystem = \<lparr>ss_manager = new_OrderServiceManager, ss_threads = [], ss_terminated = False\<rparr>"

text \<open>A service that the manager makes is started with it: its thread is created and looks at the flag first.\<close>

inductive service_move :: "ServiceSystem \<Rightarrow> ServiceSystem \<Rightarrow> bool" where
  manage: "\<not> ss_terminated s \<Longrightarrow> m = service_step e (ss_manager s) \<Longrightarrow>
     service_move s (s\<lparr>ss_manager := m,
       ss_threads := ss_threads s @ replicate (length (sm_cells m) - length (sm_cells (ss_manager s))) (AtCheck 0)\<rparr>)"
| thread: "\<not> ss_terminated s \<Longrightarrow> i < length (ss_threads s) \<Longrightarrow>
     start_process_trade_thread (ws_is_stopped (sm_cells (ss_manager s) ! i)) r (ss_threads s ! i) = Some t \<Longrightarrow>
     service_move s (s\<lparr>ss_threads := (ss_threads s)[i := t]\<rparr>)"
| terminate: "\<not> ss_terminated s \<Longrightarrow> i < length (ss_threads s) \<Longrightarrow>
     start_process_trade_thread (ws_is_stopped (sm_cells (ss_manager s) ! i)) r (ss_threads s ! i) = None \<Longrightarrow>
     service_move s (s\<lparr>ss_terminated := True\<rparr>)"

inductive_cases service_moveE: "service_move s s'"

section \<open>Lemmas\<close>

lemma stop_and_remove_cells:
  "length (sm_cells (stop_and_remove_service p m)) = length (sm_cells m)"
  "i < length (sm_cells m) \<Longrightarrow> ws_is_stopped (sm_cells m ! i) \<Longrightarrow> ws_is_stopped (sm_cells (stop_and_remove_service p m) ! i)"
  by (auto simp: stop_and_remove_service_def Let_def cell_update_def nth_list_update ws_stop_def split: option.split)

lemma fold_remove_cells:
  "length (sm_cells (fold stop_and_remove_service ps m)) = length (sm_cells m)"
  "i < length (sm_cells m) \<Longrightarrow> ws_is_stopped (sm_cells m ! i) \<Longrightarrow> ws_is_stopped (sm_cells (fold stop_and_remove_service ps m) ! i)"
  by (induction ps arbitrary: m) (simp_all add: stop_and_remove_cells)

text \<open>The services are never renumbered, and a stopped one stays stopped.\<close>

lemma service_step_cells:
  "length (sm_cells m) \<le> length (sm_cells (service_step e m))"
  "i < length (sm_cells m) \<Longrightarrow> ws_is_stopped (sm_cells m ! i) \<Longrightarrow> ws_is_stopped (sm_cells (service_step e m) ! i)"
proof -
  show "length (sm_cells m) \<le> length (sm_cells (service_step e m))"
    by (cases e) (auto simp: update_best_service_def service_zookeeper_processor_def Let_def cell_update_def stop_and_remove_cells fold_remove_cells
        split: option.split)
  show "ws_is_stopped (sm_cells (service_step e m) ! i)" if "i < length (sm_cells m)" "ws_is_stopped (sm_cells m ! i)"
    using that
    by (cases e) (auto simp: update_best_service_def service_zookeeper_processor_def Let_def cell_update_def nth_list_update nth_append
        stop_and_remove_cells fold_remove_cells split: option.split)
qed

definition service_inv :: "ServiceSystem \<Rightarrow> bool" where
  "service_inv s \<longleftrightarrow> sm_wf (ss_manager s) \<and> length (ss_threads s) = length (sm_cells (ss_manager s))
     \<and> (\<forall>i < length (ss_threads s). \<forall>n. ss_threads s ! i = Ended n \<longrightarrow> ws_is_stopped (sm_cells (ss_manager s) ! i))"

lemma trade_thread_ends: "start_process_trade_thread stopped r t = Some (Ended n) \<Longrightarrow> stopped \<or> t = Ended n"
  by (cases "(stopped, r, t)" rule: start_process_trade_thread.cases) (auto split: if_splits)

lemma service_inv_move: "service_move s s' \<Longrightarrow> service_inv s \<Longrightarrow> service_inv s'"
proof (induction rule: service_move.induct)
  case (manage s m e)
  have wf: "sm_wf m" using manage(2,3) service_run_wf[of "ss_manager s" "[e]"] by (simp add: service_inv_def)
  have "ws_is_stopped (sm_cells m ! i)"
    if "i < length (ss_threads s)" "ss_threads s ! i = Ended n" for i n
    using that manage(2,3) service_step_cells(2)[of i "ss_manager s" e] by (auto simp: service_inv_def)
  then show ?case using wf manage(2,3) service_step_cells(1)[of "ss_manager s" e]
    by (auto simp: service_inv_def nth_append)
next
  case (thread s i r t)
  have ended: "ws_is_stopped (sm_cells (ss_manager s) ! i)" if "t = Ended n" for n
    using trade_thread_ends[of "ws_is_stopped (sm_cells (ss_manager s) ! i)" r "ss_threads s ! i" n] thread(2-4) that by (auto simp: service_inv_def)
  have "ws_is_stopped (sm_cells (ss_manager s) ! j)" if "j < length (ss_threads s)" "(ss_threads s)[i := t] ! j = Ended n" for j n
    using ended[of n] that thread(4) by (cases "j = i") (auto simp: service_inv_def)
  then show ?case using thread(4) by (simp add: service_inv_def)
qed (simp add: service_inv_def)

lemma service_inv_run: "service_move\<^sup>*\<^sup>* s s' \<Longrightarrow> service_inv s \<Longrightarrow> service_inv s'"
  by (induction rule: rtranclp_induct) (simp_all add: service_inv_move)

lemma service_inv_new: "service_inv new_ServiceSystem"
  by (simp add: service_inv_def new_ServiceSystem_def new_manager_wf) (simp add: new_OrderServiceManager_def)

lemma stopped_thread_calls: "start_process_trade_thread True r t = Some t' \<Longrightarrow> thread_calls t' = thread_calls t"
  by (cases "(True, r, t)" rule: start_process_trade_thread.cases) auto

lemma service_move_stopped:
  assumes "service_move s s'" and "service_inv s" and "i < length (ss_threads s)" and "ws_is_stopped (sm_cells (ss_manager s) ! i)"
  shows "i < length (ss_threads s') \<and> ws_is_stopped (sm_cells (ss_manager s') ! i)
    \<and> thread_calls (ss_threads s' ! i) = thread_calls (ss_threads s ! i)"
  using assms
proof (cases rule: service_move.cases)
  case (manage m e)
  then show ?thesis using assms(2-4) service_step_cells(2)[of i "ss_manager s" e] by (simp add: service_inv_def nth_append)
next
  case (thread j r t)
  then show ?thesis using assms(3,4) stopped_thread_calls by (cases "j = i") auto
qed simp

lemma service_run_stopped:
  assumes "service_move\<^sup>*\<^sup>* s s'" and "service_inv s" and "i < length (ss_threads s)" and "ws_is_stopped (sm_cells (ss_manager s) ! i)"
  shows "i < length (ss_threads s') \<and> ws_is_stopped (sm_cells (ss_manager s') ! i)
    \<and> thread_calls (ss_threads s' ! i) = thread_calls (ss_threads s ! i)"
  using assms
proof (induction rule: rtranclp_induct)
  case (step t u)
  from step.IH[OF step.prems] step.hyps(2) show ?case
    using service_move_stopped[OF step.hyps(2) service_inv_run[OF step.hyps(1) step.prems(1)], of i] by simp
qed simp

lemma service_run_length: "service_move\<^sup>*\<^sup>* s s' \<Longrightarrow> service_inv s \<Longrightarrow> length (ss_threads s) \<le> length (ss_threads s')"
proof (induction rule: rtranclp_induct)
  case (step t u)
  from step.hyps(2) have "length (ss_threads t) \<le> length (ss_threads u)" by (cases rule: service_move.cases) simp_all
  then show ?case using step by simp
qed simp

lemma setup_channels_simps [simp]:
  "setup_channels (ws_client_setup tconfig l r) = {OrderChannel}" "setup_channels (init_normal_order_service tconfig) = {OrderChannel}"
  "setup_channels (user_data_setup aconfig) = {AccountInfoChannel}" "setup_channels (normal_ticker_setup rconfig role) = {TickerChannel role}"
  "setup_channels (futures_ticker_setup econfig) = {FuturesTickerChannel}"
  by (cases role; auto simp: setup_channels_def ws_client_setup_def init_normal_order_service_def user_data_setup_def normal_ticker_setup_def
      futures_ticker_setup_def)+

text \<open>A client with one channel is served when one thread reads it.\<close>

lemma channels_servedI:
  assumes "\<And>t calls. t \<in> set threads \<Longrightarrow> calls \<in> clients t \<Longrightarrow>
    \<exists>ch. setup_channels calls = {ch} \<and> length (filter (\<lambda>r. reads r = Some ch) threads) = 1"
  shows "channels_served clients reads threads"
  using assms unfolding channels_served_def by fastforce

lemma receiver_served: "channels_served (receiver_clients config) receiver_reads (receiver_threads config)"
proof (rule channels_servedI)
  fix t calls assume t: "t \<in> set (receiver_threads config)" "calls \<in> receiver_clients config t"
  from t(2) obtain role where role: "t = SubscribeNormalThread role" "calls = normal_ticker_setup config role" by (cases t) auto
  then have "receiver_feed config = Some NormalTicker"
    using t(1) role(1)
    by (cases "receiver_feed config"; cases "the (receiver_feed config)")
      (auto simp: receiver_threads_def start_ticker_calculate_def start_subscribe_zmq_best_ticker_def start_subscribe_udp_ticker_def)
  then have "length (filter (\<lambda>r. receiver_reads r = Some (TickerChannel role)) (receiver_threads config)) = 1"
    by (cases role) (simp_all add: receiver_threads_def start_ticker_calculate_def start_subscribe_normal_ticker_def)
  then show "\<exists>ch. setup_channels calls = {ch} \<and> length (filter (\<lambda>r. receiver_reads r = Some ch) (receiver_threads config)) = 1"
    using role(2) by auto
qed

lemma trader_served: "channels_served (trader_clients config) trader_reads (trader_threads config)"
proof (rule channels_servedI)
  fix t calls assume t: "t \<in> set (trader_threads config)" "calls \<in> trader_clients config t"
  have none: "filter (\<lambda>r. trader_reads r = Some OrderChannel) (map SubscribeBestPathThread ks) = []"
    "filter (\<lambda>r. trader_reads r = Some OrderChannel) (map ScanThread xs) = []" for ks xs by (simp_all add: filter_empty_conv)
  have "length (filter (\<lambda>r. trader_reads r = Some OrderChannel) (trader_threads config)) = 1"
    by (simp add: trader_threads_def start_best_service_management_def start_trade_processors_def none)
  moreover have "setup_channels calls = {OrderChannel}" using t(2) by (cases t) auto
  ultimately show "\<exists>ch. setup_channels calls = {ch} \<and> length (filter (\<lambda>r. trader_reads r = Some ch) (trader_threads config)) = 1" by blast
qed

lemma evaluator_served: "channels_served (evaluator_clients config) evaluator_reads (evaluator_threads config)"
proof (rule channels_servedI)
  fix t calls assume t: "t \<in> set (evaluator_threads config)" "calls \<in> evaluator_clients config t"
  have "filter (\<lambda>r. evaluator_reads r = Some FuturesTickerChannel) (map OrderStatThread ks) = []" for ks by (simp add: filter_empty_conv)
  then have "length (filter (\<lambda>r. evaluator_reads r = Some FuturesTickerChannel) (evaluator_threads config)) = 1"
    by (simp add: evaluator_threads_def start_subscribe_futures_ticker_def start_order_stat_zmq_def)
  moreover have "setup_channels calls = {FuturesTickerChannel}" using t(2) by (cases t) auto
  ultimately show "\<exists>ch. setup_channels calls = {ch} \<and> length (filter (\<lambda>r. evaluator_reads r = Some ch) (evaluator_threads config)) = 1" by blast
qed

lemma actuary_served: "channels_served (actuary_clients config) actuary_reads (actuary_threads config)"
proof (rule channels_servedI)
  fix t calls assume t: "t \<in> set (actuary_threads config)" "calls \<in> actuary_clients config t"
  have "filter (\<lambda>r. actuary_reads r = Some AccountInfoChannel) (map StrategyThread xs) = []" for xs by (simp add: filter_empty_conv)
  then have "length (filter (\<lambda>r. actuary_reads r = Some AccountInfoChannel) (actuary_threads config)) = 1"
    by (simp add: actuary_threads_def actuary_start_defs)
  moreover have "setup_channels calls = {AccountInfoChannel}" using t(2) by (cases t) auto
  ultimately show "\<exists>ch. setup_channels calls = {ch} \<and> length (filter (\<lambda>r. actuary_reads r = Some ch) (actuary_threads config)) = 1" by blast
qed

text \<open>A trader with one service, whose thread is in its call.\<close>

definition service_demo :: ServiceSystem where
  "service_demo = \<lparr>ss_manager = service_step (Announce 5 ''u'' ''S'' ''a'' ''b'') new_OrderServiceManager,
     ss_threads = [InCall 1], ss_terminated = False\<rparr>"

lemma service_demo_manager:
  "map_of (sm_ippair_service_map (ss_manager service_demo)) ''a_b'' = Some 0" "length (sm_cells (ss_manager service_demo)) = 1"
  "\<not> ws_is_stopped (sm_cells (ss_manager service_demo) ! 0)"
  by (simp_all add: service_demo_def update_best_service_def new_OrderServiceManager_def ws_start_def ws_init_def new_WsClientWrapper_def Let_def)

lemma service_demo_reached: "service_move\<^sup>*\<^sup>* new_ServiceSystem service_demo"
proof -
  let ?m = "service_step (Announce 5 ''u'' ''S'' ''a'' ''b'') new_OrderServiceManager"
  have len: "length (sm_cells ?m) - length (sm_cells (ss_manager new_ServiceSystem)) = 1"
    using service_demo_manager(2) by (simp add: service_demo_def new_ServiceSystem_def) (simp add: new_OrderServiceManager_def)
  have "service_move new_ServiceSystem (new_ServiceSystem\<lparr>ss_manager := ?m, ss_threads := [AtCheck 0]\<rparr>)"
    using service_move.manage[of new_ServiceSystem ?m "Announce 5 ''u'' ''S'' ''a'' ''b''"] unfolding len
    by (simp add: new_ServiceSystem_def del: service_step.simps)
  moreover have "service_move (new_ServiceSystem\<lparr>ss_manager := ?m, ss_threads := [AtCheck 0]\<rparr>) service_demo"
    using service_move.thread[of "new_ServiceSystem\<lparr>ss_manager := ?m, ss_threads := [AtCheck 0]\<rparr>" 0 undefined "InCall 1"] service_demo_manager(3)
    by (simp add: new_ServiceSystem_def service_demo_def del: service_step.simps)
  ultimately show ?thesis by (metis converse_rtranclp_into_rtranclp r_into_rtranclp)
qed

section \<open>Properties\<close>

text \<open>C33. Whatever the manager and the connections do, a service that the manager holds has a thread that has not ended, and the thread of a
  service that was stopped makes no further call of its client.\<close>

theorem service_threads_follow_the_manager:
  assumes "service_move\<^sup>*\<^sup>* new_ServiceSystem s" and "map_of (sm_ippair_service_map (ss_manager s)) p = Some i"
  shows "i < length (ss_threads s) \<and> (\<forall>n. ss_threads s ! i \<noteq> Ended n)
    \<and> (\<forall>t u. service_move\<^sup>*\<^sup>* s t \<and> ws_is_stopped (sm_cells (ss_manager t) ! i) \<and> service_move\<^sup>*\<^sup>* t u
         \<longrightarrow> thread_calls (ss_threads u ! i) = thread_calls (ss_threads t ! i))"
proof -
  have inv: "service_inv s" using service_inv_run[OF assms(1) service_inv_new] .
  then have ok: "service_ok (ss_manager s) (p, i)" using sm_wf_map_of assms(2) by (simp add: service_inv_def)
  then have i: "i < length (ss_threads s)" "\<not> ws_is_stopped (sm_cells (ss_manager s) ! i)"
    using inv by (simp_all add: service_ok_def service_inv_def Let_def)
  have "thread_calls (ss_threads u ! i) = thread_calls (ss_threads t ! i)"
    if "service_move\<^sup>*\<^sup>* s t" "ws_is_stopped (sm_cells (ss_manager t) ! i)" "service_move\<^sup>*\<^sup>* t u" for t u
  proof -
    have "service_inv t" using service_inv_run[OF that(1) inv] .
    moreover have "i < length (ss_threads t)" using service_run_length[OF that(1) inv] i(1) by simp
    ultimately show ?thesis using service_run_stopped[OF that(3)] that(2) by blast
  qed
  then show ?thesis using i inv by (auto simp: service_inv_def)
qed

theorem service_threads_follow_the_manager_witness:
  "0 < length (ss_threads service_demo) \<and> (\<forall>n. ss_threads service_demo ! 0 \<noteq> Ended n)"
  using service_threads_follow_the_manager[OF service_demo_reached service_demo_manager(1)] by blast

text \<open>An exception of the client in the thread of one service ends the trader with all its threads: from then on
  nothing moves, although the manager still holds the service.\<close>

theorem service_exception_ends_the_trader:
  assumes "service_move\<^sup>*\<^sup>* new_ServiceSystem s" and "\<not> ss_terminated s" and "i < length (ss_threads s)" and "ss_threads s ! i = InCall n"
  shows "\<exists>s'. service_move s s' \<and> ss_terminated s' \<and> ss_manager s' = ss_manager s \<and> (\<forall>t. \<not> service_move s' t)"
proof -
  have "service_move s (s\<lparr>ss_terminated := True\<rparr>)"
    using service_move.terminate[of s i "Inl ''''"] assms(2-4) by simp
  moreover have "\<not> service_move (s\<lparr>ss_terminated := True\<rparr>) t" for t by (auto elim: service_moveE)
  ultimately show ?thesis by (intro exI[of _ "s\<lparr>ss_terminated := True\<rparr>"]) simp
qed

theorem service_exception_ends_the_trader_witness:
  "\<exists>s'. service_move service_demo s' \<and> ss_terminated s' \<and> ss_manager s' = ss_manager service_demo \<and> (\<forall>t. \<not> service_move s' t)"
  using service_exception_ends_the_trader[OF service_demo_reached, of 0 1] by (simp add: service_demo_def)

text \<open>In each of the four programs, under every configuration, the messages of each client of the exchange go to one channel, and exactly one of the threads
  that the program creates reads it.\<close>

theorem message_channels_are_read:
  "channels_served (receiver_clients rconfig) receiver_reads (receiver_threads rconfig)
   \<and> channels_served (trader_clients tconfig) trader_reads (trader_threads tconfig)
   \<and> channels_served (evaluator_clients econfig) evaluator_reads (evaluator_threads econfig)
   \<and> channels_served (actuary_clients aconfig) actuary_reads (actuary_threads aconfig)"
  using receiver_served trader_served evaluator_served actuary_served by blast

end
