(* ===== verification/StrategyLog.thy ===== *)
theory StrategyLog
  imports ConfigFiles
begin

text \<open>
  The rest of the loop of \<open>calculate_signal_make_order\<close> (\<open>src/src/actuary/strategy_processor.cpp\<close>): the lines that an iteration logs about its
  inputs when the configuration asks for them, and the pauses between the iterations. \<open>strategy_step_logged\<close> is an iteration with its
  lines, \<open>strategy_loop\<close> the loop with the clock that the pauses advance. The lemmas compare them with the iteration of the theory \<open>Strategy\<close>, which
  leaves both out.
\<close>

section \<open>Lines about the inputs\<close>

text \<open>\<open>std::to_string\<close> of a double and the double itself are printed differently.\<close>

datatype log_value = LogString string | LogFixed double | LogDouble double | LogInt int | LogBool bool

abbreviation buy_level :: "double \<Rightarrow> TickerInfoShm \<Rightarrow> BetaThresholdShm \<Rightarrow> BetaThresholdShm \<Rightarrow> double" where
  "buy_level ratio bt bb fb \<equiv> tk_bid_price bt / (Fin 1 + (bt_bid_beta_threshold bb + bt_ask_beta_threshold fb) * (Fin 1 + ratio))"

abbreviation sell_level :: "double \<Rightarrow> TickerInfoShm \<Rightarrow> BetaThresholdShm \<Rightarrow> BetaThresholdShm \<Rightarrow> double" where
  "sell_level ratio bt bb fb \<equiv> tk_ask_price bt * (Fin 1 + (bt_ask_beta_threshold bb + bt_bid_beta_threshold fb) * (Fin 1 - ratio))"

text \<open>The two multiples of the sizes are converted to \<open>int\<close>.\<close>

definition sampling_log :: "InstConfigItem \<Rightarrow> double \<Rightarrow> string \<Rightarrow> bool \<Rightarrow> bool \<Rightarrow> TickerInfoShm \<Rightarrow> TickerInfoShm
    \<Rightarrow> EarlyRunThresholdShm \<Rightarrow> BetaThresholdShm \<Rightarrow> BetaThresholdShm \<Rightarrow> log_value list result" where
  "sampling_log inst ratio base_asset benchmark_ticker_changed follower_ticker_changed bt ft er bb fb =
     bind_result (to_int 32 (tk_bid_size bt / tk_ask_size ft)) (\<lambda>bid_multiple.
     bind_result (to_int 32 (tk_ask_size bt / tk_bid_size ft)) (\<lambda>ask_multiple.
     Inr [LogString base_asset, LogBool benchmark_ticker_changed, LogBool follower_ticker_changed,
       LogFixed (tk_bid_price bt), LogFixed (tk_bid_size bt), LogFixed (tk_ask_price bt), LogFixed (tk_ask_size bt),
       LogFixed (tk_bid_price ft), LogFixed (tk_bid_size ft), LogFixed (tk_ask_price ft), LogFixed (tk_ask_size ft),
       LogFixed (tk_bid_price bt * tk_bid_size bt), LogFixed (tk_ask_price bt * tk_ask_size bt),
       LogFixed (tk_bid_price ft * tk_bid_size ft), LogFixed (tk_ask_price ft * tk_ask_size ft),
       LogInt bid_multiple, LogInt ask_multiple,
       LogBool (buy_level ratio bt bb fb \<ge> tk_ask_price ft + er_bid_ask_median er),
       LogBool (tk_bid_price bt * tk_bid_size bt \<ge> ic_min_ticker_notional inst),
       LogBool (tk_bid_price bt * tk_bid_size bt \<ge> tk_ask_price ft * tk_ask_size ft * ic_min_ticker_notional_multiple inst),
       LogBool (sell_level ratio bt bb fb \<le> tk_bid_price ft + er_ask_bid_median er),
       LogBool (tk_ask_price bt * tk_ask_size bt \<ge> ic_min_ticker_notional inst),
       LogBool (tk_ask_price bt * tk_ask_size bt \<ge> tk_bid_price ft * tk_bid_size ft * ic_min_ticker_notional_multiple inst)]))"

definition buy_parameter_log :: "bool \<Rightarrow> InstConfigItem \<Rightarrow> double \<Rightarrow> string \<Rightarrow> TickerInfoShm \<Rightarrow> TickerInfoShm
    \<Rightarrow> EarlyRunThresholdShm \<Rightarrow> BetaThresholdShm \<Rightarrow> BetaThresholdShm \<Rightarrow> log_value list" where
  "buy_parameter_log enable_ticker_size_compare inst ratio base_asset bt ft er bb fb =
     [LogString base_asset, LogDouble (tk_bid_price bt), LogDouble (tk_ask_price ft), LogDouble (bt_bid_beta_threshold bb),
      LogDouble (er_bid_ask_median er), LogDouble (bt_ask_beta_threshold fb), LogDouble (ic_beta inst), LogDouble (tk_bid_size bt),
      LogDouble (ic_min_ticker_notional inst), LogDouble (tk_ask_size ft), LogDouble ratio,
      LogDouble (buy_level ratio bt bb fb), LogDouble (tk_ask_price ft + er_bid_ask_median er),
      LogBool (buy_level ratio bt bb fb \<ge> tk_ask_price ft + er_bid_ask_median er), LogBool enable_ticker_size_compare,
      LogBool (tk_bid_price bt * tk_bid_size bt \<ge> ic_min_ticker_notional inst),
      LogBool (tk_bid_price bt * tk_bid_size bt \<ge> tk_ask_price ft * tk_ask_size ft * ic_min_ticker_notional_multiple inst)]"

definition sell_parameter_log :: "bool \<Rightarrow> InstConfigItem \<Rightarrow> double \<Rightarrow> string \<Rightarrow> TickerInfoShm \<Rightarrow> TickerInfoShm
    \<Rightarrow> EarlyRunThresholdShm \<Rightarrow> BetaThresholdShm \<Rightarrow> BetaThresholdShm \<Rightarrow> log_value list" where
  "sell_parameter_log enable_ticker_size_compare inst ratio base_asset bt ft er bb fb =
     [LogString base_asset, LogDouble (tk_ask_price bt), LogDouble (tk_bid_price ft), LogDouble (bt_ask_beta_threshold bb),
      LogDouble (er_ask_bid_median er), LogDouble (bt_bid_beta_threshold fb), LogDouble (ic_beta inst), LogDouble (tk_ask_size bt),
      LogDouble (ic_min_ticker_notional inst), LogDouble (tk_bid_size ft), LogDouble ratio,
      LogDouble (sell_level ratio bt bb fb), LogDouble (tk_bid_price ft + er_ask_bid_median er),
      LogBool (sell_level ratio bt bb fb \<le> tk_bid_price ft + er_ask_bid_median er), LogBool enable_ticker_size_compare,
      LogBool (tk_ask_price bt * tk_ask_size bt \<ge> ic_min_ticker_notional inst),
      LogBool (tk_ask_price bt * tk_ask_size bt \<ge> tk_bid_price ft * tk_bid_size ft * ic_min_ticker_notional_multiple inst)]"

definition strategy_logs :: "ActuaryConfigFile \<Rightarrow> InstConfigItem \<Rightarrow> double \<Rightarrow> string \<Rightarrow> bool \<Rightarrow> bool \<Rightarrow> TickerInfoShm \<Rightarrow> TickerInfoShm
    \<Rightarrow> EarlyRunThresholdShm \<Rightarrow> BetaThresholdShm \<Rightarrow> BetaThresholdShm \<Rightarrow> log_value list list result" where
  "strategy_logs config inst ratio base_asset bchanged fchanged bt ft er bb fb =
     bind_result (if acfg_enable_write_sampling_log config
                  then bind_result (sampling_log inst ratio base_asset bchanged fchanged bt ft er bb fb) (\<lambda>line. Inr [line])
                  else Inr []) (\<lambda>sampling.
       Inr (sampling @ (if acfg_enable_write_parameter_log config
         then [buy_parameter_log (acfg_enable_ticker_size_compare config) inst ratio base_asset bt ft er bb fb,
               sell_parameter_log (acfg_enable_ticker_size_compare config) inst ratio base_asset bt ft er bb fb]
         else [])))"

section \<open>An iteration with its lines\<close>

text \<open>The part of the configuration that the strategy decides with.\<close>

abbreviation decision_config :: "ActuaryConfigFile \<Rightarrow> ActuaryConfig" where
  "decision_config config \<equiv> ActuaryConfig.truncate config"

type_synonym logged_step = "log_value list list \<times> OrderShm option \<times> StrategyState \<times> ActuaryContext"

definition strategy_signal_logged :: "OrderApi \<Rightarrow> StrategyClock \<Rightarrow> bool \<Rightarrow> ActuaryConfigFile \<Rightarrow> string \<Rightarrow> bool \<Rightarrow> bool \<Rightarrow> StrategyEnv
    \<Rightarrow> TickerInfoShm \<Rightarrow> TickerInfoShm \<Rightarrow> EarlyRunThresholdShm \<Rightarrow> BetaThresholdShm \<Rightarrow> BetaThresholdShm
    \<Rightarrow> StrategyState \<Rightarrow> ActuaryContext \<Rightarrow> logged_step result" where
  "strategy_signal_logged api clk stop_buy0 config base_asset bchanged fchanged env bt ft er bb fb st c =
     (case copy_position (se_follower_inst_id env) (ax_balance_position_composite c) of
        None \<Rightarrow> Inr ([], None, st, c)
      | Some position \<Rightarrow>
          let ratio = position_reduce_ratio (decision_config config) env c
          in if close_only (decision_config config) env \<and> feq (positionAmount position) (Fin 0) then Inr ([], None, st, c)
             else bind_result (strategy_logs config (se_inst_config env) ratio base_asset bchanged fchanged bt ft er bb fb) (\<lambda>logs.
               bind_result (strategy_signal api clk stop_buy0 (decision_config config) env bt ft er bb fb st c) (\<lambda>r. Inr (logs, r))))"

definition strategy_step_logged :: "OrderApi \<Rightarrow> StrategyClock \<Rightarrow> bool \<Rightarrow> ActuaryConfigFile \<Rightarrow> string \<Rightarrow> StrategyEnv
    \<Rightarrow> StrategyState \<Rightarrow> ActuaryContext \<Rightarrow> logged_step result" where
  "strategy_step_logged api clk stop_buy0 config base_asset env st c =
     bind_result (read_tickers (decision_config config) env c st) (\<lambda>(tickers, st1).
       case tickers of
         None \<Rightarrow> Inr ([], None, st1, c)
       | Some (bt, ft) \<Rightarrow>
           bind_result (read_thresholds env c st1) (\<lambda>(thresholds, st2).
             case thresholds of
               None \<Rightarrow> Inr ([], None, st2, c)
             | Some (er, bb, fb) \<Rightarrow>
                 if tickers_expired (sk_now clk) (decision_config config) bt ft then Inr ([], None, st2, c)
                 else if thresholds_expired (sk_now clk) (decision_config config) er bb fb then Inr ([], None, st2, c)
                 else strategy_signal_logged api clk stop_buy0 config base_asset
                        (benchmark_ticker_version st <s tk_version_number bt) (follower_ticker_version st <s tk_version_number ft)
                        env bt ft er bb fb st2 c))"

section \<open>The loop and its pauses\<close>

definition strategy_pause :: "ActuaryConfigFile \<Rightarrow> StrategyEnv \<Rightarrow> nat" where
  "strategy_pause config env =
     (if close_only (decision_config config) env then 5000
      else if 0 <s acfg_loop_pause_time_millis config then nat (sint (acfg_loop_pause_time_millis config))
      else 0)"

text \<open>
  The loop from the time \<open>t\<close> (microseconds): every iteration pauses first and takes some \<open>extra\<close> time; the system clock shows \<open>clock t\<close> at the
  time \<open>t\<close> (it can be set, the pauses do not depend on it), and the other threads and processes choose the context of each iteration. The result has
  the orders that were sent, with the times of their iterations.
\<close>

fun strategy_loop :: "OrderApi \<Rightarrow> (nat \<Rightarrow> StrategyClock) \<Rightarrow> ActuaryConfigFile \<Rightarrow> StrategyEnv \<Rightarrow> nat \<Rightarrow> StrategyState
    \<Rightarrow> (nat \<times> bool \<times> ActuaryContext) list \<Rightarrow> (nat \<times> OrderShm) list result" where
  "strategy_loop api clock config env t st [] = Inr []"
| "strategy_loop api clock config env t st ((extra, stop_buy0, c) # xs) =
     (let t = t + 1000 * strategy_pause config env + extra
      in bind_result (strategy_step api (clock t) stop_buy0 (decision_config config) env st c) (\<lambda>(sent, st, _).
           bind_result (strategy_loop api clock config env t st xs) (\<lambda>orders.
             Inr (case sent of None \<Rightarrow> orders | Some order \<Rightarrow> (t, order) # orders))))"

section \<open>Lemmas\<close>

lemma strategy_signal_without_position:
  "copy_position (se_follower_inst_id env) (ax_balance_position_composite c) = None
     \<Longrightarrow> strategy_signal api clk sb config env bt ft er bb fb st c = Inr (None, st, c)"
  "copy_position (se_follower_inst_id env) (ax_balance_position_composite c) = Some position
     \<Longrightarrow> close_only config env \<and> feq (positionAmount position) (Fin 0)
     \<Longrightarrow> strategy_signal api clk sb config env bt ft er bb fb st c = Inr (None, st, c)"
  by (simp_all add: strategy_signal_def Let_def)

lemma strategy_logs_fail: "strategy_logs config inst ratio base b f bt ft er bb fb = Inl e \<Longrightarrow> acfg_enable_write_sampling_log config \<and> e = BadConversion"
  by (auto simp: strategy_logs_def sampling_log_def to_int_def bind_result_def split: if_splits sum.splits)

text \<open>The lines of an iteration are an addition to it, unless they fail.\<close>

lemma strategy_signal_logged_cases:
  "(\<exists>logs. strategy_signal_logged api clk sb config base b f env bt ft er bb fb st c
      = bind_result (strategy_signal api clk sb (decision_config config) env bt ft er bb fb st c) (\<lambda>r. Inr (logs, r)))
   \<or> strategy_signal_logged api clk sb config base b f env bt ft er bb fb st c = Inl BadConversion \<and> acfg_enable_write_sampling_log config"
proof (cases "copy_position (se_follower_inst_id env) (ax_balance_position_composite c)")
  case None
  then show ?thesis by (simp add: strategy_signal_logged_def strategy_signal_without_position(1))
next
  case (Some position)
  show ?thesis
  proof (cases "close_only (decision_config config) env \<and> feq (positionAmount position) (Fin 0)")
    case True
    then show ?thesis using Some by (simp add: strategy_signal_logged_def strategy_signal_without_position(2) Let_def)
  next
    case False
    then show ?thesis
      using Some strategy_logs_fail
      by (cases "strategy_logs config (se_inst_config env) (position_reduce_ratio (decision_config config) env c) base b f bt ft er bb fb")
        (auto simp: strategy_signal_logged_def Let_def)
  qed
qed

lemma strategy_step_logged_cases:
  "(\<exists>logs. strategy_step_logged api clk sb config base env st c
      = bind_result (strategy_step api clk sb (decision_config config) env st c) (\<lambda>r. Inr (logs, r)))
   \<or> strategy_step_logged api clk sb config base env st c = Inl BadConversion \<and> acfg_enable_write_sampling_log config"
proof (cases "read_tickers (decision_config config) env c st")
  case (Inr x)
  show ?thesis
  proof (cases "fst x")
    case (Some t)
    show ?thesis
    proof (cases "read_thresholds env c (snd x)")
      case (Inr y)
      show ?thesis
        using \<open>read_tickers (decision_config config) env c st = Inr x\<close> Some Inr
          strategy_signal_logged_cases[of api clk sb config base]
        by (cases "fst y") (auto simp: strategy_step_logged_def strategy_step_def case_prod_beta)
    qed (use \<open>read_tickers (decision_config config) env c st = Inr x\<close> Some in
        \<open>auto simp: strategy_step_logged_def strategy_step_def case_prod_beta\<close>)
  qed (use Inr in \<open>auto simp: strategy_step_logged_def strategy_step_def case_prod_beta\<close>)
qed (simp add: strategy_step_logged_def strategy_step_def)

lemma divide_by_zero: "\<not> finite_d (x / Fin 0)"
  by (cases x) (simp_all add: divide_double.simps)

lemma sampling_log_unquoted:
  "tk_ask_size ft = Fin 0 \<or> tk_bid_size ft = Fin 0 \<Longrightarrow> sampling_log inst ratio base b f bt ft er bb fb = Inl BadConversion"
  using divide_by_zero by (auto simp: sampling_log_def to_int_def)

lemma strategy_step_order_time:
  assumes "strategy_step api clk sb config env st c = Inr (Some order, st', c')"
  shows "os_update_time order = sk_now_micros clk"
  using strategy_step_sent[OF assms] by (auto simp: buy_sent_def sell_sent_def order_sent_ok_def)

lemma strategy_loop_pace:
  assumes "strategy_loop api clock config env t st xs = Inr orders"
  shows "sorted_wrt (\<lambda>x y. fst x + 1000 * strategy_pause config env \<le> fst y) orders
    \<and> (\<forall>(t', order)\<in>set orders. t + 1000 * strategy_pause config env \<le> t' \<and> os_update_time order = sk_now_micros (clock t'))"
  using assms
proof (induction xs arbitrary: t st orders)
  case (Cons x xs)
  obtain extra sb c where x: "x = (extra, sb, c)" by (cases x)
  let ?t = "t + 1000 * strategy_pause config env + extra"
  from Cons.prems obtain sent st' c' rest
    where step: "strategy_step api (clock ?t) sb (decision_config config) env st c = Inr (sent, st', c')"
      and rest: "strategy_loop api clock config env ?t st' xs = Inr rest"
      and orders: "orders = (case sent of None \<Rightarrow> rest | Some order \<Rightarrow> (?t, order) # rest)"
    by (auto simp: x Let_def bind_result_Inr_iff)
  show ?case
    using Cons.IH[OF rest] orders strategy_step_order_time step
    by (cases sent) fastforce+
qed simp

definition sample_file_config :: "bool \<Rightarrow> ActuaryConfigFile" where
  "sample_file_config sampling = ActuaryConfig.extend sample_actuary_config
     (ActuaryConfigFile.fields [] 0 [] [] [] [] [] [] 0 [] [] False [] 0 False sampling [] False 0 [] False False 0 [] [] [] [] [] [])"

lemma sample_file_config_facts [simp]:
  "decision_config (sample_file_config sampling) = sample_actuary_config"
  "acfg_enable_write_sampling_log (sample_file_config sampling) = sampling"
  by (simp_all add: sample_file_config_def ActuaryConfig.defs ActuaryConfigFile.defs sample_actuary_config_def)

text \<open>A quote whose bid side has no size yet.\<close>

abbreviation "one_sided_ft \<equiv> sample_ft\<lparr>tk_bid_size := Fin 0\<rparr>"

definition with_follower_tickers :: "TickerInfoShm list \<Rightarrow> ActuaryContext \<Rightarrow> ActuaryContext" where
  "with_follower_tickers ts c = c\<lparr>ax_shm_store_info := (ax_shm_store_info c)\<lparr>follower_start := ts\<rparr>\<rparr>"

definition one_sided_context :: ActuaryContext where
  "one_sided_context = with_follower_tickers [one_sided_ft] (sample_actuary_context 1)"

lemma one_sided_reads:
  "read_tickers sample_actuary_config sample_env one_sided_context sample_state =
     Inr (Some (sample_bt 1, one_sided_ft), sample_state\<lparr>benchmark_ticker_version := 1, follower_ticker_version := 1\<rparr>)"
  "ticker_shm_reader_get (follower_start (ax_shm_store_info one_sided_context)) (se_follower_shm_index sample_env) = Inr one_sided_ft"
  by (simp_all add: one_sided_context_def with_follower_tickers_def read_tickers_def sample_defs ticker_shm_reader_get_def seg_get_def sample_ticker_def word_sless_alt strncpy_buf_def)

lemma one_sided_thresholds:
  "read_thresholds sample_env one_sided_context st = read_thresholds sample_env (sample_actuary_context 1) st"
  by (simp add: read_thresholds_def one_sided_context_def with_follower_tickers_def)

lemma one_sided_decision:
  "buy_signal sample_actuary_config inst ratio bt one_sided_ft er bb fb = buy_signal sample_actuary_config inst ratio bt sample_ft er bb fb"
  "tickers_expired now config bt one_sided_ft = tickers_expired now config bt sample_ft"
  "make_buy_order api now m s u stop config env position bt one_sided_ft er st c = make_buy_order api now m s u stop config env position bt sample_ft er st c"
  by (simp_all add: buy_signal_def tickers_expired_def make_buy_order_def buy_price_def buy_bound_def ticker_delay_def Let_def
      sample_actuary_config_def)

lemma one_sided_make:
  "make_buy_order api now m s u stop config env position bt ft er st (with_follower_tickers ts c)
     = map_sum id (map_prod id (map_prod id (with_follower_tickers ts))) (make_buy_order api now m s u stop config env position bt ft er st c)"
proof -
  have submit: "submit_order stop same closing env (with_follower_tickers ts c) order
      = map_sum id (map_prod id (with_follower_tickers ts)) (submit_order stop same closing env c order)" for same closing order
    by (cases "order_shm_writer_update (order_start (ax_shm_store_info c)) (se_order_shm_index env) order")
      (auto simp: submit_order_def with_follower_tickers_def dynamic_could_make_order_def dynamic_could_make_open_position_order_def)
  have b: "bind_result (map_sum id (map_prod id (with_follower_tickers ts)) r) (\<lambda>(sent, c). Inr (sent, st, c))
      = map_sum id (map_prod id (map_prod id (with_follower_tickers ts))) (bind_result r (\<lambda>(sent, c). Inr (sent, st, c)))"
    for st and r :: "(OrderShm option \<times> ActuaryContext) result"
    by (cases r) (auto split: prod.split)
  show ?thesis unfolding make_buy_order_def Let_def case_prod_beta map_bind_result submit b[unfolded case_prod_beta] ..
qed

lemma one_sided_step:
  "strategy_step sample_api (sample_clock 120) False sample_actuary_config sample_env sample_state one_sided_context =
     Inr (Some (sample_buy 120), sample_state_after 120 1, with_follower_tickers [one_sided_ft] (sample_after False 120 1))"
proof -
  note point = sample_points(1)
  have env: "se_follower_inst_id sample_env = ''BTCUSDC''" "sk_now (sample_clock 120) = 120"
    "sk_now_micros (sample_clock 120) = 120 * 1000" "sk_tv_sec (sample_clock 120) = 0" "sk_tv_usec (sample_clock 120) = 120 * 1000"
    by (simp_all add: sample_env_def sample_clock_def)
  have same: "position_reduce_ratio sample_actuary_config sample_env one_sided_context = Fin 0"
    "copy_position ''BTCUSDC'' (ax_balance_position_composite one_sided_context) = Some sample_position"
    using sample_position_facts(1,4)[of 1]
    by (simp_all add: one_sided_context_def with_follower_tickers_def position_reduce_ratio_def sample_actuary_config_def)
  show ?thesis
    unfolding strategy_step_def one_sided_reads one_sided_thresholds bind_result_simps prod.case option.case sample_read_thresholds[OF point]
    by (simp only: strategy_signal_def env same Let_def bind_result_simps prod.case option.case)
      (simp add: one_sided_decision sample_signal[OF point] sample_position_facts one_sided_context_def one_sided_make
        sample_make[OF point, of False, simplified])
qed

section \<open>Properties\<close>


text \<open>With the sampling line switched on, an iteration that would send an order is undefined when one side of the follower's
  quote has no size, as in a slot whose feed has only delivered the other side: a quotient by zero is converted to \<open>int\<close>.\<close>

theorem sampling_log_needs_both_sides:
  assumes "strategy_step api clk sb (decision_config config) env st c = Inr (Some order, st', c')"
    and "ticker_shm_reader_get (follower_start (ax_shm_store_info c)) (se_follower_shm_index env) = Inr ft"
    and "tk_ask_size ft = Fin 0 \<or> tk_bid_size ft = Fin 0" and "acfg_enable_write_sampling_log config"
  shows "strategy_step_logged api clk sb config base env st c = Inl BadConversion"
  using assms(1)
proof (cases rule: strategy_step_cases)
  case (signal bt ft' st1 er bb fb st2)
  have ft: "ft' = ft" using read_tickers_Some[OF signal(1)] assms(2) by simp
  have logs: "strategy_logs config inst ratio base b f bt ft er bb fb = Inl BadConversion" for inst ratio b f
    using assms(3,4) by (simp add: strategy_logs_def sampling_log_unquoted)
  from strategy_signal_sent[OF signal(5)] obtain position where
      "copy_position (se_follower_inst_id env) (ax_balance_position_composite c) = Some position"
      "\<not> (close_only (decision_config config) env \<and> feq (positionAmount position) (Fin 0))" by auto
  with signal(1-4) logs show ?thesis
    by (simp add: strategy_step_logged_def strategy_signal_logged_def ft Let_def)
qed simp_all

theorem sampling_log_needs_both_sides_witness:
  "strategy_step_logged sample_api (sample_clock 120) False (sample_file_config True) ''BTC'' sample_env sample_state one_sided_context
     = Inl BadConversion"
  by (rule sampling_log_needs_both_sides[OF _ one_sided_reads(2)]) (simp_all add: one_sided_step)

text \<open>C16. While the process or the instrument only closes positions, the orders of a strategy are at least five seconds apart, whatever the system clock
  shows; each carries the time that the clock shows in its iteration. (Without that switch the configured pause takes the place of the five seconds.)\<close>

theorem close_only_pace:
  assumes "strategy_loop api clock config env t st xs = Inr orders" and "close_only (decision_config config) env"
  shows "sorted_wrt (\<lambda>x y. fst x + 5000000 \<le> fst y) orders
    \<and> (\<forall>(t', order)\<in>set orders. t + 5000000 \<le> t' \<and> os_update_time order = sk_now_micros (clock t'))"
proof -
  have "1000 * strategy_pause config env = 5000000" using assms(2) by (auto simp: strategy_pause_def)
  then show ?thesis using strategy_loop_pace[OF assms(1)] by simp
qed

theorem close_only_pace_witness:
  "sorted_wrt (\<lambda>x y. fst x + 5000000 \<le> fst y) [(5000000, sample_buy 120), (10007000 :: nat, sample_buy 130)]"
proof -
  let ?clock = "\<lambda>t. if t = 5000000 then sample_clock 120 else sample_clock 130"
  have "strategy_pause (sample_file_config False) sample_env = 5000"
    by (simp add: strategy_pause_def) (simp add: sample_actuary_config_def)
  then have run: "strategy_loop sample_api ?clock (sample_file_config False) sample_env 0 sample_state
      [(0, False, sample_actuary_context 1), (7000, False, sample_actuary_context 2)]
    = Inr [(5000000, sample_buy 120), (10007000, sample_buy 130)]"
    by (simp add: sample_step1 sample_step2)
  show ?thesis
    by (rule conjunct1[OF close_only_pace[OF run]]) (simp add: sample_actuary_config_def)
qed

end
