(* ===== verification/ZmqClient.thy ===== *)
theory ZmqClient
  imports StrategyLog StatDispatch
begin

text \<open>
  \<open>src/src/zmq/zmq_client.h\<close>, the client of the ZeroMQ library that all processes share, and the publisher loop \<open>stat_zmq_server_listen\<close>
  of \<open>src/src/actuary/stat_dispatch.cpp\<close> that uses it. The calls of the library are the record \<open>ZmqLib\<close> of functions on the library's state; \<open>bind_exclusive\<close> says
  what its manual promises of addresses in use. The lemmas connect the client with the reception of the theory \<open>StatDispatch\<close>; the properties follow the orders through the publisher.
\<close>

section \<open>The library\<close>

text \<open>
  Contexts and sockets are handles, 0 is the null pointer. \<open>zq_recv\<close> gives the size of the message, or -1, and the bytes that it has copied into a
  buffer of the given size. \<open>zq_listening\<close>, the addresses that some socket is bound to, is not called: the promise speaks of it.
\<close>

record 'z ZmqLib =
  zq_ctx_new :: "'z \<Rightarrow> nat \<times> 'z"
  zq_socket :: "nat \<Rightarrow> int \<Rightarrow> 'z \<Rightarrow> nat \<times> 'z"
  zq_close :: "nat \<Rightarrow> 'z \<Rightarrow> 'z"
  zq_ctx_destroy :: "nat \<Rightarrow> 'z \<Rightarrow> 'z"
  zq_bind :: "nat \<Rightarrow> string \<Rightarrow> 'z \<Rightarrow> int \<times> 'z"
  zq_connect :: "nat \<Rightarrow> string \<Rightarrow> 'z \<Rightarrow> int \<times> 'z"
  zq_subscribe :: "nat \<Rightarrow> string \<Rightarrow> 'z \<Rightarrow> int \<times> 'z"
  zq_send :: "nat \<Rightarrow> string \<Rightarrow> 'z \<Rightarrow> int \<times> 'z"
  zq_recv :: "nat \<Rightarrow> nat \<Rightarrow> 'z \<Rightarrow> (int \<times> string) \<times> 'z"
  zq_errno :: "'z \<Rightarrow> int"
  zq_strerror :: "int \<Rightarrow> string"
  zq_PUB :: int
  zq_SUB :: int
  zq_listening :: "'z \<Rightarrow> string set"

text \<open>An address in use is refused, a successful call takes it into use, and sending leaves it.\<close>

definition bind_exclusive :: "'z ZmqLib \<Rightarrow> string \<Rightarrow> bool" where
  "bind_exclusive lib address \<longleftrightarrow> (\<forall>socket z r z'. zq_bind lib socket address z = (r, z') \<longrightarrow>
       (address \<in> zq_listening lib z \<longrightarrow> r \<noteq> 0 \<and> address \<in> zq_listening lib z') \<and> (r = 0 \<longrightarrow> address \<in> zq_listening lib z'))
     \<and> (\<forall>socket msg z. address \<in> zq_listening lib z \<longrightarrow> address \<in> zq_listening lib (snd (zq_send lib socket msg z)))"

section \<open>The client\<close>

record ZMQClient =
  zc_context :: nat
  zc_requester :: nat
  zc_role_type :: int

text \<open>The constructor does not look at what the library returns.\<close>

definition new_ZMQClient :: "'z ZmqLib \<Rightarrow> int \<Rightarrow> 'z \<Rightarrow> ZMQClient \<times> 'z" where
  "new_ZMQClient lib role_type z =
     (let (context, z) = zq_ctx_new lib z;
          (requester, z) = zq_socket lib context role_type z
      in (\<lparr>zc_context = context, zc_requester = requester, zc_role_type = role_type\<rparr>, z))"

definition delete_ZMQClient :: "'z ZmqLib \<Rightarrow> ZMQClient \<Rightarrow> 'z \<Rightarrow> 'z" where
  "delete_ZMQClient lib client z = zq_ctx_destroy lib (zc_context client) (zq_close lib (zc_requester client) z)"

definition PublisherBind :: "'z ZmqLib \<Rightarrow> ZMQClient \<Rightarrow> string \<Rightarrow> 'z \<Rightarrow> unit result \<times> 'z" where
  "PublisherBind lib client host z =
     (let (ret, z) = zq_bind lib (zc_requester client) host z
      in (if ret \<noteq> 0 then Inl (Exception ''fail to zmq bind'') else Inr (), z))"

text \<open>The result of the subscription is not looked at.\<close>

definition SubscriberConnect :: "'z ZmqLib \<Rightarrow> ZMQClient \<Rightarrow> string \<Rightarrow> 'z \<Rightarrow> unit result \<times> 'z" where
  "SubscriberConnect lib client host z =
     (let (ret, z) = zq_connect lib (zc_requester client) host z
      in if ret \<noteq> 0 then (Inl (Exception ''fail to zmq subscribe''), z)
         else (Inr (), snd (zq_subscribe lib (zc_requester client) '''' z)))"

definition zmq_error :: "'z ZmqLib \<Rightarrow> string \<Rightarrow> 'z \<Rightarrow> cpp_error" where
  "zmq_error lib what z =
     Exception (what @ '' error, errno='' @ string_of_int (zq_errno lib z) @ '', msg='' @ zq_strerror lib (zq_errno lib z))"

definition Send :: "'z ZmqLib \<Rightarrow> ZMQClient \<Rightarrow> string \<Rightarrow> 'z \<Rightarrow> unit result \<times> 'z" where
  "Send lib client msg z =
     (let (ret, z) = zq_send lib (zc_requester client) msg z
      in (if ret = - 1 then Inl (zmq_error lib ''send'' z) else Inr (), z))"

text \<open>The buffer has 1024 bytes; the terminator is written at the size that the library returns.\<close>

definition Receive :: "'z ZmqLib \<Rightarrow> ZMQClient \<Rightarrow> 'z \<Rightarrow> string result \<times> 'z" where
  "Receive lib client z =
     (let ((message_size, bytes), z) = zq_recv lib (zc_requester client) 1023 z
      in if message_size = - 1 then (Inl (zmq_error lib ''receive'' z), z)
         else if message_size < 0 \<or> 1024 \<le> message_size then (Inl BufferOverflow, z)
         else (Inr (takeWhile (\<lambda>ch. ch \<noteq> CHR 0x00) bytes), z))"

text \<open>What the library promises of a message: its size, and as much of it as fits.\<close>

lemma Receive_message:
  assumes "zq_recv lib (zc_requester client) 1023 z = ((int (length payload), take 1023 payload), z')"
  shows "Receive lib client z = (zmq_receive payload, z')"
  using assms by (simp add: Receive_def zmq_receive_def)

section \<open>The publisher\<close>

text \<open>
  \<open>pb_serving\<close>: the thread is in the inner loop. \<open>pb_taken\<close> collects the orders that it has taken from the channel, each with the text it has
  handed to the library if that succeeded; \<open>pb_clock\<close> is the time in milliseconds that its pauses take.
\<close>

record 'z Publisher =
  pb_zmq :: 'z
  pb_serving :: bool
  pb_context :: ActuaryContext
  pb_taken :: "(StatOrderLite \<times> string option) list"
  pb_clock :: nat

definition publisher_turn :: "'z ZmqLib \<Rightarrow> (json_object \<Rightarrow> string) \<Rightarrow> ActuaryConfigFile \<Rightarrow> ZMQClient \<Rightarrow> u64 \<Rightarrow> 'z Publisher \<Rightarrow> 'z Publisher" where
  "publisher_turn lib writeString config zmq_client now_ms p =
     (if \<not> pb_serving p
      then case PublisherBind lib zmq_client (acfg_zmq_ipc_order_stat config) (pb_zmq p) of
             (Inr _, z) \<Rightarrow> p\<lparr>pb_zmq := z, pb_serving := True\<rparr>
           | (Inl _, z) \<Rightarrow> p\<lparr>pb_zmq := z, pb_clock := pb_clock p + 5000\<rparr>
      else case stat_zmq_server_listen writeString now_ms (pb_context p) of
             None \<Rightarrow> p\<lparr>pb_clock := pb_clock p + 1\<rparr>
           | Some (jsonString, c) \<Rightarrow>
               let orderLite = hd (ax_stat_order_channel (pb_context p))
               in (case Send lib zmq_client jsonString (pb_zmq p) of
                     (Inr _, z) \<Rightarrow> p\<lparr>pb_zmq := z, pb_context := c, pb_taken := pb_taken p @ [(orderLite, Some jsonString)]\<rparr>
                   | (Inl _, z) \<Rightarrow> p\<lparr>pb_zmq := z, pb_serving := False, pb_context := c,
                                     pb_taken := pb_taken p @ [(orderLite, None)], pb_clock := pb_clock p + 5000\<rparr>))"

text \<open>The other threads put orders into the channel.\<close>

datatype publisher_event = Turn u64 | Enqueue StatOrderLite

fun publisher_step :: "'z ZmqLib \<Rightarrow> (json_object \<Rightarrow> string) \<Rightarrow> ActuaryConfigFile \<Rightarrow> ZMQClient \<Rightarrow> publisher_event \<Rightarrow> 'z Publisher \<Rightarrow> 'z Publisher" where
  "publisher_step lib writeString config client (Turn now_ms) p = publisher_turn lib writeString config client now_ms p"
| "publisher_step lib writeString config client (Enqueue lite) p =
     p\<lparr>pb_context := (pb_context p)\<lparr>ax_stat_order_channel := ax_stat_order_channel (pb_context p) @ [lite]\<rparr>\<rparr>"

abbreviation publisher_run :: "'z ZmqLib \<Rightarrow> (json_object \<Rightarrow> string) \<Rightarrow> ActuaryConfigFile \<Rightarrow> ZMQClient \<Rightarrow> publisher_event list \<Rightarrow> 'z Publisher \<Rightarrow> 'z Publisher" where
  "publisher_run lib writeString config client \<equiv> fold (publisher_step lib writeString config client)"

definition start_publisher :: "'z ZmqLib \<Rightarrow> ActuaryContext \<Rightarrow> 'z \<Rightarrow> ZMQClient \<times> 'z Publisher" where
  "start_publisher lib c z =
     (let (zmq_client, z) = new_ZMQClient lib (zq_PUB lib) z
      in (zmq_client, \<lparr>pb_zmq = z, pb_serving = False, pb_context = c, pb_taken = [], pb_clock = 0\<rparr>))"

section \<open>Lemmas\<close>

abbreviation pb_channel :: "'z Publisher \<Rightarrow> StatOrderLite list" where
  "pb_channel p \<equiv> ax_stat_order_channel (pb_context p)"

fun enqueued :: "publisher_event list \<Rightarrow> StatOrderLite list" where
  "enqueued [] = []"
| "enqueued (Turn now_ms # es) = enqueued es"
| "enqueued (Enqueue lite # es) = lite # enqueued es"

lemma publisher_turn_cases [consumes 1, case_names bound refused idle sent failed]:
  assumes "publisher_turn lib writeString config client now_ms p = q"
  obtains z r where "\<not> pb_serving p" "zq_bind lib (zc_requester client) (acfg_zmq_ipc_order_stat config) (pb_zmq p) = (0, z)"
      "q = p\<lparr>pb_zmq := z, pb_serving := True\<rparr>"
  | z r where "\<not> pb_serving p" "zq_bind lib (zc_requester client) (acfg_zmq_ipc_order_stat config) (pb_zmq p) = (r, z)" "r \<noteq> 0"
      "q = p\<lparr>pb_zmq := z, pb_clock := pb_clock p + 5000\<rparr>"
  | "pb_serving p" "pb_channel p = []" "q = p\<lparr>pb_clock := pb_clock p + 1\<rparr>"
  | lite lites r z where "pb_serving p" "pb_channel p = lite # lites"
      "zq_send lib (zc_requester client) (writeString (stat_message now_ms lite)) (pb_zmq p) = (r, z)"
      "q = p\<lparr>pb_zmq := z, pb_context := (pb_context p)\<lparr>ax_stat_order_channel := lites\<rparr>,
             pb_taken := pb_taken p @ [(lite, Some (writeString (stat_message now_ms lite)))]\<rparr>"
  | lite lites r z where "pb_serving p" "pb_channel p = lite # lites"
      "zq_send lib (zc_requester client) (writeString (stat_message now_ms lite)) (pb_zmq p) = (r, z)"
      "q = p\<lparr>pb_zmq := z, pb_serving := False, pb_context := (pb_context p)\<lparr>ax_stat_order_channel := lites\<rparr>,
             pb_taken := pb_taken p @ [(lite, None)], pb_clock := pb_clock p + 5000\<rparr>"
proof (cases "pb_serving p")
  case False
  obtain r z where bind: "zq_bind lib (zc_requester client) (acfg_zmq_ipc_order_stat config) (pb_zmq p) = (r, z)" by fastforce
  then show thesis using assms False that(1)[OF False] that(2)[OF False bind]
    by (cases "r = 0") (simp_all add: publisher_turn_def PublisherBind_def)
next
  case True
  show thesis
  proof (cases "pb_channel p")
    case Nil
    then show thesis using assms that(3)[OF True Nil] True by (simp add: publisher_turn_def stat_zmq_server_listen_def)
  next
    case (Cons lite lites)
    obtain r z where send: "zq_send lib (zc_requester client) (writeString (stat_message now_ms lite)) (pb_zmq p) = (r, z)" by fastforce
    then show thesis using assms that(4)[OF True Cons send] that(5)[OF True Cons send] True Cons
      by (cases "r = - 1") (simp_all add: publisher_turn_def stat_zmq_server_listen_def Send_def)
  qed
qed

text \<open>Every order that was put into the channel is either still there or was taken, in order.\<close>

lemma publisher_fifo:
  "map fst (pb_taken (publisher_run lib writeString config client es p)) @ pb_channel (publisher_run lib writeString config client es p)
     = map fst (pb_taken p) @ pb_channel p @ enqueued es"
proof (induction es arbitrary: p)
  case (Cons e es)
  show ?case
  proof (cases e)
    case (Turn now_ms)
    have "map fst (pb_taken (publisher_turn lib writeString config client now_ms p)) @ pb_channel (publisher_turn lib writeString config client now_ms p)
        = map fst (pb_taken p) @ pb_channel p"
      by (cases lib writeString config client now_ms p rule: publisher_turn_cases[OF refl]) simp_all
    then show ?thesis using Turn Cons.IH[of "publisher_turn lib writeString config client now_ms p"] by simp
  qed (simp add: Cons.IH)
qed simp

text \<open>Once the thread serves, its address is in use; without serving it stays in use.\<close>

definition publisher_inv :: "'z ZmqLib \<Rightarrow> string \<Rightarrow> 'z Publisher \<Rightarrow> bool" where
  "publisher_inv lib address p \<longleftrightarrow>
     (pb_serving p \<longrightarrow> address \<in> zq_listening lib (pb_zmq p) \<and> None \<notin> snd ` set (pb_taken p))
     \<and> (None \<in> snd ` set (pb_taken p) \<longrightarrow> address \<in> zq_listening lib (pb_zmq p))"

lemma bind_exclusiveD:
  assumes "bind_exclusive lib address"
  shows "zq_bind lib socket address z = (r, z') \<Longrightarrow> address \<in> zq_listening lib z \<Longrightarrow> r \<noteq> 0 \<and> address \<in> zq_listening lib z'"
    and "zq_bind lib socket address z = (0, z') \<Longrightarrow> address \<in> zq_listening lib z'"
    and "zq_send lib socket msg z = (r, z') \<Longrightarrow> address \<in> zq_listening lib z \<Longrightarrow> address \<in> zq_listening lib z'"
  using assms unfolding bind_exclusive_def by (blast, blast, metis snd_conv)

lemma publisher_inv_step:
  assumes "bind_exclusive lib (acfg_zmq_ipc_order_stat config)" and "publisher_inv lib (acfg_zmq_ipc_order_stat config) p"
  shows "publisher_inv lib (acfg_zmq_ipc_order_stat config) (publisher_step lib writeString config client e p)"
proof (cases e)
  case (Turn now_ms)
  note laws = bind_exclusiveD[OF assms(1)]
  have "publisher_inv lib (acfg_zmq_ipc_order_stat config) (publisher_turn lib writeString config client now_ms p)"
    by (cases lib writeString config client now_ms p rule: publisher_turn_cases[OF refl])
      (use assms(2) in \<open>auto simp: publisher_inv_def dest: laws\<close>)
  then show ?thesis using Turn by simp
qed (use assms(2) in \<open>simp add: publisher_inv_def\<close>)

lemma publisher_inv_run:
  assumes "bind_exclusive lib (acfg_zmq_ipc_order_stat config)" and "publisher_inv lib (acfg_zmq_ipc_order_stat config) p"
  shows "publisher_inv lib (acfg_zmq_ipc_order_stat config) (publisher_run lib writeString config client es p)"
  using assms(2) by (induction es arbitrary: p) (simp_all add: publisher_inv_step[OF assms(1)])

lemma start_publisher_facts [simp]:
  "pb_serving (snd (start_publisher lib c z)) = False" "pb_taken (snd (start_publisher lib c z)) = []"
  "pb_context (snd (start_publisher lib c z)) = c"
  by (simp_all add: start_publisher_def case_prod_beta)

text \<open>After a failed send the address that the thread binds again is in use, by itself.\<close>

lemma publisher_stuck:
  assumes "bind_exclusive lib (acfg_zmq_ipc_order_stat config)" and "publisher_inv lib (acfg_zmq_ipc_order_stat config) p"
    and "None \<in> snd ` set (pb_taken p)"
  shows "pb_taken (publisher_run lib writeString config client es p) = pb_taken p"
  using assms(2,3)
proof (induction es arbitrary: p)
  case (Cons e es)
  have "\<not> pb_serving p" "acfg_zmq_ipc_order_stat config \<in> zq_listening lib (pb_zmq p)" using Cons.prems by (auto simp: publisher_inv_def)
  then have "pb_taken (publisher_turn lib writeString config client now_ms p) = pb_taken p" for now_ms
    by (cases lib writeString config client now_ms p rule: publisher_turn_cases[OF refl]) (auto dest: bind_exclusiveD(1)[OF assms(1)])
  then have "pb_taken (publisher_step lib writeString config client e p) = pb_taken p" by (cases e) simp_all
  then show ?case using Cons.IH[OF publisher_inv_step[OF assms(1) Cons.prems(1)]] Cons.prems(2) by simp
qed simp

text \<open>What was handed over is the message of its order.\<close>

definition texts_ok :: "(json_object \<Rightarrow> string) \<Rightarrow> 'z Publisher \<Rightarrow> bool" where
  "texts_ok writeString p \<longleftrightarrow> (\<forall>(lite, sent)\<in>set (pb_taken p). \<forall>text. sent = Some text \<longrightarrow> (\<exists>now_ms. text = writeString (stat_message now_ms lite)))"

lemma texts_ok_step: "texts_ok writeString p \<Longrightarrow> texts_ok writeString (publisher_step lib writeString config client e p)"
proof (cases e)
  case (Turn now_ms)
  assume "texts_ok writeString p"
  then show ?thesis using Turn
    by (cases lib writeString config client now_ms p rule: publisher_turn_cases[OF refl]) (auto simp: texts_ok_def)
qed (simp add: texts_ok_def)

lemma texts_ok_run: "texts_ok writeString p \<Longrightarrow> texts_ok writeString (publisher_run lib writeString config client es p)"
  by (induction es arbitrary: p) (simp_all add: texts_ok_step)

section \<open>A library for examples\<close>

text \<open>The state has the addresses in use and how many messages can be sent before one fails.\<close>

definition sample_zmq :: "(string set \<times> nat) ZmqLib" where
  "sample_zmq = \<lparr>zq_ctx_new = (\<lambda>z. (1, z)), zq_socket = (\<lambda>_ _ z. (2, z)), zq_close = (\<lambda>_ z. z), zq_ctx_destroy = (\<lambda>_ z. z),
     zq_bind = (\<lambda>_ address (used, n). if address \<in> used then (- 1, used, n) else (0, insert address used, n)),
     zq_connect = (\<lambda>_ _ z. (0, z)), zq_subscribe = (\<lambda>_ _ z. (0, z)),
     zq_send = (\<lambda>_ msg (used, n). if n = 0 then (- 1, used, 5) else (int (length msg), used, n - 1)),
     zq_recv = (\<lambda>_ _ z. ((- 1, ''''), z)), zq_errno = (\<lambda>_. 4), zq_strerror = (\<lambda>_. ''Interrupted system call''),
     zq_PUB = 1, zq_SUB = 2, zq_listening = fst\<rparr>"

lemma sample_zmq_exclusive: "bind_exclusive sample_zmq address"
  by (auto simp: bind_exclusive_def sample_zmq_def split: if_splits)

definition sample_publisher :: "(string set \<times> nat) Publisher" where
  "sample_publisher = \<lparr>pb_zmq = ({}, 1), pb_serving = False, pb_context = sample_actuary_context 1, pb_taken = [], pb_clock = 0\<rparr>"

abbreviation "sample_zmq_client \<equiv> \<lparr>zc_context = 1, zc_requester = 2, zc_role_type = 1\<rparr>"

lemma sample_start: "start_publisher sample_zmq (sample_actuary_context 1) ({}, 1) = (sample_zmq_client, sample_publisher)"
  by (simp add: start_publisher_def new_ZMQClient_def sample_zmq_def sample_publisher_def)

definition publisher_orders :: "publisher_event list" where
  "publisher_orders = [Turn 1, Enqueue stat_sample, Turn 2, Enqueue trade_lite, Turn 3, Enqueue stat_sample]"

lemma publisher_sample_run:
  "pb_taken (publisher_run sample_zmq (\<lambda>_. ''message'') (sample_file_config False) sample_zmq_client publisher_orders sample_publisher)
   = [(stat_sample, Some ''message''), (trade_lite, None)]"
proof -
  have none: "ax_stat_order_channel (sample_actuary_context 1) = []" by (simp add: sample_actuary_context_def)
  have bind: "zq_bind sample_zmq socket address ({}, n) = (0, {address}, n)"
    and send: "zq_send sample_zmq socket ''message'' (used, n) = (if n = 0 then (- 1, used, 5) else (7, used, n - 1))" for socket address used n
    by (simp_all add: sample_zmq_def)
  show ?thesis
    by (simp add: publisher_orders_def sample_publisher_def publisher_turn_def PublisherBind_def Send_def
        stat_zmq_server_listen_def bind send none)
qed

section \<open>Properties\<close>

text \<open>C29. The publisher hands the orders to the library in the order in which they were put into the channel, each at most once and as its own
  message: those taken followed by those waiting are all that were put in.\<close>

theorem orders_published_in_order:
  assumes "start_publisher lib c z = (client, p0)" and "publisher_run lib writeString config client es p0 = p"
  shows "map fst (pb_taken p) @ pb_channel p = ax_stat_order_channel c @ enqueued es
    \<and> (\<forall>(lite, sent)\<in>set (pb_taken p). \<forall>text. sent = Some text \<longrightarrow> (\<exists>now_ms. text = writeString (stat_message now_ms lite)))"
proof -
  have p0: "p0 = snd (start_publisher lib c z)" using assms(1) by simp
  then have "texts_ok writeString p0" by (simp add: texts_ok_def)
  from texts_ok_run[OF this, of lib config client es] show ?thesis
    using publisher_fifo[of lib writeString config client es p0] assms(2) p0 by (simp add: texts_ok_def)
qed

theorem orders_published_in_order_witness:
  "\<exists>waiting. [stat_sample, trade_lite] @ waiting = ax_stat_order_channel (sample_actuary_context 1) @ enqueued publisher_orders"
  using orders_published_in_order[OF sample_start refl, of "\<lambda>_. ''message''" "sample_file_config False" publisher_orders]
    publisher_sample_run by auto

text \<open>C37. The publisher does not survive a failed send: it binds its socket again while the socket is still bound, which fails with an
  address that only one socket can be bound to. The order is lost, no later one is published, and all of them stay in the channel.\<close>

theorem publisher_stops_after_failed_send:
  assumes "bind_exclusive lib (acfg_zmq_ipc_order_stat config)"
    and "start_publisher lib c z = (client, p0)" and "publisher_run lib writeString config client es p0 = p"
    and "(lost, None) \<in> set (pb_taken p)" and "publisher_run lib writeString config client es' p = p'"
  shows "pb_taken p' = pb_taken p \<and> pb_channel p' = pb_channel p @ enqueued es'"
proof -
  have "p0 = snd (start_publisher lib c z)" using assms(2) by simp
  then have "publisher_inv lib (acfg_zmq_ipc_order_stat config) p0" by (simp add: publisher_inv_def)
  then have "pb_taken p' = pb_taken p"
    using publisher_stuck[OF assms(1) publisher_inv_run[OF assms(1)]] assms(3-5) by force
  then show ?thesis using publisher_fifo[of lib writeString config client es' p] assms(5) by simp
qed

theorem publisher_stops_after_failed_send_witness:
  "pb_taken (publisher_run sample_zmq (\<lambda>_. ''message'') (sample_file_config False) sample_zmq_client [Turn 8000, Turn 16000]
     (publisher_run sample_zmq (\<lambda>_. ''message'') (sample_file_config False) sample_zmq_client publisher_orders sample_publisher))
   = [(stat_sample, Some ''message''), (trade_lite, None)]"
proof -
  have "(trade_lite, None) \<in> set (pb_taken (publisher_run sample_zmq (\<lambda>_. ''message'') (sample_file_config False) sample_zmq_client
      publisher_orders sample_publisher))"
    by (simp only: publisher_sample_run) simp
  from conjunct1[OF publisher_stops_after_failed_send[OF sample_zmq_exclusive sample_start refl this refl]]
  show ?thesis by (simp only: publisher_sample_run)
qed

end
