(* ===== verification/TestProgram.thy ===== *)
theory TestProgram
  imports ZmqClient
begin

text \<open>
  \<open>src/src/main.cpp\<close>, the program that tries the libraries out: the handlers of its web-socket messages, the sender and the receiver of
  \<open>TickerInfo\<close> messages over ZeroMQ, the consumer of a channel, and \<open>main\<close>, which prints the balances of the account. Most of \<open>main\<close> is
  commented out and not modelled. The JSON library, the converters of the exchange library and the generated encoder of
  \<open>src/src/proto/ticker_info.proto\<close> are arguments; what the functions print is their result.
\<close>

section \<open>Handlers of messages\<close>

record 'j JsonTests =
  jt_isMember :: "'j \<Rightarrow> string \<Rightarrow> bool"
  jt_isArray :: "'j \<Rightarrow> bool"

text \<open>The result of the parser is not looked at; the text is read as a C string.\<close>

definition parse_message :: "'j JsonLib \<Rightarrow> string \<Rightarrow> 'j result" where
  "parse_message js messageJson = bind_result (js_parse js (takeWhile (\<lambda>ch. ch \<noteq> CHR 0x00) messageJson)) (\<lambda>(ok, doc). Inr doc)"

definition unwrap :: "'j JsonLib \<Rightarrow> 'j JsonTests \<Rightarrow> string \<Rightarrow> 'j \<Rightarrow> 'j result" where
  "unwrap js jt key doc = (if jt_isMember jt doc key then js_member js doc key else Inr doc)"

definition processTickerMessage :: "'j JsonLib \<Rightarrow> 'j JsonTests \<Rightarrow> ('j \<Rightarrow> 'e result) \<Rightarrow> string \<Rightarrow> ('e \<times> bool) result" where
  "processTickerMessage js jt convertJsonToWsBookTickerEvent messageJson =
     bind_result (parse_message js messageJson) (\<lambda>doc.
     bind_result (unwrap js jt ''data'' doc) (\<lambda>doc.
     bind_result (convertJsonToWsBookTickerEvent doc) (\<lambda>event. Inr (event, True))))"

definition processFuturesTickerMessage :: "'j JsonLib \<Rightarrow> 'j JsonTests \<Rightarrow> ('j \<Rightarrow> 'e result) \<Rightarrow> string \<Rightarrow> ('e \<times> bool) result" where
  "processFuturesTickerMessage js jt convertJsonToWsFuturesBookTickerEvent messageJson =
     bind_result (parse_message js messageJson) (\<lambda>doc.
     bind_result (unwrap js jt ''data'' doc) (\<lambda>doc.
     bind_result (convertJsonToWsFuturesBookTickerEvent doc) (\<lambda>event. Inr (event, True))))"

record ('j, 'e) UserDataConverters =
  uc_balanceUpdate :: "'j \<Rightarrow> 'e result"
  uc_accountPosition :: "'j \<Rightarrow> 'e result"
  uc_executionReport :: "'j \<Rightarrow> 'e result"

definition processUserDataMessage :: "'j JsonLib \<Rightarrow> 'j JsonTests \<Rightarrow> ('j, 'e) UserDataConverters \<Rightarrow> string \<Rightarrow> ('e option \<times> bool) result" where
  "processUserDataMessage js jt conv messageJson =
     bind_result (parse_message js messageJson) (\<lambda>doc.
     bind_result (unwrap js jt ''event'' doc) (\<lambda>doc.
     bind_result (read_member js doc (js_asString js) ''e'') (\<lambda>eventType.
       if eventType = ''balanceUpdate'' then bind_result (uc_balanceUpdate conv doc) (\<lambda>event. Inr (Some event, True))
       else if eventType = ''outboundAccountPosition'' then bind_result (uc_accountPosition conv doc) (\<lambda>event. Inr (Some event, True))
       else if eventType = ''executionReport'' then bind_result (uc_executionReport conv doc) (\<lambda>event. Inr (Some event, True))
       else Inr (None, True))))"

definition processMarkPriceMessage :: "'j JsonLib \<Rightarrow> 'j JsonTests \<Rightarrow> ('j \<Rightarrow> 'e result) \<Rightarrow> string \<Rightarrow> ('e list \<times> bool) result" where
  "processMarkPriceMessage js jt convertJsonToWsFuturesMarkPriceEvent messageJson =
     bind_result (parse_message js messageJson) (\<lambda>doc.
     bind_result (if jt_isArray jt doc
         then all_results (map (\<lambda>i. bind_result (js_element js doc i) convertJsonToWsFuturesMarkPriceEvent) [0..<js_size js doc])
         else bind_result (convertJsonToWsFuturesMarkPriceEvent doc) (\<lambda>event. Inr [event])) (\<lambda>events.
     Inr (events, True)))"

text \<open>\<open>same\<close> compares the member with the two constants of the library.\<close>

definition processFuturesUserDataMessage :: "'j JsonLib \<Rightarrow> ('j \<Rightarrow> string \<Rightarrow> bool) \<Rightarrow> string \<Rightarrow> string \<Rightarrow> ('j \<Rightarrow> 'e result) \<Rightarrow> ('j \<Rightarrow> 'e result)
    \<Rightarrow> string \<Rightarrow> ('e option \<times> bool) result" where
  "processFuturesUserDataMessage js same account_update order_trade_update convertAccount convertOrder messageJson =
     bind_result (parse_message js messageJson) (\<lambda>doc.
     bind_result (js_member js doc ''e'') (\<lambda>e.
       if same e account_update then bind_result (convertAccount doc) (\<lambda>event. Inr (Some event, True))
       else if same e order_trade_update then bind_result (convertOrder doc) (\<lambda>event. Inr (Some event, True))
       else Inr (None, True)))"

definition processFuturesOrderServiceMessage :: "'j JsonLib \<Rightarrow> ('j \<Rightarrow> 'e result) \<Rightarrow> string \<Rightarrow> ('e \<times> bool) result" where
  "processFuturesOrderServiceMessage js convertJsonToWsFuturesOrderCallbackEvent messageJson =
     bind_result (parse_message js messageJson) (\<lambda>doc.
     bind_result (convertJsonToWsFuturesOrderCallbackEvent doc) (\<lambda>event. Inr (event, True)))"

text \<open>The lines that starting the order service prints; an exception of the client is caught.\<close>

definition startFuturesOrderService :: "string + bool \<times> string \<Rightarrow> string \<Rightarrow> string \<Rightarrow> string list" where
  "startFuturesOrderService startResult apiKey secretKey =
     (''apiKey='' @ apiKey @ '',secretKey='' @ secretKey) #
     (case startResult of
        Inr (ok, what) \<Rightarrow> [''start: '' @ (if ok then ''1'' else ''0'') @ '','' @ what]
      | Inl what \<Rightarrow> [''futures order error: '' @ what])"

section \<open>Sender and receiver\<close>

record TickerInfo =
  ti_instID :: string
  ti_bestBid :: double
  ti_bidSz :: double
  ti_bestAsk :: double
  ti_askSz :: double
  ti_eventTs :: i64
  ti_updateID :: i64

definition new_TickerInfo :: TickerInfo where
  "new_TickerInfo = \<lparr>ti_instID = '''', ti_bestBid = Fin 0, ti_bidSz = Fin 0, ti_bestAsk = Fin 0, ti_askSz = Fin 0,
     ti_eventTs = 0, ti_updateID = 0\<rparr>"

definition sender_info :: TickerInfo where
  "sender_info = new_TickerInfo\<lparr>ti_instID := ''BTCUSDT'', ti_bestBid := Fin (121 / 100)\<rparr>"

text \<open>\<open>turns\<close> turns of the loop; an exception ends the thread, and with it the process.\<close>

fun sender_turns :: "'z ZmqLib \<Rightarrow> (TickerInfo \<Rightarrow> string) \<Rightarrow> ZMQClient \<Rightarrow> nat \<Rightarrow> 'z \<Rightarrow> unit result \<times> 'z" where
  "sender_turns lib SerializeToString client 0 z = (Inr (), z)"
| "sender_turns lib SerializeToString client (Suc turns) z =
     (case Send lib client (SerializeToString sender_info) z of
        (Inl e, z) \<Rightarrow> (Inl e, z)
      | (Inr _, z) \<Rightarrow> sender_turns lib SerializeToString client turns z)"

definition startZMQSender :: "'z ZmqLib \<Rightarrow> (TickerInfo \<Rightarrow> string) \<Rightarrow> string \<Rightarrow> nat \<Rightarrow> 'z \<Rightarrow> unit result \<times> 'z" where
  "startZMQSender lib SerializeToString ipc turns z =
     (let (client, z) = new_ZMQClient lib (zq_PUB lib) z
      in case PublisherBind lib client ipc z of
           (Inl e, z) \<Rightarrow> (Inl e, z)
         | (Inr _, z) \<Rightarrow> sender_turns lib SerializeToString client turns z)"

text \<open>The tickers that the receiver prints. Whether the parser has succeeded is not looked at.\<close>

fun receiver_turns :: "'z ZmqLib \<Rightarrow> (string \<Rightarrow> bool \<times> TickerInfo) \<Rightarrow> ZMQClient \<Rightarrow> nat \<Rightarrow> 'z \<Rightarrow> TickerInfo list result \<times> 'z" where
  "receiver_turns lib ParseFromString client 0 z = (Inr [], z)"
| "receiver_turns lib ParseFromString client (Suc turns) z =
     (case Receive lib client z of
        (Inl e, z) \<Rightarrow> (Inl e, z)
      | (Inr message, z) \<Rightarrow>
          let (infos, z) = receiver_turns lib ParseFromString client turns z
          in (bind_result infos (\<lambda>infos. Inr (snd (ParseFromString message) # infos)), z))"

definition startZMQReceiver :: "'z ZmqLib \<Rightarrow> (string \<Rightarrow> bool \<times> TickerInfo) \<Rightarrow> string \<Rightarrow> nat \<Rightarrow> 'z \<Rightarrow> TickerInfo list result \<times> 'z" where
  "startZMQReceiver lib ParseFromString ipc turns z =
     (let (client, z) = new_ZMQClient lib (zq_SUB lib) z
      in case SubscriberConnect lib client ipc z of
           (Inl e, z) \<Rightarrow> (Inl e, z)
         | (Inr _, z) \<Rightarrow> receiver_turns lib ParseFromString client turns z)"

text \<open>The consumer prints the messages of the channel in order; its inner loop waits without a pause while the channel is empty.\<close>

definition startMessageChannelConsume :: "string list \<Rightarrow> string list" where
  "startMessageChannelConsume messages = map (\<lambda>message. ''channel message: '' @ message) messages"

section \<open>The program\<close>

definition test_program :: "'j JsonLib \<Rightarrow> (string \<rightharpoonup> string) \<Rightarrow> string list \<Rightarrow> CommonConfig \<times> MainConfig \<Rightarrow> MainConfig start_up result" where
  "test_program js = program_start (loadMainConfig js)"

datatype rest_call = RestLocalIP string | RestInit string string bool

definition rest_setup :: "MainConfig \<Rightarrow> rest_call list" where
  "rest_setup config =
     (if 0 < length (mcfg_rest_local_ip config) then [RestLocalIP (mcfg_rest_local_ip config)] else [])
     @ [RestInit (mcfg_api_key_hmac config) (mcfg_secret_key_hmac config) (mcfg_rest_use_intranet config)]"

record BalanceLite =
  bl_asset :: string
  bl_free :: double
  bl_locked :: double

definition printed_spot_balances :: "BalanceLite list \<Rightarrow> (string \<times> double) list" where
  "printed_spot_balances balances =
     map (\<lambda>bal. (bl_asset bal, bl_free bal)) (filter (\<lambda>bal. bl_free bal > Fin 0 \<or> bl_locked bal > Fin 0) balances)"

definition printed_futures_balances :: "(string \<times> double) list \<Rightarrow> (string \<times> double) list" where
  "printed_futures_balances assets = filter (\<lambda>(asset, crossWalletBalance). crossWalletBalance > Fin 0) assets"

section \<open>Properties\<close>

text \<open>A library that delivers: the socket of the receiver has the messages that were sent, in their order.\<close>

definition delivers :: "'z ZmqLib \<Rightarrow> ('z \<Rightarrow> string list) \<Rightarrow> bool" where
  "delivers lib queue \<longleftrightarrow> (\<forall>socket z payload rest. queue z = payload # rest \<longrightarrow>
     (\<exists>z'. zq_recv lib socket 1023 z = ((int (length payload), take 1023 payload), z') \<and> queue z' = rest))"

lemma receiver_turns_delivered:
  assumes "delivers lib queue" and "queue z = map SerializeToString infos"
    and "\<And>info. info \<in> set infos \<Longrightarrow> length (SerializeToString info) < 1024 \<and> CHR 0x00 \<notin> set (SerializeToString info)
      \<and> snd (ParseFromString (SerializeToString info)) = info"
  shows "fst (receiver_turns lib ParseFromString client (length infos) z) = Inr infos"
  using assms(2,3)
proof (induction infos arbitrary: z)
  case (Cons info infos)
  obtain z' where z': "zq_recv lib (zc_requester client) 1023 z = ((int (length (SerializeToString info)), take 1023 (SerializeToString info)), z')"
      "queue z' = map SerializeToString infos"
    using assms(1) Cons.prems(1) unfolding delivers_def by fastforce
  have "Receive lib client z = (Inr (SerializeToString info), z')"
    using Receive_message[OF z'(1)] zmq_receive_text[of "SerializeToString info"] Cons.prems(2)[of info] by simp
  then show ?case using Cons.IH[OF z'(2)] Cons.prems(2) by (simp add: case_prod_beta)
qed simp

text \<open>Tickers cross the ZeroMQ client unchanged as long as their encoding fits the buffer and has no zero byte: the receiver prints exactly the
  tickers that were sent, in their order.\<close>

theorem tickers_cross_unchanged:
  assumes "delivers lib queue" and "queue z = map SerializeToString infos"
    and "\<And>info. info \<in> set infos \<Longrightarrow> length (SerializeToString info) < 1024 \<and> CHR 0x00 \<notin> set (SerializeToString info)
      \<and> snd (ParseFromString (SerializeToString info)) = info"
  shows "fst (receiver_turns lib ParseFromString client (length infos) z) = Inr infos"
  by (rule receiver_turns_delivered[OF assms])

definition queue_zmq :: "string list ZmqLib" where
  "queue_zmq = \<lparr>zq_ctx_new = (\<lambda>z. (1, z)), zq_socket = (\<lambda>_ _ z. (2, z)), zq_close = (\<lambda>_ z. z), zq_ctx_destroy = (\<lambda>_ z. z),
     zq_bind = (\<lambda>_ _ z. (0, z)), zq_connect = (\<lambda>_ _ z. (0, z)), zq_subscribe = (\<lambda>_ _ z. (0, z)),
     zq_send = (\<lambda>_ msg z. (int (length msg), z @ [msg])),
     zq_recv = (\<lambda>_ n z. case z of [] \<Rightarrow> ((- 1, ''''), z) | msg # z \<Rightarrow> ((int (length msg), take n msg), z)), zq_errno = (\<lambda>_. 4),
     zq_strerror = (\<lambda>_. ''Interrupted system call''), zq_PUB = 1, zq_SUB = 2, zq_listening = (\<lambda>_. {})\<rparr>"

theorem tickers_cross_unchanged_witness:
  "fst (receiver_turns queue_zmq (\<lambda>s. (True, new_TickerInfo\<lparr>ti_instID := s\<rparr>)) sample_zmq_client (length [new_TickerInfo\<lparr>ti_instID := ''BTCUSDT''\<rparr>])
     [''BTCUSDT'']) = Inr [new_TickerInfo\<lparr>ti_instID := ''BTCUSDT''\<rparr>]"
proof -
  have "delivers queue_zmq (\<lambda>z. z)" by (simp add: delivers_def queue_zmq_def)
  from tickers_cross_unchanged[OF this, of "[''BTCUSDT'']" ti_instID "[new_TickerInfo\<lparr>ti_instID := ''BTCUSDT''\<rparr>]"]
  show ?thesis by simp
qed

end
