(* ===== verification/Utilities.thy ===== *)
theory Utilities
  imports Tools
begin

text \<open>
  Three small helpers that the programs share: \<open>get_utc_time_tring\<close> of \<open>src/src/common/tools.cpp\<close>, the time text of the position rows; the random numbers of
  \<open>src/src/common/random.cpp\<close>, which only thin out the log; and the logging functions of \<open>src/src/logger/logger.h\<close> with the formats that the sources use.
  \<open>gmtime\<close> and \<open>put_time\<close> are modelled for the times since 1970, the random engine and its distribution are arguments.
\<close>

section \<open>The time as text\<close>

definition leap_year :: "nat \<Rightarrow> bool" where
  "leap_year y \<longleftrightarrow> 4 dvd y \<and> (\<not> 100 dvd y \<or> 400 dvd y)"

definition days_in_year :: "nat \<Rightarrow> nat" where
  "days_in_year y = (if leap_year y then 366 else 365)"

definition days_in_month :: "nat \<Rightarrow> nat \<Rightarrow> nat" where
  "days_in_month y m = (if m = 2 then if leap_year y then 29 else 28 else if m \<in> {4, 6, 9, 11} then 30 else 31)"

text \<open>The year of the day \<open>d\<close> counted from the first day of the year \<open>y\<close>, and the day in it; likewise the month.\<close>

function year_of_day :: "nat \<Rightarrow> nat \<Rightarrow> nat \<times> nat" where
  "year_of_day y d = (if d < days_in_year y then (y, d) else year_of_day (y + 1) (d - days_in_year y))"
  by auto
termination by (relation "measure snd") (auto simp: days_in_year_def split: if_splits)

declare year_of_day.simps [simp del]

function month_of_day :: "nat \<Rightarrow> nat \<Rightarrow> nat \<Rightarrow> nat \<times> nat" where
  "month_of_day y m d = (if 12 \<le> m \<or> d < days_in_month y m then (m, d) else month_of_day y (m + 1) (d - days_in_month y m))"
  by auto
termination by (relation "measure (\<lambda>(y, m, d). 12 - m)") auto

declare month_of_day.simps [simp del]

record tm =
  tm_year :: nat
  tm_mon :: nat
  tm_mday :: nat
  tm_hour :: nat
  tm_min :: nat
  tm_sec :: nat

definition gmtime :: "nat \<Rightarrow> tm" where
  "gmtime now_c =
     (let (y, yday) = year_of_day 1970 (now_c div 86400);
          (m, mday) = month_of_day y 1 yday;
          secs = now_c mod 86400
      in \<lparr>tm_year = y, tm_mon = m, tm_mday = mday + 1, tm_hour = secs div 3600, tm_min = secs mod 3600 div 60, tm_sec = secs mod 60\<rparr>)"

definition two_digits :: "nat \<Rightarrow> string" where
  "two_digits n = [char_of (48 + n div 10), char_of (48 + n mod 10)]"

definition get_utc_time_tring :: "nat \<Rightarrow> string" where
  "get_utc_time_tring now_c =
     (let utc_tm = gmtime now_c
      in string_of_nat (tm_year utc_tm) @ ''-'' @ two_digits (tm_mon utc_tm) @ ''-'' @ two_digits (tm_mday utc_tm) @ '' ''
         @ two_digits (tm_hour utc_tm) @ '':'' @ two_digits (tm_min utc_tm) @ '':'' @ two_digits (tm_sec utc_tm))"

text \<open>Reading it back.\<close>

definition days_before_year :: "nat \<Rightarrow> nat" where
  "days_before_year y = sum_list (map days_in_year [1970..<y])"

definition days_before_month :: "nat \<Rightarrow> nat \<Rightarrow> nat" where
  "days_before_month y m = sum_list (map (days_in_month y) [1..<m])"

definition seconds_of_tm :: "tm \<Rightarrow> nat" where
  "seconds_of_tm t = (days_before_year (tm_year t) + days_before_month (tm_year t) (tm_mon t) + (tm_mday t - 1)) * 86400
     + tm_hour t * 3600 + tm_min t * 60 + tm_sec t"

definition read_utc_time :: "string \<Rightarrow> tm" where
  "read_utc_time s =
     (let year = takeWhile (\<lambda>c. c \<noteq> CHR ''-'') s;
          rest = drop (length year + 1) s;
          field = (\<lambda>i. nat_of_string (take 2 (drop i rest)))
      in \<lparr>tm_year = nat_of_string year, tm_mon = field 0, tm_mday = field 3, tm_hour = field 6, tm_min = field 9, tm_sec = field 12\<rparr>)"

lemma year_of_day_sum: "year_of_day y d = (y', d') \<Longrightarrow> y \<le> y' \<and> d' < days_in_year y' \<and> sum_list (map days_in_year [y..<y']) + d' = d"
proof (induction y d arbitrary: y' d' rule: year_of_day.induct)
  case (1 y d)
  show ?case
  proof (cases "d < days_in_year y")
    case True
    then show ?thesis using "1.prems" by (subst (asm) year_of_day.simps) auto
  next
    case False
    then have "year_of_day (y + 1) (d - days_in_year y) = (y', d')" using "1.prems" by (subst (asm) year_of_day.simps) simp
    from "1.IH"[OF False this] have "y < y'" "d' < days_in_year y'"
      "sum_list (map days_in_year [y + 1..<y']) + d' = d - days_in_year y" by simp_all
    then show ?thesis using False by (simp add: upt_conv_Cons)
  qed
qed

lemma month_of_day_sum:
  "month_of_day y m d = (m', d') \<Longrightarrow> m \<le> m' \<and> (m' \<le> 12 \<or> m' = m) \<and> sum_list (map (days_in_month y) [m..<m']) + d' = d
     \<and> (12 \<le> m' \<or> d' < days_in_month y m')"
proof (induction y m d arbitrary: m' d' rule: month_of_day.induct)
  case (1 y m d)
  show ?case
  proof (cases "12 \<le> m \<or> d < days_in_month y m")
    case True
    then show ?thesis using "1.prems" by (subst (asm) month_of_day.simps) auto
  next
    case False
    then have "month_of_day y (m + 1) (d - days_in_month y m) = (m', d')" using "1.prems" by (subst (asm) month_of_day.simps) simp
    from "1.IH"[OF False this] False show ?thesis by (auto simp: upt_conv_Cons)
  qed
qed

lemma year_months: "sum_list (map (days_in_month y) [1..<12]) + 31 = days_in_year y"
  by (simp add: upt_rec days_in_month_def days_in_year_def)

definition tm_ok :: "tm \<Rightarrow> bool" where
  "tm_ok t \<longleftrightarrow> 1970 \<le> tm_year t \<and> 1 \<le> tm_mon t \<and> tm_mon t \<le> 12 \<and> 1 \<le> tm_mday t \<and> tm_mday t \<le> days_in_month (tm_year t) (tm_mon t)
     \<and> tm_hour t < 24 \<and> tm_min t < 60 \<and> tm_sec t < 60"

lemma gmtime_ok: "tm_ok (gmtime s)" and seconds_of_gmtime: "seconds_of_tm (gmtime s) = s"
proof -
  obtain y yday where y: "year_of_day 1970 (s div 86400) = (y, yday)" by fastforce
  obtain m mday where m: "month_of_day y 1 yday = (m, mday)" by fastforce
  from year_of_day_sum[OF y] have ys: "1970 \<le> y" "yday < days_in_year y" "days_before_year y + yday = s div 86400"
    by (simp_all add: days_before_year_def)
  from month_of_day_sum[OF m] have ms: "1 \<le> m" "m \<le> 12" "days_before_month y m + mday = yday" "12 \<le> m \<or> mday < days_in_month y m"
    by (auto simp: days_before_month_def)
  have "mday < days_in_month y m"
  proof (cases "12 \<le> m")
    case True
    then have "m = 12" using ms(2) by simp
    then show ?thesis using ms(3) ys(2) year_months[of y] by (simp add: days_before_month_def days_in_month_def)
  qed (use ms(4) in simp)
  then show "tm_ok (gmtime s)"
    using ys(1) ms(1,2) by (simp add: tm_ok_def gmtime_def y m[unfolded One_nat_def] Let_def less_mult_imp_div_less)
  have time: "secs div 3600 * 3600 + secs mod 3600 div 60 * 60 + secs mod 60 = secs" for secs :: nat
  proof -
    have "secs mod 3600 mod 60 = secs mod 60" by (simp add: mod_mod_cancel)
    then have "secs mod 3600 div 60 * 60 + secs mod 60 = secs mod 3600" using div_mult_mod_eq[of "secs mod 3600" 60] by simp
    then show ?thesis by (simp add: add.assoc)
  qed
  have days: "days_before_year y + days_before_month y m + mday = s div 86400" using ys(3) ms(3) by simp
  have "seconds_of_tm (gmtime s) = (days_before_year y + days_before_month y m + mday) * 86400
      + (s mod 86400 div 3600 * 3600 + s mod 86400 mod 3600 div 60 * 60 + s mod 86400 mod 60)"
    by (simp add: seconds_of_tm_def gmtime_def y m[unfolded One_nat_def] Let_def)
  also have "\<dots> = s div 86400 * 86400 + s mod 86400" unfolding days time ..
  finally show "seconds_of_tm (gmtime s) = s" by simp
qed

lemma two_digits_read: "n < 100 \<Longrightarrow> nat_of_string (two_digits n) = n"
  by (simp add: two_digits_def)

lemma string_of_nat_before_dash: "takeWhile (\<lambda>c. c \<noteq> CHR ''-'') (string_of_nat n @ ''-'' @ rest) = string_of_nat n"
proof -
  have "c \<noteq> CHR ''-''" if "c \<in> set (string_of_nat n)" for c
    using that string_of_nat_digits[of n] by (auto simp: decimal_digit_def)
  then show ?thesis by (simp add: takeWhile_append2)
qed

lemma read_utc_time_text:
  assumes "tm_ok t"
  shows "read_utc_time (string_of_nat (tm_year t) @ ''-'' @ two_digits (tm_mon t) @ ''-'' @ two_digits (tm_mday t) @ '' ''
         @ two_digits (tm_hour t) @ '':'' @ two_digits (tm_min t) @ '':'' @ two_digits (tm_sec t)) = t"
proof -
  have "days_in_month (tm_year t) (tm_mon t) \<le> 31" by (simp add: days_in_month_def)
  then have small: "tm_mon t < 100" "tm_mday t < 100" "tm_hour t < 100" "tm_min t < 100" "tm_sec t < 100"
    using assms by (auto simp: tm_ok_def)
  show ?thesis
    unfolding read_utc_time_def string_of_nat_before_dash Let_def
    using small[THEN two_digits_read] by (cases t) (simp add: two_digits_def del: nat_of_string.simps)
qed

section \<open>Random numbers\<close>

text \<open>
  The engine of a thread is seeded at its first use. \<open>init\<close> copies it, so that it never advances itself; \<open>distribution\<close> is
  \<open>std::uniform_int_distribution\<close>, which draws a number between the bounds and advances the engine.
\<close>

record 'g RandomIntGen =
  rg_generator :: 'g
  rg_min :: int
  rg_max :: int

definition RandomIntGen_init :: "'g \<Rightarrow> int \<Rightarrow> int \<Rightarrow> 'g option \<Rightarrow> 'g RandomIntGen \<times> 'g option" where
  "RandomIntGen_init seed low high thread_engine =
     (let generator = (case thread_engine of None \<Rightarrow> seed | Some g \<Rightarrow> g)
      in (\<lparr>rg_generator = generator, rg_min = low, rg_max = high\<rparr>, Some generator))"

definition randInt :: "(int \<Rightarrow> int \<Rightarrow> 'g \<Rightarrow> int \<times> 'g) \<Rightarrow> 'g RandomIntGen \<Rightarrow> int \<times> 'g RandomIntGen" where
  "randInt distribution r =
     (let (n, g) = distribution (rg_min r) (rg_max r) (rg_generator r) in (n, r\<lparr>rg_generator := g\<rparr>))"

fun randInts :: "(int \<Rightarrow> int \<Rightarrow> 'g \<Rightarrow> int \<times> 'g) \<Rightarrow> nat \<Rightarrow> 'g RandomIntGen \<Rightarrow> int list" where
  "randInts distribution 0 r = []"
| "randInts distribution (Suc k) r = (let (n, r) = randInt distribution r in n # randInts distribution k r)"

text \<open>Two generators of a thread with the same bounds draw the same numbers.\<close>

lemma generators_of_a_thread_agree:
  assumes "RandomIntGen_init seed low high thread_engine = (r1, engine)" and "RandomIntGen_init seed' low high engine = (r2, engine')"
  shows "randInts distribution k r2 = randInts distribution k r1" and "engine' = engine"
  using assms by (auto simp: RandomIntGen_init_def Let_def)

lemma randInts_bounds:
  assumes "\<And>g. low \<le> fst (distribution low high g) \<and> fst (distribution low high g) \<le> high"
    and "rg_min r = low" and "rg_max r = high" and "n \<in> set (randInts distribution k r)"
  shows "low \<le> n \<and> n \<le> high"
  using assms(2-)
proof (induction k arbitrary: r)
  case (Suc k)
  let ?draw = "distribution low high (rg_generator r)"
  have "n = fst ?draw \<or> n \<in> set (randInts distribution k (r\<lparr>rg_generator := snd ?draw\<rparr>))"
    using Suc.prems by (auto simp: randInt_def Let_def case_prod_beta)
  then show ?case using assms(1) Suc.IH[of "r\<lparr>rg_generator := snd ?draw\<rparr>"] Suc.prems(1,2) by auto
qed simp

section \<open>Log lines\<close>

text \<open>
  The formats of the sources have no fields but \<open>{}\<close>. A field without an argument is an error of the formatting library, which the
  logger catches, so that the line is lost: \<open>None\<close>. Arguments without a field are ignored, and without arguments the format is the line.
\<close>

fun format_runtime :: "string \<Rightarrow> string list \<Rightarrow> string option" where
  "format_runtime [] args = Some []"
| "format_runtime (c # cs) args =
     (if c = CHR ''{'' \<and> take 1 cs = ''}''
      then (case args of [] \<Rightarrow> None | arg # args \<Rightarrow> map_option ((@) arg) (format_runtime (tl cs) args))
      else map_option ((#) c) (format_runtime cs args))"

definition info_log :: "string \<Rightarrow> string list \<Rightarrow> string option" where
  "info_log format args = (if args = [] then Some format else format_runtime format args)"

fun fields_of :: "string \<Rightarrow> nat" where
  "fields_of [] = 0"
| "fields_of (c # cs) = (if c = CHR ''{'' \<and> take 1 cs = ''}'' then Suc (fields_of (tl cs)) else fields_of cs)"

lemma format_runtime_lost: "format_runtime format args = None \<longleftrightarrow> length args < fields_of format"
  by (induction format args rule: format_runtime.induct) (auto split: list.splits)

lemma info_log_lost: "info_log format args = None \<longleftrightarrow> args \<noteq> [] \<and> length args < fields_of format"
  by (auto simp: info_log_def format_runtime_lost)

definition balance_event_format :: string where
  "balance_event_format = ''update balance by event for {} {} {} {}''"

definition balance_event_line :: "string \<Rightarrow> string \<Rightarrow> string \<Rightarrow> string option" where
  "balance_event_line asset crossWalletBalance updated = info_log balance_event_format [asset, crossWalletBalance, updated]"

section \<open>Properties\<close>

text \<open>C35. The time text of a row determines the second of its time: reading its six fields back gives the calendar time, of a date that
  exists, and the seconds since the beginning of 1970 that it stands for.\<close>

theorem utc_time_reads_back:
  "tm_ok (read_utc_time (get_utc_time_tring now_c)) \<and> seconds_of_tm (read_utc_time (get_utc_time_tring now_c)) = now_c"
  using read_utc_time_text[OF gmtime_ok] gmtime_ok seconds_of_gmtime by (simp add: get_utc_time_tring_def Let_def)

text \<open>The line of a balance event is never written: its format has four fields for three values. (Every other call of the sources has as many values as
  fields.)\<close>

theorem balance_event_line_is_lost: "balance_event_line asset crossWalletBalance updated = None"
  by (simp add: balance_event_line_def info_log_lost balance_event_format_def)

end
