(* ===== verification/Messenger.thy ===== *)
theory Messenger
  imports ConfigFiles
begin

text \<open>
  \<open>src/src/tgbot/api.{h,cpp}\<close>: the messages of the watchdogs are posted to a messenger service. The HTTP library is the record \<open>HttpLib\<close>: escaping
  a value, joining strings, printing a number, and performing a request, which returns a status and the body of the answer.
\<close>

section \<open>Requests\<close>

text \<open>\<open>hr_method\<close> is the custom method if one is set, \<open>hr_post\<close> the body if the request has one.\<close>

record HttpRequest =
  hr_url :: string
  hr_headers :: "string list"
  hr_method :: "string option"
  hr_post :: "string option"

record HttpLib =
  hl_escape :: "string \<Rightarrow> string"
  hl_joinStrings :: "string list \<Rightarrow> string \<Rightarrow> string"
  hl_toString :: "i64 \<Rightarrow> string"
  hl_perform :: "HttpRequest \<Rightarrow> int \<times> string"

record TgApi =
  tg_endpoint :: string
  tg_token :: string

definition API_Endpoint :: string where
  "API_Endpoint = ''https://api.telegram.org''"

definition tg_init :: "string \<Rightarrow> string \<Rightarrow> TgApi" where
  "tg_init endpoint token = \<lparr>tg_endpoint = endpoint, tg_token = token\<rparr>"

definition tg_init_default_endpoint :: "string \<Rightarrow> TgApi" where
  "tg_init_default_endpoint token = \<lparr>tg_endpoint = API_Endpoint, tg_token = token\<rparr>"

text \<open>The values are escaped as C strings.\<close>

definition c_str :: "string \<Rightarrow> string" where
  "c_str s = takeWhile (\<lambda>ch. ch \<noteq> CHR 0x00) s"

definition url_encoded :: "HttpLib \<Rightarrow> (string \<times> string) list \<Rightarrow> string" where
  "url_encoded http params = hl_joinStrings http (map (\<lambda>p. fst p @ ''='' @ hl_escape http (c_str (snd p))) params) ''&''"

definition http_request :: "HttpLib \<Rightarrow> string \<Rightarrow> string \<Rightarrow> TgApi \<Rightarrow> string list \<Rightarrow> (string \<times> string) list \<Rightarrow> (string \<times> string) list \<Rightarrow> HttpRequest" where
  "http_request http api_method action api extra_header query_params form_params =
     (let url = tg_endpoint api @ ''/bot'' @ tg_token api @ ''/'' @ api_method;
          queryString = (if query_params \<noteq> [] then url_encoded http query_params else []);
          formString = (if form_params \<noteq> [] then url_encoded http form_params else []);
          extra_header = (if form_params \<noteq> [] then extra_header @ [''Content-Type: application/x-www-form-urlencoded''] else extra_header);
          fullUrl = (if 0 < length queryString then url @ ''?'' @ queryString else url);
          posts = (0 < length formString \<or> action = ''POST'' \<or> action = ''PUT'' \<or> action = ''DELETE'')
      in \<lparr>hr_url = c_str fullUrl, hr_headers = map c_str extra_header,
          hr_method = (if posts \<and> (action = ''PUT'' \<or> action = ''DELETE'') then Some action else None),
          hr_post = (if posts then Some (c_str formString) else None)\<rparr>)"

definition sendRequest :: "HttpLib \<Rightarrow> string \<Rightarrow> string \<Rightarrow> TgApi \<Rightarrow> string \<Rightarrow> string list \<Rightarrow> (string \<times> string) list \<Rightarrow> (string \<times> string) list \<Rightarrow> int \<times> string" where
  "sendRequest http api_method action api call_result extra_header query_params form_params =
     (let (code, body) = hl_perform http (http_request http api_method action api extra_header query_params form_params)
      in (code, call_result @ body))"

record 'j TgJson = "'j JsonLib" +
  js_isMember :: "'j \<Rightarrow> string \<Rightarrow> bool result"

text \<open>\<open>what\<close> is the text of an exception. An answer that is not JSON is read like one that is.\<close>

definition message_request :: "HttpLib \<Rightarrow> TgApi \<Rightarrow> i64 \<Rightarrow> string \<Rightarrow> int \<times> string" where
  "message_request http api chat_id text =
     sendRequest http ''sendMessage'' ''POST'' api [] [] [] [(''chat_id'', hl_toString http chat_id), (''text'', text)]"

definition tg_answer :: "'j TgJson \<Rightarrow> string \<Rightarrow> (int \<times> string) result" where
  "tg_answer js call_result =
     bind_result (js_parse js call_result) (\<lambda>(parsed, json_result).
     bind_result (js_isMember js json_result ''ok'') (\<lambda>has_ok.
     bind_result (if \<not> has_ok then Inr False else bind_result (js_member js json_result ''ok'') (js_asBool js)) (\<lambda>ok.
       Inr (if \<not> has_ok \<or> \<not> ok then (- 500, ''fail to send message: '' @ call_result) else (0, [])))))"

definition send_message :: "HttpLib \<Rightarrow> 'j TgJson \<Rightarrow> (cpp_error \<Rightarrow> string) \<Rightarrow> TgApi \<Rightarrow> i64 \<Rightarrow> string \<Rightarrow> int \<times> string" where
  "send_message http js what api chat_id text =
     (let (status, call_result) = message_request http api chat_id text
      in if status \<noteq> 0 then (status, ''fail to call'')
         else (case tg_answer js call_result of
                 Inl e \<Rightarrow> (- 900, ''send request fail: '' @ what e)
               | Inr result \<Rightarrow> result))"

section \<open>Lemmas\<close>

text \<open>The call succeeds exactly if it was performed and the answer says so.\<close>

lemma tg_answer_ok:
  "tg_answer js body = Inr (0, []) \<longleftrightarrow> (\<exists>parsed doc ok. js_parse js body = Inr (parsed, doc)
     \<and> js_isMember js doc ''ok'' = Inr True \<and> js_member js doc ''ok'' = Inr ok \<and> js_asBool js ok = Inr True)"
proof
  assume "tg_answer js body = Inr (0, [])"
  then show "\<exists>parsed doc ok. js_parse js body = Inr (parsed, doc) \<and> js_isMember js doc ''ok'' = Inr True
      \<and> js_member js doc ''ok'' = Inr ok \<and> js_asBool js ok = Inr True"
    by (auto simp: tg_answer_def bind_result_Inr_iff split: if_splits)
qed (auto simp: tg_answer_def bind_result_def)

lemma send_message_ok_iff:
  "send_message http js what api chat_id text = (0, [])
     \<longleftrightarrow> fst (message_request http api chat_id text) = 0 \<and> tg_answer js (snd (message_request http api chat_id text)) = Inr (0, [])"
  by (auto simp: send_message_def Let_def case_prod_beta split: sum.splits)

text \<open>What is posted: if escaping leaves no separator (as its manual page says, which lists the characters it leaves), the text is one field of the form, whatever it
  contains, and is restored from it up to its first zero byte.\<close>

definition escapes :: "HttpLib \<Rightarrow> (string \<Rightarrow> string) \<Rightarrow> bool" where
  "escapes http unescape \<longleftrightarrow> (\<forall>s. unescape (hl_escape http s) = s \<and> CHR ''&'' \<notin> set (hl_escape http s) \<and> CHR 0x00 \<notin> set (hl_escape http s))"

definition text_field :: "string \<Rightarrow> string" where
  "text_field body = drop 5 (tl (dropWhile (\<lambda>ch. ch \<noteq> CHR ''&'') body))"

lemma message_text_restored:
  assumes "escapes http unescape" and "\<And>x y. hl_joinStrings http [x, y] ''&'' = x @ ''&'' @ y"
  shows "\<exists>body. hr_post (http_request http ''sendMessage'' ''POST'' api [] [] [(''chat_id'', chat), (''text'', text)]) = Some body
    \<and> unescape (text_field body) = c_str text \<and> count_list body (CHR ''&'') = 1"
proof -
  let ?form = "''chat_id='' @ hl_escape http (c_str chat) @ ''&'' @ ''text='' @ hl_escape http (c_str text)"
  have e: "CHR ''&'' \<notin> set (hl_escape http s)" "CHR 0x00 \<notin> set (hl_escape http s)" "unescape (hl_escape http s) = s" for s
    using assms(1) by (simp_all add: escapes_def)
  have "\<forall>ch \<in> set ?form. ch \<noteq> CHR 0x00" using e(2) by auto
  then have "c_str ?form = ?form" unfolding c_str_def takeWhile_eq_all_conv .
  moreover have "url_encoded http [(''chat_id'', chat), (''text'', text)] = ?form" by (simp add: url_encoded_def assms(2))
  ultimately have p: "hr_post (http_request http ''sendMessage'' ''POST'' api [] [] [(''chat_id'', chat), (''text'', text)]) = Some ?form"
    by (simp add: http_request_def Let_def)
  have "\<forall>ch \<in> set (''chat_id='' @ hl_escape http (c_str chat)). ch \<noteq> CHR ''&''" using e(1) by auto
  then have "dropWhile (\<lambda>ch. ch \<noteq> CHR ''&'') ((''chat_id='' @ hl_escape http (c_str chat)) @ ''&text='' @ hl_escape http (c_str text))
      = dropWhile (\<lambda>ch. ch \<noteq> CHR ''&'') (''&text='' @ hl_escape http (c_str text))"
    by (intro dropWhile_append2) blast
  then have "unescape (text_field ?form) = c_str text" by (simp add: text_field_def e(3))
  moreover have "count_list ?form (CHR ''&'') = 1" using e(1) by (simp add: count_notin)
  ultimately show ?thesis using p by blast
qed

end
