(* ===== verification/Spec2Isabelle.thy ===== *)
theory Spec2Isabelle
  imports OrderLimiter ShmLock MarketSystem StatSystem ConnectionPool Services TestProgram Utilities Messenger
begin

text \<open>
  \<^bold>\<open>A verification of cpp-bn-umtaker.\<close>

  \<^bold>\<open>The system.\<close> Four processes trade futures on an exchange by following the quotes of a benchmark instrument. The
  \<^emph>\<open>receiver\<close> takes tickers from three feeds, keeps windows of them, computes thresholds, and publishes tickers and thresholds in
  shared memory. The \<^emph>\<open>actuary\<close> reads them in one strategy thread per asset, knows the account from the exchange's user data
  stream, and publishes orders in shared memory; watchdogs stop and resume it. The \<^emph>\<open>trader\<close> scans the order slots and places
  the orders within the exchange's limits over the currently best network path. The \<^emph>\<open>evaluator\<close> learns of the orders
  over a socket and records prices and profits at thirteen horizons. All paths below are under \<open>src/src/\<close>.

  \<^bold>\<open>Theories and the files they model.\<close> State is passed explicitly: a class is a record with its fields, a member function a
  function from the record to its new value; the getters are the selectors.
  \<^item> \<open>Prelude\<close>: machine words, errors as values (\<open>cpp_error\<close>, \<open>result\<close>), segments with checked indices, and the locale
    \<open>invariant_system\<close> of step relations with an invariant. \<open>Double\<close>: IEEE binary64 with its rounding, comparison and special values.
  \<^item> \<open>Tools\<close>: \<open>common/tools.cpp\<close>, whose time text is in \<open>Utilities\<close> with \<open>common/random.{h,cpp}\<close> and the log calls of \<open>logger/logger.h\<close>. \<open>Counter\<close>: \<open>common/auto_reset_counter.{h,cpp}\<close>. \<open>OrderLimiter\<close>: \<open>trader/order_limiter.{h,cpp}\<close>.
  \<^item> \<open>Shm\<close>: the slots of \<open>shm/{ticker,threshold,order}_shm.{h,cpp}\<close>. \<open>ShmLock\<close>: the spin lock of \<open>shm/share_memory_mng.cpp\<close> with writers
    and readers as sequences of memory accesses, in all interleavings.
  \<^item> \<open>Thresholds\<close>: \<open>common/threshold_container.{h,cpp}\<close>. \<open>TickerContainer\<close>, \<open>OffsetContainer\<close>, \<open>ReceiverContext\<close>, \<open>ReceiverCalc\<close>, \<open>ReceiverSubscribe\<close>: the
    receiver (\<open>receiver/ticker_container\<close>, \<open>basic_container\<close>, \<open>offset_container\<close>, \<open>global_context\<close>, \<open>ticker_calculate\<close>, \<open>ticker_subscribe\<close>).
    \<open>InstConfig\<close>: \<open>config/inst_config.{h,cpp}\<close> and the assignment of names to slots that three processes share.
  \<^item> \<open>DynamicConfig\<close>, \<open>AccountContainer\<close>, \<open>RiskControl\<close>, \<open>ActuaryContext\<close>, \<open>Strategy\<close>, \<open>AccountProcessor\<close>, \<open>StatDispatch\<close>: the files of \<open>actuary/\<close> of
    the same names (\<open>ActuaryContext\<close> also has \<open>market_processor.cpp\<close>, \<open>StatDispatch\<close> also receiving by \<open>zmq/zmq_client.h\<close> and the evaluator's
    \<open>zmq_subscribe.cpp\<close>). \<open>StrategyLog\<close>: the log lines and the pauses of the strategy's loop. \<open>ZmqClient\<close>: the client of \<open>zmq/zmq_client.h\<close>
    and the publisher of orders that uses it. \<open>Actuary\<close>: the threads that \<open>bn_umtaker_actuary.cpp\<close> starts, interleaved.
  \<^item> \<open>OrderService\<close>: \<open>trader/service_container.{h,cpp}\<close> and \<open>service_manager.cpp\<close>. \<open>Trader\<close>: \<open>trader/global_context.{h,cpp}\<close> and
    \<open>trade_processor.cpp\<close>. \<open>TraderProcess\<close>: the threads that \<open>bn_umtaker_trader.cpp\<close> starts, interleaved. \<open>Services\<close>: how the clients of the
    exchange are set up, which thread reads their messages, and the threads of the best-path services.
  \<^item> \<open>TradingSystem\<close>: actuary and trader together, connected by the order segment, with the history of what was published and what was handed
    to the exchange. \<open>ReceiverProcess\<close>: the threads of a receiver, interleaved, and where the data in its segments comes from.
    \<open>MarketSystem\<close>: any number of receivers with actuary and trader, and the history of the tickers received. \<open>StatSystem\<close>: any number of
    actuaries with their publishers, the sockets and the evaluator, and the history of what was put into the channels.
  \<^item> \<open>ConfigFiles\<close>: the loaders of \<open>config/\<close> and the beginning of the four programs. \<open>Feeds\<close>: the receive loops of
    \<open>receiver/ticker_subscribe.cpp\<close>, \<open>trader/service_manager.cpp\<close> and \<open>evaluator/zmq_subscribe.cpp\<close>. \<open>Segments\<close>: \<open>shm/share_memory_mng.cpp\<close> and
    the segments that the processes create and attach. \<open>Processes\<close>: the threads that the \<open>start_*\<close> functions create.
    \<open>Messenger\<close>: \<open>tgbot/api.{h,cpp}\<close>. \<open>TestProgram\<close>: \<open>main.cpp\<close>, the program that tries the libraries out.
  \<^item> \<open>Evaluator\<close>: \<open>evaluator/\<close> but its socket. \<open>ConnectionPool\<close>: \<open>dbsource/mysql_source.{h,cpp}\<close>.

  \<^bold>\<open>Concurrency.\<close> A member function that holds its lock throughout is one step. Where a function gives the lock up between
  two accesses, or a loop works on a copy, the model has the pieces as separate functions and a step relation interleaves
  them: \<open>lstep\<close> for shared memory (single loads and stores), \<open>estep\<close> for the evaluator, \<open>pool_step\<close> for the connection pool,
  \<open>actuary_step\<close> and \<open>receiver_step\<close> for the threads of actuary and receiver (one iteration each), \<open>system_step\<close> for actuary and trader together,
  \<open>market_step\<close> for these and the receivers, \<open>stat_step\<close> for the actuaries and the evaluator, \<open>service_move\<close> for the service threads of the trader and their manager; \<open>trader_run\<close> runs any sequence
  of iterations of the trader's threads. \<open>market_step\<close> refines \<open>system_step\<close>: what holds of actuary and trader for arbitrary changes of the
  ticker and threshold segments holds with the receivers that make them. For the runs of a strategy thread, of the trader's scanner and of
  the limiters, arbitrary changes of the shared state between two iterations are arguments of the run.

  \<^bold>\<open>Interfaces.\<close> Locales state what a client needs of a provider, and are interpreted on the model: \<open>versioned_slot\<close>, \<open>timed_slot\<close> and
  \<open>slot_program\<close> for shared-memory slots, \<open>budget\<close> and \<open>available_budget\<close> for counters, \<open>composite\<close> and \<open>exist_map\<close> for the containers,
  \<open>slot_init\<close> for the initialisation of segments, \<open>stop_switch\<close> for the trading switches, \<open>service_registry\<close> for order services,
  \<open>invariant_system\<close> for the step relations.

  \<^bold>\<open>What is shown.\<close>
  \<^item> Orders: an order is sent only from fresh inputs, with trading allowed and within the position limit; it
    closes in close-only operation, where orders are five seconds apart; its price respects the bounds; one order per ticker version; the same price is not
    repeated within the pause; writing log lines does not change what is sent. A process configured to close only, or not to trade, does so in every interleaving of its threads.
  \<^item> The system: whatever is interleaved, an order at the exchange is the unchanged, still valid copy of an order that a strategy
    decided from fresh inputs, and these come from tickers that a receiver got from its feed; an actuary that is to close only never opens a position there, and the stop switch of the configuration file
    silences the exchange; nothing is placed more often than it is published, and a trader keeps its rate limits and
    pauses as a whole.
  \<^item> Start-up: a program starts exactly on a typed configuration; readers attach the segments that the writer has created.
  \<^item> From the strategy to the exchange: what is written to a slot is what the trader reads, without torn reads; receiver, actuary and
    trader agree on the slots; the trader places a published order once, unchanged, within its validity and the
    budgets; the budgets bound the number of orders in a cycle; the service used is a running one.
  \<^item> Risk: the watchdogs stop and resume exactly as their conditions say; the switches follow their sets of reasons; the
    reduce ratio of a position has the sign of the position and is bounded by the margin.
  \<^item> Receiver: running extremes and sums of the windows are exact, medians split the offsets, a ticker of the feed is the quote that the strategies of its
    asset read next.
  \<^item> Evaluator and database: horizons are recorded once, not early, and when due; a trade reaches the
    evaluator, and whatever is interleaved, lost or repeated, its orders and rows are those of accepted trades; the publisher keeps the order of its channel; a pooled connection has one holder, and a request waits only when all connections are in use.
  \<^item> Services: every service that the trader holds has a running thread, a stopped one is not called again, and every message channel of
    a client is read by exactly one thread. The time text of saved rows determines the second.
  \<^item> Faults of the code are stated as theorems as well: an uninitialised flag that decides over buy orders, segments that are created too
    small, lost fills, a race of the service janitor, budget spent on refused orders, a loop that does not end, a ticker feed that sleeps five
    seconds per ticker and cuts binary messages, one that never subscribes again, configuration files that are accepted
    without being JSON, readers that are cut off when a writer restarts, a publisher that does not survive a failed send, a service whose exception ends the
    trader, and a log line that is never written.

  \<^bold>\<open>Bounds and fuel.\<close> No function of the model uses fuel. The one loop of the sources that may not end
  (\<open>calculate_precision_by_min_step\<close>) is a \<open>partial_function\<close> into \<open>option\<close>, and it is shown when it ends. Unsigned 64-bit numbers
  wrap; where a theorem needs that they do not, it says so. The system clock of the evaluator's step relation does not go backwards.

  \<^bold>\<open>Not modelled.\<close> Code outside of the repository is an argument: the exchange library with its REST and web-socket
  clients and string helpers, JSON (\<open>JsonLib\<close>), protobuf, the HTTP (\<open>HttpLib\<close>) and socket libraries, the database, and the system calls for shared memory (\<open>SysV\<close>, with
  what their manual pages promise in \<open>sysv_ok\<close>) and for sockets (\<open>ZmqLib\<close>, with \<open>bind_exclusive\<close>). SQL statements are represented by their values. Log lines are modelled
  for the inputs of the strategy and where a line is lost, and left out elsewhere, with the random numbers that thin them out and the set-up of the logging library. Of the
  test program the REST calls and what is commented out are not modelled. Durations of sleeps are part of the model in \<open>Feeds\<close>, \<open>ZmqClient\<close> and the
  loop of \<open>StrategyLog\<close>: elsewhere a thread may take its next step at any time.
\<close>

section \<open>The processes agree on the slots\<close>

lemma ax_init_mappings:
  assumes "ax_init bf ff att OK r1 r2 config c = Some (Inr c')"
    and "ax_all_follower_inst_ids c = []" and "ax_shm_order_mapping c = []" and "ax_shm_follower_ticker_mapping c = []"
    and "ax_shm_threshold_mapping c = []"
  shows "ax_shm_order_mapping c' = index_mapping (map (\<lambda>b. b @ acfg_follower_quote_asset config) (acfg_all_base_assets config)) []
    \<and> ax_shm_follower_ticker_mapping c' = index_mapping (map (\<lambda>b. b @ acfg_follower_quote_asset config) (acfg_all_base_assets config)) []
    \<and> ax_shm_threshold_mapping c' = index_mapping (acfg_all_base_assets config) []"
proof -
  have put: "ax_shm_order_mapping (fold (put_exchange_info b) ls x) = ax_shm_order_mapping x
      \<and> ax_shm_follower_ticker_mapping (fold (put_exchange_info b) ls x) = ax_shm_follower_ticker_mapping x
      \<and> ax_shm_threshold_mapping (fold (put_exchange_info b) ls x) = ax_shm_threshold_mapping x" for b ls x
    by (induction ls arbitrary: x) (auto simp: put_exchange_info_def Let_def split: option.split)
  have shm: "ax_init_shm att config x = Inr y \<Longrightarrow> ax_shm_order_mapping y = ax_shm_order_mapping x
      \<and> ax_shm_follower_ticker_mapping y = ax_shm_follower_ticker_mapping x
      \<and> ax_shm_threshold_mapping y = ax_shm_threshold_mapping x" for x y
    by (auto simp: ax_init_shm_def bind_result_Inr_iff split: if_splits)
  let ?x = "ax_init_shm_mapping config ((ax_load_ids config c)\<lparr>
      ax_benchmark_inst_config := bf (acfg_make_position_close_only config) (ax_benchmark_inst_config (ax_load_ids config c)),
      ax_follower_inst_config := ff (acfg_make_position_close_only config) (ax_follower_inst_config (ax_load_ids config c))\<rparr>)"
  obtain y where "ax_init_shm att config ?x = Inr y" "ax_shm_order_mapping c' = ax_shm_order_mapping y"
      "ax_shm_follower_ticker_mapping c' = ax_shm_follower_ticker_mapping y" "ax_shm_threshold_mapping c' = ax_shm_threshold_mapping y"
    using assms(1) put by (auto simp: ax_init_def Let_def split: sum.splits option.splits)
  with shm [of ?x y] assms(2-5) show ?thesis by (simp add: ax_init_shm_mapping_def ax_load_ids_def Let_def)
qed

lemma tx_init_mapping:
  assumes "tx_init garbage gen boss att config c = Inr c'"
    and "tx_all_follower_inst_ids c = []" and "tx_shm_order_mapping c = []"
  shows "tx_shm_order_mapping c' = index_mapping (map (\<lambda>b. b @ tcfg_follower_quote_asset config) (tcfg_all_base_assets config)) []"
proof -
  have "tx_init_normal_order_limiter gen config x = Inr y \<Longrightarrow> tx_shm_order_mapping y = tx_shm_order_mapping x" for x y
    by (auto simp: tx_init_normal_order_limiter_def Let_def split: option.splits prod.splits)
  then show ?thesis using assms
    by (auto simp: tx_init_def Let_def bind_result_Inr_iff tx_init_order_interval_boss_def tx_init_best_path_order_limiter_def
        tx_init_shm_mapping_def split: if_splits)
qed

lemma rx_init_mappings:
  assumes "rx_init bf ff att config new_ReceiverContext = Inr c'"
  shows "rx_shm_follower_ticker_mapping c' = index_mapping (map (\<lambda>b. b @ rcfg_follower_quote_asset config) (rcfg_all_base_assets config)) []
    \<and> rx_shm_threshold_mapping c' = index_mapping (rcfg_all_base_assets config) []"
  using assms
  by (auto simp: rx_init_def new_ReceiverContext_def Let_def rx_init_shm_mapping_def rx_init_shm_for_main_def
      rx_init_shm_for_secondary_def bind_result_Inr_iff split: if_splits)


section \<open>From the strategy to the exchange\<close>

lemma order_written_read:
  assumes "order_shm_writer_update seg i order = Inr (r, seg')" and "order_fits order"
    and "seg_get seg i = Inr old" and "order_newer old order"
  shows "order_shm_reader_get seg' i = Inr (order\<lparr>os_version_number := os_version_number old + 1\<rparr>)"
proof -
  let ?o = "order\<lparr>os_version_number := os_version_number old + 1\<rparr>"
  obtain r' where "order_slot_update order old = Inr (r', ?o)" using order_slot_update_fits [OF assms(2,4)] by blast
  then have "seg_set seg i ?o = Inr seg'"
    using assms(1,3) by (auto simp: order_shm_writer_update_def seg_modify_Inr_iff)
  then have "seg_get seg' i = Inr ?o" by (rule seg_get_set_same)
  moreover have "order_fits ?o" using assms(2) by (simp add: order_fits_def)
  ultimately show ?thesis by (simp add: order_shm_reader_get_def order_fits_def)
qed

lemma strategy_order_in_slot:
  assumes "strategy_step api clk stop_buy0 config env st c = Inr (Some order, st', c')"
    and "seg_get (order_start (ax_shm_store_info c)) (se_order_shm_index env) = Inr old" and "order_newer old order"
  shows "order_shm_reader_get (order_start (ax_shm_store_info c')) (se_order_shm_index env)
    = Inr (order\<lparr>os_version_number := os_version_number old + 1\<rparr>)"
proof -
  from strategy_step_sent [OF assms(1)] obtain r orders where
      w: "order_shm_writer_update (order_start (ax_shm_store_info c)) (se_order_shm_index env) order = Inr (r, orders)"
      "c' = c\<lparr>ax_shm_store_info := (ax_shm_store_info c)\<lparr>order_start := orders\<rparr>\<rparr>" and f: "order_fits order"
    by (auto simp: buy_sent_def sell_sent_def order_sent_ok_def)
  from order_written_read [OF w(1) f assms(2,3)] w(2) show ?thesis by simp
qed

text \<open>C7. An order of the strategy reaches the exchange: the next visit of the trader to the slot hands it to the best service of the
  instrument with the strategy's side, price, quantity and reduce-only flag, provided that the order is still
  valid, placing is switched on, the symbol is not paused, a running service is known for it and both budgets grant a unit.\<close>

theorem strategy_order_reaches_exchange:
  assumes "strategy_step api clk stop_buy0 config env st c = Inr (Some order, st', c')"
    and "seg_get (order_start (ax_shm_store_info c)) (se_order_shm_index env) = Inr old" and "order_newer old order"
    and "tx_order_start t = order_start (ax_shm_store_info c')"
    and "v <s os_version_number old + 1" and "now \<le> os_update_time order + tcfg_order_validity_micros tconfig"
    and "tcfg_open_place_order tconfig" and "tcfg_trading_use_best_path tconfig"
    and "ib_has_more_semaphore inst (tx_order_interval_boss t)"
    and "find_best_service inst (tx_best_order_service_manager t) (tx_best_order_service_manager t) = Some ptr"
    and "\<not> ws_is_stopped (sm_cells (tx_best_order_service_manager t) ! ptr)"
    and "fst (lb_get_order_semaphore (ws_local_ip (sm_cells (tx_best_order_service_manager t) ! ptr)) 1 (tx_order_best_path_limiter t))
      = (True, True)"
  shows "\<exists>placed t'. scan_and_send_order resp now tconfig inst (se_order_shm_index env) v t
      = Inr (Some (Some ptr, placed), os_version_number old + 1, t')
    \<and> fo_symbol placed = inst \<and> fo_side placed = os_side order \<and> fo_price placed = os_price order
    \<and> fo_quantity placed = os_volume order \<and> fo_type placed = os_type order \<and> fo_timeInForce placed = os_time_in_force order
    \<and> (fo_reduceOnly placed = ''true'' \<longleftrightarrow> os_reduce_only order = 1)"
proof -
  let ?o = "order\<lparr>os_version_number := os_version_number old + 1\<rparr>"
  have read: "order_shm_reader_get (tx_order_start t) (se_order_shm_index env) = Inr ?o"
    using strategy_order_in_slot [OF assms(1-3)] assms(4) by simp
  have new: "\<not> os_version_number ?o \<le>s v" using assms(5) by (simp add: word_sless_alt word_sle_eq)
  have valid: "\<not> os_update_time ?o + tcfg_order_validity_micros tconfig < now" using assms(6) by simp
  obtain t' where "place_best_path inst (new_order_of resp now inst ?o) t = (Some (Some ptr, new_order_of resp now inst ?o), t')"
    using assms(10-12) by (auto simp: place_best_path_def Let_def case_prod_beta)
  then have "scan_and_send_order resp now tconfig inst (se_order_shm_index env) v t
      = Inr (Some (Some ptr, new_order_of resp now inst ?o), os_version_number ?o, t')"
    using read new valid assms(7-9) by (simp add: scan_and_send_order_def)
  then show ?thesis by (auto simp: new_order_of_def)
qed

lemma sample_order_newer: "order_newer zero_order (sample_buy 120)"
  by (simp add: order_newer_def zero_order_def sample_buy_def word_sless_alt)

theorem strategy_order_reaches_exchange_witness:
  "\<exists>placed t'. scan_and_send_order ''RESULT'' 120500 sample_trader_config ''BTCUSDC'' 0 0
      (sample_trader_context (sample_buy 120\<lparr>os_version_number := 1\<rparr>)) = Inr (Some (Some 0, placed), 1, t')
    \<and> fo_price placed = Fin 12"
proof -
  let ?t = "sample_trader_context (sample_buy 120\<lparr>os_version_number := 1\<rparr>)"
  have t: "tx_order_start ?t = order_start (ax_shm_store_info (sample_after False 120 1))"
      "tx_best_order_service_manager ?t = sample_manager" "tx_order_best_path_limiter ?t = sample_limiter_boss"
      "tx_order_interval_boss ?t = sample_interval_boss"
    by (simp_all add: sample_trader_context_def sample_after_def)
  have s: "strategy_step sample_api (sample_clock 120) False sample_actuary_config sample_env sample_state (sample_actuary_context 1)
      = Inr (Some (sample_buy 120), sample_state_after 120 1, sample_after False 120 1)"
    using sample_step1 [of False] by simp
  have o: "seg_get (order_start (ax_shm_store_info (sample_actuary_context 1))) (se_order_shm_index sample_env) = Inr zero_order"
    by (simp add: sample_actuary_context_def sample_env_def seg_get_def)
  have e: "se_order_shm_index sample_env = 0" "os_version_number zero_order + 1 = 1" "0 <s (1 :: i64)"
      "os_update_time (sample_buy 120) = 120000" "os_price (sample_buy 120) = Fin 12"
    by (simp_all add: sample_env_def zero_order_def word_sless_alt sample_buy_def)
  have f: "tcfg_open_place_order sample_trader_config" "tcfg_trading_use_best_path sample_trader_config"
      "tcfg_order_validity_micros sample_trader_config = 1000" by (simp_all add: sample_trader_config_def)
  from strategy_order_reaches_exchange [OF s o sample_order_newer t(1), of 0 120500 sample_trader_config "''BTCUSDC''" 0 "''RESULT''"]
  show ?thesis by (auto simp: t e f sample_find sample_ready)
qed

definition fresh_actuary_context :: ActuaryContext where
  "fresh_actuary_context = sample_actuary_context 1"

definition fresh_trader_context :: TraderContext where
  "fresh_trader_context = (sample_trader_context zero_order)\<lparr>tx_all_follower_inst_ids := [], tx_shm_order_mapping := []\<rparr>"


end
